(* ===== verification/Prelude.thy ===== *)
theory Prelude
  imports Main "HOL-Library.Word" "HOL-Library.Monad_Syntax"
begin

text \<open>
  Shared vocabulary of the development: the machine integer types of the Rust sources, the
  result monad that models \<open>Result<T, E>\<close>, checked arithmetic, population count, and the
  generic facts on them that the component theories use as simplification rules.
\<close>

unbundle bit_operations_syntax

named_theorems result_simps \<open>success conditions of the result combinators and guards\<close>

section \<open>Machine integers and fixed-width byte arrays\<close>

type_synonym byte = "8 word"
type_synonym u16 = "16 word"
type_synonym u32 = "32 word"
type_synonym u64 = "64 word"

text \<open>A \<open>[u8; 32]\<close> value (public key or digest) is one 256-bit word, so that its width is part
  of its type; \<open>Borsh.le_bytes\<close> gives the 32 bytes in order.  \<open>Pubkey::default()\<close> and
  \<open>[0; 32]\<close> are both \<open>0\<close>.\<close>

type_synonym pubkey = "256 word"
type_synonym hash32 = "256 word"

section \<open>Results\<close>

text \<open>\<open>Result<T, E>\<close> is \<open>'e + 'a\<close>, with \<open>Inl\<close> for \<open>Err\<close>; \<open>bnd\<close> is the \<open>?\<close> operator.\<close>

fun bnd :: "'e + 'a \<Rightarrow> ('a \<Rightarrow> 'e + 'b) \<Rightarrow> 'e + 'b" where
  "bnd (Inl e) f = Inl e"
| "bnd (Inr x) f = f x"

text \<open>A run of statements \<open>check?;\<close> : the first error wins.\<close>

fun checks :: "('e + unit) list \<Rightarrow> 'e + unit" where
  "checks [] = Inr ()"
| "checks (c # cs) = bnd c (\<lambda>_. checks cs)"

definition map_err :: "('e \<Rightarrow> 'f) \<Rightarrow> 'e + 'a \<Rightarrow> 'f + 'a" where
  "map_err f r = (case r of Inl e \<Rightarrow> Inl (f e) | Inr x \<Rightarrow> Inr x)"

definition ok_or :: "'a option \<Rightarrow> 'e \<Rightarrow> 'e + 'a" where
  "ok_or m e = (case m of None \<Rightarrow> Inl e | Some x \<Rightarrow> Inr x)"

fun is_ok :: "'e + 'a \<Rightarrow> bool" where
  "is_ok (Inl _) = False"
| "is_ok (Inr _) = True"

lemma bnd_Inr_iff [result_simps]: "bnd m f = Inr y \<longleftrightarrow> (\<exists>x. m = Inr x \<and> f x = Inr y)"
  by (cases m) auto

lemma bnd_Inl_iff: "bnd m f = Inl e \<longleftrightarrow> m = Inl e \<or> (\<exists>x. m = Inr x \<and> f x = Inl e)"
  by (cases m) auto

lemma is_ok_iff: "is_ok r \<longleftrightarrow> (\<exists>x. r = Inr x)"
  by (cases r) auto

lemma checks_Inr_iff [result_simps]: "checks cs = Inr u \<longleftrightarrow> (\<forall>c \<in> set cs. c = Inr ())"
  by (induction cs) (auto simp: result_simps)

lemma map_err_Inr_iff [result_simps]: "map_err f r = Inr x \<longleftrightarrow> r = Inr x"
  by (auto simp: map_err_def split: sum.splits)

lemma map_err_simps [simp]: "map_err f (Inr x) = Inr x" "map_err f (Inl e) = Inl (f e)"
  by (simp_all add: map_err_def)

lemma ok_or_Inr_iff [result_simps]: "ok_or m e = Inr x \<longleftrightarrow> m = Some x"
  by (auto simp: ok_or_def split: option.splits)

lemma ok_or_simps [simp]: "ok_or None e = Inl e" "ok_or (Some x) e = Inr x"
  by (simp_all add: ok_or_def)

lemma bnd_assoc: "bnd (bnd m f) g = bnd m (\<lambda>x. bnd (f x) g)"
  by (cases m) auto

lemma bnd_Inr_right [simp]: "bnd m Inr = m"
  by (cases m) auto

lemma bnd_if: "bnd (if c then a else b) f = (if c then bnd a f else bnd b f)"
  by simp

text \<open>Inverting one \<open>?\<close> step of a run that returned \<open>Ok\<close>.\<close>

lemma bnd_okE:
  assumes "bnd m f = Inr y"
  obtains x where "m = Inr x" "f x = Inr y"
  using assms by (auto simp: result_simps)

section \<open>Checked and saturating arithmetic on unsigned words\<close>

definition checked_add :: "'a::len word \<Rightarrow> 'a word \<Rightarrow> 'a word option" where
  "checked_add a b = (if unat a + unat b < 2 ^ LENGTH('a) then Some (a + b) else None)"

definition checked_sub :: "'a::len word \<Rightarrow> 'a word \<Rightarrow> 'a word option" where
  "checked_sub a b = (if b \<le> a then Some (a - b) else None)"

definition saturating_sub :: "'a::len word \<Rightarrow> 'a word \<Rightarrow> 'a word" where
  "saturating_sub a b = (if b \<le> a then a - b else 0)"

text \<open>\<open>usize\<close> values are naturals; the checked operations are bounded by the 64-bit word.\<close>

definition checked_usize :: "nat \<Rightarrow> nat option" where
  "checked_usize n = (if n < 2 ^ 64 then Some n else None)"

lemma checked_usize_Some_iff [result_simps]: "checked_usize n = Some m \<longleftrightarrow> m = n \<and> n < 2 ^ 64"
  by (auto simp: checked_usize_def)

lemma checked_add_Some_iff [result_simps]:
  "checked_add a b = Some c \<longleftrightarrow> unat c = unat a + unat b"
proof
  assume "checked_add a b = Some c"
  then show "unat c = unat a + unat b"
    by (auto simp: checked_add_def unat_word_ariths split: if_splits)
next
  assume eq: "unat c = unat a + unat b"
  then have bound: "unat a + unat b < 2 ^ LENGTH('a)"
    by (metis unsigned_less)
  have "c = a + b"
    by (rule word_unat_eq_iff [THEN iffD2]) (use eq bound in \<open>simp add: unat_word_ariths\<close>)
  with bound show "checked_add a b = Some c"
    by (simp add: checked_add_def)
qed

lemma checked_add_None_iff: "checked_add (a :: 'a::len word) b = None \<longleftrightarrow> 2 ^ LENGTH('a) \<le> unat a + unat b"
  by (auto simp: checked_add_def)

lemma checked_sub_Some_iff [result_simps]: "checked_sub a b = Some c \<longleftrightarrow> b \<le> a \<and> c = a - b"
  by (auto simp: checked_sub_def)

lemma unat_saturating_sub: "unat (saturating_sub a b) = unat a - unat b"
proof (cases "b \<le> a")
  case True
  then show ?thesis by (simp add: saturating_sub_def unat_sub)
next
  case False
  then have "unat a \<le> unat b" by (simp add: word_le_nat_alt)
  with False show ?thesis by (simp add: saturating_sub_def)
qed

section \<open>Population count\<close>

text \<open>\<open>count_ones\<close> of the Rust integer types, as a natural number.\<close>

definition pop_count :: "'a::len word \<Rightarrow> nat" where
  "pop_count w = length (filter (bit w) [0..<LENGTH('a)])"

lemma pop_count_card: "pop_count (w :: 'a::len word) = card {i. i < LENGTH('a) \<and> bit w i}"
proof -
  have "distinct (filter (bit w) [0..<LENGTH('a)])" by simp
  then have "pop_count w = card (set (filter (bit w) [0..<LENGTH('a)]))"
    by (simp only: pop_count_def distinct_card)
  also have "set (filter (bit w) [0..<LENGTH('a)]) = {i. i < LENGTH('a) \<and> bit w i}"
    by auto
  finally show ?thesis .
qed

lemma pop_count_0 [simp]: "pop_count 0 = 0"
  by (simp add: pop_count_card)

lemma pop_count_le: "pop_count (w :: 'a::len word) \<le> LENGTH('a)"
  unfolding pop_count_def by (metis length_filter_le length_upt minus_nat.diff_0)

text \<open>\<open>1 << i\<close> at the width of the word it is combined with.\<close>

definition shl1 :: "nat \<Rightarrow> 'a::len word" where
  "shl1 i = push_bit i 1"

lemma and_shl1_iff: "(w :: 'a::len word) AND shl1 i = 0 \<longleftrightarrow> \<not> bit w i"
  unfolding shl1_def by (simp only: bit_iff_and_push_bit_not_eq_0 not_not)

lemma bit_or_shl1:
  "i < LENGTH('a) \<Longrightarrow> bit ((w :: 'a::len word) OR shl1 i) k \<longleftrightarrow> bit w k \<or> k = i"
  by (auto simp: shl1_def bit_simps)

lemma pop_count_set_bit:
  assumes "i < LENGTH('a)" and "\<not> bit (w :: 'a::len word) i"
  shows "pop_count (w OR shl1 i) = Suc (pop_count w)"
proof -
  have "{k. k < LENGTH('a) \<and> bit (w OR shl1 i) k} = insert i {k. k < LENGTH('a) \<and> bit w k}"
    using assms(1) by (auto simp: bit_or_shl1)
  with assms(2) show ?thesis by (simp add: pop_count_card)
qed

section \<open>Bits of a five-seat bitmap\<close>

lemma byte_less_32: "(b :: byte) < 32 \<longleftrightarrow> (\<forall>i. bit b i \<longrightarrow> i < 5)"
proof -
  have "b < 32 \<longleftrightarrow> take_bit 5 b = b"
  proof -
    have "b < 32 \<longleftrightarrow> take_bit 5 (unat b) = unat b"
      by (simp add: take_bit_nat_eq_self_iff word_less_nat_alt)
    also have "\<dots> \<longleftrightarrow> take_bit 5 b = b"
      by (simp add: word_unat_eq_iff unsigned_take_bit_eq)
    finally show ?thesis .
  qed
  also have "\<dots> \<longleftrightarrow> (\<forall>i. bit b i \<longrightarrow> i < 5)"
    by (metis bit_eqI bit_take_bit_iff)
  finally show ?thesis .
qed

lemma pop_count_byte: "unat (of_nat (pop_count (b :: byte)) :: byte) = pop_count b"
  using pop_count_le [of b] by (simp add: unat_of_nat)

text \<open>The seats behind a bitmap.\<close>

definition voters :: "byte \<Rightarrow> nat set" where
  "voters b = {i. i < 8 \<and> bit b i}"

lemma card_voters: "card (voters b) = pop_count b"
  by (simp add: voters_def pop_count_card)

lemma finite_voters [simp]: "finite (voters b)"
  by (simp add: voters_def)

lemma voters_or: "i < 8 \<Longrightarrow> voters (b OR shl1 i) = insert i (voters b)"
  by (auto simp: voters_def bit_or_shl1)

lemma voters_less: "b < 32 \<Longrightarrow> voters b \<subseteq> {..<5}"
  by (auto simp: voters_def byte_less_32)

section \<open>Lists\<close>

text \<open>\<open>iter().position\<close>: the index of the first element with the property.\<close>

fun position :: "('a \<Rightarrow> bool) \<Rightarrow> 'a list \<Rightarrow> nat option" where
  "position P [] = None"
| "position P (x # xs) = (if P x then Some 0 else map_option Suc (position P xs))"

lemma position_Some: "position P xs = Some i \<Longrightarrow> i < length xs \<and> P (xs ! i) \<and> (\<forall>j<i. \<not> P (xs ! j))"
proof (induction xs arbitrary: i)
  case (Cons x xs)
  then show ?case by (auto split: if_splits simp: less_Suc_eq_0_disj)
qed simp

lemma position_None: "position P xs = None \<longleftrightarrow> (\<forall>x \<in> set xs. \<not> P x)"
  by (induction xs) auto

lemma position_distinct_nth:
  "distinct xs \<Longrightarrow> i < length xs \<Longrightarrow> position (\<lambda>x. x = xs ! i) xs = Some i"
proof (induction xs arbitrary: i)
  case (Cons x xs)
  then show ?case by (cases i) auto
qed simp


text \<open>\<open>map(f).collect::<Result<Vec<_>>>()\<close>: the first error wins.\<close>

fun try_map :: "('a \<Rightarrow> 'e + 'b) \<Rightarrow> 'a list \<Rightarrow> 'e + 'b list" where
  "try_map f [] = Inr []"
| "try_map f (x # xs) = bnd (f x) (\<lambda>y. bnd (try_map f xs) (\<lambda>ys. Inr (y # ys)))"

lemma try_map_ok: "(\<And>x. x \<in> set xs \<Longrightarrow> f x = Inr (g x)) \<Longrightarrow> try_map f xs = Inr (map g xs)"
  by (induction xs) auto

lemma try_map_cong: "(\<And>x. x \<in> set xs \<Longrightarrow> f x = f' x) \<Longrightarrow> try_map f xs = try_map f' xs"
  by (induction xs) auto

text \<open>\<open>&xs[a..b]\<close>, where the range is in bounds.\<close>

definition subslice :: "nat \<Rightarrow> nat \<Rightarrow> 'a list \<Rightarrow> 'a list" where
  "subslice a b xs = take (b - a) (drop a xs)"

lemma subslice_append: "length xs = a \<Longrightarrow> length ys = b - a \<Longrightarrow> subslice a b (xs @ ys @ zs) = ys"
  by (simp add: subslice_def)

text \<open>\<open>slice::chunks(n)\<close>.\<close>

function chunks :: "nat \<Rightarrow> 'a list \<Rightarrow> 'a list list" where
  "chunks n xs = (if n = 0 \<or> xs = [] then [] else take n xs # chunks n (drop n xs))"
  by pat_completeness auto
termination
  by (relation "measure (\<lambda>(n, xs). length xs)") auto

declare chunks.simps [simp del]

lemma chunks_Nil [simp]: "chunks n [] = []"
  by (simp add: chunks.simps)

definition div_ceil :: "nat \<Rightarrow> nat \<Rightarrow> nat" where
  "div_ceil a b = (a + (b - 1)) div b"

lemma div_ceil_step: "0 < n \<Longrightarrow> 0 < m \<Longrightarrow> div_ceil m n = Suc (div_ceil (m - n) n)"
  by (cases "m \<le> n") (auto simp: div_ceil_def div_if add.commute le_div_geq)

lemma div_ceil_le_iff: "0 < n \<Longrightarrow> div_ceil m n \<le> k \<longleftrightarrow> m \<le> k * n"
proof -
  assume n: "0 < n"
  have "div_ceil m n \<le> k \<longleftrightarrow> (m + (n - 1)) div n < Suc k"
    by (simp add: div_ceil_def less_Suc_eq_le)
  also have "\<dots> \<longleftrightarrow> m + (n - 1) < Suc k * n"
    using n by (rule div_less_iff_less_mult)
  also have "\<dots> \<longleftrightarrow> m \<le> k * n"
    using n by auto
  finally show ?thesis .
qed

lemma less_div_ceil_iff: "0 < n \<Longrightarrow> k < div_ceil m n \<longleftrightarrow> k * n < m"
  using div_ceil_le_iff [of n m k] by linarith

lemma div_ceil_pos: "0 < n \<Longrightarrow> 0 < m \<Longrightarrow> 0 < div_ceil m n"
  by (simp add: less_div_ceil_iff)

lemma length_chunks: "0 < n \<Longrightarrow> length (chunks n xs) = div_ceil (length xs) n"
proof (induction n xs rule: chunks.induct)
  case (1 n xs)
  then show ?case
    by (cases "xs = []")
      (simp_all add: chunks.simps [of n xs] div_ceil_step [of n "length xs"], simp_all add: div_ceil_def)
qed

lemma nth_chunks: "0 < n \<Longrightarrow> i < length (chunks n xs) \<Longrightarrow> chunks n xs ! i = take n (drop (i * n) xs)"
proof (induction n xs arbitrary: i rule: chunks.induct)
  case (1 n xs)
  show ?case
  proof (cases "xs = []")
    case True
    with "1.prems" show ?thesis by (simp add: chunks.simps)
  next
    case False
    with 1 show ?thesis
      by (cases i) (simp_all add: chunks.simps [of n xs] add.commute)
  qed
qed

lemma length_nth_chunks:
  "0 < n \<Longrightarrow> i < length (chunks n xs) \<Longrightarrow> length (chunks n xs ! i) = min n (length xs - i * n)"
  by (simp add: nth_chunks)

lemma concat_chunks: "0 < n \<Longrightarrow> concat (chunks n xs) = xs"
proof (induction n xs rule: chunks.induct)
  case (1 n xs)
  then show ?case by (cases "xs = []") (simp_all add: chunks.simps [of n xs])
qed

section \<open>Powers of two\<close>

text \<open>\<open>is_power_of_two\<close>, \<open>next_power_of_two\<close> and \<open>trailing_zeros\<close> of \<open>usize\<close>.\<close>

fun is_power_of_two :: "nat \<Rightarrow> bool" where
  "is_power_of_two n =
     (if n = 1 then True else if n = 0 \<or> odd n then False else is_power_of_two (n div 2))"

function next_power_from :: "nat \<Rightarrow> nat \<Rightarrow> nat" where
  "next_power_from p n = (if p = 0 \<or> n \<le> p then p else next_power_from (2 * p) n)"
  by pat_completeness auto
termination
  by (relation "measure (\<lambda>(p, n). n - p)") auto

definition next_power_of_two :: "nat \<Rightarrow> nat" where
  "next_power_of_two n = next_power_from 1 n"

fun trailing_zeros :: "nat \<Rightarrow> nat" where
  "trailing_zeros n = (if n = 0 then 64 else if odd n then 0 else Suc (trailing_zeros (n div 2)))"

declare is_power_of_two.simps [simp del] next_power_from.simps [simp del] trailing_zeros.simps [simp del]

lemma is_power_of_two_power [simp]: "is_power_of_two (2 ^ k)"
  by (induction k) (simp_all add: is_power_of_two.simps [of "Suc 0"] is_power_of_two.simps [of "2 * n" for n])

lemma is_power_of_two_iff: "is_power_of_two n \<longleftrightarrow> (\<exists>k. n = 2 ^ k)"
proof (induction n rule: is_power_of_two.induct)
  case (1 n)
  show ?case
  proof
    assume "is_power_of_two n"
    then consider "n = 1" | "0 < n" "even n" "is_power_of_two (n div 2)"
      by (auto simp: is_power_of_two.simps [of n] split: if_splits)
    then show "\<exists>k. n = 2 ^ k"
    proof cases
      case 1
      then show ?thesis by (intro exI [of _ 0]) simp
    next
      case 2
      with "1.IH" obtain k where "n div 2 = 2 ^ k" by (cases "n = 1") auto
      with 2(2) have "n = 2 ^ Suc k" by auto
      then show ?thesis by blast
    qed
  qed auto
qed

lemma trailing_zeros_power [simp]: "trailing_zeros (2 ^ k) = k"
  by (induction k) (simp_all add: trailing_zeros.simps [of "Suc 0"] trailing_zeros.simps [of "2 * n" for n])

lemma next_power_from_power: "\<exists>k. next_power_from (2 ^ j) n = 2 ^ k"
proof (induction "2 ^ j :: nat" n arbitrary: j rule: next_power_from.induct)
  case (1 n)
  show ?case
  proof (cases "n \<le> 2 ^ j")
    case True
    then show ?thesis by (auto simp: next_power_from.simps [of "2 ^ j" n])
  next
    case False
    with "1.hyps" [of "Suc j"] show ?thesis by (simp add: next_power_from.simps [of "2 ^ j" n])
  qed
qed

lemma next_power_from_ge: "0 < p \<Longrightarrow> n \<le> next_power_from p n"
proof (induction p n rule: next_power_from.induct)
  case (1 p n)
  then show ?case by (cases "n \<le> p") (simp_all add: next_power_from.simps [of p n])
qed

lemma next_power_from_le_power:
  "j \<le> k \<Longrightarrow> n \<le> 2 ^ k \<Longrightarrow> next_power_from (2 ^ j) n \<le> 2 ^ k"
proof (induction "2 ^ j :: nat" n arbitrary: j rule: next_power_from.induct)
  case (1 n)
  show ?case
  proof (cases "n \<le> 2 ^ j")
    case True
    with 1 show ?thesis by (simp add: next_power_from.simps [of "2 ^ j" n])
  next
    case False
    with "1.prems" have "j < k" by (metis le_antisym linorder_not_less not_less_iff_gr_or_eq)
    with False "1.hyps" [of "Suc j"] "1.prems" show ?thesis
      by (simp add: next_power_from.simps [of "2 ^ j" n])
  qed
qed

lemma next_power_of_two_power: "\<exists>k. next_power_of_two n = 2 ^ k"
  using next_power_from_power [of 0 n] by (simp add: next_power_of_two_def)

lemma next_power_of_two_ge: "n \<le> next_power_of_two n"
  by (simp add: next_power_of_two_def next_power_from_ge)

lemma next_power_of_two_le: "n \<le> 2 ^ k \<Longrightarrow> next_power_of_two n \<le> 2 ^ k"
  using next_power_from_le_power [of 0 k n] by (simp add: next_power_of_two_def)

end
