(* ===== verification/Borsh.thy ===== *)
theory Borsh
  imports Prelude
begin

text \<open>
  The byte layout of the accounts and instructions.  The sources obtain it from
  \<open>#[derive(BorshSerialize, BorshDeserialize)]\<close>: the fields of a struct in declaration order,
  integers little-endian at their width, \<open>bool\<close> as one byte that must be 0 or 1, fixed arrays
  as their elements without a length, and \<open>try_from_slice\<close> refusing trailing bytes.  The
  primitive encodings are here, the struct layouts beside their records in the component theories.
  The locale \<open>borsh_codec\<close> is the contract of a pair of encoder and decoder.
\<close>

section \<open>Little-endian integers\<close>

fun le_bytes :: "nat \<Rightarrow> 'a::len word \<Rightarrow> byte list" where
  "le_bytes 0 w = []"
| "le_bytes (Suc n) w = ucast w # le_bytes n (drop_bit 8 w)"

fun le_word :: "byte list \<Rightarrow> 'a::len word" where
  "le_word [] = 0"
| "le_word (b # bs) = ucast b OR push_bit 8 (le_word bs)"

lemma length_le_bytes [simp]: "length (le_bytes n w) = n"
  by (induction n arbitrary: w) auto

lemma nth_le_bytes: "i < n \<Longrightarrow> le_bytes n w ! i = ucast (drop_bit (8 * i) w)"
proof (induction n arbitrary: w i)
  case (Suc n)
  then show ?case
    by (cases i) (auto simp: algebra_simps)
qed simp

lemma bit_le_word:
  "bit (le_word bs :: 'a::len word) k \<longleftrightarrow>
     k < LENGTH('a) \<and> k div 8 < length bs \<and> bit (bs ! (k div 8)) (k mod 8)"
proof (induction bs arbitrary: k)
  case (Cons b bs)
  show ?case
  proof (cases "k < 8")
    case True
    then show ?thesis by (auto simp: bit_simps)
  next
    case False
    then have "k div 8 = Suc ((k - 8) div 8)" "k mod 8 = (k - 8) mod 8"
      by (simp_all add: le_div_geq le_mod_geq)
    with False show ?thesis
      by (auto simp: bit_simps Cons.IH dest: bit_imp_le_length)
  qed
qed simp

lemma le_word_le_bytes [simp]:
  assumes "LENGTH('a) \<le> 8 * n"
  shows "le_word (le_bytes n w) = (w :: 'a::len word)"
proof (rule bit_word_eqI)
  fix k assume k: "k < LENGTH('a)"
  then have "k div 8 < n" using assms by auto
  with k show "bit (le_word (le_bytes n w) :: 'a word) k \<longleftrightarrow> bit w k"
    by (simp add: bit_le_word nth_le_bytes bit_simps)
qed

lemma le_bytes_le_word:
  assumes "8 * length bs \<le> LENGTH('a)"
  shows "le_bytes (length bs) (le_word bs :: 'a::len word) = bs"
proof (rule nth_equalityI)
  fix i assume "i < length (le_bytes (length bs) (le_word bs :: 'a word))"
  then have i: "i < length bs" by simp
  show "le_bytes (length bs) (le_word bs :: 'a word) ! i = bs ! i"
  proof (rule bit_word_eqI)
    fix k assume "k < LENGTH(8)"
    then have k: "k < 8" by simp
    with i assms have "8 * i + k < LENGTH('a)" by linarith
    with i k show "bit (le_bytes (length bs) (le_word bs :: 'a word) ! i) k \<longleftrightarrow> bit (bs ! i) k"
      by (simp add: nth_le_bytes bit_simps bit_le_word)
  qed
qed simp

declare le_bytes.simps [simp del] le_word.simps [simp del]

lemma wr_u8_single: "le_bytes (Suc 0) (v :: byte) = [v]"
  by (simp add: le_bytes.simps)

lemma le_word_single [simp]: "le_word [b] = (b :: byte)"
  by (simp add: le_word.simps)

section \<open>Readers\<close>

type_synonym 'a reader = "byte list \<Rightarrow> ('a \<times> byte list) option"

definition rd_word :: "nat \<Rightarrow> 'a::len word reader" where
  "rd_word n bs = (if length bs < n then None else Some (le_word (take n bs), drop n bs))"

definition rd_bytes :: "nat \<Rightarrow> byte list reader" where
  "rd_bytes n bs = (if length bs < n then None else Some (take n bs, drop n bs))"

abbreviation rd_u8 :: "byte reader" where "rd_u8 \<equiv> rd_word 1"
abbreviation rd_u16 :: "u16 reader" where "rd_u16 \<equiv> rd_word 2"
abbreviation rd_u32 :: "u32 reader" where "rd_u32 \<equiv> rd_word 4"
abbreviation rd_u64 :: "u64 reader" where "rd_u64 \<equiv> rd_word 8"
abbreviation rd_32 :: "256 word reader" where "rd_32 \<equiv> rd_word 32"

abbreviation wr_u8 :: "byte \<Rightarrow> byte list" where "wr_u8 \<equiv> le_bytes 1"
abbreviation wr_u16 :: "u16 \<Rightarrow> byte list" where "wr_u16 \<equiv> le_bytes 2"
abbreviation wr_u32 :: "u32 \<Rightarrow> byte list" where "wr_u32 \<equiv> le_bytes 4"
abbreviation wr_u64 :: "u64 \<Rightarrow> byte list" where "wr_u64 \<equiv> le_bytes 8"
abbreviation wr_32 :: "256 word \<Rightarrow> byte list" where "wr_32 \<equiv> le_bytes 32"

definition wr_bool :: "bool \<Rightarrow> byte list" where
  "wr_bool b = [if b then 1 else 0]"

definition rd_bool :: "bool reader" where
  "rd_bool bs = (case bs of [] \<Rightarrow> None
     | b # r \<Rightarrow> if b = 0 then Some (False, r) else if b = 1 then Some (True, r) else None)"

fun rd_array :: "nat \<Rightarrow> 'a reader \<Rightarrow> 'a list reader" where
  "rd_array 0 rd bs = Some ([], bs)"
| "rd_array (Suc n) rd bs = do { (x, bs) \<leftarrow> rd bs; (xs, bs) \<leftarrow> rd_array n rd bs; Some (x # xs, bs) }"

definition try_from_slice :: "'a reader \<Rightarrow> byte list \<Rightarrow> 'a option" where
  "try_from_slice rd bs = (case rd bs of Some (x, []) \<Rightarrow> Some x | _ \<Rightarrow> None)"

section \<open>The codec contract\<close>

locale borsh_codec =
  fixes ser :: "'a \<Rightarrow> byte list" and de :: "'a reader" and wf :: "'a \<Rightarrow> bool" and size :: nat
  assumes de_ser: "wf x \<Longrightarrow> de (ser x @ r) = Some (x, r)"
    and ser_size: "wf x \<Longrightarrow> length (ser x) = size"
    and ser_de: "de bs = Some (x, r) \<Longrightarrow> bs = ser x @ r"
    and de_wf: "de bs = Some (x, r) \<Longrightarrow> wf x"
begin

lemma decode_encode: "wf x \<Longrightarrow> try_from_slice de (ser x) = Some x"
  using de_ser [of x "[]"] by (simp add: try_from_slice_def)

lemma decode_Some_iff: "try_from_slice de bs = Some x \<longleftrightarrow> wf x \<and> bs = ser x"
proof
  assume "try_from_slice de bs = Some x"
  then have "de bs = Some (x, [])"
    by (auto simp: try_from_slice_def split: option.splits list.splits)
  then show "wf x \<and> bs = ser x" using ser_de de_wf by fastforce
qed (auto simp: decode_encode)

lemma decode_size: "try_from_slice de bs = Some x \<Longrightarrow> length bs = size"
  by (auto simp: decode_Some_iff ser_size)

lemma encode_inject: "wf x \<Longrightarrow> wf y \<Longrightarrow> ser x = ser y \<longleftrightarrow> x = y"
  by (metis decode_encode option.inject)

lemma rd_array_ser: "\<forall>x \<in> set xs. wf x \<Longrightarrow> rd_array (length xs) de (concat (map ser xs) @ r) = Some (xs, r)"
  by (induction xs) (auto simp: de_ser)

lemma array_size: "\<forall>x \<in> set xs. wf x \<Longrightarrow> length (concat (map ser xs)) = size * length xs"
  by (induction xs) (auto simp: ser_size)

lemma ser_rd_array:
  "rd_array n de bs = Some (xs, r) \<Longrightarrow> bs = concat (map ser xs) @ r \<and> length xs = n \<and> (\<forall>x \<in> set xs. wf x)"
proof (induction n arbitrary: bs xs)
  case (Suc n)
  from Suc.prems obtain x bs' xs' where step: "de bs = Some (x, bs')" "rd_array n de bs' = Some (xs', r)"
    and xs: "xs = x # xs'"
    by (auto simp: bind_eq_Some_conv)
  from Suc.IH [OF step(2)] ser_de [OF step(1)] de_wf [OF step(1)] show ?case
    by (simp add: xs)
qed simp

end

section \<open>The primitives meet the contract\<close>

lemma rd_word_le_bytes [simp]:
  "LENGTH('a) \<le> 8 * n \<Longrightarrow> rd_word n (le_bytes n (w :: 'a::len word) @ r) = Some (w, r)"
  by (simp add: rd_word_def)

lemma rd_word_SomeD:
  "rd_word n bs = Some (w :: 'a::len word, r) \<Longrightarrow> 8 * n \<le> LENGTH('a) \<Longrightarrow> bs = le_bytes n w @ r"
  using le_bytes_le_word [of "take n bs", where 'a = 'a]
  by (auto simp: rd_word_def min_absorb2 split: if_splits)

lemma rd_bytes_append [simp]: "length a = n \<Longrightarrow> rd_bytes n (a @ r) = Some (a, r)"
  by (auto simp: rd_bytes_def)

lemma rd_bytes_SomeD: "rd_bytes n bs = Some (a, r) \<Longrightarrow> bs = a @ r \<and> length a = n"
  by (auto simp: rd_bytes_def split: if_splits)

lemma rd_bool_wr_bool [simp]: "rd_bool (wr_bool b @ r) = Some (b, r)"
  by (simp add: rd_bool_def wr_bool_def)

lemma length_wr_bool [simp]: "length (wr_bool b) = 1"
  by (simp add: wr_bool_def)

lemma rd_bool_SomeD: "rd_bool bs = Some (b, r) \<Longrightarrow> bs = wr_bool b @ r"
  by (auto simp: rd_bool_def wr_bool_def split: list.splits if_splits)

interpretation u8_codec: borsh_codec wr_u8 rd_u8 "\<lambda>_. True" 1
  by unfold_locales (auto dest: rd_word_SomeD)

interpretation u16_codec: borsh_codec wr_u16 rd_u16 "\<lambda>_. True" 2
  by unfold_locales (auto dest: rd_word_SomeD)

interpretation u32_codec: borsh_codec wr_u32 rd_u32 "\<lambda>_. True" 4
  by unfold_locales (auto dest: rd_word_SomeD)

interpretation u64_codec: borsh_codec wr_u64 rd_u64 "\<lambda>_. True" 8
  by unfold_locales (auto dest: rd_word_SomeD)

interpretation key_codec: borsh_codec wr_32 rd_32 "\<lambda>_. True" 32
  by unfold_locales (auto dest: rd_word_SomeD)

interpretation bool_codec: borsh_codec wr_bool rd_bool "\<lambda>_. True" 1
  by unfold_locales (auto dest: rd_bool_SomeD)

text \<open>Reading back, as destruction rules: what a decoder consumed is what the encoder writes.\<close>

lemmas borsh_readD = u8_codec.ser_de u8_codec.ser_de [unfolded One_nat_def] u16_codec.ser_de u32_codec.ser_de u64_codec.ser_de
  key_codec.ser_de rd_bool_SomeD rd_bytes_SomeD

lemmas borsh_keys = key_codec.rd_array_ser key_codec.array_size

end
