(* ===== verification/Runtime.thy ===== *)
theory Runtime
  imports Borsh
begin

text \<open>
  The Solana runtime as the controller sees it: error values, accounts, the ledger they point
  into, and the calls that leave the program.  Everything that is not code of the repository is a
  field of \<open>env\<close>: SHA-256, program-derived addresses, rent, the clock, the instructions
  sysvar, cross-program invocation, and the well-known program ids.  The model never looks inside
  these functions; a theorem that relies on documented behaviour of one of them names it as a
  hypothesis.
\<close>

section \<open>Errors\<close>

text \<open>\<open>GovernanceError\<close> of \<open>upgrade_controller/src/error.rs\<close>, whose discriminants are the
  custom program error codes.  \<open>DuplicateApproval\<close> carries a suffix because the V3 error type
  has a constructor of the same name.\<close>

datatype governance_error =
  InvalidDiscriminator | UnsupportedVersion | Uninitialized | NonzeroReserved | DefaultPubkey
| InvalidOptionalPubkey | InvalidCouncilComposition | DuplicateSeatAuthority
| MissingSeatAuthoritySignature | WritableSeatAuthority | InactiveCouncilSeat
| InvalidCouncilActivation | InvalidCouncilThreshold | CouncilHashMismatch | InvalidPolicy
| PolicyHashMismatch | StaleCouncilVersion | ProposalCouncilHashMismatch | InvalidApprovalBitset
| ApprovalCountMismatch | UnknownSeatAuthority | DuplicateApproval_gov | QuorumNotSatisfied
| ExecutableSeatAuthority | InvalidStateTransition | InvalidProposalTiming | InvalidProposalEpoch
| InvalidCapacityPlan | InvalidProposalCommitment | ProposalDigestMismatch | ArithmeticOverflow
| InvalidControllerConfig | InvalidGateState | UnsupportedProposalClass | InvalidAccountCount
| InvalidAccountPrivileges | IncorrectAccountOwner | InvalidAccountSize | InvalidPda
| CrossAccountMismatch | InactivePolicy | InvalidRelease1Account | InvalidRelease1Bitmap
| InvalidMerkleParameters | InvalidMerkleProof | Release1DigestMismatch
| InvalidProgramDataObservation | StaleProgramDataObservation | IncompleteProgramDataObservation
| CapacityPolicyMismatch | ControllerNotImmutable | InvalidAuthorityTransition
| CeremonyAlreadyFinalized

definition governance_errors :: "governance_error list" where
  "governance_errors =
    [InvalidDiscriminator, UnsupportedVersion, Uninitialized, NonzeroReserved, DefaultPubkey,
     InvalidOptionalPubkey, InvalidCouncilComposition, DuplicateSeatAuthority,
     MissingSeatAuthoritySignature, WritableSeatAuthority, InactiveCouncilSeat,
     InvalidCouncilActivation, InvalidCouncilThreshold, CouncilHashMismatch, InvalidPolicy,
     PolicyHashMismatch, StaleCouncilVersion, ProposalCouncilHashMismatch, InvalidApprovalBitset,
     ApprovalCountMismatch, UnknownSeatAuthority, DuplicateApproval_gov, QuorumNotSatisfied,
     ExecutableSeatAuthority, InvalidStateTransition, InvalidProposalTiming, InvalidProposalEpoch,
     InvalidCapacityPlan, InvalidProposalCommitment, ProposalDigestMismatch, ArithmeticOverflow,
     InvalidControllerConfig, InvalidGateState, UnsupportedProposalClass, InvalidAccountCount,
     InvalidAccountPrivileges, IncorrectAccountOwner, InvalidAccountSize, InvalidPda,
     CrossAccountMismatch, InactivePolicy, InvalidRelease1Account, InvalidRelease1Bitmap,
     InvalidMerkleParameters, InvalidMerkleProof, Release1DigestMismatch,
     InvalidProgramDataObservation, StaleProgramDataObservation, IncompleteProgramDataObservation,
     CapacityPolicyMismatch, ControllerNotImmutable, InvalidAuthorityTransition,
     CeremonyAlreadyFinalized]"

text \<open>The discriminants run from 10000 in declaration order.\<close>

definition governance_error_code :: "governance_error \<Rightarrow> u32" where
  "governance_error_code e = 10000 + of_nat (the (position (\<lambda>x. x = e) governance_errors))"

text \<open>\<open>ProgramError\<close>: the variants the sources construct.  \<open>Foreign\<close> stands for an error an
  external call returns, \<open>Panicked\<close> for a Rust panic (an index or a slice out of range, a copy between slices of
  different lengths), which aborts the transaction.\<close>

datatype program_error =
  Custom u32 | InvalidInstructionData | InvalidAccountData | NotEnoughAccountKeys
| Foreign u32 | Panicked

text \<open>\<open>xs[i]\<close>, \<open>xs[i] = v\<close> and \<open>xs[a..b]\<close>: the bounds check of the language.\<close>

definition checked_nth :: "'a list \<Rightarrow> nat \<Rightarrow> program_error + 'a" where
  "checked_nth xs i = (if i < length xs then Inr (xs ! i) else Inl Panicked)"

definition checked_put :: "'a list \<Rightarrow> nat \<Rightarrow> 'a \<Rightarrow> program_error + 'a list" where
  "checked_put xs i v = (if i < length xs then Inr (xs[i := v]) else Inl Panicked)"

definition checked_slice :: "nat \<Rightarrow> nat \<Rightarrow> 'a list \<Rightarrow> program_error + 'a list" where
  "checked_slice a b xs = (if a \<le> b \<and> b \<le> length xs then Inr (subslice a b xs) else Inl Panicked)"

lemma checked_in_range [simp]:
  "i < length xs \<Longrightarrow> checked_nth xs i = Inr (xs ! i)"
  "i < length xs \<Longrightarrow> checked_put xs i v = Inr (xs[i := v])"
  by (simp_all add: checked_nth_def checked_put_def)

lemma checked_Inr_iff [result_simps]:
  "checked_nth xs i = Inr x \<longleftrightarrow> i < length xs \<and> x = xs ! i"
  "checked_put xs i v = Inr ys \<longleftrightarrow> i < length xs \<and> ys = xs[i := v]"
  "checked_slice a b xs = Inr ys \<longleftrightarrow> a \<le> b \<and> b \<le> length xs \<and> ys = subslice a b xs"
  by (auto simp: checked_nth_def checked_put_def checked_slice_def)

definition gov :: "governance_error \<Rightarrow> program_error" where
  "gov e = Custom (governance_error_code e)"

section \<open>Accounts and the ledger\<close>

text \<open>The shared, mutable part of an account.\<close>

record account =
  lamports :: u64
  acc_data :: "byte list"
  owner :: pubkey

type_synonym ledger = "pubkey \<Rightarrow> account"

text \<open>The part of an \<open>AccountInfo\<close> fixed for the whole instruction.\<close>

record account_info =
  ai_key :: pubkey
  is_signer :: bool
  is_writable :: bool
  executable :: bool

abbreviation lamports_of :: "ledger \<Rightarrow> account_info \<Rightarrow> u64" where
  "lamports_of L i \<equiv> lamports (L (ai_key i))"
abbreviation data_of :: "ledger \<Rightarrow> account_info \<Rightarrow> byte list" where
  "data_of L i \<equiv> acc_data (L (ai_key i))"
abbreviation owner_of :: "ledger \<Rightarrow> account_info \<Rightarrow> pubkey" where
  "owner_of L i \<equiv> owner (L (ai_key i))"

text \<open>Direct writes through \<open>try_borrow_mut_lamports\<close>, \<open>try_borrow_mut_data\<close> and
  \<open>assign\<close>.\<close>

definition set_lamports :: "account_info \<Rightarrow> u64 \<Rightarrow> ledger \<Rightarrow> ledger" where
  "set_lamports i v L = L(ai_key i := (L (ai_key i))\<lparr>lamports := v\<rparr>)"
definition set_data :: "account_info \<Rightarrow> byte list \<Rightarrow> ledger \<Rightarrow> ledger" where
  "set_data i v L = L(ai_key i := (L (ai_key i))\<lparr>acc_data := v\<rparr>)"
definition set_owner :: "account_info \<Rightarrow> pubkey \<Rightarrow> ledger \<Rightarrow> ledger" where
  "set_owner i v L = L(ai_key i := (L (ai_key i))\<lparr>owner := v\<rparr>)"

section \<open>Cross-program invocation\<close>

record account_meta =
  am_pubkey :: pubkey
  am_signer :: bool
  am_writable :: bool

record instruction =
  ix_program :: pubkey
  ix_accounts :: "account_meta list"
  ix_data :: "byte list"

text \<open>The instructions the sources send to other programs.  The builders of the Loader and System
  instructions belong to external crates, so a call of one is kept as a constructor with the
  arguments of the call; the two hand-built instructions are \<open>Raw\<close>.\<close>

datatype cpi =
  SetBufferAuthorityChecked pubkey pubkey pubkey      \<comment> \<open>buffer, current, new authority\<close>
| SetUpgradeAuthorityChecked pubkey pubkey pubkey     \<comment> \<open>program, current, new authority\<close>
| LoaderUpgrade pubkey pubkey pubkey pubkey           \<comment> \<open>program, buffer, authority, spill\<close>
| LoaderClose pubkey pubkey pubkey                    \<comment> \<open>closed account, recipient, authority\<close>
| LoaderCloseAny pubkey pubkey "pubkey option" "pubkey option"
| SystemCreateAccount pubkey pubkey u64 u64 pubkey    \<comment> \<open>payer, new account, lamports, space, owner\<close>
| SystemTransfer pubkey pubkey u64
| SystemAllocate pubkey u64
| SystemAssign pubkey pubkey
| Raw instruction

section \<open>The environment\<close>

record env =
  sha256 :: "byte list \<Rightarrow> hash32"
  find_program_address :: "byte list list \<Rightarrow> pubkey \<Rightarrow> pubkey \<times> byte"
  rent_get :: "program_error + (nat \<Rightarrow> u64)"
  clock_get :: "program_error + u64"
  invoke_signed :: "cpi \<Rightarrow> pubkey list \<Rightarrow> byte list list list \<Rightarrow> ledger \<Rightarrow> program_error + ledger"
  load_current_index_checked :: "account_info \<Rightarrow> byte list \<Rightarrow> program_error + u16"
  load_instruction_at_checked :: "nat \<Rightarrow> account_info \<Rightarrow> byte list \<Rightarrow> program_error + instruction"
  loader_id :: pubkey
  system_program_id :: pubkey
  instructions_id :: pubkey
  compute_budget_id :: pubkey
  rent_sysvar_id :: pubkey
  clock_sysvar_id :: pubkey

text \<open>\<open>hashv\<close> hashes the concatenation of its slices.\<close>

definition hashv :: "env \<Rightarrow> byte list list \<Rightarrow> hash32" where
  "hashv E vals = sha256 E (concat vals)"

text \<open>Byte string literals \<open>b"..."\<close> and \<open>str::as_bytes\<close> of an ASCII string.\<close>

definition ascii :: "string \<Rightarrow> byte list" where
  "ascii s = map of_char s"

lemma length_ascii [simp]: "length (ascii s) = length s"
  by (simp add: ascii_def)

section \<open>Ledger updates\<close>

named_theorems ledger_simps \<open>what a ledger write leaves at a key\<close>

lemma set_lamports_at [ledger_simps]:
  "set_lamports i v L k = (if k = ai_key i then (L k)\<lparr>lamports := v\<rparr> else L k)"
  by (simp add: set_lamports_def)

lemma set_data_at [ledger_simps]:
  "set_data i v L k = (if k = ai_key i then (L k)\<lparr>acc_data := v\<rparr> else L k)"
  by (simp add: set_data_def)

lemma set_owner_at [ledger_simps]:
  "set_owner i v L k = (if k = ai_key i then (L k)\<lparr>owner := v\<rparr> else L k)"
  by (simp add: set_owner_def)

section \<open>Documented behaviour of cross-program invocation\<close>

text \<open>Hypotheses of theorems about handlers that call other programs.  The runtime lets a call
  touch only the accounts handed to it, and lets no program other than the owner of an account
  change its data or owner or take lamports from it.\<close>

definition cpi_frame :: "env \<Rightarrow> bool" where
  "cpi_frame E \<longleftrightarrow> (\<forall>c keys seeds L L' k.
     invoke_signed E c keys seeds L = Inr L' \<longrightarrow> k \<notin> set keys \<longrightarrow> L' k = L k)"

lemma cpi_frameD:
  "invoke_signed E c keys seeds L = Inr L' \<Longrightarrow> cpi_frame E \<Longrightarrow> \<forall>k. k \<notin> set keys \<longrightarrow> L' k = L k"
  unfolding cpi_frame_def by blast

text \<open>Two transactions of one chain share its hash function, its program addresses and its loader; the
  clock, the sysvars and the answers of other programs may differ.\<close>

definition same_chain :: "env \<Rightarrow> env \<Rightarrow> bool" where
  "same_chain E E' \<longleftrightarrow> sha256 E' = sha256 E \<and> find_program_address E' = find_program_address E \<and>
     loader_id E' = loader_id E"

lemma governance_error_listed: "e \<in> set governance_errors"
  by (cases e) (simp_all add: governance_errors_def)

lemma governance_error_position:
  obtains i where "position (\<lambda>x. x = e) governance_errors = Some i" "i < 53"
    "governance_errors ! i = e"
proof (cases "position (\<lambda>x. x = e) governance_errors")
  case None
  then show ?thesis using governance_error_listed [of e] by (auto simp: position_None)
next
  case (Some i)
  moreover from position_Some [OF Some] have "i < 53"
    by (simp add: governance_errors_def)
  ultimately show ?thesis using that position_Some [OF Some] by blast
qed

lemma governance_error_code_unat:
  "unat (governance_error_code e) = 10000 + the (position (\<lambda>x. x = e) governance_errors)"
  by (rule governance_error_position [of e])
    (simp add: governance_error_code_def unat_word_ariths unat_of_nat)

lemma governance_error_code_inject:
  "governance_error_code e = governance_error_code e' \<longleftrightarrow> e = e'"
proof
  assume "governance_error_code e = governance_error_code e'"
  then have eq: "the (position (\<lambda>x. x = e) governance_errors) = the (position (\<lambda>x. x = e') governance_errors)"
    using governance_error_code_unat by (metis add_left_cancel)
  obtain i where i: "position (\<lambda>x. x = e) governance_errors = Some i" "governance_errors ! i = e"
    by (rule governance_error_position)
  obtain j where j: "position (\<lambda>x. x = e') governance_errors = Some j" "governance_errors ! j = e'"
    by (rule governance_error_position)
  from eq i(1) j(1) have "i = j" by simp
  with i(2) j(2) show "e = e'" by simp
qed simp

section \<open>A concrete environment\<close>

text \<open>The environment the witnesses evaluate in: a length-based digest, program addresses told apart
  by the length of their seeds, a constant rent, clock slot 2000000 and calls that change nothing.
  Theories that need more update its fields.\<close>

definition sample_env :: env where
  "sample_env =
     \<lparr>sha256 = (\<lambda>bs. of_nat (length bs)),
      find_program_address = (\<lambda>seeds program. (1000 + of_nat (length (concat seeds)), 255)),
      rent_get = Inr (\<lambda>n. 1000000), clock_get = Inr 2000000,
      invoke_signed = (\<lambda>c keys seeds L. Inr L),
      load_current_index_checked = (\<lambda>i bs. Inr 0),
      load_instruction_at_checked = (\<lambda>n i bs. Inl InvalidInstructionData),
      loader_id = 901, system_program_id = 0, instructions_id = 903, compute_budget_id = 904,
      rent_sysvar_id = 905, clock_sysvar_id = 906\<rparr>"

lemma sample_env_simps [simp]:
  "sha256 sample_env bs = of_nat (length bs)"
  "find_program_address sample_env seeds program = (1000 + of_nat (length (concat seeds)), 255)"
  "rent_get sample_env = Inr (\<lambda>n. 1000000)" "clock_get sample_env = Inr 2000000"
  "invoke_signed sample_env c keys sds L = Inr L"
  "loader_id sample_env = 901" "system_program_id sample_env = 0" "instructions_id sample_env = 903"
  "compute_budget_id sample_env = 904" "rent_sysvar_id sample_env = 905" "clock_sysvar_id sample_env = 906"
  by (simp_all add: sample_env_def)

end
