(* ===== verification/Account_IO.thy ===== *)
theory Account_IO
  imports Runtime
begin

text \<open>
  Fixed-size account input and output, from
  \<open>upgrade_controller/src/release1_account_io.rs\<close>: privilege and alias checks, the loader and
  the writer of a controller-owned account, and the creation of a program-derived account.
\<close>

section \<open>Operations\<close>

definition validate_exact_privileges :: "account_info \<Rightarrow> bool \<Rightarrow> bool \<Rightarrow> bool \<Rightarrow> program_error + unit" where
  "validate_exact_privileges i w s x =
     (if is_writable i \<noteq> w \<or> is_signer i \<noteq> s \<or> executable i \<noteq> x
      then Inl (gov InvalidAccountPrivileges) else Inr ())"

text \<open>The loop over the accounts, each compared with the ones before it.\<close>

fun require_distinct_from :: "pubkey list \<Rightarrow> account_info list \<Rightarrow> program_error + unit" where
  "require_distinct_from prior [] = Inr ()"
| "require_distinct_from prior (a # rest) =
     (if ai_key a \<in> set prior then Inl (gov CrossAccountMismatch)
      else require_distinct_from (prior @ [ai_key a]) rest)"

definition require_distinct_accounts :: "account_info list \<Rightarrow> program_error + unit" where
  "require_distinct_accounts accounts = require_distinct_from [] accounts"

definition load_fixed_controller_account ::
    "'a reader \<Rightarrow> ledger \<Rightarrow> pubkey \<Rightarrow> account_info \<Rightarrow> nat \<Rightarrow> program_error + 'a" where
  "load_fixed_controller_account de L program_id i expected_len =
     (if owner_of L i \<noteq> program_id then Inl (gov IncorrectAccountOwner)
      else if length (data_of L i) \<noteq> expected_len then Inl (gov InvalidAccountSize)
      else ok_or (try_from_slice de (data_of L i)) InvalidAccountData)"

definition encode_fixed_account :: "('a \<Rightarrow> byte list) \<Rightarrow> 'a \<Rightarrow> nat \<Rightarrow> program_error + byte list" where
  "encode_fixed_account ser value expected_len =
     (let encoded = ser value
      in if length encoded \<noteq> expected_len then Inl (gov InvalidAccountSize) else Inr encoded)"

text \<open>\<open>try_borrow_mut_data()?.copy_from_slice(&bytes)\<close> panics on a length mismatch.\<close>

definition copy_from_slice :: "account_info \<Rightarrow> byte list \<Rightarrow> ledger \<Rightarrow> program_error + ledger" where
  "copy_from_slice i bytes L = (if length (data_of L i) = length bytes then Inr (set_data i bytes L) else Inl Panicked)"

lemma copy_from_slice_ok [result_simps]:
  "copy_from_slice i bytes L = Inr M \<longleftrightarrow> length (data_of L i) = length bytes \<and> M = set_data i bytes L"
  by (auto simp: copy_from_slice_def)

definition store_fixed_controller_account ::
    "('a \<Rightarrow> byte list) \<Rightarrow> ledger \<Rightarrow> pubkey \<Rightarrow> account_info \<Rightarrow> 'a \<Rightarrow> nat \<Rightarrow> program_error + ledger" where
  "store_fixed_controller_account ser L program_id i value expected_len =
     (if owner_of L i \<noteq> program_id then Inl (gov IncorrectAccountOwner)
      else bnd (encode_fixed_account ser value expected_len) (\<lambda>encoded.
        if length (data_of L i) \<noteq> expected_len then Inl (gov InvalidAccountSize)
        else copy_from_slice i encoded L))"

text \<open>The three System calls that turn a prefunded address into a program account, or the single
  one that creates a fresh account.\<close>

definition fund_and_allocate ::
    "env \<Rightarrow> pubkey \<Rightarrow> account_info \<Rightarrow> account_info \<Rightarrow> account_info \<Rightarrow> u64 \<Rightarrow> nat \<Rightarrow> byte list list
      \<Rightarrow> ledger \<Rightarrow> program_error + ledger" where
  "fund_and_allocate E program_id payer pda system required space seeds L =
     (let existing = lamports_of L pda; missing = saturating_sub required existing in
      if existing = 0 then
        invoke_signed E (SystemCreateAccount (ai_key payer) (ai_key pda) required (of_nat space) program_id)
          [ai_key payer, ai_key pda, ai_key system] [seeds] L
      else
        bnd (if missing \<noteq> 0 then
               invoke_signed E (SystemTransfer (ai_key payer) (ai_key pda) missing)
                 [ai_key payer, ai_key pda, ai_key system] [] L
             else Inr L) (\<lambda>L.
        bnd (invoke_signed E (SystemAllocate (ai_key pda) (of_nat space))
               [ai_key pda, ai_key system] [seeds] L) (\<lambda>L.
        invoke_signed E (SystemAssign (ai_key pda) program_id)
          [ai_key pda, ai_key system] [seeds] L)))"

definition create_fixed_pda_account ::
    "env \<Rightarrow> pubkey \<Rightarrow> account_info \<Rightarrow> account_info \<Rightarrow> account_info \<Rightarrow> (nat \<Rightarrow> u64) \<Rightarrow> nat
      \<Rightarrow> byte list list \<Rightarrow> ledger \<Rightarrow> program_error + ledger" where
  "create_fixed_pda_account E program_id payer pda system rent space seeds L =
     bnd (checks
       [validate_exact_privileges payer True True False,
        validate_exact_privileges pda True False False,
        validate_exact_privileges system False False True,
        if ai_key system \<noteq> system_program_id E then Inl (gov CrossAccountMismatch) else Inr (),
        if owner_of L pda \<noteq> system_program_id E \<or> length (data_of L pda) \<noteq> 0
        then Inl (gov IncorrectAccountOwner) else Inr ()]) (\<lambda>_.
     bnd (fund_and_allocate E program_id payer pda system (rent space) space seeds L) (\<lambda>L.
     if owner_of L pda \<noteq> program_id \<or> length (data_of L pda) \<noteq> space
        \<or> lamports_of L pda < rent space
     then Inl (gov InvalidRelease1Account) else Inr L))"

section \<open>Guards\<close>

lemma validate_exact_privileges_ok [result_simps]:
  "validate_exact_privileges i w s x = Inr u \<longleftrightarrow>
     is_writable i = w \<and> is_signer i = s \<and> executable i = x"
  by (auto simp: validate_exact_privileges_def)

lemma require_distinct_from_ok:
  "require_distinct_from prior accounts = Inr u \<longleftrightarrow>
     distinct (map ai_key accounts) \<and> set prior \<inter> set (map ai_key accounts) = {}"
  by (induction prior accounts rule: require_distinct_from.induct) auto

lemma require_distinct_accounts_ok [result_simps]:
  "require_distinct_accounts accounts = Inr u \<longleftrightarrow> distinct (map ai_key accounts)"
  by (simp add: require_distinct_accounts_def require_distinct_from_ok)

section \<open>Loading and storing a typed account\<close>

lemma load_ok_iff:
  "load_fixed_controller_account de L program_id i n = Inr x \<longleftrightarrow>
     owner_of L i = program_id \<and> length (data_of L i) = n \<and> try_from_slice de (data_of L i) = Some x"
  by (auto simp: load_fixed_controller_account_def result_simps)

lemma store_ok_iff:
  "store_fixed_controller_account ser L program_id i x n = Inr L' \<longleftrightarrow>
     owner_of L i = program_id \<and> length (ser x) = n \<and> length (data_of L i) = n
     \<and> L' = set_data i (ser x) L"
  by (auto simp: store_fixed_controller_account_def encode_fixed_account_def result_simps Let_def
      split: if_splits)

context borsh_codec
begin

lemma load_iff:
  "load_fixed_controller_account de L program_id i size = Inr x \<longleftrightarrow>
     owner_of L i = program_id \<and> wf x \<and> data_of L i = ser x"
  by (auto simp: load_ok_iff decode_Some_iff ser_size)

lemma load_store:
  assumes "store_fixed_controller_account ser L program_id i x size = Inr L'" and "wf x"
  shows "load_fixed_controller_account de L' program_id i size = Inr x"
  using assms by (auto simp: store_ok_iff load_iff ledger_simps)

lemma store_succeeds:
  assumes "load_fixed_controller_account de L program_id i size = Inr x" and "wf y"
  shows "store_fixed_controller_account ser L program_id i y size = Inr (set_data i (ser y) L)"
  using assms by (auto simp: store_ok_iff load_iff ser_size)

lemma load_other:
  assumes "store_fixed_controller_account ser' L program_id j y n = Inr L'" and "ai_key i \<noteq> ai_key j"
  shows "load_fixed_controller_account de L' program_id i size
           = load_fixed_controller_account de L program_id i size"
  using assms by (auto simp: store_ok_iff load_fixed_controller_account_def ledger_simps)

end

text \<open>A successful creation leaves an account of the program, of the exact size and rent exempt.\<close>

lemma create_fixed_pda_account_ok:
  assumes "create_fixed_pda_account E program_id payer pda system rent space seeds L = Inr L'"
  shows "owner_of L' pda = program_id" "length (data_of L' pda) = space"
    "rent space \<le> lamports_of L' pda" "owner_of L pda = system_program_id E" "data_of L pda = []"
  using assms by (auto simp: create_fixed_pda_account_def result_simps not_less split: if_splits)

lemma fund_and_allocate_frame:
  assumes "cpi_frame E" and "fund_and_allocate E program_id payer pda system required space seeds L = Inr L'"
    and "k \<notin> {ai_key payer, ai_key pda, ai_key system}"
  shows "L' k = L k"
  using assms
  by (auto simp: fund_and_allocate_def Let_def result_simps dest!: cpi_frameD
      split: if_splits)

lemma create_fixed_pda_account_frame:
  assumes "cpi_frame E" and "create_fixed_pda_account E program_id payer pda system rent space seeds L = Inr L'"
    and "k \<notin> {ai_key payer, ai_key pda, ai_key system}"
  shows "L' k = L k"
  using assms by (auto simp: create_fixed_pda_account_def result_simps
      dest: fund_and_allocate_frame split: if_splits)

end
