(* ===== verification/Gate.thy ===== *)
theory Gate
  imports Borsh Account_IO
begin

text \<open>
  The protocol gate account shared by both controllers: \<open>GateStatusV1\<close> and \<open>ProtocolGateV1\<close> of
  \<open>upgrade_controller/src/state.rs\<close> with their canonicity rules, and the hand-written codecs of
  \<open>upgrade_controller/src/gate_abi.rs\<close> for the gate and for the governance tail of target
  instructions.
\<close>

section \<open>Status and gate\<close>

datatype gate_status = Active | FrozenForUpgrade | EmergencyFrozen

fun gate_status_byte :: "gate_status \<Rightarrow> byte" where
  "gate_status_byte Active = 0"
| "gate_status_byte FrozenForUpgrade = 1"
| "gate_status_byte EmergencyFrozen = 2"

definition gate_status_of_byte :: "byte \<Rightarrow> gate_status option" where
  "gate_status_of_byte b =
     (if b = 0 then Some Active else if b = 1 then Some FrozenForUpgrade
      else if b = 2 then Some EmergencyFrozen else None)"

text \<open>The Borsh impls of the macro \<open>fixed_u8_enum_borsh\<close>.\<close>

definition ser_gate_status :: "gate_status \<Rightarrow> byte list" where
  "ser_gate_status s = [gate_status_byte s]"

definition de_gate_status :: "gate_status reader" where
  "de_gate_status bs = (case bs of [] \<Rightarrow> None
     | b # r \<Rightarrow> (case gate_status_of_byte b of None \<Rightarrow> None | Some s \<Rightarrow> Some (s, r)))"

record protocol_gate =
  gt_discriminator :: "byte list"
  gt_version :: byte
  gt_bump :: byte
  gt_initialized :: bool
  gt_status :: gate_status
  gt_controller_config :: pubkey
  gt_target_program :: pubkey
  gt_target_programdata :: pubkey
  gt_epoch :: u64
  gt_active_proposal :: pubkey
  gt_freeze_slot :: u64
  gt_freeze_reason_code :: u16
  gt_last_completed_proposal :: pubkey
  gt_reserved :: "byte list"

definition GATE_LEN :: nat where "GATE_LEN = 192"
definition PROTOCOL_GATE_DISCRIMINATOR :: "byte list" where
  "PROTOCOL_GATE_DISCRIMINATOR = ascii ''AGVGAT01''"
definition ACCOUNT_VERSION_V1 :: byte where "ACCOUNT_VERSION_V1 = 1"

text \<open>The arrays of a gate value have the lengths of their types.\<close>

definition wf_gate :: "protocol_gate \<Rightarrow> bool" where
  "wf_gate g \<longleftrightarrow> length (gt_discriminator g) = 8 \<and> length (gt_reserved g) = 2"

definition ser_gate :: "protocol_gate \<Rightarrow> byte list" where
  "ser_gate g =
     gt_discriminator g @ wr_u8 (gt_version g) @ wr_u8 (gt_bump g) @ wr_bool (gt_initialized g)
     @ ser_gate_status (gt_status g) @ wr_32 (gt_controller_config g) @ wr_32 (gt_target_program g)
     @ wr_32 (gt_target_programdata g) @ wr_u64 (gt_epoch g) @ wr_32 (gt_active_proposal g)
     @ wr_u64 (gt_freeze_slot g) @ wr_u16 (gt_freeze_reason_code g)
     @ wr_32 (gt_last_completed_proposal g) @ gt_reserved g"

definition de_gate :: "protocol_gate reader" where
  "de_gate bs = do {
     (discriminator, bs) \<leftarrow> rd_bytes 8 bs; (version, bs) \<leftarrow> rd_u8 bs; (bump, bs) \<leftarrow> rd_u8 bs;
     (initialized, bs) \<leftarrow> rd_bool bs; (status, bs) \<leftarrow> de_gate_status bs;
     (controller_config, bs) \<leftarrow> rd_32 bs; (target_program, bs) \<leftarrow> rd_32 bs;
     (target_programdata, bs) \<leftarrow> rd_32 bs; (epoch, bs) \<leftarrow> rd_u64 bs;
     (active_proposal, bs) \<leftarrow> rd_32 bs; (freeze_slot, bs) \<leftarrow> rd_u64 bs;
     (freeze_reason_code, bs) \<leftarrow> rd_u16 bs; (last_completed_proposal, bs) \<leftarrow> rd_32 bs;
     (reserved, bs) \<leftarrow> rd_bytes 2 bs;
     Some (\<lparr>gt_discriminator = discriminator, gt_version = version, gt_bump = bump,
            gt_initialized = initialized, gt_status = status,
            gt_controller_config = controller_config, gt_target_program = target_program,
            gt_target_programdata = target_programdata, gt_epoch = epoch,
            gt_active_proposal = active_proposal, gt_freeze_slot = freeze_slot,
            gt_freeze_reason_code = freeze_reason_code,
            gt_last_completed_proposal = last_completed_proposal, gt_reserved = reserved\<rparr>, bs) }"

lemma gate_status_roundtrip [simp]: "gate_status_of_byte (gate_status_byte s) = Some s"
  by (cases s) (simp_all add: gate_status_of_byte_def)

lemma gate_status_of_byte_Some: "gate_status_of_byte b = Some s \<longleftrightarrow> b = gate_status_byte s"
  by (cases s) (auto simp: gate_status_of_byte_def split: if_splits)

lemma gate_status_byte_bounds: "gate_status_byte s = 0 \<or> gate_status_byte s = 1 \<or> gate_status_byte s = 2"
  by (cases s) simp_all

interpretation gate_status_codec: borsh_codec ser_gate_status de_gate_status "\<lambda>_. True" 1
  by unfold_locales
    (auto simp: ser_gate_status_def de_gate_status_def gate_status_of_byte_Some
      split: list.splits option.splits)

interpretation gate_codec: borsh_codec ser_gate de_gate wf_gate GATE_LEN
proof
  fix x r
  show "wf_gate x \<Longrightarrow> de_gate (ser_gate x @ r) = Some (x, r)"
    by (simp add: ser_gate_def de_gate_def wf_gate_def gate_status_codec.de_ser)
  show "wf_gate x \<Longrightarrow> length (ser_gate x) = GATE_LEN"
    by (simp add: ser_gate_def wf_gate_def gate_status_codec.ser_size GATE_LEN_def)
next
  fix bs x r assume "de_gate bs = Some (x, r)"
  then show "bs = ser_gate x @ r" "wf_gate x"
    by (auto simp: de_gate_def ser_gate_def wf_gate_def bind_eq_Some_conv
        dest!: borsh_readD gate_status_codec.ser_de)
qed

section \<open>Static validity\<close>

definition validate_reserved :: "byte list \<Rightarrow> governance_error + unit" where
  "validate_reserved reserved = (if \<exists>b \<in> set reserved. b \<noteq> 0 then Inl NonzeroReserved else Inr ())"

definition validate_header ::
    "byte list \<Rightarrow> byte list \<Rightarrow> byte \<Rightarrow> bool \<Rightarrow> byte list \<Rightarrow> governance_error + unit" where
  "validate_header actual expected version initialized reserved =
     (if actual \<noteq> expected then Inl InvalidDiscriminator
      else if version \<noteq> ACCOUNT_VERSION_V1 then Inl UnsupportedVersion
      else if \<not> initialized then Inl Uninitialized
      else validate_reserved reserved)"

definition gate_validate_static :: "protocol_gate \<Rightarrow> governance_error + unit" where
  "gate_validate_static g =
     bnd (validate_header (gt_discriminator g) PROTOCOL_GATE_DISCRIMINATOR (gt_version g)
            (gt_initialized g) (gt_reserved g)) (\<lambda>_.
     if 0 \<in> set [gt_controller_config g, gt_target_program g, gt_target_programdata g] \<or> gt_epoch g = 0
     then Inl InvalidGateState
     else let active_is_canonical = (gt_active_proposal g = 0 \<and> gt_freeze_slot g = 0 \<and> gt_freeze_reason_code g = 0);
              upgrade_frozen_is_canonical = (gt_active_proposal g \<noteq> 0 \<and> gt_freeze_slot g \<noteq> 0 \<and> gt_freeze_reason_code g \<noteq> 0);
              emergency_frozen_is_canonical = (gt_active_proposal g = 0 \<and> gt_freeze_slot g \<noteq> 0 \<and> gt_freeze_reason_code g \<noteq> 0)
          in if (case gt_status g of
                   Active \<Rightarrow> \<not> active_is_canonical
                 | FrozenForUpgrade \<Rightarrow> \<not> upgrade_frozen_is_canonical
                 | EmergencyFrozen \<Rightarrow> \<not> emergency_frozen_is_canonical)
             then Inl InvalidGateState else Inr ())"

lemma validate_reserved_ok [result_simps]: "validate_reserved r = Inr u \<longleftrightarrow> (\<forall>b \<in> set r. b = 0)"
  by (auto simp: validate_reserved_def)

lemma validate_header_ok [result_simps]:
  "validate_header a e v i r = Inr u \<longleftrightarrow> a = e \<and> v = 1 \<and> i \<and> (\<forall>b \<in> set r. b = 0)"
  by (auto simp: validate_header_def result_simps ACCOUNT_VERSION_V1_def)

text \<open>The fields a status determines.\<close>

definition gate_canonical :: "protocol_gate \<Rightarrow> bool" where
  "gate_canonical g \<longleftrightarrow>
     (gt_active_proposal g \<noteq> 0 \<longleftrightarrow> gt_status g = FrozenForUpgrade) \<and>
     (gt_freeze_slot g = 0 \<longleftrightarrow> gt_status g = Active) \<and>
     (gt_freeze_reason_code g = 0 \<longleftrightarrow> gt_status g = Active)"

lemma gate_validate_static_ok:
  "gate_validate_static g = Inr u \<longleftrightarrow>
     gt_discriminator g = PROTOCOL_GATE_DISCRIMINATOR \<and> gt_version g = 1 \<and> gt_initialized g \<and>
     (\<forall>b \<in> set (gt_reserved g). b = 0) \<and>
     gt_controller_config g \<noteq> 0 \<and> gt_target_program g \<noteq> 0 \<and> gt_target_programdata g \<noteq> 0 \<and>
     gt_epoch g \<noteq> 0 \<and> gate_canonical g"
  by (cases "gt_status g") (auto simp: gate_validate_static_def result_simps Let_def gate_canonical_def)

section \<open>The execution-free ABI codecs\<close>

text \<open>\<open>GateAbiError\<close>; the suffix separates the constructor shared with \<open>GovernanceError\<close>.\<close>

datatype gate_abi_error =
  InvalidLength string nat nat
| InvalidGateDiscriminator | UnsupportedGateVersion | NoncanonicalInitialized | UninitializedGate
| UnknownGateStatus byte | NonzeroGateReserved | InvalidGateState_abi | InvalidTailMagic
| UnsupportedTailVersion | NonzeroTailReserved | InstructionLengthOverflow

definition GOVERNANCE_TAIL_MAGIC :: "byte list" where "GOVERNANCE_TAIL_MAGIC = ascii ''AGV1''"
definition GOVERNANCE_TAIL_VERSION_V1 :: byte where "GOVERNANCE_TAIL_VERSION_V1 = 1"
definition GOVERNANCE_TAIL_LEN :: nat where "GOVERNANCE_TAIL_LEN = 16"

record governance_tail =
  tl_magic :: "byte list"
  tl_version :: byte
  tl_reserved :: "byte list"
  tl_expected_epoch :: u64

definition tail_new :: "u64 \<Rightarrow> governance_tail" where
  "tail_new expected_epoch =
     \<lparr>tl_magic = GOVERNANCE_TAIL_MAGIC, tl_version = GOVERNANCE_TAIL_VERSION_V1,
      tl_reserved = replicate 3 0, tl_expected_epoch = expected_epoch\<rparr>"

text \<open>\<open>out[a..b].copy_from_slice(bytes)\<close>; every range used is in bounds.\<close>

definition put_bytes :: "nat \<Rightarrow> byte list \<Rightarrow> byte list \<Rightarrow> byte list" where
  "put_bytes offset bytes out = take offset out @ bytes @ drop (offset + length bytes) out"

definition require_length :: "string \<Rightarrow> byte list \<Rightarrow> nat \<Rightarrow> gate_abi_error + unit" where
  "require_length field bytes expected =
     (if length bytes = expected then Inr () else Inl (InvalidLength field expected (length bytes)))"

definition tail_encode :: "governance_tail \<Rightarrow> gate_abi_error + byte list" where
  "tail_encode t =
     (if tl_magic t \<noteq> GOVERNANCE_TAIL_MAGIC then Inl InvalidTailMagic
      else if tl_version t \<noteq> GOVERNANCE_TAIL_VERSION_V1 then Inl UnsupportedTailVersion
      else if tl_reserved t \<noteq> replicate 3 0 then Inl NonzeroTailReserved
      else Inr (put_bytes 8 (wr_u64 (tl_expected_epoch t)) (put_bytes 5 (tl_reserved t)
             (put_bytes 4 [tl_version t] (put_bytes 0 (tl_magic t) (replicate GOVERNANCE_TAIL_LEN 0))))))"

definition tail_decode :: "byte list \<Rightarrow> gate_abi_error + governance_tail" where
  "tail_decode bytes =
     bnd (require_length ''GovernanceInstructionTailV1'' bytes GOVERNANCE_TAIL_LEN) (\<lambda>_.
     if subslice 0 4 bytes \<noteq> GOVERNANCE_TAIL_MAGIC then Inl InvalidTailMagic
     else if bytes ! 4 \<noteq> GOVERNANCE_TAIL_VERSION_V1 then Inl UnsupportedTailVersion
     else if subslice 5 8 bytes \<noteq> replicate 3 0 then Inl NonzeroTailReserved
     else Inr (tail_new (le_word (subslice 8 16 bytes))))"

definition validate_gate_value :: "protocol_gate \<Rightarrow> gate_abi_error + unit" where
  "validate_gate_value g =
     (if gt_discriminator g \<noteq> PROTOCOL_GATE_DISCRIMINATOR then Inl InvalidGateDiscriminator
      else if gt_version g \<noteq> ACCOUNT_VERSION_V1 then Inl UnsupportedGateVersion
      else if \<not> gt_initialized g then Inl UninitializedGate
      else if gt_reserved g \<noteq> replicate 2 0 then Inl NonzeroGateReserved
      else map_err (\<lambda>_. InvalidGateState_abi) (gate_validate_static g))"

definition encode_protocol_gate_v1 :: "protocol_gate \<Rightarrow> gate_abi_error + byte list" where
  "encode_protocol_gate_v1 g =
     bnd (validate_gate_value g) (\<lambda>_.
     let out = replicate GATE_LEN 0;
         out = put_bytes 0 (gt_discriminator g) out;
         out = put_bytes 8 [gt_version g] out;
         out = put_bytes 9 [gt_bump g] out;
         out = put_bytes 10 [if gt_initialized g then 1 else 0] out;
         out = put_bytes 11 [gate_status_byte (gt_status g)] out;
         out = put_bytes 12 (wr_32 (gt_controller_config g)) out;
         out = put_bytes 44 (wr_32 (gt_target_program g)) out;
         out = put_bytes 76 (wr_32 (gt_target_programdata g)) out;
         out = put_bytes 108 (wr_u64 (gt_epoch g)) out;
         out = put_bytes 116 (wr_32 (gt_active_proposal g)) out;
         out = put_bytes 148 (wr_u64 (gt_freeze_slot g)) out;
         out = put_bytes 156 (wr_u16 (gt_freeze_reason_code g)) out;
         out = put_bytes 158 (wr_32 (gt_last_completed_proposal g)) out;
         out = put_bytes 190 (gt_reserved g) out
     in Inr out)"

definition decode_protocol_gate_v1 :: "byte list \<Rightarrow> gate_abi_error + protocol_gate" where
  "decode_protocol_gate_v1 bytes =
     bnd (require_length ''ProtocolGateV1'' bytes GATE_LEN) (\<lambda>_.
     if subslice 0 8 bytes \<noteq> PROTOCOL_GATE_DISCRIMINATOR then Inl InvalidGateDiscriminator
     else if bytes ! 8 \<noteq> ACCOUNT_VERSION_V1 then Inl UnsupportedGateVersion
     else bnd (if bytes ! 10 = 0 then Inr False else if bytes ! 10 = 1 then Inr True
               else Inl NoncanonicalInitialized) (\<lambda>initialized.
          bnd (ok_or (gate_status_of_byte (bytes ! 11)) (UnknownGateStatus (bytes ! 11))) (\<lambda>status.
          if subslice 190 192 bytes \<noteq> replicate 2 0 then Inl NonzeroGateReserved
          else let g = \<lparr>gt_discriminator = PROTOCOL_GATE_DISCRIMINATOR, gt_version = bytes ! 8,
                 gt_bump = bytes ! 9, gt_initialized = initialized, gt_status = status,
                 gt_controller_config = le_word (subslice 12 44 bytes),
                 gt_target_program = le_word (subslice 44 76 bytes),
                 gt_target_programdata = le_word (subslice 76 108 bytes),
                 gt_epoch = le_word (subslice 108 116 bytes),
                 gt_active_proposal = le_word (subslice 116 148 bytes),
                 gt_freeze_slot = le_word (subslice 148 156 bytes),
                 gt_freeze_reason_code = le_word (subslice 156 158 bytes),
                 gt_last_completed_proposal = le_word (subslice 158 190 bytes),
                 gt_reserved = replicate 2 0\<rparr>
            in bnd (validate_gate_value g) (\<lambda>_. Inr g))))"

definition envelope_instruction_data_v1 :: "byte list \<Rightarrow> governance_tail \<Rightarrow> gate_abi_error + byte list" where
  "envelope_instruction_data_v1 legacy tail =
     bnd (ok_or (checked_usize (length legacy + GOVERNANCE_TAIL_LEN)) InstructionLengthOverflow) (\<lambda>_.
     bnd (tail_encode tail) (\<lambda>t. Inr (legacy @ t)))"

definition strip_governance_tail_v1 :: "byte list \<Rightarrow> gate_abi_error + byte list \<times> governance_tail" where
  "strip_governance_tail_v1 enveloped =
     (if length enveloped < GOVERNANCE_TAIL_LEN
      then Inl (InvalidLength ''enveloped instruction'' GOVERNANCE_TAIL_LEN (length enveloped))
      else let split = length enveloped - GOVERNANCE_TAIL_LEN in
        bnd (tail_decode (drop split enveloped)) (\<lambda>t. Inr (take split enveloped, t)))"

section \<open>The hand-written codec is the Borsh layout\<close>

text \<open>Writes at consecutive offsets into a zeroed buffer lay the fields out one after the other.\<close>

fun put_all :: "nat \<Rightarrow> byte list list \<Rightarrow> byte list \<Rightarrow> byte list" where
  "put_all offset [] out = out"
| "put_all offset (b # bs) out = put_all (offset + length b) bs (put_bytes offset b out)"

lemma put_all_concat:
  "length xs = n \<Longrightarrow> length (concat bs) = m \<Longrightarrow> put_all n bs (xs @ replicate m 0) = xs @ concat bs"
proof (induction bs arbitrary: n xs m)
  case (Cons b bs)
  have "put_bytes n b (xs @ replicate m 0) = (xs @ b) @ replicate (length (concat bs)) 0"
    using Cons.prems by (auto simp: put_bytes_def)
  then have "put_all n (b # bs) (xs @ replicate m 0)
      = put_all (n + length b) bs ((xs @ b) @ replicate (length (concat bs)) 0)"
    by simp
  also have "\<dots> = (xs @ b) @ concat bs"
    by (rule Cons.IH) (use Cons.prems in simp_all)
  finally show ?case by simp
qed simp

lemma put_all_zeroed: "length (concat bs) = m \<Longrightarrow> put_all 0 bs (replicate m 0) = concat bs"
  using put_all_concat [of "[]" 0 bs m] by simp

lemma validate_gate_value_ok:
  "wf_gate g \<Longrightarrow> validate_gate_value g = Inr u \<longleftrightarrow> gate_validate_static g = Inr ()"
  by (auto simp: validate_gate_value_def result_simps gate_validate_static_ok ACCOUNT_VERSION_V1_def
      wf_gate_def list_eq_iff_nth_eq all_set_conv_all_nth)

text \<open>C40: The hand-written gate encoder accepts exactly the statically valid gates, and its
  output, written at fixed offsets, is the Borsh layout under which the controller stores the gate.\<close>

theorem gate_encoding_is_borsh:
  assumes "wf_gate g"
  shows "encode_protocol_gate_v1 g = Inr bytes \<longleftrightarrow> gate_validate_static g = Inr () \<and> bytes = ser_gate g"
proof -
  let ?fields = "[gt_discriminator g, [gt_version g], [gt_bump g], [if gt_initialized g then 1 else 0],
    [gate_status_byte (gt_status g)], wr_32 (gt_controller_config g), wr_32 (gt_target_program g),
    wr_32 (gt_target_programdata g), wr_u64 (gt_epoch g), wr_32 (gt_active_proposal g),
    wr_u64 (gt_freeze_slot g), wr_u16 (gt_freeze_reason_code g), wr_32 (gt_last_completed_proposal g),
    gt_reserved g]"
  have len: "length (gt_discriminator g) = 8" "length (gt_reserved g) = 2"
    using assms by (simp_all add: wf_gate_def)
  have "encode_protocol_gate_v1 g
      = bnd (validate_gate_value g) (\<lambda>_. Inr (put_all 0 ?fields (replicate GATE_LEN 0)))"
    by (simp add: encode_protocol_gate_v1_def Let_def len)
  also have "put_all 0 ?fields (replicate GATE_LEN 0) = ser_gate g"
    using put_all_zeroed [of ?fields GATE_LEN]
    by (simp add: len GATE_LEN_def ser_gate_def ser_gate_status_def wr_bool_def wr_u8_single)
  finally show ?thesis
    by (auto simp: result_simps validate_gate_value_ok [OF assms])
qed

text \<open>A witness gate, used by several components.\<close>

definition sample_gate :: "gate_status \<Rightarrow> protocol_gate" where
  "sample_gate s =
     \<lparr>gt_discriminator = PROTOCOL_GATE_DISCRIMINATOR, gt_version = 1, gt_bump = 255,
      gt_initialized = True, gt_status = s, gt_controller_config = 11, gt_target_program = 12,
      gt_target_programdata = 13, gt_epoch = 5, gt_active_proposal = 0,
      gt_freeze_slot = (if s = Active then 0 else 9),
      gt_freeze_reason_code = (if s = Active then 0 else 1), gt_last_completed_proposal = 0,
      gt_reserved = [0, 0]\<rparr>"

theorem gate_encoding_is_borsh_witness:
  "encode_protocol_gate_v1 (sample_gate Active) = Inr (ser_gate (sample_gate Active))"
  by (rule gate_encoding_is_borsh [THEN iffD2])
    (simp_all add: sample_gate_def wf_gate_def gate_validate_static_ok gate_canonical_def
      PROTOCOL_GATE_DISCRIMINATOR_def)

text \<open>Reading at an offset, the way the Borsh reader does, is taking a slice.\<close>

lemma rd_word_drop:
  "k + n \<le> length bs \<Longrightarrow> rd_word n (drop k bs) = Some (le_word (subslice k (k + n) bs), drop (k + n) bs)"
  by (simp add: rd_word_def subslice_def add.commute)

lemma rd_bytes_drop:
  "k + n \<le> length bs \<Longrightarrow> rd_bytes n (drop k bs) = Some (subslice k (k + n) bs, drop (k + n) bs)"
  by (simp add: rd_bytes_def subslice_def add.commute)

lemma rd_bool_drop:
  "k < length bs \<Longrightarrow> rd_bool (drop k bs) =
     (if bs ! k = 0 then Some (False, drop (Suc k) bs)
      else if bs ! k = 1 then Some (True, drop (Suc k) bs) else None)"
  by (simp add: rd_bool_def flip: Cons_nth_drop_Suc)

lemma de_gate_status_drop:
  "k < length bs \<Longrightarrow> de_gate_status (drop k bs) =
     map_option (\<lambda>s. (s, drop (Suc k) bs)) (gate_status_of_byte (bs ! k))"
  by (simp add: de_gate_status_def flip: Cons_nth_drop_Suc split: option.split)

lemma slice_single: "k < length bs \<Longrightarrow> n = Suc k \<Longrightarrow> subslice k n bs = [bs ! k]"
  by (simp add: subslice_def take_Suc_conv_app_nth flip: Cons_nth_drop_Suc)

definition gate_of_slices :: "byte list \<Rightarrow> bool \<Rightarrow> gate_status \<Rightarrow> protocol_gate" where
  "gate_of_slices bytes i s =
     \<lparr>gt_discriminator = subslice 0 8 bytes, gt_version = bytes ! 8, gt_bump = bytes ! 9,
      gt_initialized = i, gt_status = s,
      gt_controller_config = le_word (subslice 12 44 bytes),
      gt_target_program = le_word (subslice 44 76 bytes),
      gt_target_programdata = le_word (subslice 76 108 bytes),
      gt_epoch = le_word (subslice 108 116 bytes),
      gt_active_proposal = le_word (subslice 116 148 bytes),
      gt_freeze_slot = le_word (subslice 148 156 bytes),
      gt_freeze_reason_code = le_word (subslice 156 158 bytes),
      gt_last_completed_proposal = le_word (subslice 158 190 bytes),
      gt_reserved = subslice 190 192 bytes\<rparr>"

lemma de_gate_slices:
  assumes "length bytes = GATE_LEN" "bytes ! 10 = (if i then 1 else 0)"
    "gate_status_of_byte (bytes ! 11) = Some s"
  shows "de_gate bytes = Some (gate_of_slices bytes i s, [])"
proof -
  have start: "rd_bytes 8 bytes = Some (subslice 0 8 bytes, drop 8 bytes)"
    using assms rd_bytes_drop [of 0 8 bytes] by (simp add: GATE_LEN_def)
  show ?thesis
    using assms
    by (simp add: de_gate_def GATE_LEN_def start slice_single rd_word_drop rd_bytes_drop rd_bool_drop
        de_gate_status_drop gate_of_slices_def)
qed

lemma gate_of_slices_select:
  "gt_discriminator (gate_of_slices bytes i s) = subslice 0 8 bytes"
  "gt_version (gate_of_slices bytes i s) = bytes ! 8"
  "gt_initialized (gate_of_slices bytes i s) = i"
  "gt_status (gate_of_slices bytes i s) = s"
  "gt_reserved (gate_of_slices bytes i s) = subslice 190 192 bytes"
  by (simp_all add: gate_of_slices_def)

lemma decode_ok:
  assumes "length bytes = GATE_LEN"
  shows "decode_protocol_gate_v1 bytes = Inr g \<longleftrightarrow>
    (\<exists>i s. bytes ! 10 = (if i then 1 else 0) \<and> gate_status_of_byte (bytes ! 11) = Some s \<and>
      g = gate_of_slices bytes i s \<and> validate_gate_value g = Inr ())"
    (is "?lhs \<longleftrightarrow> ?rhs")
proof
  assume ?lhs
  then show ?rhs
    using assms
    by (auto simp: decode_protocol_gate_v1_def require_length_def result_simps Let_def
        gate_of_slices_def split: if_splits)
next
  assume ?rhs
  then obtain i s where ok: "bytes ! 10 = (if i then 1 else 0)"
    "gate_status_of_byte (bytes ! 11) = Some s" "g = gate_of_slices bytes i s"
    "validate_gate_value g = Inr ()"
    by blast
  then have hd: "subslice 0 8 bytes = PROTOCOL_GATE_DISCRIMINATOR" "bytes ! 8 = ACCOUNT_VERSION_V1"
    "subslice 190 192 bytes = replicate 2 0"
    by (auto simp: validate_gate_value_def gate_of_slices_select split: if_splits)
  from ok(4) show ?lhs
    unfolding decode_protocol_gate_v1_def ok(3) gate_of_slices_def hd
    using assms ok(1,2) hd by (cases i) (simp_all add: require_length_def Let_def)
qed

text \<open>The hand-written gate decoder accepts a byte string exactly when it is the
  Borsh layout of a statically valid gate, and returns that gate: decoding is total on valid gates,
  injective, and refuses every non-canonical byte.\<close>

theorem gate_decode_inverts_encode:
  "decode_protocol_gate_v1 bytes = Inr g \<longleftrightarrow>
     wf_gate g \<and> gate_validate_static g = Inr () \<and> bytes = ser_gate g"
proof (cases "length bytes = GATE_LEN")
  case False
  then show ?thesis
    by (auto simp: decode_protocol_gate_v1_def require_length_def gate_codec.ser_size)
next
  case True
  have "wf_gate g \<and> gate_validate_static g = Inr () \<and> bytes = ser_gate g \<longleftrightarrow>
      de_gate bytes = Some (g, []) \<and> gate_validate_static g = Inr ()"
    using gate_codec.de_ser [of g "[]"] gate_codec.ser_de [of bytes g "[]"] gate_codec.de_wf [of bytes g "[]"]
    by auto
  moreover have "de_gate bytes = Some (g, []) \<longleftrightarrow>
      (\<exists>i s. bytes ! 10 = (if i then 1 else 0) \<and> gate_status_of_byte (bytes ! 11) = Some s \<and>
        g = gate_of_slices bytes i s)"
  proof (cases "de_gate bytes")
    case (Some p)
    then have "bytes = ser_gate (fst p) @ snd p" "wf_gate (fst p)"
      using gate_codec.ser_de [of bytes "fst p" "snd p"] gate_codec.de_wf [of bytes "fst p" "snd p"]
      by auto
    moreover have "snd p = []"
      using calculation True gate_codec.ser_size [of "fst p"] by (metis append_Nil2 append_eq_conv_conj)
    ultimately have "bytes ! 10 = (if gt_initialized (fst p) then 1 else 0)"
      "gate_status_of_byte (bytes ! 11) = Some (gt_status (fst p))"
      by (auto simp: ser_gate_def wf_gate_def nth_append wr_u8_single wr_bool_def ser_gate_status_def)
    with de_gate_slices [OF True] Some show ?thesis by fastforce
  next
    case None
    with de_gate_slices [OF True] show ?thesis by (metis option.distinct(1))
  qed
  ultimately show ?thesis
    using gate_codec.de_wf [of bytes g "[]"] validate_gate_value_ok [of g]
    by (auto simp: decode_ok [OF True])
qed

lemma tail_encode_new: "tail_encode (tail_new epoch) = Inr (ascii ''AGV1'' @ [1] @ [0, 0, 0] @ wr_u64 epoch)"
proof -
  have four: "length (ascii ''AGV1'') = 4" by simp
  have three: "[0, 0, 0] = replicate 3 (0 :: byte)" by (simp add: numeral_3_eq_3)
  have "put_all 0 [ascii ''AGV1'', [1], replicate 3 0, wr_u64 epoch] (replicate 16 0)
      = ascii ''AGV1'' @ [1] @ [0, 0, 0] @ wr_u64 epoch"
    unfolding three by (subst put_all_zeroed) (simp_all add: four del: length_ascii)
  then show ?thesis
    by (simp add: tail_encode_def tail_new_def GOVERNANCE_TAIL_LEN_def GOVERNANCE_TAIL_MAGIC_def
        GOVERNANCE_TAIL_VERSION_V1_def four del: length_ascii)
qed

text \<open>The governance tail appended to a target instruction comes off again: stripping an
  enveloped instruction returns the instruction and the expected gate epoch it was sent under.\<close>

theorem strip_of_envelope:
  "envelope_instruction_data_v1 legacy (tail_new epoch) = Inr data \<Longrightarrow>
     strip_governance_tail_v1 data = Inr (legacy, tail_new epoch) \<and> length data = length legacy + 16"
proof -
  assume env: "envelope_instruction_data_v1 legacy (tail_new epoch) = Inr data"
  let ?t = "ascii ''AGV1'' @ [1] @ [0, 0, 0] @ wr_u64 epoch"
  from env have data: "data = legacy @ ?t"
    by (auto simp: envelope_instruction_data_v1_def result_simps tail_encode_new)
  have "tail_decode ?t = Inr (tail_new epoch)"
    by (simp add: tail_decode_def require_length_def GOVERNANCE_TAIL_LEN_def
        GOVERNANCE_TAIL_MAGIC_def GOVERNANCE_TAIL_VERSION_V1_def subslice_def nth_append numeral_3_eq_3)
  with data show ?thesis
    by (simp add: strip_governance_tail_v1_def GOVERNANCE_TAIL_LEN_def Let_def)
qed

theorem strip_of_envelope_witness:
  "\<exists>data. envelope_instruction_data_v1 [216] (tail_new 5) = Inr data \<and>
     strip_governance_tail_v1 data = Inr ([216], tail_new 5)"
proof -
  have "envelope_instruction_data_v1 [216] (tail_new 5) = Inr ([216] @ ascii ''AGV1'' @ [1] @ [0, 0, 0] @ wr_u64 5)"
    by (simp add: envelope_instruction_data_v1_def checked_usize_def GOVERNANCE_TAIL_LEN_def tail_encode_new)
  from strip_of_envelope [OF this] this show ?thesis by blast
qed

end
