(* ===== verification/Controller_Accounts.thy ===== *)
theory Controller_Accounts
  imports Gate
begin

text \<open>
  The Version 1 accounts of \<open>upgrade_controller/src/state.rs\<close> beside the gate: the controller
  configuration, the governance policy, the council set and the upgrade proposal, with their Borsh
  layouts, fixed lengths and the static validation of the configuration.
\<close>

section \<open>Encoders are injective\<close>

lemma le_bytes_inject:
  "LENGTH('a) \<le> 8 * n \<Longrightarrow> le_bytes n (v :: 'a::len word) = le_bytes n w \<longleftrightarrow> v = w"
  by (metis le_word_le_bytes)

lemma wr_bool_inject: "wr_bool a = wr_bool b \<longleftrightarrow> a = b"
  by (simp add: wr_bool_def)

section \<open>Enumerations of one byte\<close>

text \<open>The macro \<open>fixed_u8_enum_borsh\<close>: one byte out, and in the first variant with that byte.\<close>

definition enum_of_byte :: "('a \<Rightarrow> byte) \<Rightarrow> 'a list \<Rightarrow> byte \<Rightarrow> 'a option" where
  "enum_of_byte to_byte variants b = find (\<lambda>v. to_byte v = b) variants"

definition ser_enum :: "('a \<Rightarrow> byte) \<Rightarrow> 'a \<Rightarrow> byte list" where
  "ser_enum to_byte v = [to_byte v]"

definition de_enum :: "('a \<Rightarrow> byte) \<Rightarrow> 'a list \<Rightarrow> 'a reader" where
  "de_enum to_byte variants bs = (case bs of [] \<Rightarrow> None
     | b # r \<Rightarrow> map_option (\<lambda>v. (v, r)) (enum_of_byte to_byte variants b))"

locale byte_enum =
  fixes to_byte :: "'a \<Rightarrow> byte" and variants :: "'a list"
  assumes bytes_distinct: "distinct (map to_byte variants)"
    and all_variants: "v \<in> set variants"
begin

lemma to_byte_inject: "to_byte v = to_byte w \<longleftrightarrow> v = w"
  using bytes_distinct all_variants [of v] all_variants [of w] by (auto simp: distinct_map dest: inj_onD)

lemma of_byte_Some: "enum_of_byte to_byte variants b = Some v \<longleftrightarrow> b = to_byte v"
proof
  assume "enum_of_byte to_byte variants b = Some v"
  then show "b = to_byte v" by (auto simp: enum_of_byte_def find_Some_iff)
next
  assume b: "b = to_byte v"
  have "enum_of_byte to_byte variants b \<noteq> None"
    using all_variants b by (auto simp: enum_of_byte_def find_None_iff)
  then obtain w where w: "enum_of_byte to_byte variants b = Some w" by blast
  then have "b = to_byte w" by (auto simp: enum_of_byte_def find_Some_iff)
  with w b show "enum_of_byte to_byte variants b = Some v" by (simp add: to_byte_inject)
qed

end

sublocale byte_enum \<subseteq> borsh_codec "ser_enum to_byte" "de_enum to_byte variants" "\<lambda>_. True" 1
  by unfold_locales
    (auto simp: ser_enum_def de_enum_def of_byte_Some split: list.splits)

text \<open>\<open>GovernanceModeV1\<close> has one variant, so its type is the unit of the model.\<close>

datatype governance_mode_v1 =
  BootstrapCouncilOnly

fun governance_mode_byte :: "governance_mode_v1 \<Rightarrow> byte" where
  "governance_mode_byte BootstrapCouncilOnly = 0"

definition GOVERNANCE_MODES :: "governance_mode_v1 list" where
  "GOVERNANCE_MODES = [BootstrapCouncilOnly]"

interpretation governance_mode_codec: byte_enum governance_mode_byte GOVERNANCE_MODES
proof
  show "distinct (map governance_mode_byte GOVERNANCE_MODES)" by (simp add: GOVERNANCE_MODES_def)
  show "v \<in> set GOVERNANCE_MODES" for v by (cases v) (simp_all add: GOVERNANCE_MODES_def)
qed

datatype checkpoint_phase_v1 =
  Prestate | Poststate

fun checkpoint_phase_byte :: "checkpoint_phase_v1 \<Rightarrow> byte" where
  "checkpoint_phase_byte Prestate = 0"
| "checkpoint_phase_byte Poststate = 1"

definition CHECKPOINT_PHASES :: "checkpoint_phase_v1 list" where
  "CHECKPOINT_PHASES = [Prestate, Poststate]"

interpretation checkpoint_phase_codec: byte_enum checkpoint_phase_byte CHECKPOINT_PHASES
proof
  show "distinct (map checkpoint_phase_byte CHECKPOINT_PHASES)" by (simp add: CHECKPOINT_PHASES_def)
  show "v \<in> set CHECKPOINT_PHASES" for v by (cases v) (simp_all add: CHECKPOINT_PHASES_def)
qed

datatype proposal_class_v1 =
  RoutineUpgrade | EmergencyRollback | EconomicChange | ConstitutionalChange
| CouncilSetRotation | TargetImmutability

fun proposal_class_byte :: "proposal_class_v1 \<Rightarrow> byte" where
  "proposal_class_byte RoutineUpgrade = 0"
| "proposal_class_byte EmergencyRollback = 1"
| "proposal_class_byte EconomicChange = 2"
| "proposal_class_byte ConstitutionalChange = 3"
| "proposal_class_byte CouncilSetRotation = 4"
| "proposal_class_byte TargetImmutability = 5"

definition PROPOSAL_CLASSES :: "proposal_class_v1 list" where
  "PROPOSAL_CLASSES = [RoutineUpgrade, EmergencyRollback, EconomicChange, ConstitutionalChange,
     CouncilSetRotation, TargetImmutability]"

interpretation proposal_class_codec: byte_enum proposal_class_byte PROPOSAL_CLASSES
proof
  show "distinct (map proposal_class_byte PROPOSAL_CLASSES)" by (simp add: PROPOSAL_CLASSES_def)
  show "v \<in> set PROPOSAL_CLASSES" for v by (cases v) (simp_all add: PROPOSAL_CLASSES_def)
qed

datatype proposal_state_v1 =
  Draft | BufferAdopted | BufferVerified | CouncilApproved | TokenReviewOpen
| GovernanceSatisfied | Timelocked | Frozen | Extended | UpgradeExecuted
| ProgramDataVerified | PoststateAccepted | UnfreezeApproved | Completed | Cancelled
| Expired

fun proposal_state_byte :: "proposal_state_v1 \<Rightarrow> byte" where
  "proposal_state_byte Draft = 0"
| "proposal_state_byte BufferAdopted = 1"
| "proposal_state_byte BufferVerified = 2"
| "proposal_state_byte CouncilApproved = 3"
| "proposal_state_byte TokenReviewOpen = 4"
| "proposal_state_byte GovernanceSatisfied = 5"
| "proposal_state_byte Timelocked = 6"
| "proposal_state_byte Frozen = 7"
| "proposal_state_byte Extended = 8"
| "proposal_state_byte UpgradeExecuted = 9"
| "proposal_state_byte ProgramDataVerified = 10"
| "proposal_state_byte PoststateAccepted = 11"
| "proposal_state_byte UnfreezeApproved = 12"
| "proposal_state_byte Completed = 13"
| "proposal_state_byte Cancelled = 14"
| "proposal_state_byte Expired = 15"

definition PROPOSAL_STATES :: "proposal_state_v1 list" where
  "PROPOSAL_STATES = [Draft, BufferAdopted, BufferVerified, CouncilApproved, TokenReviewOpen,
     GovernanceSatisfied, Timelocked, Frozen, Extended, UpgradeExecuted, ProgramDataVerified,
     PoststateAccepted, UnfreezeApproved, Completed, Cancelled, Expired]"

interpretation proposal_state_codec: byte_enum proposal_state_byte PROPOSAL_STATES
proof
  show "distinct (map proposal_state_byte PROPOSAL_STATES)" by (simp add: PROPOSAL_STATES_def)
  show "v \<in> set PROPOSAL_STATES" for v by (cases v) (simp_all add: PROPOSAL_STATES_def)
qed

definition is_terminal :: "proposal_state_v1 \<Rightarrow> bool" where
  "is_terminal s \<longleftrightarrow> s \<in> {Completed, Cancelled, Expired}"

definition is_frozen_or_later :: "proposal_state_v1 \<Rightarrow> bool" where
  "is_frozen_or_later s \<longleftrightarrow>
     s \<in> {Frozen, Extended, UpgradeExecuted, ProgramDataVerified, PoststateAccepted, UnfreezeApproved, Completed}"

text \<open>\<open>VoteRequirementV1\<close>; \<open>NoVote\<close> is its variant \<open>None\<close>.\<close>

datatype vote_requirement_v1 =
  NoVote | Veto | Affirmative

fun vote_requirement_byte :: "vote_requirement_v1 \<Rightarrow> byte" where
  "vote_requirement_byte NoVote = 0"
| "vote_requirement_byte Veto = 1"
| "vote_requirement_byte Affirmative = 2"

definition VOTE_REQUIREMENTS :: "vote_requirement_v1 list" where
  "VOTE_REQUIREMENTS = [NoVote, Veto, Affirmative]"

interpretation vote_requirement_codec: byte_enum vote_requirement_byte VOTE_REQUIREMENTS
proof
  show "distinct (map vote_requirement_byte VOTE_REQUIREMENTS)" by (simp add: VOTE_REQUIREMENTS_def)
  show "v \<in> set VOTE_REQUIREMENTS" for v by (cases v) (simp_all add: VOTE_REQUIREMENTS_def)
qed

section \<open>Optional keys\<close>

record optional_pubkey_v1 =
  op_present :: bool
  op_value :: pubkey

definition OPTIONAL_PUBKEY_LEN :: nat where "OPTIONAL_PUBKEY_LEN = 33"

definition ser_optional_pubkey_v1 :: "optional_pubkey_v1 \<Rightarrow> byte list" where
  "ser_optional_pubkey_v1 x = wr_bool (op_present x) @ wr_32 (op_value x)"

definition de_optional_pubkey_v1 :: "optional_pubkey_v1 reader" where
  "de_optional_pubkey_v1 bs = do {
     (present, bs) \<leftarrow> rd_bool bs; (key, bs) \<leftarrow> rd_32 bs;
     Some (\<lparr>op_present = present, op_value = key\<rparr>, bs) }"

interpretation optional_pubkey_codec: borsh_codec ser_optional_pubkey_v1 de_optional_pubkey_v1 "\<lambda>_. True" OPTIONAL_PUBKEY_LEN
  by unfold_locales
    (auto simp: ser_optional_pubkey_v1_def de_optional_pubkey_v1_def OPTIONAL_PUBKEY_LEN_def
      bind_eq_Some_conv dest!: borsh_readD)

definition optional_none :: optional_pubkey_v1 where
  "optional_none = \<lparr>op_present = False, op_value = 0\<rparr>"

definition optional_some :: "pubkey \<Rightarrow> governance_error + optional_pubkey_v1" where
  "optional_some key = (if key = 0 then Inl DefaultPubkey else Inr \<lparr>op_present = True, op_value = key\<rparr>)"

definition optional_validate :: "optional_pubkey_v1 \<Rightarrow> governance_error + unit" where
  "optional_validate x =
     (case (op_present x, op_value x = 0) of
        (False, True) \<Rightarrow> Inr ()
      | (True, False) \<Rightarrow> Inr ()
      | _ \<Rightarrow> Inl InvalidOptionalPubkey)"

lemma optional_validate_ok [result_simps]: "optional_validate x = Inr u \<longleftrightarrow> op_present x = (op_value x \<noteq> 0)"
  by (auto simp: optional_validate_def split: bool.splits)

text \<open>Reading the fields above back, for the codecs of the accounts.\<close>

lemmas governance_mode_codec_readD = governance_mode_codec.ser_de
lemmas proposal_class_codec_readD = proposal_class_codec.ser_de
lemmas proposal_state_codec_readD = proposal_state_codec.ser_de
lemmas vote_requirement_codec_readD = vote_requirement_codec.ser_de
lemmas optional_pubkey_codec_readD = optional_pubkey_codec.ser_de

section \<open>The controller configuration\<close>

definition CONTROLLER_CONFIG_LEN :: nat where "CONTROLLER_CONFIG_LEN = 512"

record controller_config_v1 =
  cc_discriminator :: "byte list"
  cc_version :: byte
  cc_bump :: byte
  cc_initialized :: bool
  cc_cluster_domain :: hash32
  cc_target_program :: pubkey
  cc_target_programdata :: pubkey
  cc_upgradeable_loader :: pubkey
  cc_authority_pda :: pubkey
  cc_gate_pda :: pubkey
  cc_canonical_spill_treasury :: pubkey
  cc_current_council_version :: u64
  cc_current_policy_version :: u64
  cc_next_proposal_id :: u64
  cc_target_nonce :: u64
  cc_guardian :: pubkey
  cc_vote_program :: pubkey
  cc_vote_programdata :: pubkey
  cc_vote_config :: pubkey
  cc_vote_mint :: pubkey
  cc_token_governance_enabled :: bool
  cc_routine_delay_slots :: u64
  cc_major_delay_slots :: u64
  cc_rollback_delay_slots :: u64
  cc_terminal_delay_slots :: u64
  cc_vote_review_slots :: u64
  cc_proposal_expiry_slots :: u64
  cc_policy_flags :: u64
  cc_reserved :: "byte list"

definition wf_controller_config_v1 :: "controller_config_v1 \<Rightarrow> bool" where
  "wf_controller_config_v1 x \<longleftrightarrow>
     length (cc_discriminator x) = 8 \<and> length (cc_reserved x) = 28"

definition ser_controller_config_v1 :: "controller_config_v1 \<Rightarrow> byte list" where
  "ser_controller_config_v1 x =
     cc_discriminator x @ wr_u8 (cc_version x) @ wr_u8 (cc_bump x) @ wr_bool (cc_initialized x) @
     wr_32 (cc_cluster_domain x) @ wr_32 (cc_target_program x) @ wr_32 (cc_target_programdata x) @
     wr_32 (cc_upgradeable_loader x) @ wr_32 (cc_authority_pda x) @ wr_32 (cc_gate_pda x) @
     wr_32 (cc_canonical_spill_treasury x) @ wr_u64 (cc_current_council_version x) @
     wr_u64 (cc_current_policy_version x) @ wr_u64 (cc_next_proposal_id x) @
     wr_u64 (cc_target_nonce x) @ wr_32 (cc_guardian x) @ wr_32 (cc_vote_program x) @
     wr_32 (cc_vote_programdata x) @ wr_32 (cc_vote_config x) @ wr_32 (cc_vote_mint x) @
     wr_bool (cc_token_governance_enabled x) @ wr_u64 (cc_routine_delay_slots x) @
     wr_u64 (cc_major_delay_slots x) @ wr_u64 (cc_rollback_delay_slots x) @
     wr_u64 (cc_terminal_delay_slots x) @ wr_u64 (cc_vote_review_slots x) @
     wr_u64 (cc_proposal_expiry_slots x) @ wr_u64 (cc_policy_flags x) @ cc_reserved x"

definition de_controller_config_v1 :: "controller_config_v1 reader" where
  "de_controller_config_v1 bs = do {
     (discriminator, bs) \<leftarrow> rd_bytes 8 bs; (version, bs) \<leftarrow> rd_u8 bs;
     (bump, bs) \<leftarrow> rd_u8 bs; (initialized, bs) \<leftarrow> rd_bool bs;
     (cluster_domain, bs) \<leftarrow> rd_32 bs; (target_program, bs) \<leftarrow> rd_32 bs;
     (target_programdata, bs) \<leftarrow> rd_32 bs; (upgradeable_loader, bs) \<leftarrow> rd_32 bs;
     (authority_pda, bs) \<leftarrow> rd_32 bs; (gate_pda, bs) \<leftarrow> rd_32 bs;
     (canonical_spill_treasury, bs) \<leftarrow> rd_32 bs;
     (current_council_version, bs) \<leftarrow> rd_u64 bs;
     (current_policy_version, bs) \<leftarrow> rd_u64 bs;
     (next_proposal_id, bs) \<leftarrow> rd_u64 bs; (target_nonce, bs) \<leftarrow> rd_u64 bs;
     (guardian, bs) \<leftarrow> rd_32 bs; (vote_program, bs) \<leftarrow> rd_32 bs;
     (vote_programdata, bs) \<leftarrow> rd_32 bs; (vote_config, bs) \<leftarrow> rd_32 bs;
     (vote_mint, bs) \<leftarrow> rd_32 bs; (token_governance_enabled, bs) \<leftarrow> rd_bool bs;
     (routine_delay_slots, bs) \<leftarrow> rd_u64 bs;
     (major_delay_slots, bs) \<leftarrow> rd_u64 bs;
     (rollback_delay_slots, bs) \<leftarrow> rd_u64 bs;
     (terminal_delay_slots, bs) \<leftarrow> rd_u64 bs;
     (vote_review_slots, bs) \<leftarrow> rd_u64 bs;
     (proposal_expiry_slots, bs) \<leftarrow> rd_u64 bs; (policy_flags, bs) \<leftarrow> rd_u64 bs;
     (reserved, bs) \<leftarrow> rd_bytes 28 bs;
     Some (\<lparr>cc_discriminator = discriminator, cc_version = version, cc_bump = bump,
            cc_initialized = initialized, cc_cluster_domain = cluster_domain,
            cc_target_program = target_program, cc_target_programdata = target_programdata,
            cc_upgradeable_loader = upgradeable_loader, cc_authority_pda = authority_pda,
            cc_gate_pda = gate_pda, cc_canonical_spill_treasury = canonical_spill_treasury,
            cc_current_council_version = current_council_version,
            cc_current_policy_version = current_policy_version,
            cc_next_proposal_id = next_proposal_id, cc_target_nonce = target_nonce,
            cc_guardian = guardian, cc_vote_program = vote_program,
            cc_vote_programdata = vote_programdata, cc_vote_config = vote_config,
            cc_vote_mint = vote_mint, cc_token_governance_enabled = token_governance_enabled,
            cc_routine_delay_slots = routine_delay_slots, cc_major_delay_slots = major_delay_slots,
            cc_rollback_delay_slots = rollback_delay_slots,
            cc_terminal_delay_slots = terminal_delay_slots,
            cc_vote_review_slots = vote_review_slots,
            cc_proposal_expiry_slots = proposal_expiry_slots, cc_policy_flags = policy_flags,
            cc_reserved = reserved\<rparr>, bs) }"

interpretation controller_config_codec: borsh_codec ser_controller_config_v1 de_controller_config_v1 wf_controller_config_v1 CONTROLLER_CONFIG_LEN
proof
  fix x :: controller_config_v1 and r
  show "wf_controller_config_v1 x \<Longrightarrow> de_controller_config_v1 (ser_controller_config_v1 x @ r) = Some (x, r)"
    by (simp add: ser_controller_config_v1_def de_controller_config_v1_def wf_controller_config_v1_def )
  show "wf_controller_config_v1 x \<Longrightarrow> length (ser_controller_config_v1 x) = CONTROLLER_CONFIG_LEN"
    by (simp add: ser_controller_config_v1_def wf_controller_config_v1_def CONTROLLER_CONFIG_LEN_def )
next
  fix bs r and x :: controller_config_v1 assume "de_controller_config_v1 bs = Some (x, r)"
  then show "bs = ser_controller_config_v1 x @ r" "wf_controller_config_v1 x"
    by (auto simp: de_controller_config_v1_def ser_controller_config_v1_def wf_controller_config_v1_def bind_eq_Some_conv
        dest!: borsh_readD )
qed

definition CONTROLLER_CONFIG_DISCRIMINATOR :: "byte list" where
  "CONTROLLER_CONFIG_DISCRIMINATOR = ascii ''AGVCFG01''"

definition RELEASE1_MIN_ROLLBACK_DELAY_SLOTS :: u64 where "RELEASE1_MIN_ROLLBACK_DELAY_SLOTS = 5"
definition RELEASE1_MIN_ROUTINE_DELAY_SLOTS :: u64 where "RELEASE1_MIN_ROUTINE_DELAY_SLOTS = 10"
definition RELEASE1_MIN_MAJOR_DELAY_SLOTS :: u64 where "RELEASE1_MIN_MAJOR_DELAY_SLOTS = 20"
definition RELEASE1_MIN_TERMINAL_DELAY_SLOTS :: u64 where "RELEASE1_MIN_TERMINAL_DELAY_SLOTS = 30"
definition RELEASE1_MIN_COUNCIL_REVIEW_SLOTS :: u64 where "RELEASE1_MIN_COUNCIL_REVIEW_SLOTS = 7"
definition RELEASE1_MIN_PROPOSAL_EXPIRY_SLOTS :: u64 where "RELEASE1_MIN_PROPOSAL_EXPIRY_SLOTS = 50"

definition config_validate_static :: "controller_config_v1 \<Rightarrow> governance_error + unit" where
  "config_validate_static c =
     bnd (validate_header (cc_discriminator c) CONTROLLER_CONFIG_DISCRIMINATOR (cc_version c)
            (cc_initialized c) (cc_reserved c)) (\<lambda>_.
     bnd (ok_or (do { s \<leftarrow> checked_add 1 (cc_vote_review_slots c);
                      s \<leftarrow> checked_add s (cc_major_delay_slots c);
                      s \<leftarrow> checked_add s (cc_vote_review_slots c);
                      checked_add s 2 }) InvalidControllerConfig) (\<lambda>minimum_expiry_slots.
     if cc_cluster_domain c = 0
        \<or> 0 \<in> set [cc_target_program c, cc_target_programdata c, cc_upgradeable_loader c,
                   cc_authority_pda c, cc_gate_pda c, cc_canonical_spill_treasury c, cc_guardian c]
        \<or> cc_current_council_version c = 0 \<or> cc_current_policy_version c = 0
        \<or> cc_next_proposal_id c = 0 \<or> cc_target_nonce c = 0
        \<or> cc_routine_delay_slots c < RELEASE1_MIN_ROUTINE_DELAY_SLOTS
        \<or> cc_major_delay_slots c < RELEASE1_MIN_MAJOR_DELAY_SLOTS
        \<or> cc_rollback_delay_slots c < RELEASE1_MIN_ROLLBACK_DELAY_SLOTS
        \<or> cc_terminal_delay_slots c < RELEASE1_MIN_TERMINAL_DELAY_SLOTS
        \<or> cc_vote_review_slots c < RELEASE1_MIN_COUNCIL_REVIEW_SLOTS
        \<or> cc_proposal_expiry_slots c < RELEASE1_MIN_PROPOSAL_EXPIRY_SLOTS
        \<or> cc_rollback_delay_slots c > cc_routine_delay_slots c
        \<or> cc_routine_delay_slots c > cc_major_delay_slots c
        \<or> cc_major_delay_slots c > cc_terminal_delay_slots c
        \<or> cc_major_delay_slots c \<ge> cc_proposal_expiry_slots c
        \<or> cc_vote_review_slots c \<ge> cc_proposal_expiry_slots c
        \<or> minimum_expiry_slots \<ge> cc_proposal_expiry_slots c
        \<or> cc_policy_flags c \<noteq> 0
     then Inl InvalidControllerConfig
     else let vote_keys = [cc_vote_program c, cc_vote_programdata c, cc_vote_config c, cc_vote_mint c] in
       if cc_token_governance_enabled c \<or> (\<exists>key \<in> set vote_keys. key \<noteq> 0)
       then Inl InvalidControllerConfig else Inr ()))"

section \<open>The governance policy\<close>

definition GOVERNANCE_POLICY_LEN :: nat where "GOVERNANCE_POLICY_LEN = 160"

record governance_policy_v1 =
  gp_discriminator :: "byte list"
  gp_account_version :: byte
  gp_bump :: byte
  gp_initialized :: bool
  gp_controller_config :: pubkey
  gp_version :: u64
  gp_target_program :: pubkey
  gp_activation_slot :: u64
  gp_council_size :: byte
  gp_routine_threshold :: byte
  gp_terminal_threshold :: byte
  gp_governance_mode :: governance_mode_v1
  gp_policy_flags :: byte
  gp_veto_quorum_bps :: u16
  gp_affirmative_quorum_bps :: u16
  gp_affirmative_approval_bps :: u16
  gp_routine_requires_vote :: bool
  gp_economic_requires_vote :: bool
  gp_constitutional_requires_vote :: bool
  gp_rotation_requires_vote :: bool
  gp_immutability_requires_vote :: bool
  gp_policy_hash :: hash32
  gp_reserved :: "byte list"

definition wf_governance_policy_v1 :: "governance_policy_v1 \<Rightarrow> bool" where
  "wf_governance_policy_v1 x \<longleftrightarrow>
     length (gp_discriminator x) = 8 \<and> length (gp_reserved x) = 21"

definition ser_governance_policy_v1 :: "governance_policy_v1 \<Rightarrow> byte list" where
  "ser_governance_policy_v1 x =
     gp_discriminator x @ wr_u8 (gp_account_version x) @ wr_u8 (gp_bump x) @
     wr_bool (gp_initialized x) @ wr_32 (gp_controller_config x) @ wr_u64 (gp_version x) @
     wr_32 (gp_target_program x) @ wr_u64 (gp_activation_slot x) @ wr_u8 (gp_council_size x) @
     wr_u8 (gp_routine_threshold x) @ wr_u8 (gp_terminal_threshold x) @
     ser_enum governance_mode_byte (gp_governance_mode x) @ wr_u8 (gp_policy_flags x) @
     wr_u16 (gp_veto_quorum_bps x) @ wr_u16 (gp_affirmative_quorum_bps x) @
     wr_u16 (gp_affirmative_approval_bps x) @ wr_bool (gp_routine_requires_vote x) @
     wr_bool (gp_economic_requires_vote x) @ wr_bool (gp_constitutional_requires_vote x) @
     wr_bool (gp_rotation_requires_vote x) @ wr_bool (gp_immutability_requires_vote x) @
     wr_32 (gp_policy_hash x) @ gp_reserved x"

definition de_governance_policy_v1 :: "governance_policy_v1 reader" where
  "de_governance_policy_v1 bs = do {
     (discriminator, bs) \<leftarrow> rd_bytes 8 bs; (account_version, bs) \<leftarrow> rd_u8 bs;
     (bump, bs) \<leftarrow> rd_u8 bs; (initialized, bs) \<leftarrow> rd_bool bs;
     (controller_config, bs) \<leftarrow> rd_32 bs; (version, bs) \<leftarrow> rd_u64 bs;
     (target_program, bs) \<leftarrow> rd_32 bs; (activation_slot, bs) \<leftarrow> rd_u64 bs;
     (council_size, bs) \<leftarrow> rd_u8 bs; (routine_threshold, bs) \<leftarrow> rd_u8 bs;
     (terminal_threshold, bs) \<leftarrow> rd_u8 bs;
     (governance_mode, bs) \<leftarrow> de_enum governance_mode_byte GOVERNANCE_MODES bs;
     (policy_flags, bs) \<leftarrow> rd_u8 bs; (veto_quorum_bps, bs) \<leftarrow> rd_u16 bs;
     (affirmative_quorum_bps, bs) \<leftarrow> rd_u16 bs;
     (affirmative_approval_bps, bs) \<leftarrow> rd_u16 bs;
     (routine_requires_vote, bs) \<leftarrow> rd_bool bs;
     (economic_requires_vote, bs) \<leftarrow> rd_bool bs;
     (constitutional_requires_vote, bs) \<leftarrow> rd_bool bs;
     (rotation_requires_vote, bs) \<leftarrow> rd_bool bs;
     (immutability_requires_vote, bs) \<leftarrow> rd_bool bs;
     (policy_hash, bs) \<leftarrow> rd_32 bs; (reserved, bs) \<leftarrow> rd_bytes 21 bs;
     Some (\<lparr>gp_discriminator = discriminator, gp_account_version = account_version, gp_bump = bump,
            gp_initialized = initialized, gp_controller_config = controller_config,
            gp_version = version, gp_target_program = target_program,
            gp_activation_slot = activation_slot, gp_council_size = council_size,
            gp_routine_threshold = routine_threshold, gp_terminal_threshold = terminal_threshold,
            gp_governance_mode = governance_mode, gp_policy_flags = policy_flags,
            gp_veto_quorum_bps = veto_quorum_bps,
            gp_affirmative_quorum_bps = affirmative_quorum_bps,
            gp_affirmative_approval_bps = affirmative_approval_bps,
            gp_routine_requires_vote = routine_requires_vote,
            gp_economic_requires_vote = economic_requires_vote,
            gp_constitutional_requires_vote = constitutional_requires_vote,
            gp_rotation_requires_vote = rotation_requires_vote,
            gp_immutability_requires_vote = immutability_requires_vote,
            gp_policy_hash = policy_hash, gp_reserved = reserved\<rparr>, bs) }"

interpretation governance_policy_codec: borsh_codec ser_governance_policy_v1 de_governance_policy_v1 wf_governance_policy_v1 GOVERNANCE_POLICY_LEN
proof
  fix x :: governance_policy_v1 and r
  show "wf_governance_policy_v1 x \<Longrightarrow> de_governance_policy_v1 (ser_governance_policy_v1 x @ r) = Some (x, r)"
    by (simp add: ser_governance_policy_v1_def de_governance_policy_v1_def wf_governance_policy_v1_def governance_mode_codec.de_ser governance_mode_codec.ser_size)
  show "wf_governance_policy_v1 x \<Longrightarrow> length (ser_governance_policy_v1 x) = GOVERNANCE_POLICY_LEN"
    by (simp add: ser_governance_policy_v1_def wf_governance_policy_v1_def GOVERNANCE_POLICY_LEN_def governance_mode_codec.de_ser governance_mode_codec.ser_size)
next
  fix bs r and x :: governance_policy_v1 assume "de_governance_policy_v1 bs = Some (x, r)"
  then show "bs = ser_governance_policy_v1 x @ r" "wf_governance_policy_v1 x"
    by (auto simp: de_governance_policy_v1_def ser_governance_policy_v1_def wf_governance_policy_v1_def bind_eq_Some_conv
        dest!: borsh_readD governance_mode_codec_readD)
qed

section \<open>The council set\<close>

definition COUNCIL_SEAT_LEN :: nat where "COUNCIL_SEAT_LEN = 96"

record council_seat_v1 =
  se_seat_authority :: pubkey
  se_term_start_slot :: u64
  se_term_end_slot :: u64
  se_active :: bool
  se_reserved :: "byte list"

definition wf_council_seat_v1 :: "council_seat_v1 \<Rightarrow> bool" where
  "wf_council_seat_v1 x \<longleftrightarrow>
     length (se_reserved x) = 47"

definition ser_council_seat_v1 :: "council_seat_v1 \<Rightarrow> byte list" where
  "ser_council_seat_v1 x =
     wr_32 (se_seat_authority x) @ wr_u64 (se_term_start_slot x) @ wr_u64 (se_term_end_slot x) @
     wr_bool (se_active x) @ se_reserved x"

definition de_council_seat_v1 :: "council_seat_v1 reader" where
  "de_council_seat_v1 bs = do {
     (seat_authority, bs) \<leftarrow> rd_32 bs; (term_start_slot, bs) \<leftarrow> rd_u64 bs;
     (term_end_slot, bs) \<leftarrow> rd_u64 bs; (active, bs) \<leftarrow> rd_bool bs;
     (reserved, bs) \<leftarrow> rd_bytes 47 bs;
     Some (\<lparr>se_seat_authority = seat_authority, se_term_start_slot = term_start_slot,
            se_term_end_slot = term_end_slot, se_active = active, se_reserved = reserved\<rparr>, bs) }"

interpretation council_seat_codec: borsh_codec ser_council_seat_v1 de_council_seat_v1 wf_council_seat_v1 COUNCIL_SEAT_LEN
proof
  fix x :: council_seat_v1 and r
  show "wf_council_seat_v1 x \<Longrightarrow> de_council_seat_v1 (ser_council_seat_v1 x @ r) = Some (x, r)"
    by (simp add: ser_council_seat_v1_def de_council_seat_v1_def wf_council_seat_v1_def )
  show "wf_council_seat_v1 x \<Longrightarrow> length (ser_council_seat_v1 x) = COUNCIL_SEAT_LEN"
    by (simp add: ser_council_seat_v1_def wf_council_seat_v1_def COUNCIL_SEAT_LEN_def )
next
  fix bs r and x :: council_seat_v1 assume "de_council_seat_v1 bs = Some (x, r)"
  then show "bs = ser_council_seat_v1 x @ r" "wf_council_seat_v1 x"
    by (auto simp: de_council_seat_v1_def ser_council_seat_v1_def wf_council_seat_v1_def bind_eq_Some_conv
        dest!: borsh_readD )
qed

definition seat_default :: council_seat_v1 where
  "seat_default =
     \<lparr>se_seat_authority = 0, se_term_start_slot = 0, se_term_end_slot = 0, se_active = False,
      se_reserved = replicate 47 0\<rparr>"

definition seat_in_term :: "council_seat_v1 \<Rightarrow> u64 \<Rightarrow> bool" where
  "seat_in_term s slot \<longleftrightarrow> se_active s \<and> se_term_start_slot s \<le> slot \<and> slot < se_term_end_slot s"

lemma council_seat_rd_ser:
  "length xs = n \<Longrightarrow> \<forall>s \<in> set xs. wf_council_seat_v1 s \<Longrightarrow>
     rd_array n de_council_seat_v1 (concat (map ser_council_seat_v1 xs) @ r) = Some (xs, r)"
  using council_seat_codec.rd_array_ser [of xs r] by auto

lemma council_seat_size:
  "\<forall>s \<in> set xs. wf_council_seat_v1 s \<Longrightarrow> length (concat (map ser_council_seat_v1 xs)) = 96 * length xs"
  using council_seat_codec.array_size [of xs] by (simp add: COUNCIL_SEAT_LEN_def)

definition COUNCIL_SET_LEN :: nat where "COUNCIL_SET_LEN = 640"

record council_set_v1 =
  gc_discriminator :: "byte list"
  gc_account_version :: byte
  gc_bump :: byte
  gc_initialized :: bool
  gc_controller_config :: pubkey
  gc_version :: u64
  gc_target_program :: pubkey
  gc_activation_slot :: u64
  gc_deactivation_slot :: u64
  gc_seats :: "council_seat_v1 list"
  gc_routine_threshold :: byte
  gc_terminal_threshold :: byte
  gc_policy_flags :: byte
  gc_set_hash :: hash32
  gc_reserved :: "byte list"

definition wf_council_set_v1 :: "council_set_v1 \<Rightarrow> bool" where
  "wf_council_set_v1 x \<longleftrightarrow>
     length (gc_discriminator x) = 8 \<and> length (gc_seats x) = 5 \<and> (\<forall>s \<in> set (gc_seats x). wf_council_seat_v1 s) \<and> length (gc_reserved x) = 26"

definition ser_council_set_v1 :: "council_set_v1 \<Rightarrow> byte list" where
  "ser_council_set_v1 x =
     gc_discriminator x @ wr_u8 (gc_account_version x) @ wr_u8 (gc_bump x) @
     wr_bool (gc_initialized x) @ wr_32 (gc_controller_config x) @ wr_u64 (gc_version x) @
     wr_32 (gc_target_program x) @ wr_u64 (gc_activation_slot x) @ wr_u64 (gc_deactivation_slot x) @
     concat (map ser_council_seat_v1 (gc_seats x)) @ wr_u8 (gc_routine_threshold x) @ wr_u8 (gc_terminal_threshold x) @
     wr_u8 (gc_policy_flags x) @ wr_32 (gc_set_hash x) @ gc_reserved x"

definition de_council_set_v1 :: "council_set_v1 reader" where
  "de_council_set_v1 bs = do {
     (discriminator, bs) \<leftarrow> rd_bytes 8 bs; (account_version, bs) \<leftarrow> rd_u8 bs;
     (bump, bs) \<leftarrow> rd_u8 bs; (initialized, bs) \<leftarrow> rd_bool bs;
     (controller_config, bs) \<leftarrow> rd_32 bs; (version, bs) \<leftarrow> rd_u64 bs;
     (target_program, bs) \<leftarrow> rd_32 bs; (activation_slot, bs) \<leftarrow> rd_u64 bs;
     (deactivation_slot, bs) \<leftarrow> rd_u64 bs;
     (seats, bs) \<leftarrow> rd_array 5 de_council_seat_v1 bs;
     (routine_threshold, bs) \<leftarrow> rd_u8 bs; (terminal_threshold, bs) \<leftarrow> rd_u8 bs;
     (policy_flags, bs) \<leftarrow> rd_u8 bs; (set_hash, bs) \<leftarrow> rd_32 bs;
     (reserved, bs) \<leftarrow> rd_bytes 26 bs;
     Some (\<lparr>gc_discriminator = discriminator, gc_account_version = account_version, gc_bump = bump,
            gc_initialized = initialized, gc_controller_config = controller_config,
            gc_version = version, gc_target_program = target_program,
            gc_activation_slot = activation_slot, gc_deactivation_slot = deactivation_slot,
            gc_seats = seats, gc_routine_threshold = routine_threshold,
            gc_terminal_threshold = terminal_threshold, gc_policy_flags = policy_flags,
            gc_set_hash = set_hash, gc_reserved = reserved\<rparr>, bs) }"

interpretation council_set_codec: borsh_codec ser_council_set_v1 de_council_set_v1 wf_council_set_v1 COUNCIL_SET_LEN
proof
  fix x :: council_set_v1 and r
  show "wf_council_set_v1 x \<Longrightarrow> de_council_set_v1 (ser_council_set_v1 x @ r) = Some (x, r)"
    by (simp add: ser_council_set_v1_def de_council_set_v1_def wf_council_set_v1_def council_seat_rd_ser council_seat_size)
  show "wf_council_set_v1 x \<Longrightarrow> length (ser_council_set_v1 x) = COUNCIL_SET_LEN"
    by (simp add: ser_council_set_v1_def wf_council_set_v1_def COUNCIL_SET_LEN_def council_seat_rd_ser council_seat_size)
next
  fix bs r and x :: council_set_v1 assume "de_council_set_v1 bs = Some (x, r)"
  then show "bs = ser_council_set_v1 x @ r" "wf_council_set_v1 x"
    by (auto simp: de_council_set_v1_def ser_council_set_v1_def wf_council_set_v1_def bind_eq_Some_conv
        dest!: borsh_readD council_seat_codec.ser_rd_array)
qed

definition active_at :: "council_set_v1 \<Rightarrow> u64 \<Rightarrow> bool" where
  "active_at c slot \<longleftrightarrow>
     gc_activation_slot c \<le> slot \<and> (gc_deactivation_slot c = 0 \<or> slot < gc_deactivation_slot c)"

definition GOVERNANCE_POLICY_DISCRIMINATOR :: "byte list" where
  "GOVERNANCE_POLICY_DISCRIMINATOR = ascii ''AGVPOL01''"
definition GOVERNANCE_COUNCIL_DISCRIMINATOR :: "byte list" where
  "GOVERNANCE_COUNCIL_DISCRIMINATOR = ascii ''AGVCNS01''"
definition UPGRADE_PROPOSAL_DISCRIMINATOR :: "byte list" where
  "UPGRADE_PROPOSAL_DISCRIMINATOR = ascii ''AGVPRP01''"

end
