(* ===== verification/Address_Derivation.thy ===== *)
theory Address_Derivation
  imports Controller_Accounts
begin

text \<open>
  The program-derived addresses of \<open>upgrade_controller/src/pda.rs\<close>.  \<open>find_program_address\<close> is a
  parameter; what the code decides is the list of seeds, and the runtime hashes their concatenation,
  so two derivations are told apart by the bytes of all seeds in a row.
\<close>

section \<open>Seeds\<close>

definition UPGRADE_SEED_DOMAIN_V1 :: "byte list" where "UPGRADE_SEED_DOMAIN_V1 = ascii ''ameba-upgrade-v1''"
definition TARGET_SEED :: "byte list" where "TARGET_SEED = ascii ''target''"
definition AUTHORITY_SEED :: "byte list" where "AUTHORITY_SEED = ascii ''authority''"
definition GATE_SEED :: "byte list" where "GATE_SEED = ascii ''gate''"
definition POLICY_SEED :: "byte list" where "POLICY_SEED = ascii ''policy''"
definition COUNCIL_SEED :: "byte list" where "COUNCIL_SEED = ascii ''council''"
definition PROPOSAL_SEED :: "byte list" where "PROPOSAL_SEED = ascii ''proposal''"
definition CHECKPOINT_SEED :: "byte list" where "CHECKPOINT_SEED = ascii ''checkpoint''"
definition BUFFER_CHECK_SEED :: "byte list" where "BUFFER_CHECK_SEED = ascii ''buffer-check''"
definition PROGRAMDATA_CHECK_SEED :: "byte list" where "PROGRAMDATA_CHECK_SEED = ascii ''programdata-check''"
definition EMERGENCY_RESOLUTION_SEED :: "byte list" where "EMERGENCY_RESOLUTION_SEED = ascii ''emergency-resolution''"
definition EMERGENCY_CHECKPOINT_SEED :: "byte list" where "EMERGENCY_CHECKPOINT_SEED = ascii ''emergency-checkpoint''"
definition EMERGENCY_RESOLUTION_V2_SEED :: "byte list" where "EMERGENCY_RESOLUTION_V2_SEED = ascii ''emergency-resolution-v2''"
definition EMERGENCY_CHECKPOINT_V2_SEED :: "byte list" where "EMERGENCY_CHECKPOINT_V2_SEED = ascii ''emergency-checkpoint-v2''"
definition COUNCIL_ROTATION_SEED :: "byte list" where "COUNCIL_ROTATION_SEED = ascii ''council-rotation''"
definition EMERGENCY_FREEZE_OBSERVATION_SEED :: "byte list" where "EMERGENCY_FREEZE_OBSERVATION_SEED = ascii ''emergency-observation''"
definition PROGRAMDATA_FAILURE_OBSERVATION_SEED :: "byte list" where "PROGRAMDATA_FAILURE_OBSERVATION_SEED = ascii ''programdata-failure''"
definition CHECKPOINT_ATTESTATION_SEED :: "byte list" where "CHECKPOINT_ATTESTATION_SEED = ascii ''checkpoint-attestation''"
definition CAPACITY_POLICY_SEED :: "byte list" where "CAPACITY_POLICY_SEED = ascii ''capacity-policy''"
definition CONTROLLER_RELEASE_SEED :: "byte list" where "CONTROLLER_RELEASE_SEED = ascii ''controller-release''"
definition PROGRAMDATA_OBSERVATION_SEED :: "byte list" where "PROGRAMDATA_OBSERVATION_SEED = ascii ''programdata-observation''"
definition DEPLOYMENT_STATE_SEED :: "byte list" where "DEPLOYMENT_STATE_SEED = ascii ''deployment-state''"
definition CONTROLLER_IMMUTABILITY_SEED :: "byte list" where "CONTROLLER_IMMUTABILITY_SEED = ascii ''controller-immutability''"
definition TARGET_HANDOFF_SEED :: "byte list" where "TARGET_HANDOFF_SEED = ascii ''handoff''"
definition TARGET_HANDOFF_RECEIPT_SEED :: "byte list" where "TARGET_HANDOFF_RECEIPT_SEED = ascii ''handoff-receipt''"
definition BOOTSTRAP_ACTIVATION_SEED :: "byte list" where "BOOTSTRAP_ACTIVATION_SEED = ascii ''bootstrap-activation''"
definition BOOTSTRAP_ACTIVATION_RECEIPT_SEED :: "byte list" where "BOOTSTRAP_ACTIVATION_RECEIPT_SEED = ascii ''activation-receipt''"

lemmas seed_defs =
  UPGRADE_SEED_DOMAIN_V1_def TARGET_SEED_def AUTHORITY_SEED_def
  GATE_SEED_def POLICY_SEED_def COUNCIL_SEED_def
  PROPOSAL_SEED_def CHECKPOINT_SEED_def BUFFER_CHECK_SEED_def
  PROGRAMDATA_CHECK_SEED_def EMERGENCY_RESOLUTION_SEED_def EMERGENCY_CHECKPOINT_SEED_def
  EMERGENCY_RESOLUTION_V2_SEED_def EMERGENCY_CHECKPOINT_V2_SEED_def COUNCIL_ROTATION_SEED_def
  EMERGENCY_FREEZE_OBSERVATION_SEED_def PROGRAMDATA_FAILURE_OBSERVATION_SEED_def CHECKPOINT_ATTESTATION_SEED_def
  CAPACITY_POLICY_SEED_def CONTROLLER_RELEASE_SEED_def PROGRAMDATA_OBSERVATION_SEED_def
  DEPLOYMENT_STATE_SEED_def CONTROLLER_IMMUTABILITY_SEED_def TARGET_HANDOFF_SEED_def
  TARGET_HANDOFF_RECEIPT_SEED_def BOOTSTRAP_ACTIVATION_SEED_def BOOTSTRAP_ACTIVATION_RECEIPT_SEED_def

section \<open>Derivations\<close>

definition derive_upgradeable_programdata_address :: "env \<Rightarrow> pubkey \<Rightarrow> pubkey \<times> byte" where
  "derive_upgradeable_programdata_address E target_program =
     find_program_address E [wr_32 target_program] (loader_id E)"

definition derive_controller_config_pda ::
    "env \<Rightarrow> pubkey \<Rightarrow> pubkey \<Rightarrow> pubkey \<times> byte" where
  "derive_controller_config_pda E controller_program target_program =
     find_program_address E [UPGRADE_SEED_DOMAIN_V1, TARGET_SEED, wr_32 target_program]
       controller_program"

definition derive_authority_pda ::
    "env \<Rightarrow> pubkey \<Rightarrow> pubkey \<Rightarrow> pubkey \<times> byte" where
  "derive_authority_pda E controller_program target_program =
     find_program_address E [UPGRADE_SEED_DOMAIN_V1, AUTHORITY_SEED, wr_32 target_program]
       controller_program"

definition derive_gate_pda ::
    "env \<Rightarrow> pubkey \<Rightarrow> pubkey \<Rightarrow> pubkey \<times> byte" where
  "derive_gate_pda E controller_program target_program =
     find_program_address E [UPGRADE_SEED_DOMAIN_V1, GATE_SEED, wr_32 target_program]
       controller_program"

definition derive_policy_pda ::
    "env \<Rightarrow> pubkey \<Rightarrow> pubkey \<Rightarrow> u64 \<Rightarrow> pubkey \<times> byte" where
  "derive_policy_pda E controller_program target_program policy_version =
     find_program_address E
       [UPGRADE_SEED_DOMAIN_V1, POLICY_SEED,
        wr_32 target_program, wr_u64 policy_version] controller_program"

definition derive_council_pda ::
    "env \<Rightarrow> pubkey \<Rightarrow> pubkey \<Rightarrow> u64 \<Rightarrow> pubkey \<times> byte" where
  "derive_council_pda E controller_program target_program council_version =
     find_program_address E
       [UPGRADE_SEED_DOMAIN_V1, COUNCIL_SEED,
        wr_32 target_program, wr_u64 council_version] controller_program"

definition derive_proposal_pda ::
    "env \<Rightarrow> pubkey \<Rightarrow> pubkey \<Rightarrow> u64 \<Rightarrow> pubkey \<times> byte" where
  "derive_proposal_pda E controller_program target_program proposal_id =
     find_program_address E
       [UPGRADE_SEED_DOMAIN_V1, PROPOSAL_SEED,
        wr_32 target_program, wr_u64 proposal_id] controller_program"

definition derive_checkpoint_pda ::
    "env \<Rightarrow> pubkey \<Rightarrow> pubkey \<Rightarrow> checkpoint_phase_v1 \<Rightarrow> pubkey \<times> byte" where
  "derive_checkpoint_pda E controller_program proposal phase =
     find_program_address E
       [UPGRADE_SEED_DOMAIN_V1, CHECKPOINT_SEED,
        wr_32 proposal, [checkpoint_phase_byte phase]] controller_program"

definition derive_buffer_check_pda ::
    "env \<Rightarrow> pubkey \<Rightarrow> pubkey \<Rightarrow> pubkey \<times> byte" where
  "derive_buffer_check_pda E controller_program proposal =
     find_program_address E [UPGRADE_SEED_DOMAIN_V1, BUFFER_CHECK_SEED, wr_32 proposal]
       controller_program"

definition derive_programdata_check_pda ::
    "env \<Rightarrow> pubkey \<Rightarrow> pubkey \<Rightarrow> pubkey \<times> byte" where
  "derive_programdata_check_pda E controller_program proposal =
     find_program_address E [UPGRADE_SEED_DOMAIN_V1, PROGRAMDATA_CHECK_SEED, wr_32 proposal]
       controller_program"

definition derive_emergency_resolution_pda ::
    "env \<Rightarrow> pubkey \<Rightarrow> pubkey \<Rightarrow> u64 \<Rightarrow> pubkey \<times> byte" where
  "derive_emergency_resolution_pda E controller_program target_program frozen_epoch =
     find_program_address E
       [UPGRADE_SEED_DOMAIN_V1, EMERGENCY_RESOLUTION_SEED,
        wr_32 target_program, wr_u64 frozen_epoch] controller_program"

definition derive_emergency_checkpoint_pda ::
    "env \<Rightarrow> pubkey \<Rightarrow> pubkey \<Rightarrow> u64 \<Rightarrow> pubkey \<times> byte" where
  "derive_emergency_checkpoint_pda E controller_program target_program frozen_epoch =
     find_program_address E
       [UPGRADE_SEED_DOMAIN_V1, EMERGENCY_CHECKPOINT_SEED,
        wr_32 target_program, wr_u64 frozen_epoch] controller_program"

definition derive_emergency_resolution_v2_pda ::
    "env \<Rightarrow> pubkey \<Rightarrow> pubkey \<Rightarrow> u64 \<Rightarrow> u64 \<Rightarrow> pubkey \<times> byte" where
  "derive_emergency_resolution_v2_pda E controller_program target_program frozen_epoch council_version =
     find_program_address E
       [UPGRADE_SEED_DOMAIN_V1, EMERGENCY_RESOLUTION_V2_SEED,
        wr_32 target_program, wr_u64 frozen_epoch, wr_u64 council_version] controller_program"

definition derive_emergency_checkpoint_v2_pda ::
    "env \<Rightarrow> pubkey \<Rightarrow> pubkey \<Rightarrow> pubkey \<times> byte" where
  "derive_emergency_checkpoint_v2_pda E controller_program emergency_resolution =
     find_program_address E
       [UPGRADE_SEED_DOMAIN_V1, EMERGENCY_CHECKPOINT_V2_SEED,
        wr_32 emergency_resolution] controller_program"

definition derive_council_rotation_pda ::
    "env \<Rightarrow> pubkey \<Rightarrow> pubkey \<Rightarrow> u64 \<Rightarrow> pubkey \<times> byte" where
  "derive_council_rotation_pda E controller_program target_program candidate_council_version =
     find_program_address E
       [UPGRADE_SEED_DOMAIN_V1, COUNCIL_ROTATION_SEED,
        wr_32 target_program, wr_u64 candidate_council_version] controller_program"

definition derive_emergency_freeze_observation_pda ::
    "env \<Rightarrow> pubkey \<Rightarrow> pubkey \<Rightarrow> u64 \<Rightarrow> pubkey \<times> byte" where
  "derive_emergency_freeze_observation_pda E controller_program target_program frozen_epoch =
     find_program_address E
       [UPGRADE_SEED_DOMAIN_V1, EMERGENCY_FREEZE_OBSERVATION_SEED,
        wr_32 target_program, wr_u64 frozen_epoch] controller_program"

definition derive_programdata_failure_observation_pda ::
    "env \<Rightarrow> pubkey \<Rightarrow> pubkey \<Rightarrow> u64 \<Rightarrow> pubkey \<times> byte" where
  "derive_programdata_failure_observation_pda E controller_program primary_proposal frozen_epoch =
     find_program_address E
       [UPGRADE_SEED_DOMAIN_V1, PROGRAMDATA_FAILURE_OBSERVATION_SEED,
        wr_32 primary_proposal, wr_u64 frozen_epoch] controller_program"

definition derive_checkpoint_attestation_pda ::
    "env \<Rightarrow> pubkey \<Rightarrow> pubkey \<Rightarrow> u64 \<Rightarrow> byte \<Rightarrow> pubkey \<times> byte" where
  "derive_checkpoint_attestation_pda E controller_program checkpoint council_version seat_index =
     find_program_address E
       [UPGRADE_SEED_DOMAIN_V1, CHECKPOINT_ATTESTATION_SEED,
        wr_32 checkpoint, wr_u64 council_version, [seat_index]] controller_program"

definition derive_capacity_policy_pda ::
    "env \<Rightarrow> pubkey \<Rightarrow> pubkey \<Rightarrow> pubkey \<times> byte" where
  "derive_capacity_policy_pda E controller_program target_program =
     find_program_address E [UPGRADE_SEED_DOMAIN_V1, CAPACITY_POLICY_SEED, wr_32 target_program]
       controller_program"

definition derive_controller_release_commitment_pda ::
    "env \<Rightarrow> pubkey \<Rightarrow> pubkey \<Rightarrow> pubkey \<times> byte" where
  "derive_controller_release_commitment_pda E controller_program target_program =
     find_program_address E [UPGRADE_SEED_DOMAIN_V1, CONTROLLER_RELEASE_SEED, wr_32 target_program]
       controller_program"

definition derive_programdata_observation_pda ::
    "env \<Rightarrow> pubkey \<Rightarrow> pubkey \<Rightarrow> byte \<Rightarrow> hash32 \<Rightarrow> u64 \<Rightarrow> pubkey \<times> byte" where
  "derive_programdata_observation_pda E controller_program observed_program purpose subject_digest generation =
     find_program_address E
       [UPGRADE_SEED_DOMAIN_V1, PROGRAMDATA_OBSERVATION_SEED,
        wr_32 observed_program, [purpose], wr_32 subject_digest, wr_u64 generation] controller_program"

definition derive_current_deployment_state_pda ::
    "env \<Rightarrow> pubkey \<Rightarrow> pubkey \<Rightarrow> pubkey \<times> byte" where
  "derive_current_deployment_state_pda E controller_program target_program =
     find_program_address E [UPGRADE_SEED_DOMAIN_V1, DEPLOYMENT_STATE_SEED, wr_32 target_program]
       controller_program"

definition derive_controller_immutability_receipt_pda ::
    "env \<Rightarrow> pubkey \<Rightarrow> pubkey \<Rightarrow> pubkey \<times> byte" where
  "derive_controller_immutability_receipt_pda E controller_program target_program =
     find_program_address E
       [UPGRADE_SEED_DOMAIN_V1, CONTROLLER_IMMUTABILITY_SEED,
        wr_32 target_program] controller_program"

definition derive_target_handoff_pda ::
    "env \<Rightarrow> pubkey \<Rightarrow> pubkey \<Rightarrow> u64 \<Rightarrow> pubkey \<times> byte" where
  "derive_target_handoff_pda E controller_program target_program council_version =
     find_program_address E
       [UPGRADE_SEED_DOMAIN_V1, TARGET_HANDOFF_SEED,
        wr_32 target_program, wr_u64 council_version] controller_program"

definition derive_target_handoff_receipt_pda ::
    "env \<Rightarrow> pubkey \<Rightarrow> pubkey \<Rightarrow> pubkey \<times> byte" where
  "derive_target_handoff_receipt_pda E controller_program target_program =
     find_program_address E
       [UPGRADE_SEED_DOMAIN_V1, TARGET_HANDOFF_RECEIPT_SEED,
        wr_32 target_program] controller_program"

definition derive_bootstrap_activation_pda ::
    "env \<Rightarrow> pubkey \<Rightarrow> pubkey \<Rightarrow> u64 \<Rightarrow> pubkey \<times> byte" where
  "derive_bootstrap_activation_pda E controller_program target_program council_version =
     find_program_address E
       [UPGRADE_SEED_DOMAIN_V1, BOOTSTRAP_ACTIVATION_SEED,
        wr_32 target_program, wr_u64 council_version] controller_program"

definition derive_bootstrap_activation_receipt_pda ::
    "env \<Rightarrow> pubkey \<Rightarrow> pubkey \<Rightarrow> pubkey \<times> byte" where
  "derive_bootstrap_activation_receipt_pda E controller_program target_program =
     find_program_address E
       [UPGRADE_SEED_DOMAIN_V1, BOOTSTRAP_ACTIVATION_RECEIPT_SEED,
        wr_32 target_program] controller_program"

section \<open>One account space\<close>

text \<open>Every address of one controller, and the bytes that are hashed for it.\<close>

datatype address =
  ControllerConfigAddr pubkey
  | AuthorityAddr pubkey
  | GateAddr pubkey
  | PolicyAddr pubkey u64
  | CouncilAddr pubkey u64
  | ProposalAddr pubkey u64
  | CheckpointAddr pubkey checkpoint_phase_v1
  | BufferCheckAddr pubkey
  | ProgramdataCheckAddr pubkey
  | EmergencyResolutionAddr pubkey u64
  | EmergencyCheckpointAddr pubkey u64
  | EmergencyResolutionV2Addr pubkey u64 u64
  | EmergencyCheckpointV2Addr pubkey
  | CouncilRotationAddr pubkey u64
  | EmergencyFreezeObservationAddr pubkey u64
  | ProgramdataFailureObservationAddr pubkey u64
  | CheckpointAttestationAddr pubkey u64 byte
  | CapacityPolicyAddr pubkey
  | ControllerReleaseCommitmentAddr pubkey
  | ProgramdataObservationAddr pubkey byte hash32 u64
  | CurrentDeploymentStateAddr pubkey
  | ControllerImmutabilityReceiptAddr pubkey
  | TargetHandoffAddr pubkey u64
  | TargetHandoffReceiptAddr pubkey
  | BootstrapActivationAddr pubkey u64
  | BootstrapActivationReceiptAddr pubkey

fun address_seeds :: "address \<Rightarrow> byte list list" where
  "address_seeds (ControllerConfigAddr target_program) =
     [UPGRADE_SEED_DOMAIN_V1, TARGET_SEED, wr_32 target_program]"
| "address_seeds (AuthorityAddr target_program) =
     [UPGRADE_SEED_DOMAIN_V1, AUTHORITY_SEED, wr_32 target_program]"
| "address_seeds (GateAddr target_program) =
     [UPGRADE_SEED_DOMAIN_V1, GATE_SEED, wr_32 target_program]"
| "address_seeds (PolicyAddr target_program policy_version) =
     [UPGRADE_SEED_DOMAIN_V1, POLICY_SEED, wr_32 target_program, wr_u64 policy_version]"
| "address_seeds (CouncilAddr target_program council_version) =
     [UPGRADE_SEED_DOMAIN_V1, COUNCIL_SEED, wr_32 target_program, wr_u64 council_version]"
| "address_seeds (ProposalAddr target_program proposal_id) =
     [UPGRADE_SEED_DOMAIN_V1, PROPOSAL_SEED, wr_32 target_program, wr_u64 proposal_id]"
| "address_seeds (CheckpointAddr proposal phase) =
     [UPGRADE_SEED_DOMAIN_V1, CHECKPOINT_SEED, wr_32 proposal, [checkpoint_phase_byte phase]]"
| "address_seeds (BufferCheckAddr proposal) =
     [UPGRADE_SEED_DOMAIN_V1, BUFFER_CHECK_SEED, wr_32 proposal]"
| "address_seeds (ProgramdataCheckAddr proposal) =
     [UPGRADE_SEED_DOMAIN_V1, PROGRAMDATA_CHECK_SEED, wr_32 proposal]"
| "address_seeds (EmergencyResolutionAddr target_program frozen_epoch) =
     [UPGRADE_SEED_DOMAIN_V1, EMERGENCY_RESOLUTION_SEED, wr_32 target_program, wr_u64 frozen_epoch]"
| "address_seeds (EmergencyCheckpointAddr target_program frozen_epoch) =
     [UPGRADE_SEED_DOMAIN_V1, EMERGENCY_CHECKPOINT_SEED, wr_32 target_program, wr_u64 frozen_epoch]"
| "address_seeds (EmergencyResolutionV2Addr target_program frozen_epoch council_version) =
     [UPGRADE_SEED_DOMAIN_V1, EMERGENCY_RESOLUTION_V2_SEED, wr_32 target_program, wr_u64 frozen_epoch, wr_u64 council_version]"
| "address_seeds (EmergencyCheckpointV2Addr emergency_resolution) =
     [UPGRADE_SEED_DOMAIN_V1, EMERGENCY_CHECKPOINT_V2_SEED, wr_32 emergency_resolution]"
| "address_seeds (CouncilRotationAddr target_program candidate_council_version) =
     [UPGRADE_SEED_DOMAIN_V1, COUNCIL_ROTATION_SEED, wr_32 target_program, wr_u64 candidate_council_version]"
| "address_seeds (EmergencyFreezeObservationAddr target_program frozen_epoch) =
     [UPGRADE_SEED_DOMAIN_V1, EMERGENCY_FREEZE_OBSERVATION_SEED, wr_32 target_program, wr_u64 frozen_epoch]"
| "address_seeds (ProgramdataFailureObservationAddr primary_proposal frozen_epoch) =
     [UPGRADE_SEED_DOMAIN_V1, PROGRAMDATA_FAILURE_OBSERVATION_SEED, wr_32 primary_proposal, wr_u64 frozen_epoch]"
| "address_seeds (CheckpointAttestationAddr checkpoint council_version seat_index) =
     [UPGRADE_SEED_DOMAIN_V1, CHECKPOINT_ATTESTATION_SEED, wr_32 checkpoint, wr_u64 council_version, [seat_index]]"
| "address_seeds (CapacityPolicyAddr target_program) =
     [UPGRADE_SEED_DOMAIN_V1, CAPACITY_POLICY_SEED, wr_32 target_program]"
| "address_seeds (ControllerReleaseCommitmentAddr target_program) =
     [UPGRADE_SEED_DOMAIN_V1, CONTROLLER_RELEASE_SEED, wr_32 target_program]"
| "address_seeds (ProgramdataObservationAddr observed_program purpose subject_digest generation) =
     [UPGRADE_SEED_DOMAIN_V1, PROGRAMDATA_OBSERVATION_SEED, wr_32 observed_program, [purpose], wr_32 subject_digest, wr_u64 generation]"
| "address_seeds (CurrentDeploymentStateAddr target_program) =
     [UPGRADE_SEED_DOMAIN_V1, DEPLOYMENT_STATE_SEED, wr_32 target_program]"
| "address_seeds (ControllerImmutabilityReceiptAddr target_program) =
     [UPGRADE_SEED_DOMAIN_V1, CONTROLLER_IMMUTABILITY_SEED, wr_32 target_program]"
| "address_seeds (TargetHandoffAddr target_program council_version) =
     [UPGRADE_SEED_DOMAIN_V1, TARGET_HANDOFF_SEED, wr_32 target_program, wr_u64 council_version]"
| "address_seeds (TargetHandoffReceiptAddr target_program) =
     [UPGRADE_SEED_DOMAIN_V1, TARGET_HANDOFF_RECEIPT_SEED, wr_32 target_program]"
| "address_seeds (BootstrapActivationAddr target_program council_version) =
     [UPGRADE_SEED_DOMAIN_V1, BOOTSTRAP_ACTIVATION_SEED, wr_32 target_program, wr_u64 council_version]"
| "address_seeds (BootstrapActivationReceiptAddr target_program) =
     [UPGRADE_SEED_DOMAIN_V1, BOOTSTRAP_ACTIVATION_RECEIPT_SEED, wr_32 target_program]"

fun derive :: "env \<Rightarrow> pubkey \<Rightarrow> address \<Rightarrow> pubkey \<times> byte" where
  "derive E c (ControllerConfigAddr target_program) = derive_controller_config_pda E c target_program"
| "derive E c (AuthorityAddr target_program) = derive_authority_pda E c target_program"
| "derive E c (GateAddr target_program) = derive_gate_pda E c target_program"
| "derive E c (PolicyAddr target_program policy_version) = derive_policy_pda E c target_program policy_version"
| "derive E c (CouncilAddr target_program council_version) = derive_council_pda E c target_program council_version"
| "derive E c (ProposalAddr target_program proposal_id) = derive_proposal_pda E c target_program proposal_id"
| "derive E c (CheckpointAddr proposal phase) = derive_checkpoint_pda E c proposal phase"
| "derive E c (BufferCheckAddr proposal) = derive_buffer_check_pda E c proposal"
| "derive E c (ProgramdataCheckAddr proposal) = derive_programdata_check_pda E c proposal"
| "derive E c (EmergencyResolutionAddr target_program frozen_epoch) = derive_emergency_resolution_pda E c target_program frozen_epoch"
| "derive E c (EmergencyCheckpointAddr target_program frozen_epoch) = derive_emergency_checkpoint_pda E c target_program frozen_epoch"
| "derive E c (EmergencyResolutionV2Addr target_program frozen_epoch council_version) = derive_emergency_resolution_v2_pda E c target_program frozen_epoch council_version"
| "derive E c (EmergencyCheckpointV2Addr emergency_resolution) = derive_emergency_checkpoint_v2_pda E c emergency_resolution"
| "derive E c (CouncilRotationAddr target_program candidate_council_version) = derive_council_rotation_pda E c target_program candidate_council_version"
| "derive E c (EmergencyFreezeObservationAddr target_program frozen_epoch) = derive_emergency_freeze_observation_pda E c target_program frozen_epoch"
| "derive E c (ProgramdataFailureObservationAddr primary_proposal frozen_epoch) = derive_programdata_failure_observation_pda E c primary_proposal frozen_epoch"
| "derive E c (CheckpointAttestationAddr checkpoint council_version seat_index) = derive_checkpoint_attestation_pda E c checkpoint council_version seat_index"
| "derive E c (CapacityPolicyAddr target_program) = derive_capacity_policy_pda E c target_program"
| "derive E c (ControllerReleaseCommitmentAddr target_program) = derive_controller_release_commitment_pda E c target_program"
| "derive E c (ProgramdataObservationAddr observed_program purpose subject_digest generation) = derive_programdata_observation_pda E c observed_program purpose subject_digest generation"
| "derive E c (CurrentDeploymentStateAddr target_program) = derive_current_deployment_state_pda E c target_program"
| "derive E c (ControllerImmutabilityReceiptAddr target_program) = derive_controller_immutability_receipt_pda E c target_program"
| "derive E c (TargetHandoffAddr target_program council_version) = derive_target_handoff_pda E c target_program council_version"
| "derive E c (TargetHandoffReceiptAddr target_program) = derive_target_handoff_receipt_pda E c target_program"
| "derive E c (BootstrapActivationAddr target_program council_version) = derive_bootstrap_activation_pda E c target_program council_version"
| "derive E c (BootstrapActivationReceiptAddr target_program) = derive_bootstrap_activation_receipt_pda E c target_program"

lemma derive_seeds: "derive E c a = find_program_address E (address_seeds a) c"
  by (cases a) (simp_all add: derive_controller_config_pda_def derive_authority_pda_def
      derive_gate_pda_def derive_policy_pda_def
      derive_council_pda_def derive_proposal_pda_def
      derive_checkpoint_pda_def derive_buffer_check_pda_def
      derive_programdata_check_pda_def derive_emergency_resolution_pda_def
      derive_emergency_checkpoint_pda_def derive_emergency_resolution_v2_pda_def
      derive_emergency_checkpoint_v2_pda_def derive_council_rotation_pda_def
      derive_emergency_freeze_observation_pda_def derive_programdata_failure_observation_pda_def
      derive_checkpoint_attestation_pda_def derive_capacity_policy_pda_def
      derive_controller_release_commitment_pda_def derive_programdata_observation_pda_def
      derive_current_deployment_state_pda_def derive_controller_immutability_receipt_pda_def
      derive_target_handoff_pda_def derive_target_handoff_receipt_pda_def
      derive_bootstrap_activation_pda_def derive_bootstrap_activation_receipt_pda_def)

end
