(* ===== verification/Address_Facts.thy ===== *)
theory Address_Facts
  imports Address_Derivation
begin

text \<open>
  The runtime hashes the concatenation of the seeds, without separators.  These facts settle when two
  addresses of one controller can rest on the same bytes.
\<close>

text \<open>The number of bytes hashed, the domain of sixteen bytes not counted.\<close>

fun span :: "address \<Rightarrow> nat" where
  "span (ControllerConfigAddr t) = 38"
| "span (AuthorityAddr t) = 41"
| "span (GateAddr t) = 36"
| "span (PolicyAddr t v) = 46"
| "span (CouncilAddr t v) = 47"
| "span (ProposalAddr t i) = 48"
| "span (CheckpointAddr p ph) = 43"
| "span (BufferCheckAddr p) = 44"
| "span (ProgramdataCheckAddr p) = 49"
| "span (EmergencyResolutionAddr t e) = 60"
| "span (EmergencyCheckpointAddr t e) = 60"
| "span (EmergencyResolutionV2Addr t e c) = 71"
| "span (EmergencyCheckpointV2Addr r) = 55"
| "span (CouncilRotationAddr t v) = 56"
| "span (EmergencyFreezeObservationAddr t e) = 61"
| "span (ProgramdataFailureObservationAddr p e) = 59"
| "span (CheckpointAttestationAddr c v s) = 63"
| "span (CapacityPolicyAddr t) = 47"
| "span (ControllerReleaseCommitmentAddr t) = 50"
| "span (ProgramdataObservationAddr t p d g) = 96"
| "span (CurrentDeploymentStateAddr t) = 48"
| "span (ControllerImmutabilityReceiptAddr t) = 55"
| "span (TargetHandoffAddr t v) = 47"
| "span (TargetHandoffReceiptAddr t) = 47"
| "span (BootstrapActivationAddr t v) = 60"
| "span (BootstrapActivationReceiptAddr t) = 50"

lemma span_length: "length (concat (address_seeds a)) = 16 + span a"
  by (cases a) (simp_all add: seed_defs)


lemma word32_u64_inject:
  "wr_32 t @ wr_u64 v = wr_32 t' @ wr_u64 v' \<longleftrightarrow> t = t' \<and> v = v'"
  by (simp add: le_bytes_inject)

text \<open>The one overlap: the seed of a handoff is a prefix of the seed of its receipt, and a version is
  as long as the rest of that seed.\<close>

definition handoff_overlap :: "address \<Rightarrow> address \<Rightarrow> bool" where
  "handoff_overlap a b \<longleftrightarrow>
     (\<exists>t v t'. a = TargetHandoffAddr t v \<and> b = TargetHandoffReceiptAddr t'
        \<and> wr_32 t @ wr_u64 v = ascii ''-receipt'' @ wr_32 t')"

lemma same_span:
  assumes "concat (address_seeds a) = concat (address_seeds b)" "span a = span b"
  shows "a = b \<or> handoff_overlap a b \<or> handoff_overlap b a"
  using assms(2)
  apply (cases a; cases b)
  apply simp_all
  using assms(1)
  apply (simp_all add: seed_defs le_bytes_inject handoff_overlap_def ascii_def checkpoint_phase_codec.to_byte_inject)
  done


lemma overlap_seeds:
  assumes "handoff_overlap a b"
  shows "concat (address_seeds a) = concat (address_seeds b)"
proof -
  obtain t v t' where ab: "a = TargetHandoffAddr t v" "b = TargetHandoffReceiptAddr t'"
      and eq: "wr_32 t @ wr_u64 v = ascii ''-receipt'' @ wr_32 t'"
    using assms by (auto simp: handoff_overlap_def)
  have seed: "TARGET_HANDOFF_RECEIPT_SEED = TARGET_HANDOFF_SEED @ ascii ''-receipt''"
    by (simp add: seed_defs ascii_def)
  show ?thesis by (simp add: ab seed eq)
qed

text \<open>Every receipt address has a handoff that overlaps it.\<close>

lemma overlap_exists:
  obtains t v where "handoff_overlap (TargetHandoffAddr t v) (TargetHandoffReceiptAddr t')"
proof -
  let ?bs = "ascii ''-receipt'' @ wr_32 t'"
  have "wr_32 (le_word (take 32 ?bs) :: pubkey) = take 32 ?bs"
    using le_bytes_le_word [of "take 32 ?bs", where 'a = 256] by simp
  moreover have "wr_u64 (le_word (drop 32 ?bs) :: u64) = drop 32 ?bs"
    using le_bytes_le_word [of "drop 32 ?bs", where 'a = 64] by simp
  ultimately have "wr_32 (le_word (take 32 ?bs) :: pubkey) @ wr_u64 (le_word (drop 32 ?bs) :: u64) = ?bs"
    by (simp only: append_take_drop_id)
  then show thesis using that by (auto simp: handoff_overlap_def)
qed

text \<open>\<open>find_program_address\<close> hashes its seeds in a row: equal bytes give equal addresses.\<close>

definition seeds_in_a_row :: "env \<Rightarrow> bool" where
  "seeds_in_a_row E \<longleftrightarrow> (\<forall>s s' c. concat s = concat s' \<longrightarrow>
     find_program_address E s c = find_program_address E s' c)"

theorem handoff_meets_receipt:
  assumes "seeds_in_a_row E"
  shows "\<exists>t v. derive_target_handoff_pda E c t v = derive_target_handoff_receipt_pda E c t'"
proof -
  obtain t v where "handoff_overlap (TargetHandoffAddr t v) (TargetHandoffReceiptAddr t')"
    by (rule overlap_exists)
  then have "derive E c (TargetHandoffAddr t v) = derive E c (TargetHandoffReceiptAddr t')"
    unfolding derive_seeds using assms overlap_seeds unfolding seeds_in_a_row_def by blast
  then have "derive_target_handoff_pda E c t v = derive_target_handoff_receipt_pda E c t'" by simp
  then show ?thesis by blast
qed

text \<open>C24: The accounts of one controller have addresses of their own: two derivations hash the
  same bytes exactly when they are the same derivation with the same arguments, with one exception:
  the address of a handoff can be the address of a handoff receipt, when the target begins with the
  bytes that the seed of the receipt adds.\<close>

theorem addresses_kept_apart:
  "concat (address_seeds a) = concat (address_seeds b) \<longleftrightarrow>
     a = b \<or> handoff_overlap a b \<or> handoff_overlap b a"
proof
  assume eq: "concat (address_seeds a) = concat (address_seeds b)"
  then have "span a = span b" using span_length [of a] span_length [of b] by simp
  with eq show "a = b \<or> handoff_overlap a b \<or> handoff_overlap b a" by (rule same_span)
qed (auto dest: overlap_seeds)

end
