(* ===== verification/Lifecycle.thy ===== *)
theory Lifecycle
  imports Prelude
begin

text \<open>
  What the life of a proposal is meant to be, without accounts, bytes or words: a state machine over
  sets of seats and chunks.  The handlers are shown to implement it in \<open>Lifecycle_Refinement\<close>.
\<close>

section \<open>The machine\<close>

datatype phase = Pending | Executed | Cancelled | Expired

text \<open>What a proposal fixes at its creation: its window, and for an upgrade the number of chunks.\<close>

record terms =
  created_at :: nat
  review_until :: nat
  executable_from :: nat
  expires_at :: nat
  chunks_needed :: "nat option"

record item =
  it_phase :: phase
  approvers :: "nat set"
  objectors :: "nat set"
  verified :: "nat set"
  done_at :: nat

datatype event = Vote_For nat nat | Vote_Against nat nat | Check_Chunk nat nat | Lapse nat | Perform nat

definition fresh_item :: item where
  "fresh_item = \<lparr>it_phase = Pending, approvers = {}, objectors = {}, verified = {}, done_at = 0\<rparr>"

definition fully_verified :: "terms \<Rightarrow> item \<Rightarrow> bool" where
  "fully_verified T s \<longleftrightarrow> (case chunks_needed T of None \<Rightarrow> True | Some n \<Rightarrow> verified s = {..<n})"

inductive step :: "terms \<Rightarrow> event \<Rightarrow> item \<Rightarrow> item \<Rightarrow> bool" for T :: terms where
  approve: "step T (Vote_For i t) s (s\<lparr>approvers := insert i (approvers s)\<rparr>)"
    if "it_phase s = Pending" "i < 5" "i \<notin> approvers s" "created_at T \<le> t" "t \<le> review_until T" "t < expires_at T"
      "fully_verified T s"
| oppose: "step T (Vote_Against i t) s (s\<lparr>objectors := insert i (objectors s),
      it_phase := (if 3 \<le> card (insert i (objectors s)) then Cancelled else Pending)\<rparr>)"
    if "it_phase s = Pending" "i < 5" "i \<notin> objectors s" "created_at T \<le> t" "t < expires_at T"
| verify: "step T (Check_Chunk k t) s (s\<lparr>verified := insert k (verified s)\<rparr>)"
    if "it_phase s = Pending" "t < expires_at T" "chunks_needed T = Some n" "k < n" "k \<notin> verified s"
| lapse: "step T (Lapse t) s (s\<lparr>it_phase := Expired\<rparr>)"
    if "it_phase s = Pending" "expires_at T \<le> t"
| perform: "step T (Perform t) s (s\<lparr>it_phase := Executed, done_at := t\<rparr>)"
    if "it_phase s = Pending" "3 \<le> card (approvers s)" "executable_from T \<le> t" "t < expires_at T"

inductive_cases approveE: "step T (Vote_For i t) s s'"
inductive_cases performE: "step T (Perform t) s s'"
inductive_simps step_lapse: "step T (Lapse t) s s'"

inductive life :: "terms \<Rightarrow> event list \<Rightarrow> item \<Rightarrow> bool" for T :: terms where
  born: "life T [] fresh_item"
| lives: "life T (es @ [e]) s'" if "life T es s" and "step T e s s'"

definition reachable :: "terms \<Rightarrow> item \<Rightarrow> bool" where
  "reachable T s \<longleftrightarrow> (\<exists>es. life T es s)"

lemma reachable_fresh [intro]: "reachable T fresh_item"
  unfolding reachable_def by (blast intro: life.born)

lemma reachable_step [intro]: "reachable T s \<Longrightarrow> step T e s s' \<Longrightarrow> reachable T s'"
  unfolding reachable_def by (blast intro: life.lives)

section \<open>What every life satisfies\<close>

text \<open>No step leaves a terminal phase.\<close>

lemma step_pending: "step T e s s' \<Longrightarrow> it_phase s = Pending"
  by (cases rule: step.cases) auto

definition well_lived :: "terms \<Rightarrow> item \<Rightarrow> bool" where
  "well_lived T s \<longleftrightarrow>
     approvers s \<subseteq> {..<5} \<and> objectors s \<subseteq> {..<5} \<and>
     (approvers s \<noteq> {} \<longrightarrow> fully_verified T s) \<and>
     (case chunks_needed T of None \<Rightarrow> verified s = {} | Some n \<Rightarrow> verified s \<subseteq> {..<n}) \<and>
     (it_phase s = Cancelled \<longleftrightarrow> 3 \<le> card (objectors s)) \<and>
     (it_phase s = Executed \<longrightarrow>
        3 \<le> card (approvers s) \<and> executable_from T \<le> done_at s \<and> done_at s < expires_at T)"

lemma fresh_well_lived: "well_lived T fresh_item"
  by (auto simp: well_lived_def fresh_item_def split: option.splits)

lemma step_well_lived: "step T e s s' \<Longrightarrow> well_lived T s \<Longrightarrow> well_lived T s'"
  by (induction rule: step.induct) (auto simp: well_lived_def fully_verified_def split: option.splits)

lemma life_well_lived: "life T es s \<Longrightarrow> well_lived T s"
  by (induction rule: life.induct) (auto intro: fresh_well_lived step_well_lived)

text \<open>The history behind the state: the approvers are the seats of the approval events, each once, each
  cast in the review window.\<close>

definition approvals_of :: "event list \<Rightarrow> nat list" where
  "approvals_of es = concat (map (\<lambda>e. case e of Vote_For i t \<Rightarrow> [i] | _ \<Rightarrow> []) es)"

definition in_time :: "terms \<Rightarrow> event \<Rightarrow> bool" where
  "in_time T e = (case e of
     Vote_For i t \<Rightarrow> created_at T \<le> t \<and> t \<le> review_until T \<and> t < expires_at T
   | Vote_Against i t \<Rightarrow> created_at T \<le> t \<and> t < expires_at T
   | Check_Chunk k t \<Rightarrow> t < expires_at T
   | Lapse t \<Rightarrow> expires_at T \<le> t
   | Perform t \<Rightarrow> executable_from T \<le> t \<and> t < expires_at T)"

lemma step_in_time: "step T e s s' \<Longrightarrow> in_time T e"
  by (induction rule: step.induct) (simp_all add: in_time_def)

lemma life_history:
  "life T es s \<Longrightarrow> set (approvals_of es) = approvers s \<and> distinct (approvals_of es) \<and> (\<forall>e \<in> set es. in_time T e)"
proof (induction rule: life.induct)
  case (lives es s e s')
  from lives(2) have "set (approvals_of (es @ [e])) = approvers s' \<and> distinct (approvals_of (es @ [e]))"
    by cases (use lives(3) in \<open>auto simp: approvals_of_def\<close>)
  with lives step_in_time show ?case by auto
qed (simp add: approvals_of_def fresh_item_def)

text \<open>At most one terminal event, and it is the last.\<close>

lemma life_terminal:
  "life T es s \<Longrightarrow> it_phase s = Executed \<Longrightarrow> \<exists>t. es \<noteq> [] \<and> last es = Perform t \<and> done_at s = t"
proof (induction rule: life.induct)
  case (lives es s e s')
  from lives(2,4) step_pending [OF lives(2)] show ?case by cases (auto split: if_splits)
qed (simp add: fresh_item_def)

text \<open>No approval is cast before the last chunk has been checked.\<close>

definition checked :: "event list \<Rightarrow> nat set" where
  "checked es = {k. \<exists>t. Check_Chunk k t \<in> set es}"

lemma life_verified: "life T es s \<Longrightarrow> verified s = checked es"
proof (induction rule: life.induct)
  case (lives es s e s')
  from lives(2) show ?case by cases (use lives(3) in \<open>auto simp: checked_def\<close>)
qed (simp add: checked_def fresh_item_def)

lemma life_approval_after_checks:
  assumes "life T es s" and "chunks_needed T = Some n"
  shows "es = as @ Vote_For i t # bs \<Longrightarrow> checked as = {..<n}"
  using assms(1)
proof (induction arbitrary: bs rule: life.induct)
  case (lives es s e s')
  show ?case
  proof (cases bs rule: rev_cases)
    case Nil
    with lives.prems have "as = es" "e = Vote_For i t" by auto
    with lives.hyps(2) have "fully_verified T s" by (auto elim: approveE)
    with assms(2) life_verified [OF lives.hyps(1)] \<open>as = es\<close> show ?thesis
      by (simp add: fully_verified_def)
  next
    case (snoc bs' b)
    with lives.prems have "es = as @ Vote_For i t # bs'" by auto
    then show ?thesis by (rule lives.IH)
  qed
qed simp

section \<open>A life can succeed\<close>

text \<open>With a window that is open, some order of events takes a fresh proposal to execution: verify
  every chunk, collect three approvals, perform.\<close>

lemma verify_all:
  assumes "chunks_needed T = Some n" and "t < expires_at T" and "k \<le> n"
  shows "life T (map (\<lambda>j. Check_Chunk j t) [0..<k]) (fresh_item\<lparr>verified := {..<k}\<rparr>)"
  using assms(3)
proof (induction k)
  case 0
  have "fresh_item\<lparr>verified := {..<0}\<rparr> = fresh_item" by (simp add: fresh_item_def)
  then show ?case using life.born [of T] by simp
next
  case (Suc k)
  have "step T (Check_Chunk k t) (fresh_item\<lparr>verified := {..<k}\<rparr>)
      ((fresh_item\<lparr>verified := {..<k}\<rparr>)\<lparr>verified := insert k (verified (fresh_item\<lparr>verified := {..<k}\<rparr>))\<rparr>)"
    using assms Suc.prems by (intro step.verify [where n = n]) (simp_all add: fresh_item_def)
  with Suc life.lives show ?case by (fastforce simp: lessThan_Suc)
qed

lemma approve_three:
  assumes "life T es (fresh_item\<lparr>verified := V\<rparr>)" and "fully_verified T (fresh_item\<lparr>verified := V\<rparr>)"
    and "created_at T \<le> t" "t \<le> review_until T" "t < expires_at T"
  shows "life T (es @ [Vote_For 0 t] @ [Vote_For 1 t] @ [Vote_For 2 t]) (fresh_item\<lparr>verified := V, approvers := {0, 1, 2}\<rparr>)"
proof -
  let ?s = "\<lambda>A. fresh_item\<lparr>verified := V, approvers := A\<rparr>"
  have next_vote: "step T (Vote_For i t) (?s A) (?s (insert i A))" if "i < 5" "i \<notin> A" for i A
    using step.approve [of "?s A" i T t] that assms
    by (cases "chunks_needed T") (simp_all add: fully_verified_def fresh_item_def)
  have "life T es (?s {})" using assms(1) by (simp add: fresh_item_def)
  then have "life T (es @ [Vote_For 0 t]) (?s {0})" by (rule life.lives) (rule next_vote; simp)
  then have "life T ((es @ [Vote_For 0 t]) @ [Vote_For 1 t]) (?s {1, 0})" by (rule life.lives) (rule next_vote; simp)
  then have "life T (((es @ [Vote_For 0 t]) @ [Vote_For 1 t]) @ [Vote_For 2 t]) (?s {2, 1, 0})"
    by (rule life.lives) (rule next_vote; simp)
  then show ?thesis by (simp add: insert_commute)
qed

lemma life_can_execute:
  assumes "created_at T \<le> t" "t \<le> review_until T" "t < expires_at T"
    and "executable_from T \<le> t'" "t' < expires_at T"
  shows "\<exists>s. reachable T s \<and> it_phase s = Executed"
proof -
  obtain es V where es: "life T es (fresh_item\<lparr>verified := V\<rparr>)" "fully_verified T (fresh_item\<lparr>verified := V\<rparr>)"
  proof (cases "chunks_needed T")
    case None
    have "fresh_item\<lparr>verified := {}\<rparr> = fresh_item" by (simp add: fresh_item_def)
    then show ?thesis using None that [of "[]" "{}"] life.born [of T] by (simp add: fully_verified_def)
  next
    case (Some n)
    with verify_all [OF Some assms(3) order_refl] show ?thesis
      by (intro that) (auto simp: fully_verified_def)
  qed
  let ?s = "fresh_item\<lparr>verified := V, approvers := {0, 1, 2}\<rparr>"
  have "step T (Perform t') ?s (?s\<lparr>it_phase := Executed, done_at := t'\<rparr>)"
    using assms by (intro step.perform) (simp_all add: fresh_item_def)
  then have "reachable T (?s\<lparr>it_phase := Executed, done_at := t'\<rparr>)"
    using approve_three [OF es assms(1-3)] by (auto simp: reachable_def intro: life.lives)
  moreover have "it_phase (?s\<lparr>it_phase := Executed, done_at := t'\<rparr>) = Executed" by simp
  ultimately show ?thesis by blast
qed

end
