(* ===== verification/Gov_Base.thy ===== *)
theory Gov_Base
  imports Account_IO
begin

text \<open>
  The error type, guards and constants of the V3 controller, from the head of
  \<open>governance_controller_v3/src/state.rs\<close>.
\<close>

section \<open>Errors\<close>

datatype error =
  InvalidAccount | InvalidTiming | InvalidCouncil | Unauthorized | StaleProposal
| DuplicateApproval | WrongState | InvalidArtifact | InvalidEnvelope | Overflow

text \<open>The discriminants, from 3000 in declaration order.\<close>

fun error_code :: "error \<Rightarrow> u32" where
  "error_code InvalidAccount = 3000"
| "error_code InvalidTiming = 3001"
| "error_code InvalidCouncil = 3002"
| "error_code Unauthorized = 3003"
| "error_code StaleProposal = 3004"
| "error_code DuplicateApproval = 3005"
| "error_code WrongState = 3006"
| "error_code InvalidArtifact = 3007"
| "error_code InvalidEnvelope = 3008"
| "error_code Overflow = 3009"

text \<open>\<open>impl From<Error> for ProgramError\<close>.\<close>

definition program_error_from :: "error \<Rightarrow> program_error" where
  "program_error_from e = Custom (error_code e)"

abbreviation fail :: "error \<Rightarrow> program_error + 'a" where
  "fail e \<equiv> Inl (program_error_from e)"

definition require :: "bool \<Rightarrow> error \<Rightarrow> program_error + unit" where
  "require value e = (if value then Inr () else fail e)"

definition add :: "u64 \<Rightarrow> u64 \<Rightarrow> program_error + u64" where
  "add a b = ok_or (checked_add a b) (program_error_from Overflow)"

lemma error_code_inject [simp]: "error_code e = error_code e' \<longleftrightarrow> e = e'"
  by (cases e; cases e') simp_all

lemma program_error_from_inject [simp]: "program_error_from e = program_error_from e' \<longleftrightarrow> e = e'"
  by (simp add: program_error_from_def)

lemma require_ok [result_simps]: "require c e = Inr u \<longleftrightarrow> c"
  by (auto simp: require_def)

lemma require_err [result_simps]: "require c e = Inl x \<longleftrightarrow> \<not> c \<and> x = program_error_from e"
  by (auto simp: require_def)

lemma require_simps [simp]: "require True e = Inr ()" "require False e = fail e"
  by (simp_all add: require_def)

lemma bnd_require: "bnd (require c e) f = (if c then f () else fail e)"
  by simp

lemma add_ok [result_simps]: "add a b = Inr c \<longleftrightarrow> unat c = unat a + unat b"
  by (auto simp: add_def result_simps)

lemma add_ok_less: "add a b = Inr c \<Longrightarrow> a \<le> c"
  by (simp add: add_ok word_le_nat_alt)

section \<open>Constants\<close>

definition DOMAIN :: "byte list" where "DOMAIN = ascii ''ameba-governance-v3''"
definition DEVNET_GENESIS :: "byte list" where
  "DEVNET_GENESIS = ascii ''EtWTRABZaYq6iMfeYKouRu166VU2xqa1wcaWoxPkrZBG''"
definition WEEK_SLOTS :: u64 where "WEEK_SLOTS = 1512000"
definition MIN_DELAY_SLOTS :: u64 where "MIN_DELAY_SLOTS = 150"
definition EXECUTION_MARGIN_SLOTS :: u64 where "EXECUTION_MARGIN_SLOTS = 9000"
definition CONFIG_LEN :: nat where "CONFIG_LEN = 384"
definition PROPOSAL_LEN :: nat where "PROPOSAL_LEN = 400"
definition ACTION_LEN :: nat where "ACTION_LEN = 192"
definition LOW_BITMAP_BYTES :: nat where "LOW_BITMAP_BYTES = 12"
definition MAX_DATA :: nat where "MAX_DATA = 16384"
definition THRESHOLD :: nat where "THRESHOLD = 3"
definition PENDING :: byte where "PENDING = 0"
definition EXECUTED :: byte where "EXECUTED = 1"
definition CANCELLED :: byte where "CANCELLED = 2"
definition EXPIRED :: byte where "EXPIRED = 3"
definition UPGRADE_CONTROLLER :: byte where "UPGRADE_CONTROLLER = 0"
definition SET_TIMING :: byte where "SET_TIMING = 1"
definition ROTATE_COUNCIL :: byte where "ROTATE_COUNCIL = 2"
definition UPGRADE_TARGET :: byte where "UPGRADE_TARGET = 3"
definition SET_TARGET_GATE :: byte where "SET_TARGET_GATE = 4"
definition INITIALIZE_SPREAD_LIGHT_CONFIG :: byte where "INITIALIZE_SPREAD_LIGHT_CONFIG = 5"
definition PUBLISH_VERIFICATION :: byte where "PUBLISH_VERIFICATION = 6"
definition RETIRE_TARGET :: byte where "RETIRE_TARGET = 7"
definition CONTROLLER_RELEASE :: u64 where "CONTROLLER_RELEASE = 6"

text \<open>\<open>pubkey!\<close> decodes base 58 at compile time; the literal is the same 32 bytes, little-endian.\<close>

definition DEVNET_SPREAD :: pubkey where
  "DEVNET_SPREAD = 0x2657faa84611a7b9f77757d926fc12391c01e2b14efd4995ffbaa40f9132be19"

lemmas state_consts = PENDING_def EXECUTED_def CANCELLED_def EXPIRED_def
lemmas kind_consts = UPGRADE_CONTROLLER_def SET_TIMING_def ROTATE_COUNCIL_def UPGRADE_TARGET_def
  SET_TARGET_GATE_def INITIALIZE_SPREAD_LIGHT_CONFIG_def PUBLISH_VERIFICATION_def RETIRE_TARGET_def

end
