(* ===== verification/Merkle_Tree.thy ===== *)
theory Merkle_Tree
  imports Prelude
begin

text \<open>
  Binary hash trees by levels, shared by the two artifact Merkle modules.  A provider supplies the
  node hash and one pass of its reduction loop, which must halve a level by hashing adjacent pairs;
  the locale proves from that contract what an authentication path says about a leaf.
\<close>

section \<open>Building blocks\<close>

text \<open>\<open>chunks_exact(2)\<close>: adjacent pairs, a trailing odd element dropped.\<close>

fun hash_pairs :: "('h \<Rightarrow> 'h \<Rightarrow> 'h) \<Rightarrow> 'h list \<Rightarrow> 'h list" where
  "hash_pairs node (a # b # rest) = node a b # hash_pairs node rest"
| "hash_pairs node _ = []"

text \<open>The walk from a leaf to the root: at each level the sibling goes right of an even node and
  left of an odd one.\<close>

fun climb :: "('h \<Rightarrow> 'h \<Rightarrow> 'h) \<Rightarrow> 'h \<Rightarrow> nat \<Rightarrow> 'h list \<Rightarrow> 'h" where
  "climb node current i [] = current"
| "climb node current i (sibling # rest) =
     climb node (if even i then node current sibling else node sibling current) (i div 2) rest"

text \<open>The pairs of hashes that the tree over a level, and a walk, feed to the node hash.\<close>

fun walk_pairs :: "('h \<Rightarrow> 'h \<Rightarrow> 'h) \<Rightarrow> 'h \<Rightarrow> nat \<Rightarrow> 'h list \<Rightarrow> ('h \<times> 'h) list" where
  "walk_pairs node current i [] = []"
| "walk_pairs node current i (sibling # rest) =
     (let p = (if even i then (current, sibling) else (sibling, current))
      in p # walk_pairs node (node (fst p) (snd p)) (i div 2) rest)"

fun adjacent :: "'h list \<Rightarrow> ('h \<times> 'h) list" where
  "adjacent (a # b # rest) = (a, b) # adjacent rest"
| "adjacent _ = []"

fun tree_pairs :: "('h \<Rightarrow> 'h \<Rightarrow> 'h) \<Rightarrow> nat \<Rightarrow> 'h list \<Rightarrow> ('h \<times> 'h) list" where
  "tree_pairs node 0 level = []"
| "tree_pairs node (Suc d) level = adjacent level @ tree_pairs node d (hash_pairs node level)"

definition sibling_of :: "nat \<Rightarrow> nat" where
  "sibling_of i = (if even i then i + 1 else i - 1)"

lemma xor_1_sibling [simp]: "i XOR Suc 0 = sibling_of i"
  by (simp add: sibling_of_def xor_Suc_0_eq)

lemma even_and_1 [simp]: "i AND Suc 0 = 0 \<longleftrightarrow> even i"
  by (simp add: and_Suc_0_eq even_iff_mod_2_eq_zero)

lemma drop_bit_half [simp]: "drop_bit (Suc 0) (i :: nat) = i div 2"
  by (simp add: drop_bit_Suc)

lemma sibling_bound: "i < 2 * m \<Longrightarrow> sibling_of i < 2 * m"
  by (auto simp: sibling_of_def elim: oddE evenE)

lemma length_hash_pairs [simp]: "length (hash_pairs node xs) = length xs div 2"
  by (induction node xs rule: hash_pairs.induct) auto

lemma nth_hash_pairs:
  "i < length xs div 2 \<Longrightarrow> hash_pairs node xs ! i = node (xs ! (2 * i)) (xs ! (2 * i + 1))"
proof (induction node xs arbitrary: i rule: hash_pairs.induct)
  case (1 node a b rest)
  then show ?case by (cases i) auto
qed auto

lemma nth_adjacent:
  "i < length xs div 2 \<Longrightarrow> (xs ! (2 * i), xs ! (2 * i + 1)) \<in> set (adjacent xs)"
proof (induction xs arbitrary: i rule: adjacent.induct)
  case (1 a b rest)
  then show ?case by (cases i) auto
qed auto

lemma pair_of_node:
  assumes "i < 2 * m" and "length xs = 2 * m"
  shows "hash_pairs node xs ! (i div 2) =
    (if even i then node (xs ! i) (xs ! sibling_of i) else node (xs ! sibling_of i) (xs ! i))"
  using assms by (auto simp: nth_hash_pairs sibling_of_def elim!: evenE oddE)

text \<open>The root of a full tree, as the last of its levels.\<close>

definition tree_root :: "('h \<Rightarrow> 'h \<Rightarrow> 'h) \<Rightarrow> nat \<Rightarrow> 'h list \<Rightarrow> 'h" where
  "tree_root node d leaves = hd ((hash_pairs node ^^ d) leaves)"

lemma tree_root_Suc: "tree_root node (Suc d) leaves = tree_root node d (hash_pairs node leaves)"
  by (simp add: tree_root_def funpow_swap1)

lemma tree_root_0: "tree_root node 0 leaves = hd leaves"
  by (simp add: tree_root_def)

section \<open>The contract of a reduction pass\<close>

locale tree_reduction =
  fixes node :: "'h \<Rightarrow> 'h \<Rightarrow> 'h" and pass :: "'h list \<Rightarrow> 'h list"
  assumes pass_length: "even (length xs) \<Longrightarrow> length (pass xs) = length xs div 2"
    and pass_nth: "even (length xs) \<Longrightarrow> i < length xs div 2 \<Longrightarrow>
      pass xs ! i = node (xs ! (2 * i)) (xs ! (2 * i + 1))"
begin

lemma pass_eq: "even (length xs) \<Longrightarrow> pass xs = hash_pairs node xs"
  by (rule nth_equalityI) (simp_all add: pass_length pass_nth nth_hash_pairs)

lemma pass_power: "length xs = 2 ^ Suc d \<Longrightarrow> pass xs = hash_pairs node xs"
  by (simp add: pass_eq)

end

text \<open>The loop \<open>while level.len() > 1\<close> around a pass.\<close>

locale tree_loop = tree_reduction +
  fixes loop :: "'h list \<Rightarrow> 'h list"
  assumes loop_step: "1 < length xs \<Longrightarrow> loop xs = loop (pass xs)"
    and loop_done: "length xs \<le> 1 \<Longrightarrow> loop xs = xs"
begin

lemma loop_root: "length xs = 2 ^ d \<Longrightarrow> loop xs = [tree_root node d xs]"
proof (induction d arbitrary: xs)
  case 0
  then show ?case by (cases xs) (simp_all add: loop_done tree_root_0)
next
  case (Suc d)
  have "1 < length xs"
    unfolding Suc.prems by (rule one_less_power) simp_all
  with Suc.prems have "loop xs = loop (hash_pairs node xs)"
    using loop_step pass_power by metis
  with Suc show ?case by (simp add: tree_root_Suc)
qed

end

section \<open>Authentication paths\<close>

fun path :: "('h \<Rightarrow> 'h \<Rightarrow> 'h) \<Rightarrow> nat \<Rightarrow> 'h list \<Rightarrow> nat \<Rightarrow> 'h list" where
  "path node 0 level i = []"
| "path node (Suc d) level i = level ! sibling_of i # path node d (hash_pairs node level) (i div 2)"

lemma length_path [simp]: "length (path node d level i) = d"
  by (induction d arbitrary: level i) auto

theorem climb_path:
  "length leaves = 2 ^ d \<Longrightarrow> i < 2 ^ d \<Longrightarrow>
     climb node (leaves ! i) i (path node d leaves i) = tree_root node d leaves"
proof (induction d arbitrary: leaves i)
  case 0
  then show ?case by (cases leaves) (auto simp: tree_root_0)
next
  case (Suc d)
  have "climb node (hash_pairs node leaves ! (i div 2)) (i div 2)
      (path node d (hash_pairs node leaves) (i div 2)) = tree_root node d (hash_pairs node leaves)"
    using Suc.prems by (intro Suc.IH) auto
  then show ?case
    using Suc.prems by (simp add: tree_root_Suc pair_of_node [of i "2 ^ d" leaves])
qed

text \<open>Soundness: where the node hash is injective on the pairs that the tree and the walk hash, a
  walk that ends in the root started at the leaf of the tree and used its siblings.\<close>

theorem climb_sound:
  "climb node current i sibs = tree_root node (length sibs) leaves \<Longrightarrow>
   length leaves = 2 ^ length sibs \<Longrightarrow> i < 2 ^ length sibs \<Longrightarrow>
   inj_on (\<lambda>(l, r). node l r)
     (set (tree_pairs node (length sibs) leaves) \<union> set (walk_pairs node current i sibs)) \<Longrightarrow>
   current = leaves ! i \<and> sibs = path node (length sibs) leaves i"
proof (induction sibs arbitrary: current i leaves)
  case Nil
  then show ?case by (cases leaves) (auto simp: tree_root_0)
next
  case (Cons s sibs)
  let ?p = "if even i then (current, s) else (s, current)"
  let ?q = "if even i then (leaves ! i, leaves ! sibling_of i) else (leaves ! sibling_of i, leaves ! i)"
  have cur: "climb node (node (fst ?p) (snd ?p)) (i div 2) sibs
      = tree_root node (length sibs) (hash_pairs node leaves)"
    using Cons.prems(1) by (simp add: tree_root_Suc split: if_splits)
  have sub: "inj_on (\<lambda>(l, r). node l r)
      (set (tree_pairs node (length sibs) (hash_pairs node leaves))
        \<union> set (walk_pairs node (node (fst ?p) (snd ?p)) (i div 2) sibs))"
    by (rule inj_on_subset [OF Cons.prems(4)]) (auto simp: Let_def)
  have half: "length (hash_pairs node leaves) = 2 ^ length sibs" "i div 2 < 2 ^ length sibs"
    using Cons.prems(2,3) by auto
  have IH: "node (fst ?p) (snd ?p) = hash_pairs node leaves ! (i div 2)"
      "sibs = path node (length sibs) (hash_pairs node leaves) (i div 2)"
    using Cons.IH [OF cur half sub] by auto
  have "hash_pairs node leaves ! (i div 2) = node (fst ?q) (snd ?q)"
    using Cons.prems(2,3) by (simp add: pair_of_node [of i "2 ^ length sibs"])
  with IH(1) have eq: "(\<lambda>(l, r). node l r) ?p = (\<lambda>(l, r). node l r) ?q"
    by (simp add: case_prod_beta)
  have "?q = (leaves ! (2 * (i div 2)), leaves ! (2 * (i div 2) + 1))"
    by (auto simp: sibling_of_def)
  then have "?q \<in> set (adjacent leaves)"
    using nth_adjacent [of "i div 2" leaves] Cons.prems(2) half by simp
  then have "?p = ?q"
    using inj_onD [OF Cons.prems(4) eq] by (simp add: Let_def)
  with IH(2) show ?case by (auto split: if_splits)
qed

section \<open>Subtrees\<close>

lemma take_hash_pairs: "take n (hash_pairs node xs) = hash_pairs node (take (2 * n) xs)"
proof (induction node xs arbitrary: n rule: hash_pairs.induct)
  case (1 node a b rest)
  then show ?case by (cases n) auto
qed (auto simp: take_Cons split: nat.splits)

lemma drop_hash_pairs: "drop n (hash_pairs node xs) = hash_pairs node (drop (2 * n) xs)"
proof (induction node xs arbitrary: n rule: hash_pairs.induct)
  case (1 node a b rest)
  then show ?case by (cases n) auto
qed (auto simp: drop_Cons split: nat.splits)

text \<open>Node \<open>j\<close> of level \<open>k\<close> is the root of the run of leaves below it.\<close>

definition subtree :: "nat \<Rightarrow> nat \<Rightarrow> 'h list \<Rightarrow> 'h list" where
  "subtree k j leaves = take (2 ^ k) (drop (j * 2 ^ k) leaves)"

lemma subtree_hash_pairs: "subtree k j (hash_pairs node leaves) = hash_pairs node (subtree (Suc k) j leaves)"
  by (simp add: subtree_def take_hash_pairs drop_hash_pairs mult.left_commute)

lemma level_nth_subtree:
  "(j + 1) * 2 ^ k \<le> length leaves \<Longrightarrow>
     (hash_pairs node ^^ k) leaves ! j = tree_root node k (subtree k j leaves)"
proof (induction k arbitrary: leaves)
  case 0
  then show ?case by (simp add: tree_root_0 subtree_def hd_conv_nth take_Suc_conv_app_nth hd_drop_conv_nth)
next
  case (Suc k)
  then have "(hash_pairs node ^^ k) (hash_pairs node leaves) ! j
      = tree_root node k (subtree k j (hash_pairs node leaves))"
    by (intro Suc.IH) auto
  then show ?case by (simp add: funpow_swap1 tree_root_Suc subtree_hash_pairs)
qed

lemma path_nth:
  "k < d \<Longrightarrow> path node d leaves i ! k = (hash_pairs node ^^ k) leaves ! sibling_of (i div 2 ^ k)"
proof (induction d arbitrary: leaves i k)
  case (Suc d)
  then show ?case
    by (cases k) (simp_all add: funpow_swap1 div_mult2_eq)
qed simp

end
