(* ===== verification/Artifact_Merkle.thy ===== *)
theory Artifact_Merkle
  imports Merkle_Tree Runtime
begin

text \<open>
  The Release 1 artifact commitment of \<open>upgrade_controller/src/artifact_merkle.rs\<close>: 16 KiB chunks,
  at most 96 of them, padded with index-separated empty leaves to the next power of two.
\<close>

section \<open>Parameters\<close>

definition ARTIFACT_CHUNK_LEAF_DOMAIN_V1 :: "byte list" where
  "ARTIFACT_CHUNK_LEAF_DOMAIN_V1 = ascii ''AMOEBA_ARTIFACT_CHUNK_V1''"
definition ARTIFACT_CHUNK_NODE_DOMAIN_V1 :: "byte list" where
  "ARTIFACT_CHUNK_NODE_DOMAIN_V1 = ascii ''AMOEBA_ARTIFACT_NODE_V1''"
definition ARTIFACT_CHUNK_EMPTY_DOMAIN_V1 :: "byte list" where
  "ARTIFACT_CHUNK_EMPTY_DOMAIN_V1 = ascii ''AMOEBA_ARTIFACT_EMPTY_V1''"

definition ARTIFACT_CHUNK_SIZE_16_KIB :: u32 where "ARTIFACT_CHUNK_SIZE_16_KIB = 16 * 1024"
definition RELEASE1_ARTIFACT_CHUNK_SIZE_V1 :: u32 where
  "RELEASE1_ARTIFACT_CHUNK_SIZE_V1 = ARTIFACT_CHUNK_SIZE_16_KIB"
definition MAX_ARTIFACT_BYTES_V1 :: u64 where "MAX_ARTIFACT_BYTES_V1 = 1572864"
definition MAX_SELECTED_ARTIFACT_CHUNKS_V1 :: nat where
  "MAX_SELECTED_ARTIFACT_CHUNKS_V1 =
     unat MAX_ARTIFACT_BYTES_V1 div unat RELEASE1_ARTIFACT_CHUNK_SIZE_V1"
definition MAX_PADDED_ARTIFACT_CHUNKS_V1 :: nat where "MAX_PADDED_ARTIFACT_CHUNKS_V1 = 128"
definition MAX_ARTIFACT_PROOF_DEPTH_V1 :: nat where "MAX_ARTIFACT_PROOF_DEPTH_V1 = 7"

lemma chunk_size_unat [simp]: "unat RELEASE1_ARTIFACT_CHUNK_SIZE_V1 = 16384"
    "unat ARTIFACT_CHUNK_SIZE_16_KIB = 16384"
  by (simp_all add: RELEASE1_ARTIFACT_CHUNK_SIZE_V1_def ARTIFACT_CHUNK_SIZE_16_KIB_def)

lemma max_selected [simp]: "MAX_SELECTED_ARTIFACT_CHUNKS_V1 = 96"
  by (simp add: MAX_SELECTED_ARTIFACT_CHUNKS_V1_def MAX_ARTIFACT_BYTES_V1_def)

definition is_release1_chunk_size :: "u32 \<Rightarrow> bool" where
  "is_release1_chunk_size chunk_size \<longleftrightarrow> chunk_size = RELEASE1_ARTIFACT_CHUNK_SIZE_V1"

definition artifact_chunk_count :: "u64 \<Rightarrow> u32 \<Rightarrow> governance_error + u32" where
  "artifact_chunk_count artifact_length chunk_size =
     (if artifact_length = 0 \<or> artifact_length > MAX_ARTIFACT_BYTES_V1
         \<or> \<not> is_release1_chunk_size chunk_size
      then Inl InvalidMerkleParameters
      else let chunk_size = ucast chunk_size :: u64 in
        bnd (ok_or (checked_add artifact_length (chunk_size - 1)) ArithmeticOverflow) (\<lambda>sum.
        let count = sum div chunk_size in
        if unat count \<ge> 2 ^ 32 then Inl InvalidMerkleParameters
        else let count = ucast count :: u32 in
          if count = 0 \<or> unat count > MAX_SELECTED_ARTIFACT_CHUNKS_V1
          then Inl InvalidMerkleParameters else Inr count))"

section \<open>Hashes\<close>

definition artifact_chunk_leaf_hash :: "env \<Rightarrow> u32 \<Rightarrow> byte list \<Rightarrow> governance_error + hash32" where
  "artifact_chunk_leaf_hash E chunk_index chunk =
     (if unat chunk_index \<ge> MAX_SELECTED_ARTIFACT_CHUNKS_V1 \<or> chunk = []
         \<or> length chunk > unat ARTIFACT_CHUNK_SIZE_16_KIB
      then Inl InvalidMerkleParameters
      else if length chunk \<ge> 2 ^ 32 then Inl InvalidMerkleParameters
      else let actual_length = of_nat (length chunk) :: u32 in
        Inr (hashv E [ARTIFACT_CHUNK_LEAF_DOMAIN_V1, wr_u32 chunk_index, wr_u32 actual_length, chunk]))"

definition artifact_chunk_node_hash :: "env \<Rightarrow> hash32 \<Rightarrow> hash32 \<Rightarrow> hash32" where
  "artifact_chunk_node_hash E left right =
     hashv E [ARTIFACT_CHUNK_NODE_DOMAIN_V1, wr_32 left, wr_32 right]"

definition artifact_chunk_empty_hash :: "env \<Rightarrow> u32 \<Rightarrow> governance_error + hash32" where
  "artifact_chunk_empty_hash E padded_index =
     (if unat padded_index \<ge> MAX_PADDED_ARTIFACT_CHUNKS_V1 then Inl InvalidMerkleParameters
      else Inr (hashv E [ARTIFACT_CHUNK_EMPTY_DOMAIN_V1, wr_u32 padded_index]))"

section \<open>Trees\<close>

function reduce_levels :: "env \<Rightarrow> hash32 list \<Rightarrow> hash32 list" where
  "reduce_levels E level =
     (if length level > 1 then reduce_levels E (hash_pairs (artifact_chunk_node_hash E) level)
      else level)"
  by pat_completeness auto
termination
  by (relation "measure (\<lambda>(E, level). length level)") auto

declare reduce_levels.simps [simp del]

definition reduce_tree :: "env \<Rightarrow> hash32 list \<Rightarrow> governance_error + hash32" where
  "reduce_tree E level =
     (if level = [] \<or> \<not> is_power_of_two (length level) then Inl InvalidMerkleParameters
      else let level = reduce_levels E level in
        ok_or (if level = [] then None else Some (last level)) InvalidMerkleParameters)"

text \<open>The leaf level of an artifact: one leaf per chunk, then the empty leaves.\<close>

definition artifact_leaves_v1 :: "env \<Rightarrow> byte list \<Rightarrow> nat \<Rightarrow> u32 \<Rightarrow> governance_error + hash32 list" where
  "artifact_leaves_v1 E artifact chunk_count chunk_size =
     bnd (try_map (\<lambda>(index, chunk). artifact_chunk_leaf_hash E (of_nat index) chunk)
            (enumerate 0 (chunks (unat chunk_size) artifact))) (\<lambda>real.
     bnd (try_map (\<lambda>index. artifact_chunk_empty_hash E (of_nat index))
            [chunk_count..<next_power_of_two chunk_count]) (\<lambda>empties.
     Inr (real @ empties)))"

definition artifact_merkle_root :: "env \<Rightarrow> byte list \<Rightarrow> u32 \<Rightarrow> governance_error + hash32" where
  "artifact_merkle_root E artifact chunk_size =
     (if length artifact \<ge> 2 ^ 64 then Inl InvalidMerkleParameters
      else bnd (artifact_chunk_count (of_nat (length artifact)) chunk_size) (\<lambda>chunk_count.
           bnd (artifact_leaves_v1 E artifact (unat chunk_count) chunk_size) (\<lambda>level.
           reduce_tree E level)))"

text \<open>The loop of \<open>artifact_merkle_proof\<close>: push the sibling, then move one level up.\<close>

function proof_levels :: "env \<Rightarrow> hash32 list \<Rightarrow> nat \<Rightarrow> hash32 list" where
  "proof_levels E level index =
     (if length level > 1
      then level ! (index XOR 1) # proof_levels E (hash_pairs (artifact_chunk_node_hash E) level) (index div 2)
      else [])"
  by pat_completeness auto
termination
  by (relation "measure (\<lambda>(E, level, index). length level)") auto

declare proof_levels.simps [simp del]

definition artifact_merkle_proof :: "env \<Rightarrow> byte list \<Rightarrow> u32 \<Rightarrow> u32 \<Rightarrow> governance_error + hash32 list" where
  "artifact_merkle_proof E artifact chunk_size chunk_index =
     (if length artifact \<ge> 2 ^ 64 then Inl InvalidMerkleParameters
      else bnd (artifact_chunk_count (of_nat (length artifact)) chunk_size) (\<lambda>chunk_count.
        if unat chunk_index \<ge> unat chunk_count then Inl InvalidMerkleProof
        else bnd (artifact_leaves_v1 E artifact (unat chunk_count) chunk_size) (\<lambda>level.
          Inr (proof_levels E level (unat chunk_index)))))"

section \<open>Verification\<close>

definition artifact_padding_subtree_hash :: "env \<Rightarrow> nat \<Rightarrow> nat \<Rightarrow> governance_error + hash32" where
  "artifact_padding_subtree_hash E padded_start padded_leaf_count =
     bnd (ok_or (checked_usize (padded_start + padded_leaf_count)) InvalidMerkleProof) (\<lambda>padded_end.
     if padded_leaf_count = 0 \<or> \<not> is_power_of_two padded_leaf_count
        \<or> padded_start mod padded_leaf_count \<noteq> 0 \<or> padded_end > MAX_PADDED_ARTIFACT_CHUNKS_V1
     then Inl InvalidMerkleProof
     else bnd (try_map (\<lambda>index. map_err (\<lambda>_. InvalidMerkleProof) (artifact_chunk_empty_hash E (of_nat index)))
            [padded_start..<padded_end]) (\<lambda>level.
          map_err (\<lambda>_. InvalidMerkleProof) (reduce_tree E level)))"

definition validate_canonical_padding_sibling ::
    "env \<Rightarrow> hash32 \<Rightarrow> nat \<Rightarrow> nat \<Rightarrow> nat \<Rightarrow> nat \<Rightarrow> governance_error + unit" where
  "validate_canonical_padding_sibling E sibling node_index proof_level chunk_count padded_count =
     (if proof_level \<ge> MAX_ARTIFACT_PROOF_DEPTH_V1 then Inl InvalidMerkleProof
      else let sibling_leaf_count = 2 ^ proof_level; sibling_node_index = node_index XOR 1 in
        bnd (ok_or (checked_usize (sibling_node_index * sibling_leaf_count)) InvalidMerkleProof) (\<lambda>sibling_start.
        bnd (ok_or (checked_usize (sibling_start + sibling_leaf_count)) InvalidMerkleProof) (\<lambda>sibling_end.
        if sibling_end > padded_count then Inl InvalidMerkleProof
        else if sibling_start < chunk_count then Inr ()
        else bnd (artifact_padding_subtree_hash E sibling_start sibling_leaf_count) (\<lambda>canonical.
          if sibling \<noteq> canonical then Inl InvalidMerkleProof else Inr ()))))"

fun verify_path_v1 :: "env \<Rightarrow> nat \<Rightarrow> nat \<Rightarrow> nat \<Rightarrow> nat \<Rightarrow> hash32 \<Rightarrow> hash32 list \<Rightarrow> governance_error + hash32" where
  "verify_path_v1 E chunk_count padded_count level index current [] = Inr current"
| "verify_path_v1 E chunk_count padded_count level index current (sibling # rest) =
     bnd (validate_canonical_padding_sibling E sibling index level chunk_count padded_count) (\<lambda>_.
     verify_path_v1 E chunk_count padded_count (level + 1) (drop_bit 1 index)
       (if index AND 1 = 0 then artifact_chunk_node_hash E current sibling
        else artifact_chunk_node_hash E sibling current) rest)"

definition verify_artifact_chunk_proof ::
    "env \<Rightarrow> hash32 \<Rightarrow> u64 \<Rightarrow> u32 \<Rightarrow> u32 \<Rightarrow> byte list \<Rightarrow> hash32 list \<Rightarrow> governance_error + unit" where
  "verify_artifact_chunk_proof E expected_root artifact_length chunk_size chunk_index exact_chunk sibs =
     bnd (artifact_chunk_count artifact_length chunk_size) (\<lambda>chunk_count.
     if unat chunk_index \<ge> unat chunk_count then Inl InvalidMerkleProof
     else bnd (ok_or (checked_usize (unat chunk_index * unat chunk_size)) ArithmeticOverflow) (\<lambda>chunk_start.
          bnd (ok_or (if chunk_start \<le> unat artifact_length
                      then Some (unat artifact_length - chunk_start) else None) InvalidMerkleProof) (\<lambda>remaining.
          if length exact_chunk \<noteq> min remaining (unat chunk_size) then Inl InvalidMerkleProof
          else let padded_count = next_power_of_two (unat chunk_count);
                   expected_depth = trailing_zeros padded_count in
            if length sibs \<noteq> expected_depth \<or> length sibs > MAX_ARTIFACT_PROOF_DEPTH_V1
            then Inl InvalidMerkleProof
            else bnd (artifact_chunk_leaf_hash E chunk_index exact_chunk) (\<lambda>leaf.
                 bnd (verify_path_v1 E (unat chunk_count) padded_count 0 (unat chunk_index) leaf sibs) (\<lambda>current.
                 if current \<noteq> expected_root then Inl InvalidMerkleProof else Inr ())))))"

section \<open>The Release 1 loop meets the reduction contract\<close>

interpretation v1_tree: tree_loop "artifact_chunk_node_hash E" "hash_pairs (artifact_chunk_node_hash E)" "reduce_levels E" for E
proof
  fix xs :: "hash32 list"
  show "1 < length xs \<Longrightarrow> reduce_levels E xs = reduce_levels E (hash_pairs (artifact_chunk_node_hash E) xs)"
    by (simp add: reduce_levels.simps [of E xs])
  show "length xs \<le> 1 \<Longrightarrow> reduce_levels E xs = xs"
    by (simp add: reduce_levels.simps [of E xs])
qed (simp_all add: nth_hash_pairs)

lemma reduce_tree_root:
  "length level = 2 ^ d \<Longrightarrow> reduce_tree E level = Inr (tree_root (artifact_chunk_node_hash E) d level)"
  using v1_tree.loop_root [of level d E] by (auto simp: reduce_tree_def)

lemma proof_levels_path:
  "length level = 2 ^ d \<Longrightarrow> proof_levels E level i = path (artifact_chunk_node_hash E) d level i"
proof (induction d arbitrary: level i)
  case 0
  then show ?case by (simp add: proof_levels.simps)
next
  case (Suc d)
  then have "1 < length level" using one_less_power [of "2::nat" "Suc d"] by simp
  with Suc show ?case by (simp add: proof_levels.simps [of E level i])
qed

end
