(* ===== verification/Gov_Artifact.thy ===== *)
theory Gov_Artifact
  imports Gov_Base Artifact_Merkle
begin

text \<open>
  The V3 artifact bound of \<open>governance_controller_v3/src/artifact.rs\<close>: the Release 1 Merkle scheme
  with up to 128 chunks (2 MiB).  The reduction loop works in place, halving the vector.
\<close>

section \<open>Parameters and hashes\<close>

definition CHUNK :: u32 where "CHUNK = RELEASE1_ARTIFACT_CHUNK_SIZE_V1"
definition MAX_ARTIFACT_BYTES :: u64 where "MAX_ARTIFACT_BYTES = 2097152"
definition MAX_CHUNKS :: nat where "MAX_CHUNKS = 128"
definition BITMAP_BYTES :: nat where "BITMAP_BYTES = MAX_CHUNKS div 8"
definition MAX_PROOF_DEPTH :: nat where "MAX_PROOF_DEPTH = 7"

lemma chunk_unat [simp]: "unat CHUNK = 16384"
  by (simp add: CHUNK_def)

lemma max_bytes_unat [simp]: "unat MAX_ARTIFACT_BYTES = 2097152"
  by (simp add: MAX_ARTIFACT_BYTES_def)

definition chunk_count :: "u64 \<Rightarrow> program_error + u32" where
  "chunk_count artifact_length =
     bnd (require (artifact_length > 0 \<and> artifact_length \<le> MAX_ARTIFACT_BYTES) InvalidArtifact) (\<lambda>_.
     Inr (of_nat (div_ceil (unat artifact_length) (unat CHUNK))))"

definition leaf_hash :: "env \<Rightarrow> u32 \<Rightarrow> byte list \<Rightarrow> program_error + hash32" where
  "leaf_hash E index chunk =
     bnd (require (unat index < MAX_CHUNKS \<and> chunk \<noteq> [] \<and> length chunk \<le> unat CHUNK) InvalidArtifact) (\<lambda>_.
     Inr (hashv E [ARTIFACT_CHUNK_LEAF_DOMAIN_V1, wr_u32 index, wr_u32 (of_nat (length chunk)), chunk]))"

definition empty_hash :: "env \<Rightarrow> nat \<Rightarrow> program_error + hash32" where
  "empty_hash E index = map_err (\<lambda>_. program_error_from InvalidArtifact) (artifact_chunk_empty_hash E (of_nat index))"

section \<open>Reduction in place\<close>

text \<open>\<open>for i in 0..half { level[i] = node(level[2i], level[2i+1]) }\<close>\<close>

fun fold_in_place :: "env \<Rightarrow> nat list \<Rightarrow> hash32 list \<Rightarrow> program_error + hash32 list" where
  "fold_in_place E [] level = Inr level"
| "fold_in_place E (i # is) level =
     bnd (checked_nth level (2 * i)) (\<lambda>left.
     bnd (checked_nth level (2 * i + 1)) (\<lambda>right.
     bnd (checked_put level i (artifact_chunk_node_hash E left right)) (\<lambda>level.
     fold_in_place E is level)))"

definition reduce_pass :: "env \<Rightarrow> hash32 list \<Rightarrow> program_error + hash32 list" where
  "reduce_pass E level =
     (let half = length level div 2 in
      bnd (fold_in_place E [0..<half] level) (\<lambda>level. Inr (take half level)))"

lemma length_fold_in_place: "fold_in_place E is level = Inr level' \<Longrightarrow> length level' = length level"
  by (induction "is" arbitrary: level) (auto simp: result_simps)

lemma length_reduce_pass: "reduce_pass E level = Inr level' \<Longrightarrow> length level' = length level div 2"
  by (auto simp: reduce_pass_def Let_def result_simps dest: length_fold_in_place)

lemma bnd_cong_ok [fundef_cong]:
  "m = m' \<Longrightarrow> (\<And>x. m' = Inr x \<Longrightarrow> f x = g x) \<Longrightarrow> bnd m f = bnd m' g"
  by (cases m) auto

function reduce_loop :: "env \<Rightarrow> hash32 list \<Rightarrow> program_error + hash32 list" where
  "reduce_loop E level =
     (if length level > 1 then bnd (reduce_pass E level) (\<lambda>level. reduce_loop E level) else Inr level)"
  by pat_completeness auto
termination
  by (relation "measure (\<lambda>(E, level). length level)") (auto dest: length_reduce_pass)

declare reduce_loop.simps [simp del]

definition reduce :: "env \<Rightarrow> hash32 list \<Rightarrow> program_error + hash32" where
  "reduce E level =
     bnd (require (level \<noteq> [] \<and> is_power_of_two (length level)) InvalidArtifact) (\<lambda>_.
     bnd (reduce_loop E level) (\<lambda>level. checked_nth level 0))"

section \<open>Verification\<close>

definition padding_hash :: "env \<Rightarrow> nat \<Rightarrow> nat \<Rightarrow> program_error + hash32" where
  "padding_hash E start width =
     bnd (require (is_power_of_two width \<and> start mod width = 0 \<and> start + width \<le> MAX_CHUNKS) InvalidArtifact) (\<lambda>_.
     bnd (try_map (empty_hash E) [start..<start + width]) (\<lambda>level.
     reduce E level))"

text \<open>The loop over the proof: \<open>level\<close>, \<open>node\<close> and \<open>current\<close> are its variables.\<close>

fun verify_path :: "env \<Rightarrow> nat \<Rightarrow> nat \<Rightarrow> nat \<Rightarrow> nat \<Rightarrow> hash32 \<Rightarrow> hash32 list \<Rightarrow> program_error + hash32" where
  "verify_path E count padded level node current [] = Inr current"
| "verify_path E count padded level node current (sibling # rest) =
     (let width = 2 ^ level; sibling_start = (node XOR 1) * width in
      bnd (require (sibling_start + width \<le> padded) InvalidArtifact) (\<lambda>_.
      bnd (if sibling_start \<ge> count
           then bnd (padding_hash E sibling_start width) (\<lambda>h. require (sibling = h) InvalidArtifact)
           else Inr ()) (\<lambda>_.
      verify_path E count padded (level + 1) (drop_bit 1 node)
        (if node AND 1 = 0 then artifact_chunk_node_hash E current sibling
         else artifact_chunk_node_hash E sibling current) rest)))"

definition verify_chunk ::
    "env \<Rightarrow> hash32 \<Rightarrow> u64 \<Rightarrow> u32 \<Rightarrow> byte list \<Rightarrow> hash32 list \<Rightarrow> program_error + unit" where
  "verify_chunk E root artifact_length index chunk sibs =
     bnd (chunk_count artifact_length) (\<lambda>count.
     bnd (require (unat index < unat count) InvalidArtifact) (\<lambda>_.
     let start = unat index * unat CHUNK in
     bnd (require (length chunk = min (unat artifact_length - start) (unat CHUNK)) InvalidArtifact) (\<lambda>_.
     let padded = next_power_of_two (unat count) in
     bnd (require (length sibs = trailing_zeros padded \<and> length sibs \<le> MAX_PROOF_DEPTH) InvalidArtifact) (\<lambda>_.
     bnd (leaf_hash E index chunk) (\<lambda>leaf.
     bnd (verify_path E (unat count) padded 0 (unat index) leaf sibs) (\<lambda>current.
     require (current = root) InvalidArtifact))))))"

section \<open>Off-chain construction\<close>

definition leaves :: "env \<Rightarrow> byte list \<Rightarrow> program_error + hash32 list" where
  "leaves E artifact =
     bnd (chunk_count (of_nat (length artifact))) (\<lambda>count.
     bnd (try_map (\<lambda>(i, chunk). leaf_hash E (of_nat i) chunk)
            (enumerate 0 (chunks (unat CHUNK) artifact))) (\<lambda>level.
     bnd (try_map (empty_hash E) [unat count..<next_power_of_two (unat count)]) (\<lambda>empties.
     Inr (level @ empties))))"

definition merkle_root :: "env \<Rightarrow> byte list \<Rightarrow> program_error + hash32" where
  "merkle_root E artifact = bnd (leaves E artifact) (reduce E)"

function proof_loop :: "env \<Rightarrow> hash32 list \<Rightarrow> nat \<Rightarrow> hash32 list" where
  "proof_loop E level node =
     (if length level > 1
      then level ! (node XOR 1)
           # proof_loop E (hash_pairs (artifact_chunk_node_hash E) level) (drop_bit 1 node)
      else [])"
  by pat_completeness auto
termination
  by (relation "measure (\<lambda>(E, level, node). length level)") auto

declare proof_loop.simps [simp del]

definition merkle_proof :: "env \<Rightarrow> byte list \<Rightarrow> u32 \<Rightarrow> program_error + hash32 list" where
  "merkle_proof E artifact index =
     bnd (leaves E artifact) (\<lambda>level.
     bnd (chunk_count (of_nat (length artifact))) (\<lambda>count.
     bnd (require (unat index < unat count) InvalidArtifact) (\<lambda>_.
     Inr (proof_loop E level (unat index)))))"

section \<open>The in-place loop meets the reduction contract\<close>

text \<open>The pass overwrites slot \<open>i\<close> only after it was read: the pairs still to hash lie above.\<close>

lemma fold_in_place_nth:
  "j \<le> n \<Longrightarrow> 2 * n \<le> length level \<Longrightarrow> \<exists>level'. fold_in_place E [j..<n] level = Inr level' \<and>
     (\<forall>k. level' ! k =
       (if j \<le> k \<and> k < n then artifact_chunk_node_hash E (level ! (2 * k)) (level ! (2 * k + 1)) else level ! k))"
proof (induction "n - j" arbitrary: j level)
  case 0
  then show ?case by auto
next
  case (Suc d)
  then have j: "j < n" by simp
  let ?level = "level[j := artifact_chunk_node_hash E (level ! (2 * j)) (level ! (2 * j + 1))]"
  have "\<exists>level'. fold_in_place E [Suc j..<n] ?level = Inr level' \<and> (\<forall>k. level' ! k =
       (if Suc j \<le> k \<and> k < n then artifact_chunk_node_hash E (?level ! (2 * k)) (?level ! (2 * k + 1))
        else ?level ! k))"
    using Suc.hyps Suc.prems j by (intro Suc.hyps(1)) auto
  then obtain level' where level': "fold_in_place E [Suc j..<n] ?level = Inr level'"
    "\<And>k. level' ! k =
       (if Suc j \<le> k \<and> k < n then artifact_chunk_node_hash E (?level ! (2 * k)) (?level ! (2 * k + 1)) else ?level ! k)"
    by blast
  have "fold_in_place E [j..<n] level = Inr level'"
    using j Suc.prems level'(1) by (simp add: upt_conv_Cons)
  moreover have "level' ! k = (if j \<le> k \<and> k < n then artifact_chunk_node_hash E (level ! (2 * k)) (level ! (2 * k + 1))
      else level ! k)" for k
    using j Suc.prems by (auto simp: level'(2) nth_list_update not_le less_Suc_eq_le)
  ultimately show ?case by blast
qed

text \<open>Every index of a pass is in range, so the loop always returns.\<close>

lemma reduce_pass_ok:
  "\<exists>level'. reduce_pass E level = Inr level' \<and> length level' = length level div 2 \<and>
     (\<forall>k < length level div 2. level' ! k = artifact_chunk_node_hash E (level ! (2 * k)) (level ! (2 * k + 1)))"
proof -
  obtain level' where "fold_in_place E [0..<length level div 2] level = Inr level'"
    "\<forall>k < length level div 2. level' ! k = artifact_chunk_node_hash E (level ! (2 * k)) (level ! (2 * k + 1))"
    using fold_in_place_nth [of 0 "length level div 2" level E] by auto
  then show ?thesis
    using length_fold_in_place by (fastforce simp: reduce_pass_def Let_def)
qed

lemma reduce_pass_projr: "reduce_pass E level = Inr (projr (reduce_pass E level))"
  using reduce_pass_ok [of E level] by auto

lemma reduce_loop_projr: "reduce_loop E level = Inr (projr (reduce_loop E level))"
proof (induction "length level" arbitrary: level rule: less_induct)
  case less
  show ?case
  proof (cases "1 < length level")
    case True
    obtain level' where level': "reduce_pass E level = Inr level'" "length level' = length level div 2"
      using reduce_pass_ok by blast
    with less True have "reduce_loop E level' = Inr (projr (reduce_loop E level'))" by simp
    with True level' show ?thesis by (metis bnd.simps(2) reduce_loop.simps)
  qed (simp add: reduce_loop.simps [of E level])
qed

interpretation v3_tree: tree_loop "artifact_chunk_node_hash E" "\<lambda>level. projr (reduce_pass E level)"
  "\<lambda>level. projr (reduce_loop E level)" for E
proof
  fix xs :: "hash32 list" and i :: nat
  obtain ys where ys: "reduce_pass E xs = Inr ys" "length ys = length xs div 2"
    "\<forall>k < length xs div 2. ys ! k = artifact_chunk_node_hash E (xs ! (2 * k)) (xs ! (2 * k + 1))"
    using reduce_pass_ok by blast
  show "length (projr (reduce_pass E xs)) = length xs div 2" using ys by simp
  show "i < length xs div 2 \<Longrightarrow>
      projr (reduce_pass E xs) ! i = artifact_chunk_node_hash E (xs ! (2 * i)) (xs ! (2 * i + 1))"
    using ys by simp
  show "1 < length xs \<Longrightarrow> projr (reduce_loop E xs) = projr (reduce_loop E (projr (reduce_pass E xs)))"
    using ys(1) by (simp add: reduce_loop.simps [of E xs])
  show "length xs \<le> 1 \<Longrightarrow> projr (reduce_loop E xs) = xs"
    by (simp add: reduce_loop.simps [of E xs])
qed

lemma reduce_root:
  assumes "length level = 2 ^ d"
  shows "reduce E level = Inr (tree_root (artifact_chunk_node_hash E) d level)"
proof -
  have "reduce_loop E level = Inr [tree_root (artifact_chunk_node_hash E) d level]"
    using reduce_loop_projr [of E level] v3_tree.loop_root [OF assms, of E] by simp
  then show ?thesis using assms by (auto simp: reduce_def bnd_require)
qed

lemma proof_loop_path:
  "length level = 2 ^ d \<Longrightarrow> proof_loop E level i = path (artifact_chunk_node_hash E) d level i"
proof (induction d arbitrary: level i)
  case 0
  then show ?case by (simp add: proof_loop.simps)
next
  case (Suc d)
  then have "1 < length level" using one_less_power [of "2::nat" "Suc d"] by simp
  with Suc show ?case by (simp add: proof_loop.simps [of E level i])
qed

end
