(* ===== verification/Verify_Recipe.thy ===== *)
theory Verify_Recipe
  imports Gov_Base
begin

text \<open>
  The closed build-verification recipe of \<open>governance_controller_v3/src/verification.rs\<close>: the policy
  a council approves, the exact external record it stands for, and the predicate that recognises an
  existing record of the same recipe.
\<close>

section \<open>Constants\<close>

definition VERIFY_PROGRAM :: pubkey where
  "VERIFY_PROGRAM = 0x17923455852999008ca9e5af9846b1c1566741db1f0d67d5d7bfbe5a9296be0d"
definition MAINNET_ORACLE :: pubkey where
  "MAINNET_ORACLE = 0x51b5daceb070e4d7110d05b15cb19bac99293a03c0a16fd7b5d8a820baa9bc2d"
definition MAINNET_FUTURES :: pubkey where
  "MAINNET_FUTURES = 0xa4c880c78c64f2dff62ea40c96c1b2771f71f2b2bc587c22b0047d0243f75da2"

definition BUILD_IMAGE :: string where
  "BUILD_IMAGE = ''solanafoundation/solana-verifiable-build@sha256:0b4e3716fad9ca4b4aac3e3f977f43aad93a18c22296c0c0f44fc22e644bdd68''"
definition MAINNET_TARGET_BUILD_IMAGE :: string where
  "MAINNET_TARGET_BUILD_IMAGE = ''us-central1-docker.pkg.dev/amoeba-hm0q2k/solana-verifiable-builds/gate-final@sha256:7ad1e567f19831e658f5b892a7269d23d7f1826438e025b5d9d2e385240a4d67''"
definition MAINNET_FUTURES_BUILD_IMAGE :: string where
  "MAINNET_FUTURES_BUILD_IMAGE = ''us-central1-docker.pkg.dev/amoeba-hm0q2k/solana-verifiable-builds/amba-release@sha256:36bdcd0005a5a41f9eba76add58f16fccdc7a2b7b2fbace1be3aaba8cda7b40e''"
definition INITIALIZE :: "byte list" where "INITIALIZE = [175, 175, 109, 31, 13, 152, 155, 237]"
definition UPDATE :: "byte list" where "UPDATE = [219, 200, 88, 176, 158, 63, 253, 127]"
definition VERSION :: string where "VERSION = ''0.5.1''"

definition repository :: "bool \<Rightarrow> string" where
  "repository own = (if own then ''https://github.com/amoeba-farm/amoeba-governance''
                     else ''https://github.com/amoeba-farm/amoeba-program'')"

section \<open>The policy\<close>

record verification_policy =
  vp_target :: pubkey
  vp_deployed_slot :: u64
  vp_commit :: "byte list"

definition VERIFICATION_POLICY_LEN :: nat where "VERIFICATION_POLICY_LEN = 60"

definition wf_verification_policy :: "verification_policy \<Rightarrow> bool" where
  "wf_verification_policy p \<longleftrightarrow> length (vp_commit p) = 20"

definition ser_verification_policy :: "verification_policy \<Rightarrow> byte list" where
  "ser_verification_policy p = wr_32 (vp_target p) @ wr_u64 (vp_deployed_slot p) @ vp_commit p"

definition de_verification_policy :: "verification_policy reader" where
  "de_verification_policy bs = do {
     (target, bs) \<leftarrow> rd_32 bs; (deployed_slot, bs) \<leftarrow> rd_u64 bs; (commit, bs) \<leftarrow> rd_bytes 20 bs;
     Some (\<lparr>vp_target = target, vp_deployed_slot = deployed_slot, vp_commit = commit\<rparr>, bs) }"

interpretation verification_policy_codec:
  borsh_codec ser_verification_policy de_verification_policy wf_verification_policy VERIFICATION_POLICY_LEN
  by unfold_locales
    (auto simp: ser_verification_policy_def de_verification_policy_def wf_verification_policy_def
      VERIFICATION_POLICY_LEN_def bind_eq_Some_conv dest!: borsh_readD)

definition verification_policy_validate :: "verification_policy \<Rightarrow> program_error + unit" where
  "verification_policy_validate p =
     require (vp_target p \<noteq> 0 \<and> vp_commit p \<noteq> replicate 20 0) InvalidAccount"

section \<open>The recipe\<close>

definition put_string :: "string \<Rightarrow> byte list" where
  "put_string s = wr_u32 (of_nat (length s)) @ ascii s"

text \<open>\<open>write!(commit, "{byte:02x}")\<close>\<close>

definition hex_digit :: "nat \<Rightarrow> char" where
  "hex_digit n = ''0123456789abcdef'' ! n"

definition hex_byte :: "byte \<Rightarrow> string" where
  "hex_byte b = [hex_digit (unat b div 16), hex_digit (unat b mod 16)]"

text \<open>The argument list, one branch per closed target.\<close>

definition recipe_args :: "bool \<Rightarrow> bool \<Rightarrow> bool \<Rightarrow> bool \<Rightarrow> bool \<Rightarrow> string list" where
  "recipe_args own is_spread is_oracle is_futures previous =
     (if is_spread then [''--mount-path'', ''programs/light_token_minter'',
                      ''--workspace-path'', ''programs/light_token_minter'']
      else if is_oracle \<or> is_futures then [''--workspace-path'', if is_oracle then ''oracle'' else ''futures'']
      else []) @
     [''--library-name'',
      if own then ''governance_controller_v3'' else if is_spread then ''light_token_minter''
      else if is_oracle then ''ameba_oracle'' else ''ameba_futures'',
      ''--base-image'',
      if is_futures \<and> \<not> previous then MAINNET_FUTURES_BUILD_IMAGE
      else if is_oracle \<or> is_futures then MAINNET_TARGET_BUILD_IMAGE else BUILD_IMAGE,
      ''--arch'', ''v1''] @
     (if is_oracle \<or> is_futures then [''--cargo-build-sbf-args'', ''--tools-version v1.53''] else []) @
     (if is_spread then
        (if previous then [''--'', ''--no-default-features'', ''--features'',
                           ''mainnet-v3,devnet-solo-backfill-2026'']
         else [''--'', ''--features'', ''mainnet-v3''])
      else [])"

definition params_for :: "verification_policy \<Rightarrow> pubkey \<Rightarrow> bool \<Rightarrow> program_error + byte list" where
  "params_for p controller previous =
     bnd (verification_policy_validate p) (\<lambda>_.
     let own = (vp_target p = controller); is_spread = (vp_target p = DEVNET_SPREAD);
         is_oracle = (vp_target p = MAINNET_ORACLE); is_futures = (vp_target p = MAINNET_FUTURES)
     in bnd (require (own \<or> is_spread \<or> is_oracle \<or> is_futures) InvalidAccount) (\<lambda>_.
        bnd (require (\<not> previous \<or> is_spread \<or> is_futures) InvalidAccount) (\<lambda>_.
        let repo = repository own;
            args = recipe_args own is_spread is_oracle is_futures previous;
            commit = concat (map hex_byte (vp_commit p));
            version = (if is_oracle \<or> is_futures then ''0.5.2'' else VERSION);
            bytes = concat (map put_string [version, repo, commit])
              @ wr_u32 (of_nat (length args)) @ concat (map put_string args)
              @ wr_u64 (vp_deployed_slot p)
        in bnd (require (length bytes \<le> 640) InvalidAccount) (\<lambda>_. Inr bytes))))"

definition verification_params :: "verification_policy \<Rightarrow> pubkey \<Rightarrow> program_error + byte list" where
  "verification_params p controller = params_for p controller False"

definition previous_spread_params :: "verification_policy \<Rightarrow> pubkey \<Rightarrow> program_error + byte list" where
  "previous_spread_params p controller =
     bnd (require (vp_target p = DEVNET_SPREAD) InvalidAccount) (\<lambda>_. params_for p controller True)"

definition previous_futures_params :: "verification_policy \<Rightarrow> pubkey \<Rightarrow> program_error + byte list" where
  "previous_futures_params p controller =
     bnd (require (vp_target p = MAINNET_FUTURES) InvalidAccount) (\<lambda>_. params_for p controller True)"

section \<open>Records\<close>

text \<open>\<open>xs[a..b] == ys[a..b]\<close>, then the rest of the conjunction.\<close>

definition same_range_and :: "nat \<Rightarrow> nat \<Rightarrow> byte list \<Rightarrow> byte list \<Rightarrow> program_error + bool \<Rightarrow> program_error + bool" where
  "same_range_and a b xs ys rest =
     bnd (checked_slice a b xs) (\<lambda>u. bnd (checked_slice a b ys) (\<lambda>v. if u = v then rest else Inr False))"

definition matches_existing_record :: "byte list \<Rightarrow> byte list \<Rightarrow> bool \<Rightarrow> program_error + bool" where
  "matches_existing_record bytes expected own =
     (let commit_start = 72 + 4 + length VERSION + 4 + length (repository own) + 4;
          commit_end = commit_start + 40
      in if length bytes \<noteq> length expected \<or> length bytes < commit_end + 9 then Inr False
         else bnd (checked_slice commit_start commit_end bytes) (\<lambda>commit.
           let slot_start = length bytes - 9
           in same_range_and 0 commit_start bytes expected
              (if (\<forall>b \<in> set commit. (48 \<le> b \<and> b \<le> 57) \<or> (97 \<le> b \<and> b \<le> 102)) \<and> (\<exists>b \<in> set commit. b \<noteq> 48)
               then same_range_and commit_end slot_start bytes expected
                 (bnd (checked_nth bytes (length bytes - 1)) (\<lambda>u.
                  bnd (checked_nth expected (length expected - 1)) (\<lambda>v. Inr (u = v))))
               else Inr False)))"

definition metadata_pda :: "env \<Rightarrow> pubkey \<Rightarrow> pubkey \<Rightarrow> pubkey \<times> byte" where
  "metadata_pda E authority target =
     find_program_address E [ascii ''otter_verify'', wr_32 authority, wr_32 target] VERIFY_PROGRAM"

definition build_params_discriminator :: "env \<Rightarrow> byte list" where
  "build_params_discriminator E = take 8 (wr_32 (sha256 E (ascii ''account:BuildParams'')))"

definition verification_record :: "env \<Rightarrow> pubkey \<Rightarrow> pubkey \<Rightarrow> byte list \<Rightarrow> byte \<Rightarrow> byte list" where
  "verification_record E target authority params bump =
     build_params_discriminator E @ wr_32 target @ wr_32 authority @ params @ [bump]"

section \<open>The size bound never bites\<close>

lemma length_put_string [simp]: "length (put_string s) = 4 + length s"
  by (simp add: put_string_def)

lemma length_hex: "length (concat (map hex_byte bs)) = 2 * length bs"
  by (induction bs) (simp_all add: hex_byte_def)

lemma length_images:
  "length BUILD_IMAGE = 112" "length MAINNET_TARGET_BUILD_IMAGE = 148"
  "length MAINNET_FUTURES_BUILD_IMAGE = 150"
  by (simp_all add: BUILD_IMAGE_def MAINNET_TARGET_BUILD_IMAGE_def MAINNET_FUTURES_BUILD_IMAGE_def)

lemma length_repository: "length (repository own) = (if own then 48 else 45)"
  by (simp add: repository_def)

lemma length_repository_le: "length (repository own) \<le> 48"
  by (simp add: length_repository)

lemma length_args: "length (concat (map put_string (recipe_args own is_spread is_oracle is_futures previous))) \<le> 500"
  by (cases own; cases is_spread; cases is_oracle; cases is_futures; cases previous)
    (simp_all add: recipe_args_def length_images)

text \<open>The parts of a parameter block that do not depend on the commit and the slot.\<close>

definition params_head :: "verification_policy \<Rightarrow> pubkey \<Rightarrow> byte list" where
  "params_head p controller =
     put_string (if vp_target p \<in> {MAINNET_ORACLE, MAINNET_FUTURES} then ''0.5.2'' else VERSION)
     @ put_string (repository (vp_target p = controller)) @ wr_u32 40"

definition params_args :: "verification_policy \<Rightarrow> pubkey \<Rightarrow> bool \<Rightarrow> byte list" where
  "params_args p controller previous =
     (let args = recipe_args (vp_target p = controller) (vp_target p = DEVNET_SPREAD)
         (vp_target p = MAINNET_ORACLE) (vp_target p = MAINNET_FUTURES) previous
      in wr_u32 (of_nat (length args)) @ concat (map put_string args))"

definition known_target :: "pubkey \<Rightarrow> pubkey \<Rightarrow> bool \<Rightarrow> bool" where
  "known_target target controller previous \<longleftrightarrow>
     (if previous then target \<in> {DEVNET_SPREAD, MAINNET_FUTURES}
      else target \<in> {controller, DEVNET_SPREAD, MAINNET_ORACLE, MAINNET_FUTURES})"

lemma length_params_head:
  "length (params_head p controller) = 17 + length (repository (vp_target p = controller))"
  by (simp add: params_head_def VERSION_def)

lemma params_for_unlimited:
  assumes "wf_verification_policy p"
  shows "params_for p controller previous =
     bnd (verification_policy_validate p) (\<lambda>_.
     bnd (require (vp_target p = controller \<or> vp_target p = DEVNET_SPREAD \<or> vp_target p = MAINNET_ORACLE
       \<or> vp_target p = MAINNET_FUTURES) InvalidAccount) (\<lambda>_.
     bnd (require (\<not> previous \<or> vp_target p = DEVNET_SPREAD \<or> vp_target p = MAINNET_FUTURES) InvalidAccount) (\<lambda>_.
     Inr (params_head p controller @ ascii (concat (map hex_byte (vp_commit p)))
       @ params_args p controller previous @ wr_u64 (vp_deployed_slot p)))))"
proof -
  let ?args = "recipe_args (vp_target p = controller) (vp_target p = DEVNET_SPREAD)
         (vp_target p = MAINNET_ORACLE) (vp_target p = MAINNET_FUTURES) previous"
  let ?B = "params_head p controller @ ascii (concat (map hex_byte (vp_commit p)))
       @ params_args p controller previous @ wr_u64 (vp_deployed_slot p)"
  have hex: "length (concat (map hex_byte (vp_commit p))) = 40"
    using assms by (simp add: length_hex wf_verification_policy_def)
  have bound: "length ?B \<le> 640"
    using length_args [of "vp_target p = controller" "vp_target p = DEVNET_SPREAD"
        "vp_target p = MAINNET_ORACLE" "vp_target p = MAINNET_FUTURES" previous]
      length_repository_le [of "vp_target p = controller"]
    by (simp add: length_params_head params_args_def hex Let_def del: length_concat)
  have layout: "concat (map put_string
        [if vp_target p = MAINNET_ORACLE \<or> vp_target p = MAINNET_FUTURES then ''0.5.2'' else VERSION,
         repository (vp_target p = controller), concat (map hex_byte (vp_commit p))])
      @ wr_u32 (of_nat (length ?args)) @ concat (map put_string ?args) @ wr_u64 (vp_deployed_slot p) = ?B"
    by (simp add: params_head_def params_args_def put_string_def hex Let_def)
  show ?thesis
    unfolding params_for_def Let_def layout by (simp only: bound require_simps bnd.simps)
qed

lemma params_for_ok:
  assumes "wf_verification_policy p"
  shows "params_for p controller previous = Inr bytes \<longleftrightarrow>
     vp_target p \<noteq> 0 \<and> vp_commit p \<noteq> replicate 20 0 \<and> known_target (vp_target p) controller previous \<and>
     bytes = params_head p controller @ ascii (concat (map hex_byte (vp_commit p)))
       @ params_args p controller previous @ wr_u64 (vp_deployed_slot p)"
  by (auto simp: params_for_unlimited [OF assms] result_simps verification_policy_validate_def known_target_def)

text \<open>Building the external record fails only for a zero target or commit or
  for a target without a recipe: the 640-byte limit is never what refuses a policy, for any of the
  four targets and either generation of the recipe.\<close>

theorem recipe_never_too_long:
  assumes "wf_verification_policy p"
  shows "is_ok (params_for p controller previous) \<longleftrightarrow>
    is_ok (verification_policy_validate p) \<and> known_target (vp_target p) controller previous"
  using params_for_ok [OF assms]
  by (auto simp: is_ok_iff verification_policy_validate_def require_ok)

definition sample_policy :: "verification_policy" where
  "sample_policy = \<lparr>vp_target = 77, vp_deployed_slot = 123, vp_commit = replicate 20 0xab\<rparr>"

theorem recipe_never_too_long_witness:
  "is_ok (params_for sample_policy 77 False)"
  by (rule recipe_never_too_long [THEN iffD2])
    (simp_all add: sample_policy_def wf_verification_policy_def verification_policy_validate_def
      known_target_def list_eq_iff_nth_eq is_ok_iff require_ok exI [of _ 0])

section \<open>Which stored records are recognised\<close>

definition lower_hex :: "byte \<Rightarrow> bool" where
  "lower_hex b \<longleftrightarrow> (48 \<le> b \<and> b \<le> 57) \<or> (97 \<le> b \<and> b \<le> 102)"

definition hex_ascii :: "byte list \<Rightarrow> byte list" where
  "hex_ascii bs = ascii (concat (map hex_byte bs))"

lemma hex_digit_byte:
  "n < 16 \<Longrightarrow> of_char (hex_digit n) = (if n < 10 then of_nat (48 + n) else of_nat (87 + n) :: byte)"
  by (auto simp: hex_digit_def numeral_eq_Suc less_Suc_eq)

lemma lower_hex_digit: "n < 16 \<Longrightarrow> lower_hex (of_char (hex_digit n))"
  by (auto simp: hex_digit_byte lower_hex_def word_le_nat_alt unat_word_ariths unat_of_nat)

text \<open>Every lowercase hex digit is the digit of one value below 16.\<close>

definition hex_value :: "byte \<Rightarrow> nat" where
  "hex_value b = (if b \<le> 57 then unat b - 48 else unat b - 87)"

lemma hex_value_digit: "lower_hex b \<Longrightarrow> hex_value b < 16 \<and> of_char (hex_digit (hex_value b)) = b"
  by (auto simp: lower_hex_def hex_value_def hex_digit_byte word_le_nat_alt word_unat_eq_iff
      unat_word_ariths unat_of_nat)

lemma hex_value_of_digit: "n < 16 \<Longrightarrow> hex_value (of_char (hex_digit n)) = n"
  by (auto simp: hex_digit_byte hex_value_def word_le_nat_alt unat_word_ariths unat_of_nat)

fun unhex :: "byte list \<Rightarrow> byte list" where
  "unhex (a # b # r) = of_nat (16 * hex_value a + hex_value b) # unhex r"
| "unhex _ = []"

lemma hex_ascii_simps [simp]:
  "hex_ascii [] = []"
  "hex_ascii (b # bs) = of_char (hex_digit (unat b div 16)) # of_char (hex_digit (unat b mod 16)) # hex_ascii bs"
  by (simp_all add: hex_ascii_def hex_byte_def ascii_def)

lemma byte_div16: "unat (b :: byte) div 16 < 16"
  using unsigned_less [of b, where 'a = nat] by simp

lemma unhex_hex [simp]: "unhex (hex_ascii bs) = bs"
  by (induction bs) (simp_all add: hex_value_of_digit byte_div16)

lemma hex_unhex: "\<forall>b \<in> set cs. lower_hex b \<Longrightarrow> even (length cs) \<Longrightarrow>
    hex_ascii (unhex cs) = cs \<and> 2 * length (unhex cs) = length cs"
proof (induction cs rule: unhex.induct)
  case (1 a b r)
  then have "hex_value a < 16" "hex_value b < 16" by (auto simp: hex_value_digit)
  then have "unat (of_nat (16 * hex_value a + hex_value b) :: byte) = 16 * hex_value a + hex_value b"
    by (simp add: unat_of_nat del: of_nat_add of_nat_mult)
  with 1 \<open>hex_value b < 16\<close> show ?case by (auto simp: hex_value_digit)
qed auto

lemma hex_lower: "\<forall>b \<in> set (hex_ascii bs). lower_hex b"
  by (induction bs) (auto simp: lower_hex_digit byte_div16)

lemma hex_zero_iff: "(\<forall>b \<in> set (hex_ascii bs). b = 48) \<longleftrightarrow> (\<forall>b \<in> set bs. b = 0)"
proof (induction bs)
  case (Cons b bs)
  have "of_char (hex_digit n) = (48 :: byte) \<longleftrightarrow> n = 0" if "n < 16" for n
    using that by (auto simp: hex_digit_byte word_unat_eq_iff unat_word_ariths unat_of_nat)
  moreover have "unat b div 16 = 0 \<and> unat b mod 16 = 0 \<longleftrightarrow> b = 0"
    by (metis add_0 div_mult_mod_eq div_0 mod_0 mult_0 unat_eq_zero)
  ultimately show ?case using Cons byte_div16 [of b] by auto
qed simp

lemma split_record:
  assumes "length bytes = n + 40 + k + 9"
  shows "bytes = take n bytes @ subslice n (n + 40) bytes @ subslice (n + 40) (n + 40 + k) bytes
    @ subslice (n + 40 + k) (n + 40 + k + 8) bytes @ [bytes ! (n + 40 + k + 8)]"
proof -
  have "drop i bytes = subslice i j bytes @ drop j bytes" if "i \<le> j" for i j
    using that by (metis append_take_drop_id drop_drop le_add_diff_inverse2 subslice_def)
  note step = this
  have "drop (n + 40 + k + 8) bytes = [bytes ! (n + 40 + k + 8)]"
    using assms by (simp flip: Cons_nth_drop_Suc)
  then show ?thesis
    using step [of n "n + 40"] step [of "n + 40" "n + 40 + k"] step [of "n + 40 + k" "n + 40 + k + 8"]
    by (metis append_take_drop_id le_add1)
qed

lemma matches_unfold:
  assumes "n = 89 + length (repository own)"
  shows "matches_existing_record bytes expected own = Inr (
    length bytes = length expected \<and> n + 49 \<le> length bytes \<and> take n bytes = take n expected \<and>
    (\<forall>c \<in> set (subslice n (n + 40) bytes). lower_hex c) \<and> (\<exists>c \<in> set (subslice n (n + 40) bytes). c \<noteq> 48) \<and>
    subslice (n + 40) (length bytes - 9) bytes = subslice (n + 40) (length bytes - 9) expected \<and>
    bytes ! (length bytes - 1) = expected ! (length expected - 1))"
proof -
  have start: "72 + 4 + length VERSION + 4 + length (repository own) + 4 = n"
    using assms by (simp add: VERSION_def)
  show ?thesis
  proof (cases "length bytes = length expected \<and> n + 49 \<le> length bytes")
    case True
    then have slices: "checked_slice n (n + 40) bytes = Inr (subslice n (n + 40) bytes)"
      "same_range_and 0 n bytes expected rest = (if take n bytes = take n expected then rest else Inr False)"
      "same_range_and (n + 40) (length expected - 9) bytes expected rest
        = (if subslice (n + 40) (length expected - 9) bytes = subslice (n + 40) (length expected - 9) expected
           then rest else Inr False)"
      "checked_nth bytes (length expected - 1) = Inr (bytes ! (length expected - 1))"
      "checked_nth expected (length expected - 1) = Inr (expected ! (length expected - 1))"
      "\<not> length bytes < n + 40 + 9" for rest
      by (auto simp: checked_slice_def checked_nth_def same_range_and_def subslice_def)
    show ?thesis
      using True unfolding matches_existing_record_def Let_def start by (simp add: slices [simplified] lower_hex_def)
  next
    case False
    then show ?thesis unfolding matches_existing_record_def Let_def start by auto
  qed
qed

lemma matches_defined: "\<exists>b. matches_existing_record bytes expected own = Inr b"
  using matches_unfold [OF refl] by blast

lemma matches_layout:
  assumes n: "length before = 89 + length (repository own)"
    and lens: "length commit = 40" "length slot = 8"
  shows "matches_existing_record bytes (before @ commit @ mid @ slot @ [b]) own = Inr
    (\<exists>commit' slot'. bytes = before @ commit' @ mid @ slot' @ [b] \<and> length commit' = 40 \<and>
      length slot' = 8 \<and> (\<forall>c \<in> set commit'. lower_hex c) \<and> (\<exists>c \<in> set commit'. c \<noteq> 48))"
    (is "_ = Inr ?x")
proof -
  let ?n = "length before" and ?k = "length mid" and ?e = "before @ commit @ mid @ slot @ [b]"
  let ?m = "length bytes = ?n + 40 + ?k + 9 \<and> take ?n bytes = before \<and>
    (\<forall>c \<in> set (subslice ?n (?n + 40) bytes). lower_hex c) \<and> (\<exists>c \<in> set (subslice ?n (?n + 40) bytes). c \<noteq> 48) \<and>
    subslice (?n + 40) (?n + 40 + ?k) bytes = mid \<and> bytes ! (?n + 40 + ?k + 8) = b"
  have mid: "subslice (?n + 40) (?n + 40 + ?k) ?e = mid"
    using subslice_append [of "before @ commit" "?n + 40" mid "?n + 40 + ?k" "slot @ [b]"] lens by simp
  have last: "?e ! (?n + 40 + ?k + 8) = b" using lens by (simp add: nth_append)
  have "matches_existing_record bytes ?e own = Inr ?m"
  proof (cases "length bytes = ?n + 40 + ?k + 9")
    case True
    then have "length bytes - 9 = ?n + 40 + ?k" "length bytes - 1 = ?n + 40 + ?k + 8"
      "length bytes = length ?e" "length ?e - 1 = ?n + 40 + ?k + 8"
      using lens by simp_all
    moreover have "take ?n ?e = before" by simp
    ultimately show ?thesis
      unfolding matches_unfold [OF n] using mid last True by (simp only:) auto
  next
    case False
    then show ?thesis using lens by (simp add: matches_unfold [OF n])
  qed
  moreover have "?m \<longleftrightarrow> ?x"
  proof
    assume m: ?m
    have "bytes = before @ subslice ?n (?n + 40) bytes @ mid
        @ subslice (?n + 40 + ?k) (?n + 40 + ?k + 8) bytes @ [b]"
      using split_record [of bytes ?n ?k] m by metis
    moreover have "length (subslice ?n (?n + 40) bytes) = 40"
      "length (subslice (?n + 40 + ?k) (?n + 40 + ?k + 8) bytes) = 8"
      using m by (simp_all add: subslice_def)
    ultimately show ?x using m by blast
  next
    assume ?x
    then obtain c l where bytes: "bytes = before @ c @ mid @ l @ [b]" and cl: "length c = 40" "length l = 8"
      and hex: "\<forall>x \<in> set c. lower_hex x" "\<exists>x \<in> set c. x \<noteq> 48"
      by blast
    have "subslice ?n (?n + 40) bytes = c"
      unfolding bytes by (rule subslice_append) (simp_all add: cl)
    moreover have "subslice (?n + 40) (?n + 40 + ?k) bytes = mid"
      using subslice_append [of "before @ c" "?n + 40" mid "?n + 40 + ?k" "l @ [b]"]
      by (simp add: bytes cl)
    ultimately show ?m
      using hex cl by (simp add: bytes nth_append)
  qed
  ultimately show ?thesis by simp
qed

lemma hex_ascii_zero:
  "length bs = 20 \<Longrightarrow> (\<exists>b \<in> set (hex_ascii bs). b \<noteq> 48) \<longleftrightarrow> bs \<noteq> replicate 20 0"
  using hex_zero_iff [of bs] replicate_eqI [of bs 20 0] by auto

lemma length_hex_ascii [simp]: "length (hex_ascii bs) = 2 * length bs"
  by (simp add: hex_ascii_def length_hex)

text \<open>A stored record is recognised exactly when it is the record the same recipe
  would produce for some nonzero 20-byte commit and some slot: no other byte of an existing record
  can differ from the closed recipe.\<close>

theorem recognised_records:
  assumes "wf_verification_policy p" and "params_for p controller previous = Inr params"
  shows "matches_existing_record bytes (verification_record E (vp_target p) auth params bump)
      (vp_target p = controller) = Inr
    (\<exists>q params'. wf_verification_policy q \<and> vp_target q = vp_target p \<and>
      params_for q controller previous = Inr params' \<and>
      bytes = verification_record E (vp_target p) auth params' bump)"
proof -
  let ?own = "vp_target p = controller"
  let ?pre = "build_params_discriminator E @ wr_32 (vp_target p) @ wr_32 auth @ params_head p controller"
  note ok = assms(2) [unfolded params_for_ok [OF assms(1)]]
  have same: "params_head q controller = params_head p controller"
    "params_args q controller previous = params_args p controller previous" if "vp_target q = vp_target p" for q
    using that by (simp_all add: params_head_def params_args_def)
  have rec: "verification_record E (vp_target p) auth params bump
      = ?pre @ hex_ascii (vp_commit p) @ params_args p controller previous @ wr_u64 (vp_deployed_slot p) @ [bump]"
    using ok by (simp add: verification_record_def hex_ascii_def)
  have lens: "length ?pre = 89 + length (repository ?own)" "length (hex_ascii (vp_commit p)) = 40"
    using assms(1) by (simp_all add: length_params_head build_params_discriminator_def wf_verification_policy_def)
  have matches: "matches_existing_record bytes (verification_record E (vp_target p) auth params bump) ?own = Inr
    (\<exists>commit' slot'. bytes = ?pre @ commit' @ params_args p controller previous @ slot' @ [bump] \<and>
      length commit' = 40 \<and> length slot' = 8 \<and> (\<forall>c \<in> set commit'. lower_hex c) \<and> (\<exists>c \<in> set commit'. c \<noteq> 48))"
    unfolding rec by (rule matches_layout) (use lens in simp_all)
  have "(\<exists>commit' slot'. bytes = ?pre @ commit' @ params_args p controller previous @ slot' @ [bump] \<and>
      length commit' = 40 \<and> length slot' = 8 \<and> (\<forall>c \<in> set commit'. lower_hex c) \<and> (\<exists>c \<in> set commit'. c \<noteq> 48))
    \<longleftrightarrow> (\<exists>commit slot. length commit = 20 \<and> commit \<noteq> replicate 20 0 \<and>
      bytes = ?pre @ hex_ascii commit @ params_args p controller previous @ wr_u64 slot @ [bump])"
    (is "?a \<longleftrightarrow> ?b")
  proof
    assume ?a
    then obtain c l where cl: "bytes = ?pre @ c @ params_args p controller previous @ l @ [bump]"
      "length c = 40" "length l = 8" "\<forall>x \<in> set c. lower_hex x" "\<exists>x \<in> set c. x \<noteq> 48"
      by blast
    then have c: "hex_ascii (unhex c) = c" "length (unhex c) = 20"
      using hex_unhex [of c] by simp_all
    have l: "wr_u64 (le_word l) = l" using le_bytes_le_word [of l, where 'a = 64] cl(3) by simp
    show ?b
      using c l cl hex_ascii_zero [of "unhex c"]
      by (intro exI [of _ "unhex c"] exI [of _ "le_word l"]) simp
  next
    assume ?b
    then obtain commit slot where b: "length commit = 20" "commit \<noteq> replicate 20 0"
      "bytes = ?pre @ hex_ascii commit @ params_args p controller previous @ wr_u64 slot @ [bump]"
      by blast
    show ?a
      using b(1,2) hex_lower [of commit] hex_ascii_zero [of commit]
      by (intro exI [of _ "hex_ascii commit"] exI [of _ "wr_u64 slot"] conjI b(3)) simp_all
  qed
  also have "\<dots> \<longleftrightarrow> (\<exists>q params'. wf_verification_policy q \<and> vp_target q = vp_target p \<and>
      params_for q controller previous = Inr params' \<and>
      bytes = verification_record E (vp_target p) auth params' bump)" (is "?b \<longleftrightarrow> ?c")
  proof
    assume ?b
    then obtain commit slot where b: "length commit = 20" "commit \<noteq> replicate 20 0"
      "bytes = ?pre @ hex_ascii commit @ params_args p controller previous @ wr_u64 slot @ [bump]"
      by blast
    let ?q = "\<lparr>vp_target = vp_target p, vp_deployed_slot = slot, vp_commit = commit\<rparr>"
    have q: "wf_verification_policy ?q" "vp_target ?q = vp_target p"
      using b(1) by (simp_all add: wf_verification_policy_def)
    have "params_for ?q controller previous = Inr (params_head p controller @ hex_ascii commit
        @ params_args p controller previous @ wr_u64 slot)"
      unfolding params_for_ok [OF q(1)] same [OF q(2)] using ok b(2) by (simp add: hex_ascii_def)
    moreover have "bytes = verification_record E (vp_target p) auth (params_head p controller
        @ hex_ascii commit @ params_args p controller previous @ wr_u64 slot) bump"
      using b(3) by (simp add: verification_record_def)
    ultimately show ?c using q by blast
  next
    assume ?c
    then obtain q params' where q: "wf_verification_policy q" "vp_target q = vp_target p"
      "params_for q controller previous = Inr params'"
      "bytes = verification_record E (vp_target p) auth params' bump"
      by blast
    show ?b
      using q(1,4) q(3) [unfolded params_for_ok [OF q(1)] same [OF q(2)]]
      by (intro exI [of _ "vp_commit q"] exI [of _ "vp_deployed_slot q"])
        (simp add: verification_record_def hex_ascii_def wf_verification_policy_def)
  qed
  finally show ?thesis unfolding matches by (rule arg_cong)
qed

theorem recognised_records_witness:
  "matches_existing_record
     (verification_record sample_env 77 5 (params_head sample_policy 77 @ hex_ascii (replicate 20 0xcd)
        @ params_args sample_policy 77 False @ wr_u64 9) 254)
     (verification_record sample_env 77 5 (params_head sample_policy 77 @ hex_ascii (replicate 20 0xab)
        @ params_args sample_policy 77 False @ wr_u64 123) 254) True = Inr True"
proof -
  let ?q = "\<lparr>vp_target = 77, vp_deployed_slot = 9, vp_commit = replicate 20 0xcd\<rparr> :: verification_policy"
  have wf: "wf_verification_policy sample_policy" "wf_verification_policy ?q"
    by (simp_all add: wf_verification_policy_def sample_policy_def)
  have zero: "replicate 20 (0xab :: byte) \<noteq> replicate 20 0" "replicate 20 (0xcd :: byte) \<noteq> replicate 20 0"
    by (simp_all add: replicate_eq_replicate)
  have p: "params_for sample_policy 77 False = Inr (params_head sample_policy 77
      @ hex_ascii (replicate 20 0xab) @ params_args sample_policy 77 False @ wr_u64 123)"
    unfolding params_for_ok [OF wf(1)] by (simp add: sample_policy_def known_target_def hex_ascii_def zero)
  have q: "params_for ?q 77 False = Inr (params_head sample_policy 77
      @ hex_ascii (replicate 20 0xcd) @ params_args sample_policy 77 False @ wr_u64 9)"
    unfolding params_for_ok [OF wf(2)]
    by (simp add: sample_policy_def known_target_def hex_ascii_def zero params_head_def params_args_def)
  have "vp_target sample_policy = 77" "vp_target ?q = 77" by (simp_all add: sample_policy_def)
  with recognised_records [OF wf(1) p, of _ sample_env 5 254] q wf(2) show ?thesis by auto
qed

end
