(* ===== verification/Loader_Accounts.thy ===== *)
theory Loader_Accounts
  imports Account_IO
begin

text \<open>
  Read-only parsing of Upgradeable Loader v3 account bytes, from
  \<open>upgrade_controller/src/release1_loader_accounts.rs\<close>: Program, Buffer and ProgramData headers at
  fixed offsets, and the linkage of a Program account with its ProgramData account.
\<close>

section \<open>Constants and headers\<close>

definition LOADER_STATE_TAG_UNINITIALIZED :: u32 where "LOADER_STATE_TAG_UNINITIALIZED = 0"
definition LOADER_STATE_TAG_BUFFER :: u32 where "LOADER_STATE_TAG_BUFFER = 1"
definition LOADER_STATE_TAG_PROGRAM :: u32 where "LOADER_STATE_TAG_PROGRAM = 2"
definition LOADER_STATE_TAG_PROGRAMDATA :: u32 where "LOADER_STATE_TAG_PROGRAMDATA = 3"
definition LOADER_PROGRAM_ACCOUNT_LEN :: nat where "LOADER_PROGRAM_ACCOUNT_LEN = 36"
definition LOADER_BUFFER_METADATA_LEN :: nat where "LOADER_BUFFER_METADATA_LEN = 37"
definition LOADER_PROGRAMDATA_METADATA_LEN :: nat where "LOADER_PROGRAMDATA_METADATA_LEN = 45"

lemmas loader_consts = LOADER_STATE_TAG_BUFFER_def LOADER_STATE_TAG_PROGRAM_def
  LOADER_STATE_TAG_PROGRAMDATA_def LOADER_PROGRAM_ACCOUNT_LEN_def LOADER_BUFFER_METADATA_LEN_def
  LOADER_PROGRAMDATA_METADATA_LEN_def

record program_header =
  programdata_address :: pubkey

record buffer_header =
  bh_authority :: "pubkey option"
  bh_payload_offset :: nat
  bh_payload_length :: nat

record programdata_header =
  deployed_slot :: u64
  upgrade_authority :: "pubkey option"
  payload_offset :: nat
  capacity :: nat

section \<open>Reading fields\<close>

text \<open>\<open>data.get(offset..offset + n)\<close>.\<close>

definition get_range :: "byte list \<Rightarrow> nat \<Rightarrow> nat \<Rightarrow> byte list option" where
  "get_range data offset n =
     (if offset + n \<le> length data then Some (take n (drop offset data)) else None)"

definition read_u32 :: "byte list \<Rightarrow> nat \<Rightarrow> governance_error + u32" where
  "read_u32 data offset =
     bnd (ok_or (get_range data offset 4) InvalidRelease1Account) (\<lambda>bytes. Inr (le_word bytes))"

definition read_u64 :: "byte list \<Rightarrow> nat \<Rightarrow> governance_error + u64" where
  "read_u64 data offset =
     bnd (ok_or (get_range data offset 8) InvalidRelease1Account) (\<lambda>bytes. Inr (le_word bytes))"

definition read_pubkey :: "byte list \<Rightarrow> nat \<Rightarrow> governance_error + pubkey" where
  "read_pubkey data offset =
     bnd (ok_or (get_range data offset 32) InvalidRelease1Account) (\<lambda>bytes. Inr (le_word bytes))"

text \<open>The option tag of Loader v3: \<open>None\<close> leaves the 32 key bytes as they were.\<close>

definition read_fixed_optional_pubkey :: "byte list \<Rightarrow> nat \<Rightarrow> governance_error + pubkey option" where
  "read_fixed_optional_pubkey data option_offset =
     bnd (ok_or (if option_offset < length data then Some (data ! option_offset) else None)
            InvalidRelease1Account) (\<lambda>tag.
     bnd (read_pubkey data (option_offset + 1)) (\<lambda>key.
     if tag = 0 then Inr None
     else if tag = 1 \<and> key \<noteq> 0 then Inr (Some key)
     else Inl InvalidRelease1Account))"

section \<open>Headers\<close>

definition parse_upgradeable_program :: "byte list \<Rightarrow> governance_error + program_header" where
  "parse_upgradeable_program data =
     (if length data \<noteq> LOADER_PROGRAM_ACCOUNT_LEN then Inl InvalidRelease1Account
      else bnd (read_u32 data 0) (\<lambda>tag.
        if tag \<noteq> LOADER_STATE_TAG_PROGRAM then Inl InvalidRelease1Account
        else bnd (read_pubkey data 4) (\<lambda>key. Inr \<lparr>programdata_address = key\<rparr>)))"

definition parse_upgradeable_buffer :: "byte list \<Rightarrow> governance_error + buffer_header" where
  "parse_upgradeable_buffer data =
     (if length data < LOADER_BUFFER_METADATA_LEN then Inl InvalidRelease1Account
      else bnd (read_u32 data 0) (\<lambda>tag.
        if tag \<noteq> LOADER_STATE_TAG_BUFFER then Inl InvalidRelease1Account
        else bnd (read_fixed_optional_pubkey data 4) (\<lambda>auth.
          Inr \<lparr>bh_authority = auth, bh_payload_offset = LOADER_BUFFER_METADATA_LEN,
               bh_payload_length = length data - LOADER_BUFFER_METADATA_LEN\<rparr>)))"

definition parse_upgradeable_programdata :: "byte list \<Rightarrow> governance_error + programdata_header" where
  "parse_upgradeable_programdata data =
     (if length data < LOADER_PROGRAMDATA_METADATA_LEN then Inl InvalidRelease1Account
      else bnd (read_u32 data 0) (\<lambda>tag.
        if tag \<noteq> LOADER_STATE_TAG_PROGRAMDATA then Inl InvalidRelease1Account
        else bnd (read_u64 data 4) (\<lambda>slot.
             bnd (read_fixed_optional_pubkey data 12) (\<lambda>auth.
          Inr \<lparr>deployed_slot = slot, upgrade_authority = auth,
               payload_offset = LOADER_PROGRAMDATA_METADATA_LEN,
               capacity = length data - LOADER_PROGRAMDATA_METADATA_LEN\<rparr>))))"

section \<open>Accounts\<close>

definition validate_program_programdata_linkage ::
    "ledger \<Rightarrow> account_info \<Rightarrow> account_info \<Rightarrow> pubkey \<Rightarrow> governance_error + programdata_header" where
  "validate_program_programdata_linkage L target_program target_programdata upgradeable_loader =
     (if owner_of L target_program \<noteq> upgradeable_loader
         \<or> owner_of L target_programdata \<noteq> upgradeable_loader
         \<or> \<not> executable target_program \<or> executable target_programdata
         \<or> is_signer target_program \<or> is_signer target_programdata
      then Inl IncorrectAccountOwner
      else bnd (parse_upgradeable_program (data_of L target_program)) (\<lambda>program.
        if programdata_address program \<noteq> ai_key target_programdata then Inl CrossAccountMismatch
        else parse_upgradeable_programdata (data_of L target_programdata)))"

definition validate_buffer_account ::
    "ledger \<Rightarrow> account_info \<Rightarrow> pubkey \<Rightarrow> governance_error + buffer_header" where
  "validate_buffer_account L buffer upgradeable_loader =
     (if owner_of L buffer \<noteq> upgradeable_loader \<or> executable buffer \<or> is_signer buffer
      then Inl IncorrectAccountOwner
      else parse_upgradeable_buffer (data_of L buffer))"

definition loader_account_data_hash :: "env \<Rightarrow> byte list \<Rightarrow> hash32" where
  "loader_account_data_hash E data = hashv E [data]"

definition loader_payload_hash :: "env \<Rightarrow> byte list \<Rightarrow> nat \<Rightarrow> governance_error + hash32" where
  "loader_payload_hash E data offset =
     (if offset \<le> length data then Inr (hashv E [drop offset data]) else Inl InvalidRelease1Account)"

section \<open>What a parsed header says of the bytes\<close>

text \<open>The bytes of the three account kinds, as Loader v3 writes them.  \<open>stale\<close> is what an
  absent authority leaves behind.\<close>

fun optional_key_bytes :: "pubkey option \<Rightarrow> pubkey \<Rightarrow> byte list" where
  "optional_key_bytes None stale = 0 # wr_32 stale"
| "optional_key_bytes (Some k) stale = 1 # wr_32 k"

definition program_bytes :: "pubkey \<Rightarrow> byte list" where
  "program_bytes programdata = wr_u32 LOADER_STATE_TAG_PROGRAM @ wr_32 programdata"

definition buffer_bytes :: "pubkey option \<Rightarrow> pubkey \<Rightarrow> byte list \<Rightarrow> byte list" where
  "buffer_bytes auth stale payload =
     wr_u32 LOADER_STATE_TAG_BUFFER @ optional_key_bytes auth stale @ payload"

definition programdata_bytes :: "u64 \<Rightarrow> pubkey option \<Rightarrow> pubkey \<Rightarrow> byte list \<Rightarrow> byte list" where
  "programdata_bytes slot auth stale payload =
     wr_u32 LOADER_STATE_TAG_PROGRAMDATA @ wr_u64 slot @ optional_key_bytes auth stale @ payload"

lemma length_optional_key_bytes [simp]: "length (optional_key_bytes auth stale) = 33"
  by (cases auth) simp_all

lemma get_range_append:
  "length a = offset \<Longrightarrow> length b = n \<Longrightarrow> get_range (a @ b @ c) offset n = Some b"
  by (simp add: get_range_def)

lemma get_range_prefix: "length a = n \<Longrightarrow> get_range (a @ b) 0 n = Some a"
  by (simp add: get_range_def)

lemma read_optional_append:
  assumes "length a = offset"
  shows "read_fixed_optional_pubkey (a @ optional_key_bytes auth stale @ c) offset =
     (if auth = Some 0 then Inl InvalidRelease1Account else Inr auth)"
proof -
  have "get_range (a @ optional_key_bytes auth stale @ c) (offset + 1) 32
      = Some (tl (optional_key_bytes auth stale))"
    using get_range_append [of "a @ [hd (optional_key_bytes auth stale)]" "offset + 1"
        "tl (optional_key_bytes auth stale)" 32 c] assms
    by (cases auth) simp_all
  moreover have "(a @ optional_key_bytes auth stale @ c) ! offset = hd (optional_key_bytes auth stale)"
    using assms by (cases auth) (simp_all add: nth_append)
  ultimately show ?thesis
    using assms by (cases auth) (auto simp: read_fixed_optional_pubkey_def read_pubkey_def)
qed

lemma parse_program_bytes:
  "parse_upgradeable_program (program_bytes pd) = Inr \<lparr>programdata_address = pd\<rparr>"
  using get_range_append [of "wr_u32 LOADER_STATE_TAG_PROGRAM" 4 "wr_32 pd" 32 "[]"]
  by (simp add: parse_upgradeable_program_def program_bytes_def read_u32_def read_pubkey_def
      get_range_prefix LOADER_PROGRAM_ACCOUNT_LEN_def)

lemma parse_buffer_bytes:
  "parse_upgradeable_buffer (buffer_bytes auth stale payload) =
     (if auth = Some 0 then Inl InvalidRelease1Account
      else Inr \<lparr>bh_authority = auth, bh_payload_offset = 37, bh_payload_length = length payload\<rparr>)"
  by (simp add: parse_upgradeable_buffer_def buffer_bytes_def read_u32_def get_range_prefix
      read_optional_append LOADER_BUFFER_METADATA_LEN_def)

lemma parse_programdata_bytes:
  "parse_upgradeable_programdata (programdata_bytes slot auth stale payload) =
     (if auth = Some 0 then Inl InvalidRelease1Account
      else Inr \<lparr>deployed_slot = slot, upgrade_authority = auth, payload_offset = 45,
                capacity = length payload\<rparr>)"
  using get_range_append [of "wr_u32 LOADER_STATE_TAG_PROGRAMDATA" 4 "wr_u64 slot" 8
      "optional_key_bytes auth stale @ payload"]
    read_optional_append [of "wr_u32 LOADER_STATE_TAG_PROGRAMDATA @ wr_u64 slot" 12 auth stale payload]
  by (simp add: parse_upgradeable_programdata_def programdata_bytes_def read_u32_def read_u64_def
      get_range_prefix LOADER_PROGRAMDATA_METADATA_LEN_def)

end
