(* ===== verification/Gov_State.thy ===== *)
theory Gov_State
  imports Gov_Artifact Verify_Recipe Loader_Accounts
begin

text \<open>
  The accounts of the V3 controller, from \<open>governance_controller_v3/src/state.rs\<close>: timing, the
  council configuration, the typed actions and the proposal with its lifecycle operations.
\<close>

section \<open>Timing\<close>

record timing =
  review_slots :: u64
  delay_slots :: u64
  expiry_slots :: u64

definition timing_default :: timing where
  "timing_default = \<lparr>review_slots = WEEK_SLOTS, delay_slots = MIN_DELAY_SLOTS, expiry_slots = 2592000\<rparr>"

definition ser_timing :: "timing \<Rightarrow> byte list" where
  "ser_timing t = wr_u64 (review_slots t) @ wr_u64 (delay_slots t) @ wr_u64 (expiry_slots t)"

definition de_timing :: "timing reader" where
  "de_timing bs = do {
     (review, bs) \<leftarrow> rd_u64 bs; (delay, bs) \<leftarrow> rd_u64 bs; (expiry, bs) \<leftarrow> rd_u64 bs;
     Some (\<lparr>review_slots = review, delay_slots = delay, expiry_slots = expiry\<rparr>, bs) }"

interpretation timing_codec: borsh_codec ser_timing de_timing "\<lambda>_. True" 24
  by unfold_locales (auto simp: ser_timing_def de_timing_def bind_eq_Some_conv dest!: borsh_readD)

definition timing_validate :: "timing \<Rightarrow> program_error + unit" where
  "timing_validate t =
     bnd (require (review_slots t \<ge> WEEK_SLOTS \<and> delay_slots t \<ge> MIN_DELAY_SLOTS) InvalidTiming) (\<lambda>_.
     bnd (add (max (review_slots t) (delay_slots t)) EXECUTION_MARGIN_SLOTS) (\<lambda>minimum.
     require (expiry_slots t > minimum) InvalidTiming))"

definition boundaries :: "timing \<Rightarrow> u64 \<Rightarrow> program_error + u64 \<times> u64 \<times> u64" where
  "boundaries t creation =
     bnd (timing_validate t) (\<lambda>_.
     bnd (require (creation > 0) InvalidTiming) (\<lambda>_.
     bnd (add creation (review_slots t)) (\<lambda>review_end.
     bnd (add creation (delay_slots t)) (\<lambda>not_before.
     bnd (add creation (expiry_slots t)) (\<lambda>expires.
     Inr (review_end, not_before, expires))))))"

section \<open>Council seats and program addresses\<close>

text \<open>The loop compares each seat with the ones before it.\<close>

fun validate_seats_from :: "pubkey list \<Rightarrow> pubkey list \<Rightarrow> program_error + unit" where
  "validate_seats_from prior [] = Inr ()"
| "validate_seats_from prior (key # rest) =
     bnd (require (key \<noteq> 0 \<and> key \<notin> set prior) InvalidCouncil) (\<lambda>_.
     validate_seats_from (prior @ [key]) rest)"

definition validate_seats :: "pubkey list \<Rightarrow> program_error + unit" where
  "validate_seats seats = validate_seats_from [] seats"

definition config_pda :: "env \<Rightarrow> pubkey \<Rightarrow> pubkey \<times> byte" where
  "config_pda E program = find_program_address E [DOMAIN, ascii ''council''] program"

definition authority_pda :: "env \<Rightarrow> pubkey \<Rightarrow> pubkey \<times> byte" where
  "authority_pda E program = find_program_address E [DOMAIN, ascii ''authority''] program"

definition target_authority_pda :: "env \<Rightarrow> pubkey \<Rightarrow> pubkey \<Rightarrow> pubkey \<times> byte" where
  "target_authority_pda E program target =
     find_program_address E [DOMAIN, ascii ''target-authority'', wr_32 target] program"

definition gate_pda :: "env \<Rightarrow> pubkey \<Rightarrow> pubkey \<Rightarrow> pubkey \<times> byte" where
  "gate_pda E program target = find_program_address E [DOMAIN, ascii ''gate'', wr_32 target] program"

definition proposal_pda :: "env \<Rightarrow> pubkey \<Rightarrow> u64 \<Rightarrow> pubkey \<times> byte" where
  "proposal_pda E program ident = find_program_address E [DOMAIN, ascii ''proposal'', wr_u64 ident] program"

definition buffer_authority_pda :: "env \<Rightarrow> pubkey \<Rightarrow> pubkey \<Rightarrow> pubkey \<times> byte" where
  "buffer_authority_pda E program proposal =
     find_program_address E [DOMAIN, ascii ''buffer'', wr_32 proposal] program"

section \<open>The configuration account\<close>

record config =
  cf_discriminator :: "byte list"
  cf_version :: byte
  cf_bump :: byte
  cf_initialized :: bool
  cf_controller :: pubkey
  cf_programdata :: pubkey
  cf_authority :: pubkey
  cf_treasury :: pubkey
  cf_seats :: "pubkey list"
  cf_council_epoch :: u64
  cf_timing_version :: u64
  cf_timing :: timing
  cf_next_id :: u64
  cf_reserved :: "byte list"

definition wf_config :: "config \<Rightarrow> bool" where
  "wf_config c \<longleftrightarrow> length (cf_discriminator c) = 8 \<and> length (cf_seats c) = 5 \<and> length (cf_reserved c) = 37"

definition ser_config :: "config \<Rightarrow> byte list" where
  "ser_config c =
     cf_discriminator c @ wr_u8 (cf_version c) @ wr_u8 (cf_bump c) @ wr_bool (cf_initialized c)
     @ wr_32 (cf_controller c) @ wr_32 (cf_programdata c) @ wr_32 (cf_authority c)
     @ wr_32 (cf_treasury c) @ concat (map wr_32 (cf_seats c)) @ wr_u64 (cf_council_epoch c)
     @ wr_u64 (cf_timing_version c) @ ser_timing (cf_timing c) @ wr_u64 (cf_next_id c) @ cf_reserved c"

definition de_config :: "config reader" where
  "de_config bs = do {
     (discriminator, bs) \<leftarrow> rd_bytes 8 bs; (version, bs) \<leftarrow> rd_u8 bs; (bump, bs) \<leftarrow> rd_u8 bs;
     (initialized, bs) \<leftarrow> rd_bool bs; (controller, bs) \<leftarrow> rd_32 bs; (programdata, bs) \<leftarrow> rd_32 bs;
     (authority, bs) \<leftarrow> rd_32 bs; (treasury, bs) \<leftarrow> rd_32 bs; (seats, bs) \<leftarrow> rd_array 5 rd_32 bs;
     (council_epoch, bs) \<leftarrow> rd_u64 bs; (timing_version, bs) \<leftarrow> rd_u64 bs; (timing, bs) \<leftarrow> de_timing bs;
     (next_id, bs) \<leftarrow> rd_u64 bs; (reserved, bs) \<leftarrow> rd_bytes 37 bs;
     Some (\<lparr>cf_discriminator = discriminator, cf_version = version, cf_bump = bump,
            cf_initialized = initialized, cf_controller = controller, cf_programdata = programdata,
            cf_authority = authority, cf_treasury = treasury, cf_seats = seats,
            cf_council_epoch = council_epoch, cf_timing_version = timing_version,
            cf_timing = timing, cf_next_id = next_id, cf_reserved = reserved\<rparr>, bs) }"

interpretation config_codec: borsh_codec ser_config de_config wf_config CONFIG_LEN
proof
  fix x :: config and r
  have seats: "rd_array 5 rd_32 (concat (map wr_32 (cf_seats x)) @ bs) = Some (cf_seats x, bs)"
    if "length (cf_seats x) = 5" for bs
    using that key_codec.rd_array_ser [of "cf_seats x" bs] by simp
  show "wf_config x \<Longrightarrow> de_config (ser_config x @ r) = Some (x, r)"
    by (simp add: ser_config_def de_config_def wf_config_def timing_codec.de_ser seats)
  show "wf_config x \<Longrightarrow> length (ser_config x) = CONFIG_LEN"
    using key_codec.array_size [of "cf_seats x"]
    by (simp add: ser_config_def wf_config_def timing_codec.ser_size CONFIG_LEN_def del: length_concat)
next
  fix bs r and x :: config assume "de_config bs = Some (x, r)"
  then show "bs = ser_config x @ r" "wf_config x"
    by (auto simp: de_config_def ser_config_def wf_config_def bind_eq_Some_conv
        dest!: borsh_readD timing_codec.ser_de key_codec.ser_rd_array)
qed

definition CONFIG_DISCRIMINATOR :: "byte list" where "CONFIG_DISCRIMINATOR = ascii ''AG3CFG01''"

definition config_validate :: "env \<Rightarrow> config \<Rightarrow> pubkey \<Rightarrow> pubkey \<Rightarrow> program_error + unit" where
  "config_validate E c program key =
     bnd (require
       (cf_discriminator c = CONFIG_DISCRIMINATOR \<and> cf_version c = 1 \<and> cf_initialized c
        \<and> cf_reserved c = replicate 37 0 \<and> cf_controller c = program
        \<and> config_pda E program = (key, cf_bump c)
        \<and> fst (authority_pda E program) = cf_authority c
        \<and> cf_programdata c = fst (find_program_address E [wr_32 program] (loader_id E))
        \<and> cf_treasury c \<noteq> 0
        \<and> cf_treasury c \<notin> set [key, cf_programdata c, cf_controller c, cf_authority c]
        \<and> cf_council_epoch c > 0 \<and> cf_timing_version c > 0 \<and> cf_next_id c > 0)
       InvalidAccount) (\<lambda>_.
     bnd (validate_seats (cf_seats c)) (\<lambda>_.
     bnd (require (cf_authority c \<notin> set (cf_seats c)) InvalidCouncil) (\<lambda>_.
     timing_validate (cf_timing c))))"

section \<open>Actions\<close>

text \<open>The fixed action bytes, and the typed policies they decode to.\<close>

record action =
  ac_kind :: byte
  ac_data :: "byte list"

definition wf_action :: "action \<Rightarrow> bool" where
  "wf_action a \<longleftrightarrow> length (ac_data a) = ACTION_LEN"

definition ser_action :: "action \<Rightarrow> byte list" where
  "ser_action a = wr_u8 (ac_kind a) @ ac_data a"

definition de_action :: "action reader" where
  "de_action bs = do {
     (kind, bs) \<leftarrow> rd_u8 bs; (data, bs) \<leftarrow> rd_bytes ACTION_LEN bs;
     Some (\<lparr>ac_kind = kind, ac_data = data\<rparr>, bs) }"

interpretation action_codec: borsh_codec ser_action de_action wf_action 193
  by unfold_locales
    (auto simp: ser_action_def de_action_def wf_action_def ACTION_LEN_def bind_eq_Some_conv dest!: borsh_readD)

lemma action_readD: "de_action bs = Some (a, r) \<Longrightarrow> bs = ser_action a @ r \<and> wf_action a"
  using action_codec.ser_de action_codec.de_wf by blast

record upgrade =
  up_buffer :: pubkey
  up_artifact_length :: u64
  up_artifact_sha256 :: hash32
  up_merkle_root :: hash32
  up_deployed_slot :: u64
  up_capacity :: u64
  up_source_commitment :: hash32
  up_build_commitment :: hash32
  up_controller_release :: u64

definition ser_upgrade :: "upgrade \<Rightarrow> byte list" where
  "ser_upgrade p =
     wr_32 (up_buffer p) @ wr_u64 (up_artifact_length p) @ wr_32 (up_artifact_sha256 p)
     @ wr_32 (up_merkle_root p) @ wr_u64 (up_deployed_slot p) @ wr_u64 (up_capacity p)
     @ wr_32 (up_source_commitment p) @ wr_32 (up_build_commitment p)
     @ wr_u64 (up_controller_release p)"

definition de_upgrade :: "upgrade reader" where
  "de_upgrade bs = do {
     (buffer, bs) \<leftarrow> rd_32 bs; (artifact_length, bs) \<leftarrow> rd_u64 bs;
     (artifact_sha256, bs) \<leftarrow> rd_32 bs; (merkle_root, bs) \<leftarrow> rd_32 bs;
     (deployed_slot, bs) \<leftarrow> rd_u64 bs; (capacity, bs) \<leftarrow> rd_u64 bs;
     (source_commitment, bs) \<leftarrow> rd_32 bs; (build_commitment, bs) \<leftarrow> rd_32 bs;
     (controller_release, bs) \<leftarrow> rd_u64 bs;
     Some (\<lparr>up_buffer = buffer, up_artifact_length = artifact_length,
            up_artifact_sha256 = artifact_sha256, up_merkle_root = merkle_root,
            up_deployed_slot = deployed_slot, up_capacity = capacity,
            up_source_commitment = source_commitment, up_build_commitment = build_commitment,
            up_controller_release = controller_release\<rparr>, bs) }"

interpretation upgrade_codec: borsh_codec ser_upgrade de_upgrade "\<lambda>_. True" 192
  by unfold_locales
    (auto simp: ser_upgrade_def de_upgrade_def bind_eq_Some_conv
      dest!: borsh_readD)

record target_upgrade =
  tu_buffer :: pubkey
  tu_artifact_length :: u64
  tu_merkle_root :: hash32
  tu_deployed_slot :: u64
  tu_capacity :: u64
  tu_source_commitment :: hash32
  tu_build_commitment :: hash32
  tu_target :: pubkey
  tu_gate_epoch :: u64

definition ser_target_upgrade :: "target_upgrade \<Rightarrow> byte list" where
  "ser_target_upgrade p =
     wr_32 (tu_buffer p) @ wr_u64 (tu_artifact_length p) @ wr_32 (tu_merkle_root p)
     @ wr_u64 (tu_deployed_slot p) @ wr_u64 (tu_capacity p) @ wr_32 (tu_source_commitment p)
     @ wr_32 (tu_build_commitment p) @ wr_32 (tu_target p) @ wr_u64 (tu_gate_epoch p)"

definition de_target_upgrade :: "target_upgrade reader" where
  "de_target_upgrade bs = do {
     (buffer, bs) \<leftarrow> rd_32 bs; (artifact_length, bs) \<leftarrow> rd_u64 bs;
     (merkle_root, bs) \<leftarrow> rd_32 bs; (deployed_slot, bs) \<leftarrow> rd_u64 bs;
     (capacity, bs) \<leftarrow> rd_u64 bs; (source_commitment, bs) \<leftarrow> rd_32 bs;
     (build_commitment, bs) \<leftarrow> rd_32 bs; (target, bs) \<leftarrow> rd_32 bs;
     (gate_epoch, bs) \<leftarrow> rd_u64 bs;
     Some (\<lparr>tu_buffer = buffer, tu_artifact_length = artifact_length,
            tu_merkle_root = merkle_root, tu_deployed_slot = deployed_slot,
            tu_capacity = capacity, tu_source_commitment = source_commitment,
            tu_build_commitment = build_commitment, tu_target = target,
            tu_gate_epoch = gate_epoch\<rparr>, bs) }"

interpretation target_upgrade_codec: borsh_codec ser_target_upgrade de_target_upgrade "\<lambda>_. True" 192
  by unfold_locales
    (auto simp: ser_target_upgrade_def de_target_upgrade_def bind_eq_Some_conv
      dest!: borsh_readD)

record target_gate_policy =
  gp_target :: pubkey
  gp_expected_epoch :: u64
  gp_active :: bool

definition ser_target_gate_policy :: "target_gate_policy \<Rightarrow> byte list" where
  "ser_target_gate_policy p =
     wr_32 (gp_target p) @ wr_u64 (gp_expected_epoch p) @ wr_bool (gp_active p)"

definition de_target_gate_policy :: "target_gate_policy reader" where
  "de_target_gate_policy bs = do {
     (target, bs) \<leftarrow> rd_32 bs; (expected_epoch, bs) \<leftarrow> rd_u64 bs;
     (active, bs) \<leftarrow> rd_bool bs;
     Some (\<lparr>gp_target = target, gp_expected_epoch = expected_epoch, gp_active = active\<rparr>, bs) }"

interpretation target_gate_policy_codec: borsh_codec ser_target_gate_policy de_target_gate_policy "\<lambda>_. True" 41
  by unfold_locales
    (auto simp: ser_target_gate_policy_def de_target_gate_policy_def bind_eq_Some_conv
      dest!: borsh_readD)

record retire_target_policy =
  rt_target :: pubkey
  rt_expected_epoch :: u64
  rt_deployed_slot :: u64
  rt_payload_sha256 :: hash32
  rt_recovery_commitment :: hash32

definition ser_retire_target_policy :: "retire_target_policy \<Rightarrow> byte list" where
  "ser_retire_target_policy p =
     wr_32 (rt_target p) @ wr_u64 (rt_expected_epoch p) @ wr_u64 (rt_deployed_slot p)
     @ wr_32 (rt_payload_sha256 p) @ wr_32 (rt_recovery_commitment p)"

definition de_retire_target_policy :: "retire_target_policy reader" where
  "de_retire_target_policy bs = do {
     (target, bs) \<leftarrow> rd_32 bs; (expected_epoch, bs) \<leftarrow> rd_u64 bs;
     (deployed_slot, bs) \<leftarrow> rd_u64 bs; (payload_sha256, bs) \<leftarrow> rd_32 bs;
     (recovery_commitment, bs) \<leftarrow> rd_32 bs;
     Some (\<lparr>rt_target = target, rt_expected_epoch = expected_epoch,
            rt_deployed_slot = deployed_slot, rt_payload_sha256 = payload_sha256,
            rt_recovery_commitment = recovery_commitment\<rparr>, bs) }"

interpretation retire_target_policy_codec: borsh_codec ser_retire_target_policy de_retire_target_policy "\<lambda>_. True" 112
  by unfold_locales
    (auto simp: ser_retire_target_policy_def de_retire_target_policy_def bind_eq_Some_conv
      dest!: borsh_readD)

record light_rent_policy =
  lr_base_rent :: u16
  lr_compression_cost :: u16
  lr_lamports_per_byte_per_epoch :: byte
  lr_max_funded_epochs :: byte
  lr_max_top_up :: u16

definition ser_light_rent_policy :: "light_rent_policy \<Rightarrow> byte list" where
  "ser_light_rent_policy p =
     wr_u16 (lr_base_rent p) @ wr_u16 (lr_compression_cost p)
     @ wr_u8 (lr_lamports_per_byte_per_epoch p) @ wr_u8 (lr_max_funded_epochs p)
     @ wr_u16 (lr_max_top_up p)"

definition de_light_rent_policy :: "light_rent_policy reader" where
  "de_light_rent_policy bs = do {
     (base_rent, bs) \<leftarrow> rd_u16 bs; (compression_cost, bs) \<leftarrow> rd_u16 bs;
     (lamports_per_byte_per_epoch, bs) \<leftarrow> rd_u8 bs; (max_funded_epochs, bs) \<leftarrow> rd_u8 bs;
     (max_top_up, bs) \<leftarrow> rd_u16 bs;
     Some (\<lparr>lr_base_rent = base_rent, lr_compression_cost = compression_cost,
            lr_lamports_per_byte_per_epoch = lamports_per_byte_per_epoch,
            lr_max_funded_epochs = max_funded_epochs, lr_max_top_up = max_top_up\<rparr>, bs) }"

interpretation light_rent_policy_codec: borsh_codec ser_light_rent_policy de_light_rent_policy "\<lambda>_. True" 8
  by unfold_locales
    (auto simp: ser_light_rent_policy_def de_light_rent_policy_def bind_eq_Some_conv
      dest!: borsh_readD)

record spread_light_config_policy =
  sl_target :: pubkey
  sl_expected_epoch :: u64
  sl_deployed_slot :: u64
  sl_compression_authority :: pubkey
  sl_rent :: light_rent_policy
  sl_write_top_up :: u32
  sl_address_tree :: pubkey

definition ser_spread_light_config_policy :: "spread_light_config_policy \<Rightarrow> byte list" where
  "ser_spread_light_config_policy p =
     wr_32 (sl_target p) @ wr_u64 (sl_expected_epoch p) @ wr_u64 (sl_deployed_slot p)
     @ wr_32 (sl_compression_authority p) @ ser_light_rent_policy (sl_rent p)
     @ wr_u32 (sl_write_top_up p) @ wr_32 (sl_address_tree p)"

definition de_spread_light_config_policy :: "spread_light_config_policy reader" where
  "de_spread_light_config_policy bs = do {
     (target, bs) \<leftarrow> rd_32 bs; (expected_epoch, bs) \<leftarrow> rd_u64 bs;
     (deployed_slot, bs) \<leftarrow> rd_u64 bs; (compression_authority, bs) \<leftarrow> rd_32 bs;
     (rent, bs) \<leftarrow> de_light_rent_policy bs; (write_top_up, bs) \<leftarrow> rd_u32 bs;
     (address_tree, bs) \<leftarrow> rd_32 bs;
     Some (\<lparr>sl_target = target, sl_expected_epoch = expected_epoch,
            sl_deployed_slot = deployed_slot, sl_compression_authority = compression_authority,
            sl_rent = rent, sl_write_top_up = write_top_up, sl_address_tree = address_tree\<rparr>, bs) }"

interpretation spread_light_config_policy_codec: borsh_codec ser_spread_light_config_policy de_spread_light_config_policy "\<lambda>_. True" 124
  by unfold_locales
    (auto simp: ser_spread_light_config_policy_def de_spread_light_config_policy_def bind_eq_Some_conv light_rent_policy_codec.de_ser light_rent_policy_codec.ser_size
      dest!: borsh_readD light_rent_policy_codec.ser_de)

definition retire_target_policy_validate :: "retire_target_policy \<Rightarrow> program_error + unit" where
  "retire_target_policy_validate p =
     require (rt_target p \<noteq> 0 \<and> rt_expected_epoch p > 0 \<and> rt_deployed_slot p > 0
       \<and> rt_payload_sha256 p \<noteq> 0 \<and> rt_recovery_commitment p \<noteq> 0) InvalidAccount"

definition spread_light_config_policy_validate :: "spread_light_config_policy \<Rightarrow> program_error + unit" where
  "spread_light_config_policy_validate p =
     require (sl_target p = DEVNET_SPREAD \<and> sl_expected_epoch p > 0
       \<and> sl_compression_authority p \<noteq> 0 \<and> sl_address_tree p \<noteq> 0) InvalidAccount"

record artifact =
  ar_buffer :: pubkey
  ar_artifact_length :: u64
  ar_merkle_root :: hash32
  ar_deployed_slot :: u64
  ar_capacity :: u64
  ar_source_commitment :: hash32
  ar_build_commitment :: hash32

section \<open>Decoding an action\<close>

definition all_zero :: "byte list \<Rightarrow> bool" where
  "all_zero bs \<longleftrightarrow> (\<forall>b \<in> set bs. b = 0)"

text \<open>The shared shape of the typed decoders: the kind and the zero padding, then the Borsh value in
  the first \<open>len\<close> bytes.\<close>

definition decode_padded :: "'a reader \<Rightarrow> nat \<Rightarrow> byte \<Rightarrow> error \<Rightarrow> action \<Rightarrow> program_error + 'a" where
  "decode_padded de len kind err a =
     bnd (require (ac_kind a = kind \<and> all_zero (drop len (ac_data a))) err) (\<lambda>_.
     ok_or (try_from_slice de (take len (ac_data a))) (program_error_from err))"

definition retirement_policy :: "action \<Rightarrow> program_error + retire_target_policy" where
  "retirement_policy a =
     bnd (decode_padded de_retire_target_policy 112 RETIRE_TARGET InvalidAccount a) (\<lambda>value.
     bnd (retire_target_policy_validate value) (\<lambda>_. Inr value))"

definition action_verification_policy :: "action \<Rightarrow> program_error + verification_policy" where
  "action_verification_policy a =
     bnd (decode_padded de_verification_policy VERIFICATION_POLICY_LEN PUBLISH_VERIFICATION InvalidAccount a) (\<lambda>value.
     bnd (verification_policy_validate value) (\<lambda>_. Inr value))"

definition light_config_policy :: "action \<Rightarrow> program_error + spread_light_config_policy" where
  "light_config_policy a =
     bnd (decode_padded de_spread_light_config_policy 124 INITIALIZE_SPREAD_LIGHT_CONFIG InvalidAccount a) (\<lambda>value.
     bnd (spread_light_config_policy_validate value) (\<lambda>_. Inr value))"

definition is_upgrade :: "action \<Rightarrow> bool" where
  "is_upgrade a \<longleftrightarrow> ac_kind a = UPGRADE_CONTROLLER \<or> ac_kind a = UPGRADE_TARGET"

definition action_target_upgrade :: "action \<Rightarrow> program_error + target_upgrade" where
  "action_target_upgrade a =
     bnd (require (ac_kind a = UPGRADE_TARGET) InvalidArtifact) (\<lambda>_.
     ok_or (try_from_slice de_target_upgrade (ac_data a)) (program_error_from InvalidArtifact))"

definition gate_policy :: "action \<Rightarrow> program_error + target_gate_policy" where
  "gate_policy a = decode_padded de_target_gate_policy 41 SET_TARGET_GATE InvalidAccount a"

definition action_upgrade :: "action \<Rightarrow> program_error + upgrade" where
  "action_upgrade a =
     bnd (require (ac_kind a = UPGRADE_CONTROLLER) InvalidArtifact) (\<lambda>_.
     ok_or (try_from_slice de_upgrade (ac_data a)) (program_error_from InvalidArtifact))"

definition action_artifact :: "action \<Rightarrow> program_error + artifact" where
  "action_artifact a =
     (if ac_kind a = UPGRADE_CONTROLLER then
        bnd (action_upgrade a) (\<lambda>u.
        bnd (require (up_artifact_sha256 u \<noteq> 0) InvalidArtifact) (\<lambda>_.
        Inr \<lparr>ar_buffer = up_buffer u, ar_artifact_length = up_artifact_length u,
             ar_merkle_root = up_merkle_root u, ar_deployed_slot = up_deployed_slot u,
             ar_capacity = up_capacity u, ar_source_commitment = up_source_commitment u,
             ar_build_commitment = up_build_commitment u\<rparr>))
      else
        bnd (action_target_upgrade a) (\<lambda>u.
        bnd (require (tu_target u \<noteq> 0 \<and> tu_gate_epoch u > 0) InvalidAccount) (\<lambda>_.
        Inr \<lparr>ar_buffer = tu_buffer u, ar_artifact_length = tu_artifact_length u,
             ar_merkle_root = tu_merkle_root u, ar_deployed_slot = tu_deployed_slot u,
             ar_capacity = tu_capacity u, ar_source_commitment = tu_source_commitment u,
             ar_build_commitment = tu_build_commitment u\<rparr>)))"

definition action_timing :: "action \<Rightarrow> program_error + timing" where
  "action_timing a = decode_padded de_timing 24 SET_TIMING InvalidTiming a"

definition action_seats :: "action \<Rightarrow> program_error + pubkey list" where
  "action_seats a = decode_padded (rd_array 5 rd_32) 160 ROTATE_COUNCIL InvalidCouncil a"

definition explicit_target :: "action \<Rightarrow> program_error + pubkey" where
  "explicit_target a =
     (if ac_kind a = UPGRADE_TARGET then bnd (action_target_upgrade a) (\<lambda>p. Inr (tu_target p))
      else if ac_kind a = SET_TARGET_GATE then bnd (gate_policy a) (\<lambda>p. Inr (gp_target p))
      else if ac_kind a = INITIALIZE_SPREAD_LIGHT_CONFIG then bnd (light_config_policy a) (\<lambda>p. Inr (sl_target p))
      else if ac_kind a = PUBLISH_VERIFICATION then bnd (action_verification_policy a) (\<lambda>p. Inr (vp_target p))
      else if ac_kind a = RETIRE_TARGET then bnd (retirement_policy a) (\<lambda>p. Inr (rt_target p))
      else fail InvalidAccount)"

definition action_validate :: "action \<Rightarrow> program_error + unit" where
  "action_validate a =
     (if ac_kind a = UPGRADE_CONTROLLER \<or> ac_kind a = UPGRADE_TARGET then
        bnd (action_artifact a) (\<lambda>u.
        require (ar_buffer u \<noteq> 0 \<and> ar_artifact_length u > 0 \<and> ar_artifact_length u \<le> MAX_ARTIFACT_BYTES
          \<and> ar_capacity u > 0 \<and> ar_merkle_root u \<noteq> 0 \<and> ar_source_commitment u \<noteq> 0
          \<and> ar_build_commitment u \<noteq> 0) InvalidArtifact)
      else if ac_kind a = SET_TIMING then bnd (action_timing a) timing_validate
      else if ac_kind a = ROTATE_COUNCIL then bnd (action_seats a) validate_seats
      else if ac_kind a = SET_TARGET_GATE then
        bnd (gate_policy a) (\<lambda>policy.
        require (gp_target policy \<noteq> 0 \<and> gp_expected_epoch policy > 0) InvalidAccount)
      else if ac_kind a = INITIALIZE_SPREAD_LIGHT_CONFIG then
        bnd (light_config_policy a) spread_light_config_policy_validate
      else if ac_kind a = PUBLISH_VERIFICATION then
        bnd (action_verification_policy a) verification_policy_validate
      else if ac_kind a = RETIRE_TARGET then bnd (retirement_policy a) retire_target_policy_validate
      else Inl InvalidInstructionData)"

section \<open>Success conditions\<close>

lemma unat_u64_bound: "unat (w :: u64) < 18446744073709551616"
  using unsigned_less [of w, where 'a = nat] by simp

lemma timing_validate_ok [result_simps]:
  "timing_validate t = Inr u \<longleftrightarrow>
     1512000 \<le> unat (review_slots t) \<and> 150 \<le> unat (delay_slots t) \<and>
     max (unat (review_slots t)) (unat (delay_slots t)) + 9000 < unat (expiry_slots t)"
proof -
  have max: "unat (max a b) = max (unat a) (unat b)" for a b :: u64
    by (simp add: max_def word_le_nat_alt)
  let ?m = "max (unat (review_slots t)) (unat (delay_slots t)) + 9000"
  have sum: "add (max (review_slots t) (delay_slots t)) EXECUTION_MARGIN_SLOTS = Inr m \<longleftrightarrow> unat m = ?m" for m
    by (simp add: add_ok EXECUTION_MARGIN_SLOTS_def max)
  have "(\<exists>m. unat m = ?m \<and> m < expiry_slots t) \<longleftrightarrow> ?m < unat (expiry_slots t)"
  proof
    assume less: "?m < unat (expiry_slots t)"
    with unat_u64_bound [of "expiry_slots t"] have "?m < 18446744073709551616"
      by linarith
    then have "unat (of_nat ?m :: u64) = ?m"
      by (simp add: unat_of_nat del: of_nat_add)
    with less show "\<exists>m. unat m = ?m \<and> m < expiry_slots t"
      by (metis word_less_nat_alt)
  qed (auto simp: word_less_nat_alt)
  then show ?thesis
    by (auto simp: timing_validate_def bnd_Inr_iff require_ok sum WEEK_SLOTS_def MIN_DELAY_SLOTS_def
        word_le_nat_alt)
qed

lemma boundaries_ok:
  "boundaries t creation = Inr (r, n, e) \<longleftrightarrow>
     timing_validate t = Inr () \<and> creation \<noteq> 0 \<and> unat r = unat creation + unat (review_slots t) \<and>
     unat n = unat creation + unat (delay_slots t) \<and> unat e = unat creation + unat (expiry_slots t)"
  by (auto simp: boundaries_def bnd_Inr_iff require_ok add_ok word_neq_0_conv)

lemma boundaries_total:
  assumes "timing_validate t = Inr ()" "creation \<noteq> 0"
    "unat creation + unat (expiry_slots t) < 2 ^ 64"
  shows "is_ok (boundaries t creation)"
proof -
  have "unat creation + unat (review_slots t) < 2 ^ 64" "unat creation + unat (delay_slots t) < 2 ^ 64"
    using assms by (auto simp: timing_validate_ok)
  with assms show ?thesis
    by (simp add: boundaries_def add_def checked_add_def word_neq_0_conv require_def)
qed

text \<open>Valid timing gives every proposal a window: at least 1512000 slots of review, at least
  150 slots of delay, and an expiry more than 9000 slots after both, with no wrap-around; and the
  computation fails only when the expiry itself would leave the 64-bit range.\<close>

theorem boundaries_window:
  assumes "timing_validate t = Inr ()" and "creation \<noteq> 0"
  shows "case boundaries t creation of
      Inr (review_end, not_before, expires) \<Rightarrow>
        unat creation + 1512000 \<le> unat review_end \<and> unat creation + 150 \<le> unat not_before \<and>
        max (unat review_end) (unat not_before) + 9000 < unat expires
    | Inl e \<Rightarrow> 2 ^ 64 \<le> unat creation + unat (expiry_slots t)"
proof (cases "boundaries t creation")
  case (Inl e)
  with boundaries_total [OF assms] have "\<not> unat creation + unat (expiry_slots t) < 2 ^ 64"
    by (metis is_ok.simps(1))
  with Inl show ?thesis by simp
next
  case (Inr b)
  obtain r n e where b: "b = (r, n, e)" by (cases b)
  show ?thesis
    using Inr assms(1) unfolding b boundaries_ok timing_validate_ok by (auto simp: Inr b)
qed

theorem boundaries_window_witness:
  "case boundaries timing_default 2000000 of
      Inr (review_end, not_before, expires) \<Rightarrow>
        unat (2000000 :: u64) + 1512000 \<le> unat review_end \<and> unat (2000000 :: u64) + 150 \<le> unat not_before \<and>
        max (unat review_end) (unat not_before) + 9000 < unat expires
    | Inl e \<Rightarrow> 2 ^ 64 \<le> unat (2000000 :: u64) + unat (expiry_slots timing_default)"
  by (rule boundaries_window)
    (simp_all add: timing_validate_ok timing_default_def WEEK_SLOTS_def MIN_DELAY_SLOTS_def)

lemma validate_seats_from_ok:
  "validate_seats_from prior seats = Inr u \<longleftrightarrow>
     0 \<notin> set seats \<and> distinct seats \<and> set prior \<inter> set seats = {}"
  by (induction prior seats rule: validate_seats_from.induct) (auto simp: result_simps)

lemma validate_seats_ok [result_simps]:
  "validate_seats seats = Inr u \<longleftrightarrow> 0 \<notin> set seats \<and> distinct seats"
  by (simp add: validate_seats_def validate_seats_from_ok)

lemma all_zero_iff: "length bs = n \<Longrightarrow> all_zero bs \<longleftrightarrow> bs = replicate n 0"
  using replicate_eqI [of bs n 0] by (auto simp: all_zero_def dest!: arg_cong [where f = set])

text \<open>A padded policy has exactly one encoding.\<close>

context borsh_codec
begin

lemma decode_padded_iff:
  assumes "wf_action a" and "size \<le> ACTION_LEN"
  shows "decode_padded de size kind err a = Inr v \<longleftrightarrow>
    ac_kind a = kind \<and> wf v \<and> ac_data a = ser v @ replicate (ACTION_LEN - size) 0"
proof -
  have len: "length (drop size (ac_data a)) = ACTION_LEN - size"
    using assms by (simp add: wf_action_def)
  have "ac_data a = ser v @ replicate (ACTION_LEN - size) 0 \<longleftrightarrow>
      take size (ac_data a) = ser v \<and> drop size (ac_data a) = replicate (ACTION_LEN - size) 0" if "wf v"
    using ser_size [OF that] by (metis append_eq_conv_conj)
  then show ?thesis
    by (auto simp: decode_padded_def result_simps all_zero_iff [OF len] decode_Some_iff)
qed

end

end
