(* ===== verification/Gov_Proposal.thy ===== *)
theory Gov_Proposal
  imports Gov_State
begin

text \<open>
  The proposal account and its lifecycle operations, from \<open>governance_controller_v3/src/state.rs\<close>:
  layout, digest, validity, the chunk bitmap, approval and cancellation bits, and the guards of
  execution.
\<close>

section \<open>The account\<close>

record proposal =
  pr_discriminator :: "byte list"
  pr_version :: byte
  pr_bump :: byte
  pr_initialized :: bool
  pr_config :: pubkey
  pr_id :: u64
  pr_council_epoch :: u64
  pr_timing_version :: u64
  pr_timing :: timing
  pr_created :: u64
  pr_review_end :: u64
  pr_not_before :: u64
  pr_expires :: u64
  pr_action :: action
  pr_digest :: hash32
  pr_approvals :: byte
  pr_approval_count :: byte
  pr_cancellations :: byte
  pr_cancellation_count :: byte
  pr_state :: byte
  pr_verified_chunks :: "byte list"
  pr_verified_count :: u32
  pr_extension_slot :: u64
  pr_extended_capacity :: u64
  pr_executed_slot :: u64
  pr_verified_chunks_high :: "byte list"
  pr_reserved :: "byte list"

definition wf_proposal :: "proposal \<Rightarrow> bool" where
  "wf_proposal p \<longleftrightarrow> length (pr_discriminator p) = 8 \<and> wf_action (pr_action p)
     \<and> length (pr_verified_chunks p) = 12 \<and> length (pr_verified_chunks_high p) = 4
     \<and> length (pr_reserved p) = 3"

definition ser_proposal :: "proposal \<Rightarrow> byte list" where
  "ser_proposal p =
     pr_discriminator p @ wr_u8 (pr_version p) @ wr_u8 (pr_bump p) @ wr_bool (pr_initialized p)
     @ wr_32 (pr_config p) @ wr_u64 (pr_id p) @ wr_u64 (pr_council_epoch p)
     @ wr_u64 (pr_timing_version p) @ ser_timing (pr_timing p) @ wr_u64 (pr_created p)
     @ wr_u64 (pr_review_end p) @ wr_u64 (pr_not_before p) @ wr_u64 (pr_expires p)
     @ ser_action (pr_action p) @ wr_32 (pr_digest p) @ wr_u8 (pr_approvals p)
     @ wr_u8 (pr_approval_count p) @ wr_u8 (pr_cancellations p) @ wr_u8 (pr_cancellation_count p)
     @ wr_u8 (pr_state p) @ pr_verified_chunks p @ wr_u32 (pr_verified_count p)
     @ wr_u64 (pr_extension_slot p) @ wr_u64 (pr_extended_capacity p) @ wr_u64 (pr_executed_slot p)
     @ pr_verified_chunks_high p @ pr_reserved p"

definition de_proposal :: "proposal reader" where
  "de_proposal bs = do {
     (discriminator, bs) \<leftarrow> rd_bytes 8 bs; (version, bs) \<leftarrow> rd_u8 bs; (bump, bs) \<leftarrow> rd_u8 bs;
     (initialized, bs) \<leftarrow> rd_bool bs; (cfg, bs) \<leftarrow> rd_32 bs; (ident, bs) \<leftarrow> rd_u64 bs;
     (council_epoch, bs) \<leftarrow> rd_u64 bs; (timing_version, bs) \<leftarrow> rd_u64 bs; (timing, bs) \<leftarrow> de_timing bs;
     (created, bs) \<leftarrow> rd_u64 bs; (review_end, bs) \<leftarrow> rd_u64 bs; (not_before, bs) \<leftarrow> rd_u64 bs;
     (expires, bs) \<leftarrow> rd_u64 bs; (action, bs) \<leftarrow> de_action bs; (digest, bs) \<leftarrow> rd_32 bs;
     (approvals, bs) \<leftarrow> rd_u8 bs; (approval_count, bs) \<leftarrow> rd_u8 bs; (cancellations, bs) \<leftarrow> rd_u8 bs;
     (cancellation_count, bs) \<leftarrow> rd_u8 bs; (state, bs) \<leftarrow> rd_u8 bs; (verified_chunks, bs) \<leftarrow> rd_bytes 12 bs;
     (verified_count, bs) \<leftarrow> rd_u32 bs; (extension_slot, bs) \<leftarrow> rd_u64 bs;
     (extended_capacity, bs) \<leftarrow> rd_u64 bs; (executed_slot, bs) \<leftarrow> rd_u64 bs;
     (verified_chunks_high, bs) \<leftarrow> rd_bytes 4 bs; (reserved, bs) \<leftarrow> rd_bytes 3 bs;
     Some (\<lparr>pr_discriminator = discriminator, pr_version = version, pr_bump = bump,
            pr_initialized = initialized, pr_config = cfg, pr_id = ident,
            pr_council_epoch = council_epoch, pr_timing_version = timing_version,
            pr_timing = timing, pr_created = created, pr_review_end = review_end,
            pr_not_before = not_before, pr_expires = expires, pr_action = action,
            pr_digest = digest, pr_approvals = approvals, pr_approval_count = approval_count,
            pr_cancellations = cancellations, pr_cancellation_count = cancellation_count,
            pr_state = state, pr_verified_chunks = verified_chunks,
            pr_verified_count = verified_count, pr_extension_slot = extension_slot,
            pr_extended_capacity = extended_capacity, pr_executed_slot = executed_slot,
            pr_verified_chunks_high = verified_chunks_high, pr_reserved = reserved\<rparr>, bs) }"

interpretation proposal_codec: borsh_codec ser_proposal de_proposal wf_proposal PROPOSAL_LEN
proof
  fix x :: proposal and r
  show "wf_proposal x \<Longrightarrow> de_proposal (ser_proposal x @ r) = Some (x, r)"
    by (simp add: ser_proposal_def de_proposal_def wf_proposal_def timing_codec.de_ser action_codec.de_ser)
  show "wf_proposal x \<Longrightarrow> length (ser_proposal x) = PROPOSAL_LEN"
    by (simp add: ser_proposal_def wf_proposal_def timing_codec.ser_size action_codec.ser_size PROPOSAL_LEN_def)
next
  fix bs r and x :: proposal assume "de_proposal bs = Some (x, r)"
  then show "bs = ser_proposal x @ r" "wf_proposal x"
    by (auto simp: de_proposal_def ser_proposal_def wf_proposal_def bind_eq_Some_conv
        dest!: borsh_readD timing_codec.ser_de action_readD)
qed

section \<open>The chunk bitmap\<close>

definition verified_bitmap :: "proposal \<Rightarrow> byte list" where
  "verified_bitmap p = pr_verified_chunks p @ pr_verified_chunks_high p"

text \<open>\<open>verified_chunks.get_mut(i / 8)\<close>, and past the low bytes the high ones.\<close>

definition mark_chunk_verified :: "proposal \<Rightarrow> u32 \<Rightarrow> program_error + proposal" where
  "mark_chunk_verified p index =
     (let i = unat index in
      bnd (require (i < MAX_CHUNKS) InvalidArtifact) (\<lambda>_.
      let low = i div 8 < length (pr_verified_chunks p);
          bytes = (if low then pr_verified_chunks p else pr_verified_chunks_high p);
          at = (if low then i div 8 else i div 8 - LOW_BITMAP_BYTES);
          mask = shl1 (i mod 8)
      in bnd (checked_nth bytes at) (\<lambda>b.
         bnd (require (b AND mask = 0) DuplicateApproval) (\<lambda>_.
         bnd (checked_put bytes at (b OR mask)) (\<lambda>bytes.
         let p = (if low then p\<lparr>pr_verified_chunks := bytes\<rparr> else p\<lparr>pr_verified_chunks_high := bytes\<rparr>)
         in Inr (p\<lparr>pr_verified_count := pr_verified_count p + 1\<rparr>))))))"

section \<open>Digest and validity\<close>

definition compute_digest :: "env \<Rightarrow> proposal \<Rightarrow> pubkey \<Rightarrow> hash32" where
  "compute_digest E p program =
     hashv E [ascii ''AMOEBA_GOVERNANCE_PROPOSAL_V3'', DEVNET_GENESIS, wr_32 program,
       wr_32 (pr_config p), wr_u64 (pr_id p), wr_u64 (pr_council_epoch p),
       wr_u64 (pr_timing_version p), ser_timing (pr_timing p), wr_u64 (pr_created p),
       wr_u64 (pr_review_end p), wr_u64 (pr_not_before p), wr_u64 (pr_expires p),
       ser_action (pr_action p)]"

definition PROPOSAL_DISCRIMINATOR :: "byte list" where "PROPOSAL_DISCRIMINATOR = ascii ''AG3PRP01''"

text \<open>The four groups of checks of \<open>Proposal::validate\<close>.\<close>

definition proposal_fields_ok :: "env \<Rightarrow> proposal \<Rightarrow> pubkey \<Rightarrow> pubkey \<Rightarrow> bool" where
  "proposal_fields_ok E p program key \<longleftrightarrow>
     pr_discriminator p = PROPOSAL_DISCRIMINATOR \<and> pr_version p = 1 \<and> pr_initialized p
     \<and> pr_config p = fst (config_pda E program) \<and> pr_id p > 0 \<and> pr_council_epoch p > 0
     \<and> pr_timing_version p > 0 \<and> pr_reserved p = replicate 3 0
     \<and> proposal_pda E program (pr_id p) = (key, pr_bump p)
     \<and> pr_approvals p < 32 \<and> pr_cancellations p < 32
     \<and> pop_count (pr_approvals p) = unat (pr_approval_count p)
     \<and> pop_count (pr_cancellations p) = unat (pr_cancellation_count p)
     \<and> unat (pr_verified_count p) = sum_list (map pop_count (verified_bitmap p))
     \<and> pr_state p \<le> EXPIRED"

definition extension_validate :: "proposal \<Rightarrow> program_error + unit" where
  "extension_validate p =
     (if is_upgrade (pr_action p) then
        bnd (action_artifact (pr_action p)) (\<lambda>action.
        require ((pr_extension_slot p = 0 \<and> pr_extended_capacity p = 0)
          \<or> (pr_extension_slot p \<ge> pr_not_before p \<and> pr_extension_slot p < pr_expires p
             \<and> pr_extended_capacity p > ar_capacity action
             \<and> pr_extended_capacity p \<le> ar_artifact_length action)) InvalidArtifact)
      else require (pr_extension_slot p = 0 \<and> pr_extended_capacity p = 0 \<and> pr_verified_count p = 0)
             InvalidArtifact)"

definition lifecycle_ok :: "proposal \<Rightarrow> bool" where
  "lifecycle_ok p \<longleftrightarrow>
     (pr_state p = EXECUTED \<longleftrightarrow> pr_executed_slot p \<noteq> 0)
     \<and> (pr_state p \<noteq> EXECUTED \<or>
         (pr_approval_count p \<ge> 3 \<and> pr_executed_slot p \<ge> pr_not_before p \<and> pr_executed_slot p < pr_expires p))
     \<and> (pr_state p = CANCELLED \<longleftrightarrow> pr_cancellation_count p \<ge> 3)"

definition proposal_validate :: "env \<Rightarrow> proposal \<Rightarrow> pubkey \<Rightarrow> pubkey \<Rightarrow> program_error + unit" where
  "proposal_validate E p program key =
     bnd (require (proposal_fields_ok E p program key) InvalidAccount) (\<lambda>_.
     bnd (boundaries (pr_timing p) (pr_created p)) (\<lambda>bounds.
     bnd (require ((pr_review_end p, pr_not_before p, pr_expires p) = bounds
            \<and> pr_digest p = compute_digest E p program) InvalidTiming) (\<lambda>_.
     bnd (action_validate (pr_action p)) (\<lambda>_.
     bnd (extension_validate p) (\<lambda>_.
     require (lifecycle_ok p) WrongState)))))"

section \<open>Lifecycle operations\<close>

definition proposal_current :: "proposal \<Rightarrow> config \<Rightarrow> u64 \<Rightarrow> program_error + unit" where
  "proposal_current p cfg slot =
     bnd (require (pr_state p = PENDING \<and> slot < pr_expires p) WrongState) (\<lambda>_.
     require (pr_council_epoch p = cf_council_epoch cfg) StaleProposal)"

definition proposal_approve :: "proposal \<Rightarrow> nat \<Rightarrow> u64 \<Rightarrow> bool \<Rightarrow> program_error + proposal" where
  "proposal_approve p index slot cancel =
     bnd (require (index < 5 \<and> pr_state p = PENDING \<and> slot \<ge> pr_created p \<and> slot < pr_expires p
            \<and> (cancel \<or> slot \<le> pr_review_end p)) InvalidTiming) (\<lambda>_.
     let bits = (if cancel then pr_cancellations p else pr_approvals p) in
     bnd (require (bits AND shl1 index = 0) DuplicateApproval) (\<lambda>_.
     let bits = bits OR shl1 index;
         count = of_nat (pop_count bits) :: byte;
         p = (if cancel then p\<lparr>pr_cancellations := bits, pr_cancellation_count := count\<rparr>
              else p\<lparr>pr_approvals := bits, pr_approval_count := count\<rparr>)
     in Inr (if cancel \<and> unat count \<ge> THRESHOLD then p\<lparr>pr_state := CANCELLED\<rparr> else p)))"

definition proposal_executable :: "proposal \<Rightarrow> config \<Rightarrow> u64 \<Rightarrow> program_error + unit" where
  "proposal_executable p cfg slot =
     bnd (proposal_current p cfg slot) (\<lambda>_.
     require (unat (pr_approval_count p) \<ge> THRESHOLD \<and> slot \<ge> pr_not_before p) Unauthorized)"

end
