(* ===== verification/Gov_Processor.thy ===== *)
theory Gov_Processor
  imports Gov_Proposal Gate
begin

text \<open>
  The shared helpers and the council handlers of \<open>governance_controller_v3/src/processor.rs\<close>:
  typed loads and stores, seats, the clock, target gates, and the handlers that create, vote on,
  expire and execute policy proposals.  A handler takes the environment, the program id, the
  account list and its arguments, and maps a ledger to an error or a new ledger; the runtime
  discards the new ledger of a failing transaction.
\<close>

section \<open>Account helpers\<close>

definition privileges :: "account_info \<Rightarrow> bool \<Rightarrow> bool \<Rightarrow> bool \<Rightarrow> program_error + unit" where
  "privileges i write sign exec = validate_exact_privileges i write sign exec"

definition readonly :: "account_info \<Rightarrow> program_error + unit" where
  "readonly i = privileges i False False False"

definition writable :: "account_info \<Rightarrow> program_error + unit" where
  "writable i = privileges i True False False"

definition signer :: "account_info \<Rightarrow> program_error + unit" where
  "signer i = privileges i False True False"

definition executable_at :: "account_info \<Rightarrow> pubkey \<Rightarrow> program_error + unit" where
  "executable_at i key =
     bnd (privileges i False False True) (\<lambda>_. require (ai_key i = key) InvalidAccount)"

definition load_config :: "env \<Rightarrow> pubkey \<Rightarrow> account_info \<Rightarrow> ledger \<Rightarrow> program_error + config" where
  "load_config E program i L =
     bnd (load_fixed_controller_account de_config L program i CONFIG_LEN) (\<lambda>value.
     bnd (config_validate E value program (ai_key i)) (\<lambda>_. Inr value))"

definition load_proposal ::
    "env \<Rightarrow> pubkey \<Rightarrow> account_info \<Rightarrow> hash32 option \<Rightarrow> ledger \<Rightarrow> program_error + proposal" where
  "load_proposal E program i digest L =
     bnd (load_fixed_controller_account de_proposal L program i PROPOSAL_LEN) (\<lambda>value.
     bnd (proposal_validate E value program (ai_key i)) (\<lambda>_.
     bnd (require (case digest of None \<Rightarrow> True | Some h \<Rightarrow> h = pr_digest value) StaleProposal) (\<lambda>_.
     Inr value)))"

definition seat :: "config \<Rightarrow> account_info \<Rightarrow> program_error + nat" where
  "seat cfg i =
     bnd (signer i) (\<lambda>_. ok_or (position (\<lambda>key. key = ai_key i) (cf_seats cfg)) (program_error_from Unauthorized))"

definition save_proposal :: "env \<Rightarrow> pubkey \<Rightarrow> account_info \<Rightarrow> proposal \<Rightarrow> ledger \<Rightarrow> program_error + ledger" where
  "save_proposal E program i p L =
     bnd (proposal_validate E p program (ai_key i)) (\<lambda>_.
     store_fixed_controller_account ser_proposal L program i p PROPOSAL_LEN)"

definition clock :: "env \<Rightarrow> program_error + u64" where
  "clock E = bnd (clock_get E) (\<lambda>slot. bnd (require (slot > 0) InvalidTiming) (\<lambda>_. Inr slot))"

text \<open>Every real chunk, and no bit beyond them.\<close>

definition complete :: "proposal \<Rightarrow> program_error + unit" where
  "complete p =
     bnd (action_artifact (pr_action p)) (\<lambda>action.
     bnd (chunk_count (ar_artifact_length action)) (\<lambda>chunks.
     bnd (require (pr_verified_count p = chunks) InvalidArtifact) (\<lambda>_.
     let bitmap = verified_bitmap p in
     checks (map (\<lambda>index.
       bnd (checked_nth bitmap (index div 8)) (\<lambda>b.
       let is_set = (b AND shl1 (index mod 8) \<noteq> 0)
       in require (is_set = (index < unat chunks)) InvalidArtifact)) [0..<MAX_CHUNKS]))))"

section \<open>Target gates\<close>

definition load_gate ::
    "env \<Rightarrow> pubkey \<Rightarrow> account_info \<Rightarrow> pubkey \<Rightarrow> ledger \<Rightarrow> program_error + protocol_gate" where
  "load_gate E program i target L =
     bnd (load_fixed_controller_account de_gate L program i GATE_LEN) (\<lambda>gate.
     bnd (map_err gov (gate_validate_static gate)) (\<lambda>_.
     bnd (require
       (target \<noteq> program \<and> gate_pda E program target = (ai_key i, gt_bump gate)
        \<and> gt_controller_config gate = fst (config_pda E program)
        \<and> gt_target_program gate = target
        \<and> gt_target_programdata gate = fst (find_program_address E [wr_32 target] (loader_id E)))
       InvalidAccount) (\<lambda>_.
     Inr gate)))"

definition save_gate :: "pubkey \<Rightarrow> account_info \<Rightarrow> protocol_gate \<Rightarrow> ledger \<Rightarrow> program_error + ledger" where
  "save_gate program i gate L =
     bnd (map_err gov (gate_validate_static gate)) (\<lambda>_.
     store_fixed_controller_account ser_gate L program i gate GATE_LEN)"

section \<open>Bootstrap\<close>

definition initialize :: "env \<Rightarrow> pubkey \<Rightarrow> account_info list \<Rightarrow> pubkey list \<Rightarrow> pubkey \<Rightarrow> ledger
    \<Rightarrow> program_error + ledger" where
  "initialize E program accounts seats treasury L = (case accounts of
     [payer, deployer, controller, programdata, config_info, authority, loader, system, a, b, c] \<Rightarrow>
       bnd (checks [privileges payer True True False, signer deployer,
         executable_at controller program, writable programdata, writable config_info,
         readonly authority, executable_at loader (loader_id E),
         executable_at system (system_program_id E)]) (\<lambda>_.
       let (config_key, bump) = config_pda E program;
           (authority_key, authority_bump) = authority_pda E program in
       bnd (require (ai_key config_info = config_key \<and> ai_key authority = authority_key
         \<and> ai_key programdata = fst (find_program_address E [wr_32 program] (loader_id E)))
         InvalidAccount) (\<lambda>_.
       bnd (map_err gov (validate_program_programdata_linkage L controller programdata (loader_id E))) (\<lambda>header.
       bnd (require (upgrade_authority header = Some (ai_key deployer)) Unauthorized) (\<lambda>_.
       let value = \<lparr>cf_discriminator = CONFIG_DISCRIMINATOR, cf_version = 1, cf_bump = bump,
             cf_initialized = True, cf_controller = program, cf_programdata = ai_key programdata,
             cf_authority = authority_key, cf_treasury = treasury, cf_seats = seats,
             cf_council_epoch = 1, cf_timing_version = 1, cf_timing = timing_default,
             cf_next_id = 1, cf_reserved = replicate 37 0\<rparr> in
       bnd (config_validate E value program (ai_key config_info)) (\<lambda>_.
       bnd (require (treasury \<noteq> ai_key config_info \<and> treasury \<noteq> ai_key programdata
         \<and> treasury \<noteq> ai_key controller) InvalidAccount) (\<lambda>_.
       bnd (checks (map (\<lambda>s. bnd (seat value s) (\<lambda>_. Inr ())) [a, b, c])) (\<lambda>_.
       bnd (rent_get E) (\<lambda>rent.
       bnd (create_fixed_pda_account E program payer config_info system rent CONFIG_LEN
         [DOMAIN, ascii ''council'', [bump]] L) (\<lambda>L.
       bnd (store_fixed_controller_account ser_config L program config_info value CONFIG_LEN) (\<lambda>L.
       bnd (invoke_signed E (SetUpgradeAuthorityChecked program (ai_key deployer) (ai_key authority))
         (map ai_key [programdata, deployer, authority, loader])
         [[DOMAIN, ascii ''authority'', [authority_bump]]] L) (\<lambda>L.
       bnd (map_err gov (validate_program_programdata_linkage L controller programdata (loader_id E))) (\<lambda>after.
       bnd (require (upgrade_authority after = Some authority_key \<and> capacity after = capacity header
         \<and> deployed_slot after = deployed_slot header) InvalidAccount) (\<lambda>_.
       Inr L)))))))))))))
   | _ \<Rightarrow> Inl NotEnoughAccountKeys)"

section \<open>Creating a proposal\<close>

text \<open>The initial proposal value, before its digest is filled in.\<close>

definition new_proposal ::
    "config \<Rightarrow> pubkey \<Rightarrow> u64 \<Rightarrow> byte \<Rightarrow> action \<Rightarrow> u64 \<Rightarrow> u64 \<times> u64 \<times> u64 \<Rightarrow> proposal" where
  "new_proposal cfg config_key expected_id bump action created bounds =
     (case bounds of (review_end, not_before, expires) \<Rightarrow>
       \<lparr>pr_discriminator = PROPOSAL_DISCRIMINATOR, pr_version = 1, pr_bump = bump,
        pr_initialized = True, pr_config = config_key, pr_id = expected_id,
        pr_council_epoch = cf_council_epoch cfg, pr_timing_version = cf_timing_version cfg,
        pr_timing = cf_timing cfg, pr_created = created, pr_review_end = review_end,
        pr_not_before = not_before, pr_expires = expires, pr_action = action, pr_digest = 0,
        pr_approvals = 0, pr_approval_count = 0, pr_cancellations = 0, pr_cancellation_count = 0,
        pr_state = PENDING, pr_verified_chunks = replicate 12 0, pr_verified_count = 0,
        pr_extension_slot = 0, pr_extended_capacity = 0, pr_executed_slot = 0,
        pr_verified_chunks_high = replicate 4 0, pr_reserved = replicate 3 0\<rparr>)"

definition create :: "env \<Rightarrow> pubkey \<Rightarrow> account_info list \<Rightarrow> u64 \<Rightarrow> action \<Rightarrow> ledger \<Rightarrow> program_error + ledger" where
  "create E program accounts expected_id action L = (case accounts of
     [payer, creator, config_info, proposal_info, system] \<Rightarrow>
       bnd (checks [privileges payer True True False, writable config_info, writable proposal_info,
         executable_at system (system_program_id E)]) (\<lambda>_.
       bnd (load_config E program config_info L) (\<lambda>cfg.
       bnd (seat cfg creator) (\<lambda>_.
       bnd (action_validate action) (\<lambda>_.
       bnd (if ac_kind action = UPGRADE_CONTROLLER then
              bnd (action_upgrade action) (\<lambda>u. require (up_controller_release u = CONTROLLER_RELEASE) StaleProposal)
            else Inr ()) (\<lambda>_.
       bnd (if ac_kind action = ROTATE_COUNCIL then
              bnd (action_seats action) (\<lambda>s. require (cf_authority cfg \<notin> set s) InvalidCouncil)
            else Inr ()) (\<lambda>_.
       bnd (require (cf_next_id cfg = expected_id) StaleProposal) (\<lambda>_.
       let (key, bump) = proposal_pda E program expected_id in
       bnd (require (ai_key proposal_info = key) InvalidAccount) (\<lambda>_.
       bnd (add expected_id 1) (\<lambda>next_id.
       bnd (clock E) (\<lambda>created.
       bnd (boundaries (cf_timing cfg) created) (\<lambda>bounds.
       let value = new_proposal cfg (ai_key config_info) expected_id bump action created bounds;
           value = value\<lparr>pr_digest := compute_digest E value program\<rparr> in
       bnd (proposal_validate E value program (ai_key proposal_info)) (\<lambda>_.
       bnd (rent_get E) (\<lambda>rent.
       bnd (create_fixed_pda_account E program payer proposal_info system rent PROPOSAL_LEN
         [DOMAIN, ascii ''proposal'', wr_u64 expected_id, [bump]] L) (\<lambda>L.
       bnd (save_proposal E program proposal_info value L) (\<lambda>L.
       store_fixed_controller_account ser_config L program config_info
         (cfg\<lparr>cf_next_id := next_id\<rparr>) CONFIG_LEN)))))))))))))))
   | _ \<Rightarrow> Inl NotEnoughAccountKeys)"

section \<open>Voting, expiry and policy execution\<close>

definition approve :: "env \<Rightarrow> pubkey \<Rightarrow> account_info list \<Rightarrow> hash32 \<Rightarrow> bool \<Rightarrow> ledger \<Rightarrow> program_error + ledger" where
  "approve E program accounts digest cancel L = (case accounts of
     [config_info, proposal_info, seat_info] \<Rightarrow>
       bnd (checks [readonly config_info, writable proposal_info]) (\<lambda>_.
       bnd (load_config E program config_info L) (\<lambda>cfg.
       bnd (load_proposal E program proposal_info (Some digest) L) (\<lambda>p.
       bnd (clock E) (\<lambda>slot.
       bnd (proposal_current p cfg slot) (\<lambda>_.
       bnd (seat cfg seat_info) (\<lambda>index.
       bnd (if \<not> cancel \<and> is_upgrade (pr_action p) then complete p else Inr ()) (\<lambda>_.
       bnd (proposal_approve p index slot cancel) (\<lambda>p.
       save_proposal E program proposal_info p L))))))))
   | _ \<Rightarrow> Inl NotEnoughAccountKeys)"

definition expire :: "env \<Rightarrow> pubkey \<Rightarrow> account_info list \<Rightarrow> ledger \<Rightarrow> program_error + ledger" where
  "expire E program accounts L = (case accounts of
     [proposal_info] \<Rightarrow>
       bnd (writable proposal_info) (\<lambda>_.
       bnd (load_proposal E program proposal_info None L) (\<lambda>p.
       bnd (if pr_state p = PENDING then
              bnd (clock E) (\<lambda>slot. require (slot \<ge> pr_expires p) WrongState)
            else fail WrongState) (\<lambda>_.
       save_proposal E program proposal_info (p\<lparr>pr_state := EXPIRED\<rparr>) L)))
   | _ \<Rightarrow> Inl NotEnoughAccountKeys)"

definition execute_policy :: "env \<Rightarrow> pubkey \<Rightarrow> account_info list \<Rightarrow> hash32 \<Rightarrow> ledger \<Rightarrow> program_error + ledger" where
  "execute_policy E program accounts digest L = (case accounts of
     [config_info, proposal_info] \<Rightarrow>
       bnd (checks [writable config_info, writable proposal_info]) (\<lambda>_.
       bnd (load_config E program config_info L) (\<lambda>cfg.
       bnd (load_proposal E program proposal_info (Some digest) L) (\<lambda>p.
       bnd (clock E) (\<lambda>slot.
       bnd (proposal_executable p cfg slot) (\<lambda>_.
       bnd (if ac_kind (pr_action p) = SET_TIMING then
              bnd (require (pr_timing_version p = cf_timing_version cfg) StaleProposal) (\<lambda>_.
              bnd (action_timing (pr_action p)) (\<lambda>t.
              bnd (add (cf_timing_version cfg) 1) (\<lambda>v.
              Inr (cfg\<lparr>cf_timing := t, cf_timing_version := v\<rparr>))))
            else if ac_kind (pr_action p) = ROTATE_COUNCIL then
              bnd (action_seats (pr_action p)) (\<lambda>s.
              bnd (add (cf_council_epoch cfg) 1) (\<lambda>e.
              Inr (cfg\<lparr>cf_seats := s, cf_council_epoch := e\<rparr>)))
            else Inl InvalidInstructionData) (\<lambda>cfg.
       bnd (config_validate E cfg program (ai_key config_info)) (\<lambda>_.
       bnd (save_proposal E program proposal_info
         (p\<lparr>pr_state := EXECUTED, pr_executed_slot := slot\<rparr>) L) (\<lambda>L.
       store_fixed_controller_account ser_config L program config_info cfg CONFIG_LEN))))))))
   | _ \<Rightarrow> Inl NotEnoughAccountKeys)"

end
