(* ===== verification/Account_Store.thy ===== *)
theory Account_Store
  imports Gov_Processor
begin

text \<open>
  The contract between the handlers and the typed accounts they read and write: a value that was
  saved is loaded again, a save touches one account, and a loaded account can be overwritten with any
  valid value.  The configuration, proposal and gate accounts of the controller meet it.
\<close>

section \<open>The contract\<close>

locale account_store =
  fixes load :: "account_info \<Rightarrow> ledger \<Rightarrow> program_error + 'a"
    and save :: "account_info \<Rightarrow> 'a \<Rightarrow> ledger \<Rightarrow> program_error + ledger"
    and wf :: "'a \<Rightarrow> bool"
    and valid :: "account_info \<Rightarrow> 'a \<Rightarrow> bool"
    and image :: "'a \<Rightarrow> byte list"
  assumes load_local: "L (ai_key i) = M (ai_key i) \<Longrightarrow> load i L = load i M"
    and load_valid: "load i L = Inr x \<Longrightarrow> wf x \<and> valid i x \<and> data_of L i = image x"
    and save_writes: "save i x L = Inr M \<Longrightarrow> wf x \<Longrightarrow> M = set_data i (image x) L \<and> load i M = Inr x"
    and save_loaded: "load i L = Inr x \<Longrightarrow> wf y \<Longrightarrow> valid i y \<Longrightarrow> save i y L = Inr (set_data i (image y) L)"
begin

lemma load_save: "save i x L = Inr M \<Longrightarrow> wf x \<Longrightarrow> load i M = Inr x"
  using save_writes by blast

lemma save_frame: "save i x L = Inr M \<Longrightarrow> wf x \<Longrightarrow> k \<noteq> ai_key i \<Longrightarrow> M k = L k"
  by (auto simp: ledger_simps dest: save_writes)

lemma save_owner: "save i x L = Inr M \<Longrightarrow> wf x \<Longrightarrow> owner (M k) = owner (L k) \<and> lamports (M k) = lamports (L k)"
  by (auto simp: ledger_simps dest: save_writes)

text \<open>Read, modify, write: the update succeeds exactly when the new value is valid.\<close>

lemma update_iff:
  assumes "load i L = Inr x" and "wf y"
  shows "save i y L = Inr M \<longleftrightarrow> M = set_data i (image y) L \<and> load i M = Inr y"
proof
  assume "M = set_data i (image y) L \<and> load i M = Inr y"
  then have "valid i y" using load_valid by blast
  then show "save i y L = Inr M"
    using save_loaded [OF assms] \<open>M = _ \<and> _\<close> by simp
qed (use save_writes assms(2) in blast)

lemma load_unique: "load i L = Inr x \<Longrightarrow> load i L = Inr y \<Longrightarrow> x = y"
  by simp

end

section \<open>The three accounts of the controller\<close>

lemma load_account_local:
  "L (ai_key i) = M (ai_key i) \<Longrightarrow>
     load_fixed_controller_account de L program i n = load_fixed_controller_account de M program i n"
  by (simp add: load_fixed_controller_account_def)

lemma load_local_facts:
  assumes "L (ai_key i) = M (ai_key i)"
  shows "load_config E program i L = load_config E program i M"
    "load_proposal E program i d L = load_proposal E program i d M"
    "load_gate E program i target L = load_gate E program i target M"
  unfolding load_config_def load_proposal_def load_gate_def load_account_local [of L i M, OF assms]
  by (rule refl)+

lemma load_config_ok:
  "load_config E program i L = Inr cfg \<longleftrightarrow>
     owner_of L i = program \<and> wf_config cfg \<and> data_of L i = ser_config cfg \<and>
     config_validate E cfg program (ai_key i) = Inr ()"
  by (auto simp: load_config_def bnd_Inr_iff config_codec.load_iff)

lemma load_proposal_ok:
  "load_proposal E program i d L = Inr p \<longleftrightarrow>
     owner_of L i = program \<and> wf_proposal p \<and> data_of L i = ser_proposal p \<and>
     proposal_validate E p program (ai_key i) = Inr () \<and> (d = None \<or> d = Some (pr_digest p))"
  by (auto simp: load_proposal_def bnd_Inr_iff proposal_codec.load_iff require_ok split: option.splits)

lemma load_proposal_any: "load_proposal E program i d L = Inr p \<Longrightarrow> load_proposal E program i None L = Inr p"
  by (simp add: load_proposal_ok)

lemma save_proposal_ok:
  "save_proposal E program i p L = Inr M \<longleftrightarrow>
     proposal_validate E p program (ai_key i) = Inr () \<and> owner_of L i = program \<and>
     length (ser_proposal p) = PROPOSAL_LEN \<and> length (data_of L i) = PROPOSAL_LEN \<and>
     M = set_data i (ser_proposal p) L"
  by (auto simp: save_proposal_def bnd_Inr_iff store_ok_iff)

lemma load_gate_ok:
  "load_gate E program i target L = Inr g \<longleftrightarrow>
     owner_of L i = program \<and> wf_gate g \<and> data_of L i = ser_gate g \<and>
     gate_validate_static g = Inr () \<and> target \<noteq> program \<and>
     gate_pda E program target = (ai_key i, gt_bump g) \<and>
     gt_controller_config g = fst (config_pda E program) \<and> gt_target_program g = target \<and>
     gt_target_programdata g = fst (find_program_address E [wr_32 target] (loader_id E))"
  by (auto simp: load_gate_def bnd_Inr_iff gate_codec.load_iff require_ok map_err_Inr_iff)

lemma save_gate_ok:
  "save_gate program i g L = Inr M \<longleftrightarrow>
     gate_validate_static g = Inr () \<and> owner_of L i = program \<and>
     length (ser_gate g) = GATE_LEN \<and> length (data_of L i) = GATE_LEN \<and>
     M = set_data i (ser_gate g) L"
  by (auto simp: save_gate_def bnd_Inr_iff store_ok_iff map_err_Inr_iff)

definition save_config :: "env \<Rightarrow> pubkey \<Rightarrow> account_info \<Rightarrow> config \<Rightarrow> ledger \<Rightarrow> program_error + ledger" where
  "save_config E program i cfg L =
     bnd (config_validate E cfg program (ai_key i)) (\<lambda>_.
     store_fixed_controller_account ser_config L program i cfg CONFIG_LEN)"

definition save_gate_for :: "env \<Rightarrow> pubkey \<Rightarrow> pubkey \<Rightarrow> account_info \<Rightarrow> protocol_gate \<Rightarrow> ledger \<Rightarrow> program_error + ledger" where
  "save_gate_for E program target i g L =
     bnd (require (target \<noteq> program \<and> gate_pda E program target = (ai_key i, gt_bump g) \<and>
       gt_controller_config g = fst (config_pda E program) \<and> gt_target_program g = target \<and>
       gt_target_programdata g = fst (find_program_address E [wr_32 target] (loader_id E))) InvalidAccount) (\<lambda>_.
     save_gate program i g L)"

interpretation proposal_store: account_store
  "\<lambda>i. load_proposal E program i None" "save_proposal E program" wf_proposal
  "\<lambda>i p. proposal_validate E p program (ai_key i) = Inr ()" ser_proposal
  for E :: env and program :: pubkey
  by (unfold_locales, erule load_local_facts)
    (auto simp: load_proposal_ok save_proposal_ok ledger_simps proposal_codec.ser_size)

interpretation config_store: account_store
  "\<lambda>i. load_config E program i" "save_config E program" wf_config
  "\<lambda>i c. config_validate E c program (ai_key i) = Inr ()" ser_config
  for E :: env and program :: pubkey
  by (unfold_locales, erule load_local_facts)
    (auto simp: load_config_ok save_config_def bnd_Inr_iff store_ok_iff ledger_simps config_codec.ser_size)

interpretation gate_store: account_store
  "\<lambda>i. load_gate E program i target" "save_gate_for E program target" wf_gate
  "\<lambda>i g. gate_validate_static g = Inr () \<and> target \<noteq> program \<and>
     gate_pda E program target = (ai_key i, gt_bump g) \<and>
     gt_controller_config g = fst (config_pda E program) \<and> gt_target_program g = target \<and>
     gt_target_programdata g = fst (find_program_address E [wr_32 target] (loader_id E))" ser_gate
  for E :: env and program :: pubkey and target :: pubkey
  by (unfold_locales, erule load_local_facts)
    (auto simp: load_gate_ok save_gate_for_def save_gate_ok bnd_Inr_iff require_ok ledger_simps
      gate_codec.ser_size)

lemma load_set_other:
  assumes "ai_key i \<noteq> ai_key j"
  shows "load_config E program i (set_data j v L) = load_config E program i L"
    "load_proposal E program i d (set_data j v L) = load_proposal E program i d L"
    "load_gate E program i target (set_data j v L) = load_gate E program i target L"
  by (intro load_local_facts; use assms in \<open>simp add: ledger_simps\<close>)+

section \<open>One chain\<close>

text \<open>Addresses, digests and the validity of every account are the same in all transactions of a chain.\<close>

lemma same_chain_eqs:
  assumes "same_chain E E'"
  shows "config_pda E' = config_pda E" "authority_pda E' = authority_pda E" "proposal_pda E' = proposal_pda E"
    "gate_pda E' = gate_pda E" "target_authority_pda E' = target_authority_pda E"
    "buffer_authority_pda E' = buffer_authority_pda E" "compute_digest E' = compute_digest E"
    "config_validate E' = config_validate E" "proposal_validate E' = proposal_validate E"
proof -
  have same: "sha256 E' = sha256 E" "find_program_address E' = find_program_address E"
    "loader_id E' = loader_id E"
    using assms by (simp_all add: same_chain_def)
  show pdas: "config_pda E' = config_pda E" "authority_pda E' = authority_pda E" "proposal_pda E' = proposal_pda E"
    "gate_pda E' = gate_pda E" "target_authority_pda E' = target_authority_pda E"
    "buffer_authority_pda E' = buffer_authority_pda E"
    by (simp_all add: fun_eq_iff config_pda_def authority_pda_def proposal_pda_def gate_pda_def
        target_authority_pda_def buffer_authority_pda_def same)
  show digest: "compute_digest E' = compute_digest E"
    by (intro ext) (simp add: compute_digest_def hashv_def same)
  show "config_validate E' = config_validate E"
    by (intro ext) (simp only: config_validate_def pdas same)
  show "proposal_validate E' = proposal_validate E"
    by (intro ext) (simp only: proposal_validate_def proposal_fields_ok_def pdas digest)
qed

lemma same_chain_loads:
  assumes "same_chain E E'"
  shows "load_config E' program i L = load_config E program i L"
    "load_proposal E' program i d L = load_proposal E program i d L"
  by (simp_all add: load_config_def load_proposal_def same_chain_eqs [OF assms])

end
