(* ===== verification/Proposal_Facts.thy ===== *)
theory Proposal_Facts
  imports Gov_Proposal
begin

text \<open>
  Correctness of the proposal operations: voting and chunk marking keep the account valid and
  change exactly one bit; what a proposal that may execute has behind it; what the digest covers.
\<close>

section \<open>Validity, by group\<close>

lemma proposal_validate_ok:
  "proposal_validate E p program key = Inr u \<longleftrightarrow>
     proposal_fields_ok E p program key \<and>
     boundaries (pr_timing p) (pr_created p) = Inr (pr_review_end p, pr_not_before p, pr_expires p) \<and>
     pr_digest p = compute_digest E p program \<and> action_validate (pr_action p) = Inr () \<and>
     extension_validate p = Inr () \<and> lifecycle_ok p"
  by (auto simp: proposal_validate_def result_simps)

section \<open>Voting\<close>

lemma proposal_approve_ok:
  "proposal_approve p i slot cancel = Inr p' \<longleftrightarrow>
     i < 5 \<and> pr_state p = PENDING \<and> pr_created p \<le> slot \<and> slot < pr_expires p \<and>
     (cancel \<or> slot \<le> pr_review_end p) \<and>
     \<not> bit (if cancel then pr_cancellations p else pr_approvals p) i \<and>
     p' = (if cancel then
             p\<lparr>pr_cancellations := pr_cancellations p OR shl1 i,
               pr_cancellation_count := of_nat (pop_count (pr_cancellations p OR shl1 i)),
               pr_state := (if pop_count (pr_cancellations p OR shl1 i) \<ge> 3 then CANCELLED else pr_state p)\<rparr>
           else p\<lparr>pr_approvals := pr_approvals p OR shl1 i,
                  pr_approval_count := of_nat (pop_count (pr_approvals p OR shl1 i))\<rparr>)"
  by (auto simp: proposal_approve_def result_simps Let_def and_shl1_iff pop_count_byte THRESHOLD_def)

lemma approve_valid:
  assumes "proposal_validate E p program key = Inr ()"
    and "proposal_approve p i slot cancel = Inr p'"
  shows "proposal_validate E p' program key = Inr ()"
proof -
  let ?b = "if cancel then pr_cancellations p else pr_approvals p"
  note ok = assms(2) [unfolded proposal_approve_ok]
  note valid = assms(1) [unfolded proposal_validate_ok]
  have less: "?b OR shl1 i < 32"
    using ok valid by (auto simp: byte_less_32 bit_or_shl1 proposal_fields_ok_def split: if_splits)
  have count: "pop_count (?b OR shl1 i) = Suc (pop_count ?b)"
    using ok by (intro pop_count_set_bit) auto
  have fields: "proposal_fields_ok E p' program key"
    using ok valid less
    by (auto simp: proposal_fields_ok_def verified_bitmap_def pop_count_byte CANCELLED_def EXPIRED_def
        split: if_splits)
  have life: "lifecycle_ok p'"
    using ok valid count pop_count_byte [of "?b OR shl1 i"]
    by (auto simp: lifecycle_ok_def proposal_fields_ok_def state_consts word_le_nat_alt split: if_splits)
  have same: "pr_timing p' = pr_timing p" "pr_created p' = pr_created p" "pr_review_end p' = pr_review_end p"
    "pr_not_before p' = pr_not_before p" "pr_expires p' = pr_expires p" "pr_digest p' = pr_digest p"
    "pr_action p' = pr_action p" "compute_digest E p' program = compute_digest E p program"
    "extension_validate p' = extension_validate p"
    using ok by (auto simp: compute_digest_def extension_validate_def)
  show ?thesis
    using valid fields life unfolding proposal_validate_ok same by blast
qed

text \<open>C38: A vote is accepted exactly when it is cast for one of the five seats on a pending
  proposal, not before its creation, before its expiry, for an approval not after the review window, and
  by a seat that has not cast it yet.  It then adds that seat to the bitmap it is cast on and sets the
  count of that bitmap to the number of its seats; the other bitmap and its count stay; the state
  becomes cancelled at the third cancellation and stays pending otherwise; nothing else changes.  A vote
  outside the window is refused with one error, a repeated vote with another.\<close>

theorem vote_adds_one_seat:
  "case proposal_approve p i slot cancel of
     Inr p' \<Rightarrow>
       i < 5 \<and> pr_state p = PENDING \<and> pr_created p \<le> slot \<and> slot < pr_expires p \<and> (cancel \<or> slot \<le> pr_review_end p) \<and>
       i \<notin> voters (if cancel then pr_cancellations p else pr_approvals p) \<and>
       voters (if cancel then pr_cancellations p' else pr_approvals p')
         = insert i (voters (if cancel then pr_cancellations p else pr_approvals p)) \<and>
       unat (if cancel then pr_cancellation_count p' else pr_approval_count p')
         = Suc (card (voters (if cancel then pr_cancellations p else pr_approvals p))) \<and>
       (if cancel then pr_approvals p' = pr_approvals p \<and> pr_approval_count p' = pr_approval_count p
        else pr_cancellations p' = pr_cancellations p \<and> pr_cancellation_count p' = pr_cancellation_count p) \<and>
       pr_state p' = (if cancel \<and> 3 \<le> card (voters (pr_cancellations p')) then CANCELLED else PENDING) \<and>
       p' = p\<lparr>pr_approvals := pr_approvals p', pr_approval_count := pr_approval_count p',
              pr_cancellations := pr_cancellations p', pr_cancellation_count := pr_cancellation_count p',
              pr_state := pr_state p'\<rparr>
   | Inl e \<Rightarrow>
       (if i < 5 \<and> pr_state p = PENDING \<and> pr_created p \<le> slot \<and> slot < pr_expires p \<and> (cancel \<or> slot \<le> pr_review_end p)
        then e = program_error_from DuplicateApproval \<and> i \<in> voters (if cancel then pr_cancellations p else pr_approvals p)
        else e = program_error_from InvalidTiming)"
proof (cases "proposal_approve p i slot cancel")
  case (Inl e)
  then show ?thesis
    by (auto simp: proposal_approve_def require_def Let_def voters_def and_shl1_iff not_le not_less split: if_splits)
next
  case (Inr p')
  note ok = Inr [unfolded proposal_approve_ok]
  show ?thesis
  proof (cases cancel)
    case True
    have fresh: "i \<notin> voters (pr_cancellations p)" using ok True by (simp add: voters_def)
    have tally: "voters (pr_cancellations p OR shl1 i) = insert i (voters (pr_cancellations p))"
      using ok by (simp add: voters_or)
    with fresh have "pop_count (pr_cancellations p OR shl1 i) = Suc (pop_count (pr_cancellations p))"
      by (simp flip: card_voters)
    with fresh tally show ?thesis
      using ok True pop_count_byte [of "pr_cancellations p OR shl1 i"] unfolding Inr by (simp add: card_voters)
  next
    case False
    have fresh: "i \<notin> voters (pr_approvals p)" using ok False by (simp add: voters_def)
    have tally: "voters (pr_approvals p OR shl1 i) = insert i (voters (pr_approvals p))"
      using ok by (simp add: voters_or)
    with fresh have "pop_count (pr_approvals p OR shl1 i) = Suc (pop_count (pr_approvals p))"
      by (simp flip: card_voters)
    with fresh tally show ?thesis
      using ok False pop_count_byte [of "pr_approvals p OR shl1 i"] unfolding Inr by (simp add: card_voters)
  qed
qed

section \<open>Chunks\<close>

text \<open>The chunks a bitmap marks.\<close>

definition marked :: "byte list \<Rightarrow> nat set" where
  "marked bs = {i. i < 8 * length bs \<and> bit (bs ! (i div 8)) (i mod 8)}"

lemma length_verified_bitmap: "wf_proposal p \<Longrightarrow> length (verified_bitmap p) = 16"
  by (simp add: wf_proposal_def verified_bitmap_def)

lemma mark_chunk_ok:
  assumes "wf_proposal p"
  shows "mark_chunk_verified p index = Inr p' \<longleftrightarrow>
     unat index < 128 \<and> \<not> bit (verified_bitmap p ! (unat index div 8)) (unat index mod 8) \<and>
     (let bm = (verified_bitmap p)[unat index div 8 :=
        verified_bitmap p ! (unat index div 8) OR shl1 (unat index mod 8)]
      in p' = p\<lparr>pr_verified_chunks := take 12 bm, pr_verified_count := pr_verified_count p + 1,
               pr_verified_chunks_high := drop 12 bm\<rparr>)"
proof (cases "unat index div 8 < 12")
  case True
  then show ?thesis
    using assms
    by (auto simp: mark_chunk_verified_def result_simps Let_def wf_proposal_def MAX_CHUNKS_def
        verified_bitmap_def nth_append list_update_append and_shl1_iff)
next
  case False
  then show ?thesis
    using assms
    by (auto simp: mark_chunk_verified_def result_simps Let_def wf_proposal_def MAX_CHUNKS_def
        verified_bitmap_def nth_append list_update_append and_shl1_iff LOW_BITMAP_BYTES_def)
qed

lemma marked_update:
  assumes "i < 8 * length bs"
  shows "marked (bs[i div 8 := bs ! (i div 8) OR shl1 (i mod 8)]) = insert i (marked bs)"
proof -
  have "k div 8 < length bs" if "k < 8 * length bs" for k using that by auto
  moreover have "k = i \<longleftrightarrow> k div 8 = i div 8 \<and> k mod 8 = i mod 8" for k
    by (metis div_mult_mod_eq)
  ultimately show ?thesis
    using assms by (auto simp: marked_def nth_list_update bit_or_shl1)
qed

lemma marked_Cons: "marked (b # bs) = voters b \<union> (\<lambda>i. i + 8) ` marked bs"
proof -
  have "i \<in> marked (b # bs) \<longleftrightarrow> i \<in> voters b \<or> (8 \<le> i \<and> i - 8 \<in> marked bs)" for i
  proof (cases "i < 8")
    case True
    then show ?thesis by (auto simp: marked_def voters_def)
  next
    case False
    then have "i div 8 = Suc ((i - 8) div 8)" "i mod 8 = (i - 8) mod 8"
      by (simp_all add: le_div_geq le_mod_geq)
    with False show ?thesis by (auto simp: marked_def voters_def)
  qed
  moreover have "i \<in> (\<lambda>i. i + 8) ` M \<longleftrightarrow> 8 \<le> i \<and> i - 8 \<in> M" for i :: nat and M
  proof
    assume "8 \<le> i \<and> i - 8 \<in> M"
    then show "i \<in> (\<lambda>i. i + 8) ` M" by (intro image_eqI [of _ _ "i - 8"]) simp_all
  qed auto
  ultimately show ?thesis by blast
qed

lemma finite_marked [simp]: "finite (marked bs)"
  by (simp add: marked_def)

lemma card_marked: "card (marked bs) = sum_list (map pop_count bs)"
proof (induction bs)
  case Nil
  then show ?case by (simp add: marked_def)
next
  case (Cons b bs)
  have "voters b \<inter> (\<lambda>i. i + 8) ` marked bs = {}"
    by (auto simp: voters_def)
  then have "card (marked (b # bs)) = card (voters b) + card ((\<lambda>i. i + 8) ` marked bs)"
    by (simp add: marked_Cons card_Un_disjoint)
  also have "card ((\<lambda>i. i + 8) ` marked bs) = card (marked bs)"
    by (simp add: card_image inj_on_def)
  finally show ?case by (simp add: Cons.IH card_voters)
qed

lemma mark_chunk_marked:
  assumes "wf_proposal p" and "mark_chunk_verified p index = Inr p'"
  shows "marked (verified_bitmap p') = insert (unat index) (marked (verified_bitmap p))"
    "unat index \<notin> marked (verified_bitmap p)" "unat index < 128"
    "pr_verified_count p' = pr_verified_count p + 1" "wf_proposal p'"
    "p' = p\<lparr>pr_verified_chunks := pr_verified_chunks p', pr_verified_count := pr_verified_count p + 1,
             pr_verified_chunks_high := pr_verified_chunks_high p'\<rparr>"
proof -
  let ?bm = "(verified_bitmap p)[unat index div 8 := verified_bitmap p ! (unat index div 8) OR shl1 (unat index mod 8)]"
  note ok = assms(2) [unfolded mark_chunk_ok [OF assms(1)] Let_def]
  have p': "p' = p\<lparr>pr_verified_chunks := take 12 ?bm, pr_verified_count := pr_verified_count p + 1,
      pr_verified_chunks_high := drop 12 ?bm\<rparr>"
    using ok by blast
  have len: "length (verified_bitmap p) = 16" by (rule length_verified_bitmap [OF assms(1)])
  have bm: "verified_bitmap p' = ?bm" by (simp add: p' verified_bitmap_def)
  show "unat index \<notin> marked (verified_bitmap p)" "unat index < 128"
    using ok by (simp_all add: marked_def)
  then show "marked (verified_bitmap p') = insert (unat index) (marked (verified_bitmap p))"
    unfolding bm by (intro marked_update) (simp add: len)
  show "pr_verified_count p' = pr_verified_count p + 1" by (simp add: p')
  show "wf_proposal p'"
    using assms(1) by (simp add: wf_proposal_def p' len)
  show "p' = p\<lparr>pr_verified_chunks := pr_verified_chunks p', pr_verified_count := pr_verified_count p + 1,
             pr_verified_chunks_high := pr_verified_chunks_high p'\<rparr>"
    by (simp add: p')
qed

lemma mark_chunk_valid:
  assumes "wf_proposal p" and "proposal_validate E p program key = Inr ()"
    and "is_upgrade (pr_action p)" and "mark_chunk_verified p index = Inr p'"
  shows "proposal_validate E p' program key = Inr () \<and>
    marked (verified_bitmap p') = insert (unat index) (marked (verified_bitmap p)) \<and>
    unat index \<notin> marked (verified_bitmap p) \<and>
    card (marked (verified_bitmap p')) = unat (pr_verified_count p')"
proof -
  note mk = mark_chunk_marked [OF assms(1,4)]
  note valid = assms(2) [unfolded proposal_validate_ok]
  have count: "unat (pr_verified_count p) = card (marked (verified_bitmap p))"
    using valid by (simp add: proposal_fields_ok_def card_marked)
  have "card (marked (verified_bitmap p)) \<le> card {..<(128::nat)}"
    by (rule card_mono) (auto simp: marked_def length_verified_bitmap [OF assms(1)])
  then have count': "unat (pr_verified_count p') = card (marked (verified_bitmap p'))"
    using mk(1,2,4) count by (simp add: unat_word_ariths)
  have upd: "pr_discriminator p' = pr_discriminator p" "pr_version p' = pr_version p"
    "pr_bump p' = pr_bump p" "pr_initialized p' = pr_initialized p" "pr_config p' = pr_config p"
    "pr_id p' = pr_id p" "pr_council_epoch p' = pr_council_epoch p"
    "pr_timing_version p' = pr_timing_version p" "pr_timing p' = pr_timing p"
    "pr_created p' = pr_created p" "pr_review_end p' = pr_review_end p"
    "pr_not_before p' = pr_not_before p" "pr_expires p' = pr_expires p" "pr_action p' = pr_action p"
    "pr_digest p' = pr_digest p" "pr_approvals p' = pr_approvals p"
    "pr_approval_count p' = pr_approval_count p" "pr_cancellations p' = pr_cancellations p"
    "pr_cancellation_count p' = pr_cancellation_count p" "pr_state p' = pr_state p"
    "pr_extension_slot p' = pr_extension_slot p" "pr_extended_capacity p' = pr_extended_capacity p"
    "pr_executed_slot p' = pr_executed_slot p" "pr_reserved p' = pr_reserved p"
    by (subst mk(6), simp)+
  have "proposal_fields_ok E p' program key"
    using valid count' unfolding proposal_fields_ok_def upd card_marked by simp
  moreover have "lifecycle_ok p'"
    using valid unfolding lifecycle_ok_def upd by blast
  moreover have "compute_digest E p' program = compute_digest E p program"
    unfolding compute_digest_def upd ..
  moreover have "extension_validate p' = extension_validate p"
    using assms(3) unfolding extension_validate_def upd by simp
  ultimately have "proposal_validate E p' program key = Inr ()"
    using valid unfolding proposal_validate_ok upd by simp
  with mk count' show ?thesis by simp
qed

end
