(* ===== verification/Samples.thy ===== *)
theory Samples
  imports Proposal_Facts Account_Store
begin

text \<open>
  Concrete values the witnesses are evaluated on: a configuration, a timing proposal, a target
  upgrade proposal, and their validity in the sample environment.
\<close>

section \<open>Addresses in the sample environment\<close>

abbreviation program_key :: pubkey where "program_key \<equiv> 500"

lemma sample_pdas [simp]:
  "config_pda sample_env program = (1026, 255)"
  "authority_pda sample_env program = (1028, 255)"
  "proposal_pda sample_env program n = (1035, 255)"
  "gate_pda sample_env program target = (1055, 255)"
  "target_authority_pda sample_env program target = (1067, 255)"
  "buffer_authority_pda sample_env program target = (1057, 255)"
  "find_program_address sample_env [wr_32 k] program = (1032, 255)"
  by (simp_all add: config_pda_def authority_pda_def proposal_pda_def gate_pda_def
      target_authority_pda_def buffer_authority_pda_def DOMAIN_def)

section \<open>A configuration\<close>

definition sample_config :: config where
  "sample_config =
     \<lparr>cf_discriminator = CONFIG_DISCRIMINATOR, cf_version = 1, cf_bump = 255, cf_initialized = True,
      cf_controller = program_key, cf_programdata = 1032, cf_authority = 1028, cf_treasury = 31,
      cf_seats = [21, 22, 23, 24, 25], cf_council_epoch = 1, cf_timing_version = 1,
      cf_timing = timing_default, cf_next_id = 2, cf_reserved = replicate 37 0\<rparr>"

lemma timing_default_ok [simp]: "timing_validate timing_default = Inr ()"
  by (simp add: timing_validate_ok timing_default_def WEEK_SLOTS_def MIN_DELAY_SLOTS_def)

lemma sample_config_wf [simp]: "wf_config sample_config"
  by (simp add: wf_config_def sample_config_def CONFIG_DISCRIMINATOR_def)

lemma sample_config_ok [simp]: "config_validate sample_env sample_config program_key 1026 = Inr ()"
  by (simp add: config_validate_def sample_config_def require_def validate_seats_ok result_simps)

section \<open>A policy proposal\<close>

definition timing_action :: action where
  "timing_action = \<lparr>ac_kind = SET_TIMING, ac_data = ser_timing timing_default @ replicate 168 0\<rparr>"

lemma timing_action_wf [simp]: "wf_action timing_action"
  by (simp add: wf_action_def timing_action_def timing_codec.ser_size ACTION_LEN_def)

lemma timing_action_decodes [simp]: "action_timing timing_action = Inr timing_default"
  unfolding action_timing_def
  by (subst timing_codec.decode_padded_iff)
    (simp_all add: ACTION_LEN_def timing_action_def wf_action_def timing_codec.ser_size)

lemma timing_action_kind [simp]: "ac_kind timing_action = SET_TIMING"
  by (simp add: timing_action_def)

lemma timing_action_ok [simp]: "action_validate timing_action = Inr ()"
  by (simp add: action_validate_def kind_consts)

definition sample_bounds :: "u64 \<times> u64 \<times> u64" where
  "sample_bounds = (1500000 + 1512000, 1500000 + 150, 1500000 + 2592000)"

definition proposal_for :: "action \<Rightarrow> proposal" where
  "proposal_for a =
     (let p = new_proposal sample_config 1026 1 255 a 1500000 sample_bounds
      in p\<lparr>pr_digest := compute_digest sample_env p program_key\<rparr>)"

lemma proposal_for_wf [simp]: "wf_action a \<Longrightarrow> wf_proposal (proposal_for a)"
  by (simp add: proposal_for_def wf_proposal_def new_proposal_def sample_bounds_def Let_def
      PROPOSAL_DISCRIMINATOR_def)

lemma proposal_for_bounds:
  "boundaries timing_default 1500000 = Inr (3012000, 1500150, 4092000)"
  unfolding boundaries_ok using timing_default_ok
  by (simp add: timing_default_def WEEK_SLOTS_def MIN_DELAY_SLOTS_def)

lemma bitmap_zero: "sum_list (map pop_count (replicate n (0 :: byte))) = 0"
  by (induction n) simp_all

lemma proposal_for_ok [simp]:
  assumes "action_validate a = Inr ()" and "is_upgrade a \<longrightarrow> is_ok (action_artifact a)"
  shows "proposal_validate sample_env (proposal_for a) program_key 1035 = Inr ()"
proof -
  have "extension_validate (proposal_for a) = Inr ()"
    using assms(2)
    by (auto simp: extension_validate_def proposal_for_def new_proposal_def sample_bounds_def Let_def
        require_def is_ok_iff)
  moreover have "proposal_fields_ok sample_env (proposal_for a) program_key 1035"
    by (simp add: proposal_fields_ok_def proposal_for_def new_proposal_def sample_bounds_def Let_def
        verified_bitmap_def bitmap_zero sample_config_def PENDING_def EXPIRED_def)
  moreover have "lifecycle_ok (proposal_for a)"
    by (simp add: lifecycle_ok_def proposal_for_def new_proposal_def sample_bounds_def Let_def state_consts)
  moreover have "boundaries (pr_timing (proposal_for a)) (pr_created (proposal_for a))
      = Inr (pr_review_end (proposal_for a), pr_not_before (proposal_for a), pr_expires (proposal_for a))"
    by (simp add: proposal_for_def new_proposal_def sample_bounds_def Let_def sample_config_def
        proposal_for_bounds)
  moreover have "pr_digest (proposal_for a) = compute_digest sample_env (proposal_for a) program_key"
    by (simp add: proposal_for_def Let_def compute_digest_def)
  moreover have "pr_action (proposal_for a) = a"
    by (simp add: proposal_for_def new_proposal_def sample_bounds_def Let_def)
  ultimately show ?thesis
    using assms(1) by (simp add: proposal_validate_ok)
qed

section \<open>An upgrade proposal\<close>

definition target_key :: pubkey where "target_key = 700"

definition sample_target_upgrade :: target_upgrade where
  "sample_target_upgrade =
     \<lparr>tu_buffer = 41, tu_artifact_length = 5, tu_merkle_root = 37, tu_deployed_slot = 44,
      tu_capacity = 10, tu_source_commitment = 46, tu_build_commitment = 47, tu_target = target_key,
      tu_gate_epoch = 5\<rparr>"

definition upgrade_action :: action where
  "upgrade_action = \<lparr>ac_kind = UPGRADE_TARGET, ac_data = ser_target_upgrade sample_target_upgrade\<rparr>"

definition sample_artifact :: artifact where
  "sample_artifact =
     \<lparr>ar_buffer = 41, ar_artifact_length = 5, ar_merkle_root = 37, ar_deployed_slot = 44,
      ar_capacity = 10, ar_source_commitment = 46, ar_build_commitment = 47\<rparr>"

lemma upgrade_action_wf [simp]: "wf_action upgrade_action"
  by (simp add: wf_action_def upgrade_action_def target_upgrade_codec.ser_size ACTION_LEN_def)

lemma upgrade_action_kind [simp]: "ac_kind upgrade_action = UPGRADE_TARGET" "is_upgrade upgrade_action"
  by (simp_all add: upgrade_action_def is_upgrade_def)

lemma upgrade_action_decodes [simp]: "action_target_upgrade upgrade_action = Inr sample_target_upgrade"
  by (simp add: action_target_upgrade_def upgrade_action_def target_upgrade_codec.decode_encode)

lemma upgrade_action_artifact [simp]: "action_artifact upgrade_action = Inr sample_artifact"
  by (simp add: action_artifact_def kind_consts sample_target_upgrade_def sample_artifact_def
      target_key_def require_def)

lemma upgrade_action_ok [simp]: "action_validate upgrade_action = Inr ()"
  by (simp add: action_validate_def kind_consts sample_artifact_def require_def MAX_ARTIFACT_BYTES_def)

lemma proposal_for_select [simp]:
  "pr_action (proposal_for a) = a" "pr_state (proposal_for a) = PENDING"
  "pr_approvals (proposal_for a) = 0" "pr_cancellations (proposal_for a) = 0"
  "pr_created (proposal_for a) = 1500000" "pr_review_end (proposal_for a) = 3012000"
  "pr_not_before (proposal_for a) = 1500150" "pr_expires (proposal_for a) = 4092000"
  "pr_council_epoch (proposal_for a) = 1" "pr_timing_version (proposal_for a) = 1"
  "pr_verified_chunks (proposal_for a) = replicate 12 0"
  "pr_verified_chunks_high (proposal_for a) = replicate 4 0" "pr_verified_count (proposal_for a) = 0"
  by (simp_all add: proposal_for_def new_proposal_def sample_bounds_def Let_def sample_config_def)

section \<open>A ledger with the configuration and one proposal\<close>

definition ro :: "pubkey \<Rightarrow> account_info" where
  "ro k = \<lparr>ai_key = k, is_signer = False, is_writable = False, executable = False\<rparr>"
definition rw :: "pubkey \<Rightarrow> account_info" where
  "rw k = \<lparr>ai_key = k, is_signer = False, is_writable = True, executable = False\<rparr>"
definition sg :: "pubkey \<Rightarrow> account_info" where
  "sg k = \<lparr>ai_key = k, is_signer = True, is_writable = False, executable = False\<rparr>"

lemma info_simps [simp]:
  "ai_key (ro k) = k" "is_signer (ro k) = False" "is_writable (ro k) = False" "executable (ro k) = False"
  "ai_key (rw k) = k" "is_signer (rw k) = False" "is_writable (rw k) = True" "executable (rw k) = False"
  "ai_key (sg k) = k" "is_signer (sg k) = True" "is_writable (sg k) = False" "executable (sg k) = False"
  by (simp_all add: ro_def rw_def sg_def)

definition sample_ledger :: "proposal \<Rightarrow> ledger" where
  "sample_ledger p =
     (\<lambda>k. \<lparr>lamports = 5, acc_data = [], owner = 0\<rparr>)
       (1026 := \<lparr>lamports = 5, acc_data = ser_config sample_config, owner = program_key\<rparr>,
        1035 := \<lparr>lamports = 5, acc_data = ser_proposal p, owner = program_key\<rparr>)"

text \<open>The timing proposal with three approvals.\<close>

definition approved_proposal :: "action \<Rightarrow> proposal" where
  "approved_proposal a = (proposal_for a)\<lparr>pr_approvals := 7, pr_approval_count := 3\<rparr>"

lemma pop_count_7 [simp]: "pop_count (7 :: byte) = 3"
  by code_simp

lemma approved_proposal_wf [simp]: "wf_action a \<Longrightarrow> wf_proposal (approved_proposal a)"
  using proposal_for_wf [of a] by (simp add: approved_proposal_def wf_proposal_def)

lemma approved_proposal_ok [simp]:
  assumes "action_validate a = Inr ()" and "is_upgrade a \<longrightarrow> is_ok (action_artifact a)"
  shows "proposal_validate sample_env (approved_proposal a) program_key 1035 = Inr ()"
  using proposal_for_ok [OF assms]
  by (auto simp: proposal_validate_ok approved_proposal_def proposal_fields_ok_def lifecycle_ok_def
      extension_validate_def compute_digest_def verified_bitmap_def state_consts)

section \<open>An environment with calls that act\<close>

text \<open>The effect of each call the sources make, as the System program and Loader v3 document it,
  restricted to the accounts handed to the call; a raw instruction changes nothing.\<close>

definition programdata_of :: "ledger \<Rightarrow> pubkey \<Rightarrow> pubkey" where
  "programdata_of L program = le_word (drop 4 (acc_data (L program)))"

definition move_all :: "pubkey \<Rightarrow> pubkey \<Rightarrow> ledger \<Rightarrow> ledger" where
  "move_all a b L = L(b := (L b)\<lparr>lamports := lamports (L b) + lamports (L a)\<rparr>,
     a := \<lparr>lamports = 0, acc_data = [], owner = owner (L a)\<rparr>)"

fun sample_effect :: "cpi \<Rightarrow> ledger \<Rightarrow> ledger" where
  "sample_effect (SetBufferAuthorityChecked b cur new) L =
     L(b := (L b)\<lparr>acc_data := take 4 (acc_data (L b)) @ 1 # wr_32 new @ drop 37 (acc_data (L b))\<rparr>)"
| "sample_effect (SetUpgradeAuthorityChecked p cur new) L =
     (let d = programdata_of L p in
      L(d := (L d)\<lparr>acc_data := take 12 (acc_data (L d)) @ 1 # wr_32 new @ drop 45 (acc_data (L d))\<rparr>))"
| "sample_effect (LoaderUpgrade p b auth spill) L =
     (let d = programdata_of L p; payload = drop 37 (acc_data (L b)) in
      move_all b spill (L(d := (L d)\<lparr>acc_data := programdata_bytes 2000000 (Some auth) 0
        (payload @ replicate (length (acc_data (L d)) - 45 - length payload) 0)\<rparr>)))"
| "sample_effect (LoaderClose c r auth) L = move_all c r L"
| "sample_effect (LoaderCloseAny c r auth p) L = move_all c r L"
| "sample_effect (SystemCreateAccount p n lam space own) L =
     L(p := (L p)\<lparr>lamports := lamports (L p) - lam\<rparr>,
       n := \<lparr>lamports = lam, acc_data = replicate (unat space) 0, owner = own\<rparr>)"
| "sample_effect (SystemTransfer a b v) L =
     L(a := (L a)\<lparr>lamports := lamports (L a) - v\<rparr>, b := (L b)\<lparr>lamports := lamports (L b) + v\<rparr>)"
| "sample_effect (SystemAllocate a space) L = L(a := (L a)\<lparr>acc_data := replicate (unat space) 0\<rparr>)"
| "sample_effect (SystemAssign a own) L = L(a := (L a)\<lparr>owner := own\<rparr>)"
| "sample_effect (Raw ix) L = L"

definition world_env :: env where
  "world_env = sample_env\<lparr>invoke_signed := \<lambda>c keys seeds L.
     Inr (\<lambda>k. if k \<in> set keys then sample_effect c L k else L k)\<rparr>"

lemma world_env_simps [simp]:
  "sha256 world_env bs = of_nat (length bs)"
  "find_program_address world_env seeds program = (1000 + of_nat (length (concat seeds)), 255)"
  "rent_get world_env = Inr (\<lambda>n. 1000000)" "clock_get world_env = Inr 2000000"
  "loader_id world_env = 901" "system_program_id world_env = 0" "instructions_id world_env = 903"
  "compute_budget_id world_env = 904" "rent_sysvar_id world_env = 905" "clock_sysvar_id world_env = 906"
  "invoke_signed world_env c keys sds L = Inr (\<lambda>k. if k \<in> set keys then sample_effect c L k else L k)"
  by (simp_all add: world_env_def)

lemma world_cpi_frame [simp]: "cpi_frame world_env"
  by (simp add: cpi_frame_def)

text \<open>Only the calls differ, so everything the handlers check is the same.\<close>

lemma world_chain: "same_chain sample_env world_env"
  by (simp add: same_chain_def world_env_def)

lemmas world_same [simp] = same_chain_eqs [OF world_chain]

end
