(* ===== verification/Artifact_Facts.thy ===== *)
theory Artifact_Facts
  imports Gov_Artifact
begin

text \<open>
  What the two Merkle modules compute: a common leaf level, authentication paths that verify, a
  soundness theorem for accepted chunks, and the agreement of the V3 module with Release 1 below
  the Release 1 bound.
\<close>

section \<open>The common leaf level\<close>

definition chunk_at :: "byte list \<Rightarrow> nat \<Rightarrow> byte list" where
  "chunk_at artifact i = take 16384 (drop (i * 16384) artifact)"

definition leaf_material :: "u32 \<Rightarrow> byte list \<Rightarrow> byte list" where
  "leaf_material index chunk =
     ARTIFACT_CHUNK_LEAF_DOMAIN_V1 @ wr_u32 index @ wr_u32 (of_nat (length chunk)) @ chunk"

definition node_material :: "hash32 \<times> hash32 \<Rightarrow> byte list" where
  "node_material p = ARTIFACT_CHUNK_NODE_DOMAIN_V1 @ wr_32 (fst p) @ wr_32 (snd p)"

definition empty_material :: "u32 \<Rightarrow> byte list" where
  "empty_material index = ARTIFACT_CHUNK_EMPTY_DOMAIN_V1 @ wr_u32 index"

definition leaf_level :: "env \<Rightarrow> byte list \<Rightarrow> hash32 list" where
  "leaf_level E artifact =
     (let count = div_ceil (length artifact) 16384 in
      map (\<lambda>i. sha256 E (leaf_material (of_nat i) (chunk_at artifact i))) [0..<count]
      @ map (\<lambda>i. sha256 E (empty_material (of_nat i))) [count..<next_power_of_two count])"

lemma node_hash_material: "artifact_chunk_node_hash E l r = sha256 E (node_material (l, r))"
  by (simp add: artifact_chunk_node_hash_def hashv_def node_material_def)

lemma leaf_hash_ok:
  "leaf_hash E index chunk = Inr h \<longleftrightarrow>
     unat index < 128 \<and> chunk \<noteq> [] \<and> length chunk \<le> 16384 \<and> h = sha256 E (leaf_material index chunk)"
  by (auto simp: leaf_hash_def result_simps hashv_def leaf_material_def MAX_CHUNKS_def)

lemma leaf_hash_v1_ok:
  "artifact_chunk_leaf_hash E index chunk = Inr h \<longleftrightarrow>
     unat index < 96 \<and> chunk \<noteq> [] \<and> length chunk \<le> 16384 \<and> h = sha256 E (leaf_material index chunk)"
  by (auto simp: artifact_chunk_leaf_hash_def hashv_def leaf_material_def Let_def not_le)

lemma empty_hash_v1_ok:
  "artifact_chunk_empty_hash E i = Inr h \<longleftrightarrow> unat i < 128 \<and> h = sha256 E (empty_material i)"
  by (auto simp: artifact_chunk_empty_hash_def hashv_def empty_material_def
      MAX_PADDED_ARTIFACT_CHUNKS_V1_def)

lemma unat_small: "i \<le> 128 \<Longrightarrow> unat (of_nat i :: u32) = i"
  by (simp add: unat_of_nat)

lemma of_nat_small_nonzero: "0 < i \<Longrightarrow> i \<le> 128 \<Longrightarrow> (of_nat i :: u32) \<noteq> 0"
proof
  assume i: "0 < i" "i \<le> 128" and "(of_nat i :: u32) = 0"
  then have "unat (of_nat i :: u32) = unat (0 :: u32)" by (rule_tac arg_cong)
  with i show False by (simp add: unat_small)
qed

lemma empty_hash_ok: "i < 128 \<Longrightarrow> empty_hash E i = Inr (sha256 E (empty_material (of_nat i)))"
  by (simp add: empty_hash_def result_simps empty_hash_v1_ok unat_small)

text \<open>Every artifact within the V3 bound has at most 128 chunks and a tree of depth at most 7.\<close>

lemma count_bound: "n \<le> 2097152 \<Longrightarrow> div_ceil n 16384 \<le> 128"
  by (simp add: div_ceil_le_iff)

lemma padded_bound: "n \<le> 2097152 \<Longrightarrow> next_power_of_two (div_ceil n 16384) \<le> 128"
  using next_power_of_two_le [of "div_ceil n 16384" 7] count_bound [of n] by simp

lemma padded_depth:
  assumes "n \<le> 2097152"
  obtains d where "d \<le> 7" "next_power_of_two (div_ceil n 16384) = 2 ^ d"
proof -
  obtain d where d: "next_power_of_two (div_ceil n 16384) = 2 ^ d"
    using next_power_of_two_power by blast
  have "(2::nat) ^ d \<le> 2 ^ 7" using padded_bound [OF assms] d by simp
  then have "d \<le> 7" by (rule power_le_imp_le_exp [rotated]) simp
  then show ?thesis using that d by blast
qed

lemma chunk_count_ok:
  "chunk_count len = Inr c \<longleftrightarrow> 0 < unat len \<and> unat len \<le> 2097152 \<and> c = of_nat (div_ceil (unat len) 16384)"
  by (auto simp: chunk_count_def result_simps word_le_nat_alt word_less_nat_alt)

lemma chunk_count_unat: "chunk_count len = Inr c \<Longrightarrow> unat c = div_ceil (unat len) 16384"
  using count_bound [of "unat len"] by (auto simp: chunk_count_ok unat_small)

lemma length_leaf_level [simp]:
  "length (leaf_level E artifact) = next_power_of_two (div_ceil (length artifact) 16384)"
  using next_power_of_two_ge [of "div_ceil (length artifact) 16384"] by (simp add: leaf_level_def Let_def)

lemma leaf_level_nth:
  "i < next_power_of_two (div_ceil (length artifact) 16384) \<Longrightarrow> leaf_level E artifact ! i =
     sha256 E (if i < div_ceil (length artifact) 16384 then leaf_material (of_nat i) (chunk_at artifact i)
               else empty_material (of_nat i))"
  by (auto simp: leaf_level_def Let_def nth_append)

lemma enumerate_chunks:
  "enumerate 0 (chunks 16384 artifact) =
     map (\<lambda>i. (i, chunk_at artifact i)) [0..<div_ceil (length artifact) 16384]"
  by (rule nth_equalityI)
    (simp_all add: length_enumerate nth_enumerate_eq length_chunks nth_chunks chunk_at_def)

lemma chunk_at_bounds:
  "i < div_ceil (length artifact) 16384 \<Longrightarrow> chunk_at artifact i \<noteq> [] \<and> length (chunk_at artifact i) \<le> 16384"
  by (auto simp: chunk_at_def less_div_ceil_iff)

lemma length_chunk_at: "length (chunk_at artifact i) = min (length artifact - i * 16384) 16384"
  by (simp add: chunk_at_def min.commute)

lemma try_map_map: "try_map f (map g xs) = try_map (\<lambda>x. f (g x)) xs"
  by (induction xs) auto

lemma leaves_eq:
  assumes "0 < length artifact" "length artifact \<le> 2097152"
  shows "leaves E artifact = Inr (leaf_level E artifact)"
proof -
  let ?n = "div_ceil (length artifact) 16384"
  have n: "?n \<le> 128" "next_power_of_two ?n \<le> 128"
    using count_bound padded_bound assms by auto
  have len: "unat (of_nat (length artifact) :: u64) = length artifact"
    using assms by (simp add: unat_of_nat)
  have "try_map (\<lambda>(i, chunk). leaf_hash E (of_nat i) chunk) (enumerate 0 (chunks 16384 artifact))
      = Inr (map (\<lambda>i. sha256 E (leaf_material (of_nat i) (chunk_at artifact i))) [0..<?n])"
    unfolding enumerate_chunks try_map_map
    using n chunk_at_bounds by (intro try_map_ok) (auto simp: leaf_hash_ok unat_small)
  moreover have "try_map (empty_hash E) [?n..<next_power_of_two ?n]
      = Inr (map (\<lambda>i. sha256 E (empty_material (of_nat i))) [?n..<next_power_of_two ?n])"
    using n by (intro try_map_ok) (auto simp: empty_hash_ok)
  moreover have "chunk_count (of_nat (length artifact)) = Inr (of_nat ?n)"
    using assms by (simp add: chunk_count_ok len)
  ultimately show ?thesis
    using n by (simp add: leaves_def unat_small leaf_level_def Let_def)
qed

lemma leaves_v1_eq:
  assumes "0 < length artifact" "length artifact \<le> 1572864"
  shows "artifact_leaves_v1 E artifact (div_ceil (length artifact) 16384) RELEASE1_ARTIFACT_CHUNK_SIZE_V1
    = Inr (leaf_level E artifact)"
proof -
  let ?n = "div_ceil (length artifact) 16384"
  have n: "?n \<le> 96" "next_power_of_two ?n \<le> 128"
    using assms padded_bound by (auto simp: div_ceil_le_iff)
  have "try_map (\<lambda>(i, chunk). artifact_chunk_leaf_hash E (of_nat i) chunk) (enumerate 0 (chunks 16384 artifact))
      = Inr (map (\<lambda>i. sha256 E (leaf_material (of_nat i) (chunk_at artifact i))) [0..<?n])"
    unfolding enumerate_chunks try_map_map
    using n chunk_at_bounds by (intro try_map_ok) (auto simp: leaf_hash_v1_ok unat_small)
  moreover have "try_map (\<lambda>i. artifact_chunk_empty_hash E (of_nat i)) [?n..<next_power_of_two ?n]
      = Inr (map (\<lambda>i. sha256 E (empty_material (of_nat i))) [?n..<next_power_of_two ?n])"
    using n by (intro try_map_ok) (auto simp: empty_hash_v1_ok unat_small)
  ultimately show ?thesis
    by (simp add: artifact_leaves_v1_def leaf_level_def Let_def)
qed

section \<open>Padding siblings\<close>

lemma subtree_nth: "i < 2 ^ k \<Longrightarrow> (j + 1) * 2 ^ k \<le> length xs \<Longrightarrow> subtree k j xs ! i = xs ! (j * 2 ^ k + i)"
  by (simp add: subtree_def)

lemma length_subtree: "(j + 1) * 2 ^ k \<le> length xs \<Longrightarrow> length (subtree k j xs) = 2 ^ k"
  by (simp add: subtree_def)

lemma empties_subtree:
  assumes "div_ceil (length artifact) 16384 \<le> j * 2 ^ k"
    and "(j + 1) * 2 ^ k \<le> next_power_of_two (div_ceil (length artifact) 16384)"
  shows "map (\<lambda>i. sha256 E (empty_material (of_nat i))) [j * 2 ^ k..<j * 2 ^ k + 2 ^ k]
    = subtree k j (leaf_level E artifact)"
  using assms by (intro nth_equalityI) (auto simp: subtree_nth length_subtree leaf_level_nth)

lemma padding_hash_subtree:
  assumes "length artifact \<le> 2097152" "div_ceil (length artifact) 16384 \<le> j * 2 ^ k"
    and "(j + 1) * 2 ^ k \<le> next_power_of_two (div_ceil (length artifact) 16384)"
  shows "padding_hash E (j * 2 ^ k) (2 ^ k)
    = Inr (tree_root (artifact_chunk_node_hash E) k (subtree k j (leaf_level E artifact)))"
proof -
  have "j * 2 ^ k + 2 ^ k \<le> 128" using assms(3) padded_bound [OF assms(1)] by simp
  then have "try_map (empty_hash E) [j * 2 ^ k..<j * 2 ^ k + 2 ^ k] = Inr (subtree k j (leaf_level E artifact))"
    unfolding empties_subtree [OF assms(2,3), symmetric] by (intro try_map_ok) (auto simp: empty_hash_ok)
  with \<open>j * 2 ^ k + 2 ^ k \<le> 128\<close> show ?thesis
    using reduce_root [OF length_subtree, of j k "leaf_level E artifact" E] assms(3)
    by (simp add: padding_hash_def MAX_CHUNKS_def)
qed

section \<open>The verifier as guards and a walk\<close>

definition sibling_ok :: "env \<Rightarrow> nat \<Rightarrow> nat \<Rightarrow> nat \<Rightarrow> nat \<Rightarrow> hash32 \<Rightarrow> bool" where
  "sibling_ok E count padded level node s \<longleftrightarrow>
     sibling_of node * 2 ^ level + 2 ^ level \<le> padded \<and>
     (count \<le> sibling_of node * 2 ^ level \<longrightarrow> padding_hash E (sibling_of node * 2 ^ level) (2 ^ level) = Inr s)"

lemma verify_path_step:
  "verify_path E count padded level node current (s # sibs) = Inr h \<longleftrightarrow>
     sibling_ok E count padded level node s \<and>
     verify_path E count padded (Suc level) (node div 2)
       (if even node then artifact_chunk_node_hash E current s else artifact_chunk_node_hash E s current) sibs = Inr h"
  by (auto simp: Let_def result_simps sibling_ok_def)

lemma verify_path_ok:
  "verify_path E count padded level node current sibs = Inr h \<longleftrightarrow>
     (\<forall>k < length sibs. sibling_ok E count padded (level + k) (node div 2 ^ k) (sibs ! k)) \<and>
     h = climb (artifact_chunk_node_hash E) current node sibs"
proof (induction sibs arbitrary: level node current)
  case (Cons s sibs)
  show ?case
    by (simp add: verify_path_step Cons.IH All_less_Suc2 div_mult2_eq del: verify_path.simps)
qed auto

lemma verify_chunk_ok:
  "verify_chunk E root len index chunk sibs = Inr () \<longleftrightarrow>
     0 < unat len \<and> unat len \<le> 2097152 \<and> unat index < div_ceil (unat len) 16384 \<and>
     length chunk = min (unat len - unat index * 16384) 16384 \<and>
     next_power_of_two (div_ceil (unat len) 16384) = 2 ^ length sibs \<and>
     (\<forall>k < length sibs. sibling_ok E (div_ceil (unat len) 16384) (2 ^ length sibs) k
        (unat index div 2 ^ k) (sibs ! k)) \<and>
     root = climb (artifact_chunk_node_hash E) (sha256 E (leaf_material index chunk)) (unat index) sibs"
  (is "?lhs \<longleftrightarrow> ?rhs")
proof (cases "0 < unat len \<and> unat len \<le> 2097152")
  case True
  then obtain d where d: "d \<le> 7" "next_power_of_two (div_ceil (unat len) 16384) = 2 ^ d"
    using padded_depth by blast
  have n: "div_ceil (unat len) 16384 \<le> 128" using True count_bound by blast
  have c: "chunk_count len = Inr (of_nat (div_ceil (unat len) 16384))"
    using True by (simp add: chunk_count_ok)
  show ?thesis
    using True n d
    by (auto simp: verify_chunk_def c unat_small result_simps Let_def verify_path_ok leaf_hash_ok
        MAX_PROOF_DEPTH_def less_div_ceil_iff)
next
  case False
  then show ?thesis by (auto simp: verify_chunk_def result_simps chunk_count_ok)
qed

section \<open>Roots and proofs of an artifact\<close>

lemma merkle_root_ok:
  assumes "0 < length artifact" "length artifact \<le> 2097152"
    and "next_power_of_two (div_ceil (length artifact) 16384) = 2 ^ d"
  shows "merkle_root E artifact = Inr (tree_root (artifact_chunk_node_hash E) d (leaf_level E artifact))"
  using assms by (simp add: merkle_root_def leaves_eq reduce_root)

lemma merkle_proof_ok:
  assumes "0 < length artifact" "length artifact \<le> 2097152"
    and "next_power_of_two (div_ceil (length artifact) 16384) = 2 ^ d"
    and "unat index < div_ceil (length artifact) 16384"
  shows "merkle_proof E artifact index
    = Inr (path (artifact_chunk_node_hash E) d (leaf_level E artifact) (unat index))"
proof -
  have "unat (of_nat (length artifact) :: u64) = length artifact"
    using assms(2) by (simp add: unat_of_nat)
  then have c: "chunk_count (of_nat (length artifact)) = Inr (of_nat (div_ceil (length artifact) 16384))"
    using assms(1,2) by (simp add: chunk_count_ok)
  show ?thesis
    using assms chunk_count_unat [OF c] \<open>unat (of_nat (length artifact)) = length artifact\<close>
    by (simp add: merkle_proof_def leaves_eq c proof_loop_path)
qed

text \<open>The siblings on the path of a real leaf pass the verifier's geometry and padding guards.\<close>

lemma power_split: "k < d \<Longrightarrow> (2::nat) ^ d = 2 * 2 ^ (d - Suc k) * 2 ^ k"
proof -
  assume "k < d"
  then have "d = Suc (d - Suc k) + k" by simp
  then show ?thesis by (metis power_Suc power_add)
qed

lemma path_sibling_ok:
  assumes "length artifact \<le> 2097152" "next_power_of_two (div_ceil (length artifact) 16384) = 2 ^ d"
    and "i < 2 ^ d" "k < d"
  shows "sibling_ok E (div_ceil (length artifact) 16384) (2 ^ d) k (i div 2 ^ k)
    (path (artifact_chunk_node_hash E) d (leaf_level E artifact) i ! k)"
proof -
  let ?j = "sibling_of (i div 2 ^ k)"
  note p = power_split [OF assms(4)]
  have "i div 2 ^ k < 2 * 2 ^ (d - Suc k)"
    using assms(3) p by (simp add: div_less_iff_less_mult)
  then have "?j < 2 * 2 ^ (d - Suc k)" by (rule sibling_bound)
  then have "(?j + 1) * 2 ^ k \<le> 2 * 2 ^ (d - Suc k) * 2 ^ k"
    by (intro mult_le_mono1) simp
  then have fits: "(?j + 1) * 2 ^ k \<le> 2 ^ d" using p by simp
  then have "path (artifact_chunk_node_hash E) d (leaf_level E artifact) i ! k
      = tree_root (artifact_chunk_node_hash E) k (subtree k ?j (leaf_level E artifact))"
    using assms(2,4) by (simp add: path_nth level_nth_subtree)
  with fits show ?thesis
    using assms(1,2) padding_hash_subtree [of artifact ?j k E] by (auto simp: sibling_ok_def)
qed

lemma chunk_count_le_padded: "div_ceil n 16384 \<le> next_power_of_two (div_ceil n 16384)"
  by (rule next_power_of_two_ge)

lemma leaf_level_real:
  "i < div_ceil (length artifact) 16384 \<Longrightarrow>
     leaf_level E artifact ! i = sha256 E (leaf_material (of_nat i) (chunk_at artifact i))"
  using leaf_level_nth [of i artifact E] chunk_count_le_padded [of "length artifact"] by simp

section \<open>Completeness and soundness\<close>

text \<open>C37: For every artifact of 1 byte to 2 MiB and every chunk of it, the off-chain root and proof
  are produced, and the on-chain verifier accepts that proof against that root.\<close>

theorem merkle_proof_verifies:
  assumes "0 < length artifact" and "length artifact \<le> 2097152"
    and "unat index < div_ceil (length artifact) 16384"
  shows "\<exists>root sibs. merkle_root E artifact = Inr root \<and> merkle_proof E artifact index = Inr sibs \<and>
    verify_chunk E root (of_nat (length artifact)) index (chunk_at artifact (unat index)) sibs = Inr ()"
proof -
  obtain d where d: "next_power_of_two (div_ceil (length artifact) 16384) = 2 ^ d"
    using next_power_of_two_power by blast
  let ?node = "artifact_chunk_node_hash E" and ?L = "leaf_level E artifact"
  let ?sibs = "path ?node d ?L (unat index)"
  have i: "unat index < 2 ^ d"
    using assms(3) chunk_count_le_padded [of "length artifact"] d by linarith
  have len: "unat (of_nat (length artifact) :: u64) = length artifact"
    using assms(2) by (simp add: unat_of_nat)
  have leaf: "sha256 E (leaf_material index (chunk_at artifact (unat index))) = ?L ! unat index"
    using assms(3) by (simp add: leaf_level_real)
  have "verify_chunk E (tree_root ?node d ?L) (of_nat (length artifact)) index
      (chunk_at artifact (unat index)) ?sibs = Inr ()"
    using assms d i
    by (auto simp: verify_chunk_ok len leaf climb_path path_sibling_ok length_chunk_at)
  with merkle_root_ok [OF assms(1,2) d] merkle_proof_ok [OF assms(1,2) d assms(3)]
  show ?thesis by blast
qed

text \<open>The byte strings hashed by the tree of an artifact and by one verification.\<close>

definition hashed_strings :: "env \<Rightarrow> byte list \<Rightarrow> u32 \<Rightarrow> byte list \<Rightarrow> hash32 list \<Rightarrow> byte list list" where
  "hashed_strings E artifact index chunk sibs =
     leaf_material index chunk # leaf_material index (chunk_at artifact (unat index)) #
     map node_material
       (tree_pairs (artifact_chunk_node_hash E) (length sibs) (leaf_level E artifact) @
        walk_pairs (artifact_chunk_node_hash E) (sha256 E (leaf_material index chunk)) (unat index) sibs)"

lemma node_material_inject: "node_material p = node_material q \<longleftrightarrow> p = q"
  using key_codec.encode_inject by (auto simp: node_material_def prod_eq_iff)

lemma leaf_material_inject:
  "length c < 2 ^ 32 \<Longrightarrow> length c' < 2 ^ 32 \<Longrightarrow> leaf_material i c = leaf_material i c' \<longleftrightarrow> c = c'"
  by (auto simp: leaf_material_def)

lemma node_inj_on:
  assumes "inj_on f (node_material ` P)"
  shows "inj_on (\<lambda>p. f (node_material p)) P"
  using assms by (auto simp: inj_on_def node_material_inject)

text \<open>A chunk the verifier accepts against the root of an artifact of the same length is that
  artifact's chunk at that index, provided SHA-256 has no collision among the strings hashed for the
  tree and for this verification.\<close>

lemma verified_chunk_committed:
  assumes "merkle_root E artifact = Inr root" and "length artifact \<le> 2097152"
    and "verify_chunk E root (of_nat (length artifact)) index chunk sibs = Inr ()"
    and "inj_on (sha256 E) (set (hashed_strings E artifact index chunk sibs))"
  shows "chunk = chunk_at artifact (unat index)"
proof -
  let ?node = "artifact_chunk_node_hash E" and ?L = "leaf_level E artifact"
  have len: "unat (of_nat (length artifact) :: u64) = length artifact"
    using assms(2) by (simp add: unat_of_nat)
  note ok = assms(3) [unfolded verify_chunk_ok len]
  then have pos: "0 < length artifact" and i: "unat index < div_ceil (length artifact) 16384"
    and d: "next_power_of_two (div_ceil (length artifact) 16384) = 2 ^ length sibs"
    and root: "root = climb ?node (sha256 E (leaf_material index chunk)) (unat index) sibs"
    by auto
  have "inj_on (\<lambda>p. sha256 E (node_material p))
      (set (tree_pairs ?node (length sibs) ?L) \<union>
       set (walk_pairs ?node (sha256 E (leaf_material index chunk)) (unat index) sibs))"
    by (rule node_inj_on, rule inj_on_subset [OF assms(4)]) (auto simp: hashed_strings_def)
  then have inj: "inj_on (\<lambda>(l, r). ?node l r)
      (set (tree_pairs ?node (length sibs) ?L) \<union>
       set (walk_pairs ?node (sha256 E (leaf_material index chunk)) (unat index) sibs))"
    by (simp add: node_hash_material case_prod_unfold)
  have "root = tree_root ?node (length sibs) ?L"
    using assms(1) merkle_root_ok [OF pos assms(2) d, of E] by simp
  with root have "climb ?node (sha256 E (leaf_material index chunk)) (unat index) sibs
      = tree_root ?node (length sibs) ?L"
    by metis
  moreover have "unat index < 2 ^ length sibs"
    using i chunk_count_le_padded [of "length artifact"] d by linarith
  ultimately have "sha256 E (leaf_material index chunk) = ?L ! unat index"
    using climb_sound [OF _ _ _ inj] d by simp
  then have "sha256 E (leaf_material index chunk) = sha256 E (leaf_material index (chunk_at artifact (unat index)))"
    using i by (simp add: leaf_level_real)
  then have "leaf_material index chunk = leaf_material index (chunk_at artifact (unat index))"
    by (rule inj_onD [OF assms(4)]) (simp_all add: hashed_strings_def)
  moreover have "length chunk \<le> 16384" "length (chunk_at artifact (unat index)) \<le> 16384"
    using ok by (auto simp: chunk_at_def)
  ultimately show ?thesis by (simp add: leaf_material_inject)
qed

lemma chunks_determine:
  assumes "length xs = length ys" "\<forall>i < div_ceil (length ys) 16384. chunk_at xs i = chunk_at ys i"
  shows "xs = ys"
proof -
  have "chunks 16384 xs = chunks 16384 ys"
  proof (rule nth_equalityI)
    show len: "length (chunks 16384 xs) = length (chunks 16384 ys)"
      using assms(1) by (simp add: length_chunks)
    fix i assume i: "i < length (chunks 16384 xs)"
    then have i': "i < length (chunks 16384 ys)" using len by simp
    then have same: "chunk_at xs i = chunk_at ys i"
      by (intro assms(2) [rule_format]) (simp add: length_chunks)
    have "chunks 16384 xs ! i = chunk_at xs i"
      unfolding chunk_at_def by (rule nth_chunks [OF _ i]) simp
    also note same
    also have "chunk_at ys i = chunks 16384 ys ! i"
      unfolding chunk_at_def by (rule nth_chunks [OF _ i', symmetric]) simp
    finally show "chunks 16384 xs ! i = chunks 16384 ys ! i" .
  qed
  then show ?thesis
    by (metis concat_chunks zero_less_numeral)
qed

text \<open>C5: If every chunk of a buffer payload passes the on-chain verifier against the
  approved root and length, the payload is the artifact with that root, byte for byte, provided
  SHA-256 has no collision among the strings hashed for its tree and these verifications.\<close>

theorem verified_payload_is_artifact:
  assumes "merkle_root E artifact = Inr root" and "length artifact \<le> 2097152"
    and "length payload = length artifact"
    and "\<forall>i < div_ceil (length artifact) 16384. \<exists>sibs.
      verify_chunk E root (of_nat (length artifact)) (of_nat i) (chunk_at payload i) sibs = Inr () \<and>
      inj_on (sha256 E) (set (hashed_strings E artifact (of_nat i) (chunk_at payload i) sibs))"
  shows "payload = artifact"
proof (rule chunks_determine [OF assms(3)], intro allI impI)
  fix i assume i: "i < div_ceil (length artifact) 16384"
  then have small: "unat (of_nat i :: u32) = i"
    using count_bound [OF assms(2)] by (simp add: unat_small)
  from i assms(4) obtain sibs where sibs:
    "verify_chunk E root (of_nat (length artifact)) (of_nat i) (chunk_at payload i) sibs = Inr ()"
    "inj_on (sha256 E) (set (hashed_strings E artifact (of_nat i) (chunk_at payload i) sibs))"
    by blast
  show "chunk_at payload i = chunk_at artifact i"
    using verified_chunk_committed [OF assms(1,2) sibs] by (simp add: small)
qed

section \<open>Agreement with Release 1\<close>

lemma artifact_chunk_count_ok:
  "artifact_chunk_count len RELEASE1_ARTIFACT_CHUNK_SIZE_V1 = Inr c \<longleftrightarrow>
     0 < unat len \<and> unat len \<le> 1572864 \<and> c = of_nat (div_ceil (unat len) 16384)"
proof (cases "0 < unat len \<and> unat len \<le> 1572864")
  case True
  have cs: "ucast RELEASE1_ARTIFACT_CHUNK_SIZE_V1 = (16384 :: u64)"
    by (simp add: RELEASE1_ARTIFACT_CHUNK_SIZE_V1_def ARTIFACT_CHUNK_SIZE_16_KIB_def)
  have sum: "unat (len + 16383) = unat len + 16383"
    using True by (simp add: unat_word_ariths)
  then have "checked_add len 16383 = Some (len + 16383)"
    by (simp add: checked_add_Some_iff)
  moreover have q: "unat ((len + 16383) div 16384) = div_ceil (unat len) 16384"
    by (simp add: unat_div sum div_ceil_def)
  moreover have n: "div_ceil (unat len) 16384 \<le> 96" "0 < div_ceil (unat len) 16384"
    using True by (auto simp: div_ceil_le_iff div_ceil_pos)
  moreover have "ucast ((len + 16383) div 16384) = (of_nat (div_ceil (unat len) 16384) :: u32)"
    using q by (metis of_nat_unat)
  moreover have "(of_nat (div_ceil (unat len) 16384) :: u32) \<noteq> 0"
    using of_nat_small_nonzero n by simp
  moreover have "len \<noteq> 0" "len \<le> MAX_ARTIFACT_BYTES_V1"
    using True by (auto simp: MAX_ARTIFACT_BYTES_V1_def word_le_nat_alt)
  ultimately show ?thesis
    using True
    by (auto simp: artifact_chunk_count_def is_release1_chunk_size_def cs Let_def unat_small)
next
  case False
  then have "len = 0 \<or> len > MAX_ARTIFACT_BYTES_V1"
    by (auto simp: MAX_ARTIFACT_BYTES_V1_def word_less_nat_alt unat_eq_zero)
  with False show ?thesis by (auto simp: artifact_chunk_count_def)
qed

lemma padding_hash_agrees:
  "artifact_padding_subtree_hash E start (2 ^ k) = Inr h \<longleftrightarrow> padding_hash E start (2 ^ k) = Inr h"
proof (cases "start + 2 ^ k \<le> 128")
  case True
  let ?level = "map (\<lambda>i. sha256 E (empty_material (of_nat i))) [start..<start + 2 ^ k]"
  have v3: "try_map (empty_hash E) [start..<start + 2 ^ k] = Inr ?level"
    using True by (intro try_map_ok) (auto simp: empty_hash_ok)
  have v1: "try_map (\<lambda>index. map_err (\<lambda>_. InvalidMerkleProof) (artifact_chunk_empty_hash E (of_nat index)))
      [start..<start + 2 ^ k] = Inr ?level"
    using True by (intro try_map_ok) (auto simp: result_simps empty_hash_v1_ok unat_small)
  have len: "length ?level = 2 ^ k" by simp
  show ?thesis
    using True
    by (simp add: artifact_padding_subtree_hash_def padding_hash_def v1 v3 reduce_tree_root [OF len]
        reduce_root [OF len] checked_usize_def MAX_PADDED_ARTIFACT_CHUNKS_V1_def MAX_CHUNKS_def bnd_require)
next
  case False
  then show ?thesis
    by (auto simp: artifact_padding_subtree_hash_def padding_hash_def result_simps
        MAX_PADDED_ARTIFACT_CHUNKS_V1_def MAX_CHUNKS_def split: if_splits)
qed

lemma sibling_agrees:
  assumes "level < 7" "padded \<le> 128"
  shows "validate_canonical_padding_sibling E s node level count padded = Inr () \<longleftrightarrow>
    sibling_ok E count padded level node s"
proof (cases "sibling_of node * 2 ^ level + 2 ^ level \<le> padded")
  case True
  with assms have small: "sibling_of node * 2 ^ level + 2 ^ level \<le> 128" by linarith
  then have "sibling_of node * 2 ^ level + 2 ^ level < 2 ^ 64" "sibling_of node * 2 ^ level < 2 ^ 64"
    by auto
  with True assms(1) show ?thesis
    by (auto simp: validate_canonical_padding_sibling_def sibling_ok_def Let_def result_simps
        padding_hash_agrees checked_usize_def MAX_ARTIFACT_PROOF_DEPTH_V1_def split: if_splits)
next
  case False
  then show ?thesis
    by (auto simp: validate_canonical_padding_sibling_def sibling_ok_def Let_def result_simps
        split: if_splits)
qed

lemma verify_path_v1_step:
  "verify_path_v1 E count padded level node current (s # sibs) = Inr h \<longleftrightarrow>
     validate_canonical_padding_sibling E s node level count padded = Inr () \<and>
     verify_path_v1 E count padded (Suc level) (node div 2)
       (if even node then artifact_chunk_node_hash E current s else artifact_chunk_node_hash E s current) sibs = Inr h"
  by (auto simp: result_simps)

lemma verify_path_agrees:
  "padded \<le> 128 \<Longrightarrow> level + length sibs \<le> 7 \<Longrightarrow>
     verify_path_v1 E count padded level node current sibs = Inr h \<longleftrightarrow>
     verify_path E count padded level node current sibs = Inr h"
proof (induction sibs arbitrary: level node current)
  case (Cons s sibs)
  then show ?case
    by (simp add: verify_path_step verify_path_v1_step sibling_agrees
        del: verify_path.simps verify_path_v1.simps)
qed simp

text \<open>Below the Release 1 bound of 96 chunks the V3 verifier gives the verdict of the
  Release 1 verifier, for every root, index, chunk and proof.\<close>

theorem v3_verifier_agrees_with_release1:
  assumes "unat len \<le> 1572864"
  shows "verify_artifact_chunk_proof E root len RELEASE1_ARTIFACT_CHUNK_SIZE_V1 index chunk sibs = Inr () \<longleftrightarrow>
      verify_chunk E root len index chunk sibs = Inr ()"
proof -
  let ?n = "div_ceil (unat len) 16384"
  show "verify_artifact_chunk_proof E root len RELEASE1_ARTIFACT_CHUNK_SIZE_V1 index chunk sibs = Inr () \<longleftrightarrow>
      verify_chunk E root len index chunk sibs = Inr ()"
  proof (cases "0 < unat len \<and> unat index < ?n")
    case True
    have n: "?n \<le> 96" using assms by (simp add: div_ceil_le_iff)
    obtain d where d: "d \<le> 7" "next_power_of_two ?n = 2 ^ d"
      using padded_depth [of "unat len"] assms by auto
    have p: "(2::nat) ^ d \<le> 128" using padded_bound [of "unat len"] assms d by simp
    have c1: "artifact_chunk_count len RELEASE1_ARTIFACT_CHUNK_SIZE_V1 = Inr (of_nat ?n)"
      and c3: "chunk_count len = Inr (of_nat ?n)"
      using True assms by (auto simp: artifact_chunk_count_ok chunk_count_ok)
    have start: "unat index * 16384 < unat len" "unat index * 16384 < 2 ^ 64"
      using True assms by (auto simp: less_div_ceil_iff)
    have i: "unat index < 96" using True n by simp
    show ?thesis
      using True n d p start i
      by (auto simp: verify_artifact_chunk_proof_def verify_chunk_def c1 c3 unat_small Let_def
          result_simps checked_usize_def MAX_ARTIFACT_PROOF_DEPTH_V1_def MAX_PROOF_DEPTH_def
          leaf_hash_ok leaf_hash_v1_ok verify_path_agrees split: if_splits)
  next
    case False
    have "\<not> (\<exists>c. artifact_chunk_count len RELEASE1_ARTIFACT_CHUNK_SIZE_V1 = Inr c \<and> unat index < unat c)"
      using False assms count_bound [of "unat len"]
      by (auto simp: artifact_chunk_count_ok unat_small)
    then have "verify_artifact_chunk_proof E root len RELEASE1_ARTIFACT_CHUNK_SIZE_V1 index chunk sibs \<noteq> Inr ()"
      by (auto simp: verify_artifact_chunk_proof_def result_simps split: if_splits)
    with False show ?thesis by (auto simp: verify_chunk_ok)
  qed
qed

text \<open>Below the Release 1 bound every artifact has the same root in both modules.\<close>

theorem v3_root_agrees_with_release1:
  assumes "length artifact \<le> 1572864"
  shows "artifact_merkle_root E artifact RELEASE1_ARTIFACT_CHUNK_SIZE_V1 = Inr root \<longleftrightarrow>
      merkle_root E artifact = Inr root"
proof -
  define len :: u64 where "len = of_nat (length artifact)"
  have a: "length artifact = unat len" using assms by (simp add: len_def unat_of_nat)
  then have roundtrip: "(of_nat (length artifact) :: u64) = len" by simp
  let ?n = "div_ceil (unat len) 16384"
  have "length artifact < 2 ^ 64" using a assms by simp
  show "artifact_merkle_root E artifact RELEASE1_ARTIFACT_CHUNK_SIZE_V1 = Inr root \<longleftrightarrow>
      merkle_root E artifact = Inr root"
  proof (cases "0 < unat len")
    case True
    obtain d where d: "next_power_of_two ?n = 2 ^ d"
      using next_power_of_two_power by blast
    have n: "?n \<le> 128" using assms a count_bound [of "unat len"] by simp
    have c1: "artifact_chunk_count len RELEASE1_ARTIFACT_CHUNK_SIZE_V1 = Inr (of_nat ?n)"
      using True assms a by (auto simp: artifact_chunk_count_ok)
    show ?thesis
      using True a assms d n \<open>length artifact < 2 ^ 64\<close> leaves_v1_eq [of artifact E]
      by (simp add: artifact_merkle_root_def merkle_root_def roundtrip c1 leaves_eq unat_small
          reduce_tree_root reduce_root)
  next
    case False
    then have "len = 0" by (simp add: unat_eq_zero)
    then show ?thesis
      using a by (auto simp: artifact_merkle_root_def merkle_root_def leaves_def artifact_chunk_count_def
          chunk_count_def result_simps)
  qed
qed

section \<open>Witnesses\<close>

lemma one_chunk: "next_power_of_two (div_ceil (length [7 :: byte]) 16384) = 2 ^ 0"
  by (simp add: div_ceil_def next_power_of_two_def next_power_from.simps)

theorem merkle_proof_verifies_witness:
  "\<exists>root sibs. merkle_root sample_env (replicate 16384 0 @ [7]) = Inr root \<and>
    merkle_proof sample_env (replicate 16384 0 @ [7]) 1 = Inr sibs \<and>
    verify_chunk sample_env root (of_nat (length (replicate 16384 0 @ [7 :: byte]))) 1
      (chunk_at (replicate 16384 0 @ [7]) (unat (1 :: u32))) sibs = Inr ()"
  by (rule merkle_proof_verifies) (simp_all add: div_ceil_def)

theorem verified_payload_is_artifact_witness: "[7] = [7 :: byte]"
proof (rule verified_payload_is_artifact [of sample_env "[7]" _ "[7]"])
  let ?root = "tree_root (artifact_chunk_node_hash sample_env) 0 (leaf_level sample_env [7])"
  show "merkle_root sample_env [7] = Inr ?root"
    by (rule merkle_root_ok [OF _ _ one_chunk]) simp_all
  have leaf: "leaf_level sample_env [7] ! 0 = sha256 sample_env (leaf_material (of_nat 0) (chunk_at [7] 0))"
    by (rule leaf_level_real) (simp add: div_ceil_def)
  have "verify_chunk sample_env ?root 1 0 (chunk_at [7] 0) [] = Inr ()"
    using one_chunk leaf hd_conv_nth [of "leaf_level sample_env [7]"] length_leaf_level [of sample_env "[7]"]
    by (simp add: verify_chunk_ok chunk_at_def div_ceil_def tree_root_0 flip: length_0_conv)
  moreover have "inj_on (sha256 sample_env) (set (hashed_strings sample_env [7] 0 (chunk_at [7] 0) []))"
    by (simp add: hashed_strings_def inj_on_def)
  ultimately show "\<forall>i < div_ceil (length [7 :: byte]) 16384. \<exists>sibs.
      verify_chunk sample_env ?root (of_nat (length [7 :: byte])) (of_nat i) (chunk_at [7] i) sibs = Inr () \<and>
      inj_on (sha256 sample_env) (set (hashed_strings sample_env [7] (of_nat i) (chunk_at [7] i) sibs))"
    by (auto simp: div_ceil_def intro!: exI [of _ "[]"])
qed simp_all

theorem v3_verifier_agrees_with_release1_witness:
  "verify_artifact_chunk_proof sample_env 37 5 RELEASE1_ARTIFACT_CHUNK_SIZE_V1 0 [1, 2, 3, 4, 5] [] = Inr () \<longleftrightarrow>
     verify_chunk sample_env 37 5 0 [1, 2, 3, 4, 5] [] = Inr ()"
  by (rule v3_verifier_agrees_with_release1) simp

theorem v3_root_agrees_with_release1_witness:
  "artifact_merkle_root sample_env [7] RELEASE1_ARTIFACT_CHUNK_SIZE_V1 = Inr 33 \<longleftrightarrow>
     merkle_root sample_env [7] = Inr 33"
  by (rule v3_root_agrees_with_release1) simp

end
