(* ===== verification/Council_Facts.thy ===== *)
theory Council_Facts
  imports Account_Store Samples Artifact_Facts
begin

text \<open>
  What the council handlers do: the exact condition and effect of a vote, an expiry, a policy
  execution, a creation and the bootstrap.
\<close>

section \<open>Guards as conditions\<close>

lemmas guard_ok = privileges_def readonly_def writable_def signer_def executable_at_def
  validate_exact_privileges_ok bnd_Inr_iff require_ok checks_Inr_iff

lemma clock_ok: "clock E = Inr slot \<longleftrightarrow> clock_get E = Inr slot \<and> 0 < slot"
  by (auto simp: clock_def bnd_Inr_iff require_ok)

lemma proposal_current_ok:
  "proposal_current p cfg slot = Inr u \<longleftrightarrow>
     pr_state p = PENDING \<and> slot < pr_expires p \<and> pr_council_epoch p = cf_council_epoch cfg"
  by (auto simp: proposal_current_def bnd_Inr_iff require_ok)

lemma proposal_executable_ok:
  "proposal_executable p cfg slot = Inr u \<longleftrightarrow>
     pr_state p = PENDING \<and> slot < pr_expires p \<and> pr_council_epoch p = cf_council_epoch cfg \<and>
     3 \<le> unat (pr_approval_count p) \<and> pr_not_before p \<le> slot"
  by (auto simp: proposal_executable_def bnd_Inr_iff require_ok proposal_current_ok THRESHOLD_def)

lemma seat_ok:
  "seat cfg i = Inr n \<longleftrightarrow>
     is_signer i \<and> \<not> is_writable i \<and> \<not> executable i \<and>
     position (\<lambda>key. key = ai_key i) (cf_seats cfg) = Some n"
  by (auto simp: seat_def guard_ok ok_or_Inr_iff)

lemma seat_position:
  "seat cfg i = Inr n \<Longrightarrow> wf_config cfg \<Longrightarrow> n < 5 \<and> cf_seats cfg ! n = ai_key i \<and> is_signer i"
  using position_Some [of "\<lambda>key. key = ai_key i" "cf_seats cfg" n]
  by (auto simp: seat_ok wf_config_def)

section \<open>Completeness of verification\<close>

lemma marked_bound: "wf_proposal p \<Longrightarrow> marked (verified_bitmap p) \<subseteq> {..<128}"
  by (auto simp: marked_def length_verified_bitmap)

lemma complete_ok:
  assumes "wf_proposal p"
  shows "complete p = Inr u \<longleftrightarrow>
     (\<exists>a. action_artifact (pr_action p) = Inr a \<and> 0 < unat (ar_artifact_length a) \<and>
       unat (ar_artifact_length a) \<le> 2097152 \<and>
       unat (pr_verified_count p) = div_ceil (unat (ar_artifact_length a)) 16384 \<and>
       marked (verified_bitmap p) = {..<div_ceil (unat (ar_artifact_length a)) 16384})"
proof -
  have all: "(\<forall>i \<in> set [0..<MAX_CHUNKS]. bnd (checked_nth (verified_bitmap p) (i div 8)) (\<lambda>b.
        require ((b AND shl1 (i mod 8) \<noteq> 0) = (i < n)) InvalidArtifact) = Inr ()) \<longleftrightarrow>
      marked (verified_bitmap p) = {..<n}" if "n \<le> 128" for n
    using that marked_bound [OF assms] length_verified_bitmap [OF assms]
    by (auto simp: and_shl1_iff marked_def MAX_CHUNKS_def require_ok)
  show ?thesis
  proof (cases "action_artifact (pr_action p)")
    case (Inr a)
    let ?len = "unat (ar_artifact_length a)"
    show ?thesis
    proof (cases "0 < ?len \<and> ?len \<le> 2097152")
      case True
      then have c: "chunk_count (ar_artifact_length a) = Inr (of_nat (div_ceil ?len 16384))"
        by (simp add: chunk_count_ok)
      have n: "div_ceil ?len 16384 \<le> 128" using True count_bound by blast
      have "pr_verified_count p = of_nat (div_ceil ?len 16384) \<longleftrightarrow>
          unat (pr_verified_count p) = div_ceil ?len 16384"
        using unat_small [OF n] by (metis word_unat_eq_iff)
      then show ?thesis
        using Inr True all [OF n]
        by (simp add: complete_def c bnd_Inr_iff require_ok checks_Inr_iff unat_small [OF n] Let_def)
    next
      case False
      then have "\<not> is_ok (chunk_count (ar_artifact_length a))"
        unfolding is_ok_iff by (simp add: chunk_count_ok)
      then obtain e where "chunk_count (ar_artifact_length a) = Inl e"
        by (cases "chunk_count (ar_artifact_length a)") simp_all
      then have "complete p \<noteq> Inr u" by (simp add: complete_def Inr)
      with False Inr show ?thesis by (metis Inr_inject)
    qed
  qed (simp add: complete_def)
qed

lemma upgrade_artifact_bounds:
  assumes "action_validate a = Inr ()" "is_upgrade a" "action_artifact a = Inr u"
  shows "0 < unat (ar_artifact_length u)" "unat (ar_artifact_length u) \<le> 2097152"
proof -
  have "0 < ar_artifact_length u \<and> ar_artifact_length u \<le> MAX_ARTIFACT_BYTES"
    using assms unfolding action_validate_def is_upgrade_def by (simp add: require_ok)
  then show "0 < unat (ar_artifact_length u)" "unat (ar_artifact_length u) \<le> 2097152"
    by (simp_all add: word_less_nat_alt word_le_nat_alt)
qed

text \<open>C27: For a valid upgrade proposal the completeness check passes exactly when every
  chunk of the artifact has been verified and no bit beyond them is set, across both bitmap fields.\<close>

theorem complete_iff_every_chunk:
  assumes "wf_proposal p" and "proposal_validate E p program key = Inr ()"
    and "action_artifact (pr_action p) = Inr a" and "is_upgrade (pr_action p)"
  shows "complete p = Inr () \<longleftrightarrow>
    marked (verified_bitmap p) = {..<div_ceil (unat (ar_artifact_length a)) 16384}"
proof -
  note valid = assms(2) [unfolded proposal_validate_ok]
  have "unat (pr_verified_count p) = card (marked (verified_bitmap p))"
    using valid by (simp add: proposal_fields_ok_def card_marked)
  moreover have "0 < unat (ar_artifact_length a)" "unat (ar_artifact_length a) \<le> 2097152"
    using upgrade_artifact_bounds valid assms(3,4) by blast+
  ultimately show ?thesis
    unfolding complete_ok [OF assms(1)] assms(3) by (metis Inr_inject card_lessThan)
qed

theorem complete_iff_every_chunk_witness:
  "complete (proposal_for upgrade_action) = Inr () \<longleftrightarrow>
    marked (verified_bitmap (proposal_for upgrade_action)) = {..<div_ceil (unat (ar_artifact_length sample_artifact)) 16384}"
  by (rule complete_iff_every_chunk [of _ sample_env program_key 1035]) simp_all

section \<open>Voting\<close>

lemma approve_wf: "proposal_approve p i slot cancel = Inr p' \<Longrightarrow> wf_proposal p \<Longrightarrow> wf_proposal p'"
  unfolding proposal_approve_ok by (simp add: wf_proposal_def)

text \<open>C26: The voting handler succeeds exactly when the configuration and the identified proposal
  load, the signer holds a seat, verification is complete before any approval of an upgrade, and the
  vote is admissible; it then writes the updated proposal and nothing else, and that write cannot fail.\<close>

theorem approve_exact:
  "approve E program [config_info, proposal_info, seat_info] digest cancel L = Inr M \<longleftrightarrow>
     readonly config_info = Inr () \<and> writable proposal_info = Inr () \<and>
     (\<exists>cfg p slot i p'. load_config E program config_info L = Inr cfg \<and>
       load_proposal E program proposal_info (Some digest) L = Inr p \<and> clock E = Inr slot \<and>
       pr_council_epoch p = cf_council_epoch cfg \<and> seat cfg seat_info = Inr i \<and>
       (\<not> cancel \<and> is_upgrade (pr_action p) \<longrightarrow> complete p = Inr ()) \<and>
       proposal_approve p i slot cancel = Inr p' \<and> M = set_data proposal_info (ser_proposal p') L)"
  (is "_ \<longleftrightarrow> ?rhs")
proof -
  have save: "save_proposal E program proposal_info p' L = Inr M \<longleftrightarrow> M = set_data proposal_info (ser_proposal p') L"
    if load: "load_proposal E program proposal_info (Some digest) L = Inr p"
      and vote: "proposal_approve p i slot cancel = Inr p'" for p p' i slot
  proof -
    note p = load [unfolded load_proposal_ok]
    have "wf_proposal p'"
      using p vote approve_wf by blast
    moreover have "proposal_validate E p' program (ai_key proposal_info) = Inr ()"
      using p vote approve_valid by blast
    ultimately show ?thesis
      using proposal_store.save_loaded [OF load_proposal_any [OF load]] by auto
  qed
  show ?thesis
  proof
    assume "approve E program [config_info, proposal_info, seat_info] digest cancel L = Inr M"
    then obtain cfg p slot i p' where step: "readonly config_info = Inr ()" "writable proposal_info = Inr ()"
      "load_config E program config_info L = Inr cfg"
      "load_proposal E program proposal_info (Some digest) L = Inr p" "clock E = Inr slot"
      "proposal_current p cfg slot = Inr ()" "seat cfg seat_info = Inr i"
      "(if \<not> cancel \<and> is_upgrade (pr_action p) then complete p else Inr ()) = Inr ()"
      "proposal_approve p i slot cancel = Inr p'" "save_proposal E program proposal_info p' L = Inr M"
      by (auto simp: approve_def elim!: bnd_okE)
    then have "pr_council_epoch p = cf_council_epoch cfg"
      "\<not> cancel \<and> is_upgrade (pr_action p) \<longrightarrow> complete p = Inr ()"
      by (auto simp: proposal_current_ok split: if_splits)
    with step save [OF step(4,9)] show "?rhs" by blast
  next
    assume ?rhs
    then obtain cfg p slot i p' where step: "readonly config_info = Inr ()" "writable proposal_info = Inr ()"
      "load_config E program config_info L = Inr cfg"
      "load_proposal E program proposal_info (Some digest) L = Inr p" "clock E = Inr slot"
      "pr_council_epoch p = cf_council_epoch cfg" "seat cfg seat_info = Inr i"
      "\<not> cancel \<and> is_upgrade (pr_action p) \<longrightarrow> complete p = Inr ()"
      "proposal_approve p i slot cancel = Inr p'" "M = set_data proposal_info (ser_proposal p') L"
      by blast
    have "proposal_current p cfg slot = Inr ()"
      using step(6,9) by (simp add: proposal_current_ok proposal_approve_ok)
    with step save [OF step(4,9)] show "approve E program [config_info, proposal_info, seat_info] digest cancel L = Inr M"
      by (simp add: approve_def)
  qed
qed

lemma sample_loads:
  "wf_proposal p \<Longrightarrow> proposal_validate sample_env p program_key 1035 = Inr () \<Longrightarrow> ai_key i = 1035 \<Longrightarrow>
     load_proposal sample_env program_key i (Some (pr_digest p)) (sample_ledger p) = Inr p"
  "ai_key i = 1026 \<Longrightarrow> load_config sample_env program_key i (sample_ledger p) = Inr sample_config"
  by (simp_all add: load_proposal_ok load_config_ok sample_ledger_def)

lemma timing_not_upgrade [simp]: "\<not> is_upgrade timing_action"
  by (simp add: is_upgrade_def kind_consts)

theorem approve_exact_witness:
  "\<exists>M. approve sample_env program_key [ro 1026, rw 1035, sg 23] (pr_digest (proposal_for timing_action)) False
     (sample_ledger (proposal_for timing_action)) = Inr M"
proof -
  let ?p = "proposal_for timing_action"
  have "load_proposal sample_env program_key (rw 1035) (Some (pr_digest ?p)) (sample_ledger ?p) = Inr ?p"
    by (rule sample_loads) simp_all
  moreover have "load_config sample_env program_key (ro 1026) (sample_ledger ?p) = Inr sample_config"
    by (rule sample_loads) simp
  moreover have "seat sample_config (sg 23) = Inr 2"
    by (simp add: seat_ok sample_config_def)
  moreover have "proposal_approve ?p 2 2000000 False = Inr (?p\<lparr>pr_approvals := 0 OR shl1 2,
      pr_approval_count := of_nat (pop_count (0 OR shl1 2 :: byte))\<rparr>)"
    by (simp add: proposal_approve_ok)
  moreover have "clock sample_env = Inr 2000000"
    by (simp add: clock_ok)
  moreover have "pr_council_epoch ?p = cf_council_epoch sample_config"
    by (simp add: sample_config_def)
  moreover have "readonly (ro 1026) = Inr ()" "writable (rw 1035) = Inr ()"
    by (simp_all add: readonly_def writable_def privileges_def validate_exact_privileges_ok)
  moreover have "\<not> is_upgrade (pr_action ?p)" by simp
  ultimately show ?thesis
    using approve_exact [of sample_env program_key "ro 1026" "rw 1035" "sg 23" "pr_digest ?p" False "sample_ledger ?p"]
    by blast
qed

section \<open>Expiry\<close>

text \<open>Anyone may expire a proposal, exactly when it is pending and its expiry slot has
  come; the handler only changes the state of that proposal.\<close>

theorem expire_exact:
  "expire E program [proposal_info] L = Inr M \<longleftrightarrow>
     writable proposal_info = Inr () \<and>
     (\<exists>p slot. load_proposal E program proposal_info None L = Inr p \<and> clock E = Inr slot \<and>
       pr_state p = PENDING \<and> pr_expires p \<le> slot \<and>
       M = set_data proposal_info (ser_proposal (p\<lparr>pr_state := EXPIRED\<rparr>)) L)"
  (is "_ \<longleftrightarrow> ?rhs")
proof -
  have save: "save_proposal E program proposal_info (p\<lparr>pr_state := EXPIRED\<rparr>) L = Inr M \<longleftrightarrow>
      M = set_data proposal_info (ser_proposal (p\<lparr>pr_state := EXPIRED\<rparr>)) L"
    if load: "load_proposal E program proposal_info None L = Inr p" and "pr_state p = PENDING" for p
  proof -
    have "wf_proposal (p\<lparr>pr_state := EXPIRED\<rparr>)"
      using load by (simp add: load_proposal_ok wf_proposal_def)
    moreover have "proposal_validate E (p\<lparr>pr_state := EXPIRED\<rparr>) program (ai_key proposal_info) = Inr ()"
      using load that(2)
      by (auto simp: load_proposal_ok proposal_validate_ok proposal_fields_ok_def lifecycle_ok_def
          extension_validate_def compute_digest_def verified_bitmap_def state_consts)
    ultimately show ?thesis
      using proposal_store.save_loaded [OF load] by auto
  qed
  show ?thesis
  proof
    assume "expire E program [proposal_info] L = Inr M"
    then obtain p slot where step: "writable proposal_info = Inr ()"
      "load_proposal E program proposal_info None L = Inr p" "pr_state p = PENDING"
      "clock E = Inr slot" "pr_expires p \<le> slot"
      "save_proposal E program proposal_info (p\<lparr>pr_state := EXPIRED\<rparr>) L = Inr M"
      by (auto simp: expire_def require_ok elim!: bnd_okE split: if_splits)
    with save [OF step(2,3)] show ?rhs by blast
  next
    assume ?rhs
    then obtain p slot where step: "writable proposal_info = Inr ()"
      "load_proposal E program proposal_info None L = Inr p" "clock E = Inr slot"
      "pr_state p = PENDING" "pr_expires p \<le> slot"
      "M = set_data proposal_info (ser_proposal (p\<lparr>pr_state := EXPIRED\<rparr>)) L"
      by blast
    with save [OF step(2,4)] show "expire E program [proposal_info] L = Inr M"
      by (simp add: expire_def)
  qed
qed

section \<open>Executing a policy\<close>

text \<open>What stands behind a proposal that passes the execution guard.\<close>

definition has_quorum :: "proposal \<Rightarrow> u64 \<Rightarrow> bool" where
  "has_quorum p slot \<longleftrightarrow>
     3 \<le> card (voters (pr_approvals p)) \<and> voters (pr_approvals p) \<subseteq> {..<5} \<and>
     card (voters (pr_cancellations p)) < 3 \<and> pr_not_before p \<le> slot \<and> slot < pr_expires p"

lemma executable_quorum:
  assumes "proposal_validate E p program key = Inr ()" and "proposal_executable p cfg slot = Inr ()"
  shows "has_quorum p slot"
proof -
  note valid = assms(1) [unfolded proposal_validate_ok proposal_fields_ok_def lifecycle_ok_def]
  note exec = assms(2) [unfolded proposal_executable_ok]
  have "card (voters (pr_approvals p)) = unat (pr_approval_count p)"
    using valid by (simp add: card_voters)
  moreover have "voters (pr_approvals p) \<subseteq> {..<5}"
    using valid voters_less by blast
  moreover have "pr_state p \<noteq> CANCELLED"
    using exec by (simp add: state_consts)
  then have "card (voters (pr_cancellations p)) < 3"
    using valid by (simp add: card_voters word_le_nat_alt)
  ultimately show ?thesis using exec by (simp add: has_quorum_def)
qed

definition executed :: "proposal \<Rightarrow> u64 \<Rightarrow> proposal" where
  "executed p slot = p\<lparr>pr_state := EXECUTED, pr_executed_slot := slot\<rparr>"

lemma executed_select [simp]:
  "pr_state (executed p slot) = EXECUTED" "pr_executed_slot (executed p slot) = slot"
  "pr_digest (executed p slot) = pr_digest p" "pr_action (executed p slot) = pr_action p"
  by (simp_all add: executed_def)

lemma executed_wf [simp]: "wf_proposal (executed p slot) = wf_proposal p"
  by (simp add: executed_def wf_proposal_def)

text \<open>Marking an executable proposal executed keeps it valid, so the final write of every execution
  handler succeeds.\<close>

lemma executed_valid:
  assumes "proposal_validate E p program key = Inr ()" and "proposal_executable p cfg slot = Inr ()"
    and "0 < slot"
  shows "proposal_validate E (executed p slot) program key = Inr ()"
proof -
  note valid = assms(1) [unfolded proposal_validate_ok]
  note exec = assms(2) [unfolded proposal_executable_ok]
  have "lifecycle_ok (executed p slot)"
    using valid exec assms(3)
    by (simp add: executed_def lifecycle_ok_def state_consts word_le_nat_alt word_neq_0_conv)
  moreover have "proposal_fields_ok E (executed p slot) program key"
    using valid by (simp add: executed_def proposal_fields_ok_def verified_bitmap_def state_consts)
  moreover have "extension_validate (executed p slot) = extension_validate p"
    "compute_digest E (executed p slot) program = compute_digest E p program"
    by (simp_all add: executed_def extension_validate_def compute_digest_def)
  ultimately show ?thesis
    using valid by (simp add: proposal_validate_ok executed_def)
qed

lemma save_executed:
  assumes "load_proposal E program i d L = Inr p" and "proposal_executable p cfg slot = Inr ()" and "0 < slot"
    and "M (ai_key i) = L (ai_key i)"
  shows "save_proposal E program i (executed p slot) M = Inr (set_data i (ser_proposal (executed p slot)) M)"
proof -
  have "load_proposal E program i None M = Inr p"
    using load_local_facts(2) [of M i L, OF assms(4)] load_proposal_any [OF assms(1)] by simp
  then show ?thesis
    by (rule proposal_store.save_loaded)
      (use assms executed_valid in \<open>auto simp: load_proposal_ok\<close>)
qed

lemma load_executed:
  assumes "load_proposal E program i d L = Inr p" and "wf_proposal p"
    and "save_proposal E program i (executed p slot) M = Inr N"
  shows "load_proposal E program i d N = Inr (executed p slot)"
  using assms by (auto simp: load_proposal_ok save_proposal_ok ledger_simps)

lemma action_seats_length: "action_seats a = Inr s \<Longrightarrow> length s = 5"
  using key_codec.ser_rd_array
  by (auto simp: action_seats_def decode_padded_def bnd_Inr_iff require_ok ok_or_Inr_iff try_from_slice_def
      split: option.splits list.splits)

lemma execute_policy_steps:
  assumes "execute_policy E program [ci, pi] digest L = Inr M"
  obtains cfg p slot cfg' N where
    "load_config E program ci L = Inr cfg" "load_proposal E program pi (Some digest) L = Inr p"
    "clock E = Inr slot" "proposal_executable p cfg slot = Inr ()"
    "config_validate E cfg' program (ai_key ci) = Inr ()"
    "save_proposal E program pi (executed p slot) L = Inr N"
    "store_fixed_controller_account ser_config N program ci cfg' CONFIG_LEN = Inr M"
    "(\<exists>t v. ac_kind (pr_action p) = SET_TIMING \<and> pr_timing_version p = cf_timing_version cfg \<and>
        action_timing (pr_action p) = Inr t \<and> add (cf_timing_version cfg) 1 = Inr v \<and>
        cfg' = cfg\<lparr>cf_timing := t, cf_timing_version := v\<rparr>) \<or>
     (\<exists>s e. ac_kind (pr_action p) = ROTATE_COUNCIL \<and> action_seats (pr_action p) = Inr s \<and>
        add (cf_council_epoch cfg) 1 = Inr e \<and> cfg' = cfg\<lparr>cf_seats := s, cf_council_epoch := e\<rparr>)"
  using assms
  by (auto simp: execute_policy_def executed_def require_ok elim!: bnd_okE split: if_splits)

text \<open>C30: A policy executes only with a quorum of three seats inside its execution window; it
  replaces exactly the timing or exactly the seats, increments the version or the council epoch by
  one without wrapping, leaves a configuration that loads as valid, marks the proposal executed, and
  touches no other account.\<close>

theorem execute_policy_effect:
  assumes "execute_policy E program [ci, pi] digest L = Inr M" and "ai_key ci \<noteq> ai_key pi"
  shows "\<exists>cfg p slot cfg'.
    load_config E program ci L = Inr cfg \<and> load_proposal E program pi (Some digest) L = Inr p \<and>
    clock E = Inr slot \<and> has_quorum p slot \<and>
    load_config E program ci M = Inr cfg' \<and> load_proposal E program pi (Some digest) M = Inr (executed p slot) \<and>
    (ac_kind (pr_action p) = SET_TIMING \<and> action_timing (pr_action p) = Inr (cf_timing cfg') \<and>
       cfg' = cfg\<lparr>cf_timing := cf_timing cfg', cf_timing_version := cf_timing_version cfg'\<rparr> \<and>
       unat (cf_timing_version cfg') = unat (cf_timing_version cfg) + 1 \<and>
       pr_timing_version p = cf_timing_version cfg \<or>
     ac_kind (pr_action p) = ROTATE_COUNCIL \<and> action_seats (pr_action p) = Inr (cf_seats cfg') \<and>
       cfg' = cfg\<lparr>cf_seats := cf_seats cfg', cf_council_epoch := cf_council_epoch cfg'\<rparr> \<and>
       unat (cf_council_epoch cfg') = unat (cf_council_epoch cfg) + 1) \<and>
    (\<forall>k. k \<noteq> ai_key ci \<and> k \<noteq> ai_key pi \<longrightarrow> M k = L k)"
  using assms(1)
proof (rule execute_policy_steps)
  fix cfg p slot cfg' N
  assume step: "load_config E program ci L = Inr cfg" "load_proposal E program pi (Some digest) L = Inr p"
    "clock E = Inr slot" "proposal_executable p cfg slot = Inr ()"
    "config_validate E cfg' program (ai_key ci) = Inr ()"
    "save_proposal E program pi (executed p slot) L = Inr N"
    "store_fixed_controller_account ser_config N program ci cfg' CONFIG_LEN = Inr M"
    and change: "(\<exists>t v. ac_kind (pr_action p) = SET_TIMING \<and> pr_timing_version p = cf_timing_version cfg \<and>
        action_timing (pr_action p) = Inr t \<and> add (cf_timing_version cfg) 1 = Inr v \<and>
        cfg' = cfg\<lparr>cf_timing := t, cf_timing_version := v\<rparr>) \<or>
     (\<exists>s e. ac_kind (pr_action p) = ROTATE_COUNCIL \<and> action_seats (pr_action p) = Inr s \<and>
        add (cf_council_epoch cfg) 1 = Inr e \<and> cfg' = cfg\<lparr>cf_seats := s, cf_council_epoch := e\<rparr>)"
  note p = step(2) [unfolded load_proposal_ok]
  have wf: "wf_config cfg'"
    using step(1) change action_seats_length by (auto simp: load_config_ok wf_config_def)
  have N: "N = set_data pi (ser_proposal (executed p slot)) L"
    using step(6) by (simp add: save_proposal_ok)
  have M: "M = set_data ci (ser_config cfg') N" "owner_of N ci = program"
    using step(7) by (auto simp: store_ok_iff)
  have "load_config E program ci M = Inr cfg'"
    using wf M step(5) by (simp add: load_config_ok ledger_simps)
  moreover have "load_proposal E program pi (Some digest) M = Inr (executed p slot)"
    using load_executed [OF step(2) _ step(6)] p load_set_other(2) [of pi ci] assms(2)
    by (simp add: M(1))
  moreover have "has_quorum p slot"
    using executable_quorum step(4) p by blast
  moreover have "\<forall>k. k \<noteq> ai_key ci \<and> k \<noteq> ai_key pi \<longrightarrow> M k = L k"
    by (simp add: M N ledger_simps)
  moreover have "ac_kind (pr_action p) = SET_TIMING \<and> action_timing (pr_action p) = Inr (cf_timing cfg') \<and>
       cfg' = cfg\<lparr>cf_timing := cf_timing cfg', cf_timing_version := cf_timing_version cfg'\<rparr> \<and>
       unat (cf_timing_version cfg') = unat (cf_timing_version cfg) + 1 \<and>
       pr_timing_version p = cf_timing_version cfg \<or>
     ac_kind (pr_action p) = ROTATE_COUNCIL \<and> action_seats (pr_action p) = Inr (cf_seats cfg') \<and>
       cfg' = cfg\<lparr>cf_seats := cf_seats cfg', cf_council_epoch := cf_council_epoch cfg'\<rparr> \<and>
       unat (cf_council_epoch cfg') = unat (cf_council_epoch cfg) + 1"
    using change by (auto simp: add_ok)
  ultimately show ?thesis using step(1-3) by blast
qed

text \<open>C31: Once a council rotation has executed, no proposal created under the
  previous council can be approved, cancelled, verified or executed any more: the currency check
  refuses each of them against the new configuration.\<close>

theorem rotation_revokes_old_proposals:
  assumes "execute_policy E program [ci, pi] digest L = Inr M" and "ai_key ci \<noteq> ai_key pi"
    and "load_config E program ci L = Inr cfg" and "load_config E program ci M = Inr cfg'"
    and "cf_seats cfg' \<noteq> cf_seats cfg" and "pr_council_epoch q = cf_council_epoch cfg"
  shows "\<not> is_ok (proposal_current q cfg' slot')"
  using assms(1)
proof (rule execute_policy_steps)
  fix c p slot c' N
  assume step: "load_config E program ci L = Inr c"
    "config_validate E c' program (ai_key ci) = Inr ()"
    "store_fixed_controller_account ser_config N program ci c' CONFIG_LEN = Inr M"
    and change: "(\<exists>t v. ac_kind (pr_action p) = SET_TIMING \<and> pr_timing_version p = cf_timing_version c \<and>
        action_timing (pr_action p) = Inr t \<and> add (cf_timing_version c) 1 = Inr v \<and>
        c' = c\<lparr>cf_timing := t, cf_timing_version := v\<rparr>) \<or>
     (\<exists>s e. ac_kind (pr_action p) = ROTATE_COUNCIL \<and> action_seats (pr_action p) = Inr s \<and>
        add (cf_council_epoch c) 1 = Inr e \<and> c' = c\<lparr>cf_seats := s, cf_council_epoch := e\<rparr>)"
  have "wf_config c'"
    using step(1) change action_seats_length by (auto simp: load_config_ok wf_config_def)
  then have "load_config E program ci M = Inr c'"
    using step(2,3) by (auto simp: load_config_ok store_ok_iff ledger_simps)
  then have same: "c' = cfg'" "c = cfg" using assms(3,4) step(1) by simp_all
  then have "cf_council_epoch cfg' \<noteq> cf_council_epoch cfg"
    using change assms(5) by (auto simp: add_ok)
  then show ?thesis
    using assms(6) by (simp add: is_ok_iff proposal_current_ok)
qed

section \<open>Creating a proposal\<close>

lemma create_steps:
  assumes "create E program [payer, creator, ci, pi, system] expected_id action L = Inr M"
  obtains cfg i bounds next_id slot newp rent L1 L2 where
    "load_config E program ci L = Inr cfg" "seat cfg creator = Inr i" "cf_next_id cfg = expected_id"
    "action_validate action = Inr ()" "add expected_id 1 = Inr next_id" "clock E = Inr slot"
    "boundaries (cf_timing cfg) slot = Inr bounds"
    "newp = (let v = new_proposal cfg (ai_key ci) expected_id (snd (proposal_pda E program expected_id)) action slot bounds
      in v\<lparr>pr_digest := compute_digest E v program\<rparr>)"
    "ai_key pi = fst (proposal_pda E program expected_id)"
    "create_fixed_pda_account E program payer pi system rent PROPOSAL_LEN
       [DOMAIN, ascii ''proposal'', wr_u64 expected_id, [snd (proposal_pda E program expected_id)]] L = Inr L1"
    "save_proposal E program pi newp L1 = Inr L2"
    "store_fixed_controller_account ser_config L2 program ci (cfg\<lparr>cf_next_id := next_id\<rparr>) CONFIG_LEN = Inr M"
  using assms
  by (auto simp: create_def require_ok case_prod_unfold Let_def elim!: bnd_okE)

lemma new_proposal_wf: "wf_action a \<Longrightarrow> wf_proposal (new_proposal cfg k n b a slot bounds)"
  by (simp add: new_proposal_def wf_proposal_def PROPOSAL_DISCRIMINATOR_def split: prod.split)

lemma wf_proposal_digest [simp]: "wf_proposal (p\<lparr>pr_digest := d\<rparr>) = wf_proposal p"
  by (simp add: wf_proposal_def)

text \<open>C34: Creation needs a seated signer and the next id, and leaves exactly one new account: a
  valid pending proposal with no votes and no verified chunk, bound to the current council epoch and
  timing, under its own digest; the configuration keeps everything but the id, which grows by one.\<close>

theorem create_effect:
  assumes "create E program [payer, creator, ci, pi, system] expected_id action L = Inr M"
    and "cpi_frame E" and "wf_action action"
    and "distinct (map ai_key [payer, creator, ci, pi, system])"
  shows "\<exists>cfg i slot p.
    load_config E program ci L = Inr cfg \<and> seat cfg creator = Inr i \<and> cf_next_id cfg = expected_id \<and>
    clock E = Inr slot \<and> load_proposal E program pi None M = Inr p \<and>
    pr_id p = expected_id \<and> pr_action p = action \<and> pr_state p = PENDING \<and> pr_created p = slot \<and>
    pr_council_epoch p = cf_council_epoch cfg \<and> pr_timing p = cf_timing cfg \<and>
    voters (pr_approvals p) = {} \<and> voters (pr_cancellations p) = {} \<and> marked (verified_bitmap p) = {} \<and>
    (\<exists>next_id. load_config E program ci M = Inr (cfg\<lparr>cf_next_id := next_id\<rparr>) \<and>
      unat next_id = unat expected_id + 1) \<and>
    (\<forall>k. k \<notin> {ai_key payer, ai_key ci, ai_key pi, ai_key system} \<longrightarrow> M k = L k)"
  using assms(1)
proof (rule create_steps)
  fix cfg i bounds next_id slot newp rent L1 L2
  assume step: "load_config E program ci L = Inr cfg" "seat cfg creator = Inr i" "cf_next_id cfg = expected_id"
    "add expected_id 1 = Inr next_id" "clock E = Inr slot"
    "create_fixed_pda_account E program payer pi system rent PROPOSAL_LEN
       [DOMAIN, ascii ''proposal'', wr_u64 expected_id, [snd (proposal_pda E program expected_id)]] L = Inr L1"
    "save_proposal E program pi newp L1 = Inr L2"
    "store_fixed_controller_account ser_config L2 program ci (cfg\<lparr>cf_next_id := next_id\<rparr>) CONFIG_LEN = Inr M"
    and new: "newp = (let v = new_proposal cfg (ai_key ci) expected_id (snd (proposal_pda E program expected_id)) action slot bounds
      in v\<lparr>pr_digest := compute_digest E v program\<rparr>)"
  have frame1: "L1 k = L k" if "k \<notin> {ai_key payer, ai_key pi, ai_key system}" for k
    using create_fixed_pda_account_frame [OF assms(2) step(6) that] .
  have wf: "wf_proposal newp"
    using assms(3) by (simp add: new Let_def new_proposal_wf)
  have L2: "L2 = set_data pi (ser_proposal newp) L1" "load_proposal E program pi None L2 = Inr newp"
    using proposal_store.save_writes [OF step(7) wf] by blast+
  have M: "M = set_data ci (ser_config (cfg\<lparr>cf_next_id := next_id\<rparr>)) L2" "owner_of L2 ci = program"
    using step(8) by (auto simp: store_ok_iff)
  have "ai_key pi \<noteq> ai_key ci" using assms(4) by auto
  then have "load_proposal E program pi None M = Inr newp"
    using L2(2) load_set_other(2) [of pi ci] by (simp add: M(1))
  moreover have "load_config E program ci M = Inr (cfg\<lparr>cf_next_id := next_id\<rparr>)"
  proof -
    have "config_validate E (cfg\<lparr>cf_next_id := next_id\<rparr>) program (ai_key ci) = Inr ()"
      using step(1,4) by (auto simp: load_config_ok config_validate_def bnd_Inr_iff require_ok add_ok word_less_nat_alt)
    then show ?thesis
      using step(1) M by (simp add: load_config_ok ledger_simps wf_config_def)
  qed
  moreover have "\<forall>k. k \<notin> {ai_key payer, ai_key ci, ai_key pi, ai_key system} \<longrightarrow> M k = L k"
    using frame1 by (simp add: M(1) L2(1) ledger_simps)
  moreover have "unat next_id = unat expected_id + 1"
    using step(4) by (simp add: add_ok)
  moreover have "pr_id newp = expected_id \<and> pr_action newp = action \<and> pr_state newp = PENDING \<and>
      pr_created newp = slot \<and> pr_council_epoch newp = cf_council_epoch cfg \<and> pr_timing newp = cf_timing cfg \<and>
      voters (pr_approvals newp) = {} \<and> voters (pr_cancellations newp) = {} \<and> marked (verified_bitmap newp) = {}"
    by (auto simp: new Let_def new_proposal_def voters_def marked_def verified_bitmap_def nth_append
        split: prod.split)
  ultimately show ?thesis using step(1-5) by blast
qed

section \<open>Bootstrap\<close>

lemma linkage_offset:
  "validate_program_programdata_linkage L t d loader = Inr h \<Longrightarrow> payload_offset h = LOADER_PROGRAMDATA_METADATA_LEN"
  by (auto simp: validate_program_programdata_linkage_def parse_upgradeable_programdata_def bnd_Inr_iff
      split: if_splits)

lemma initialize_steps:
  assumes "initialize E program [payer, deployer, controller, programdata, ci, authority, loader, system, a, b, c]
      seats treasury L = Inr M"
  obtains header cfg na nb nc rent L1 L2 after where
    "signer deployer = Inr ()"
    "validate_program_programdata_linkage L controller programdata (loader_id E) = Inr header"
    "upgrade_authority header = Some (ai_key deployer)"
    "cfg = \<lparr>cf_discriminator = CONFIG_DISCRIMINATOR, cf_version = 1, cf_bump = snd (config_pda E program),
             cf_initialized = True, cf_controller = program, cf_programdata = ai_key programdata,
             cf_authority = fst (authority_pda E program), cf_treasury = treasury, cf_seats = seats,
             cf_council_epoch = 1, cf_timing_version = 1, cf_timing = timing_default,
             cf_next_id = 1, cf_reserved = replicate 37 0\<rparr>"
    "config_validate E cfg program (ai_key ci) = Inr ()"
    "seat cfg a = Inr na" "seat cfg b = Inr nb" "seat cfg c = Inr nc"
    "create_fixed_pda_account E program payer ci system rent CONFIG_LEN
       [DOMAIN, ascii ''council'', [snd (config_pda E program)]] L = Inr L1"
    "store_fixed_controller_account ser_config L1 program ci cfg CONFIG_LEN = Inr L2"
    "invoke_signed E (SetUpgradeAuthorityChecked program (ai_key deployer) (ai_key authority))
       (map ai_key [programdata, deployer, authority, loader])
       [[DOMAIN, ascii ''authority'', [snd (authority_pda E program)]]] L2 = Inr M"
    "validate_program_programdata_linkage M controller programdata (loader_id E) = Inr after"
    "upgrade_authority after = Some (fst (authority_pda E program))"
    "capacity after = capacity header" "deployed_slot after = deployed_slot header"
  using assms
  by (auto simp: initialize_def require_ok case_prod_unfold Let_def map_err_Inr_iff elim!: bnd_okE)

text \<open>The bootstrap needs the deployer's signature as the current upgrade authority and
  three different seats of the new council as signers; it leaves a valid configuration of five
  distinct seats and the ProgramData under the council's own authority, otherwise unchanged.\<close>

theorem initialize_effect:
  assumes "initialize E program [payer, deployer, controller, programdata, ci, authority, loader, system, a, b, c]
      seats treasury L = Inr M"
    and "cpi_frame E" and "length seats = 5"
    and "distinct (map ai_key [payer, deployer, controller, programdata, ci, authority, loader, system, a, b, c])"
  shows "\<exists>cfg before after na nb nc. load_config E program ci M = Inr cfg \<and> cf_seats cfg = seats \<and>
    cf_treasury cfg = treasury \<and> distinct seats \<and> cf_timing cfg = timing_default \<and>
    seat cfg a = Inr na \<and> seat cfg b = Inr nb \<and> seat cfg c = Inr nc \<and> distinct [na, nb, nc] \<and>
    is_signer deployer \<and>
    validate_program_programdata_linkage L controller programdata (loader_id E) = Inr before \<and>
    validate_program_programdata_linkage M controller programdata (loader_id E) = Inr after \<and>
    upgrade_authority before = Some (ai_key deployer) \<and>
    after = before\<lparr>upgrade_authority := Some (cf_authority cfg)\<rparr>"
  using assms(1)
proof (rule initialize_steps)
  fix header cfg na nb nc rent L1 L2 after
  assume step: "signer deployer = Inr ()"
    "validate_program_programdata_linkage L controller programdata (loader_id E) = Inr header"
    "upgrade_authority header = Some (ai_key deployer)"
    "config_validate E cfg program (ai_key ci) = Inr ()"
    "seat cfg a = Inr na" "seat cfg b = Inr nb" "seat cfg c = Inr nc"
    "store_fixed_controller_account ser_config L1 program ci cfg CONFIG_LEN = Inr L2"
    "invoke_signed E (SetUpgradeAuthorityChecked program (ai_key deployer) (ai_key authority))
       (map ai_key [programdata, deployer, authority, loader])
       [[DOMAIN, ascii ''authority'', [snd (authority_pda E program)]]] L2 = Inr M"
    "validate_program_programdata_linkage M controller programdata (loader_id E) = Inr after"
    "upgrade_authority after = Some (fst (authority_pda E program))"
    "capacity after = capacity header" "deployed_slot after = deployed_slot header"
    and cfg: "cfg = \<lparr>cf_discriminator = CONFIG_DISCRIMINATOR, cf_version = 1, cf_bump = snd (config_pda E program),
             cf_initialized = True, cf_controller = program, cf_programdata = ai_key programdata,
             cf_authority = fst (authority_pda E program), cf_treasury = treasury, cf_seats = seats,
             cf_council_epoch = 1, cf_timing_version = 1, cf_timing = timing_default,
             cf_next_id = 1, cf_reserved = replicate 37 0\<rparr>"
  have wf: "wf_config cfg"
    using assms(3) by (simp add: cfg wf_config_def CONFIG_DISCRIMINATOR_def)
  have "M (ai_key ci) = L2 (ai_key ci)"
    using cpi_frameD [OF step(9) assms(2)] assms(4) by auto
  moreover have "load_config E program ci L2 = Inr cfg"
    using step(4,8) wf by (auto simp: load_config_ok store_ok_iff ledger_simps)
  ultimately have "load_config E program ci M = Inr cfg"
    using load_local_facts(1) [of M ci L2] by simp
  moreover have "distinct seats"
    using step(4) by (simp add: cfg config_validate_def bnd_Inr_iff validate_seats_ok)
  moreover have "cf_seats cfg ! na = ai_key a" "cf_seats cfg ! nb = ai_key b" "cf_seats cfg ! nc = ai_key c"
    using step(5-7) seat_position [OF _ wf] by blast+
  then have "distinct [na, nb, nc]" using assms(4) by auto
  moreover have "is_signer deployer"
    using step(1) by (simp add: signer_def privileges_def validate_exact_privileges_ok)
  moreover have "after = header\<lparr>upgrade_authority := Some (cf_authority cfg)\<rparr>"
    using step(2,10-13) linkage_offset by (intro programdata_header.equality) (auto simp: cfg)
  ultimately show ?thesis using step(2,3,5-7,10) by (auto simp: cfg)
qed

end
