(* ===== verification/Gov_Upgrade.thy ===== *)
theory Gov_Upgrade
  imports Gov_Processor
begin

text \<open>
  The artifact path of \<open>governance_controller_v3/src/processor.rs\<close>: sealing a buffer, verifying its
  chunks, the top-level transaction envelope, installing a sealed artifact and closing the buffer of
  a dead proposal.
\<close>

section \<open>Sealing and verification\<close>

definition sealed :: "env \<Rightarrow> pubkey \<Rightarrow> pubkey \<Rightarrow> account_info \<Rightarrow> artifact \<Rightarrow> ledger \<Rightarrow> program_error + unit" where
  "sealed E program proposal_key buffer action L =
     bnd (map_err gov (validate_buffer_account L buffer (loader_id E))) (\<lambda>header.
     require (ai_key buffer = ar_buffer action
       \<and> of_nat (bh_payload_length header) = ar_artifact_length action
       \<and> bh_authority header = Some (fst (buffer_authority_pda E program proposal_key))) InvalidArtifact)"

definition seal :: "env \<Rightarrow> pubkey \<Rightarrow> account_info list \<Rightarrow> hash32 \<Rightarrow> ledger \<Rightarrow> program_error + ledger" where
  "seal E program accounts digest L = (case accounts of
     [config_info, proposal_info, buffer, uploader, buffer_authority, loader] \<Rightarrow>
       bnd (checks [readonly config_info, readonly proposal_info, writable buffer, signer uploader,
         readonly buffer_authority, executable_at loader (loader_id E)]) (\<lambda>_.
       bnd (load_config E program config_info L) (\<lambda>cfg.
       bnd (load_proposal E program proposal_info (Some digest) L) (\<lambda>p.
       bnd (clock E) (\<lambda>slot.
       bnd (proposal_current p cfg slot) (\<lambda>_.
       bnd (action_artifact (pr_action p)) (\<lambda>action.
       let (authority, bump) = buffer_authority_pda E program (ai_key proposal_info) in
       bnd (map_err gov (validate_buffer_account L buffer (loader_id E))) (\<lambda>header.
       bnd (require (ai_key buffer_authority = authority \<and> ai_key buffer = ar_buffer action
         \<and> bh_authority header = Some (ai_key uploader)
         \<and> of_nat (bh_payload_length header) = ar_artifact_length action
         \<and> pr_approvals p = 0 \<and> pr_verified_count p = 0) InvalidArtifact) (\<lambda>_.
       bnd (invoke_signed E (SetBufferAuthorityChecked (ai_key buffer) (ai_key uploader) (ai_key buffer_authority))
         (map ai_key [buffer, uploader, buffer_authority, loader])
         [[DOMAIN, ascii ''buffer'', wr_32 (ai_key proposal_info), [bump]]] L) (\<lambda>L.
       bnd (sealed E program (ai_key proposal_info) buffer action L) (\<lambda>_.
       Inr L))))))))))
   | _ \<Rightarrow> Inl NotEnoughAccountKeys)"

definition verify :: "env \<Rightarrow> pubkey \<Rightarrow> account_info list \<Rightarrow> hash32 \<Rightarrow> u32 \<Rightarrow> byte \<Rightarrow> hash32 list \<Rightarrow> ledger
    \<Rightarrow> program_error + ledger" where
  "verify E program accounts digest index proof_len proof_nodes L = (case accounts of
     [config_info, proposal_info, buffer] \<Rightarrow>
       bnd (checks [readonly config_info, writable proposal_info, readonly buffer]) (\<lambda>_.
       bnd (load_config E program config_info L) (\<lambda>cfg.
       bnd (load_proposal E program proposal_info (Some digest) L) (\<lambda>p.
       bnd (clock E) (\<lambda>slot.
       bnd (proposal_current p cfg slot) (\<lambda>_.
       bnd (action_artifact (pr_action p)) (\<lambda>action.
       bnd (sealed E program (ai_key proposal_info) buffer action L) (\<lambda>_.
       bnd (chunk_count (ar_artifact_length action)) (\<lambda>count.
       bnd (if index < count \<and> proof_len \<le> 7 then
              bnd (checked_slice (unat proof_len) (length proof_nodes) proof_nodes) (\<lambda>unused.
              Inr (\<forall>v \<in> set unused. v = 0))
            else Inr False) (\<lambda>shaped.
       bnd (require shaped InvalidArtifact) (\<lambda>_.
       bnd (mark_chunk_verified p index) (\<lambda>p.
       let start = 37 + unat index * unat CHUNK;
           stop = min (start + unat CHUNK) (37 + unat (ar_artifact_length action)) in
       bnd (checked_slice start stop (data_of L buffer)) (\<lambda>chunk.
       bnd (checked_slice 0 (unat proof_len) proof_nodes) (\<lambda>siblings.
       bnd (verify_chunk E (ar_merkle_root action) (ar_artifact_length action) index chunk siblings) (\<lambda>_.
       save_proposal E program proposal_info p L))))))))))))))
   | _ \<Rightarrow> Inl NotEnoughAccountKeys)"

section \<open>The envelope\<close>

text \<open>\<open>SetComputeUnitLimit\<close> up to 1400000 units or \<open>SetComputeUnitPrice\<close> up to 100000.\<close>

definition budget_bit :: "byte list \<Rightarrow> byte option" where
  "budget_bit data =
     (if length data = 5 \<and> hd data = 2 \<and> (le_word (tl data) :: u32) \<le> 1400000 then Some 1
      else if length data = 9 \<and> hd data = 3 \<and> (le_word (tl data) :: u64) \<le> 100000 then Some 2
      else None)"

fun envelope_prefix :: "env \<Rightarrow> account_info \<Rightarrow> ledger \<Rightarrow> nat list \<Rightarrow> byte \<Rightarrow> program_error + unit" where
  "envelope_prefix E info L [] seen = Inr ()"
| "envelope_prefix E info L (n # rest) seen =
     bnd (load_instruction_at_checked E n info (data_of L info)) (\<lambda>ix.
     bnd (require (ix_program ix = compute_budget_id E \<and> ix_accounts ix = []) InvalidEnvelope) (\<lambda>_.
     bnd (ok_or (budget_bit (ix_data ix)) (program_error_from InvalidEnvelope)) (\<lambda>b.
     bnd (require (seen AND b = 0) InvalidEnvelope) (\<lambda>_.
     envelope_prefix E info L rest (seen OR b)))))"

definition envelope :: "env \<Rightarrow> pubkey \<Rightarrow> account_info list \<Rightarrow> account_info \<Rightarrow> byte list \<Rightarrow> ledger
    \<Rightarrow> program_error + unit" where
  "envelope E program accounts info data L =
     bnd (readonly info) (\<lambda>_.
     bnd (require (ai_key info = instructions_id E) InvalidEnvelope) (\<lambda>_.
     bnd (load_current_index_checked E info (data_of L info)) (\<lambda>current_index.
     let index = unat current_index in
     bnd (ok_or (get_range (data_of L info) 0 2) (program_error_from InvalidEnvelope)) (\<lambda>first.
     let count = unat (le_word first :: u16) in
     bnd (require (count = index + 1 \<and> index \<le> 2) InvalidEnvelope) (\<lambda>_.
     bnd (load_instruction_at_checked E index info (data_of L info)) (\<lambda>current.
     bnd (require (ix_program current = program \<and> ix_data current = data
       \<and> length (ix_accounts current) = length accounts) InvalidEnvelope) (\<lambda>_.
     bnd (checks (map2 (\<lambda>meta account. require (am_pubkey meta = ai_key account
         \<and> am_signer meta = is_signer account \<and> am_writable meta = is_writable account) InvalidEnvelope)
         (ix_accounts current) accounts)) (\<lambda>_.
     envelope_prefix E info L [0..<index] 0))))))))"

section \<open>Installing an artifact\<close>

definition split_target_accounts ::
    "account_info list \<Rightarrow> bool \<Rightarrow> program_error + account_info list \<times> account_info option" where
  "split_target_accounts accounts target_mode =
     (if target_mode then
        (if accounts = [] then Inl NotEnoughAccountKeys
         else bnd (writable (last accounts)) (\<lambda>_. Inr (butlast accounts, Some (last accounts))))
      else Inr (accounts, None))"

definition upgrade_authority_seeds :: "pubkey \<Rightarrow> byte \<Rightarrow> bool \<Rightarrow> byte list list" where
  "upgrade_authority_seeds target bump target_mode =
     (if target_mode then [DOMAIN, ascii ''target-authority'', wr_32 target, [bump]]
      else [DOMAIN, ascii ''authority'', [bump]])"

definition upgrade_scope ::
    "env \<Rightarrow> pubkey \<Rightarrow> proposal \<Rightarrow> account_info \<Rightarrow> account_info \<Rightarrow> account_info option \<Rightarrow> ledger
      \<Rightarrow> program_error + pubkey \<times> byte" where
  "upgrade_scope E program p target programdata gate_info L =
     bnd (require (ai_key programdata = fst (find_program_address E [wr_32 (ai_key target)] (loader_id E)))
       InvalidAccount) (\<lambda>_.
     case gate_info of
       Some info \<Rightarrow>
         bnd (action_target_upgrade (pr_action p)) (\<lambda>action.
         bnd (require (tu_target action = ai_key target) InvalidAccount) (\<lambda>_.
         bnd (load_gate E program info (ai_key target) L) (\<lambda>gate.
         bnd (require (gt_epoch gate = tu_gate_epoch action \<and> gt_status gate = EmergencyFrozen)
           StaleProposal) (\<lambda>_.
         Inr (target_authority_pda E program (ai_key target))))))
     | None \<Rightarrow>
         bnd (require (ac_kind (pr_action p) = UPGRADE_CONTROLLER \<and> ai_key target = program)
           InvalidAccount) (\<lambda>_.
         bnd (action_upgrade (pr_action p)) (\<lambda>u.
         bnd (require (up_controller_release u = CONTROLLER_RELEASE) StaleProposal) (\<lambda>_.
         Inr (authority_pda E program)))))"

definition execute_upgrade :: "env \<Rightarrow> pubkey \<Rightarrow> account_info list \<Rightarrow> hash32 \<Rightarrow> byte list \<Rightarrow> bool \<Rightarrow> ledger
    \<Rightarrow> program_error + ledger" where
  "execute_upgrade E program all_accounts digest data target_mode L =
     bnd (split_target_accounts all_accounts target_mode) (\<lambda>(accounts, gate_info).
     case accounts of
       [config_info, proposal_info, controller, programdata, buffer, treasury, authority,
        buffer_authority, loader, rent, clock_info, ixs] \<Rightarrow>
         bnd (checks ([readonly config_info, writable proposal_info, privileges controller True False True]
           @ map writable [programdata, buffer, treasury]
           @ map readonly [authority, buffer_authority, rent, clock_info]
           @ [executable_at loader (loader_id E), envelope E program all_accounts ixs data L])) (\<lambda>_.
         bnd (load_config E program config_info L) (\<lambda>cfg.
         bnd (load_proposal E program proposal_info (Some digest) L) (\<lambda>p.
         bnd (clock E) (\<lambda>slot.
         bnd (proposal_executable p cfg slot) (\<lambda>_.
         bnd (complete p) (\<lambda>_.
         bnd (action_artifact (pr_action p)) (\<lambda>action.
         bnd (upgrade_scope E program p controller programdata gate_info L) (\<lambda>(authority_key, authority_bump).
         bnd (map_err gov (validate_program_programdata_linkage L controller programdata (loader_id E))) (\<lambda>before.
         let cap = of_nat (capacity before) :: u64 in
         bnd (require (upgrade_authority before = Some authority_key \<and> cap \<ge> ar_artifact_length action)
           StaleProposal) (\<lambda>_.
         let (buffer_key, buffer_bump) = buffer_authority_pda E program (ai_key proposal_info) in
         bnd (require (ai_key treasury = cf_treasury cfg \<and> ai_key authority = authority_key
           \<and> ai_key buffer_authority = buffer_key \<and> ai_key rent = rent_sysvar_id E
           \<and> ai_key clock_info = clock_sysvar_id E) InvalidAccount) (\<lambda>_.
         bnd (sealed E program (ai_key proposal_info) buffer action L) (\<lambda>_.
         let authority_seeds = upgrade_authority_seeds (ai_key controller) authority_bump target_mode;
             buffer_seeds = [DOMAIN, ascii ''buffer'', wr_32 (ai_key proposal_info), [buffer_bump]] in
         bnd (invoke_signed E (SetBufferAuthorityChecked (ai_key buffer) (ai_key buffer_authority) (ai_key authority))
           (map ai_key [buffer, buffer_authority, authority, loader]) [buffer_seeds, authority_seeds] L) (\<lambda>L.
         bnd (invoke_signed E (LoaderUpgrade (ai_key controller) (ai_key buffer) (ai_key authority) (ai_key treasury))
           (map ai_key [programdata, controller, buffer, treasury, rent, clock_info, authority, loader])
           [authority_seeds] L) (\<lambda>L.
         bnd (map_err gov (validate_program_programdata_linkage L controller programdata (loader_id E))) (\<lambda>after.
         bnd (require (upgrade_authority after = Some authority_key \<and> deployed_slot after = slot
           \<and> of_nat (capacity after) = cap) InvalidArtifact) (\<lambda>_.
         bnd (case gate_info of
                Some info \<Rightarrow>
                  bnd (load_gate E program info (ai_key controller) L) (\<lambda>gate.
                  bnd (add (gt_epoch gate) 1) (\<lambda>epoch.
                  save_gate program info (gate\<lparr>gt_epoch := epoch, gt_freeze_slot := slot,
                    gt_freeze_reason_code := 2, gt_last_completed_proposal := ai_key proposal_info\<rparr>) L))
              | None \<Rightarrow> Inr L) (\<lambda>L.
         save_proposal E program proposal_info (p\<lparr>pr_state := EXECUTED, pr_executed_slot := slot\<rparr>) L)))))))))))))))))
     | _ \<Rightarrow> Inl NotEnoughAccountKeys)"

definition close_buffer :: "env \<Rightarrow> pubkey \<Rightarrow> account_info list \<Rightarrow> hash32 \<Rightarrow> ledger \<Rightarrow> program_error + ledger" where
  "close_buffer E program accounts digest L = (case accounts of
     [config_info, proposal_info, buffer, treasury, buffer_authority, loader] \<Rightarrow>
       bnd (checks [readonly config_info, readonly proposal_info, writable buffer, writable treasury,
         readonly buffer_authority, executable_at loader (loader_id E)]) (\<lambda>_.
       bnd (load_config E program config_info L) (\<lambda>cfg.
       bnd (load_proposal E program proposal_info (Some digest) L) (\<lambda>p.
       bnd (require (pr_state p = CANCELLED \<or> pr_state p = EXPIRED) WrongState) (\<lambda>_.
       bnd (action_artifact (pr_action p)) (\<lambda>action.
       bnd (sealed E program (ai_key proposal_info) buffer action L) (\<lambda>_.
       let (key, bump) = buffer_authority_pda E program (ai_key proposal_info) in
       bnd (require (ai_key buffer_authority = key \<and> ai_key treasury = cf_treasury cfg) InvalidAccount) (\<lambda>_.
       bnd (invoke_signed E (LoaderClose (ai_key buffer) (ai_key treasury) (ai_key buffer_authority))
         (map ai_key [buffer, treasury, buffer_authority, loader])
         [[DOMAIN, ascii ''buffer'', wr_32 (ai_key proposal_info), [bump]]] L) (\<lambda>L.
       bnd (require (lamports_of L buffer = 0) InvalidArtifact) (\<lambda>_.
       Inr L)))))))))
   | _ \<Rightarrow> Inl NotEnoughAccountKeys)"

end
