(* ===== verification/Gov_Targets.thy ===== *)
theory Gov_Targets
  imports Gov_Upgrade
begin

text \<open>
  The target handlers of \<open>governance_controller_v3/src/processor.rs\<close>: registration of a target
  program with its gate, activation and freezing of a gate by quorum, and the typed create-once
  configuration of the Spread target.
\<close>

section \<open>Registration\<close>

definition register_target :: "env \<Rightarrow> pubkey \<Rightarrow> account_info list \<Rightarrow> byte list \<Rightarrow> ledger \<Rightarrow> program_error + ledger" where
  "register_target E program accounts data L = (case accounts of
     [payer, deployer, config_info, target, programdata, gate_info, authority, loader, system, a, b, c, ixs] \<Rightarrow>
       bnd (checks [privileges payer True True False, signer deployer, readonly config_info,
         privileges target False False True, writable programdata, writable gate_info, readonly authority,
         executable_at loader (loader_id E), executable_at system (system_program_id E),
         envelope E program accounts ixs data L]) (\<lambda>_.
       bnd (load_config E program config_info L) (\<lambda>cfg.
       bnd (checks (map (\<lambda>consent. bnd (seat cfg consent) (\<lambda>_. Inr ())) [a, b, c])) (\<lambda>_.
       let (gate_key, bump) = gate_pda E program (ai_key target);
           (authority_key, authority_bump) = target_authority_pda E program (ai_key target) in
       bnd (require (ai_key target \<noteq> program \<and> ai_key gate_info = gate_key \<and> ai_key authority = authority_key
         \<and> ai_key programdata = fst (find_program_address E [wr_32 (ai_key target)] (loader_id E)))
         InvalidAccount) (\<lambda>_.
       bnd (map_err gov (validate_program_programdata_linkage L target programdata (loader_id E))) (\<lambda>before.
       bnd (require (upgrade_authority before = Some (ai_key deployer)) Unauthorized) (\<lambda>_.
       bnd (clock E) (\<lambda>slot.
       let gate = \<lparr>gt_discriminator = ascii ''AGVGAT01'', gt_version = 1, gt_bump = bump,
             gt_initialized = True, gt_status = EmergencyFrozen, gt_controller_config = ai_key config_info,
             gt_target_program = ai_key target, gt_target_programdata = ai_key programdata, gt_epoch = 1,
             gt_active_proposal = 0, gt_freeze_slot = slot, gt_freeze_reason_code = 1,
             gt_last_completed_proposal = 0, gt_reserved = replicate 2 0\<rparr> in
       bnd (rent_get E) (\<lambda>rent.
       bnd (create_fixed_pda_account E program payer gate_info system rent GATE_LEN
         [DOMAIN, ascii ''gate'', wr_32 (ai_key target), [bump]] L) (\<lambda>L.
       bnd (save_gate program gate_info gate L) (\<lambda>L.
       bnd (invoke_signed E (SetUpgradeAuthorityChecked (ai_key target) (ai_key deployer) (ai_key authority))
         (map ai_key [programdata, deployer, authority, loader])
         [[DOMAIN, ascii ''target-authority'', wr_32 (ai_key target), [authority_bump]]] L) (\<lambda>L.
       bnd (map_err gov (validate_program_programdata_linkage L target programdata (loader_id E))) (\<lambda>after.
       bnd (require (upgrade_authority after = Some authority_key \<and> capacity after = capacity before
         \<and> deployed_slot after = deployed_slot before) InvalidAccount) (\<lambda>_.
       Inr L)))))))))))))
   | _ \<Rightarrow> Inl NotEnoughAccountKeys)"

section \<open>Gate transitions\<close>

definition execute_target_gate :: "env \<Rightarrow> pubkey \<Rightarrow> account_info list \<Rightarrow> hash32 \<Rightarrow> ledger \<Rightarrow> program_error + ledger" where
  "execute_target_gate E program accounts digest L = (case accounts of
     [config_info, proposal_info, gate_info] \<Rightarrow>
       bnd (checks [readonly config_info, writable proposal_info, writable gate_info]) (\<lambda>_.
       bnd (load_config E program config_info L) (\<lambda>cfg.
       bnd (load_proposal E program proposal_info (Some digest) L) (\<lambda>p.
       bnd (clock E) (\<lambda>slot.
       bnd (proposal_executable p cfg slot) (\<lambda>_.
       bnd (gate_policy (pr_action p)) (\<lambda>action.
       bnd (load_gate E program gate_info (gp_target action) L) (\<lambda>gate.
       bnd (require (gt_epoch gate = gp_expected_epoch action
         \<and> (gt_status gate = Active \<or> gt_status gate = EmergencyFrozen)) StaleProposal) (\<lambda>_.
       bnd (add (gt_epoch gate) 1) (\<lambda>epoch.
       let gate = gate\<lparr>gt_epoch := epoch,
             gt_status := (if gp_active action then Active else EmergencyFrozen),
             gt_freeze_slot := (if gp_active action then 0 else slot),
             gt_freeze_reason_code := (if gp_active action then 0 else 3),
             gt_active_proposal := 0, gt_last_completed_proposal := ai_key proposal_info\<rparr> in
       bnd (save_gate program gate_info gate L) (\<lambda>L.
       save_proposal E program proposal_info (p\<lparr>pr_state := EXECUTED, pr_executed_slot := slot\<rparr>) L))))))))))
   | _ \<Rightarrow> Inl NotEnoughAccountKeys)"

section \<open>The Spread configuration\<close>

definition execute_spread_light_config ::
    "env \<Rightarrow> pubkey \<Rightarrow> account_info list \<Rightarrow> hash32 \<Rightarrow> byte list \<Rightarrow> ledger \<Rightarrow> program_error + ledger" where
  "execute_spread_light_config E program accounts digest data L = (case accounts of
     [payer, config_info, proposal_info, target, programdata, gate_info, authority, light_config, system, ixs] \<Rightarrow>
       bnd (checks [privileges payer True True False, readonly config_info, writable proposal_info,
         executable_at target DEVNET_SPREAD, readonly programdata, readonly gate_info, readonly authority,
         writable light_config, executable_at system (system_program_id E),
         envelope E program accounts ixs data L]) (\<lambda>_.
       bnd (load_config E program config_info L) (\<lambda>cfg.
       bnd (load_proposal E program proposal_info (Some digest) L) (\<lambda>p.
       bnd (clock E) (\<lambda>slot.
       bnd (proposal_executable p cfg slot) (\<lambda>_.
       bnd (light_config_policy (pr_action p)) (\<lambda>policy.
       bnd (load_gate E program gate_info (ai_key target) L) (\<lambda>gate.
       let (authority_key, authority_bump) = target_authority_pda E program (ai_key target) in
       bnd (map_err gov (validate_program_programdata_linkage L target programdata (loader_id E))) (\<lambda>header.
       bnd (require (gt_status gate = Active \<and> gt_epoch gate = sl_expected_epoch policy
         \<and> sl_target policy = ai_key target \<and> sl_deployed_slot policy = deployed_slot header
         \<and> upgrade_authority header = Some authority_key \<and> ai_key authority = authority_key) StaleProposal) (\<lambda>_.
       let (config_key, config_bump) =
             find_program_address E [ascii ''compressible_config'', [0, 0]] (ai_key target);
           (rent_sponsor, sponsor_bump) = find_program_address E [ascii ''rent_sponsor''] (ai_key target) in
       bnd (require (ai_key light_config = config_key \<and> owner_of L light_config = system_program_id E
         \<and> data_of L light_config = []) InvalidAccount) (\<lambda>_.
       let config_lamports = lamports_of L light_config; payer_lamports = lamports_of L payer in
       bnd (rent_get E) (\<lambda>rent.
       let funding = saturating_sub (rent 156) config_lamports in
       bnd (require (payer_lamports \<ge> funding) InvalidAccount) (\<lambda>_.
       let rent_bytes = ser_light_rent_policy (sl_rent policy);
           inner_data = [216] @ wr_32 rent_sponsor @ wr_32 (sl_compression_authority policy) @ rent_bytes
             @ wr_u32 (sl_write_top_up policy) @ wr_u32 1 @ wr_32 (sl_address_tree policy) @ [0]
             @ ascii ''AGV1'' @ [1, 0, 0, 0] @ wr_u64 (sl_expected_epoch policy) in
       bnd (require (length inner_data = 130) InvalidEnvelope) (\<lambda>_.
       let inner = \<lparr>ix_program = ai_key target,
             ix_accounts =
               [\<lparr>am_pubkey = ai_key payer, am_signer = True, am_writable = True\<rparr>,
                \<lparr>am_pubkey = ai_key light_config, am_signer = False, am_writable = True\<rparr>,
                \<lparr>am_pubkey = ai_key programdata, am_signer = False, am_writable = False\<rparr>,
                \<lparr>am_pubkey = authority_key, am_signer = True, am_writable = False\<rparr>,
                \<lparr>am_pubkey = system_program_id E, am_signer = False, am_writable = False\<rparr>,
                \<lparr>am_pubkey = ai_key gate_info, am_signer = False, am_writable = False\<rparr>],
             ix_data = inner_data\<rparr> in
       bnd (invoke_signed E (Raw inner)
         (map ai_key [payer, light_config, programdata, authority, system, gate_info, target])
         [[DOMAIN, ascii ''target-authority'', wr_32 (ai_key target), [authority_bump]]] L) (\<lambda>L.
       let expected = ascii ''LightCfg'' @ [1] @ wr_u32 (sl_write_top_up policy) @ wr_32 authority_key
             @ wr_32 rent_sponsor @ wr_32 (sl_compression_authority policy) @ rent_bytes
             @ [0, config_bump, sponsor_bump] @ wr_u32 1 @ wr_32 (sl_address_tree policy) in
       bnd (if length expected = 156 \<and> owner_of L light_config = ai_key target
               \<and> \<not> executable light_config \<and> data_of L light_config = expected
            then bnd (add config_lamports funding) (\<lambda>total.
              require (lamports_of L light_config = total \<and> lamports_of L payer = payer_lamports - funding)
                InvalidAccount)
            else fail InvalidAccount) (\<lambda>_.
       save_proposal E program proposal_info (p\<lparr>pr_state := EXECUTED, pr_executed_slot := slot\<rparr>) L)))))))))))))))
   | _ \<Rightarrow> Inl NotEnoughAccountKeys)"

end
