(* ===== verification/Gov_Retirement.thy ===== *)
theory Gov_Retirement
  imports Gov_Upgrade
begin

text \<open>
  Permanent closure of a target and reclamation of its records, from
  \<open>governance_controller_v3/src/processor/retirement.rs\<close>.
\<close>

definition retire :: "env \<Rightarrow> pubkey \<Rightarrow> account_info list \<Rightarrow> hash32 \<Rightarrow> byte list \<Rightarrow> ledger \<Rightarrow> program_error + ledger" where
  "retire E program accounts digest data L = (case accounts of
     [config_info, proposal_info, target, programdata, gate_info, treasury, authority, loader, ixs] \<Rightarrow>
       bnd (checks ([readonly config_info] @ map writable [proposal_info, programdata, gate_info, treasury]
         @ [privileges target True False True, readonly authority, executable_at loader (loader_id E),
            envelope E program accounts ixs data L])) (\<lambda>_.
       bnd (load_config E program config_info L) (\<lambda>cfg.
       bnd (load_proposal E program proposal_info (Some digest) L) (\<lambda>p.
       bnd (clock E) (\<lambda>slot.
       bnd (proposal_executable p cfg slot) (\<lambda>_.
       bnd (retirement_policy (pr_action p)) (\<lambda>policy.
       bnd (load_gate E program gate_info (ai_key target) L) (\<lambda>gate.
       let (authority_key, bump) = target_authority_pda E program (ai_key target) in
       bnd (map_err gov (validate_program_programdata_linkage L target programdata (loader_id E))) (\<lambda>header.
       bnd (require (rt_target policy = ai_key target \<and> ai_key treasury = cf_treasury cfg
         \<and> ai_key authority = authority_key \<and> ai_key programdata = gt_target_programdata gate
         \<and> upgrade_authority header = Some authority_key \<and> deployed_slot header = rt_deployed_slot policy
         \<and> gt_epoch gate = rt_expected_epoch policy \<and> gt_status gate = EmergencyFrozen) StaleProposal) (\<lambda>_.
       bnd (checked_slice 45 (length (data_of L programdata)) (data_of L programdata)) (\<lambda>payload.
       bnd (require (hashv E [payload] = rt_payload_sha256 policy) InvalidArtifact) (\<lambda>_.
       let amount = lamports_of L programdata in
       bnd (add (lamports_of L treasury) amount) (\<lambda>expected_treasury.
       bnd (invoke_signed E (LoaderCloseAny (ai_key programdata) (ai_key treasury)
           (Some (ai_key authority)) (Some (ai_key target)))
         (map ai_key [programdata, treasury, authority, target, loader])
         [[DOMAIN, ascii ''target-authority'', wr_32 (ai_key target), [bump]]] L) (\<lambda>L.
       bnd (require (lamports_of L programdata = 0 \<and> lamports_of L treasury = expected_treasury)
         InvalidAccount) (\<lambda>_.
       bnd (add (gt_epoch gate) 1) (\<lambda>epoch.
       bnd (save_gate program gate_info (gate\<lparr>gt_epoch := epoch, gt_freeze_slot := slot,
         gt_freeze_reason_code := 4, gt_last_completed_proposal := ai_key proposal_info\<rparr>) L) (\<lambda>L.
       save_proposal E program proposal_info (p\<lparr>pr_state := EXECUTED, pr_executed_slot := slot\<rparr>) L))))))))))))))))
   | _ \<Rightarrow> Inl NotEnoughAccountKeys)"

section \<open>Reclaiming records\<close>

definition retired_target ::
    "env \<Rightarrow> pubkey \<Rightarrow> account_info \<Rightarrow> account_info \<Rightarrow> account_info \<Rightarrow> account_info \<Rightarrow> pubkey \<Rightarrow> ledger
      \<Rightarrow> program_error + unit" where
  "retired_target E program config_info target programdata treasury target_key L =
     bnd (checks [readonly config_info, privileges target False False True, readonly programdata,
       writable treasury]) (\<lambda>_.
     bnd (load_config E program config_info L) (\<lambda>cfg.
     bnd (require (target_key \<noteq> program \<and> target_key = ai_key target
       \<and> ai_key treasury = cf_treasury cfg \<and> owner_of L target = loader_id E
       \<and> ai_key programdata = fst (find_program_address E [wr_32 (ai_key target)] (loader_id E))
       \<and> lamports_of L programdata = 0
       \<and> (data_of L programdata = []
          \<or> (owner_of L programdata = loader_id E \<and> data_of L programdata = replicate 4 0)))
       InvalidAccount) (\<lambda>_.
     let bytes = data_of L target in
     bnd (if length bytes = 36 then
            bnd (checked_slice 0 4 bytes) (\<lambda>tag.
            if tag = wr_u32 2 then
              bnd (checked_slice 4 (length bytes) bytes) (\<lambda>key. Inr (key = wr_32 (ai_key programdata)))
            else Inr False)
          else Inr False) (\<lambda>linked.
     require linked InvalidAccount))))"

lemma retired_link:
  "bnd (if length bytes = 36 then
          bnd (checked_slice 0 4 bytes) (\<lambda>tag.
          if tag = wr_u32 2 then bnd (checked_slice 4 (length bytes) bytes) (\<lambda>key. Inr (key = k)) else Inr False)
        else Inr False) f
   = f (length bytes = 36 \<and> take 4 bytes = wr_u32 2 \<and> drop 4 bytes = k)"
  by (simp add: checked_slice_def subslice_def)

text \<open>The first loop: every record is the gate of the target, frozen, or a proposal about it; the
  lamports are summed with checked additions.\<close>

fun reclaim_total :: "env \<Rightarrow> pubkey \<Rightarrow> pubkey \<Rightarrow> ledger \<Rightarrow> account_info list \<Rightarrow> u64 \<Rightarrow> program_error + u64" where
  "reclaim_total E program target L [] acc = Inr acc"
| "reclaim_total E program target L (info # records) acc =
     bnd (writable info) (\<lambda>_.
     bnd (if ai_key info = fst (gate_pda E program target) then
            bnd (load_gate E program info target L) (\<lambda>gate.
            require (gt_status gate = EmergencyFrozen) WrongState)
          else
            bnd (load_proposal E program info None L) (\<lambda>p.
            bnd (explicit_target (pr_action p)) (\<lambda>t. require (t = target) InvalidAccount))) (\<lambda>_.
     bnd (add acc (lamports_of L info)) (\<lambda>acc.
     reclaim_total E program target L records acc)))"

text \<open>The second loop: lamports to zero, \<open>resize(0)\<close>, \<open>assign\<close> to the System program.\<close>

definition reclaim_account :: "env \<Rightarrow> account_info \<Rightarrow> ledger \<Rightarrow> ledger" where
  "reclaim_account E info L =
     set_owner info (system_program_id E) (set_data info [] (set_lamports info 0 L))"

definition reclaim_records :: "env \<Rightarrow> pubkey \<Rightarrow> account_info list \<Rightarrow> pubkey \<Rightarrow> ledger \<Rightarrow> program_error + ledger" where
  "reclaim_records E program accounts target_key L = (case accounts of
     config_info # target # programdata # treasury # records \<Rightarrow>
       bnd (retired_target E program config_info target programdata treasury target_key L) (\<lambda>_.
       bnd (require (records \<noteq> []) InvalidAccount) (\<lambda>_.
       bnd (reclaim_total E program (ai_key target) L records (lamports_of L treasury)) (\<lambda>total.
       Inr (set_lamports treasury total (fold (reclaim_account E) records L)))))
   | _ \<Rightarrow> Inl NotEnoughAccountKeys)"

definition reclaim_verification :: "env \<Rightarrow> pubkey \<Rightarrow> account_info list \<Rightarrow> pubkey \<Rightarrow> ledger \<Rightarrow> program_error + ledger" where
  "reclaim_verification E program accounts target_key L = (case accounts of
     [config_info, target, programdata, treasury, authority, metadata, verifier, system] \<Rightarrow>
       bnd (retired_target E program config_info target programdata treasury target_key L) (\<lambda>_.
       bnd (checks [writable authority, writable metadata, executable_at verifier VERIFY_PROGRAM,
         executable_at system (system_program_id E)]) (\<lambda>_.
       let (authority_key, bump) = target_authority_pda E program (ai_key target) in
       bnd (require (ai_key authority = authority_key \<and> owner_of L authority = system_program_id E
         \<and> data_of L authority = []
         \<and> ai_key metadata = fst (metadata_pda E authority_key (ai_key target))
         \<and> owner_of L metadata = VERIFY_PROGRAM) InvalidAccount) (\<lambda>_.
       bnd (add (lamports_of L authority) (lamports_of L metadata)) (\<lambda>amount.
       bnd (add (lamports_of L treasury) amount) (\<lambda>expected_treasury.
       let seeds = [DOMAIN, ascii ''target-authority'', wr_32 (ai_key target), [bump]];
           close_ix = \<lparr>ix_program = VERIFY_PROGRAM,
             ix_accounts =
               [\<lparr>am_pubkey = ai_key metadata, am_signer = False, am_writable = True\<rparr>,
                \<lparr>am_pubkey = authority_key, am_signer = True, am_writable = True\<rparr>,
                \<lparr>am_pubkey = ai_key target, am_signer = False, am_writable = False\<rparr>],
             ix_data = take 8 (wr_32 (sha256 E (ascii ''global:close'')))\<rparr> in
       bnd (invoke_signed E (Raw close_ix) (map ai_key [metadata, authority, target, verifier]) [seeds] L) (\<lambda>L.
       bnd (require (lamports_of L metadata = 0 \<and> lamports_of L authority = amount) InvalidAccount) (\<lambda>_.
       bnd (invoke_signed E (SystemTransfer (ai_key authority) (ai_key treasury) amount)
         (map ai_key [authority, treasury, system]) [seeds] L) (\<lambda>L.
       bnd (require (lamports_of L authority = 0 \<and> lamports_of L treasury = expected_treasury)
         InvalidAccount) (\<lambda>_.
       Inr L)))))))))
   | _ \<Rightarrow> Inl NotEnoughAccountKeys)"

end
