(* ===== verification/Gov_Publish.thy ===== *)
theory Gov_Publish
  imports Gov_Upgrade
begin

text \<open>
  Publication of build-verification metadata, from
  \<open>governance_controller_v3/src/processor/verification.rs\<close>: a quorum-approved policy is written
  to the external verification program's record, with every lamport movement checked.
\<close>

text \<open>An existing record must be one of a closed recipe.\<close>

definition check_existing ::
    "env \<Rightarrow> pubkey \<Rightarrow> verification_policy \<Rightarrow> bool \<Rightarrow> account_info \<Rightarrow> account_info \<Rightarrow> account_info \<Rightarrow> byte
      \<Rightarrow> byte list \<Rightarrow> ledger \<Rightarrow> program_error + unit" where
  "check_existing E program policy own target authority metadata metadata_bump expected L =
     (let bytes = data_of L metadata in
      bnd (matches_existing_record bytes expected own) (\<lambda>current_recipe.
      bnd (if \<not> own \<and> \<not> current_recipe then
             bnd (if vp_target policy = MAINNET_FUTURES then previous_futures_params policy program
                  else previous_spread_params policy program) (\<lambda>previous.
             matches_existing_record bytes
               (verification_record E (ai_key target) (ai_key authority) previous metadata_bump) False)
           else Inr False) (\<lambda>previous_recipe.
      require (owner_of L metadata = VERIFY_PROGRAM \<and> \<not> executable metadata
        \<and> (current_recipe \<or> previous_recipe)) InvalidAccount)))"

text \<open>When the external program shrank the record, the lamports it released go back to it.\<close>

definition return_excess ::
    "env \<Rightarrow> account_info \<Rightarrow> account_info \<Rightarrow> account_info \<Rightarrow> nat \<Rightarrow> nat \<Rightarrow> u64 \<Rightarrow> u64 \<Rightarrow> u64 \<Rightarrow> byte list list
      \<Rightarrow> ledger \<Rightarrow> program_error + ledger" where
  "return_excess E authority metadata system previous_size expected_len metadata_lamports
      authority_lamports funding seeds L =
     (if previous_size > expected_len then
        bnd (rent_get E) (\<lambda>rent.
        bnd (ok_or (checked_sub metadata_lamports (rent expected_len)) (program_error_from InvalidAccount)) (\<lambda>returned.
        bnd (if lamports_of L metadata = metadata_lamports - returned then
               bnd (add authority_lamports returned) (\<lambda>total.
               require (lamports_of L authority = total \<and> funding = 0) InvalidAccount)
             else fail InvalidAccount) (\<lambda>_.
        if returned > 0 then
          invoke_signed E (SystemTransfer (ai_key authority) (ai_key metadata) returned)
            (map ai_key [authority, metadata, system]) [seeds] L
        else Inr L)))
      else Inr L)"

definition publish :: "env \<Rightarrow> pubkey \<Rightarrow> account_info list \<Rightarrow> hash32 \<Rightarrow> byte list \<Rightarrow> ledger \<Rightarrow> program_error + ledger" where
  "publish E program accounts digest data L =
     bnd (if length accounts = 10 then Inr (accounts, None)
          else if length accounts = 11 then Inr (take 10 accounts, Some (accounts ! 10))
          else Inl NotEnoughAccountKeys) (\<lambda>(base, gate).
     case base of
       [payer, config_info, proposal_info, target, programdata, authority, metadata, verifier, system, ixs] \<Rightarrow>
         bnd (checks [privileges payer True True False, readonly config_info, writable proposal_info,
           privileges target False False True, readonly programdata, writable authority, writable metadata,
           executable_at verifier VERIFY_PROGRAM, executable_at system (system_program_id E),
           envelope E program accounts ixs data L]) (\<lambda>_.
         bnd (load_config E program config_info L) (\<lambda>cfg.
         bnd (load_proposal E program proposal_info (Some digest) L) (\<lambda>p.
         bnd (clock E) (\<lambda>slot.
         bnd (proposal_executable p cfg slot) (\<lambda>_.
         bnd (action_verification_policy (pr_action p)) (\<lambda>policy.
         bnd (require (vp_target policy = ai_key target) InvalidAccount) (\<lambda>_.
         let own = (ai_key target = program) in
         bnd (require (own = (gate = None)) InvalidAccount) (\<lambda>_.
         bnd (case gate of
                Some info \<Rightarrow> bnd (readonly info) (\<lambda>_.
                  bnd (load_gate E program info (ai_key target) L) (\<lambda>_. Inr ()))
              | None \<Rightarrow> Inr ()) (\<lambda>_.
         let (authority_key, bump) = (if own then authority_pda E program
               else target_authority_pda E program (ai_key target)) in
         bnd (map_err gov (validate_program_programdata_linkage L target programdata (loader_id E))) (\<lambda>header.
         bnd (require (ai_key programdata = fst (find_program_address E [wr_32 (ai_key target)] (loader_id E))
           \<and> ai_key authority = authority_key \<and> upgrade_authority header = Some authority_key
           \<and> deployed_slot header = vp_deployed_slot policy) StaleProposal) (\<lambda>_.
         bnd (require (owner_of L authority = system_program_id E \<and> data_of L authority = [])
           InvalidAccount) (\<lambda>_.
         let (metadata_key, metadata_bump) = metadata_pda E (ai_key authority) (ai_key target) in
         bnd (require (ai_key metadata = metadata_key) InvalidAccount) (\<lambda>_.
         bnd (verification_params policy program) (\<lambda>params.
         let expected = verification_record E (ai_key target) (ai_key authority) params metadata_bump;
             fresh = (owner_of L metadata = system_program_id E \<and> data_of L metadata = []);
             previous_size = length (data_of L metadata) in
         bnd (if \<not> fresh then
                check_existing E program policy own target authority metadata metadata_bump expected L
              else Inr ()) (\<lambda>_.
         let metadata_lamports = lamports_of L metadata; authority_lamports = lamports_of L authority;
             payer_lamports = lamports_of L payer in
         bnd (rent_get E) (\<lambda>rent.
         let funding = saturating_sub (rent (length expected)) metadata_lamports in
         bnd (require (funding \<le> 10000000 \<and> payer_lamports \<ge> funding) InvalidAccount) (\<lambda>_.
         bnd (if funding > 0 then
                invoke_signed E (SystemTransfer (ai_key payer) (ai_key authority) funding)
                  (map ai_key [payer, authority, system]) [] L
              else Inr L) (\<lambda>L.
         let inner = \<lparr>ix_program = VERIFY_PROGRAM,
               ix_accounts =
                 [\<lparr>am_pubkey = metadata_key, am_signer = False, am_writable = True\<rparr>,
                  \<lparr>am_pubkey = authority_key, am_signer = True, am_writable = True\<rparr>,
                  \<lparr>am_pubkey = ai_key target, am_signer = False, am_writable = False\<rparr>,
                  \<lparr>am_pubkey = system_program_id E, am_signer = False, am_writable = False\<rparr>],
               ix_data = (if fresh then INITIALIZE else UPDATE) @ params\<rparr>;
             seeds = upgrade_authority_seeds (ai_key target) bump (\<not> own) in
         bnd (invoke_signed E (Raw inner) (map ai_key [metadata, authority, target, system, verifier])
           [seeds] L) (\<lambda>L.
         bnd (return_excess E authority metadata system previous_size (length expected) metadata_lamports
           authority_lamports funding seeds L) (\<lambda>L.
         bnd (if owner_of L metadata = VERIFY_PROGRAM \<and> \<not> executable metadata
                 \<and> data_of L metadata = expected
              then bnd (add metadata_lamports funding) (\<lambda>total.
                require (lamports_of L metadata = total \<and> lamports_of L authority = authority_lamports
                  \<and> lamports_of L payer = payer_lamports - funding) InvalidAccount)
              else fail InvalidAccount) (\<lambda>_.
         save_proposal E program proposal_info
           (p\<lparr>pr_state := EXECUTED, pr_executed_slot := slot\<rparr>) L)))))))))))))))))))))
     | _ \<Rightarrow> Inl NotEnoughAccountKeys)"

end
