(* ===== verification/Gov_Dispatch.thy ===== *)
theory Gov_Dispatch
  imports Gov_Targets Gov_Retirement Gov_Publish
begin

text \<open>
  The closed instruction set of \<open>governance_controller_v3/src/instruction.rs\<close> and the entry point
  \<open>process\<close> of \<open>processor.rs\<close>.
\<close>

section \<open>Instructions\<close>

datatype gov_instruction =
  Initialize "pubkey list" pubkey
| Create u64 action
| SealBuffer hash32
| VerifyChunk hash32 u32 byte "hash32 list"
| Approve hash32
| Cancel hash32
| Expire
| ExecutePolicy hash32
| ExecuteControllerUpgrade hash32
| CloseBuffer hash32
| ExtendController hash32
| RegisterTarget
| ExecuteTargetUpgrade hash32
| ExtendTarget hash32
| ExecuteTargetGate hash32
| ExecuteSpreadLightConfig hash32
| PublishVerification hash32
| RetireTarget hash32
| ReclaimRetiredTargetRecords pubkey
| ReclaimRetiredTargetVerification pubkey

text \<open>The Borsh tag is the position of the variant.\<close>

fun ser_instruction :: "gov_instruction \<Rightarrow> byte list" where
  "ser_instruction (Initialize seats treasury) = 0 # concat (map wr_32 seats) @ wr_32 treasury"
| "ser_instruction (Create expected_id action) = 1 # wr_u64 expected_id @ ser_action action"
| "ser_instruction (SealBuffer digest) = 2 # wr_32 digest"
| "ser_instruction (VerifyChunk digest index proof_len nodes) =
     3 # wr_32 digest @ wr_u32 index @ wr_u8 proof_len @ concat (map wr_32 nodes)"
| "ser_instruction (Approve digest) = 4 # wr_32 digest"
| "ser_instruction (Cancel digest) = 5 # wr_32 digest"
| "ser_instruction Expire = [6]"
| "ser_instruction (ExecutePolicy digest) = 7 # wr_32 digest"
| "ser_instruction (ExecuteControllerUpgrade digest) = 8 # wr_32 digest"
| "ser_instruction (CloseBuffer digest) = 9 # wr_32 digest"
| "ser_instruction (ExtendController digest) = 10 # wr_32 digest"
| "ser_instruction RegisterTarget = [11]"
| "ser_instruction (ExecuteTargetUpgrade digest) = 12 # wr_32 digest"
| "ser_instruction (ExtendTarget digest) = 13 # wr_32 digest"
| "ser_instruction (ExecuteTargetGate digest) = 14 # wr_32 digest"
| "ser_instruction (ExecuteSpreadLightConfig digest) = 15 # wr_32 digest"
| "ser_instruction (PublishVerification digest) = 16 # wr_32 digest"
| "ser_instruction (RetireTarget digest) = 17 # wr_32 digest"
| "ser_instruction (ReclaimRetiredTargetRecords target) = 18 # wr_32 target"
| "ser_instruction (ReclaimRetiredTargetVerification target) = 19 # wr_32 target"

definition one_key :: "(256 word \<Rightarrow> gov_instruction) \<Rightarrow> byte list \<Rightarrow> (gov_instruction \<times> byte list) option" where
  "one_key f bs = map_option (\<lambda>(k, r). (f k, r)) (rd_32 bs)"

definition de_instruction :: "gov_instruction reader" where
  "de_instruction data = (case data of [] \<Rightarrow> None | tag # bs \<Rightarrow>
     if tag = 0 then do { (seats, bs) \<leftarrow> rd_array 5 rd_32 bs; (treasury, bs) \<leftarrow> rd_32 bs;
                          Some (Initialize seats treasury, bs) }
     else if tag = 1 then do { (expected_id, bs) \<leftarrow> rd_u64 bs; (action, bs) \<leftarrow> de_action bs;
                               Some (Create expected_id action, bs) }
     else if tag = 2 then one_key SealBuffer bs
     else if tag = 3 then do { (digest, bs) \<leftarrow> rd_32 bs; (index, bs) \<leftarrow> rd_u32 bs;
                               (proof_len, bs) \<leftarrow> rd_u8 bs; (nodes, bs) \<leftarrow> rd_array 7 rd_32 bs;
                               Some (VerifyChunk digest index proof_len nodes, bs) }
     else if tag = 4 then one_key Approve bs
     else if tag = 5 then one_key Cancel bs
     else if tag = 6 then Some (Expire, bs)
     else if tag = 7 then one_key ExecutePolicy bs
     else if tag = 8 then one_key ExecuteControllerUpgrade bs
     else if tag = 9 then one_key CloseBuffer bs
     else if tag = 10 then one_key ExtendController bs
     else if tag = 11 then Some (RegisterTarget, bs)
     else if tag = 12 then one_key ExecuteTargetUpgrade bs
     else if tag = 13 then one_key ExtendTarget bs
     else if tag = 14 then one_key ExecuteTargetGate bs
     else if tag = 15 then one_key ExecuteSpreadLightConfig bs
     else if tag = 16 then one_key PublishVerification bs
     else if tag = 17 then one_key RetireTarget bs
     else if tag = 18 then one_key ReclaimRetiredTargetRecords bs
     else if tag = 19 then one_key ReclaimRetiredTargetVerification bs
     else None)"

text \<open>\<open>0..=9 | 11..=12 | 14..=19\<close>\<close>

definition open_tag :: "byte \<Rightarrow> bool" where
  "open_tag t \<longleftrightarrow> t \<le> 9 \<or> (11 \<le> t \<and> t \<le> 12) \<or> (14 \<le> t \<and> t \<le> 19)"

definition unpack :: "byte list \<Rightarrow> program_error + gov_instruction" where
  "unpack data =
     (if length data > MAX_DATA \<or> data = [] \<or> \<not> open_tag (hd data) then Inl InvalidInstructionData
      else ok_or (try_from_slice de_instruction data) InvalidInstructionData)"

section \<open>The entry point\<close>

text \<open>The match of \<open>process\<close>.\<close>

definition dispatch :: "env \<Rightarrow> pubkey \<Rightarrow> account_info list \<Rightarrow> byte list \<Rightarrow> gov_instruction \<Rightarrow> ledger \<Rightarrow> program_error + ledger" where
  "dispatch E program accounts data i L = (case i of
       Initialize seats treasury \<Rightarrow> initialize E program accounts seats treasury L
     | Create expected_id action \<Rightarrow> create E program accounts expected_id action L
     | SealBuffer digest \<Rightarrow> seal E program accounts digest L
     | VerifyChunk digest index proof_len nodes \<Rightarrow> verify E program accounts digest index proof_len nodes L
     | Approve digest \<Rightarrow> approve E program accounts digest False L
     | Cancel digest \<Rightarrow> approve E program accounts digest True L
     | Expire \<Rightarrow> expire E program accounts L
     | ExecutePolicy digest \<Rightarrow> execute_policy E program accounts digest L
     | ExecuteControllerUpgrade digest \<Rightarrow> execute_upgrade E program accounts digest data False L
     | CloseBuffer digest \<Rightarrow> close_buffer E program accounts digest L
     | RegisterTarget \<Rightarrow> register_target E program accounts data L
     | ExecuteTargetUpgrade digest \<Rightarrow> execute_upgrade E program accounts digest data True L
     | ExecuteTargetGate digest \<Rightarrow> execute_target_gate E program accounts digest L
     | ExecuteSpreadLightConfig digest \<Rightarrow> execute_spread_light_config E program accounts digest data L
     | PublishVerification digest \<Rightarrow> publish E program accounts digest data L
     | RetireTarget digest \<Rightarrow> retire E program accounts digest data L
     | ReclaimRetiredTargetRecords target \<Rightarrow> reclaim_records E program accounts target L
     | ReclaimRetiredTargetVerification target \<Rightarrow> reclaim_verification E program accounts target L
     | ExtendTarget _ \<Rightarrow> Inl InvalidInstructionData
     | ExtendController _ \<Rightarrow> Inl InvalidInstructionData)"

definition process :: "env \<Rightarrow> pubkey \<Rightarrow> account_info list \<Rightarrow> byte list \<Rightarrow> ledger \<Rightarrow> program_error + ledger" where
  "process E program accounts data L =
     bnd (unpack data) (\<lambda>i.
     bnd (require_distinct_accounts accounts) (\<lambda>_.
     dispatch E program accounts data i L))"

end
