(* ===== verification/No_Panic.thy ===== *)
theory No_Panic
  imports Gov_Dispatch Artifact_Facts Account_Store
begin

text \<open>
  No account list and no instruction data makes the program panic: every index and every slice the
  handlers take is in range, and every copy between slices is between slices of one length.  A value is calm when it is not a panic; the rules below push calmness through the result
  combinators, so that each handler is one line.
\<close>

definition calm :: "program_error + 'a \<Rightarrow> bool" where
  "calm r \<longleftrightarrow> r \<noteq> Inl Panicked"

named_theorems calm_intros \<open>calmness of operations\<close>

lemma calm_Inr [simp, calm_intros]: "calm (Inr x)"
  by (simp add: calm_def)

lemma calm_Inl [simp]: "calm (Inl e) \<longleftrightarrow> e \<noteq> Panicked"
  by (simp add: calm_def)

lemma calm_bnd [calm_intros]:
  "calm m \<Longrightarrow> (\<And>x. m = Inr x \<Longrightarrow> calm (f x)) \<Longrightarrow> calm (bnd m f)"
  by (cases m) (simp_all add: calm_def)

lemma calm_checks [calm_intros]: "\<forall>c \<in> set cs. calm c \<Longrightarrow> calm (checks cs)"
  by (induction cs) (auto intro: calm_bnd)

lemma program_error_from_calm [simp]: "program_error_from e \<noteq> Panicked"
  by (simp add: program_error_from_def)

lemma gov_calm [simp]: "gov e \<noteq> Panicked"
  by (simp add: gov_def)

lemma calm_require [simp, calm_intros]: "calm (require c e)"
  by (simp add: require_def)

lemma calm_ok_or [calm_intros]: "e \<noteq> Panicked \<Longrightarrow> calm (ok_or m e)"
  by (cases m) simp_all

lemma calm_add [simp, calm_intros]: "calm (add a b)"
  by (simp add: add_def calm_ok_or)

lemma calm_gov [simp, calm_intros]: "calm (map_err gov r)"
  by (cases r) simp_all

lemma calm_if [calm_intros]: "(c \<Longrightarrow> calm a) \<Longrightarrow> (\<not> c \<Longrightarrow> calm b) \<Longrightarrow> calm (if c then a else b)"
  by simp

section \<open>Account operations\<close>

lemma calm_privileges [simp, calm_intros]: "calm (validate_exact_privileges i w s x)"
  by (simp add: validate_exact_privileges_def)

lemma calm_guards [simp, calm_intros]:
  "calm (privileges i w s x)" "calm (readonly i)" "calm (writable i)" "calm (signer i)" "calm (executable_at i k)"
  by (auto simp: privileges_def readonly_def writable_def signer_def executable_at_def intro!: calm_bnd)

lemma calm_load [simp, calm_intros]: "calm (load_fixed_controller_account de L program i n)"
  by (simp add: load_fixed_controller_account_def calm_ok_or)

lemma calm_store [simp, calm_intros]: "calm (store_fixed_controller_account ser L program i v n)"
  by (auto simp: store_fixed_controller_account_def encode_fixed_account_def copy_from_slice_def Let_def
      result_simps intro!: calm_bnd split: if_splits)

lemma calm_timing [simp, calm_intros]: "calm (timing_validate t)" "calm (boundaries t c)"
  by (auto simp: timing_validate_def boundaries_def intro!: calm_bnd)

lemma calm_seats [simp, calm_intros]: "calm (validate_seats s)"
proof -
  have "calm (validate_seats_from prior s)" for prior
    by (induction prior s rule: validate_seats_from.induct) (auto intro: calm_bnd)
  then show ?thesis by (simp add: validate_seats_def)
qed

lemma calm_padded [simp, calm_intros]: "calm (decode_padded de n k e a)"
  by (auto simp: decode_padded_def intro!: calm_bnd calm_ok_or)

lemma calm_actions [simp, calm_intros]:
  "calm (action_target_upgrade a)" "calm (action_upgrade a)" "calm (gate_policy a)" "calm (action_timing a)"
  "calm (action_seats a)" "calm (light_config_policy a)" "calm (retirement_policy a)"
  "calm (action_verification_policy a)" "calm (action_artifact a)"
  by (auto simp: action_target_upgrade_def action_upgrade_def gate_policy_def action_timing_def
      action_seats_def light_config_policy_def retirement_policy_def action_verification_policy_def
      action_artifact_def spread_light_config_policy_validate_def retire_target_policy_validate_def
      verification_policy_validate_def intro!: calm_bnd calm_ok_or)

lemma calm_targets [simp, calm_intros]: "calm (explicit_target a)" "calm (action_validate a)"
  by (auto simp: explicit_target_def action_validate_def spread_light_config_policy_validate_def
      retire_target_policy_validate_def verification_policy_validate_def intro!: calm_bnd)

lemma calm_proposal [simp, calm_intros]:
  "calm (extension_validate p)" "calm (proposal_validate E p program key)" "calm (proposal_current p cfg slot)"
  "calm (proposal_executable p cfg slot)" "calm (proposal_approve p n slot c)"
  by (auto simp: extension_validate_def proposal_validate_def proposal_current_def proposal_executable_def
      proposal_approve_def Let_def intro!: calm_bnd)

lemma calm_config [simp, calm_intros]: "calm (config_validate E c program key)"
  by (auto simp: config_validate_def intro!: calm_bnd)

lemma calm_loads [simp, calm_intros]:
  "calm (load_config E program i L)" "calm (load_proposal E program i d L)" "calm (load_gate E program i t L)"
  "calm (seat cfg i)" "calm (save_proposal E program i p L)" "calm (save_gate program i g L)"
  by (auto simp: load_config_def load_proposal_def load_gate_def seat_def save_proposal_def save_gate_def
      intro!: calm_bnd calm_ok_or)

lemma calm_chunks [simp, calm_intros]: "calm (chunk_count n)"
  by (auto simp: chunk_count_def intro!: calm_bnd)

text \<open>The bitmap of a proposal that was read from an account has sixteen bytes, twelve and four.\<close>

lemma loaded_bitmap:
  assumes "load_proposal E program i d L = Inr p"
  shows "length (pr_verified_chunks p) = 12" "length (pr_verified_chunks_high p) = 4"
  using assms by (simp_all add: load_proposal_ok wf_proposal_def)

lemma calm_complete:
  assumes "load_proposal E program i d L = Inr p"
  shows "calm (complete p)"
  using loaded_bitmap [OF assms]
  by (auto simp: complete_def Let_def verified_bitmap_def MAX_CHUNKS_def intro!: calm_bnd calm_checks)

lemma calm_mark:
  assumes "load_proposal E program i d L = Inr p"
  shows "calm (mark_chunk_verified p k)"
proof -
  note lens = loaded_bitmap [OF assms]
  let ?bytes = "if unat k div 8 < 12 then pr_verified_chunks p else pr_verified_chunks_high p"
  let ?at = "if unat k div 8 < 12 then unat k div 8 else unat k div 8 - LOW_BITMAP_BYTES"
  have "?at < length ?bytes" if "unat k < MAX_CHUNKS"
    using that lens by (auto simp: LOW_BITMAP_BYTES_def MAX_CHUNKS_def)
  then show ?thesis
    unfolding mark_chunk_verified_def Let_def lens
    by (intro calm_bnd calm_require calm_Inr) (simp_all only: require_ok checked_in_range calm_Inr)
qed

lemma calm_sealed [simp, calm_intros]: "calm (sealed E program k b a L)"
  by (auto simp: sealed_def intro!: calm_bnd)

section \<open>Hashing and recipes\<close>

lemma calm_map_err [simp, calm_intros]: "calm (map_err (\<lambda>_. program_error_from e) r)"
  by (cases r) simp_all

lemma calm_try_map [calm_intros]: "(\<And>x. x \<in> set xs \<Longrightarrow> calm (f x)) \<Longrightarrow> calm (try_map f xs)"
  by (induction xs) (auto intro!: calm_bnd)

lemma calm_reduce [simp, calm_intros]: "calm (reduce E level)"
proof -
  have "calm (checked_nth (projr (reduce_loop E level)) 0)" if nonempty: "level \<noteq> []" "is_power_of_two (length level)"
  proof -
    obtain d where "length level = 2 ^ d" using nonempty by (auto simp: is_power_of_two_iff)
    then show ?thesis using v3_tree.loop_root [of level d E] by simp
  qed
  then show ?thesis
    unfolding reduce_def by (subst reduce_loop_projr) (auto simp: require_ok intro!: calm_bnd)
qed

lemma calm_hashing [simp, calm_intros]:
  "calm (leaf_hash E i c)" "calm (empty_hash E k)" "calm (padding_hash E a b)"
  by (auto simp: leaf_hash_def empty_hash_def padding_hash_def Let_def
      intro!: calm_bnd calm_try_map calm_ok_or)

lemma calm_verify_path [simp, calm_intros]: "calm (verify_path E count padded level node current sibs)"
  by (induction sibs arbitrary: level node current) (auto simp: Let_def intro!: calm_bnd calm_ok_or)

lemma calm_verify_chunk [simp, calm_intros]: "calm (verify_chunk E root len i c sibs)"
  by (auto simp: verify_chunk_def Let_def intro!: calm_bnd calm_ok_or)

lemma calm_params [simp, calm_intros]:
  "calm (params_for p c b)" "calm (verification_params p c)" "calm (previous_futures_params p c)"
  "calm (previous_spread_params p c)"
  by (auto simp: params_for_def verification_params_def previous_futures_params_def
      previous_spread_params_def verification_policy_validate_def Let_def intro!: calm_bnd)

lemma calm_matches: "calm (matches_existing_record bytes expected own)"
  using matches_defined [of bytes expected own] by auto

section \<open>Handlers\<close>

text \<open>The external calls report errors; they do not panic inside the program.\<close>

definition env_calm :: "env \<Rightarrow> bool" where
  "env_calm E \<longleftrightarrow> calm (rent_get E) \<and> calm (clock_get E) \<and>
     (\<forall>c keys seeds L. calm (invoke_signed E c keys seeds L)) \<and>
     (\<forall>i bs. calm (load_current_index_checked E i bs)) \<and>
     (\<forall>n i bs. calm (load_instruction_at_checked E n i bs))"

lemma calm_env [calm_intros]:
  assumes "env_calm E"
  shows "calm (rent_get E)" "calm (clock_get E)" "calm (clock E)" "calm (invoke_signed E c keys seeds L)"
    "calm (load_current_index_checked E i bs)" "calm (load_instruction_at_checked E n i bs)"
  using assms by (auto simp: env_calm_def clock_def intro!: calm_bnd)

lemma calm_envelope [calm_intros]:
  assumes "env_calm E"
  shows "calm (envelope E program accounts i data L)"
proof -
  have "calm (envelope_prefix E i L ns seen)" for ns seen
    using assms by (induction E i L ns seen rule: envelope_prefix.induct)
      (auto intro!: calm_bnd calm_ok_or calm_env)
  with assms show ?thesis
    by (auto simp: envelope_def Let_def intro!: calm_bnd calm_ok_or calm_env calm_checks dest: set_zip_rightD)
qed

lemma calm_create_pda [calm_intros]:
  "env_calm E \<Longrightarrow> calm (create_fixed_pda_account E program payer pda system rent space seeds L)"
  by (auto simp: create_fixed_pda_account_def fund_and_allocate_def Let_def
      intro!: calm_bnd calm_checks calm_env)

lemma sealed_payload:
  assumes "sealed E program key b a L = Inr u"
  shows "37 + unat (ar_artifact_length a) \<le> length (data_of L b)"
proof -
  obtain h where h: "parse_upgradeable_buffer (data_of L b) = Inr h"
    and len: "of_nat (bh_payload_length h) = ar_artifact_length a"
    using assms by (auto simp: sealed_def bnd_Inr_iff require_ok map_err_Inr_iff validate_buffer_account_def
        split: if_splits)
  from h have "37 + bh_payload_length h = length (data_of L b)"
    by (auto simp: parse_upgradeable_buffer_def bnd_Inr_iff LOADER_BUFFER_METADATA_LEN_def split: if_splits)
  moreover have "unat (ar_artifact_length a) \<le> bh_payload_length h"
    by (simp add: len [symmetric] unat_of_nat)
  ultimately show ?thesis by simp
qed

lemma chunk_slice_ok:
  assumes "sealed E program key b a L = Inr u" and "chunk_count (ar_artifact_length a) = Inr count"
    and "index < count"
  shows "checked_slice (37 + unat index * unat CHUNK)
      (min (37 + unat index * unat CHUNK + unat CHUNK) (37 + unat (ar_artifact_length a))) (data_of L b)
    = Inr (chunk_at (take (unat (ar_artifact_length a)) (drop 37 (data_of L b))) (unat index))"
proof -
  let ?len = "unat (ar_artifact_length a)" and ?i = "unat index"
  have "?i < div_ceil ?len 16384"
    using assms(2,3) by (simp add: chunk_count_unat word_less_nat_alt)
  then have i: "?i * 16384 < ?len" by (simp add: less_div_ceil_iff)
  have "subslice (37 + ?i * 16384) (min (37 + ?i * 16384 + 16384) (37 + ?len)) xs
      = chunk_at (take ?len (drop 37 xs)) ?i" for xs :: "byte list"
    using i by (simp add: subslice_def chunk_at_def drop_take min_def add.commute)
  then show ?thesis
    using sealed_payload [OF assms(1)] i by (simp add: checked_slice_def)
qed

lemma chunk_slice_calm:
  assumes "sealed E program key b a L = Inr u" and "chunk_count (ar_artifact_length a) = Inr count"
    and "index < count"
  shows "calm (checked_slice (37 + unat index * 16384)
    (min (16421 + unat index * 16384) (37 + unat (ar_artifact_length a))) (data_of L b))"
  using chunk_slice_ok [OF assms] by (simp add: calm_def)

lemma calm_verify:
  assumes "env_calm E" and "length nodes = 7"
  shows "calm (verify E program accounts digest index proof_len nodes L)"
proof -
  have nodes: "calm (checked_slice 0 (unat proof_len) nodes)" if "proof_len \<le> 7"
    using that assms(2) by (simp add: checked_slice_def word_le_nat_alt)
  have unused: "bnd (if c \<and> proof_len \<le> 7
        then bnd (checked_slice (unat proof_len) (length nodes) nodes) (\<lambda>unused. Inr (\<forall>v \<in> set unused. v = 0))
        else Inr False) f
      = f (c \<and> proof_len \<le> 7 \<and> (\<forall>v \<in> set (drop (unat proof_len) nodes). v = 0))"
    for c and f :: "bool \<Rightarrow> program_error + ledger"
    using assms(2) by (auto simp: checked_slice_def subslice_def word_le_nat_alt)
  have "calm (verify E program [a, b, c] digest index proof_len nodes L)" for a b c
    unfolding verify_def list.case Let_def unused
    by (intro calm_bnd calm_checks)
      (auto simp: require_ok nodes intro: calm_env [OF assms(1)] chunk_slice_calm calm_mark)
  moreover have "verify E program accounts digest index proof_len nodes L = Inl NotEnoughAccountKeys"
    if "\<nexists>a b c. accounts = [a, b, c]"
    using that by (auto simp: verify_def split: list.split)
  ultimately show ?thesis by (metis calm_Inl program_error.distinct(27))
qed

lemma calm_council [calm_intros]:
  assumes "env_calm E"
  shows "calm (initialize E program accounts seats treasury L)"
    "calm (create E program accounts expected_id action L)"
    "calm (approve E program accounts digest cancel L)"
    "calm (expire E program accounts L)"
    "calm (execute_policy E program accounts digest L)"
  by (auto simp: initialize_def create_def approve_def expire_def execute_policy_def Let_def case_prod_unfold
      intro!: calm_bnd calm_checks calm_ok_or calm_env [OF assms] calm_create_pda [OF assms] intro: calm_complete
      split: list.split)

lemma calm_scope [calm_intros]: "calm (upgrade_scope E program p t d g L)" "calm (split_target_accounts accounts m)"
  by (auto simp: upgrade_scope_def split_target_accounts_def intro!: calm_bnd split: option.split)

lemma calm_upgrade_handlers [calm_intros]:
  assumes "env_calm E"
  shows "calm (seal E program accounts digest L)"
    "calm (close_buffer E program accounts digest L)"
    "calm (register_target E program accounts data L)"
    "calm (execute_target_gate E program accounts digest L)"
  by (auto simp: seal_def close_buffer_def register_target_def execute_target_gate_def Let_def case_prod_unfold
      intro!: calm_bnd calm_checks calm_ok_or calm_env [OF assms] calm_create_pda [OF assms]
        calm_envelope [OF assms] split: list.split)

lemma calm_execute_upgrade:
  assumes "env_calm E"
  shows "calm (execute_upgrade E program accounts digest data target_mode L)"
  by (auto simp: execute_upgrade_def Let_def case_prod_unfold
      intro!: calm_bnd calm_checks calm_scope calm_env [OF assms] calm_envelope [OF assms] split: list.split option.split)
    (erule calm_complete)

lemma calm_execute_spread:
  assumes "env_calm E"
  shows "calm (execute_spread_light_config E program accounts digest data L)"
  by (auto simp: execute_spread_light_config_def Let_def case_prod_unfold
      intro!: calm_bnd calm_checks calm_env [OF assms] calm_envelope [OF assms] split: list.split)

lemma linkage_long:
  "validate_program_programdata_linkage L t d loader = Inr h \<Longrightarrow> 45 \<le> length (data_of L d)"
  by (auto simp: validate_program_programdata_linkage_def parse_upgradeable_programdata_def bnd_Inr_iff
      LOADER_PROGRAMDATA_METADATA_LEN_def split: if_splits)

lemma calm_retire:
  assumes "env_calm E"
  shows "calm (retire E program accounts digest data L)"
proof -
  have "calm (checked_slice 45 (length (data_of L d)) (data_of L d))"
    if "map_err gov (validate_program_programdata_linkage L t d (loader_id E)) = Inr h" for t d h
    using that linkage_long by (auto simp: checked_slice_def map_err_Inr_iff)
  then show ?thesis
    by (auto simp: retire_def Let_def case_prod_unfold
        intro!: calm_bnd calm_checks calm_env [OF assms] calm_envelope [OF assms] split: list.split)
qed

lemma calm_reclaim:
  assumes "env_calm E"
  shows "calm (reclaim_records E program accounts target L)"
    "calm (reclaim_verification E program accounts target L)"
proof -
  have total: "calm (reclaim_total E program t L records n)" for t records n
    by (induction E program t L records n rule: reclaim_total.induct) (auto intro!: calm_bnd)
  have retired: "calm (retired_target E program c t d r k L)" for c t d r k
    by (auto simp: retired_target_def retired_link Let_def intro!: calm_bnd calm_checks)
  show "calm (reclaim_records E program accounts target L)"
    using total retired by (auto simp: reclaim_records_def intro!: calm_bnd split: list.split)
  show "calm (reclaim_verification E program accounts target L)"
    using retired by (auto simp: reclaim_verification_def Let_def case_prod_unfold
        intro!: calm_bnd calm_checks calm_env [OF assms] split: list.split)
qed

lemma calm_publish:
  assumes "env_calm E"
  shows "calm (publish E program accounts digest data L)"
proof -
  have existing: "calm (check_existing E program policy own t au m b ex L)" for policy own t au m b ex
    by (auto simp: check_existing_def Let_def intro!: calm_bnd calm_matches)
  have excess: "calm (return_excess E au m sy n k a b c sd M)" for au m sy n k a b c sd M
    by (auto simp: return_excess_def intro!: calm_bnd calm_ok_or calm_env [OF assms])
  show ?thesis
    using existing excess
    by (auto simp: publish_def Let_def case_prod_unfold
        intro!: calm_bnd calm_checks calm_env [OF assms] calm_envelope [OF assms]
        split: list.split option.split)
qed

end
