(* ===== verification/Upgrade_Facts.thy ===== *)
theory Upgrade_Facts
  imports Council_Facts No_Panic
begin

text \<open>
  What the artifact handlers guarantee: a verified chunk is a chunk of the sealed buffer, the
  envelope pins the whole transaction, and an installation happens only for a complete, sealed,
  quorum-approved artifact.
\<close>

section \<open>Verification\<close>

definition sealed_payload_of :: "artifact \<Rightarrow> account_info \<Rightarrow> ledger \<Rightarrow> byte list" where
  "sealed_payload_of a buffer L = take (unat (ar_artifact_length a)) (drop 37 (data_of L buffer))"

lemma artifact_is_upgrade: "action_artifact a = Inr u \<Longrightarrow> is_upgrade a"
  by (auto simp: action_artifact_def action_target_upgrade_def is_upgrade_def bnd_Inr_iff require_ok
      split: if_splits)

text \<open>A conjunction whose right side may panic and is evaluated only when the left side holds.\<close>

lemma guarded_and:
  "(if c then bnd m (\<lambda>x. Inr (Q x)) else Inr False) = Inr True \<longleftrightarrow> c \<and> (\<exists>x. m = Inr x \<and> Q x)"
  by (cases m) auto

lemma verify_steps:
  assumes "verify E program [ci, pi, buffer] digest index proof_len nodes L = Inr M"
  obtains cfg p slot a count p' where
    "load_config E program ci L = Inr cfg" "load_proposal E program pi (Some digest) L = Inr p"
    "clock E = Inr slot" "proposal_current p cfg slot = Inr ()" "action_artifact (pr_action p) = Inr a"
    "sealed E program (ai_key pi) buffer a L = Inr ()" "chunk_count (ar_artifact_length a) = Inr count"
    "index < count" "proof_len \<le> 7" "mark_chunk_verified p index = Inr p'"
    "verify_chunk E (ar_merkle_root a) (ar_artifact_length a) index
       (chunk_at (sealed_payload_of a buffer L) (unat index)) (take (unat proof_len) nodes) = Inr ()"
    "save_proposal E program pi p' L = Inr M"
proof -
  obtain cfg p slot a count p' chunk sibs where step:
    "load_config E program ci L = Inr cfg" "load_proposal E program pi (Some digest) L = Inr p"
    "clock E = Inr slot" "proposal_current p cfg slot = Inr ()" "action_artifact (pr_action p) = Inr a"
    "sealed E program (ai_key pi) buffer a L = Inr ()" "chunk_count (ar_artifact_length a) = Inr count"
    "index < count" "proof_len \<le> 7" "mark_chunk_verified p index = Inr p'"
    "checked_slice (37 + unat index * unat CHUNK)
      (min (37 + unat index * unat CHUNK + unat CHUNK) (37 + unat (ar_artifact_length a))) (data_of L buffer) = Inr chunk"
    "checked_slice 0 (unat proof_len) nodes = Inr sibs"
    "verify_chunk E (ar_merkle_root a) (ar_artifact_length a) index chunk sibs = Inr ()"
    "save_proposal E program pi p' L = Inr M"
    using assms unfolding verify_def list.case Let_def by (auto simp: require_ok guarded_and elim!: bnd_okE)
  have "chunk = chunk_at (sealed_payload_of a buffer L) (unat index)"
    using chunk_slice_ok [OF step(6-8)] step(11) by (simp add: sealed_payload_of_def)
  moreover have "sibs = take (unat proof_len) nodes"
    using step(12) by (auto simp: checked_slice_def subslice_def split: if_splits)
  ultimately show ?thesis using step that by blast
qed

text \<open>C25: A successful chunk verification marks exactly that chunk of that proposal, once, and only
  when the bytes at its place in the sealed buffer hash, with the given siblings, to the approved
  root; nothing else in the proposal or the ledger changes.\<close>

theorem verify_effect:
  assumes "verify E program [ci, pi, buffer] digest index proof_len nodes L = Inr M"
  shows "\<exists>p a p'. load_proposal E program pi (Some digest) L = Inr p \<and> pr_state p = PENDING \<and>
    action_artifact (pr_action p) = Inr a \<and> sealed E program (ai_key pi) buffer a L = Inr () \<and>
    verify_chunk E (ar_merkle_root a) (ar_artifact_length a) index
      (chunk_at (sealed_payload_of a buffer L) (unat index)) (take (unat proof_len) nodes) = Inr () \<and>
    load_proposal E program pi (Some digest) M = Inr p' \<and>
    marked (verified_bitmap p') = insert (unat index) (marked (verified_bitmap p)) \<and>
    unat index \<notin> marked (verified_bitmap p) \<and>
    unat index < div_ceil (unat (ar_artifact_length a)) 16384 \<and>
    p' = p\<lparr>pr_verified_chunks := pr_verified_chunks p', pr_verified_count := pr_verified_count p + 1,
           pr_verified_chunks_high := pr_verified_chunks_high p'\<rparr> \<and>
    M = set_data pi (ser_proposal p') L"
  using assms
proof (rule verify_steps)
  fix cfg p slot a count p'
  assume step: "load_proposal E program pi (Some digest) L = Inr p" "proposal_current p cfg slot = Inr ()"
    "action_artifact (pr_action p) = Inr a" "sealed E program (ai_key pi) buffer a L = Inr ()"
    "chunk_count (ar_artifact_length a) = Inr count" "index < count"
    "mark_chunk_verified p index = Inr p'"
    "verify_chunk E (ar_merkle_root a) (ar_artifact_length a) index
       (chunk_at (sealed_payload_of a buffer L) (unat index)) (take (unat proof_len) nodes) = Inr ()"
    "save_proposal E program pi p' L = Inr M"
  note p = step(1) [unfolded load_proposal_ok]
  have wf: "wf_proposal p" using p by blast
  note mk = mark_chunk_marked [OF wf step(7)]
  have M: "M = set_data pi (ser_proposal p') L" "load_proposal E program pi None M = Inr p'"
    using proposal_store.save_writes [OF step(9) mk(5)] by blast+
  have "pr_digest p' = pr_digest p" by (subst mk(6)) simp
  then have "load_proposal E program pi (Some digest) M = Inr p'"
    using M(2) p by (simp add: load_proposal_ok)
  moreover have "pr_state p = PENDING" using step(2) by (simp add: proposal_current_ok)
  moreover have "unat index < div_ceil (unat (ar_artifact_length a)) 16384"
    using step(5,6) by (simp add: chunk_count_unat word_less_nat_alt)
  ultimately show ?thesis using step mk M(1) by blast
qed

section \<open>The envelope\<close>

lemma envelope_prefix_ok:
  "envelope_prefix E info L ns seen = Inr () \<Longrightarrow>
     \<exists>bits. length bits = length ns \<and> distinct bits \<and> (\<forall>b \<in> set bits. seen AND b = 0) \<and>
       (\<forall>j < length ns. \<exists>ix. load_instruction_at_checked E (ns ! j) info (data_of L info) = Inr ix \<and>
          ix_program ix = compute_budget_id E \<and> ix_accounts ix = [] \<and> budget_bit (ix_data ix) = Some (bits ! j))"
proof (induction ns arbitrary: seen)
  case Nil
  then show ?case by (intro exI [of _ "[]"]) simp
next
  case (Cons n ns)
  from Cons.prems obtain ix b where ix: "load_instruction_at_checked E n info (data_of L info) = Inr ix"
    "ix_program ix = compute_budget_id E" "ix_accounts ix = []" "budget_bit (ix_data ix) = Some b"
    "seen AND b = 0" "envelope_prefix E info L ns (seen OR b) = Inr ()"
    by (auto simp: require_ok ok_or_Inr_iff elim!: bnd_okE)
  from Cons.IH [OF ix(6)] obtain bits where bits: "length bits = length ns" "distinct bits"
    "\<forall>c \<in> set bits. (seen OR b) AND c = 0"
    "\<forall>j < length ns. \<exists>ix. load_instruction_at_checked E (ns ! j) info (data_of L info) = Inr ix \<and>
          ix_program ix = compute_budget_id E \<and> ix_accounts ix = [] \<and> budget_bit (ix_data ix) = Some (bits ! j)"
    by blast
  have "b \<noteq> 0" using ix(4) by (auto simp: budget_bit_def split: if_splits)
  have both: "seen AND c = 0" "b AND c = 0" if "c \<in> set bits" for c
    using bits(3) that by (auto simp: bit.conj_disj_distrib2 bit_eq_iff bit_simps)
  then have "b \<notin> set bits" using \<open>b \<noteq> 0\<close> by fastforce
  moreover have "\<forall>j < length (n # ns). \<exists>ix. load_instruction_at_checked E ((n # ns) ! j) info (data_of L info) = Inr ix \<and>
          ix_program ix = compute_budget_id E \<and> ix_accounts ix = [] \<and> budget_bit (ix_data ix) = Some ((b # bits) ! j)"
    using ix bits(4) by (auto simp: nth_Cons split: nat.split)
  ultimately show ?case
    using bits ix(5) both by (intro exI [of _ "b # bits"]) auto
qed

lemma checks_map2_ok:
  "length xs = length ys \<Longrightarrow> checks (map2 (\<lambda>x y. require (P x y) e) xs ys) = Inr u \<longleftrightarrow> list_all2 P xs ys"
  by (auto simp: checks_Inr_iff require_ok list_all2_iff)

definition meta_matches :: "account_meta \<Rightarrow> account_info \<Rightarrow> bool" where
  "meta_matches meta account \<longleftrightarrow> am_pubkey meta = ai_key account \<and> am_signer meta = is_signer account
     \<and> am_writable meta = is_writable account"

text \<open>C39: A transaction accepted by the envelope check consists of at most two
  ComputeBudget instructions of different kinds, without accounts, followed by this one instruction
  as the last, with exactly this program, data and account list.\<close>

theorem envelope_pins_transaction:
  assumes "envelope E program accounts info data L = Inr ()"
  shows "\<exists>n current bits first. load_current_index_checked E info (data_of L info) = Inr n \<and> unat n \<le> 2 \<and>
    get_range (data_of L info) 0 2 = Some first \<and> unat (le_word first :: u16) = unat n + 1 \<and>
    load_instruction_at_checked E (unat n) info (data_of L info) = Inr current \<and>
    ix_program current = program \<and> ix_data current = data \<and>
    list_all2 meta_matches (ix_accounts current) accounts \<and>
    length bits = unat n \<and> distinct bits \<and>
    (\<forall>j < unat n. \<exists>ix. load_instruction_at_checked E j info (data_of L info) = Inr ix \<and>
       ix_program ix = compute_budget_id E \<and> ix_accounts ix = [] \<and> budget_bit (ix_data ix) = Some (bits ! j))"
proof -
  obtain n first current where step:
    "load_current_index_checked E info (data_of L info) = Inr n" "get_range (data_of L info) 0 2 = Some first"
    "unat (le_word first :: u16) = unat n + 1" "unat n \<le> 2"
    "load_instruction_at_checked E (unat n) info (data_of L info) = Inr current"
    "ix_program current = program" "ix_data current = data" "length (ix_accounts current) = length accounts"
    "checks (map2 (\<lambda>meta account. require (am_pubkey meta = ai_key account
         \<and> am_signer meta = is_signer account \<and> am_writable meta = is_writable account) InvalidEnvelope)
         (ix_accounts current) accounts) = Inr ()"
    "envelope_prefix E info L [0..<unat n] 0 = Inr ()"
    using assms by (auto simp: envelope_def Let_def require_ok ok_or_Inr_iff elim!: bnd_okE)
  from envelope_prefix_ok [OF step(10)] obtain bits where "length bits = unat n" "distinct bits"
    "\<forall>j < unat n. \<exists>ix. load_instruction_at_checked E j info (data_of L info) = Inr ix \<and>
       ix_program ix = compute_budget_id E \<and> ix_accounts ix = [] \<and> budget_bit (ix_data ix) = Some (bits ! j)"
    by auto
  moreover have "list_all2 meta_matches (ix_accounts current) accounts"
    using step(9) unfolding checks_map2_ok [OF step(8)] by (simp add: meta_matches_def [abs_def])
  ultimately show ?thesis using step by blast
qed

section \<open>Installation\<close>

text \<open>The accounts of an installation, in the order the handler names them.\<close>

record upgrade_accounts =
  ua_config :: account_info
  ua_proposal :: account_info
  ua_program :: account_info
  ua_programdata :: account_info
  ua_buffer :: account_info
  ua_treasury :: account_info
  ua_authority :: account_info
  ua_buffer_authority :: account_info
  ua_loader :: account_info
  ua_rent :: account_info
  ua_clock :: account_info
  ua_ixs :: account_info

definition upgrade_list :: "upgrade_accounts \<Rightarrow> account_info list" where
  "upgrade_list u = [ua_config u, ua_proposal u, ua_program u, ua_programdata u, ua_buffer u, ua_treasury u,
     ua_authority u, ua_buffer_authority u, ua_loader u, ua_rent u, ua_clock u, ua_ixs u]"

lemma split_target_ok:
  "split_target_accounts accounts mode = Inr (rest, g) \<longleftrightarrow>
     (if mode then (\<exists>info. accounts = rest @ [info] \<and> g = Some info \<and> writable info = Inr ())
      else rest = accounts \<and> g = None)"
proof -
  have "accounts \<noteq> [] \<Longrightarrow> rest = butlast accounts \<longleftrightarrow> accounts = rest @ [last accounts]"
    by (metis append_butlast_last_id butlast_snoc)
  then show ?thesis
    by (auto simp: split_target_accounts_def bnd_Inr_iff)
qed

text \<open>The last step of an installation: the gate advances in target mode.\<close>

definition finish_gate :: "env \<Rightarrow> pubkey \<Rightarrow> upgrade_accounts \<Rightarrow> account_info option \<Rightarrow> u64 \<Rightarrow> ledger
    \<Rightarrow> program_error + ledger" where
  "finish_gate E program u gate_info slot L =
     (case gate_info of
        Some info \<Rightarrow>
          bnd (load_gate E program info (ai_key (ua_program u)) L) (\<lambda>gate.
          bnd (add (gt_epoch gate) 1) (\<lambda>epoch.
          save_gate program info (gate\<lparr>gt_epoch := epoch, gt_freeze_slot := slot,
            gt_freeze_reason_code := 2, gt_last_completed_proposal := ai_key (ua_proposal u)\<rparr>) L))
      | None \<Rightarrow> Inr L)"

lemma execute_upgrade_steps:
  assumes "execute_upgrade E program accounts digest data mode L = Inr M"
  obtains u g cfg p slot a scope before L1 L2 after L3 where
    "accounts = upgrade_list u @ (case g of Some i \<Rightarrow> [i] | None \<Rightarrow> [])" "mode \<longleftrightarrow> g \<noteq> None"
    "envelope E program accounts (ua_ixs u) data L = Inr ()"
    "load_config E program (ua_config u) L = Inr cfg"
    "load_proposal E program (ua_proposal u) (Some digest) L = Inr p"
    "clock E = Inr slot" "proposal_executable p cfg slot = Inr ()" "complete p = Inr ()"
    "action_artifact (pr_action p) = Inr a"
    "upgrade_scope E program p (ua_program u) (ua_programdata u) g L = Inr scope"
    "validate_program_programdata_linkage L (ua_program u) (ua_programdata u) (loader_id E) = Inr before"
    "upgrade_authority before = Some (fst scope)" "of_nat (capacity before) \<ge> ar_artifact_length a"
    "ai_key (ua_treasury u) = cf_treasury cfg" "ai_key (ua_authority u) = fst scope"
    "sealed E program (ai_key (ua_proposal u)) (ua_buffer u) a L = Inr ()"
    "invoke_signed E (SetBufferAuthorityChecked (ai_key (ua_buffer u)) (ai_key (ua_buffer_authority u)) (ai_key (ua_authority u)))
       (map ai_key [ua_buffer u, ua_buffer_authority u, ua_authority u, ua_loader u])
       [[DOMAIN, ascii ''buffer'', wr_32 (ai_key (ua_proposal u)),
           [snd (buffer_authority_pda E program (ai_key (ua_proposal u)))]],
        upgrade_authority_seeds (ai_key (ua_program u)) (snd scope) mode] L = Inr L1"
    "invoke_signed E (LoaderUpgrade (ai_key (ua_program u)) (ai_key (ua_buffer u)) (ai_key (ua_authority u)) (ai_key (ua_treasury u)))
       (map ai_key [ua_programdata u, ua_program u, ua_buffer u, ua_treasury u, ua_rent u, ua_clock u, ua_authority u, ua_loader u])
       [upgrade_authority_seeds (ai_key (ua_program u)) (snd scope) mode] L1 = Inr L2"
    "validate_program_programdata_linkage L2 (ua_program u) (ua_programdata u) (loader_id E) = Inr after"
    "upgrade_authority after = Some (fst scope)" "deployed_slot after = slot"
    "(of_nat (capacity after) :: u64) = of_nat (capacity before)"
    "finish_gate E program u g slot L2 = Inr L3"
    "save_proposal E program (ua_proposal u) (executed p slot) L3 = Inr M"
proof -
  obtain rest g where split: "split_target_accounts accounts mode = Inr (rest, g)"
    using assms by (auto simp: execute_upgrade_def elim!: bnd_okE)
  have acc: "accounts = rest @ (case g of Some i \<Rightarrow> [i] | None \<Rightarrow> [])" "mode \<longleftrightarrow> g \<noteq> None"
    using split by (auto simp: split_target_ok split: if_splits)
  have "\<exists>a b c d e f h i j k l m. rest = [a, b, c, d, e, f, h, i, j, k, l, m]"
    using assms by (auto simp: execute_upgrade_def split split: list.splits)
  then obtain ci pi pr pd bu tr au ba lo re cl ix where "rest = [ci, pi, pr, pd, bu, tr, au, ba, lo, re, cl, ix]"
    by blast
  then obtain u where u: "rest = upgrade_list u"
    by (metis upgrade_accounts.select_convs upgrade_list_def)
  show ?thesis
    using assms unfolding execute_upgrade_def split u upgrade_list_def bnd.simps list.case case_prod_unfold
      Let_def fst_conv snd_conv
    apply (elim bnd_okE)
    apply (simp (no_asm_use) only: require_ok map_err_Inr_iff checks_Inr_iff)
    apply (elim conjE)
    apply (rule that [of u g])
                       apply (simp add: acc u upgrade_list_def; fail)
                      apply (rule acc(2))
                     apply (simp; fail)
                    apply (assumption | (simp add: executed_def finish_gate_def; fail))+
    done
qed

lemma scope_target:
  "upgrade_scope E program p t d (Some i) L = Inr s \<longleftrightarrow>
     ai_key d = fst (find_program_address E [wr_32 (ai_key t)] (loader_id E)) \<and>
     s = target_authority_pda E program (ai_key t) \<and>
     (\<exists>a g. action_target_upgrade (pr_action p) = Inr a \<and> tu_target a = ai_key t \<and>
       load_gate E program i (ai_key t) L = Inr g \<and> gt_epoch g = tu_gate_epoch a \<and>
       gt_status g = EmergencyFrozen)"
  by (auto simp: upgrade_scope_def bnd_Inr_iff require_ok)

lemma scope_controller:
  "upgrade_scope E program p t d None L = Inr s \<longleftrightarrow>
     ai_key d = fst (find_program_address E [wr_32 (ai_key t)] (loader_id E)) \<and>
     s = authority_pda E program \<and> ac_kind (pr_action p) = UPGRADE_CONTROLLER \<and> ai_key t = program \<and>
     (\<exists>u. action_upgrade (pr_action p) = Inr u \<and> up_controller_release u = CONTROLLER_RELEASE)"
  by (auto simp: upgrade_scope_def bnd_Inr_iff require_ok)

lemma finish_gate_frame:
  assumes "finish_gate E program u g slot L = Inr M" and "\<And>i. g = Some i \<Longrightarrow> k \<noteq> ai_key i"
  shows "M k = L k"
  using assms by (auto simp: finish_gate_def bnd_Inr_iff save_gate_ok ledger_simps split: option.splits)

lemma finish_gate_loaded:
  assumes "finish_gate E program u (Some i) slot L = Inr M"
    and "load_gate E program i (ai_key (ua_program u)) L = Inr g"
  shows "\<exists>epoch. unat epoch = unat (gt_epoch g) + 1 \<and>
    load_gate E program i (ai_key (ua_program u)) M = Inr (g\<lparr>gt_epoch := epoch, gt_freeze_slot := slot,
      gt_freeze_reason_code := 2, gt_last_completed_proposal := ai_key (ua_proposal u)\<rparr>)"
  using assms by (auto simp: finish_gate_def bnd_Inr_iff save_gate_ok add_ok load_gate_ok ledger_simps wf_gate_def)

lemma linkage_local:
  assumes "L (ai_key t) = M (ai_key t)" and "L (ai_key d) = M (ai_key d)"
  shows "validate_program_programdata_linkage L t d loader = validate_program_programdata_linkage M t d loader"
  unfolding validate_program_programdata_linkage_def assms ..

text \<open>C4: Code is installed only for a proposal with a quorum in its execution window whose every
  chunk was verified and whose buffer is still sealed with the approved length, into a ProgramData
  large enough and still under the council's authority.  The proposal ends executed; a target's gate
  was frozen at the approved epoch, stays frozen and advances by one epoch; a controller upgrade
  names this release.\<close>

theorem execute_upgrade_effect:
  assumes "execute_upgrade E program accounts digest data mode L = Inr M"
    and "cpi_frame E" and "distinct (map ai_key accounts)"
  shows "\<exists>u g p slot a before after. accounts = upgrade_list u @ (case g of Some i \<Rightarrow> [i] | None \<Rightarrow> []) \<and>
    load_proposal E program (ua_proposal u) (Some digest) L = Inr p \<and> clock E = Inr slot \<and>
    has_quorum p slot \<and> action_artifact (pr_action p) = Inr a \<and>
    marked (verified_bitmap p) = {..<div_ceil (unat (ar_artifact_length a)) 16384} \<and>
    sealed E program (ai_key (ua_proposal u)) (ua_buffer u) a L = Inr () \<and>
    validate_program_programdata_linkage L (ua_program u) (ua_programdata u) (loader_id E) = Inr before \<and>
    (of_nat (capacity before) :: u64) \<ge> ar_artifact_length a \<and>
    validate_program_programdata_linkage M (ua_program u) (ua_programdata u) (loader_id E) = Inr after \<and>
    upgrade_authority after = upgrade_authority before \<and> deployed_slot after = slot \<and>
    load_proposal E program (ua_proposal u) (Some digest) M = Inr (executed p slot) \<and>
    (case g of
       None \<Rightarrow> \<not> mode \<and> ai_key (ua_program u) = program \<and>
         (\<exists>w. action_upgrade (pr_action p) = Inr w \<and> up_controller_release w = CONTROLLER_RELEASE)
     | Some i \<Rightarrow> mode \<and> (\<exists>gate gate' w. load_gate E program i (ai_key (ua_program u)) L = Inr gate \<and>
         load_gate E program i (ai_key (ua_program u)) M = Inr gate' \<and>
         action_target_upgrade (pr_action p) = Inr w \<and> tu_target w = ai_key (ua_program u) \<and>
         gt_status gate = EmergencyFrozen \<and> gt_epoch gate = tu_gate_epoch w \<and>
         gt_status gate' = EmergencyFrozen \<and> unat (gt_epoch gate') = unat (gt_epoch gate) + 1 \<and>
         gt_last_completed_proposal gate' = ai_key (ua_proposal u)))"
  using assms(1)
proof (rule execute_upgrade_steps)
  fix u g cfg p slot a scope before L1 L2 after L3
  assume acc: "accounts = upgrade_list u @ (case g of Some i \<Rightarrow> [i] | None \<Rightarrow> [])" "mode \<longleftrightarrow> g \<noteq> None"
    and step: "load_proposal E program (ua_proposal u) (Some digest) L = Inr p" "clock E = Inr slot"
    "proposal_executable p cfg slot = Inr ()" "complete p = Inr ()" "action_artifact (pr_action p) = Inr a"
    "upgrade_scope E program p (ua_program u) (ua_programdata u) g L = Inr scope"
    "validate_program_programdata_linkage L (ua_program u) (ua_programdata u) (loader_id E) = Inr before"
    "upgrade_authority before = Some (fst scope)" "of_nat (capacity before) \<ge> ar_artifact_length a"
    "sealed E program (ai_key (ua_proposal u)) (ua_buffer u) a L = Inr ()"
    "invoke_signed E (SetBufferAuthorityChecked (ai_key (ua_buffer u)) (ai_key (ua_buffer_authority u)) (ai_key (ua_authority u)))
       (map ai_key [ua_buffer u, ua_buffer_authority u, ua_authority u, ua_loader u])
       [[DOMAIN, ascii ''buffer'', wr_32 (ai_key (ua_proposal u)),
           [snd (buffer_authority_pda E program (ai_key (ua_proposal u)))]],
        upgrade_authority_seeds (ai_key (ua_program u)) (snd scope) mode] L = Inr L1"
    "invoke_signed E (LoaderUpgrade (ai_key (ua_program u)) (ai_key (ua_buffer u)) (ai_key (ua_authority u)) (ai_key (ua_treasury u)))
       (map ai_key [ua_programdata u, ua_program u, ua_buffer u, ua_treasury u, ua_rent u, ua_clock u, ua_authority u, ua_loader u])
       [upgrade_authority_seeds (ai_key (ua_program u)) (snd scope) mode] L1 = Inr L2"
    "validate_program_programdata_linkage L2 (ua_program u) (ua_programdata u) (loader_id E) = Inr after"
    "upgrade_authority after = Some (fst scope)" "deployed_slot after = slot"
    "finish_gate E program u g slot L2 = Inr L3"
    "save_proposal E program (ua_proposal u) (executed p slot) L3 = Inr M"
  note p = step(1) [unfolded load_proposal_ok]
  have wf: "wf_proposal p" using p by blast
  have M: "M = set_data (ua_proposal u) (ser_proposal (executed p slot)) L3"
    using step(17) by (simp add: save_proposal_ok)
  have quorum: "has_quorum p slot" using executable_quorum step(3) p by blast
  have bits: "marked (verified_bitmap p) = {..<div_ceil (unat (ar_artifact_length a)) 16384}"
    using step(4,5) unfolding complete_ok [OF wf] by auto
  have loaded: "load_proposal E program (ua_proposal u) (Some digest) M = Inr (executed p slot)"
    by (rule load_executed [OF step(1) wf step(17)])
  have gate: "case g of
       None \<Rightarrow> \<not> mode \<and> ai_key (ua_program u) = program \<and>
         (\<exists>w. action_upgrade (pr_action p) = Inr w \<and> up_controller_release w = CONTROLLER_RELEASE)
     | Some i \<Rightarrow> mode \<and> (\<exists>gate gate' w. load_gate E program i (ai_key (ua_program u)) L = Inr gate \<and>
         load_gate E program i (ai_key (ua_program u)) M = Inr gate' \<and>
         action_target_upgrade (pr_action p) = Inr w \<and> tu_target w = ai_key (ua_program u) \<and>
         gt_status gate = EmergencyFrozen \<and> gt_epoch gate = tu_gate_epoch w \<and>
         gt_status gate' = EmergencyFrozen \<and> unat (gt_epoch gate') = unat (gt_epoch gate) + 1 \<and>
         gt_last_completed_proposal gate' = ai_key (ua_proposal u))"
  proof (cases g)
    case None
    then show ?thesis using step(6) acc(2) by (simp add: scope_controller)
  next
    case (Some i)
    obtain w gate where g: "action_target_upgrade (pr_action p) = Inr w" "tu_target w = ai_key (ua_program u)"
      "load_gate E program i (ai_key (ua_program u)) L = Inr gate" "gt_epoch gate = tu_gate_epoch w"
      "gt_status gate = EmergencyFrozen"
      using step(6) unfolding Some scope_target by blast
    have fresh: "ai_key i \<notin> set (map ai_key (upgrade_list u))"
      using assms(3) unfolding acc(1) Some by simp
    then have "L1 (ai_key i) = L (ai_key i)" "L2 (ai_key i) = L1 (ai_key i)"
      using cpi_frameD [OF step(11) assms(2)] cpi_frameD [OF step(12) assms(2)]
      by (simp_all add: upgrade_list_def)
    then have "load_gate E program i (ai_key (ua_program u)) L2 = Inr gate"
      using g(3) load_local_facts(3) [of L2 i L] by simp
    from finish_gate_loaded [OF step(16) [unfolded Some] this] obtain epoch where
      e: "unat epoch = unat (gt_epoch gate) + 1"
      "load_gate E program i (ai_key (ua_program u)) L3 = Inr (gate\<lparr>gt_epoch := epoch, gt_freeze_slot := slot,
        gt_freeze_reason_code := 2, gt_last_completed_proposal := ai_key (ua_proposal u)\<rparr>)"
      by blast
    have "ai_key i \<noteq> ai_key (ua_proposal u)" using fresh by (simp add: upgrade_list_def)
    with e(2) have "load_gate E program i (ai_key (ua_program u)) M = Inr (gate\<lparr>gt_epoch := epoch, gt_freeze_slot := slot,
        gt_freeze_reason_code := 2, gt_last_completed_proposal := ai_key (ua_proposal u)\<rparr>)"
      using load_set_other(3) [of i "ua_proposal u"] by (simp add: M)
    with Some g e(1) acc(2) show ?thesis by auto
  qed
  have same: "upgrade_authority after = upgrade_authority before" using step(8,14) by simp
  have kept: "M k = L2 k" if "k \<noteq> ai_key (ua_proposal u)" "\<And>i. g = Some i \<Longrightarrow> k \<noteq> ai_key i" for k
    using finish_gate_frame [OF step(16) that(2)] that(1) by (simp add: M ledger_simps)
  have "M (ai_key (ua_program u)) = L2 (ai_key (ua_program u))"
    "M (ai_key (ua_programdata u)) = L2 (ai_key (ua_programdata u))"
    using assms(3) by (auto simp: acc(1) upgrade_list_def intro!: kept)
  then have linked: "validate_program_programdata_linkage M (ua_program u) (ua_programdata u) (loader_id E) = Inr after"
    using step(13) linkage_local [of M "ua_program u" L2 "ua_programdata u"] by simp
  show ?thesis
    using acc(1) step(1,2) quorum step(5) bits step(10,7,9) linked same step(15) loaded gate by blast
qed

end
