(* ===== verification/Dispatch_Facts.thy ===== *)
theory Dispatch_Facts
  imports No_Panic
begin

text \<open>
  The instruction decoder is exact, and the entry point never panics.
\<close>

section \<open>The instruction codec\<close>

fun wf_instruction :: "gov_instruction \<Rightarrow> bool" where
  "wf_instruction (Initialize seats treasury) \<longleftrightarrow> length seats = 5"
| "wf_instruction (Create expected_id action) \<longleftrightarrow> wf_action action"
| "wf_instruction (VerifyChunk digest index proof_len nodes) \<longleftrightarrow> length nodes = 7"
| "wf_instruction _ \<longleftrightarrow> True"

fun retired_variant :: "gov_instruction \<Rightarrow> bool" where
  "retired_variant (ExtendController digest) = True"
| "retired_variant (ExtendTarget digest) = True"
| "retired_variant _ = False"

lemma one_key_ser [simp]: "one_key f (wr_32 k @ r) = Some (f k, r)"
  by (simp add: one_key_def)

lemma one_key_SomeD: "one_key f bs = Some (x, r) \<Longrightarrow> \<exists>k. bs = wr_32 k @ r \<and> x = f k"
  by (auto simp: one_key_def dest: key_codec.ser_de)

lemma de_ser_instruction: "wf_instruction x \<Longrightarrow> de_instruction (ser_instruction x @ r) = Some (x, r)"
proof (cases x)
  case (Initialize seats treasury)
  moreover assume "wf_instruction x"
  ultimately show ?thesis
    using key_codec.rd_array_ser [of seats "wr_32 treasury @ r"] by (simp add: de_instruction_def)
next
  case (VerifyChunk digest index proof_len nodes)
  moreover assume "wf_instruction x"
  ultimately show ?thesis
    using key_codec.rd_array_ser [of nodes r] by (simp add: de_instruction_def)
qed (simp_all add: de_instruction_def action_codec.de_ser)

lemma ser_de_instruction:
  assumes "de_instruction bs = Some (x, r)"
  shows "bs = ser_instruction x @ r \<and> wf_instruction x"
  using assms unfolding de_instruction_def
  by (auto simp: bind_eq_Some_conv split: list.splits if_splits
      dest!: one_key_SomeD borsh_readD key_codec.ser_rd_array action_readD)

lemma instruction_length: "wf_instruction x \<Longrightarrow> length (ser_instruction x) \<le> 262"
  using key_codec.array_size by (cases x) (simp_all add: action_codec.ser_size del: length_concat)

lemma open_tag_iff: "open_tag (hd (ser_instruction x)) \<longleftrightarrow> \<not> retired_variant x"
  by (cases x) (simp_all add: open_tag_def)

lemma unpack_ser:
  assumes "wf_instruction x" and "\<not> retired_variant x"
  shows "unpack (ser_instruction x) = Inr x"
proof -
  have "de_instruction (ser_instruction x) = Some (x, [])"
    using de_ser_instruction [of x "[]"] assms(1) by simp
  moreover have "ser_instruction x \<noteq> []" by (cases x) auto
  moreover have "length (ser_instruction x) \<le> MAX_DATA"
    using instruction_length [of x] assms(1) by (simp add: MAX_DATA_def)
  ultimately show ?thesis
    using assms(2) open_tag_iff [of x] by (simp add: unpack_def try_from_slice_def)
qed

text \<open>C36: The decoder accepts exactly the canonical encodings of the well-formed
  instructions whose tag is not retired, and returns that instruction; the size limit never refuses
  one of them.\<close>

theorem unpack_exact:
  "unpack data = Inr x \<longleftrightarrow> data = ser_instruction x \<and> wf_instruction x \<and> \<not> retired_variant x"
proof
  assume "unpack data = Inr x"
  then have dec: "try_from_slice de_instruction data = Some x" "open_tag (hd data)"
    by (auto simp: unpack_def ok_or_Inr_iff split: if_splits)
  then have "de_instruction data = Some (x, [])"
    by (auto simp: try_from_slice_def split: option.splits list.splits)
  with ser_de_instruction have "data = ser_instruction x" "wf_instruction x" by fastforce+
  with dec(2) show "data = ser_instruction x \<and> wf_instruction x \<and> \<not> retired_variant x"
    by (simp add: open_tag_iff)
qed (simp add: unpack_ser)

section \<open>The entry point\<close>

lemma unpack_wf: "unpack data = Inr x \<Longrightarrow> wf_instruction x \<and> \<not> retired_variant x"
  by (auto simp: unpack_def ok_or_Inr_iff try_from_slice_def open_tag_iff
      dest: ser_de_instruction split: if_splits option.splits list.splits)

text \<open>C35: No program id, account list, instruction data or ledger makes the entry point
  panic, when the runtime calls it makes do not: every access to the chunk bitmap and to a level of the
  Merkle tree is in range, so is every slice of a buffer, a stored record, a loader account or the nodes
  of a proof, and every write of an account copies as many bytes as it holds.\<close>

theorem process_never_panics:
  assumes "env_calm E"
  shows "process E program accounts data L \<noteq> Inl Panicked"
proof -
  have "calm (process E program accounts data L)"
    unfolding process_def
  proof (intro calm_bnd)
    show "calm (unpack data)" by (auto simp: unpack_def intro!: calm_ok_or)
    show "calm (require_distinct_accounts accounts)"
    proof -
      have "calm (require_distinct_from prior accounts)" for prior
        by (induction prior accounts rule: require_distinct_from.induct) auto
      then show ?thesis by (simp add: require_distinct_accounts_def)
    qed
  next
    fix i assume i: "unpack data = Inr i"
    then show "calm (dispatch E program accounts data i L)"
      using unpack_wf [OF i] assms
      by (cases i) (auto simp: dispatch_def intro: calm_verify calm_council calm_upgrade_handlers calm_execute_upgrade
          calm_execute_spread calm_publish calm_retire calm_reclaim)
  qed
  then show ?thesis by (simp add: calm_def)
qed

theorem process_never_panics_witness:
  "process sample_env 500 [] [6] (\<lambda>k. \<lparr>lamports = 0, acc_data = [], owner = 0\<rparr>) \<noteq> Inl Panicked"
  by (rule process_never_panics) (simp add: env_calm_def sample_env_def)

end
