(* ===== verification/Lifecycle_Refinement.thy ===== *)
theory Lifecycle_Refinement
  imports Lifecycle Upgrade_Facts Dispatch_Facts
begin

text \<open>
  The handlers implement the abstract machine of \<open>Lifecycle\<close>: whatever a transaction does, a proposal
  account that loads afterwards either was there before and took no step or one step at the
  transaction's slot, or is a fresh proposal at an address that held none.
\<close>

section \<open>Abstraction\<close>

definition terms_of :: "proposal \<Rightarrow> terms" where
  "terms_of p =
     \<lparr>created_at = unat (pr_created p), review_until = unat (pr_review_end p),
      executable_from = unat (pr_not_before p), expires_at = unat (pr_expires p),
      chunks_needed = (if is_upgrade (pr_action p)
        then (case action_artifact (pr_action p) of
                Inr a \<Rightarrow> Some (div_ceil (unat (ar_artifact_length a)) 16384) | Inl _ \<Rightarrow> None)
        else None)\<rparr>"

definition phase_of :: "byte \<Rightarrow> phase" where
  "phase_of b = (if b = PENDING then Pending else if b = EXECUTED then Executed
     else if b = CANCELLED then Cancelled else Expired)"

definition item_of :: "proposal \<Rightarrow> item" where
  "item_of p =
     \<lparr>it_phase = phase_of (pr_state p), approvers = voters (pr_approvals p),
      objectors = voters (pr_cancellations p), verified = marked (verified_bitmap p),
      done_at = unat (pr_executed_slot p)\<rparr>"

fun event_time :: "event \<Rightarrow> nat" where
  "event_time (Vote_For i t) = t"
| "event_time (Vote_Against i t) = t"
| "event_time (Check_Chunk k t) = t"
| "event_time (Lapse t) = t"
| "event_time (Perform t) = t"

text \<open>One step of the machine, at a given slot.\<close>

definition moves :: "u64 \<Rightarrow> proposal \<Rightarrow> proposal \<Rightarrow> bool" where
  "moves slot p p' \<longleftrightarrow> terms_of p' = terms_of p \<and>
     (\<exists>e. event_time e = unat slot \<and> step (terms_of p) e (item_of p) (item_of p'))"

lemma phase_of_simps [simp]:
  "phase_of PENDING = Pending" "phase_of EXECUTED = Executed" "phase_of CANCELLED = Cancelled"
  "phase_of EXPIRED = Expired"
  by (simp_all add: phase_of_def state_consts)

section \<open>Operations on a proposal are steps\<close>

lemma item_card:
  assumes "proposal_validate E p program key = Inr ()"
  shows "card (approvers (item_of p)) = unat (pr_approval_count p)"
    "card (objectors (item_of p)) = unat (pr_cancellation_count p)"
  using assms by (simp_all add: item_of_def card_voters proposal_validate_ok proposal_fields_ok_def)

lemma approve_moves:
  assumes "proposal_approve p i slot cancel = Inr p'" and "wf_proposal p"
    and "\<not> cancel \<and> is_upgrade (pr_action p) \<Longrightarrow> complete p = Inr ()"
  shows "moves slot p p'"
proof -
  note ok = assms(1) [unfolded proposal_approve_ok]
  have i: "i < 5" and pending: "pr_state p = PENDING" and time: "unat (pr_created p) \<le> unat slot" "unat slot < unat (pr_expires p)"
    using ok by (simp_all only: word_le_nat_alt word_less_nat_alt)
  show ?thesis
  proof (cases cancel)
    case True
    let ?c = "pr_cancellations p OR shl1 i"
    have p': "p' = p\<lparr>pr_cancellations := ?c, pr_cancellation_count := of_nat (pop_count ?c),
        pr_state := (if pop_count ?c \<ge> 3 then CANCELLED else pr_state p)\<rparr>"
      using ok True by simp
    have count: "pop_count ?c = card (insert i (voters (pr_cancellations p)))"
      using ok by (simp add: card_voters [symmetric] voters_or)
    have "item_of p' = (item_of p)\<lparr>objectors := insert i (objectors (item_of p)),
        it_phase := (if 3 \<le> card (insert i (objectors (item_of p))) then Cancelled else Pending)\<rparr>"
      unfolding p' count using pending i by (simp add: item_of_def voters_or verified_bitmap_def)
    moreover have "i \<notin> objectors (item_of p)" using ok True by (simp add: item_of_def voters_def)
    then have "step (terms_of p) (Vote_Against i (unat slot)) (item_of p) ((item_of p)\<lparr>objectors := insert i (objectors (item_of p)),
        it_phase := (if 3 \<le> card (insert i (objectors (item_of p))) then Cancelled else Pending)\<rparr>)"
      using i pending time by (intro step.oppose) (simp_all add: item_of_def terms_of_def)
    moreover have "terms_of p' = terms_of p" by (simp add: p' terms_of_def)
    ultimately show ?thesis
      unfolding moves_def by (metis event_time.simps(2))
  next
    case False
    have p': "p' = p\<lparr>pr_approvals := pr_approvals p OR shl1 i,
        pr_approval_count := of_nat (pop_count (pr_approvals p OR shl1 i))\<rparr>"
      using ok False by simp
    have item: "item_of p' = (item_of p)\<lparr>approvers := insert i (approvers (item_of p))\<rparr>"
      unfolding p' using i by (simp add: item_of_def voters_or verified_bitmap_def)
    have "fully_verified (terms_of p) (item_of p)"
    proof (cases "is_upgrade (pr_action p)")
      case True
      then obtain a where "action_artifact (pr_action p) = Inr a"
        "marked (verified_bitmap p) = {..<div_ceil (unat (ar_artifact_length a)) 16384}"
        using False assms(3) complete_ok [OF assms(2), of "()"] by blast
      with True show ?thesis by (simp add: fully_verified_def terms_of_def item_of_def)
    qed (simp add: fully_verified_def terms_of_def)
    moreover have "i \<notin> approvers (item_of p)" "unat slot \<le> unat (pr_review_end p)"
      using ok False by (simp_all add: item_of_def voters_def word_le_nat_alt)
    ultimately have "step (terms_of p) (Vote_For i (unat slot)) (item_of p)
        ((item_of p)\<lparr>approvers := insert i (approvers (item_of p))\<rparr>)"
      using i pending time by (intro step.approve) (simp_all add: item_of_def terms_of_def)
    moreover have "terms_of p' = terms_of p" by (simp add: p' terms_of_def)
    ultimately show ?thesis
      unfolding moves_def item by (metis event_time.simps(1))
  qed
qed

lemma mark_moves:
  assumes "mark_chunk_verified p index = Inr p'" and "wf_proposal p" and "is_upgrade (pr_action p)"
    and "pr_state p = PENDING" and "slot < pr_expires p"
    and "action_artifact (pr_action p) = Inr a" and "chunk_count (ar_artifact_length a) = Inr count" and "index < count"
  shows "moves slot p p'"
proof -
  note mk = mark_chunk_marked [OF assms(2,1)]
  have p': "terms_of p' = terms_of p"
    by (subst mk(6)) (simp add: terms_of_def)
  have "item_of p' = (item_of p)\<lparr>verified := insert (unat index) (verified (item_of p))\<rparr>"
    by (simp add: item_of_def mk(1)) (subst mk(6), simp)+
  moreover have "step (terms_of p) (Check_Chunk (unat index) (unat slot)) (item_of p) \<dots>"
  proof (rule step.verify)
    show "chunks_needed (terms_of p) = Some (div_ceil (unat (ar_artifact_length a)) 16384)"
      using assms(3,6) by (simp add: terms_of_def)
    show "unat index < div_ceil (unat (ar_artifact_length a)) 16384"
      using assms(7,8) by (simp add: chunk_count_unat word_less_nat_alt)
  qed (use assms mk(2) in \<open>simp_all add: item_of_def terms_of_def word_less_nat_alt\<close>)
  ultimately show ?thesis
    unfolding moves_def p' by (metis event_time.simps(3))
qed

lemma expire_moves:
  assumes "pr_state p = PENDING" and "pr_expires p \<le> slot"
  shows "moves slot p (p\<lparr>pr_state := EXPIRED\<rparr>)"
proof -
  have "item_of (p\<lparr>pr_state := EXPIRED\<rparr>) = (item_of p)\<lparr>it_phase := Expired\<rparr>"
    by (simp add: item_of_def verified_bitmap_def)
  moreover have "step (terms_of p) (Lapse (unat slot)) (item_of p) \<dots>"
    using assms by (intro step.lapse) (simp_all add: item_of_def terms_of_def word_le_nat_alt)
  moreover have "terms_of (p\<lparr>pr_state := EXPIRED\<rparr>) = terms_of p" by (simp add: terms_of_def)
  ultimately show ?thesis
    unfolding moves_def by (metis event_time.simps(4))
qed

lemma execute_moves:
  assumes "proposal_executable p cfg slot = Inr ()" and "proposal_validate E p program key = Inr ()"
  shows "moves slot p (p\<lparr>pr_state := EXECUTED, pr_executed_slot := slot\<rparr>)"
proof -
  let ?p = "p\<lparr>pr_state := EXECUTED, pr_executed_slot := slot\<rparr>"
  note exec = assms(1) [unfolded proposal_executable_ok]
  have "item_of ?p = (item_of p)\<lparr>it_phase := Executed, done_at := unat slot\<rparr>"
    by (simp add: item_of_def verified_bitmap_def)
  moreover have "step (terms_of p) (Perform (unat slot)) (item_of p) \<dots>"
    using exec item_card(1) [OF assms(2)]
    by (intro step.perform) (simp_all add: item_of_def terms_of_def word_le_nat_alt word_less_nat_alt)
  moreover have "terms_of ?p = terms_of p" by (simp add: terms_of_def)
  ultimately show ?thesis
    unfolding moves_def by (metis event_time.simps(5))
qed

lemma fresh_item_of:
  "item_of (new_proposal cfg ck n bump a slot bounds\<lparr>pr_digest := d\<rparr>) = fresh_item"
  by (auto simp: new_proposal_def item_of_def fresh_item_def verified_bitmap_def voters_def marked_def
      nth_append split: prod.split)

section \<open>Writes that cannot touch a proposal\<close>

text \<open>What a program may do to the accounts of another one: an account that ends up owned by \<open>program\<close> has
  kept its data, or is new and zeroed.  The runtime enforces this for every instruction of another
  program, so in particular for every call the controller makes.\<close>

definition guarded :: "pubkey \<Rightarrow> ledger \<Rightarrow> ledger \<Rightarrow> bool" where
  "guarded program L M \<longleftrightarrow> (\<forall>k. owner (M k) = program \<longrightarrow>
     (owner (L k) = program \<and> acc_data (M k) = acc_data (L k)) \<or> set (acc_data (M k)) \<subseteq> {0})"

definition owner_rule :: "env \<Rightarrow> pubkey \<Rightarrow> bool" where
  "owner_rule E program \<longleftrightarrow> (\<forall>c keys seeds L M. invoke_signed E c keys seeds L = Inr M \<longrightarrow> guarded program L M)"

text \<open>Every proposal that loads afterwards loaded before, unchanged.\<close>

definition quiet :: "env \<Rightarrow> pubkey \<Rightarrow> ledger \<Rightarrow> ledger \<Rightarrow> bool" where
  "quiet E program L M \<longleftrightarrow>
     (\<forall>i p. load_proposal E program i None M = Inr p \<longrightarrow> load_proposal E program i None L = Inr p)"

definition quietly :: "env \<Rightarrow> pubkey \<Rightarrow> ledger \<Rightarrow> program_error + ledger \<Rightarrow> bool" where
  "quietly E program L r \<longleftrightarrow> (\<forall>M. r = Inr M \<longrightarrow> quiet E program L M)"

lemma quiet_refl [simp]: "quiet E program L L"
  by (simp add: quiet_def)

lemma quiet_trans: "quiet E program L M \<Longrightarrow> quiet E program M N \<Longrightarrow> quiet E program L N"
  by (simp add: quiet_def)

lemma proposal_not_zero:
  assumes "proposal_validate E p program key = Inr ()"
  shows "\<not> set (ser_proposal p) \<subseteq> {0}"
  using assms by (auto simp: proposal_validate_ok proposal_fields_ok_def ser_proposal_def PROPOSAL_DISCRIMINATOR_def ascii_def)

lemma guarded_quiet: "guarded program L M \<Longrightarrow> quiet E program L M"
  using proposal_not_zero by (fastforce simp: quiet_def guarded_def load_proposal_ok)

lemma quiet_other_size:
  assumes "length bs \<noteq> PROPOSAL_LEN"
  shows "quiet E program L (set_data i bs L)"
  using assms by (auto simp: quiet_def load_proposal_ok ledger_simps proposal_codec.ser_size)

lemma quiet_write: "quiet E program L M \<Longrightarrow> length bs \<noteq> PROPOSAL_LEN \<Longrightarrow> quiet E program L (set_data i bs M)"
  using quiet_other_size quiet_trans by blast

lemma ser_proposal_not_Nil: "wf_proposal p \<Longrightarrow> [] \<noteq> ser_proposal p"
  using proposal_codec.ser_size [of p] by (auto simp: PROPOSAL_LEN_def)

lemma quiet_reclaim: "quiet E program L (fold (reclaim_account E) records L)"
proof (induction records arbitrary: L)
  case (Cons r records)
  have "quiet E program L (reclaim_account E r L)"
    using ser_proposal_not_Nil by (auto simp: quiet_def load_proposal_ok reclaim_account_def ledger_simps)
  with Cons quiet_trans show ?case by fastforce
qed simp

lemma quiet_lamports: "quiet E program L (set_lamports i v L)"
  by (auto simp: quiet_def load_proposal_ok ledger_simps split: if_splits)

section \<open>A calculus for handlers\<close>

named_theorems quiet_intros \<open>operations that leave every proposal alone\<close>

lemma quietly_Inl [quiet_intros]: "quietly E program L (Inl e)"
  by (simp add: quietly_def)

lemma quietly_Inr [quiet_intros]: "quiet E program L M \<Longrightarrow> quietly E program L (Inr M)"
  by (simp add: quietly_def)

lemma quietly_call [quiet_intros]:
  "owner_rule E program \<Longrightarrow> quiet E program L M \<Longrightarrow> quietly E program L (invoke_signed E c keys seeds M)"
  unfolding quietly_def owner_rule_def using guarded_quiet quiet_trans by blast

lemma quietly_save_gate [quiet_intros]:
  "quiet E program L M \<Longrightarrow> quietly E program L (save_gate program i g M)"
  unfolding quietly_def save_gate_ok
  by (clarsimp, rule quiet_write) (simp_all add: GATE_LEN_def PROPOSAL_LEN_def)

lemma quietly_store_config [quiet_intros]:
  "quiet E program L M \<Longrightarrow> quietly E program L (store_fixed_controller_account ser_config M program i cfg CONFIG_LEN)"
  unfolding quietly_def store_ok_iff
  by (clarsimp, rule quiet_write) (simp_all add: CONFIG_LEN_def PROPOSAL_LEN_def)

lemma quietly_bnd_ledger:
  assumes "quietly E program L m" and "\<And>M. m = Inr M \<Longrightarrow> quiet E program L M \<Longrightarrow> quietly E program L (f M)"
  shows "quietly E program L (bnd m f)"
  using assms by (cases m) (simp_all add: quietly_def)

lemma quietly_bnd:
  "(\<And>x. m = Inr x \<Longrightarrow> quietly E program L (f x)) \<Longrightarrow> quietly E program L (bnd m f)"
  by (cases m) (simp_all add: quietly_def)

lemma quietly_if [quiet_intros]:
  "(c \<Longrightarrow> quietly E program L a) \<Longrightarrow> (\<not> c \<Longrightarrow> quietly E program L b) \<Longrightarrow> quietly E program L (if c then a else b)"
  by simp

lemma quietly_option [quiet_intros]:
  "quietly E program L a \<Longrightarrow> (\<And>x. quietly E program L (f x)) \<Longrightarrow>
     quietly E program L (case m of None \<Rightarrow> a | Some x \<Rightarrow> f x)"
  by (cases m) simp_all

lemma quietly_list [quiet_intros]:
  "quietly E program L a \<Longrightarrow> (\<And>x xs. quietly E program L (f x xs)) \<Longrightarrow>
     quietly E program L (case l of [] \<Rightarrow> a | x # xs \<Rightarrow> f x xs)"
  by (cases l) simp_all

lemma quietly_fund [quiet_intros]:
  "owner_rule E program \<Longrightarrow> quiet E program L M \<Longrightarrow>
     quietly E program L (fund_and_allocate E program payer pda system required space seeds M)"
  unfolding fund_and_allocate_def Let_def
  by (intro quietly_if quietly_call quietly_bnd_ledger quietly_Inr; assumption)

lemma quietly_create [quiet_intros]:
  "owner_rule E program \<Longrightarrow> quiet E program L M \<Longrightarrow>
     quietly E program L (create_fixed_pda_account E program payer pda system rent space seeds M)"
  unfolding create_fixed_pda_account_def
  by (rule quietly_bnd, rule quietly_bnd_ledger, rule quietly_fund; (intro quietly_if quietly_Inl quietly_Inr)?; assumption)

end
