(* ===== verification/Handler_Refinement.thy ===== *)
theory Handler_Refinement
  imports Lifecycle_Refinement
begin

text \<open>
  Every handler refines the lifecycle machine: a forward simulation between ledgers and items, one
  lemma per handler, composed by the dispatcher.
\<close>

section \<open>The simulation\<close>

text \<open>What no step changes.\<close>

definition same_subject :: "proposal \<Rightarrow> proposal \<Rightarrow> bool" where
  "same_subject p p' \<longleftrightarrow> pr_id p' = pr_id p \<and> pr_digest p' = pr_digest p \<and> pr_action p' = pr_action p \<and>
     pr_council_epoch p' = pr_council_epoch p \<and> pr_created p' = pr_created p \<and> pr_review_end p' = pr_review_end p \<and>
     pr_expires p' = pr_expires p"

text \<open>One step at the slot of the transaction.  The flag says whether the handler may add an approval; only
  a vote to approve does.\<close>

definition advances :: "bool \<Rightarrow> env \<Rightarrow> proposal \<Rightarrow> proposal \<Rightarrow> bool" where
  "advances may E p p' \<longleftrightarrow> (\<exists>slot. clock E = Inr slot \<and> moves slot p p') \<and> same_subject p p' \<and>
     (may \<or> pr_approvals p' = pr_approvals p)"

definition newborn :: "env \<Rightarrow> proposal \<Rightarrow> bool" where
  "newborn E p \<longleftrightarrow> clock E = Inr (pr_created p) \<and> item_of p = fresh_item"

text \<open>What may happen to the proposals of a ledger in one transaction.\<close>

definition simulated :: "bool \<Rightarrow> env \<Rightarrow> pubkey \<Rightarrow> ledger \<Rightarrow> ledger \<Rightarrow> bool" where
  "simulated may E program L M \<longleftrightarrow> (\<forall>i p'. load_proposal E program i None M = Inr p' \<longrightarrow>
     (case load_proposal E program i None L of
        Inr p \<Rightarrow> p' = p \<or> advances may E p p'
      | Inl _ \<Rightarrow> newborn E p'))"

definition simulates :: "bool \<Rightarrow> env \<Rightarrow> pubkey \<Rightarrow> ledger \<Rightarrow> program_error + ledger \<Rightarrow> bool" where
  "simulates may E program L r \<longleftrightarrow> (\<forall>M. r = Inr M \<longrightarrow> simulated may E program L M)"

lemma quiet_simulated: "quiet E program L M \<Longrightarrow> simulated may E program L M"
  by (auto simp: simulated_def quiet_def)

lemma simulated_quiet: "simulated may E program L M \<Longrightarrow> quiet E program M N \<Longrightarrow> simulated may E program L N"
  by (auto simp: simulated_def quiet_def)

section \<open>Rules\<close>

lemma load_proposal_key:
  "ai_key j = ai_key i \<Longrightarrow> load_proposal E program j d L = load_proposal E program i d L"
  by (simp add: load_proposal_def load_fixed_controller_account_def)

lemma simulates_quietly: "quietly E program L r \<Longrightarrow> simulates may E program L r"
  by (auto simp: simulates_def quietly_def intro: quiet_simulated)

lemma simulates_Inl: "simulates may E program L (Inl e)"
  by (simp add: simulates_def)

lemma simulates_bnd: "(\<And>x. m = Inr x \<Longrightarrow> simulates may E program L (f x)) \<Longrightarrow> simulates may E program L (bnd m f)"
  by (cases m) (simp_all add: simulates_def)

lemma simulates_bnd_quiet:
  "quietly E program L m \<Longrightarrow> (\<And>M. m = Inr M \<Longrightarrow> quiet E program L M \<Longrightarrow> simulates may E program L (f M)) \<Longrightarrow>
     simulates may E program L (bnd m f)"
  by (cases m) (simp_all add: simulates_def quietly_def)

lemma simulates_bnd_after:
  "simulates may E program L m \<Longrightarrow> (\<And>M. m = Inr M \<Longrightarrow> quietly E program M (f M)) \<Longrightarrow> simulates may E program L (bnd m f)"
  by (cases m) (auto simp: simulates_def quietly_def intro: simulated_quiet)

lemma simulates_list:
  "simulates may E program L a \<Longrightarrow> (\<And>x xs. simulates may E program L (f x xs)) \<Longrightarrow>
     simulates may E program L (case l of [] \<Rightarrow> a | x # xs \<Rightarrow> f x xs)"
  by (cases l) simp_all

text \<open>The only write to a proposal: the value saved is the one loaded, one step further.\<close>

lemma simulates_save:
  assumes "quiet E program L M" and "load_proposal E program i d L = Inr p" and "wf_proposal p \<Longrightarrow> wf_proposal p'"
    and "advances may E p p'"
  shows "simulates may E program L (save_proposal E program i p' M)"
  unfolding simulates_def simulated_def
proof (intro allI impI)
  fix N j q
  assume save: "save_proposal E program i p' M = Inr N" and load: "load_proposal E program j None N = Inr q"
  have p: "load_proposal E program i None L = Inr p" "wf_proposal p'"
    using assms(2,3) load_proposal_any by (auto simp: load_proposal_ok)
  show "case load_proposal E program j None L of Inl _ \<Rightarrow> newborn E q | Inr p \<Rightarrow> q = p \<or> advances may E p q"
  proof (cases "ai_key j = ai_key i")
    case True
    then have "load_proposal E program j None L = load_proposal E program i None L" "q = p'"
      using proposal_store.load_save [OF save p(2)] load load_proposal_key [OF True] by simp_all
    with p(1) assms(4) show ?thesis by simp
  next
    case False
    have "N (ai_key j) = M (ai_key j)"
      by (rule proposal_store.save_frame [OF save p(2) False])
    then have "load_proposal E program j None M = Inr q"
      using load load_local_facts(2) by metis
    with assms(1) show ?thesis by (simp add: quiet_def)
  qed
qed

lemma simulates_create:
  assumes "quiet E program L M" and "data_of L i = []" and "wf_proposal p" and "newborn E p"
  shows "simulates may E program L (save_proposal E program i p M)"
  unfolding simulates_def simulated_def
proof (intro allI impI)
  fix N j q
  assume save: "save_proposal E program i p M = Inr N" and load: "load_proposal E program j None N = Inr q"
  show "case load_proposal E program j None L of Inl _ \<Rightarrow> newborn E q | Inr p \<Rightarrow> q = p \<or> advances may E p q"
  proof (cases "ai_key j = ai_key i")
    case True
    then have q: "q = p"
      using proposal_store.load_save [OF save assms(3)] load load_proposal_key [OF True] by simp
    have "load_proposal E program j None L \<noteq> Inr p'" for p'
      using True assms(2) ser_proposal_not_Nil [of p'] by (auto simp: load_proposal_ok)
    with assms(4) q show ?thesis by (cases "load_proposal E program j None L") auto
  next
    case False
    have "N (ai_key j) = M (ai_key j)"
      by (rule proposal_store.save_frame [OF save assms(3) False])
    then have "load_proposal E program j None M = Inr q"
      using load load_local_facts(2) by metis
    with assms(1) show ?thesis by (simp add: quiet_def)
  qed
qed

lemma execute_advances:
  assumes "clock E = Inr slot" and "proposal_executable p cfg slot = Inr u"
    and "load_proposal E program i d L = Inr p"
  shows "advances may E p (p\<lparr>pr_state := EXECUTED, pr_executed_slot := slot\<rparr>)"
  using assms execute_moves [of p cfg slot E program "ai_key i"]
  by (auto simp: advances_def same_subject_def load_proposal_ok)

lemma simulates_save_executed:
  assumes "load_proposal E program i d L = Inr p" and "clock E = Inr slot"
    and "proposal_executable p cfg slot = Inr u" and "quiet E program L M"
  shows "simulates may E program L (save_proposal E program i (p\<lparr>pr_state := EXECUTED, pr_executed_slot := slot\<rparr>) M)"
  using assms by (intro simulates_save [OF assms(4,1)] execute_advances) (simp_all add: wf_proposal_def)

section \<open>Handlers that touch no proposal\<close>

text \<open>One step of each proof: take a case, finish, or move past one operation of the handler.\<close>

lemmas quiet_cases = quietly_list quietly_Inl quietly_Inr
lemmas simulates_cases = simulates_list simulates_Inl

lemmas quiet_ops = quietly_call quietly_create
lemmas quiet_stores = quietly_save_gate quietly_store_config

lemma quietly_initialize:
  assumes "owner_rule E program"
  shows "quietly E program L (initialize E program accounts seats treasury L)"
  unfolding initialize_def Let_def case_prod_unfold
  by ((rule quiet_cases quiet_refl | assumption
      | (rule quietly_bnd_ledger, rule quiet_ops [OF assms] quiet_stores) | rule quietly_bnd)+)

lemma quietly_seal:
  assumes "owner_rule E program"
  shows "quietly E program L (seal E program accounts digest L)"
  unfolding seal_def Let_def case_prod_unfold
  by ((rule quiet_cases quiet_refl | assumption
      | (rule quietly_bnd_ledger, rule quiet_ops [OF assms] quiet_stores) | rule quietly_bnd)+)

lemma quietly_close_buffer:
  assumes "owner_rule E program"
  shows "quietly E program L (close_buffer E program accounts digest L)"
  unfolding close_buffer_def Let_def case_prod_unfold
  by ((rule quiet_cases quiet_refl | assumption
      | (rule quietly_bnd_ledger, rule quiet_ops [OF assms] quiet_stores) | rule quietly_bnd)+)

lemma quietly_register_target:
  assumes "owner_rule E program"
  shows "quietly E program L (register_target E program accounts data L)"
  unfolding register_target_def Let_def case_prod_unfold
  by ((rule quiet_cases quiet_refl | assumption
      | (rule quietly_bnd_ledger, rule quiet_ops [OF assms] quiet_stores) | rule quietly_bnd)+)

lemma quietly_reclaim_verification:
  assumes "owner_rule E program"
  shows "quietly E program L (reclaim_verification E program accounts retired L)"
  unfolding reclaim_verification_def Let_def case_prod_unfold
  by ((rule quiet_cases quiet_refl | assumption
      | (rule quietly_bnd_ledger, rule quiet_ops [OF assms] quiet_stores) | rule quietly_bnd)+)


lemma quietly_reclaim_records: "quietly E program L (reclaim_records E program accounts retired L)"
  unfolding reclaim_records_def
  by (rule quiet_cases quietly_bnd)+ (rule quiet_trans [OF quiet_reclaim quiet_lamports])

section \<open>Handlers that move one proposal\<close>

lemma simulates_vote:
  assumes "load_proposal E program i d L = Inr p" and "clock E = Inr slot"
    and "(if \<not> cancel \<and> is_upgrade (pr_action p) then complete p else Inr ()) = Inr u"
    and "proposal_approve p n slot cancel = Inr p'" and "quiet E program L M"
  shows "simulates (\<not> cancel) E program L (save_proposal E program i p' M)"
proof (rule simulates_save [OF assms(5,1)])
  have wf: "wf_proposal p" using assms(1) by (simp add: load_proposal_ok)
  then show "wf_proposal p'" using approve_wf assms(4) by blast
  have "moves slot p p'"
    by (rule approve_moves [OF assms(4) wf]) (use assms(3) in simp)
  moreover have "same_subject p p'" "cancel \<Longrightarrow> pr_approvals p' = pr_approvals p"
    using assms(4) by (simp_all add: proposal_approve_ok same_subject_def)
  ultimately show "advances (\<not> cancel) E p p'" using assms(2) by (auto simp: advances_def)
qed

lemma simulates_mark:
  assumes "load_proposal E program i d L = Inr p" and "clock E = Inr slot"
    and "proposal_current p cfg slot = Inr u" and "action_artifact (pr_action p) = Inr a"
    and "chunk_count (ar_artifact_length a) = Inr count"
    and "(if index < count \<and> c then m else Inr False) = Inr shaped" and "require shaped e = Inr v"
    and "mark_chunk_verified p index = Inr p'" and "quiet E program L M"
  shows "simulates may E program L (save_proposal E program i p' M)"
proof (rule simulates_save [OF assms(9,1)])
  have wf: "wf_proposal p" using assms(1) by (simp add: load_proposal_ok)
  then show "wf_proposal p'" using mark_chunk_marked(5) assms(8) by blast
  have "moves slot p p'"
    using assms(3,6,7) artifact_is_upgrade [OF assms(4)]
    by (intro mark_moves [OF assms(8) wf _ _ _ assms(4,5)])
      (simp_all add: proposal_current_ok require_ok split: if_splits)
  moreover have "same_subject p p'" "pr_approvals p' = pr_approvals p"
    unfolding same_subject_def by (subst mark_chunk_marked(6) [OF wf assms(8)], simp)+
  ultimately show "advances may E p p'" using assms(2) by (auto simp: advances_def)
qed

lemma simulates_lapse:
  assumes "load_proposal E program i d L = Inr p"
    and "(if pr_state p = PENDING then bnd (clock E) (\<lambda>slot. require (pr_expires p \<le> slot) e) else fail e) = Inr u"
    and "quiet E program L M"
  shows "simulates may E program L (save_proposal E program i (p\<lparr>pr_state := EXPIRED\<rparr>) M)"
proof (rule simulates_save [OF assms(3,1)])
  obtain slot where "pr_state p = PENDING" "clock E = Inr slot" "pr_expires p \<le> slot"
    using assms(2) by (auto simp: bnd_Inr_iff require_ok split: if_splits)
  then show "advances may E p (p\<lparr>pr_state := EXPIRED\<rparr>)"
    using expire_moves by (auto simp: advances_def same_subject_def)
qed (simp add: wf_proposal_def)

lemma simulates_approve: "simulates (\<not> cancel) E program L (approve E program accounts digest cancel L)"
  unfolding approve_def
  by ((rule simulates_cases quiet_refl simulates_vote | assumption | rule simulates_bnd)+)

lemma simulates_verify: "simulates may E program L (verify E program accounts digest index proof_len nodes L)"
  unfolding verify_def Let_def
  by ((rule simulates_cases quiet_refl simulates_mark | assumption | rule simulates_bnd)+)

lemma simulates_expire: "simulates may E program L (expire E program accounts L)"
  unfolding expire_def
  by ((rule simulates_cases quiet_refl simulates_lapse | assumption | rule simulates_bnd)+)

lemma simulates_execute_policy: "simulates may E program L (execute_policy E program accounts digest L)"
  unfolding execute_policy_def
  by ((rule simulates_cases quiet_refl | assumption
      | (rule simulates_bnd_after, rule simulates_save_executed, assumption+)
      | rule simulates_bnd quietly_store_config)+)

lemma simulates_execute_target_gate: "simulates may E program L (execute_target_gate E program accounts digest L)"
  unfolding execute_target_gate_def Let_def
  by ((rule simulates_cases quiet_refl simulates_save_executed | assumption
      | (rule simulates_bnd_quiet, rule quiet_stores) | rule simulates_bnd)+)

lemma simulates_retire:
  assumes "owner_rule E program"
  shows "simulates may E program L (retire E program accounts digest data L)"
  unfolding retire_def Let_def case_prod_unfold
  by ((rule simulates_cases quiet_refl simulates_save_executed | assumption
      | (rule simulates_bnd_quiet, rule quiet_ops [OF assms] quiet_stores) | rule simulates_bnd)+)

lemma quietly_gate_update [quiet_intros]:
  "quiet E program L M \<Longrightarrow> quietly E program L (case gate of
     Some info \<Rightarrow> bnd (load_gate E program info k M) (\<lambda>g. bnd (add (gt_epoch g) 1) (\<lambda>epoch.
       save_gate program info (f g epoch) M))
   | None \<Rightarrow> Inr M)"
  by (rule quietly_option quietly_Inr quietly_bnd quietly_save_gate | assumption)+

lemma simulates_execute_upgrade:
  assumes "owner_rule E program"
  shows "simulates may E program L (execute_upgrade E program accounts digest data mode L)"
  unfolding execute_upgrade_def Let_def case_prod_unfold
  by ((rule simulates_cases quiet_refl simulates_save_executed | assumption
      | (rule simulates_bnd_quiet, rule quiet_ops [OF assms] quietly_gate_update) | rule simulates_bnd)+)

lemma simulates_execute_spread_light_config:
  assumes "owner_rule E program"
  shows "simulates may E program L (execute_spread_light_config E program accounts digest data L)"
  unfolding execute_spread_light_config_def Let_def case_prod_unfold
  by ((rule simulates_cases quiet_refl simulates_save_executed | assumption
      | (rule simulates_bnd_quiet, rule quiet_ops [OF assms]) | rule simulates_bnd)+)

lemma quietly_return_excess:
  assumes "owner_rule E program" and "quiet E program L M"
  shows "quietly E program L (return_excess E authority metadata system a b c d e seeds M)"
  unfolding return_excess_def
  by (rule quietly_if quietly_Inr quietly_call [OF assms(1)] assms(2) quietly_bnd)+

lemma quietly_funding:
  assumes "owner_rule E program" and "quiet E program L M"
  shows "quietly E program L (if c then invoke_signed E i keys seeds M else Inr M)"
  by (rule quietly_if quietly_Inr quietly_call [OF assms(1)] assms(2))+

lemma simulates_publish:
  assumes "owner_rule E program"
  shows "simulates may E program L (publish E program accounts digest data L)"
  unfolding publish_def Let_def case_prod_unfold
  by ((rule simulates_cases quiet_refl simulates_save_executed | assumption
      | (rule simulates_bnd_quiet, rule quiet_ops [OF assms] quietly_return_excess [OF assms] quietly_funding [OF assms])
      | rule simulates_bnd)+)

lemma newborn_new:
  assumes "clock E = Inr slot"
  shows "newborn E (new_proposal cfg ck n bump a slot bounds\<lparr>pr_digest := d\<rparr>)"
  using assms by (simp add: newborn_def fresh_item_of) (simp add: new_proposal_def split: prod.split)

lemma simulates_new:
  assumes "create_fixed_pda_account E program payer i system rent n seeds L = Inr M" and "quiet E program L M"
    and "clock E = Inr slot" and "wf_action a"
  shows "simulates may E program L (save_proposal E program i (new_proposal cfg ck k bump a slot bounds\<lparr>pr_digest := d\<rparr>) M)"
  using assms create_fixed_pda_account_ok(5) [OF assms(1)]
  by (intro simulates_create newborn_new) (simp_all add: new_proposal_wf)

lemma simulates_create_handler:
  assumes "owner_rule E program" and "wf_action action"
  shows "simulates may E program L (create E program accounts expected_id action L)"
  unfolding create_def Let_def case_prod_unfold
  by ((rule simulates_cases quiet_refl assms(2) | assumption
      | (rule simulates_bnd_quiet, rule quietly_create [OF assms(1)])
      | (rule simulates_bnd_after, rule simulates_new)
      | rule simulates_bnd quietly_store_config)+)

section \<open>The entry point\<close>

lemmas quiet_handlers = quietly_initialize quietly_seal quietly_close_buffer quietly_register_target
  quietly_reclaim_verification quietly_reclaim_records
lemmas moving_handlers = simulates_create_handler simulates_verify simulates_expire
  simulates_execute_policy simulates_execute_target_gate simulates_retire simulates_execute_upgrade
  simulates_execute_spread_light_config simulates_publish

fun votes :: "gov_instruction \<Rightarrow> bool" where
  "votes (Approve digest) = True"
| "votes _ = False"

lemma simulates_dispatch:
  assumes "owner_rule E program" and "wf_instruction x"
  shows "simulates (votes x) E program L (dispatch E program accounts data x L)"
proof (cases x)
  case (Approve digest)
  then show ?thesis using simulates_approve [of False] by (simp add: dispatch_def)
next
  case (Cancel digest)
  then show ?thesis using simulates_approve [of True] by (simp add: dispatch_def)
qed (use assms in \<open>simp_all add: dispatch_def moving_handlers quiet_handlers [THEN simulates_quietly] simulates_Inl\<close>)

definition voting :: "byte list \<Rightarrow> bool" where
  "voting data \<longleftrightarrow> (\<exists>digest. unpack data = Inr (Approve digest))"

lemma simulates_process:
  assumes "owner_rule E program"
  shows "simulates (voting data) E program L (process E program accounts data L)"
  unfolding process_def
proof (intro simulates_bnd)
  fix x assume x: "unpack data = Inr x"
  then have flag: "votes x = voting data" by (cases x) (auto simp: voting_def)
  have "simulates (votes x) E program L (dispatch E program accounts data x L)"
    using simulates_dispatch [OF assms] unpack_wf [OF x] by blast
  then show "simulates (voting data) E program L (dispatch E program accounts data x L)" unfolding flag .
qed

end
