(* ===== verification/Histories.thy ===== *)
theory Histories
  imports Handler_Refinement
begin

text \<open>
  Sequences of transactions.  A history starts from a ledger without proposals and interleaves calls of
  the controller with anything other programs may do; every proposal in it has a life of the abstract
  machine behind it.
\<close>

section \<open>One transaction\<close>

text \<open>C2: A transaction that leaves a proposal in an account either found it
  there unchanged, or moved it by exactly one step of the lifecycle machine at the slot of the
  transaction without altering its terms, or created it afresh in an account that held none.\<close>

theorem transaction_refines_lifecycle:
  assumes "owner_rule E program" and "process E program accounts data L = Inr M"
    and "load_proposal E program i None M = Inr p'"
  shows "case load_proposal E program i None L of
      Inr p \<Rightarrow> p' = p \<or> (terms_of p' = terms_of p \<and>
        (\<exists>slot e. clock E = Inr slot \<and> event_time e = unat slot \<and> step (terms_of p) e (item_of p) (item_of p')))
    | Inl _ \<Rightarrow> clock E = Inr (pr_created p') \<and> item_of p' = fresh_item"
proof -
  have "simulated (voting data) E program L M"
    using simulates_process [OF assms(1)] assms(2) by (simp add: simulates_def)
  note now = this [unfolded simulated_def, rule_format, OF assms(3)]
  show ?thesis
    using now by (cases "load_proposal E program i None L") (auto simp: advances_def moves_def newborn_def)
qed

section \<open>Histories\<close>

inductive history :: "env \<Rightarrow> pubkey \<Rightarrow> ledger \<Rightarrow> bool" for E program where
  genesis: "history E program L" if "\<forall>i p. load_proposal E program i None L \<noteq> Inr p"
| call: "history E program M" if "history E program L" "same_chain E E'" "owner_rule E' program"
    "process E' program accounts data L = Inr M"
| foreign: "history E program M" if "history E program L" "guarded program L M"

lemma history_life:
  "history E program L \<Longrightarrow> load_proposal E program i None L = Inr p \<Longrightarrow> reachable (terms_of p) (item_of p)"
proof (induction arbitrary: p rule: history.induct)
  case (call L E' accounts data M)
  have sim: "simulated (voting data) E' program L M"
    using simulates_process [OF call.hyps(3)] call.hyps(4) by (simp add: simulates_def)
  have "load_proposal E' program i None M = Inr p"
    using call.prems same_chain_loads(2) [OF call.hyps(2)] by simp
  note now = sim [unfolded simulated_def, rule_format, OF this]
  show ?case
  proof (cases "load_proposal E' program i None L")
    case (Inl e)
    with now show ?thesis by (auto simp: newborn_def)
  next
    case (Inr q)
    then have "reachable (terms_of q) (item_of q)"
      using call.IH same_chain_loads(2) [OF call.hyps(2)] by simp
    with Inr now show ?thesis
      by (auto simp: advances_def moves_def)
  qed
next
  case (foreign L M)
  then have "load_proposal E program i None L = Inr p"
    using guarded_quiet [of program L M E] by (simp add: quiet_def)
  with foreign.IH show ?case .
qed simp

text \<open>C3: In every history every proposal account holds a state of the lifecycle machine
  for its terms: some sequence of votes, checks and decisions, each admissible when it happened, leads
  from the fresh proposal to it.\<close>

theorem every_proposal_has_a_life:
  assumes "history E program L" and "load_proposal E program i None L = Inr p"
  shows "\<exists>es. life (terms_of p) es (item_of p)"
  using history_life [OF assms] by (simp add: reachable_def)

section \<open>The ballots behind a proposal\<close>

text \<open>A successful vote to approve leaves a ballot: who signed it, for which seat of which council, at what
  slot, over which state of the proposal.  All of it is read off the call itself.\<close>

record ballot =
  ba_seat :: nat
  ba_key :: pubkey
  ba_signed :: bool
  ba_slot :: u64
  ba_config :: config
  ba_subject :: proposal

definition ballot_of :: "env \<Rightarrow> pubkey \<Rightarrow> account_info \<Rightarrow> account_info list \<Rightarrow> byte list \<Rightarrow> ledger \<Rightarrow> ballot list" where
  "ballot_of E program i accounts data L = (case accounts of
     [config_info, proposal_info, seat_info] \<Rightarrow>
       if voting data \<and> ai_key proposal_info = ai_key i then
         (case (clock E, load_config E program config_info L, load_proposal E program proposal_info None L) of
            (Inr slot, Inr cfg, Inr p) \<Rightarrow>
              (case position (\<lambda>key. key = ai_key seat_info) (cf_seats cfg) of
                 Some n \<Rightarrow> [\<lparr>ba_seat = n, ba_key = ai_key seat_info, ba_signed = is_signer seat_info,
                   ba_slot = slot, ba_config = cfg, ba_subject = p\<rparr>]
               | None \<Rightarrow> [])
          | _ \<Rightarrow> [])
       else []
   | _ \<Rightarrow> [])"

text \<open>A history with the ballots cast so far on the proposal in one account.  The record of an account
  that holds no proposal is empty.\<close>

inductive recorded :: "env \<Rightarrow> pubkey \<Rightarrow> account_info \<Rightarrow> ballot list \<Rightarrow> ledger \<Rightarrow> bool" for E program i where
  begun: "recorded E program i [] L" if "\<forall>i p. load_proposal E program i None L \<noteq> Inr p"
| called: "recorded E program i
      (if is_ok (load_proposal E program i None L) then bs @ ballot_of E' program i accounts data L else []) M"
    if "recorded E program i bs L" "same_chain E E'" "owner_rule E' program"
      "process E' program accounts data L = Inr M"
| elsewhere: "recorded E program i bs M" if "recorded E program i bs L" "guarded program L M"

text \<open>Recording restricts nothing: every history has its ballots.\<close>

lemma history_recorded: "history E program L \<Longrightarrow> \<exists>bs. recorded E program i bs L"
proof (induction rule: history.induct)
  case (call L E' accounts data M)
  then show ?case using recorded.called by blast
qed (blast intro: recorded.intros)+

definition ballot_sound :: "proposal \<Rightarrow> ballot \<Rightarrow> bool" where
  "ballot_sound p b \<longleftrightarrow> ba_signed b \<and> ba_seat b < 5 \<and> cf_seats (ba_config b) ! ba_seat b = ba_key b \<and>
     cf_council_epoch (ba_config b) = pr_council_epoch p \<and>
     pr_created p \<le> ba_slot b \<and> ba_slot b \<le> pr_review_end p \<and> ba_slot b < pr_expires p \<and>
     pr_digest (ba_subject b) = pr_digest p \<and> pr_state (ba_subject b) = PENDING \<and>
     (is_upgrade (pr_action p) \<longrightarrow> complete (ba_subject b) = Inr ())"

definition ballots_match :: "proposal \<Rightarrow> ballot list \<Rightarrow> bool" where
  "ballots_match p bs \<longleftrightarrow> distinct (map ba_seat bs) \<and> set (map ba_seat bs) = voters (pr_approvals p) \<and>
     (\<forall>b \<in> set bs. ballot_sound p b)"

lemma ballots_match_cong:
  assumes "same_subject p p'" and "pr_approvals p' = pr_approvals p"
  shows "ballots_match p' bs = ballots_match p bs"
  using assms by (simp add: ballots_match_def ballot_sound_def same_subject_def)

lemma process_vote:
  assumes "process E program accounts data L = Inr M" and "voting data"
  obtains digest where "approve E program accounts digest False L = Inr M"
  using assms by (auto simp: process_def voting_def dispatch_def elim!: bnd_okE)

lemma approve_casts:
  assumes "approve E program accounts digest False L = Inr M" and "voting data"
  obtains ci pi si p p' where "accounts = [ci, pi, si]" "load_proposal E program pi None L = Inr p"
    "load_proposal E program pi None M = Inr p'" "\<And>k. k \<noteq> ai_key pi \<Longrightarrow> M k = L k"
    "\<And>i bs. ai_key pi = ai_key i \<Longrightarrow> ballots_match p bs \<Longrightarrow>
       ballots_match p' (bs @ ballot_of E program i accounts data L)"
proof -
  obtain ci pi si where acc: "accounts = [ci, pi, si]"
    using assms(1) by (auto simp: approve_def split: list.splits)
  with assms(1) obtain cfg p slot n p' where step: "load_config E program ci L = Inr cfg"
    "load_proposal E program pi (Some digest) L = Inr p" "clock E = Inr slot" "proposal_current p cfg slot = Inr ()"
    "seat cfg si = Inr n" "is_upgrade (pr_action p) \<longrightarrow> complete p = Inr ()"
    "proposal_approve p n slot False = Inr p'" "save_proposal E program pi p' L = Inr M"
    by (auto simp: approve_def elim!: bnd_okE split: if_splits)
  note load = load_proposal_any [OF step(2)]
  have wf: "wf_proposal p'" using approve_wf [OF step(7)] load by (simp add: load_proposal_ok)
  have pos: "position (\<lambda>key. key = ai_key si) (cf_seats cfg) = Some n" "is_signer si"
    using step(5) by (simp_all add: seat_ok)
  have seat: "n < 5" "cf_seats cfg ! n = ai_key si"
    using seat_position [OF step(5)] step(1) by (simp_all add: load_config_ok)
  note vote = step(7) [unfolded proposal_approve_ok]
  let ?b = "\<lparr>ba_seat = n, ba_key = ai_key si, ba_signed = is_signer si, ba_slot = slot, ba_config = cfg, ba_subject = p\<rparr>"
  have cast: "ballot_of E program i accounts data L = [?b]" if "ai_key pi = ai_key i" for i
    using that assms(2) acc step(1,3) load pos(1) by (simp add: ballot_of_def)
  have sound: "ballot_sound p ?b"
    using vote pos(2) seat step(4,6) by (simp add: ballot_sound_def proposal_current_ok)
  have "ballots_match p' (bs @ [?b])" if "ballots_match p bs" for bs
  proof -
    have "n \<notin> voters (pr_approvals p)" using vote by (simp add: voters_def)
    moreover have "ballot_sound p' b = ballot_sound p b" for b using vote by (simp add: ballot_sound_def)
    moreover have "voters (pr_approvals p') = insert n (voters (pr_approvals p))"
      using vote seat(1) by (simp add: voters_or)
    ultimately show ?thesis using that sound by (auto simp: ballots_match_def)
  qed
  then show thesis
    using that [OF acc load proposal_store.load_save [OF step(8) wf]] proposal_store.save_frame [OF step(8) wf] cast
    by metis
qed

lemma unmarked_match: "item_of p = fresh_item \<Longrightarrow> ballots_match p []"
  by (simp add: ballots_match_def item_of_def fresh_item_def)

lemma recorded_ballots:
  "recorded E program i bs L \<Longrightarrow> load_proposal E program i None L = Inr p \<Longrightarrow> ballots_match p bs"
proof (induction arbitrary: p rule: recorded.induct)
  case (called bs L E' accounts data M)
  note loads = same_chain_loads(2) [OF called.hyps(2)]
  have now: "load_proposal E' program i None M = Inr p" using called.prems loads by simp
  have "simulated (voting data) E' program L M"
    using simulates_process [OF called.hyps(3)] called.hyps(4) by (simp add: simulates_def)
  note sim = this [unfolded simulated_def, rule_format, OF now]
  show ?case
  proof (cases "load_proposal E' program i None L")
    case (Inl e)
    with sim show ?thesis by (simp add: loads [symmetric] newborn_def unmarked_match)
  next
    case (Inr q)
    then have before: "ballots_match q bs" using called.IH loads by simp
    have goal: ?thesis if "ballots_match p (bs @ ballot_of E' program i accounts data L)"
      using that Inr by (simp add: loads [symmetric])
    show ?thesis
    proof (cases "voting data")
      case True
      with called.hyps(4) obtain digest where "approve E' program accounts digest False L = Inr M"
        by (rule process_vote)
      then show ?thesis using True
      proof (rule approve_casts, goal_cases)
        case (1 ci pi si q' p')
        show ?case
        proof (cases "ai_key pi = ai_key i")
          case True
          then have "q' = q" "p' = p" using 1(2,3) now Inr load_proposal_key [OF True] by simp_all
          with 1(5) [OF True] before show ?thesis by (intro goal) simp
        next
          case False
          then have "M (ai_key i) = L (ai_key i)" using 1(4) by metis
          then have "p = q" using load_local_facts(2) now Inr by (metis Inr_inject)
          moreover have "ballot_of E' program i accounts data L = []" using 1(1) False by (simp add: ballot_of_def)
          ultimately show ?thesis using before by (intro goal) simp
        qed
      qed
    next
      case False
      then have "ballot_of E' program i accounts data L = []" by (simp add: ballot_of_def split: list.split)
      moreover have "p = q \<or> same_subject q p \<and> pr_approvals p = pr_approvals q"
        using sim Inr False by (auto simp: advances_def)
      then have "ballots_match p bs" using before ballots_match_cong by metis
      ultimately show ?thesis by (intro goal) simp
    qed
  qed
next
  case (elsewhere bs L M)
  then have "load_proposal E program i None L = Inr p"
    using guarded_quiet [of program L M E] by (simp add: quiet_def)
  with elsewhere.IH show ?case .
qed simp

text \<open>C1: In every history, an executed proposal has on record at least three
  successful calls to approve it, signed by the keys of different seats of the council it was created
  under, each call made inside the review window over this very proposal while it was pending (with every
  chunk of an upgrade already verified); it was executed in its execution window, and fewer than three
  seats voted to cancel it.\<close>

theorem execution_has_quorum_behind_it:
  assumes "recorded E program i ballots L" and "load_proposal E program i None L = Inr p" and "pr_state p = EXECUTED"
  shows "3 \<le> length ballots \<and> distinct (map ba_seat ballots) \<and>
    (\<forall>b \<in> set ballots. ba_signed b \<and> ba_seat b < 5 \<and> cf_seats (ba_config b) ! ba_seat b = ba_key b \<and>
       cf_council_epoch (ba_config b) = pr_council_epoch p \<and> pr_digest (ba_subject b) = pr_digest p \<and>
       pr_state (ba_subject b) = PENDING \<and> pr_created p \<le> ba_slot b \<and> ba_slot b \<le> pr_review_end p \<and>
       (is_upgrade (pr_action p) \<longrightarrow> complete (ba_subject b) = Inr ())) \<and>
    pr_not_before p \<le> pr_executed_slot p \<and> pr_executed_slot p < pr_expires p \<and>
    card (voters (pr_cancellations p)) < 3"
proof -
  note match = recorded_ballots [OF assms(1,2), unfolded ballots_match_def]
  have valid: "proposal_validate E p program (ai_key i) = Inr ()" using assms(2) by (simp add: load_proposal_ok)
  note fields = valid [unfolded proposal_validate_ok lifecycle_ok_def proposal_fields_ok_def]
  have "length ballots = card (voters (pr_approvals p))" using match by (metis distinct_card length_map)
  moreover have "card (voters (pr_approvals p)) = unat (pr_approval_count p)" using fields by (simp add: card_voters)
  moreover have "3 \<le> unat (pr_approval_count p)" using fields assms(3) by (simp add: word_le_nat_alt)
  moreover have "card (voters (pr_cancellations p)) = unat (pr_cancellation_count p)" using fields by (simp add: card_voters)
  moreover have "unat (pr_cancellation_count p) < 3"
    using fields assms(3) by (simp add: state_consts word_le_nat_alt)
  ultimately show ?thesis using match fields assms(3) by (simp add: ballot_sound_def)
qed

text \<open>C28: In every history, an approval of an upgrade was cast only after every one of
  the artifact's chunks had been verified on chain, so the council votes on code that is already
  pinned to its Merkle root.\<close>

theorem no_approval_before_verification:
  assumes "history E program L" and "load_proposal E program i None L = Inr p"
    and "is_upgrade (pr_action p)" and "action_artifact (pr_action p) = Inr a"
  shows "\<exists>es. life (terms_of p) es (item_of p) \<and> set (approvals_of es) = voters (pr_approvals p) \<and>
    (\<forall>as s t bs. es = as @ Vote_For s t # bs \<longrightarrow>
       checked as = {..<div_ceil (unat (ar_artifact_length a)) 16384})"
proof -
  obtain es where life: "life (terms_of p) es (item_of p)"
    using history_life [OF assms(1,2)] by (auto simp: reachable_def)
  have "chunks_needed (terms_of p) = Some (div_ceil (unat (ar_artifact_length a)) 16384)"
    using assms(3,4) by (simp add: terms_of_def)
  with life_approval_after_checks [OF life] life_history [OF life] life show ?thesis
    by (intro exI [of _ es]) (simp add: item_of_def)
qed

section \<open>Every proposal can succeed\<close>

text \<open>C29: The terms of a valid proposal never rule out its execution: its review window, its
  delay and its expiry leave room for the verification, three approvals and the execution.\<close>

theorem proposals_can_succeed:
  assumes "proposal_validate E p program key = Inr ()"
  shows "\<exists>s. reachable (terms_of p) s \<and> it_phase s = Executed"
proof (rule life_can_execute)
  have "boundaries (pr_timing p) (pr_created p) = Inr (pr_review_end p, pr_not_before p, pr_expires p)"
    using assms by (simp add: proposal_validate_ok)
  note bounds = this [unfolded boundaries_ok timing_validate_ok]
  show "created_at (terms_of p) \<le> unat (pr_created p)" by (simp add: terms_of_def)
  show "unat (pr_created p) \<le> review_until (terms_of p)" 
    using bounds by (simp add: terms_of_def)
  show "unat (pr_created p) < expires_at (terms_of p)"
    using bounds by (simp add: terms_of_def)
  show "executable_from (terms_of p) \<le> unat (pr_not_before p)" by (simp add: terms_of_def)
  show "unat (pr_not_before p) < expires_at (terms_of p)"
    using bounds by (auto simp: terms_of_def)
qed

end
