(* ===== verification/Target_Facts.thy ===== *)
theory Target_Facts
  imports Upgrade_Facts
begin

text \<open>
  What the target handlers do: gate transitions, permanent closure, reclamation of records and
  publication of metadata, with the lamports each of them moves.
\<close>

section \<open>Gate transitions\<close>

lemma execute_target_gate_steps:
  assumes "execute_target_gate E program [ci, pi, gi] digest L = Inr M"
  obtains cfg p slot w g epoch N where
    "load_config E program ci L = Inr cfg" "load_proposal E program pi (Some digest) L = Inr p"
    "clock E = Inr slot" "proposal_executable p cfg slot = Inr ()" "gate_policy (pr_action p) = Inr w"
    "load_gate E program gi (gp_target w) L = Inr g" "gt_epoch g = gp_expected_epoch w"
    "gt_status g = Active \<or> gt_status g = EmergencyFrozen" "add (gt_epoch g) 1 = Inr epoch"
    "save_gate program gi (g\<lparr>gt_epoch := epoch, gt_status := (if gp_active w then Active else EmergencyFrozen),
       gt_freeze_slot := (if gp_active w then 0 else slot), gt_freeze_reason_code := (if gp_active w then 0 else 3),
       gt_active_proposal := 0, gt_last_completed_proposal := ai_key pi\<rparr>) L = Inr N"
    "save_proposal E program pi (executed p slot) N = Inr M"
  using assms unfolding execute_target_gate_def list.case Let_def
  apply (elim bnd_okE)
  apply (simp (no_asm_use) only: require_ok checks_Inr_iff)
  apply (elim conjE)
  apply (rule that)
            apply (assumption | (simp add: executed_def; fail))+
  done

text \<open>C32: A gate changes only by a quorum decision at its current epoch; it becomes active or
  emergency-frozen as decided, remains a valid gate, and its epoch advances, so the same decision can
  never be applied again.\<close>

theorem gate_transition_effect:
  assumes "execute_target_gate E program [ci, pi, gi] digest L = Inr M" and "ai_key gi \<noteq> ai_key pi"
  shows "\<exists>p slot w g g'. load_proposal E program pi (Some digest) L = Inr p \<and> clock E = Inr slot \<and>
    has_quorum p slot \<and> gate_policy (pr_action p) = Inr w \<and>
    load_gate E program gi (gp_target w) L = Inr g \<and> load_gate E program gi (gp_target w) M = Inr g' \<and>
    gt_epoch g = gp_expected_epoch w \<and> unat (gt_epoch g') = unat (gt_epoch g) + 1 \<and>
    gt_status g' = (if gp_active w then Active else EmergencyFrozen) \<and>
    gt_last_completed_proposal g' = ai_key pi \<and>
    load_proposal E program pi (Some digest) M = Inr (executed p slot) \<and>
    (\<forall>k. k \<noteq> ai_key gi \<and> k \<noteq> ai_key pi \<longrightarrow> M k = L k)"
  using assms(1)
proof (rule execute_target_gate_steps)
  fix cfg p slot and w :: target_gate_policy and g :: protocol_gate and epoch N
  let ?g = "g\<lparr>gt_epoch := epoch, gt_status := (if gp_active w then Active else EmergencyFrozen),
       gt_freeze_slot := (if gp_active w then 0 else slot), gt_freeze_reason_code := (if gp_active w then 0 else 3),
       gt_active_proposal := 0, gt_last_completed_proposal := ai_key pi\<rparr>"
  assume step: "load_proposal E program pi (Some digest) L = Inr p"
    "clock E = Inr slot" "proposal_executable p cfg slot = Inr ()" "gate_policy (pr_action p) = Inr w"
    "load_gate E program gi (gp_target w) L = Inr g" "gt_epoch g = gp_expected_epoch w"
    "add (gt_epoch g) 1 = Inr epoch" "save_gate program gi ?g L = Inr N"
    "save_proposal E program pi (executed p slot) N = Inr M"
  note p = step(1) [unfolded load_proposal_ok]
  have N: "N = set_data gi (ser_gate ?g) L" using step(8) by (simp add: save_gate_ok)
  have M: "M = set_data pi (ser_proposal (executed p slot)) N" using step(9) by (simp add: save_proposal_ok)
  have "load_gate E program gi (gp_target w) N = Inr ?g"
    using step(5,8) by (auto simp: load_gate_ok save_gate_ok ledger_simps wf_gate_def)
  then have "load_gate E program gi (gp_target w) M = Inr ?g"
    using load_set_other(3) [of gi pi] assms(2) by (simp add: M)
  moreover have "load_proposal E program pi (Some digest) M = Inr (executed p slot)"
    using load_executed [OF step(1) _ step(9)] p by blast
  moreover have "has_quorum p slot" using executable_quorum step(3) p by blast
  moreover have "\<forall>k. k \<noteq> ai_key gi \<and> k \<noteq> ai_key pi \<longrightarrow> M k = L k"
    by (simp add: M N ledger_simps)
  moreover have "unat (gt_epoch ?g) = unat (gt_epoch g) + 1"
    using step(7) by (simp add: add_ok)
  moreover have "gt_status ?g = (if gp_active w then Active else EmergencyFrozen)"
    "gt_last_completed_proposal ?g = ai_key pi" by simp_all
  ultimately show ?thesis using step(1,2,4-6) by blast
qed

section \<open>Permanent closure\<close>

lemma retire_steps:
  assumes "retire E program [ci, pi, target, pd, gi, treasury, authority, loader, ixs] digest data L = Inr M"
  obtains cfg p slot w g header payload total epoch L1 L2 where
    "envelope E program [ci, pi, target, pd, gi, treasury, authority, loader, ixs] ixs data L = Inr ()"
    "load_config E program ci L = Inr cfg" "load_proposal E program pi (Some digest) L = Inr p"
    "clock E = Inr slot" "proposal_executable p cfg slot = Inr ()" "retirement_policy (pr_action p) = Inr w"
    "load_gate E program gi (ai_key target) L = Inr g"
    "validate_program_programdata_linkage L target pd (loader_id E) = Inr header"
    "rt_target w = ai_key target" "ai_key treasury = cf_treasury cfg"
    "deployed_slot header = rt_deployed_slot w"
    "gt_epoch g = rt_expected_epoch w" "gt_status g = EmergencyFrozen"
    "checked_slice 45 (length (data_of L pd)) (data_of L pd) = Inr payload"
    "hashv E [payload] = rt_payload_sha256 w" "add (lamports_of L treasury) (lamports_of L pd) = Inr total"
    "invoke_signed E (LoaderCloseAny (ai_key pd) (ai_key treasury) (Some (ai_key authority)) (Some (ai_key target)))
         (map ai_key [pd, treasury, authority, target, loader])
         [[DOMAIN, ascii ''target-authority'', wr_32 (ai_key target),
           [snd (target_authority_pda E program (ai_key target))]]] L = Inr L1"
    "lamports_of L1 pd = 0" "lamports_of L1 treasury = total" "add (gt_epoch g) 1 = Inr epoch"
    "save_gate program gi (g\<lparr>gt_epoch := epoch, gt_freeze_slot := slot, gt_freeze_reason_code := 4,
       gt_last_completed_proposal := ai_key pi\<rparr>) L1 = Inr L2"
    "save_proposal E program pi (executed p slot) L2 = Inr M"
  using assms unfolding retire_def list.case Let_def case_prod_unfold
  apply (elim bnd_okE)
  apply (simp (no_asm_use) only: require_ok map_err_Inr_iff checks_Inr_iff)
  apply (elim conjE)
  apply (rule that)
                       apply (assumption | (simp add: executed_def; fail))+
  done

text \<open>C33: A target is closed only by a quorum decision that names its deployed slot and the hash of
  its whole installed payload, while its gate is frozen at the approved epoch; every lamport of its
  ProgramData goes to the council's treasury, and the gate stays frozen with its epoch advanced.\<close>

theorem retire_effect:
  assumes "retire E program [ci, pi, target, pd, gi, treasury, authority, loader, ixs] digest data L = Inr M"
    and "cpi_frame E"
    and "distinct (map ai_key [ci, pi, target, pd, gi, treasury, authority, loader, ixs])"
  shows "\<exists>cfg p slot w g g'. load_config E program ci L = Inr cfg \<and>
    load_proposal E program pi (Some digest) L = Inr p \<and> clock E = Inr slot \<and> has_quorum p slot \<and>
    retirement_policy (pr_action p) = Inr w \<and> rt_target w = ai_key target \<and>
    sha256 E (drop 45 (data_of L pd)) = rt_payload_sha256 w \<and> ai_key treasury = cf_treasury cfg \<and>
    lamports_of M pd = 0 \<and>
    unat (lamports_of M treasury) = unat (lamports_of L treasury) + unat (lamports_of L pd) \<and>
    load_gate E program gi (ai_key target) L = Inr g \<and> load_gate E program gi (ai_key target) M = Inr g' \<and>
    gt_status g = EmergencyFrozen \<and> gt_status g' = EmergencyFrozen \<and> gt_epoch g = rt_expected_epoch w \<and>
    unat (gt_epoch g') = unat (gt_epoch g) + 1 \<and>
    load_proposal E program pi (Some digest) M = Inr (executed p slot)"
  using assms(1)
proof (rule retire_steps)
  fix cfg p slot w and g :: protocol_gate and header payload total epoch L1 L2
  let ?g = "g\<lparr>gt_epoch := epoch, gt_freeze_slot := slot, gt_freeze_reason_code := 4,
       gt_last_completed_proposal := ai_key pi\<rparr>"
  assume step: "load_config E program ci L = Inr cfg" "load_proposal E program pi (Some digest) L = Inr p"
    "clock E = Inr slot" "proposal_executable p cfg slot = Inr ()" "retirement_policy (pr_action p) = Inr w"
    "load_gate E program gi (ai_key target) L = Inr g"
    "rt_target w = ai_key target" "ai_key treasury = cf_treasury cfg"
    "gt_epoch g = rt_expected_epoch w" "gt_status g = EmergencyFrozen"
    "checked_slice 45 (length (data_of L pd)) (data_of L pd) = Inr payload"
    "hashv E [payload] = rt_payload_sha256 w" "add (lamports_of L treasury) (lamports_of L pd) = Inr total"
    "invoke_signed E (LoaderCloseAny (ai_key pd) (ai_key treasury) (Some (ai_key authority)) (Some (ai_key target)))
         (map ai_key [pd, treasury, authority, target, loader])
         [[DOMAIN, ascii ''target-authority'', wr_32 (ai_key target),
           [snd (target_authority_pda E program (ai_key target))]]] L = Inr L1"
    "lamports_of L1 pd = 0" "lamports_of L1 treasury = total" "add (gt_epoch g) 1 = Inr epoch"
    "save_gate program gi ?g L1 = Inr L2" "save_proposal E program pi (executed p slot) L2 = Inr M"
  note p = step(2) [unfolded load_proposal_ok]
  have L2: "L2 = set_data gi (ser_gate ?g) L1" using step(18) by (simp add: save_gate_ok)
  have M: "M = set_data pi (ser_proposal (executed p slot)) L2" using step(19) by (simp add: save_proposal_ok)
  have lam: "lamports (M k) = lamports (L1 k)" for k by (simp add: M L2 ledger_simps)
  have "L1 (ai_key gi) = L (ai_key gi)"
    using cpi_frameD [OF step(14) assms(2)] assms(3) by auto
  then have "load_gate E program gi (ai_key target) L1 = Inr g"
    using step(6) load_local_facts(3) [of L1 gi L] by simp
  then have "load_gate E program gi (ai_key target) L2 = Inr ?g"
    using step(18) by (auto simp: load_gate_ok save_gate_ok ledger_simps wf_gate_def)
  moreover have "ai_key gi \<noteq> ai_key pi" using assms(3) by auto
  ultimately have "load_gate E program gi (ai_key target) M = Inr ?g"
    using load_set_other(3) [of gi pi] by (simp add: M)
  moreover have "load_proposal E program pi (Some digest) M = Inr (executed p slot)"
    using load_executed [OF step(2) _ step(19)] p by blast
  moreover have "has_quorum p slot" using executable_quorum step(4) p by blast
  moreover have "unat (gt_epoch ?g) = unat (gt_epoch g) + 1" using step(17) by (simp add: add_ok)
  moreover have "sha256 E (drop 45 (data_of L pd)) = rt_payload_sha256 w"
    using step(11,12) by (auto simp: checked_slice_def subslice_def hashv_def split: if_splits)
  moreover have "gt_status ?g = EmergencyFrozen" using step(10) by simp
  moreover have "unat (lamports_of M treasury) = unat (lamports_of L treasury) + unat (lamports_of L pd)"
    using step(13,16) by (simp add: lam add_ok)
  moreover have "lamports_of M pd = 0" using step(15) by (simp add: lam)
  ultimately show ?thesis using step(1-3,5-10) by blast
qed

section \<open>Reclaiming records\<close>

definition total_lamports :: "ledger \<Rightarrow> account_info list \<Rightarrow> nat" where
  "total_lamports L infos = (\<Sum>i\<leftarrow>infos. unat (lamports_of L i))"

lemma reclaim_total_ok:
  "reclaim_total E program target L records acc = Inr t \<Longrightarrow>
     unat t = unat acc + total_lamports L records \<and>
     (\<forall>i \<in> set records. is_writable i \<and>
        (if ai_key i = fst (gate_pda E program target)
         then \<exists>g. load_gate E program i target L = Inr g \<and> gt_status g = EmergencyFrozen
         else \<exists>p. load_proposal E program i None L = Inr p \<and> explicit_target (pr_action p) = Inr target))"
proof (induction records arbitrary: acc)
  case (Cons i records)
  from Cons.prems obtain acc' where step: "writable i = Inr ()"
    "(if ai_key i = fst (gate_pda E program target) then
            bnd (load_gate E program i target L) (\<lambda>gate.
            require (gt_status gate = EmergencyFrozen) WrongState)
          else
            bnd (load_proposal E program i None L) (\<lambda>p.
            bnd (explicit_target (pr_action p)) (\<lambda>t. require (t = target) InvalidAccount))) = Inr ()"
    "add acc (lamports_of L i) = Inr acc'" "reclaim_total E program target L records acc' = Inr t"
    by (auto elim!: bnd_okE)
  have "is_writable i"
    using step(1) by (simp add: writable_def privileges_def validate_exact_privileges_ok)
  moreover have "if ai_key i = fst (gate_pda E program target)
         then \<exists>g. load_gate E program i target L = Inr g \<and> gt_status g = EmergencyFrozen
         else \<exists>p. load_proposal E program i None L = Inr p \<and> explicit_target (pr_action p) = Inr target"
    using step(2) by (auto simp: bnd_Inr_iff require_ok split: if_splits)
  ultimately show ?case
    using Cons.IH [OF step(4)] step(3) by (simp add: add_ok total_lamports_def)
qed (simp add: total_lamports_def)

lemma fold_reclaim:
  "fold (reclaim_account E) records L k =
     (if k \<in> ai_key ` set records then \<lparr>lamports = 0, acc_data = [], owner = system_program_id E\<rparr> else L k)"
proof (induction records arbitrary: L)
  case (Cons i records)
  show ?case
    by (simp add: Cons.IH) (simp add: reclaim_account_def ledger_simps)
qed simp

text \<open>Reclaiming closes exactly the listed records, each the frozen gate of the retired
  target or a proposal about it, hands every one of them back to the System program empty, and moves
  their lamports, none lost and none created, to the council's treasury; no other account changes.\<close>

theorem reclaim_records_effect:
  assumes "reclaim_records E program (ci # target # pd # treasury # records) retired L = Inr M"
    and "distinct (map ai_key (ci # target # pd # treasury # records))"
  shows "(\<exists>cfg. load_config E program ci L = Inr cfg \<and> ai_key treasury = cf_treasury cfg) \<and>
    lamports_of L pd = 0 \<and> records \<noteq> [] \<and>
    (\<forall>i \<in> set records.
       (if ai_key i = fst (gate_pda E program retired)
        then \<exists>g. load_gate E program i retired L = Inr g \<and> gt_status g = EmergencyFrozen
        else \<exists>p. load_proposal E program i None L = Inr p \<and> explicit_target (pr_action p) = Inr retired) \<and>
       M (ai_key i) = \<lparr>lamports = 0, acc_data = [], owner = system_program_id E\<rparr>) \<and>
    total_lamports M (treasury # records) = total_lamports L (treasury # records) \<and>
    (\<forall>k. k \<notin> ai_key ` set (treasury # records) \<longrightarrow> M k = L k)"
proof -
  obtain t where step: "retired_target E program ci target pd treasury retired L = Inr ()" "records \<noteq> []"
    "reclaim_total E program (ai_key target) L records (lamports_of L treasury) = Inr t"
    "M = set_lamports treasury t (fold (reclaim_account E) records L)"
    using assms(1) by (auto simp: reclaim_records_def require_ok elim!: bnd_okE)
  obtain cfg where cfg: "load_config E program ci L = Inr cfg" "ai_key treasury = cf_treasury cfg"
    "lamports_of L pd = 0" "retired = ai_key target"
    using step(1) by (auto simp: retired_target_def require_ok elim!: bnd_okE)
  note total = reclaim_total_ok [OF step(3)]
  have fresh: "ai_key treasury \<notin> ai_key ` set records" using assms(2) by auto
  have rec: "M (ai_key i) = \<lparr>lamports = 0, acc_data = [], owner = system_program_id E\<rparr>" if "i \<in> set records" for i
  proof -
    have "ai_key i \<noteq> ai_key treasury" "ai_key i \<in> ai_key ` set records"
      using that fresh by (metis image_eqI)+
    then show ?thesis by (simp add: step(4) ledger_simps fold_reclaim)
  qed
  have "total_lamports M records = 0"
    using rec by (simp add: total_lamports_def)
  moreover have "lamports_of M treasury = t" by (simp add: step(4) ledger_simps)
  ultimately have "total_lamports M (treasury # records) = total_lamports L (treasury # records)"
    using total by (simp add: total_lamports_def)
  moreover have "\<forall>k. k \<notin> ai_key ` set (treasury # records) \<longrightarrow> M k = L k"
    by (simp add: step(4) ledger_simps fold_reclaim)
  ultimately show ?thesis
    unfolding cfg(4) using cfg(1-3) step(2) total rec by blast
qed

lemma reclaim_verification_steps:
  assumes "reclaim_verification E program [ci, target, pd, treasury, authority, metadata, verifier, system] retired L = Inr M"
  obtains cfg amount total ix seeds L1 where
    "load_config E program ci L = Inr cfg" "ai_key treasury = cf_treasury cfg"
    "ai_key metadata = fst (metadata_pda E (ai_key authority) (ai_key target))"
    "ai_key authority = fst (target_authority_pda E program (ai_key target))"
    "add (lamports_of L authority) (lamports_of L metadata) = Inr amount"
    "add (lamports_of L treasury) amount = Inr total"
    "invoke_signed E (Raw ix) (map ai_key [metadata, authority, target, verifier]) [seeds] L = Inr L1"
    "lamports_of L1 metadata = 0" "lamports_of L1 authority = amount"
    "invoke_signed E (SystemTransfer (ai_key authority) (ai_key treasury) amount)
       (map ai_key [authority, treasury, system]) [seeds] L1 = Inr M"
    "lamports_of M authority = 0" "lamports_of M treasury = total"
  using assms
  by (auto simp: reclaim_verification_def retired_target_def Let_def case_prod_unfold require_ok elim!: bnd_okE)

text \<open>Closing the verification record of a retired target leaves the record and the
  target authority without lamports and adds exactly their balances to the council's treasury.\<close>

theorem reclaim_verification_effect:
  assumes "reclaim_verification E program [ci, target, pd, treasury, authority, metadata, verifier, system] retired L = Inr M"
    and "cpi_frame E"
    and "distinct (map ai_key [ci, target, pd, treasury, authority, metadata, verifier, system])"
  shows "\<exists>cfg. load_config E program ci L = Inr cfg \<and> ai_key treasury = cf_treasury cfg \<and>
    lamports_of M metadata = 0 \<and> lamports_of M authority = 0 \<and>
    unat (lamports_of M treasury) =
      unat (lamports_of L treasury) + unat (lamports_of L authority) + unat (lamports_of L metadata) \<and>
    ai_key metadata = fst (metadata_pda E (ai_key authority) (ai_key target)) \<and>
    ai_key authority = fst (target_authority_pda E program (ai_key target))"
  using assms(1)
proof (rule reclaim_verification_steps)
  fix cfg amount total ix seeds L1
  assume step: "load_config E program ci L = Inr cfg" "ai_key treasury = cf_treasury cfg"
    "ai_key metadata = fst (metadata_pda E (ai_key authority) (ai_key target))"
    "ai_key authority = fst (target_authority_pda E program (ai_key target))"
    "add (lamports_of L authority) (lamports_of L metadata) = Inr amount"
    "add (lamports_of L treasury) amount = Inr total" "lamports_of L1 metadata = 0"
    "invoke_signed E (SystemTransfer (ai_key authority) (ai_key treasury) amount)
       (map ai_key [authority, treasury, system]) [seeds] L1 = Inr M"
    "lamports_of M authority = 0" "lamports_of M treasury = total"
  have "M (ai_key metadata) = L1 (ai_key metadata)"
    using cpi_frameD [OF step(8) assms(2)] assms(3) by auto
  then have "lamports_of M metadata = 0" using step(7) by simp
  moreover have "unat (lamports_of M treasury) =
      unat (lamports_of L treasury) + unat (lamports_of L authority) + unat (lamports_of L metadata)"
    using step(5,6,10) by (simp add: add_ok)
  ultimately show ?thesis using step by blast
qed

section \<open>Publishing metadata\<close>

lemma if_Inl_ok: "(if c then m else Inl e) = Inr x \<longleftrightarrow> c \<and> m = Inr x"
  by simp

lemma publish_steps:
  assumes "publish E program accounts digest data L = Inr M"
  obtains payer ci pi target pd authority metadata verifier system ixs rest cfg p slot policy header params rent funding L3 where
    "accounts = [payer, ci, pi, target, pd, authority, metadata, verifier, system, ixs] @ rest"
    "load_config E program ci L = Inr cfg" "load_proposal E program pi (Some digest) L = Inr p"
    "clock E = Inr slot" "proposal_executable p cfg slot = Inr ()"
    "action_verification_policy (pr_action p) = Inr policy" "vp_target policy = ai_key target"
    "validate_program_programdata_linkage L target pd (loader_id E) = Inr header"
    "deployed_slot header = vp_deployed_slot policy"
    "ai_key metadata = fst (metadata_pda E (ai_key authority) (ai_key target))"
    "verification_params policy program = Inr params" "rent_get E = Inr rent"
    "funding = saturating_sub (rent (length (verification_record E (ai_key target) (ai_key authority) params
        (snd (metadata_pda E (ai_key authority) (ai_key target)))))) (lamports_of L metadata)"
    "funding \<le> 10000000" "funding \<le> lamports_of L payer"
    "owner_of L3 metadata = VERIFY_PROGRAM"
    "data_of L3 metadata = verification_record E (ai_key target) (ai_key authority) params
        (snd (metadata_pda E (ai_key authority) (ai_key target)))"
    "add (lamports_of L metadata) funding = Inr (lamports_of L3 metadata)"
    "lamports_of L3 authority = lamports_of L authority"
    "lamports_of L3 payer = lamports_of L payer - funding"
    "save_proposal E program pi (executed p slot) L3 = Inr M"
proof -
  obtain base gate where split: "(if length accounts = 10 then Inr (accounts, None)
          else if length accounts = 11 then Inr (take 10 accounts, Some (accounts ! 10))
          else Inl NotEnoughAccountKeys) = Inr (base, gate)"
    using assms unfolding publish_def by (auto elim!: bnd_okE)
  have len: "length base = 10" "accounts = base @ drop 10 accounts"
    using split by (auto split: if_splits)
  obtain payer ci pi target pd authority metadata verifier system ixs where
    b: "base = [payer, ci, pi, target, pd, authority, metadata, verifier, system, ixs]"
    using len(1) by (auto simp: numeral_eq_Suc length_Suc_conv)
  have acc: "accounts = [payer, ci, pi, target, pd, authority, metadata, verifier, system, ixs] @ drop 10 accounts"
    using len(2) b by simp
  show ?thesis
    using assms unfolding publish_def split b bnd.simps list.case case_prod_unfold Let_def fst_conv snd_conv
    apply (elim bnd_okE)
    apply (simp (no_asm_use) only: require_ok map_err_Inr_iff checks_Inr_iff if_Inl_ok)
    apply (elim conjE bnd_okE)
    apply (simp (no_asm_use) only: require_ok)
    apply (elim conjE)
    apply (rule that)
                        apply (rule acc)
                       apply (assumption | (simp add: executed_def; fail))+
    done
qed

text \<open>Publication leaves exactly the record of the approved policy in the metadata account.  The
  payer pays the missing rent, at most 10000000 lamports, the metadata account receives exactly that,
  and the authority's balance is what it was, whatever the external program moved in between.\<close>

theorem publish_effect:
  assumes "publish E program accounts digest data L = Inr M" and "distinct (map ai_key accounts)"
  shows "\<exists>payer ci pi target pd authority metadata verifier system ixs rest p slot policy params (funding :: u64).
    accounts = [payer, ci, pi, target, pd, authority, metadata, verifier, system, ixs] @ rest \<and>
    load_proposal E program pi (Some digest) L = Inr p \<and> clock E = Inr slot \<and> has_quorum p slot \<and>
    action_verification_policy (pr_action p) = Inr policy \<and> vp_target policy = ai_key target \<and>
    verification_params policy program = Inr params \<and>
    data_of M metadata = verification_record E (ai_key target) (ai_key authority) params
        (snd (metadata_pda E (ai_key authority) (ai_key target))) \<and>
    owner_of M metadata = VERIFY_PROGRAM \<and> unat funding \<le> 10000000 \<and>
    unat (lamports_of M payer) + unat funding = unat (lamports_of L payer) \<and>
    unat (lamports_of M metadata) = unat (lamports_of L metadata) + unat funding \<and>
    lamports_of M authority = lamports_of L authority \<and>
    load_proposal E program pi (Some digest) M = Inr (executed p slot)"
  using assms(1)
proof (rule publish_steps)
  fix payer ci pi target pd authority metadata verifier system ixs rest cfg p slot policy header params rent funding L3
  assume acc: "accounts = [payer, ci, pi, target, pd, authority, metadata, verifier, system, ixs] @ rest"
    and step: "load_proposal E program pi (Some digest) L = Inr p" "clock E = Inr slot"
    "proposal_executable p cfg slot = Inr ()" "action_verification_policy (pr_action p) = Inr policy"
    "vp_target policy = ai_key target" "verification_params policy program = Inr params"
    "funding \<le> 10000000" "funding \<le> lamports_of L payer" "owner_of L3 metadata = VERIFY_PROGRAM"
    "data_of L3 metadata = verification_record E (ai_key target) (ai_key authority) params
        (snd (metadata_pda E (ai_key authority) (ai_key target)))"
    "add (lamports_of L metadata) funding = Inr (lamports_of L3 metadata)"
    "lamports_of L3 authority = lamports_of L authority"
    "lamports_of L3 payer = lamports_of L payer - funding"
    "save_proposal E program pi (executed p slot) L3 = Inr M"
  note p = step(1) [unfolded load_proposal_ok]
  have M: "M = set_data pi (ser_proposal (executed p slot)) L3"
    using step(14) by (simp add: save_proposal_ok)
  have "ai_key metadata \<noteq> ai_key pi" using assms(2) by (auto simp: acc)
  then have meta: "data_of M metadata = data_of L3 metadata" "owner_of M metadata = owner_of L3 metadata"
    by (simp_all add: M ledger_simps)
  have lam: "lamports (M k) = lamports (L3 k)" for k by (simp add: M ledger_simps)
  have loaded: "load_proposal E program pi (Some digest) M = Inr (executed p slot)"
    using load_executed [OF step(1) _ step(14)] p by blast
  have quorum: "has_quorum p slot" using executable_quorum step(3) p by blast
  have pay: "unat (lamports_of M payer) + unat funding = unat (lamports_of L payer)"
    using step(8) unfolding lam step(13) by (simp add: unat_sub word_le_nat_alt)
  have got: "unat (lamports_of M metadata) = unat (lamports_of L metadata) + unat funding"
    using step(11) unfolding lam add_ok .
  have small: "unat funding \<le> 10000000" using step(7) by (simp add: word_le_nat_alt)
  have kept: "lamports_of M authority = lamports_of L authority"
    unfolding lam by (rule step(12))
  show ?thesis
    by (intro exI conjI, rule acc, rule step(1), rule step(2), rule quorum, rule step(4), rule step(5),
        rule step(6), rule meta(1) [unfolded step(10)], rule meta(2) [unfolded step(9)], rule small,
        rule pay, rule got, rule kept, rule loaded)
qed

section \<open>Registration\<close>

lemma bnd_unitE:
  assumes "bnd m f = Inr y"
  obtains "m = Inr ()" "f () = Inr y"
  using assms by (auto simp: bnd_Inr_iff)

lemma register_target_steps:
  assumes "register_target E program [payer, deployer, ci, target, pd, gi, authority, loader, system, a, b, c, ixs] data L = Inr M"
  obtains cfg na nb nc before slot rent gate L1 L2 after where
    "signer deployer = Inr ()"
    "envelope E program [payer, deployer, ci, target, pd, gi, authority, loader, system, a, b, c, ixs] ixs data L = Inr ()"
    "load_config E program ci L = Inr cfg" "seat cfg a = Inr na" "seat cfg b = Inr nb" "seat cfg c = Inr nc"
    "ai_key target \<noteq> program" "ai_key gi = fst (gate_pda E program (ai_key target))"
    "ai_key pd = fst (find_program_address E [wr_32 (ai_key target)] (loader_id E))"
    "validate_program_programdata_linkage L target pd (loader_id E) = Inr before"
    "upgrade_authority before = Some (ai_key deployer)" "clock E = Inr slot"
    "gate = \<lparr>gt_discriminator = ascii ''AGVGAT01'', gt_version = 1, gt_bump = snd (gate_pda E program (ai_key target)),
             gt_initialized = True, gt_status = EmergencyFrozen, gt_controller_config = ai_key ci,
             gt_target_program = ai_key target, gt_target_programdata = ai_key pd, gt_epoch = 1,
             gt_active_proposal = 0, gt_freeze_slot = slot, gt_freeze_reason_code = 1,
             gt_last_completed_proposal = 0, gt_reserved = replicate 2 0\<rparr>"
    "create_fixed_pda_account E program payer gi system rent GATE_LEN
         [DOMAIN, ascii ''gate'', wr_32 (ai_key target), [snd (gate_pda E program (ai_key target))]] L = Inr L1"
    "save_gate program gi gate L1 = Inr L2"
    "invoke_signed E (SetUpgradeAuthorityChecked (ai_key target) (ai_key deployer) (ai_key authority))
         (map ai_key [pd, deployer, authority, loader])
         [[DOMAIN, ascii ''target-authority'', wr_32 (ai_key target),
           [snd (target_authority_pda E program (ai_key target))]]] L2 = Inr M"
    "validate_program_programdata_linkage M target pd (loader_id E) = Inr after"
    "upgrade_authority after = Some (fst (target_authority_pda E program (ai_key target)))"
    "capacity after = capacity before" "deployed_slot after = deployed_slot before"
  using assms unfolding register_target_def list.case list.map case_prod_unfold Let_def
  apply (elim bnd_okE)
  apply (simp (no_asm_use) only: require_ok map_err_Inr_iff checks.simps)
  apply (elim conjE bnd_unitE bnd_okE)
  apply (drule sum.inject(2) [THEN iffD1])
  apply hypsubst
  apply (rule that)
                     apply (assumption | rule refl | (unfold list.map, assumption))+
  done

text \<open>Registration needs the deployer's signature as the current upgrade authority and
  three council seats; it creates the gate of a target that had none, frozen at epoch one, and hands
  the otherwise unchanged program to the target authority of the controller.\<close>

theorem register_target_effect:
  assumes "register_target E program [payer, deployer, ci, target, pd, gi, authority, loader, system, a, b, c, ixs]
      data L = Inr M"
    and "cpi_frame E"
    and "distinct (map ai_key [payer, deployer, ci, target, pd, gi, authority, loader, system, a, b, c, ixs])"
  shows "\<exists>cfg na nb nc slot before after g. load_config E program ci L = Inr cfg \<and> is_signer deployer \<and>
    seat cfg a = Inr na \<and> seat cfg b = Inr nb \<and> seat cfg c = Inr nc \<and> distinct [na, nb, nc] \<and>
    clock E = Inr slot \<and> owner_of L gi = system_program_id E \<and> data_of L gi = [] \<and>
    load_gate E program gi (ai_key target) M = Inr g \<and> gt_status g = EmergencyFrozen \<and> gt_epoch g = 1 \<and>
    gt_freeze_slot g = slot \<and>
    validate_program_programdata_linkage L target pd (loader_id E) = Inr before \<and>
    validate_program_programdata_linkage M target pd (loader_id E) = Inr after \<and>
    upgrade_authority before = Some (ai_key deployer) \<and>
    after = before\<lparr>upgrade_authority := Some (fst (target_authority_pda E program (ai_key target)))\<rparr>"
  using assms(1)
proof (rule register_target_steps)
  fix cfg na nb nc before slot gate rent L1 L2 after
  assume step: "signer deployer = Inr ()" "load_config E program ci L = Inr cfg"
    "seat cfg a = Inr na" "seat cfg b = Inr nb" "seat cfg c = Inr nc"
    "ai_key target \<noteq> program" "ai_key gi = fst (gate_pda E program (ai_key target))"
    "ai_key pd = fst (find_program_address E [wr_32 (ai_key target)] (loader_id E))"
    "validate_program_programdata_linkage L target pd (loader_id E) = Inr before"
    "upgrade_authority before = Some (ai_key deployer)" "clock E = Inr slot"
    "create_fixed_pda_account E program payer gi system rent GATE_LEN
         [DOMAIN, ascii ''gate'', wr_32 (ai_key target), [snd (gate_pda E program (ai_key target))]] L = Inr L1"
    "save_gate program gi gate L1 = Inr L2"
    "invoke_signed E (SetUpgradeAuthorityChecked (ai_key target) (ai_key deployer) (ai_key authority))
         (map ai_key [pd, deployer, authority, loader])
         [[DOMAIN, ascii ''target-authority'', wr_32 (ai_key target),
           [snd (target_authority_pda E program (ai_key target))]]] L2 = Inr M"
    "validate_program_programdata_linkage M target pd (loader_id E) = Inr after"
    "upgrade_authority after = Some (fst (target_authority_pda E program (ai_key target)))"
    "capacity after = capacity before" "deployed_slot after = deployed_slot before"
    and gate: "gate = \<lparr>gt_discriminator = ascii ''AGVGAT01'', gt_version = 1, gt_bump = snd (gate_pda E program (ai_key target)),
             gt_initialized = True, gt_status = EmergencyFrozen, gt_controller_config = ai_key ci,
             gt_target_program = ai_key target, gt_target_programdata = ai_key pd, gt_epoch = 1,
             gt_active_proposal = 0, gt_freeze_slot = slot, gt_freeze_reason_code = 1,
             gt_last_completed_proposal = 0, gt_reserved = replicate 2 0\<rparr>"
  have wf: "wf_config cfg" and ci: "ai_key ci = fst (config_pda E program)"
    using step(2) by (auto simp: load_config_ok config_validate_def bnd_Inr_iff require_ok)
  have wfg: "wf_gate gate" by (simp add: gate wf_gate_def)
  have "load_gate E program gi (ai_key target) L2 = Inr gate"
    using step(6,7,8,13) ci wfg by (auto simp: load_gate_ok save_gate_ok ledger_simps gate prod_eq_iff)
  moreover have "M (ai_key gi) = L2 (ai_key gi)"
    using cpi_frameD [OF step(14) assms(2)] assms(3) by auto
  ultimately have loaded: "load_gate E program gi (ai_key target) M = Inr gate"
    using load_local_facts(3) [of M gi L2] by simp
  have "cf_seats cfg ! na = ai_key a" "cf_seats cfg ! nb = ai_key b" "cf_seats cfg ! nc = ai_key c"
    using step(3-5) seat_position [OF _ wf] by blast+
  then have dist: "distinct [na, nb, nc]" using assms(3) by auto
  have sig: "is_signer deployer"
    using step(1) by (simp add: signer_def privileges_def validate_exact_privileges_ok)
  have hand: "after = before\<lparr>upgrade_authority := Some (fst (target_authority_pda E program (ai_key target)))\<rparr>"
    using step(9,15-18) linkage_offset by (intro programdata_header.equality) auto
  have "gt_status gate = EmergencyFrozen" "gt_epoch gate = 1" "gt_freeze_slot gate = slot"
    by (simp_all add: gate)
  with step(2-5,9-11,15) create_fixed_pda_account_ok(4,5) [OF step(12)] loaded dist sig hand
  show ?thesis by blast
qed

end
