(* ===== verification/Council_Runs.thy ===== *)
theory Council_Runs
  imports Target_Facts
begin

text \<open>
  Complete runs of the council handlers on concrete ledgers: the bootstrap, the creation of a
  proposal, the execution of a timing change and of a council rotation.
\<close>

section \<open>Policies\<close>

definition new_seats :: "pubkey list" where
  "new_seats = [26, 27, 28, 29, 30]"

definition rotate_action :: action where
  "rotate_action = \<lparr>ac_kind = ROTATE_COUNCIL, ac_data = concat (map wr_32 new_seats) @ replicate 32 0\<rparr>"

lemma rotate_action_wf [simp]: "wf_action rotate_action"
  by (simp add: wf_action_def rotate_action_def ACTION_LEN_def new_seats_def)

interpretation five_keys: borsh_codec "\<lambda>s. concat (map wr_32 s)" "rd_array 5 rd_32" "\<lambda>s. length s = 5" 160
proof
  fix s :: "pubkey list" and bs r
  show "length s = 5 \<Longrightarrow> rd_array 5 rd_32 (concat (map wr_32 s) @ r) = Some (s, r)"
    using key_codec.rd_array_ser [of s r] by simp
  show "length s = 5 \<Longrightarrow> length (concat (map wr_32 s)) = 160"
    using key_codec.array_size [of s] by simp
  show "rd_array 5 rd_32 bs = Some (s, r) \<Longrightarrow> bs = concat (map wr_32 s) @ r"
    "rd_array 5 rd_32 bs = Some (s, r) \<Longrightarrow> length s = 5"
    using key_codec.ser_rd_array [of 5 bs s r] by simp_all
qed

lemma rotate_action_kind [simp]: "ac_kind rotate_action = ROTATE_COUNCIL" "\<not> is_upgrade rotate_action"
  by (simp_all add: rotate_action_def is_upgrade_def kind_consts)

lemma rotate_action_decodes [simp]: "action_seats rotate_action = Inr new_seats"
  unfolding action_seats_def
  by (subst five_keys.decode_padded_iff)
    (simp_all add: ACTION_LEN_def rotate_action_def wf_action_def new_seats_def)

lemma rotate_action_ok [simp]: "action_validate rotate_action = Inr ()"
  by (simp add: action_validate_def kind_consts validate_seats_ok new_seats_def)

lemma approved_select [simp]:
  "pr_action (approved_proposal a) = a" "pr_state (approved_proposal a) = PENDING"
  "pr_approval_count (approved_proposal a) = 3" "pr_not_before (approved_proposal a) = 1500150"
  "pr_expires (approved_proposal a) = 4092000" "pr_council_epoch (approved_proposal a) = 1"
  "pr_timing_version (approved_proposal a) = 1"
  by (simp_all add: approved_proposal_def)

lemma sample_config_select [simp]:
  "cf_council_epoch sample_config = 1" "cf_timing_version sample_config = 1"
  "cf_treasury sample_config = 31" "cf_seats sample_config = [21, 22, 23, 24, 25]"
  "cf_next_id sample_config = 2" "cf_timing sample_config = timing_default" "cf_authority sample_config = 1028"
  by (simp_all add: sample_config_def)

text \<open>In any environment whose addresses and clock are the sample ones, a fully approved proposal passes
  the guards every execution handler starts with.\<close>

lemma approved_executable [simp]:
  "proposal_executable (approved_proposal a) sample_config 2000000 = Inr ()"
  by (simp add: proposal_executable_ok)

lemma add_one_one [simp]: "add 1 1 = Inr 2"
  by (simp add: add_def checked_add_def)

lemma policy_runs:
  assumes "wf_action a" and "action_validate a = Inr ()" and "\<not> is_upgrade a"
    and "(if ac_kind a = SET_TIMING then \<exists>t. action_timing a = Inr t \<and> cfg' = sample_config\<lparr>cf_timing := t, cf_timing_version := 2\<rparr>
      else ac_kind a = ROTATE_COUNCIL \<and> (\<exists>s. action_seats a = Inr s \<and> cfg' = sample_config\<lparr>cf_seats := s, cf_council_epoch := 2\<rparr>))"
    and "config_validate sample_env cfg' program_key 1026 = Inr ()"
  shows "\<exists>M. execute_policy sample_env program_key [rw 1026, rw 1035] (pr_digest (approved_proposal a))
      (sample_ledger (approved_proposal a)) = Inr M \<and> load_config sample_env program_key (rw 1026) M = Inr cfg'"
proof -
  let ?p = "approved_proposal a" and ?i = "rw 1035" and ?L = "sample_ledger (approved_proposal a)"
  have load: "load_proposal sample_env program_key ?i (Some (pr_digest ?p)) ?L = Inr ?p"
    using sample_loads(1) [of ?p ?i] assms(1-3) by simp
  have cfg: "load_config sample_env program_key (rw 1026) ?L = Inr sample_config"
    by (rule sample_loads) simp
  have slot: "clock sample_env = Inr 2000000" by (simp add: clock_ok)
  let ?N = "set_data ?i (ser_proposal (executed ?p 2000000)) ?L"
  have save: "save_proposal sample_env program_key ?i (executed ?p 2000000) ?L = Inr ?N"
    by (rule save_executed [OF load approved_executable]) simp_all
  have wf: "wf_config cfg'"
    using assms(4) action_seats_length [of a] sample_config_wf by (auto simp: wf_config_def split: if_splits)
  have store: "store_fixed_controller_account ser_config ?N program_key (rw 1026) cfg' CONFIG_LEN
      = Inr (set_data (rw 1026) (ser_config cfg') ?N)"
    by (simp add: store_ok_iff config_codec.ser_size wf ledger_simps sample_ledger_def)
  have "execute_policy sample_env program_key [rw 1026, ?i] (pr_digest ?p) ?L
      = Inr (set_data (rw 1026) (ser_config cfg') ?N)"
    using assms(4,5) save store unfolding executed_def
    by (auto simp: execute_policy_def load cfg slot guard_ok if_distrib split: if_splits)
  moreover have "load_config sample_env program_key (rw 1026) (set_data (rw 1026) (ser_config cfg') ?N) = Inr cfg'"
    using wf assms(5) by (simp add: load_config_ok ledger_simps sample_ledger_def)
  ultimately show ?thesis by blast
qed

theorem execute_policy_effect_witness:
  "\<exists>M p slot. execute_policy sample_env program_key [rw 1026, rw 1035] (pr_digest (approved_proposal timing_action))
      (sample_ledger (approved_proposal timing_action)) = Inr M \<and> has_quorum p slot \<and>
    load_proposal sample_env program_key (rw 1035) (Some (pr_digest (approved_proposal timing_action))) M
      = Inr (executed p slot)"
proof -
  let ?c = "sample_config\<lparr>cf_timing := timing_default, cf_timing_version := 2\<rparr>"
  have "config_validate sample_env ?c program_key 1026 = Inr ()"
    using sample_config_ok by (simp add: config_validate_def require_ok bnd_Inr_iff)
  then have "\<exists>M. execute_policy sample_env program_key [rw 1026, rw 1035] (pr_digest (approved_proposal timing_action))
      (sample_ledger (approved_proposal timing_action)) = Inr M \<and> load_config sample_env program_key (rw 1026) M = Inr ?c"
    by (intro policy_runs) simp_all
  then obtain M where M: "execute_policy sample_env program_key [rw 1026, rw 1035] (pr_digest (approved_proposal timing_action))
      (sample_ledger (approved_proposal timing_action)) = Inr M" by blast
  have "ai_key (rw 1026) \<noteq> ai_key (rw 1035)" by simp
  from execute_policy_effect [OF M this] M show ?thesis by blast
qed

theorem rotation_revokes_old_proposals_witness:
  "\<exists>cfg'. cf_seats cfg' = new_seats \<and> \<not> is_ok (proposal_current (proposal_for timing_action) cfg' 2000001)"
proof -
  let ?p = "approved_proposal rotate_action"
  let ?c = "sample_config\<lparr>cf_seats := new_seats, cf_council_epoch := 2\<rparr>"
  have "config_validate sample_env ?c program_key 1026 = Inr ()"
    using sample_config_ok
    by (simp add: config_validate_def require_ok bnd_Inr_iff validate_seats_ok new_seats_def sample_config_def)
  then have "\<exists>M. execute_policy sample_env program_key [rw 1026, rw 1035] (pr_digest ?p) (sample_ledger ?p) = Inr M \<and>
      load_config sample_env program_key (rw 1026) M = Inr ?c"
    by (intro policy_runs) (simp_all add: kind_consts)
  then obtain M where M: "execute_policy sample_env program_key [rw 1026, rw 1035] (pr_digest ?p) (sample_ledger ?p) = Inr M"
      "load_config sample_env program_key (rw 1026) M = Inr ?c"
    by blast
  have cfg: "load_config sample_env program_key (rw 1026) (sample_ledger ?p) = Inr sample_config"
    by (rule sample_loads) simp
  have "ai_key (rw 1026) \<noteq> ai_key (rw 1035)" "cf_seats ?c \<noteq> cf_seats sample_config"
    "pr_council_epoch (proposal_for timing_action) = cf_council_epoch sample_config"
    by (simp_all add: new_seats_def)
  from rotation_revokes_old_proposals [OF M(1) this(1) cfg M(2) this(2,3)] show ?thesis
    by (intro exI [of _ ?c]) simp
qed

section \<open>Creation\<close>

definition payer_info :: "pubkey \<Rightarrow> account_info" where
  "payer_info k = \<lparr>ai_key = k, is_signer = True, is_writable = True, executable = False\<rparr>"
definition prog :: "pubkey \<Rightarrow> account_info" where
  "prog k = \<lparr>ai_key = k, is_signer = False, is_writable = False, executable = True\<rparr>"

lemma info_simps2 [simp]:
  "ai_key (payer_info k) = k" "is_signer (payer_info k)" "is_writable (payer_info k)" "\<not> executable (payer_info k)"
  "ai_key (prog k) = k" "\<not> is_signer (prog k)" "\<not> is_writable (prog k)" "executable (prog k)"
  by (simp_all add: payer_info_def prog_def)

text \<open>A fresh address: no lamports, no data, owned by the System program.\<close>

definition creation_ledger :: ledger where
  "creation_ledger =
     (\<lambda>k. \<lparr>lamports = 5, acc_data = [], owner = 0\<rparr>)
       (1026 := \<lparr>lamports = 5, acc_data = ser_config sample_config, owner = program_key\<rparr>,
        1035 := \<lparr>lamports = 0, acc_data = [], owner = 0\<rparr>,
        61 := \<lparr>lamports = 9000000, acc_data = [], owner = 0\<rparr>)"

lemma world_invoke:
  "(\<And>k. k \<notin> set keys \<Longrightarrow> sample_effect c L k = L k) \<Longrightarrow>
     invoke_signed world_env c keys sds L = Inr (sample_effect c L)"
  by (auto simp: fun_eq_iff)

lemma create_fixed_runs_in:
  assumes "lamports_of L (rw j) = 0" and "data_of L (rw j) = []" and "owner_of L (rw j) = 0"
    and "j \<noteq> k" and "space < 10000" and "system_program_id E = 0"
    and "invoke_signed E (SystemCreateAccount k j 1000000 (of_nat space) program) [k, j, 0] [seeds] L
      = Inr (sample_effect (SystemCreateAccount k j 1000000 (of_nat space) program) L)"
  shows "create_fixed_pda_account E program (payer_info k) (rw j) (prog 0) (\<lambda>n. 1000000) space seeds L
    = Inr (L(k := (L k)\<lparr>lamports := lamports (L k) - 1000000\<rparr>,
        j := \<lparr>lamports = 1000000, acc_data = replicate space 0, owner = program\<rparr>))" (is "_ = Inr ?M")
proof -
  have space: "unat (of_nat space :: u64) = space" using assms(5) by (simp add: unat_of_nat)
  have "sample_effect (SystemCreateAccount k j 1000000 (of_nat space) program) L = ?M"
    by (simp add: space)
  with assms(7) have "fund_and_allocate E program (payer_info k) (rw j) (prog 0) 1000000 space seeds L = Inr ?M"
    unfolding fund_and_allocate_def Let_def using assms(1) by simp
  then show ?thesis
    using assms by (simp add: create_fixed_pda_account_def validate_exact_privileges_def)
qed

lemma world_creates:
  "invoke_signed world_env (SystemCreateAccount k j v n p) [k, j, s] sds L
    = Inr (sample_effect (SystemCreateAccount k j v n p) L)"
  by (rule world_invoke) (simp add: fun_upd_def)

lemma create_fixed_runs:
  assumes "lamports_of L (rw j) = 0" and "data_of L (rw j) = []" and "owner_of L (rw j) = 0"
    and "j \<noteq> k" and "space < 10000"
  shows "create_fixed_pda_account world_env program (payer_info k) (rw j) (prog 0) (\<lambda>n. 1000000) space seeds L
    = Inr (L(k := (L k)\<lparr>lamports := lamports (L k) - 1000000\<rparr>,
        j := \<lparr>lamports = 1000000, acc_data = replicate space 0, owner = program\<rparr>))"
  by (rule create_fixed_runs_in [OF _ _ _ _ _ _ world_creates]) (use assms in simp_all)

text \<open>A proposal built from a valid configuration, clock and action is valid.\<close>

lemma new_proposal_valid:
  assumes "boundaries (cf_timing cfg) slot = Inr bounds" and "action_validate a = Inr ()"
    and "is_upgrade a \<longrightarrow> is_ok (action_artifact a)" and "0 < n" and "proposal_pda E program n = (key, bump)"
    and "ck = fst (config_pda E program)" and "0 < cf_council_epoch cfg" and "0 < cf_timing_version cfg"
    and "v = new_proposal cfg ck n bump a slot bounds"
  shows "proposal_validate E (v\<lparr>pr_digest := compute_digest E v program\<rparr>) program key = Inr ()"
proof -
  obtain r b e where bounds: "bounds = (r, b, e)" by (cases bounds)
  let ?p = "v\<lparr>pr_digest := compute_digest E v program\<rparr>"
  have v: "v = new_proposal cfg ck n bump a slot (r, b, e)" using assms(9) bounds by simp
  have "extension_validate ?p = Inr ()"
    using assms(3) by (auto simp: extension_validate_def v new_proposal_def require_def is_ok_iff)
  moreover have "proposal_fields_ok E ?p program key"
    using assms(4-8) by (simp add: proposal_fields_ok_def v new_proposal_def verified_bitmap_def
        bitmap_zero PENDING_def EXPIRED_def)
  moreover have "lifecycle_ok ?p"
    by (simp add: lifecycle_ok_def v new_proposal_def state_consts)
  moreover have "compute_digest E ?p program = compute_digest E v program"
    by (simp add: compute_digest_def)
  ultimately show ?thesis
    using assms(1,2) by (simp add: proposal_validate_ok v new_proposal_def bounds)
qed

lemma world_clock [simp]: "clock world_env = Inr 2000000"
  by (simp add: clock_ok)

text \<open>The proposal created at slot 2000000 for an action.\<close>

definition created_proposal :: "action \<Rightarrow> proposal" where
  "created_proposal a =
     (let v = new_proposal sample_config 1026 2 255 a 2000000 (3512000, 2000150, 4592000)
      in v\<lparr>pr_digest := compute_digest sample_env v program_key\<rparr>)"

lemma created_select [simp]:
  "pr_id (created_proposal a) = 2" "pr_action (created_proposal a) = a" "pr_state (created_proposal a) = PENDING"
  "pr_council_epoch (created_proposal a) = 1" "pr_timing_version (created_proposal a) = 1"
  "pr_created (created_proposal a) = 2000000" "pr_review_end (created_proposal a) = 3512000"
  "pr_not_before (created_proposal a) = 2000150" "pr_expires (created_proposal a) = 4592000"
  "pr_approvals (created_proposal a) = 0" "pr_cancellations (created_proposal a) = 0"
  by (simp_all add: created_proposal_def new_proposal_def Let_def)

lemma created_bounds: "boundaries timing_default 2000000 = Inr (3512000, 2000150, 4592000)"
  unfolding boundaries_ok using timing_default_ok
  by (simp add: timing_default_def WEEK_SLOTS_def MIN_DELAY_SLOTS_def)

lemma created_wf [simp]: "wf_action a \<Longrightarrow> wf_proposal (created_proposal a)"
  by (simp add: created_proposal_def Let_def new_proposal_wf)

lemma created_valid [simp]:
  assumes "action_validate a = Inr ()" and "is_upgrade a \<longrightarrow> is_ok (action_artifact a)"
  shows "proposal_validate sample_env (created_proposal a) program_key 1035 = Inr ()"
  unfolding created_proposal_def Let_def
  by (rule new_proposal_valid [OF _ _ _ _ _ _ _ _ refl]) (simp_all add: created_bounds assms)

lemma create_runs_in:
  assumes "same_chain sample_env E" and "clock E = Inr 2000000" and "rent_get E = Inr (\<lambda>n. 1000000)"
    and "system_program_id E = 0"
    and "\<And>seeds. invoke_signed E (SystemCreateAccount 61 1035 1000000 400 program_key) [61, 1035, 0] [seeds] creation_ledger
      = Inr (sample_effect (SystemCreateAccount 61 1035 1000000 400 program_key) creation_ledger)"
    and "wf_action a" and "action_validate a = Inr ()" and "is_upgrade a \<longrightarrow> is_ok (action_artifact a)"
    and "ac_kind a \<noteq> UPGRADE_CONTROLLER" and "ac_kind a \<noteq> ROTATE_COUNCIL"
  shows "\<exists>M. create E program_key [payer_info 61, sg 22, rw 1026, rw 1035, prog 0] 2 a creation_ledger = Inr M \<and>
    load_config E program_key (rw 1026) M = Inr (sample_config\<lparr>cf_next_id := 3\<rparr>) \<and>
    load_proposal E program_key (rw 1035) None M = Inr (created_proposal a)"
proof -
  let ?L = creation_ledger and ?p = "created_proposal a" and ?c = "sample_config\<lparr>cf_next_id := 3\<rparr>"
  note same = same_chain_eqs [OF assms(1)]
  have cfg: "load_config E program_key (rw 1026) ?L = Inr sample_config"
    by (simp add: load_config_ok creation_ledger_def same)
  have fresh: "lamports_of ?L (rw 1035) = 0" "data_of ?L (rw 1035) = []" "owner_of ?L (rw 1035) = 0"
    by (simp_all add: creation_ledger_def)
  obtain L1 where L1: "create_fixed_pda_account E program_key (payer_info 61) (rw 1035) (prog 0) (\<lambda>n. 1000000)
      PROPOSAL_LEN [DOMAIN, ascii ''proposal'', wr_u64 2, [255]] ?L = Inr L1"
      "owner (L1 1035) = program_key" "length (acc_data (L1 1035)) = PROPOSAL_LEN" "L1 1026 = ?L 1026"
    using create_fixed_runs_in [of ?L 1035 61 PROPOSAL_LEN E program_key
        "[DOMAIN, ascii ''proposal'', wr_u64 2, [255]]"] fresh assms(4,5)
    by (simp add: PROPOSAL_LEN_def)
  let ?N = "set_data (rw 1035) (ser_proposal ?p) L1" and ?M = "set_data (rw 1026) (ser_config ?c)
      (set_data (rw 1035) (ser_proposal ?p) L1)"
  have valid: "proposal_validate sample_env ?p program_key 1035 = Inr ()"
    using assms(7,8) by (rule created_valid)
  have save: "save_proposal E program_key (rw 1035) ?p L1 = Inr ?N"
    using valid L1(2,3) assms(6) by (simp add: save_proposal_ok proposal_codec.ser_size same)
  have next_wf: "wf_config ?c" using sample_config_wf by (simp add: wf_config_def)
  have store: "store_fixed_controller_account ser_config ?N program_key (rw 1026) ?c CONFIG_LEN = Inr ?M"
    using next_wf by (simp add: store_ok_iff config_codec.ser_size ledger_simps L1(4))
      (simp add: creation_ledger_def config_codec.ser_size)
  have "create E program_key [payer_info 61, sg 22, rw 1026, rw 1035, prog 0] 2 a ?L = Inr ?M"
  proof -
    have "add (2 :: u64) 1 = Inr 3" by (simp add: add_def checked_add_def)
    moreover have "seat sample_config (sg 22) = Inr 1"
      by (simp add: seat_ok)
    moreover note L1(1) save [unfolded created_proposal_def Let_def] store [unfolded created_proposal_def Let_def]
      valid [unfolded created_proposal_def Let_def]
    ultimately show ?thesis
      using assms(2-4,7,9,10)
      by (simp add: create_def guard_ok cfg created_bounds kind_consts Let_def same created_proposal_def)
  qed
  moreover have "load_proposal E program_key (rw 1035) None ?M = Inr ?p"
    using valid assms(6) L1(2) by (simp add: load_proposal_ok ledger_simps same)
  moreover have "config_validate sample_env ?c program_key 1026 = Inr ()"
    using sample_config_ok by (simp add: config_validate_def require_ok bnd_Inr_iff)
  then have "load_config E program_key (rw 1026) ?M = Inr ?c"
    using next_wf by (simp add: load_config_ok ledger_simps same L1(4)) (simp add: creation_ledger_def)
  ultimately show ?thesis by blast
qed

lemma create_runs:
  "\<exists>M. create world_env program_key [payer_info 61, sg 22, rw 1026, rw 1035, prog 0] 2 timing_action creation_ledger = Inr M"
  using create_runs_in [OF world_chain world_clock _ _ world_creates, of timing_action] by (auto simp: kind_consts)

theorem create_effect_witness:
  "\<exists>M p. create world_env program_key [payer_info 61, sg 22, rw 1026, rw 1035, prog 0] 2 timing_action creation_ledger
      = Inr M \<and> load_proposal world_env program_key (rw 1035) None M = Inr p \<and>
    pr_id p = 2 \<and> pr_action p = timing_action \<and> voters (pr_approvals p) = {}"
proof -
  obtain M where M: "create world_env program_key [payer_info 61, sg 22, rw 1026, rw 1035, prog 0] 2 timing_action
      creation_ledger = Inr M"
    using create_runs by blast
  have "distinct (map ai_key [payer_info 61, sg 22, rw 1026, rw 1035, prog 0])" by simp
  from create_effect [OF M world_cpi_frame timing_action_wf this] M show ?thesis by blast
qed

section \<open>Bootstrap\<close>

lemma programdata_of_program: "acc_data (L p) = program_bytes d \<Longrightarrow> programdata_of L p = d"
  by (simp add: programdata_of_def program_bytes_def)

lemma change_authority:
  "take 12 (programdata_bytes slot (Some a) stale payload) @ 1 # wr_32 b @ drop 45 (programdata_bytes slot (Some a) stale payload)
     = programdata_bytes slot (Some b) stale payload"
  by (simp add: programdata_bytes_def LOADER_STATE_TAG_PROGRAMDATA_def)

lemma authority_call:
  assumes "acc_data (L p) = program_bytes d" and "acc_data (L d) = programdata_bytes slot (Some a) stale payload"
    and "d \<in> set keys"
  shows "invoke_signed world_env (SetUpgradeAuthorityChecked p a b) keys sds L
    = Inr (L(d := (L d)\<lparr>acc_data := programdata_bytes slot (Some b) stale payload\<rparr>))"
proof -
  have pd: "programdata_of L p = d" using programdata_of_program [of L p d] assms(1) by blast
  have "invoke_signed world_env (SetUpgradeAuthorityChecked p a b) keys sds L
      = Inr (sample_effect (SetUpgradeAuthorityChecked p a b) L)"
    by (rule world_invoke) (use assms(3) pd in \<open>auto simp: Let_def\<close>)
  then show ?thesis
    by (simp only: sample_effect.simps pd Let_def assms(2) change_authority)
qed

definition bootstrap_ledger :: ledger where
  "bootstrap_ledger =
     (\<lambda>k. \<lparr>lamports = 0, acc_data = [], owner = 0\<rparr>)
       (500 := \<lparr>lamports = 5, acc_data = program_bytes 1032, owner = 901\<rparr>,
        1032 := \<lparr>lamports = 5, acc_data = programdata_bytes 7 (Some 71) 0 [1, 2, 3], owner = 901\<rparr>,
        61 := \<lparr>lamports = 9000000, acc_data = [], owner = 0\<rparr>)"

lemma initialize_runs:
  "\<exists>M. initialize world_env 500 [payer_info 61, sg 71, prog 500, rw 1032, rw 1026, ro 1028, prog 901, prog 0,
      sg 21, sg 22, sg 23] [21, 22, 23, 24, 25] 31 bootstrap_ledger = Inr M"
proof -
  let ?L = bootstrap_ledger and ?c = "sample_config\<lparr>cf_next_id := 1\<rparr>"
  have fresh: "lamports_of ?L (rw 1026) = 0" "data_of ?L (rw 1026) = []" "owner_of ?L (rw 1026) = 0"
    by (simp_all add: bootstrap_ledger_def)
  obtain L1 where L1: "create_fixed_pda_account world_env 500 (payer_info 61) (rw 1026) (prog 0) (\<lambda>n. 1000000)
      CONFIG_LEN [DOMAIN, ascii ''council'', [255]] ?L = Inr L1"
      "owner (L1 1026) = 500" "length (acc_data (L1 1026)) = CONFIG_LEN" "L1 500 = ?L 500" "L1 1032 = ?L 1032"
    using create_fixed_runs [of ?L 1026 61 CONFIG_LEN 500 "[DOMAIN, ascii ''council'', [255]]"] fresh
    by (simp add: CONFIG_LEN_def)
  have wf: "wf_config ?c" using sample_config_wf by (simp add: wf_config_def)
  let ?L2 = "set_data (rw 1026) (ser_config ?c) L1"
  have store: "store_fixed_controller_account ser_config L1 500 (rw 1026) ?c CONFIG_LEN = Inr ?L2"
    using L1(2,3) by (simp add: store_ok_iff config_codec.ser_size wf)
  let ?M = "?L2(1032 := (?L2 1032)\<lparr>acc_data := programdata_bytes 7 (Some 1028) 0 [1, 2, 3]\<rparr>)"
  have call: "invoke_signed world_env (SetUpgradeAuthorityChecked 500 71 1028) [1032, 71, 1028, 901]
      [[DOMAIN, ascii ''authority'', [255]]] ?L2 = Inr ?M"
    by (rule authority_call) (simp_all add: ledger_simps L1 bootstrap_ledger_def)
  have before: "validate_program_programdata_linkage ?L (prog 500) (rw 1032) 901
      = Inr \<lparr>deployed_slot = 7, upgrade_authority = Some 71, payload_offset = 45, capacity = 3\<rparr>"
    by (simp add: validate_program_programdata_linkage_def bootstrap_ledger_def parse_program_bytes parse_programdata_bytes)
  have after: "validate_program_programdata_linkage ?M (prog 500) (rw 1032) 901
      = Inr \<lparr>deployed_slot = 7, upgrade_authority = Some 1028, payload_offset = 45, capacity = 3\<rparr>"
    by (simp add: validate_program_programdata_linkage_def ledger_simps L1 bootstrap_ledger_def
        parse_program_bytes parse_programdata_bytes)
  have new: "\<lparr>cf_discriminator = CONFIG_DISCRIMINATOR, cf_version = 1, cf_bump = 255,
             cf_initialized = True, cf_controller = 500, cf_programdata = 1032,
             cf_authority = 1028, cf_treasury = 31, cf_seats = [21, 22, 23, 24, 25],
             cf_council_epoch = 1, cf_timing_version = 1, cf_timing = timing_default,
             cf_next_id = 1, cf_reserved = replicate 37 0\<rparr> = ?c"
    by (simp add: sample_config_def)
  have valid: "config_validate sample_env ?c 500 1026 = Inr ()"
    using sample_config_ok by (simp add: config_validate_def require_ok bnd_Inr_iff)
  have seats: "seat ?c (sg 21) = Inr 0" "seat ?c (sg 22) = Inr 1" "seat ?c (sg 23) = Inr 2"
    by (simp_all add: seat_ok)
  show ?thesis
    using L1(1) store call
    by (simp del: world_env_simps(11) add: initialize_def guard_ok Let_def before new valid seats after)
qed

theorem initialize_effect_witness:
  "\<exists>M cfg. initialize world_env 500 [payer_info 61, sg 71, prog 500, rw 1032, rw 1026, ro 1028, prog 901, prog 0,
      sg 21, sg 22, sg 23] [21, 22, 23, 24, 25] 31 bootstrap_ledger = Inr M \<and>
    load_config world_env 500 (rw 1026) M = Inr cfg \<and> cf_seats cfg = [21, 22, 23, 24, 25] \<and> cf_treasury cfg = 31"
proof -
  obtain M where M: "initialize world_env 500 [payer_info 61, sg 71, prog 500, rw 1032, rw 1026, ro 1028, prog 901, prog 0,
      sg 21, sg 22, sg 23] [21, 22, 23, 24, 25] 31 bootstrap_ledger = Inr M"
    using initialize_runs by blast
  have "length [21, 22, 23, 24, 25 :: pubkey] = 5"
    "distinct (map ai_key [payer_info 61, sg 71, prog 500, rw 1032, rw 1026, ro 1028, prog 901, prog 0, sg 21, sg 22, sg 23])"
    by simp_all
  from initialize_effect [OF M world_cpi_frame this] M show ?thesis by blast
qed

end
