(* ===== verification/History_Runs.thy ===== *)
theory History_Runs
  imports Histories Council_Runs
begin

text \<open>
  A complete history on a concrete chain: a configured controller, a timing proposal, three approvals
  and its execution.  The calls of the environment act like the sample ones but respect the owner rule.
\<close>

section \<open>An environment that obeys the owner rule\<close>

definition careful_env :: "u64 \<Rightarrow> env" where
  "careful_env slot = world_env\<lparr>clock_get := Inr slot, invoke_signed := \<lambda>c keys seeds L.
     Inr (\<lambda>k. let a = (if k \<in> set keys then sample_effect c L k else L k) in
       if owner a = program_key \<longrightarrow>
         (owner (L k) = program_key \<and> acc_data a = acc_data (L k)) \<or> set (acc_data a) \<subseteq> {0}
       then a else L k)\<rparr>"

lemma careful_simps [simp]:
  "rent_get (careful_env slot) = Inr (\<lambda>n. 1000000)" "system_program_id (careful_env slot) = 0"
  by (simp_all add: careful_env_def)

lemma careful_clock: "0 < slot \<Longrightarrow> clock (careful_env slot) = Inr slot"
  by (simp add: clock_ok careful_env_def)

lemma careful_chain: "same_chain sample_env (careful_env slot)"
  by (simp add: same_chain_def careful_env_def world_env_def)

lemma careful_rule: "owner_rule (careful_env slot) program_key"
  by (auto simp: owner_rule_def guarded_def careful_env_def Let_def)

lemma careful_creates:
  assumes "owner (L k) \<noteq> program_key" and "k \<noteq> j"
  shows "invoke_signed (careful_env slot) (SystemCreateAccount k j v n program_key) [k, j, s] sds L
    = Inr (sample_effect (SystemCreateAccount k j v n program_key) L)"
  using assms by (auto simp: careful_env_def fun_eq_iff Let_def)

section \<open>Steps\<close>

lemma process_run:
  assumes "wf_instruction x" and "\<not> retired_variant x" and "distinct (map ai_key accounts)"
  shows "process E program accounts (ser_instruction x) L = dispatch E program accounts (ser_instruction x) x L"
proof -
  have "require_distinct_accounts accounts = Inr ()"
    using assms(3) by (simp only: require_distinct_accounts_ok)
  then show ?thesis using assms by (simp add: process_def unpack_ser)
qed

abbreviation holds :: "ledger \<Rightarrow> config \<Rightarrow> proposal \<Rightarrow> bool" where
  "holds L cfg p \<equiv> load_config sample_env program_key (rw 1026) L = Inr cfg \<and>
     load_proposal sample_env program_key (rw 1035) None L = Inr p"

lemma genesis_creation: "history sample_env program_key creation_ledger"
proof (rule history.genesis, intro allI notI)
  fix i p assume "load_proposal sample_env program_key i None creation_ledger = Inr p"
  then have "owner_of creation_ledger i = program_key" "length (data_of creation_ledger i) = PROPOSAL_LEN"
    by (simp_all add: load_proposal_ok proposal_codec.ser_size)
  then show False
    by (auto simp: creation_ledger_def config_codec.ser_size PROPOSAL_LEN_def CONFIG_LEN_def split: if_splits)
qed

lemma creation_history:
  assumes "wf_action a" and "action_validate a = Inr ()" and "is_upgrade a \<longrightarrow> is_ok (action_artifact a)"
    and "ac_kind a \<noteq> UPGRADE_CONTROLLER" and "ac_kind a \<noteq> ROTATE_COUNCIL"
  obtains L where "history sample_env program_key L" "holds L (sample_config\<lparr>cf_next_id := 3\<rparr>) (created_proposal a)"
    "process (careful_env 2000000) program_key [payer_info 61, sg 22, rw 1026, rw 1035, prog 0]
      (ser_instruction (Create 2 a)) creation_ledger = Inr L"
proof -
  let ?E = "careful_env 2000000"
  have call: "invoke_signed ?E (SystemCreateAccount 61 1035 1000000 400 program_key) [61, 1035, 0] [seeds] creation_ledger
      = Inr (sample_effect (SystemCreateAccount 61 1035 1000000 400 program_key) creation_ledger)" for seeds
    by (rule careful_creates) (simp_all add: creation_ledger_def)
  have slot: "clock ?E = Inr 2000000" by (rule careful_clock) simp
  obtain M where M: "create ?E program_key [payer_info 61, sg 22, rw 1026, rw 1035, prog 0] 2 a creation_ledger = Inr M"
      "holds M (sample_config\<lparr>cf_next_id := 3\<rparr>) (created_proposal a)"
    using create_runs_in [OF careful_chain slot _ _ call assms] same_chain_loads [OF careful_chain] by auto
  then have run: "process ?E program_key [payer_info 61, sg 22, rw 1026, rw 1035, prog 0]
      (ser_instruction (Create 2 a)) creation_ledger = Inr M"
    using assms(1) by (subst process_run) (simp_all add: dispatch_def)
  show ?thesis
    by (rule that [OF history.call [OF genesis_creation careful_chain careful_rule run] M(2) run])
qed

lemma vote_history:
  assumes "history sample_env program_key L" and "holds L cfg p" and "0 < slot"
    and "pr_council_epoch p = cf_council_epoch cfg" and "seat cfg (sg k) = Inr n" and "k \<notin> {1026, 1035}"
    and "\<not> is_upgrade (pr_action p)" and "proposal_approve p n slot False = Inr p'"
  shows "\<exists>M. history sample_env program_key M \<and> holds M cfg p'"
proof -
  let ?E = "careful_env slot" and ?M = "set_data (rw 1035) (ser_proposal p') L"
  note loads = same_chain_loads [OF careful_chain]
  have p: "wf_proposal p" "proposal_validate sample_env p program_key 1035 = Inr ()"
    using assms(2) by (simp_all add: load_proposal_ok)
  have p': "wf_proposal p'" "proposal_validate sample_env p' program_key 1035 = Inr ()"
    using approve_wf [OF assms(8) p(1)] approve_valid [OF p(2) assms(8)] by simp_all
  have "load_proposal ?E program_key (rw 1035) None L = Inr p" using assms(2) loads by simp
  then have save: "save_proposal ?E program_key (rw 1035) p' L = Inr ?M"
    by (rule proposal_store.save_loaded) (simp_all add: p' same_chain_eqs [OF careful_chain])
  have cfg: "load_config ?E program_key (ro 1026) L = Inr cfg"
    using assms(2) loads by (simp add: load_config_ok)
  have load: "load_proposal ?E program_key (rw 1035) (Some (pr_digest p)) L = Inr p"
    using assms(2) loads by (simp add: load_proposal_ok)
  have current: "proposal_current p cfg slot = Inr ()"
    using assms(4,8) by (simp add: proposal_current_ok proposal_approve_ok)
  have "process ?E program_key [ro 1026, rw 1035, sg k] (ser_instruction (Approve (pr_digest p))) L = Inr ?M"
    using assms(5,6,7,8) save cfg load current careful_clock [OF assms(3)]
    by (subst process_run) (auto simp: dispatch_def approve_def guard_ok)
  then have "history sample_env program_key ?M"
    by (rule history.call [OF assms(1) careful_chain careful_rule])
  moreover have "holds ?M cfg p'"
    using assms(2) p' by (simp add: load_config_ok load_proposal_ok ledger_simps)
  ultimately show ?thesis by blast
qed

lemma execution_history:
  assumes "history sample_env program_key L" and "holds L cfg p" and "0 < slot"
    and "proposal_executable p cfg slot = Inr ()" and "ac_kind (pr_action p) = SET_TIMING"
    and "action_timing (pr_action p) = Inr t" and "pr_timing_version p = cf_timing_version cfg"
    and "add (cf_timing_version cfg) 1 = Inr v"
    and "config_validate sample_env (cfg\<lparr>cf_timing := t, cf_timing_version := v\<rparr>) program_key 1026 = Inr ()"
  shows "\<exists>M. history sample_env program_key M \<and>
    holds M (cfg\<lparr>cf_timing := t, cf_timing_version := v\<rparr>) (executed p slot)"
proof -
  let ?E = "careful_env slot" and ?c = "cfg\<lparr>cf_timing := t, cf_timing_version := v\<rparr>"
  let ?N = "set_data (rw 1035) (ser_proposal (executed p slot)) L"
  let ?M = "set_data (rw 1026) (ser_config ?c) ?N"
  note loads = same_chain_loads [OF careful_chain] and same = same_chain_eqs [OF careful_chain]
  have p: "wf_proposal p" "proposal_validate sample_env p program_key 1035 = Inr ()" "wf_config ?c"
    using assms(2) by (simp_all add: load_proposal_ok load_config_ok wf_config_def)
  have load: "load_proposal ?E program_key (rw 1035) (Some (pr_digest p)) L = Inr p"
    using assms(2) loads by (simp add: load_proposal_ok)
  then have save: "save_proposal ?E program_key (rw 1035) (executed p slot) L = Inr ?N"
    by (rule save_executed) (use assms(3,4) in simp_all)
  have cfg: "load_config ?E program_key (rw 1026) L = Inr cfg"
    using assms(2) loads by simp
  have store: "store_fixed_controller_account ser_config ?N program_key (rw 1026) ?c CONFIG_LEN = Inr ?M"
    using assms(2) p(3) by (auto simp: store_ok_iff load_config_ok config_codec.ser_size ledger_simps)
  have "process ?E program_key [rw 1026, rw 1035] (ser_instruction (ExecutePolicy (pr_digest p))) L = Inr ?M"
    using assms(4-9) save [unfolded executed_def] store [unfolded executed_def] cfg load careful_clock [OF assms(3)]
    by (subst process_run) (auto simp: dispatch_def execute_policy_def guard_ok same executed_def)
  then have "history sample_env program_key ?M"
    by (rule history.call [OF assms(1) careful_chain careful_rule])
  moreover have "proposal_validate sample_env (executed p slot) program_key 1035 = Inr ()"
    by (rule executed_valid [OF p(2) assms(4,3)])
  then have "holds ?M ?c (executed p slot)"
    using assms(2,9) p by (auto simp: load_config_ok load_proposal_ok ledger_simps)
  ultimately show ?thesis by blast
qed

section \<open>The runs\<close>

lemma executed_history:
  "\<exists>L p. history sample_env program_key L \<and> load_proposal sample_env program_key (rw 1035) None L = Inr p \<and>
     pr_state p = EXECUTED \<and> pr_action p = timing_action"
proof -
  let ?p = "created_proposal timing_action" and ?c = "sample_config\<lparr>cf_next_id := 3\<rparr>"
  let ?v = "\<lambda>b n. ?p\<lparr>pr_approvals := b, pr_approval_count := n\<rparr>"
  have seats: "seat ?c (sg 21) = Inr 0" "seat ?c (sg 22) = Inr 1" "seat ?c (sg 23) = Inr 2"
    by (simp_all add: seat_ok)
  obtain L0 where L0: "history sample_env program_key L0" "holds L0 ?c ?p"
    by (rule creation_history [of timing_action]) (auto simp: kind_consts)
  have bits: "shl1 0 = (1 :: byte)" "1 OR shl1 (Suc 0) = (3 :: byte)" "3 OR shl1 2 = (7 :: byte)"
    "pop_count (1 :: byte) = 1" "pop_count (3 :: byte) = 2" "pop_count (7 :: byte) = 3"
    by code_simp+
  have vote: "proposal_approve ?p 0 2000100 False = Inr (?v 1 1)"
    "proposal_approve (?v 1 1) 1 2000110 False = Inr (?v 3 2)"
    "proposal_approve (?v 3 2) 2 2000120 False = Inr (?v 7 3)"
    by (simp_all add: proposal_approve_ok bits)
  obtain L1 where L1: "history sample_env program_key L1" "holds L1 ?c (?v 1 1)"
    using vote_history [OF L0 _ _ seats(1) _ _ vote(1)] by auto
  obtain L2 where L2: "history sample_env program_key L2" "holds L2 ?c (?v 3 2)"
    using vote_history [OF L1 _ _ seats(2) _ _ vote(2)] by auto
  obtain L3 where L3: "history sample_env program_key L3" "holds L3 ?c (?v 7 3)"
    using vote_history [OF L2 _ _ seats(3) _ _ vote(3)] by auto
  have "proposal_executable (?v 7 3) ?c 2000200 = Inr ()"
    by (simp add: proposal_executable_ok)
  moreover have "config_validate sample_env (?c\<lparr>cf_timing := timing_default, cf_timing_version := 2\<rparr>) program_key 1026 = Inr ()"
    using sample_config_ok by (simp add: config_validate_def require_ok bnd_Inr_iff)
  ultimately have "\<exists>M. history sample_env program_key M \<and>
      holds M (?c\<lparr>cf_timing := timing_default, cf_timing_version := 2\<rparr>) (executed (?v 7 3) 2000200)"
    by (intro execution_history [OF L3]) simp_all
  then show ?thesis by fastforce
qed

theorem transaction_refines_lifecycle_witness:
  "\<exists>M p. process (careful_env 2000000) program_key [payer_info 61, sg 22, rw 1026, rw 1035, prog 0]
      (ser_instruction (Create 2 timing_action)) creation_ledger = Inr M \<and>
    load_proposal (careful_env 2000000) program_key (rw 1035) None M = Inr p \<and> item_of p = fresh_item"
proof -
  let ?E = "careful_env 2000000"
  obtain M where M: "load_proposal ?E program_key (rw 1035) None M = Inr (created_proposal timing_action)"
    "process ?E program_key [payer_info 61, sg 22, rw 1026, rw 1035, prog 0]
      (ser_instruction (Create 2 timing_action)) creation_ledger = Inr M"
    by (rule creation_history [of timing_action]) (auto simp: kind_consts same_chain_loads [OF careful_chain])
  have "load_proposal ?E program_key (rw 1035) None creation_ledger \<noteq> Inr q" for q
    using ser_proposal_not_Nil by (simp add: load_proposal_ok creation_ledger_def)
  then obtain e where "load_proposal ?E program_key (rw 1035) None creation_ledger = Inl e"
    by (cases "load_proposal ?E program_key (rw 1035) None creation_ledger") auto
  with transaction_refines_lifecycle [OF careful_rule M(2,1)] M show ?thesis by auto
qed

theorem every_proposal_has_a_life_witness:
  "\<exists>p es. pr_state p = EXECUTED \<and> life (terms_of p) es (item_of p)"
  using executed_history every_proposal_has_a_life by blast

theorem execution_has_quorum_behind_it_witness:
  "\<exists>(p :: proposal) (ballots :: ballot list). pr_state p = EXECUTED \<and> pr_action p = timing_action \<and> 3 \<le> length ballots \<and>
     distinct (map ba_seat ballots) \<and>
     list_all (\<lambda>b. ba_signed b \<and> pr_created p \<le> ba_slot b \<and> ba_slot b \<le> pr_review_end p) ballots"
proof -
  obtain L p where run: "history sample_env program_key L"
    "load_proposal sample_env program_key (rw 1035) None L = Inr p" "pr_state p = EXECUTED" "pr_action p = timing_action"
    using executed_history by blast
  obtain ballots where "recorded sample_env program_key (rw 1035) ballots L"
    using history_recorded [OF run(1)] by blast
  from execution_has_quorum_behind_it [OF this run(2,3)] run(3,4)
  have "pr_state p = EXECUTED \<and> pr_action p = timing_action \<and> 3 \<le> length ballots \<and> distinct (map ba_seat ballots) \<and>
     list_all (\<lambda>b. ba_signed b \<and> pr_created p \<le> ba_slot b \<and> ba_slot b \<le> pr_review_end p) ballots"
    by (simp add: list_all_iff)
  then show ?thesis by blast
qed

theorem no_approval_before_verification_witness:
  "\<exists>p es. pr_action p = upgrade_action \<and> life (terms_of p) es (item_of p)"
proof -
  obtain L where L: "history sample_env program_key L"
    "load_proposal sample_env program_key (rw 1035) None L = Inr (created_proposal upgrade_action)"
    by (rule creation_history [of upgrade_action]) (auto simp: kind_consts)
  have "is_upgrade (pr_action (created_proposal upgrade_action))"
    "action_artifact (pr_action (created_proposal upgrade_action)) = Inr sample_artifact"
    by simp_all
  from no_approval_before_verification [OF L this] show ?thesis
    using created_select(2) by blast
qed

theorem proposals_can_succeed_witness:
  "\<exists>s. reachable (terms_of (created_proposal timing_action)) s \<and> it_phase s = Executed"
  by (rule proposals_can_succeed [of sample_env _ program_key 1035]) simp

end
