(* ===== verification/Observation_Merkle.thy ===== *)
theory Observation_Merkle
  imports Merkle_Tree Runtime
begin

text \<open>
  The ordered commitment to the raw ProgramData account of
  \<open>upgrade_controller/src/programdata_observation_merkle.rs\<close>: chunk geometry, subject- and
  level-separated hashes, the fixed binary frontier that lets an observation advance in many
  transactions, and its completion to the root of the padded tree.
\<close>

section \<open>Parameters\<close>

definition PROGRAMDATA_OBSERVATION_CHUNK_LEAF_DOMAIN_V1 :: "byte list" where
  "PROGRAMDATA_OBSERVATION_CHUNK_LEAF_DOMAIN_V1 = ascii ''AMOEBA_PROGRAMDATA_OBSERVATION_CHUNK_V1''"
definition PROGRAMDATA_OBSERVATION_CHUNK_NODE_DOMAIN_V1 :: "byte list" where
  "PROGRAMDATA_OBSERVATION_CHUNK_NODE_DOMAIN_V1 = ascii ''AMOEBA_PROGRAMDATA_OBSERVATION_NODE_V1''"
definition PROGRAMDATA_OBSERVATION_CHUNK_EMPTY_DOMAIN_V1 :: "byte list" where
  "PROGRAMDATA_OBSERVATION_CHUNK_EMPTY_DOMAIN_V1 = ascii ''AMOEBA_PROGRAMDATA_OBSERVATION_EMPTY_V1''"

definition MAX_RAW_PROGRAMDATA_ACCOUNT_BYTES_V1 :: u64 where
  "MAX_RAW_PROGRAMDATA_ACCOUNT_BYTES_V1 = 10485760"
definition MIN_RAW_PROGRAMDATA_ACCOUNT_BYTES_V1 :: u64 where
  "MIN_RAW_PROGRAMDATA_ACCOUNT_BYTES_V1 = 45"

definition PROGRAMDATA_OBSERVATION_CHUNK_SIZE_16_KIB :: u32 where
  "PROGRAMDATA_OBSERVATION_CHUNK_SIZE_16_KIB = 16 * 1024"
definition PROGRAMDATA_OBSERVATION_CHUNK_SIZE_32_KIB :: u32 where
  "PROGRAMDATA_OBSERVATION_CHUNK_SIZE_32_KIB = 32 * 1024"
definition PROGRAMDATA_OBSERVATION_CHUNK_SIZE_64_KIB :: u32 where
  "PROGRAMDATA_OBSERVATION_CHUNK_SIZE_64_KIB = 64 * 1024"
definition PROGRAMDATA_OBSERVATION_CHUNK_SIZE_128_KIB :: u32 where
  "PROGRAMDATA_OBSERVATION_CHUNK_SIZE_128_KIB = 128 * 1024"

definition MAX_PROGRAMDATA_OBSERVATION_CHUNKS_V1 :: u32 where
  "MAX_PROGRAMDATA_OBSERVATION_CHUNKS_V1 = 640"
definition MAX_PADDED_PROGRAMDATA_OBSERVATION_CHUNKS_V1 :: u32 where
  "MAX_PADDED_PROGRAMDATA_OBSERVATION_CHUNKS_V1 = 1024"
definition MAX_PROGRAMDATA_OBSERVATION_TREE_DEPTH_V1 :: nat where
  "MAX_PROGRAMDATA_OBSERVATION_TREE_DEPTH_V1 = 10"
definition PROGRAMDATA_OBSERVATION_FRONTIER_SLOTS_V1 :: nat where
  "PROGRAMDATA_OBSERVATION_FRONTIER_SLOTS_V1 = MAX_PROGRAMDATA_OBSERVATION_TREE_DEPTH_V1 + 1"

lemmas obs_bounds =
  MAX_RAW_PROGRAMDATA_ACCOUNT_BYTES_V1_def MIN_RAW_PROGRAMDATA_ACCOUNT_BYTES_V1_def
  PROGRAMDATA_OBSERVATION_CHUNK_SIZE_16_KIB_def PROGRAMDATA_OBSERVATION_CHUNK_SIZE_32_KIB_def
  PROGRAMDATA_OBSERVATION_CHUNK_SIZE_64_KIB_def PROGRAMDATA_OBSERVATION_CHUNK_SIZE_128_KIB_def
  MAX_PROGRAMDATA_OBSERVATION_CHUNKS_V1_def MAX_PADDED_PROGRAMDATA_OBSERVATION_CHUNKS_V1_def
  MAX_PROGRAMDATA_OBSERVATION_TREE_DEPTH_V1_def PROGRAMDATA_OBSERVATION_FRONTIER_SLOTS_V1_def

section \<open>The frontier\<close>

record obs_frontier =
  ob_hashes :: "hash32 list"
  ob_occupied_mask :: u16
  ob_next_index :: u32

text \<open>The hash slots are an array of eleven.\<close>

definition wf_frontier :: "obs_frontier \<Rightarrow> bool" where
  "wf_frontier f \<longleftrightarrow> length (ob_hashes f) = PROGRAMDATA_OBSERVATION_FRONTIER_SLOTS_V1"

definition frontier_default :: obs_frontier where
  "frontier_default =
     \<lparr>ob_hashes = replicate PROGRAMDATA_OBSERVATION_FRONTIER_SLOTS_V1 0, ob_occupied_mask = 0,
      ob_next_index = 0\<rparr>"

definition frontier_validate :: "obs_frontier \<Rightarrow> governance_error + unit" where
  "frontier_validate f =
     (if ob_next_index f > MAX_PADDED_PROGRAMDATA_OBSERVATION_CHUNKS_V1
         \<or> ob_occupied_mask f \<noteq> ucast (ob_next_index f)
      then Inl InvalidRelease1Account
      else checks (map (\<lambda>(level, h).
             let occupied = (ob_occupied_mask f AND shl1 level \<noteq> 0)
             in if \<not> occupied \<and> h \<noteq> 0 then Inl InvalidRelease1Account else Inr ())
           (enumerate 0 (ob_hashes f))))"

section \<open>Geometry\<close>

definition is_programdata_observation_chunk_size_candidate :: "u32 \<Rightarrow> bool" where
  "is_programdata_observation_chunk_size_candidate chunk_size \<longleftrightarrow>
     chunk_size = PROGRAMDATA_OBSERVATION_CHUNK_SIZE_16_KIB
     \<or> chunk_size = PROGRAMDATA_OBSERVATION_CHUNK_SIZE_32_KIB
     \<or> chunk_size = PROGRAMDATA_OBSERVATION_CHUNK_SIZE_64_KIB
     \<or> chunk_size = PROGRAMDATA_OBSERVATION_CHUNK_SIZE_128_KIB"

definition programdata_observation_chunk_count :: "u64 \<Rightarrow> u32 \<Rightarrow> governance_error + u32" where
  "programdata_observation_chunk_count raw_programdata_length chunk_size =
     (if \<not> (MIN_RAW_PROGRAMDATA_ACCOUNT_BYTES_V1 \<le> raw_programdata_length
            \<and> raw_programdata_length \<le> MAX_RAW_PROGRAMDATA_ACCOUNT_BYTES_V1)
         \<or> \<not> is_programdata_observation_chunk_size_candidate chunk_size
      then Inl InvalidMerkleParameters
      else let chunk_size = ucast chunk_size :: u64 in
        bnd (ok_or (checked_add raw_programdata_length (chunk_size - 1)) ArithmeticOverflow) (\<lambda>sum.
        let count = sum div chunk_size in
        if unat count \<ge> 2 ^ 32 then Inl InvalidMerkleParameters
        else let count = ucast count :: u32 in
          if count = 0 \<or> count > MAX_PROGRAMDATA_OBSERVATION_CHUNKS_V1
          then Inl InvalidMerkleParameters else Inr count))"

definition max_chunk_count_for_size :: "u32 \<Rightarrow> governance_error + u32" where
  "max_chunk_count_for_size chunk_size =
     programdata_observation_chunk_count MAX_RAW_PROGRAMDATA_ACCOUNT_BYTES_V1 chunk_size"

text \<open>The \<open>u64\<close> product of two widened \<open>u32\<close> values; \<open>checked_mul\<close> fails past the word.\<close>

definition expected_real_chunk_length :: "u64 \<Rightarrow> u32 \<Rightarrow> u32 \<Rightarrow> u32 \<Rightarrow> governance_error + u64" where
  "expected_real_chunk_length raw_programdata_length chunk_size chunk_index chunk_count =
     (if chunk_index \<ge> chunk_count then Inl InvalidMerkleParameters
      else bnd (ok_or (checked_usize (unat chunk_index * unat chunk_size)) ArithmeticOverflow) (\<lambda>start.
        ok_or (case checked_sub raw_programdata_length (of_nat start) of None \<Rightarrow> None
               | Some remaining \<Rightarrow>
                   (let len = min remaining (ucast chunk_size) in if len \<noteq> 0 then Some len else None))
          InvalidMerkleParameters))"

section \<open>Hashes\<close>

definition programdata_observation_chunk_leaf_hash ::
    "env \<Rightarrow> hash32 \<Rightarrow> u32 \<Rightarrow> u32 \<Rightarrow> byte list \<Rightarrow> governance_error + hash32" where
  "programdata_observation_chunk_leaf_hash E subject_digest chunk_index chunk_size chunk =
     (if \<not> is_programdata_observation_chunk_size_candidate chunk_size \<or> chunk = []
         \<or> length chunk > unat chunk_size
      then Inl InvalidMerkleParameters
      else bnd (max_chunk_count_for_size chunk_size) (\<lambda>max_count.
        if chunk_index \<ge> max_count then Inl InvalidMerkleParameters
        else if length chunk \<ge> 2 ^ 32 then Inl InvalidMerkleParameters
        else let actual_length = of_nat (length chunk) :: u32 in
          Inr (hashv E [PROGRAMDATA_OBSERVATION_CHUNK_LEAF_DOMAIN_V1, wr_32 subject_digest,
            wr_u32 chunk_index, wr_u32 actual_length, chunk])))"

definition programdata_observation_chunk_node_hash ::
    "env \<Rightarrow> byte \<Rightarrow> hash32 \<Rightarrow> hash32 \<Rightarrow> governance_error + hash32" where
  "programdata_observation_chunk_node_hash E parent_level left right =
     (if parent_level = 0 \<or> unat parent_level > MAX_PROGRAMDATA_OBSERVATION_TREE_DEPTH_V1
      then Inl InvalidMerkleParameters
      else Inr (hashv E [PROGRAMDATA_OBSERVATION_CHUNK_NODE_DOMAIN_V1, [parent_level], wr_32 left, wr_32 right]))"

definition programdata_observation_chunk_empty_hash ::
    "env \<Rightarrow> hash32 \<Rightarrow> u32 \<Rightarrow> governance_error + hash32" where
  "programdata_observation_chunk_empty_hash E subject_digest padded_index =
     (if padded_index \<ge> MAX_PADDED_PROGRAMDATA_OBSERVATION_CHUNKS_V1 then Inl InvalidMerkleParameters
      else Inr (hashv E [PROGRAMDATA_OBSERVATION_CHUNK_EMPTY_DOMAIN_V1, wr_32 subject_digest,
        wr_u32 padded_index]))"

section \<open>Appending\<close>

text \<open>The carry loop of \<open>append_hash_at_next_index\<close>; it returns the level where it stops, the carried
  hash and the frontier with the consumed slots cleared.\<close>

function carry :: "env \<Rightarrow> obs_frontier \<Rightarrow> hash32 \<Rightarrow> nat \<Rightarrow> governance_error + (obs_frontier \<times> hash32 \<times> nat)" where
  "carry E f current level =
     (if ob_occupied_mask f AND shl1 level \<noteq> 0
      then if level \<ge> MAX_PROGRAMDATA_OBSERVATION_TREE_DEPTH_V1 then Inl InvalidMerkleParameters
        else bnd (programdata_observation_chunk_node_hash E (of_nat (level + 1)) (ob_hashes f ! level) current)
          (\<lambda>current.
          carry E (f\<lparr>ob_hashes := (ob_hashes f)[level := 0],
                     ob_occupied_mask := ob_occupied_mask f AND NOT (shl1 level)\<rparr>) current (level + 1))
      else Inr (f, current, level))"
  by pat_completeness auto
termination
  by (relation "measure (\<lambda>(E, f, current, level). 11 - level)")
    (auto simp: MAX_PROGRAMDATA_OBSERVATION_TREE_DEPTH_V1_def)

declare carry.simps [simp del]

definition append_hash_at_next_index :: "env \<Rightarrow> obs_frontier \<Rightarrow> hash32 \<Rightarrow> governance_error + obs_frontier" where
  "append_hash_at_next_index E f current =
     bnd (frontier_validate f) (\<lambda>_.
     if ob_next_index f \<ge> MAX_PADDED_PROGRAMDATA_OBSERVATION_CHUNKS_V1 then Inl InvalidStateTransition
     else bnd (carry E f current 0) (\<lambda>(f, current, level).
       if level \<ge> PROGRAMDATA_OBSERVATION_FRONTIER_SLOTS_V1 then Inl InvalidMerkleParameters
       else bnd (ok_or (checked_add (ob_next_index f) 1) ArithmeticOverflow) (\<lambda>next_index.
         Inr (f\<lparr>ob_hashes := (ob_hashes f)[level := current],
                ob_occupied_mask := ob_occupied_mask f OR shl1 level,
                ob_next_index := next_index\<rparr>))))"

text \<open>The source works on a copy and assigns it to the caller's frontier at the end, so an error
  leaves the frontier as it was: \<open>Inl\<close> carries no new frontier.\<close>

definition append_programdata_observation_chunk ::
    "env \<Rightarrow> obs_frontier \<Rightarrow> hash32 \<Rightarrow> u64 \<Rightarrow> u32 \<Rightarrow> u32 \<Rightarrow> byte list \<Rightarrow> governance_error + obs_frontier" where
  "append_programdata_observation_chunk E frontier subject_digest raw_programdata_length chunk_size
       chunk_index chunk =
     bnd (frontier_validate frontier) (\<lambda>_.
     bnd (programdata_observation_chunk_count raw_programdata_length chunk_size) (\<lambda>chunk_count.
     if chunk_index \<noteq> ob_next_index frontier \<or> chunk_index \<ge> chunk_count then Inl InvalidStateTransition
     else bnd (expected_real_chunk_length raw_programdata_length chunk_size chunk_index chunk_count)
       (\<lambda>expected_length.
       if (of_nat (length chunk) :: u64) \<noteq> expected_length then Inl InvalidMerkleParameters
       else bnd (programdata_observation_chunk_leaf_hash E subject_digest chunk_index chunk_size chunk) (\<lambda>leaf.
         bnd (append_hash_at_next_index E frontier leaf) (\<lambda>next.
         bnd (frontier_validate next) (\<lambda>_. Inr next))))))"

section \<open>Completion\<close>

fun append_empties :: "env \<Rightarrow> hash32 \<Rightarrow> obs_frontier \<Rightarrow> nat list \<Rightarrow> governance_error + obs_frontier" where
  "append_empties E subject_digest f [] = Inr f"
| "append_empties E subject_digest f (padded_index # rest) =
     bnd (programdata_observation_chunk_empty_hash E subject_digest (of_nat padded_index)) (\<lambda>empty.
     bnd (append_hash_at_next_index E f empty) (\<lambda>f.
     append_empties E subject_digest f rest))"

text \<open>\<open>checked_next_power_of_two\<close> of a \<open>u32\<close>.\<close>

definition checked_next_power_of_two :: "u32 \<Rightarrow> u32 option" where
  "checked_next_power_of_two n =
     (if next_power_of_two (unat n) < 2 ^ 32 then Some (of_nat (next_power_of_two (unat n))) else None)"

definition finalize_programdata_observation_frontier ::
    "env \<Rightarrow> obs_frontier \<Rightarrow> hash32 \<Rightarrow> u64 \<Rightarrow> u32 \<Rightarrow> governance_error + hash32" where
  "finalize_programdata_observation_frontier E frontier subject_digest raw_programdata_length chunk_size =
     bnd (frontier_validate frontier) (\<lambda>_.
     bnd (programdata_observation_chunk_count raw_programdata_length chunk_size) (\<lambda>chunk_count.
     if ob_next_index frontier \<noteq> chunk_count then Inl InvalidStateTransition
     else bnd (ok_or (checked_next_power_of_two chunk_count) ArithmeticOverflow) (\<lambda>padded_count.
       if padded_count > MAX_PADDED_PROGRAMDATA_OBSERVATION_CHUNKS_V1 then Inl InvalidMerkleParameters
       else bnd (append_empties E subject_digest frontier [unat chunk_count..<unat padded_count]) (\<lambda>completed.
         bnd (frontier_validate completed) (\<lambda>_.
         let root_level = trailing_zeros (unat padded_count); expected_mask = shl1 root_level in
         if ob_next_index completed \<noteq> padded_count \<or> ob_occupied_mask completed \<noteq> expected_mask
         then Inl InvalidRelease1Account
         else Inr (ob_hashes completed ! root_level))))))"

fun append_chunks ::
    "env \<Rightarrow> hash32 \<Rightarrow> u64 \<Rightarrow> u32 \<Rightarrow> obs_frontier \<Rightarrow> (nat \<times> byte list) list \<Rightarrow> governance_error + obs_frontier" where
  "append_chunks E subject_digest len chunk_size f [] = Inr f"
| "append_chunks E subject_digest len chunk_size f ((index, chunk) # rest) =
     (if index \<ge> 2 ^ 32 then Inl InvalidMerkleParameters
      else bnd (append_programdata_observation_chunk E f subject_digest len chunk_size (of_nat index) chunk) (\<lambda>f.
        append_chunks E subject_digest len chunk_size f rest))"

definition programdata_observation_merkle_root :: "env \<Rightarrow> hash32 \<Rightarrow> byte list \<Rightarrow> u32 \<Rightarrow> governance_error + hash32" where
  "programdata_observation_merkle_root E subject_digest raw chunk_size =
     (if length raw \<ge> 2 ^ 64 then Inl InvalidMerkleParameters
      else let len = of_nat (length raw) :: u64 in
        bnd (programdata_observation_chunk_count len chunk_size) (\<lambda>_.
        bnd (append_chunks E subject_digest len chunk_size frontier_default
               (enumerate 0 (chunks (unat chunk_size) raw))) (\<lambda>frontier.
        finalize_programdata_observation_frontier E frontier subject_digest len chunk_size)))"

end
