(* ===== verification/Observation_Facts.thy ===== *)
theory Observation_Facts
  imports Observation_Merkle
begin

text \<open>
  What the ordered frontier computes.  The reference is the recursive root of a full binary tree
  whose node hash knows its level; a frontier represents the leaves appended so far, appending
  keeps that, and the completed frontier holds exactly the root.
\<close>

section \<open>The reference: a full tree with levels\<close>

fun level_root :: "(nat \<Rightarrow> 'h \<Rightarrow> 'h \<Rightarrow> 'h) \<Rightarrow> nat \<Rightarrow> 'h list \<Rightarrow> 'h" where
  "level_root node 0 xs = hd xs"
| "level_root node (Suc k) xs =
     node (Suc k) (level_root node k (take (2 ^ k) xs)) (level_root node k (drop (2 ^ k) xs))"

lemma level_root_take: "level_root node k (take (2 ^ k) xs) = level_root node k xs"
proof (induction k arbitrary: xs)
  case 0
  then show ?case by (cases xs) auto
next
  case (Suc k)
  have "level_root node k (drop (2 ^ k) (take (2 ^ Suc k) xs)) = level_root node k (drop (2 ^ k) xs)"
    using Suc.IH [of "drop (2 ^ k) xs"] by (simp add: drop_take)
  then show ?case by (simp add: min_def)
qed

lemma level_root_append:
  assumes "m + 2 ^ k \<le> length xs"
  shows "level_root node k (drop m (xs @ ys)) = level_root node k (drop m xs)"
proof -
  have "take (2 ^ k) (drop m (xs @ ys)) = take (2 ^ k) (drop m xs)"
    using assms by simp
  then show ?thesis by (metis level_root_take)
qed

section \<open>Frontiers that represent a list of leaves\<close>

text \<open>The last complete run of \<open>2 ^ k\<close> leaves that starts at an even multiple of its width.\<close>

definition run_at :: "nat \<Rightarrow> 'h list \<Rightarrow> 'h list" where
  "run_at k xs = drop ((length xs div 2 ^ k - 1) * 2 ^ k) xs"

definition obs_node :: "env \<Rightarrow> nat \<Rightarrow> hash32 \<Rightarrow> hash32 \<Rightarrow> hash32" where
  "obs_node E level l r =
     hashv E [PROGRAMDATA_OBSERVATION_CHUNK_NODE_DOMAIN_V1, [of_nat level], wr_32 l, wr_32 r]"

definition represents :: "env \<Rightarrow> obs_frontier \<Rightarrow> hash32 list \<Rightarrow> bool" where
  "represents E f xs \<longleftrightarrow>
     wf_frontier f \<and> length xs \<le> 1024 \<and> ob_next_index f = of_nat (length xs)
     \<and> ob_occupied_mask f = of_nat (length xs)
     \<and> (\<forall>k < 11. ob_hashes f ! k =
          (if odd (length xs div 2 ^ k) then level_root (obs_node E) k (run_at k xs) else 0))"

text \<open>Inside the carry loop at level \<open>l\<close>: the slots below are free again and the carried hash covers
  the last \<open>2 ^ l\<close> leaves, the new one included.\<close>

definition carrying :: "env \<Rightarrow> hash32 list \<Rightarrow> hash32 \<Rightarrow> obs_frontier \<Rightarrow> hash32 \<Rightarrow> nat \<Rightarrow> bool" where
  "carrying E xs x f current l \<longleftrightarrow>
     wf_frontier f \<and> ob_next_index f = of_nat (length xs) \<and> l \<le> 10 \<and> 2 ^ l dvd length xs + 1
     \<and> (\<forall>k. bit (ob_occupied_mask f) k \<longleftrightarrow> l \<le> k \<and> k < 16 \<and> odd (length xs div 2 ^ k))
     \<and> (\<forall>k < 11. ob_hashes f ! k =
          (if l \<le> k \<and> odd (length xs div 2 ^ k) then level_root (obs_node E) k (run_at k xs) else 0))
     \<and> current = level_root (obs_node E) l (drop (length xs + 1 - 2 ^ l) (xs @ [x]))"

lemma bit_nat_odd: "bit (n :: nat) k \<longleftrightarrow> odd (n div 2 ^ k)"
  by (rule bit_iff_odd)

lemma bit_of_nat_u16: "bit (of_nat n :: u16) k \<longleftrightarrow> k < 16 \<and> odd (n div 2 ^ k)"
  by transfer (simp add: bit_take_bit_iff bit_of_nat_iff_bit bit_nat_odd)

lemma bit_of_nat_u32: "bit (of_nat n :: u32) k \<longleftrightarrow> k < 32 \<and> odd (n div 2 ^ k)"
  by transfer (simp add: bit_take_bit_iff bit_of_nat_iff_bit bit_nat_odd)

lemma unat_index: "n \<le> 1024 \<Longrightarrow> unat (of_nat n :: u32) = n"
  by (simp add: unat_of_nat)

lemma ucast_index: "(ucast (of_nat n :: u32) :: u16) = of_nat n"
  by (rule bit_word_eqI) (simp add: bit_simps bit_of_nat_u16 bit_of_nat_u32)

text \<open>Arithmetic of a carry: with \<open>2 ^ l\<close> dividing \<open>n + 1\<close>, write \<open>n = q 2 ^ l + (2 ^ l - 1)\<close>.\<close>

lemma carry_arith:
  assumes "2 ^ l dvd n + (1::nat)"
  obtains q where "n + 1 = (q + 1) * 2 ^ l" "n div 2 ^ l = q"
proof -
  from assms obtain c where c: "n + 1 = 2 ^ l * c" by (auto elim: dvdE)
  then obtain q where q: "c = q + 1" by (cases c) auto
  with c have eq: "n + 1 = (q + 1) * 2 ^ l" by (simp add: mult.commute)
  have "0 < (2::nat) ^ l" by simp
  with eq have "2 ^ l * q + 2 ^ l = Suc n" "0 < (2::nat) ^ l" by (simp_all add: algebra_simps)
  then have "2 ^ l * q \<le> n" "n < 2 ^ l * Suc q" by (linarith, simp)
  then have "n div 2 ^ l = q" by (rule div_nat_eqI)
  with eq show thesis by (rule that)
qed

lemma div_pow_split: "(l::nat) \<le> k \<Longrightarrow> (n::nat) div 2 ^ k = n div 2 ^ l div 2 ^ (k - l)"
  by (simp add: div_mult2_eq [symmetric] power_add [symmetric])

lemma half_succ: "even q \<Longrightarrow> 0 < j \<Longrightarrow> (q + 1) div 2 ^ j = q div (2::nat) ^ j"
  by (cases j) (simp_all add: div_mult2_eq)

lemma start_carrying:
  assumes "represents E f xs" "length xs < 1024"
  shows "carrying E xs x f x 0"
  using assms by (simp add: represents_def carrying_def bit_of_nat_u16)

lemma run_start: "odd (n div 2 ^ k) \<Longrightarrow> (n div 2 ^ k - 1) * 2 ^ k + 2 ^ k \<le> (n::nat)"
proof -
  assume "odd (n div 2 ^ k)"
  then have "(n div 2 ^ k - 1) * 2 ^ k + 2 ^ k = n div 2 ^ k * 2 ^ k"
    by (metis Suc_diff_1 add.commute mult_Suc odd_pos)
  then show ?thesis by (simp add: div_times_less_eq_dividend)
qed

lemma node_hash_eq:
  "l \<le> 9 \<Longrightarrow> programdata_observation_chunk_node_hash E (of_nat (l + 1)) a b = Inr (obs_node E (l + 1) a b)"
proof -
  assume "l \<le> 9"
  then have "unat (of_nat (l + 1) :: byte) = l + 1"
    by (subst unat_of_nat) simp
  moreover from this have "(of_nat (l + 1) :: byte) \<noteq> 0" by (metis Suc_eq_plus1 nat.distinct(1) unsigned_0)
  ultimately show ?thesis
    using \<open>l \<le> 9\<close>
    by (simp add: programdata_observation_chunk_node_hash_def obs_node_def obs_bounds)
qed

lemma carry_step:
  assumes c: "carrying E xs x f current l" and n: "length xs < 1024" and odd: "odd (length xs div 2 ^ l)"
  shows "l \<le> 9"
    and "carrying E xs x (f\<lparr>ob_hashes := (ob_hashes f)[l := 0],
                     ob_occupied_mask := ob_occupied_mask f AND NOT (shl1 l)\<rparr>)
           (obs_node E (l + 1) (ob_hashes f ! l) current) (l + 1)"
proof -
  let ?n = "length xs"
  have d: "2 ^ l dvd ?n + 1" using c by (simp add: carrying_def)
  then obtain q where q: "?n + 1 = (q + 1) * 2 ^ l" "?n div 2 ^ l = q" by (rule carry_arith)
  with odd have "odd q" by simp
  then obtain r where r: "q = 2 * r + 1" by (auto elim: oddE)
  have eq: "?n + 1 = (r + 1) * 2 ^ (l + 1)" using q r by simp
  then have "2 ^ (l + 1) dvd ?n + 1" by simp
  then have "(2::nat) ^ (l + 1) \<le> ?n + 1" by (rule dvd_imp_le) simp
  with n have "(2::nat) ^ (l + 1) \<le> 2 ^ 10" by simp
  then have "l + 1 \<le> 10" by (rule power_le_imp_le_exp [rotated]) simp
  then show le: "l \<le> 9" by simp
  have hash: "ob_hashes f ! l = level_root (obs_node E) l (drop (2 * r * 2 ^ l) xs)"
    using c le odd q r by (simp add: carrying_def run_at_def)
  have "2 * r * 2 ^ l + 2 ^ l \<le> ?n" using run_start [OF odd] q r by simp
  then have left: "level_root (obs_node E) l (drop (2 * r * 2 ^ l) (xs @ [x])) = ob_hashes f ! l"
    using hash level_root_append by metis
  have starts: "?n + 1 - 2 ^ (l + 1) = 2 * r * 2 ^ l" "?n + 1 - 2 ^ l = 2 ^ l + 2 * r * 2 ^ l"
    using eq by (simp_all add: algebra_simps)
  have root: "obs_node E (l + 1) (ob_hashes f ! l) current
      = level_root (obs_node E) (l + 1) (drop (?n + 1 - 2 ^ (l + 1)) (xs @ [x]))"
    using c left unfolding starts carrying_def
    by (simp add: level_root_take add.commute del: drop_append)
  show "carrying E xs x (f\<lparr>ob_hashes := (ob_hashes f)[l := 0],
                     ob_occupied_mask := ob_occupied_mask f AND NOT (shl1 l)\<rparr>)
           (obs_node E (l + 1) (ob_hashes f ! l) current) (l + 1)"
    using c le \<open>2 ^ (l + 1) dvd ?n + 1\<close>
    unfolding carrying_def root [symmetric]
    by (auto simp: wf_frontier_def obs_bounds bit_simps shl1_def nth_list_update)
qed

lemma carry_ok:
  assumes "carrying E xs x f current l" "length xs < 1024"
  shows "\<exists>f' current' l'. carry E f current l = Inr (f', current', l')
    \<and> carrying E xs x f' current' l' \<and> even (length xs div 2 ^ l')"
  using assms
proof (induction "10 - l" arbitrary: f current l rule: less_induct)
  case less
  have bit: "(ob_occupied_mask f AND shl1 l \<noteq> 0) \<longleftrightarrow> odd (length xs div 2 ^ l)"
    using less.prems by (auto simp: carrying_def and_shl1_iff)
  show ?case
  proof (cases "odd (length xs div 2 ^ l)")
    case True
    note step = carry_step [OF less.prems True]
    have "carry E f current l = carry E (f\<lparr>ob_hashes := (ob_hashes f)[l := 0],
                     ob_occupied_mask := ob_occupied_mask f AND NOT (shl1 l)\<rparr>)
           (obs_node E (l + 1) (ob_hashes f ! l) current) (l + 1)"
      using step(1) bit True node_hash_eq [OF step(1), of E]
      by (subst carry.simps) (simp add: obs_bounds)
    then show ?thesis
      using less.hyps [OF _ step(2) less.prems(2)] step(1) by simp
  next
    case False
    then show ?thesis using less.prems bit by (subst carry.simps) auto
  qed
qed

lemma finish_carry:
  assumes c: "carrying E xs x f current l" and n: "length xs < 1024" and even: "even (length xs div 2 ^ l)"
  shows "represents E (f\<lparr>ob_hashes := (ob_hashes f)[l := current],
      ob_occupied_mask := ob_occupied_mask f OR shl1 l, ob_next_index := of_nat (length xs + 1)\<rparr>) (xs @ [x])"
proof -
  let ?n = "length xs"
  have d: "2 ^ l dvd ?n + 1" "l \<le> 10" using c by (simp_all add: carrying_def)
  obtain q where q: "?n + 1 = (q + 1) * 2 ^ l" "?n div 2 ^ l = q" by (rule carry_arith [OF d(1)])
  have below: "even ((?n + 1) div 2 ^ k)" if "k < l" for k
  proof -
    have "(2::nat) ^ l = 2 ^ k * (2 * 2 ^ (l - k - 1))"
      using that by (metis Suc_diff_Suc diff_diff_left le_add_diff_inverse less_imp_le_nat plus_1_eq_Suc power_Suc power_add add.commute)
    then show ?thesis using q(1) by (simp add: mult.left_commute)
  qed
  have at: "(?n + 1) div 2 ^ l = q + 1" using q(1) by simp
  have above: "(?n + 1) div 2 ^ k = ?n div 2 ^ k" if "l < k" for k
    using half_succ [of q "k - l"] that even q at div_pow_split [of l k "?n + 1"] div_pow_split [of l k ?n]
    by simp
  have odd: "odd ((?n + 1) div 2 ^ k) \<longleftrightarrow> k = l \<or> l < k \<and> odd (?n div 2 ^ k)" for k
    using below [of k] above [of k] at even q(2) by (cases k l rule: linorder_cases) simp_all
  have runs: "level_root (obs_node E) k (run_at k (xs @ [x])) = level_root (obs_node E) k (run_at k xs)"
    if "l < k" "odd (?n div 2 ^ k)" for k
    using above [OF that(1)] run_start [OF that(2)] level_root_append [of _ k xs "obs_node E" "[x]"]
    by (simp add: run_at_def del: drop_append)
  have here: "current = level_root (obs_node E) l (run_at l (xs @ [x]))"
    using c at q(1) by (simp add: run_at_def carrying_def del: drop_append)
  have mask: "ob_occupied_mask f OR shl1 l = of_nat (?n + 1)"
  proof (rule bit_word_eqI)
    fix k assume "k < LENGTH(16)"
    then show "bit (ob_occupied_mask f OR shl1 l) k \<longleftrightarrow> bit (of_nat (?n + 1) :: u16) k"
      using c odd [of k] d(2)
      by (auto simp: bit_or_shl1 bit_of_nat_u16 carrying_def simp del: of_nat_add of_nat_Suc)
  qed
  show ?thesis
    unfolding represents_def mask using c n d(2) odd runs here
    by (auto simp: carrying_def wf_frontier_def obs_bounds nth_list_update)
qed


lemma representsD:
  assumes "represents E f xs"
  shows "wf_frontier f" "length xs \<le> 1024" "unat (ob_next_index f) = length xs"
    "ob_next_index f = of_nat (length xs)" "ob_occupied_mask f = of_nat (length xs)"
  using assms by (simp_all add: represents_def unat_index)

lemma bounds_unat:
  "unat MAX_PADDED_PROGRAMDATA_OBSERVATION_CHUNKS_V1 = 1024" "unat MAX_PROGRAMDATA_OBSERVATION_CHUNKS_V1 = 640"
  by (simp_all add: obs_bounds)

lemma represents_valid:
  assumes "represents E f xs"
  shows "frontier_validate f = Inr ()"
proof -
  have occupied: "bit (ob_occupied_mask f) k" if "k < 11" "ob_hashes f ! k \<noteq> 0" for k
    using assms that by (auto simp: represents_def bit_of_nat_u16 split: if_splits)
  then have "\<forall>c \<in> set (map (\<lambda>(level, h). let occupied = (ob_occupied_mask f AND shl1 level \<noteq> 0)
      in if \<not> occupied \<and> h \<noteq> 0 then Inl InvalidRelease1Account else Inr ()) (enumerate 0 (ob_hashes f))). c = Inr ()"
    using representsD(1) [OF assms] occupied
    by (auto simp: in_set_enumerate_eq and_shl1_iff wf_frontier_def obs_bounds)
  then have "checks (map (\<lambda>(level, h). let occupied = (ob_occupied_mask f AND shl1 level \<noteq> 0)
      in if \<not> occupied \<and> h \<noteq> 0 then Inl InvalidRelease1Account else Inr ()) (enumerate 0 (ob_hashes f))) = Inr ()"
    by (simp only: checks_Inr_iff)
  then show ?thesis
    using representsD [OF assms]
    by (simp add: frontier_validate_def word_less_nat_alt bounds_unat ucast_index)
qed

lemma represents_default: "represents E frontier_default []"
  by (simp add: represents_def frontier_default_def wf_frontier_def obs_bounds nth_replicate)

lemma append_hash_ok:
  assumes r: "represents E f xs" and n: "length xs < 1024"
  shows "\<exists>f'. append_hash_at_next_index E f x = Inr f' \<and> represents E f' (xs @ [x])"
proof -
  obtain f' current l where c: "carry E f x 0 = Inr (f', current, l)" "carrying E xs x f' current l"
      "even (length xs div 2 ^ l)"
    using carry_ok [OF start_carrying [OF r n] n] by blast
  have l: "l \<le> 10" and i: "ob_next_index f' = of_nat (length xs)" using c(2) by (simp_all add: carrying_def)
  have "checked_add (of_nat (length xs) :: u32) 1 = Some (of_nat (length xs + 1))"
    using n by (simp add: checked_add_def unat_index)
  then show ?thesis
    using finish_carry [OF c(2) n c(3)] representsD [OF r] represents_valid [OF r] n l i c(1)
    by (simp add: append_hash_at_next_index_def word_le_nat_alt bounds_unat obs_bounds del: of_nat_add)
qed

section \<open>Geometry\<close>

abbreviation candidate :: "u32 \<Rightarrow> bool" where
  "candidate \<equiv> is_programdata_observation_chunk_size_candidate"

lemma candidate_unat:
  assumes "candidate cs"
  shows "unat cs \<in> {16384, 32768, 65536, 131072}"
  using assms by (auto simp: is_programdata_observation_chunk_size_candidate_def obs_bounds)

lemma candidate_bounds: "candidate cs \<Longrightarrow> 16384 \<le> unat cs \<and> unat cs \<le> 131072"
  using candidate_unat by fastforce

lemma count_le_640: "16384 \<le> c \<Longrightarrow> n \<le> 10485760 \<Longrightarrow> div_ceil n c \<le> 640"
proof -
  assume c: "16384 \<le> c" and n: "n \<le> 10485760"
  have "n \<le> 640 * c" using c n by simp
  then show ?thesis using c by (simp add: div_ceil_le_iff)
qed

lemma observation_count:
  assumes "candidate cs" "45 \<le> unat len" "unat len \<le> 10485760"
  shows "programdata_observation_chunk_count len cs = Inr (of_nat (div_ceil (unat len) (unat cs)))"
proof -
  let ?c = "unat cs"
  have c: "16384 \<le> ?c" "?c \<le> 131072" using candidate_bounds [OF assms(1)] by simp_all
  have wide: "unat (ucast cs :: u64) = ?c"
    using c by (simp add: unsigned_ucast_eq take_bit_nat_eq_self_iff)
  have one: "unat ((ucast cs :: u64) - 1) = ?c - 1"
    using c wide by (metis One_nat_def Suc_le_eq eval_nat_numeral(3) le_trans one_le_numeral unat_1 unat_sub word_le_nat_alt)
  have sum: "unat (len + ((ucast cs :: u64) - 1)) = unat len + (?c - 1)"
    using assms(3) c one by (subst unat_add_lem [THEN iffD1]) simp_all
  have count: "unat ((len + ((ucast cs :: u64) - 1)) div ucast cs) = div_ceil (unat len) ?c"
    using c by (simp add: unat_div sum wide div_ceil_def)
  have "div_ceil (unat len) ?c \<le> 640" by (rule count_le_640) (use c assms in simp_all)
  moreover have "0 < div_ceil (unat len) ?c" by (rule div_ceil_pos) (use c assms in simp_all)
  moreover have "(ucast ((len + ((ucast cs :: u64) - 1)) div ucast cs) :: u32) = of_nat (div_ceil (unat len) ?c)"
    unfolding count [symmetric]
    by (simp add: word_unat_eq_iff unsigned_ucast_eq unat_of_nat take_bit_eq_mod)
  moreover have "unat (of_nat (div_ceil (unat len) ?c) :: u32) = div_ceil (unat len) ?c"
    using calculation(1) by (simp add: unat_index)
  moreover have "checked_add len ((ucast cs :: u64) - 1) = Some (len + (ucast cs - 1))"
    using sum one assms(3) c by (simp add: checked_add_def)
  ultimately show ?thesis
    using assms count
    by (auto simp: programdata_observation_chunk_count_def Let_def word_le_nat_alt word_less_nat_alt obs_bounds)
qed

lemma observation_count_none:
  "\<not> (candidate cs \<and> 45 \<le> unat len \<and> unat len \<le> 10485760) \<Longrightarrow>
     programdata_observation_chunk_count len cs = Inl InvalidMerkleParameters"
  by (auto simp: programdata_observation_chunk_count_def word_le_nat_alt obs_bounds)


lemma observation_countD:
  "programdata_observation_chunk_count len cs = Inr x \<Longrightarrow> candidate cs \<and> 45 \<le> unat len \<and> unat len \<le> 10485760"
  using observation_count_none [of cs len] by (cases "candidate cs \<and> 45 \<le> unat len \<and> unat len \<le> 10485760") simp_all

section \<open>Leaves\<close>

definition obs_leaf :: "env \<Rightarrow> hash32 \<Rightarrow> nat \<Rightarrow> byte list \<Rightarrow> hash32" where
  "obs_leaf E subject_digest i chunk =
     hashv E [PROGRAMDATA_OBSERVATION_CHUNK_LEAF_DOMAIN_V1, wr_32 subject_digest, wr_u32 (of_nat i),
       wr_u32 (of_nat (length chunk)), chunk]"

definition obs_empty :: "env \<Rightarrow> hash32 \<Rightarrow> nat \<Rightarrow> hash32" where
  "obs_empty E subject_digest i =
     hashv E [PROGRAMDATA_OBSERVATION_CHUNK_EMPTY_DOMAIN_V1, wr_32 subject_digest, wr_u32 (of_nat i)]"

definition raw_chunk :: "nat \<Rightarrow> byte list \<Rightarrow> nat \<Rightarrow> byte list" where
  "raw_chunk c raw i = take c (drop (i * c) raw)"

definition real_leaves :: "env \<Rightarrow> hash32 \<Rightarrow> nat \<Rightarrow> byte list \<Rightarrow> nat \<Rightarrow> hash32 list" where
  "real_leaves E subject_digest c raw k =
     map (\<lambda>i. obs_leaf E subject_digest i (raw_chunk c raw i)) [0..<k]"

text \<open>The root of the padded tree over all chunks of the raw account.\<close>

definition observation_root :: "env \<Rightarrow> hash32 \<Rightarrow> byte list \<Rightarrow> nat \<Rightarrow> hash32" where
  "observation_root E subject_digest raw c =
     (let count = div_ceil (length raw) c; width = next_power_of_two count in
      level_root (obs_node E) (trailing_zeros width)
        (real_leaves E subject_digest c raw count @ map (obs_empty E subject_digest) [count..<width]))"

lemma length_real_leaves [simp]: "length (real_leaves E d c raw k) = k"
  by (simp add: real_leaves_def)

lemma real_leaves_Suc: "real_leaves E d c raw (Suc k) = real_leaves E d c raw k @ [obs_leaf E d k (raw_chunk c raw k)]"
  by (simp add: real_leaves_def)

lemma real_leaves_append:
  assumes "k * c \<le> length raw"
  shows "real_leaves E d c (raw @ ys) k = real_leaves E d c raw k"
proof -
  have "raw_chunk c (raw @ ys) i = raw_chunk c raw i" if "i < k" for i
  proof -
    have "(i + 1) * c \<le> k * c" using that by (intro mult_le_mono1) simp
    then have "i * c + c \<le> length raw" using assms by simp
    then show ?thesis by (simp add: raw_chunk_def)
  qed
  then show ?thesis by (simp add: real_leaves_def)
qed

lemma leaf_ok:
  assumes "candidate cs" "chunk \<noteq> []" "length chunk \<le> unat cs" "i < div_ceil 10485760 (unat cs)"
  shows "programdata_observation_chunk_leaf_hash E d (of_nat i) cs chunk = Inr (obs_leaf E d i chunk)"
proof -
  have c: "16384 \<le> unat cs" "unat cs \<le> 131072" using candidate_bounds [OF assms(1)] by simp_all
  have m: "div_ceil 10485760 (unat cs) \<le> 640" using c by (intro count_le_640) simp_all
  have max: "unat MAX_RAW_PROGRAMDATA_ACCOUNT_BYTES_V1 = 10485760" by (simp add: obs_bounds)
  have "max_chunk_count_for_size cs = Inr (of_nat (div_ceil 10485760 (unat cs)))"
    using observation_count [OF assms(1), of MAX_RAW_PROGRAMDATA_ACCOUNT_BYTES_V1]
    by (simp add: max_chunk_count_for_size_def max)
  then show ?thesis
    using assms c m
    by (simp add: programdata_observation_chunk_leaf_hash_def obs_leaf_def word_le_nat_alt unat_index Let_def)
qed

lemma leaf_length:
  "programdata_observation_chunk_leaf_hash E d i cs chunk = Inr h \<Longrightarrow> chunk \<noteq> [] \<and> length chunk \<le> unat cs"
  by (auto simp: programdata_observation_chunk_leaf_hash_def split: if_splits)

lemma empty_ok: "i < 1024 \<Longrightarrow> programdata_observation_chunk_empty_hash E d (of_nat i) = Inr (obs_empty E d i)"
  by (simp add: programdata_observation_chunk_empty_hash_def obs_empty_def word_le_nat_alt bounds_unat unat_index)

lemma expected_length:
  assumes "candidate cs" "unat len \<le> 10485760" "i < div_ceil (unat len) (unat cs)"
  shows "\<exists>e. expected_real_chunk_length len cs (of_nat i) (of_nat (div_ceil (unat len) (unat cs))) = Inr e
    \<and> unat e = min (unat len - i * unat cs) (unat cs)"
proof -
  let ?c = "unat cs"
  have c: "16384 \<le> ?c" "?c \<le> 131072" using candidate_bounds [OF assms(1)] by simp_all
  have m: "div_ceil (unat len) ?c \<le> 640" using c assms(2) by (intro count_le_640) simp_all
  have i: "i * ?c < unat len" using assms(3) c by (simp add: less_div_ceil_iff)
  have start: "unat (of_nat (i * ?c) :: u64) = i * ?c"
    using i assms(2) by (simp add: unat_of_nat del: of_nat_mult)
  have wide: "unat (ucast cs :: u64) = ?c"
    using c by (simp add: unsigned_ucast_eq take_bit_nat_eq_self_iff)
  have le: "(of_nat (i * ?c) :: u64) \<le> len" using i start by (simp add: word_le_nat_alt del: of_nat_mult)
  have sub: "unat (len - of_nat (i * ?c)) = unat len - i * ?c"
    using unat_sub [OF le] start by (simp del: of_nat_mult)
  let ?e = "min (len - of_nat (i * ?c)) (ucast cs)"
  have e: "unat ?e = min (unat len - i * ?c) ?c"
    using sub wide by (simp add: min_def word_le_nat_alt del: of_nat_mult)
  have "0 < unat ?e" unfolding e using i c by simp
  then have "?e \<noteq> 0" by (metis less_irrefl unsigned_0)
  then have "expected_real_chunk_length len cs (of_nat i) (of_nat (div_ceil (unat len) ?c)) = Inr ?e"
    using assms(2,3) m i le
    by (simp add: expected_real_chunk_length_def word_le_nat_alt unat_index checked_sub_def
        checked_usize_def Let_def del: of_nat_mult)
  with e show ?thesis by blast
qed


section \<open>One append\<close>

lemma append_ok:
  assumes r: "represents E f xs" and cs: "candidate cs" and len: "45 \<le> unat len" "unat len \<le> 10485760"
    and i: "length xs < div_ceil (unat len) (unat cs)"
    and chunk: "length chunk = min (unat len - length xs * unat cs) (unat cs)"
  shows "\<exists>f'. append_programdata_observation_chunk E f d len cs (of_nat (length xs)) chunk = Inr f'
    \<and> represents E f' (xs @ [obs_leaf E d (length xs) chunk])"
proof -
  let ?n = "length xs" and ?count = "div_ceil (unat len) (unat cs)"
  have c: "16384 \<le> unat cs" "unat cs \<le> 131072" using candidate_bounds [OF cs] by simp_all
  have m: "?count \<le> 640" by (rule count_le_640) (use c len in simp_all)
  have "div_ceil (unat len) (unat cs) \<le> div_ceil 10485760 (unat cs)"
    using len by (simp add: div_ceil_def div_le_mono)
  with i have max: "?n < div_ceil 10485760 (unat cs)" by simp
  have "?n * unat cs < unat len" using i c by (simp add: less_div_ceil_iff)
  then have nonempty: "chunk \<noteq> []" "length chunk \<le> unat cs" using chunk c by auto
  obtain e where e: "expected_real_chunk_length len cs (of_nat ?n) (of_nat ?count) = Inr e"
      "unat e = length chunk"
    using expected_length [OF cs len(2) i] chunk by auto
  then have len_eq: "(of_nat (length chunk) :: u64) = e"
    by (simp add: e(2) [symmetric])
  obtain f' where f': "append_hash_at_next_index E f (obs_leaf E d ?n chunk) = Inr f'"
      "represents E f' (xs @ [obs_leaf E d ?n chunk])"
    using append_hash_ok [OF r, of "obs_leaf E d ?n chunk"] i m by auto
  show ?thesis
    using representsD [OF r] represents_valid [OF r] represents_valid [OF f'(2)] f' i m e(1) len_eq
      observation_count [OF cs len] leaf_ok [OF cs nonempty max, of E d]
    by (simp add: append_programdata_observation_chunk_def word_le_nat_alt unat_index)
qed

lemma append_inv:
  assumes r: "represents E f xs"
    and a: "append_programdata_observation_chunk E f d len cs index chunk = Inr f'"
  shows "candidate cs" "45 \<le> unat len" "unat len \<le> 10485760" "index = of_nat (length xs)"
    "length xs < div_ceil (unat len) (unat cs)"
    "length chunk = min (unat len - length xs * unat cs) (unat cs)"
proof -
  let ?n = "length xs" and ?count = "div_ceil (unat len) (unat cs)"
  show cs: "candidate cs" and len: "45 \<le> unat len" "unat len \<le> 10485760"
    using a by (auto simp: append_programdata_observation_chunk_def result_simps dest!: observation_countD)
  note a' = a [unfolded append_programdata_observation_chunk_def observation_count [OF cs len]]
  have c: "16384 \<le> unat cs" "unat cs \<le> 131072" using candidate_bounds [OF cs] by simp_all
  have m: "?count \<le> 640" by (rule count_le_640) (use c len in simp_all)
  show index: "index = of_nat ?n"
    using a' representsD(4) [OF r] by (auto simp: result_simps split: if_splits)
  show i: "?n < ?count"
    using a' representsD [OF r] m
    by (auto simp: result_simps word_le_nat_alt unat_index index not_le split: if_splits)
  obtain e where e: "expected_real_chunk_length len cs (of_nat ?n) (of_nat ?count) = Inr e"
      "unat e = min (unat len - ?n * unat cs) (unat cs)"
    using expected_length [OF cs len(2) i] by auto
  obtain h where "programdata_observation_chunk_leaf_hash E d index cs chunk = Inr h"
    using a' by (auto simp: result_simps split: if_splits)
  then have "length chunk \<le> unat cs" using leaf_length by blast
  then have small: "unat (of_nat (length chunk) :: u64) = length chunk"
    using c by (simp add: unat_of_nat)
  have "(of_nat (length chunk) :: u64) = e"
    using a' e(1) by (auto simp: result_simps index split: if_splits)
  then show "length chunk = min (unat len - ?n * unat cs) (unat cs)"
    using small e(2) by simp
qed

section \<open>Completion\<close>

lemma append_empties_ok:
  assumes "represents E f xs" "length xs = a" "a \<le> b" "b \<le> 1024"
  shows "\<exists>f'. append_empties E d f [a..<b] = Inr f' \<and> represents E f' (xs @ map (obs_empty E d) [a..<b])"
  using assms
proof (induction "b - a" arbitrary: f xs a)
  case 0
  then show ?case by simp
next
  case (Suc n)
  then have lt: "a < b" by simp
  obtain f' where f': "append_hash_at_next_index E f (obs_empty E d a) = Inr f'"
      "represents E f' (xs @ [obs_empty E d a])"
    using append_hash_ok [OF Suc.prems(1)] Suc.prems lt by fastforce
  have n: "n = b - Suc a" using Suc.hyps(2) by simp
  obtain f'' where f'': "append_empties E d f' [Suc a..<b] = Inr f''"
      "represents E f'' ((xs @ [obs_empty E d a]) @ map (obs_empty E d) [Suc a..<b])"
    using Suc.hyps(1) [OF n f'(2)] Suc.prems lt by auto
  show ?case
    using f' f'' lt Suc.prems(4) by (simp add: upt_conv_Cons empty_ok)
qed

lemma shl1_power: "k < 16 \<Longrightarrow> (shl1 k :: u16) = of_nat (2 ^ k)"
  by (simp add: shl1_def push_bit_eq_mult)

lemma finalize_ok:
  assumes r: "represents E f (real_leaves E d (unat cs) raw count)" and cs: "candidate cs"
    and len: "45 \<le> unat len" "unat len \<le> 10485760" "length raw = unat len"
    and count: "count = div_ceil (unat len) (unat cs)"
  shows "finalize_programdata_observation_frontier E f d len cs = Inr (observation_root E d raw (unat cs))"
proof -
  let ?xs = "real_leaves E d (unat cs) raw count"
  have c: "16384 \<le> unat cs" "unat cs \<le> 131072" using candidate_bounds [OF cs] by simp_all
  have m: "count \<le> 640" unfolding count by (rule count_le_640) (use c len in simp_all)
  have width: "next_power_of_two count \<le> 1024" using next_power_of_two_le [of count 10] m by simp
  obtain k where k: "next_power_of_two count = 2 ^ k" using next_power_of_two_power by blast
  have "(2::nat) ^ k \<le> 2 ^ 10" using width k by simp
  then have k10: "k \<le> 10" by (rule power_le_imp_le_exp [rotated]) simp
  let ?w = "2 ^ k :: nat" and ?ys = "?xs @ map (obs_empty E d) [count..<2 ^ k]"
  have le: "count \<le> ?w" using next_power_of_two_ge [of count] k by simp
  obtain f' where f': "append_empties E d f [count..<?w] = Inr f'" "represents E f' ?ys"
    using append_empties_ok [OF r, of count ?w d] le width k by auto
  have ys: "length ?ys = ?w" using le by simp
  have root: "ob_hashes f' ! k = level_root (obs_node E) k ?ys"
    using f'(2) k10 ys by (simp add: represents_def run_at_def)
  have next_w: "checked_next_power_of_two (of_nat count) = Some (of_nat ?w)"
    using m k width by (simp add: checked_next_power_of_two_def unat_index del: of_nat_power)
  have uw: "unat (of_nat ?w :: u32) = ?w" using width k by (intro unat_index) simp
  have "observation_root E d raw (unat cs) = level_root (obs_node E) k ?ys"
    using len(3) k by (simp add: observation_root_def Let_def count [symmetric])
  moreover have "finalize_programdata_observation_frontier E f d len cs = Inr (ob_hashes f' ! k)"
    using represents_valid [OF r] representsD [OF r] observation_count [OF cs len(1,2)] next_w uw width k
      f'(1) represents_valid [OF f'(2)] representsD(4,5) [OF f'(2)] ys k10 m
    unfolding finalize_programdata_observation_frontier_def count [symmetric]
    by (simp add: unat_index word_less_nat_alt bounds_unat shl1_power Let_def del: of_nat_power)
  ultimately show ?thesis using root by simp
qed

lemma finalize_inv:
  assumes r: "represents E f xs"
    and fin: "finalize_programdata_observation_frontier E f d len cs = Inr root"
  shows "candidate cs" "45 \<le> unat len" "unat len \<le> 10485760" "length xs = div_ceil (unat len) (unat cs)"
proof -
  show cs: "candidate cs" and len: "45 \<le> unat len" "unat len \<le> 10485760"
    using fin by (auto simp: finalize_programdata_observation_frontier_def result_simps dest!: observation_countD)
  have c: "16384 \<le> unat cs" "unat cs \<le> 131072" using candidate_bounds [OF cs] by simp_all
  have m: "div_ceil (unat len) (unat cs) \<le> 640" by (rule count_le_640) (use c len in simp_all)
  have "ob_next_index f = of_nat (div_ceil (unat len) (unat cs))"
    using fin observation_count [OF cs len]
    by (auto simp: finalize_programdata_observation_frontier_def result_simps split: if_splits)
  then have "unat (ob_next_index f) = div_ceil (unat len) (unat cs)" using m by (simp add: unat_index)
  then show "length xs = div_ceil (unat len) (unat cs)" using representsD(3) [OF r] by simp
qed


section \<open>The two ways to the root\<close>

lemma append_chunks_snoc:
  "append_chunks E d len cs f (calls @ [(i, chunk)]) =
     bnd (append_chunks E d len cs f calls) (\<lambda>f. append_chunks E d len cs f [(i, chunk)])"
  by (induction E d len cs f calls rule: append_chunks.induct) (auto simp: bnd_assoc)

lemma enumerate_raw_chunks:
  "0 < c \<Longrightarrow> enumerate 0 (chunks c raw) = map (\<lambda>i. (i, raw_chunk c raw i)) [0..<div_ceil (length raw) c]"
  by (rule nth_equalityI)
    (simp_all add: length_enumerate nth_enumerate_eq length_chunks nth_chunks raw_chunk_def)

lemma append_chunks_ok:
  assumes "candidate cs" "45 \<le> unat len" "unat len \<le> 10485760" "length raw = unat len"
  shows "k \<le> div_ceil (unat len) (unat cs) \<Longrightarrow> \<exists>f.
    append_chunks E d len cs frontier_default (map (\<lambda>i. (i, raw_chunk (unat cs) raw i)) [0..<k]) = Inr f
    \<and> represents E f (real_leaves E d (unat cs) raw k)"
proof (induction k)
  case 0
  then show ?case by (simp add: represents_default real_leaves_def)
next
  case (Suc k)
  then obtain f where f: "append_chunks E d len cs frontier_default
        (map (\<lambda>i. (i, raw_chunk (unat cs) raw i)) [0..<k]) = Inr f"
      "represents E f (real_leaves E d (unat cs) raw k)" by auto
  have "length (raw_chunk (unat cs) raw k) = min (unat len - k * unat cs) (unat cs)"
    using assms(4) by (simp add: raw_chunk_def min.commute)
  then have "\<exists>f'. append_programdata_observation_chunk E f d len cs (of_nat k) (raw_chunk (unat cs) raw k) = Inr f'
      \<and> represents E f' (real_leaves E d (unat cs) raw (Suc k))"
    using append_ok [OF f(2) assms(1-3), of "raw_chunk (unat cs) raw k" d] Suc.prems
    by (simp add: real_leaves_Suc)
  moreover have "k < 2 ^ 32"
    using representsD(2) [OF f(2)] by simp
  ultimately show ?case using f(1) by (auto simp: append_chunks_snoc)
qed

text \<open>A history of append calls against one observation: a call that fails leaves the frontier alone,
  the bytes of one that succeeds are recorded after those before it.\<close>

fun observe :: "env \<Rightarrow> hash32 \<Rightarrow> u64 \<Rightarrow> u32 \<Rightarrow> obs_frontier \<times> byte list \<Rightarrow> (u32 \<times> byte list) list \<Rightarrow> obs_frontier \<times> byte list" where
  "observe E d len cs s [] = s"
| "observe E d len cs (f, seen) ((i, chunk) # calls) =
     observe E d len cs
       (case append_programdata_observation_chunk E f d len cs i chunk of
          Inl _ \<Rightarrow> (f, seen) | Inr f' \<Rightarrow> (f', seen @ chunk)) calls"

definition observed :: "env \<Rightarrow> hash32 \<Rightarrow> nat \<Rightarrow> nat \<Rightarrow> obs_frontier \<times> byte list \<Rightarrow> bool" where
  "observed E d n c s \<longleftrightarrow> (\<exists>k. represents E (fst s) (real_leaves E d c (snd s) k)
     \<and> length (snd s) = min (k * c) n \<and> k \<le> div_ceil n c)"

lemma observed_append:
  assumes s: "observed E d (unat len) (unat cs) (f, seen)"
    and a: "append_programdata_observation_chunk E f d len cs i chunk = Inr f'"
  shows "observed E d (unat len) (unat cs) (f', seen @ chunk)"
proof -
  let ?n = "unat len" and ?c = "unat cs"
  obtain k where k: "represents E f (real_leaves E d ?c seen k)" "length seen = min (k * ?c) ?n"
    using s by (auto simp: observed_def)
  note inv = append_inv [OF k(1) a, simplified]
  have c: "16384 \<le> ?c" using candidate_bounds [OF inv(1)] by simp
  have lt: "k * ?c < ?n" using inv(5) c by (simp add: less_div_ceil_iff)
  then have seen: "length seen = k * ?c" using k(2) by simp
  have last: "raw_chunk ?c (seen @ chunk) k = chunk"
    using seen inv(6) by (simp add: raw_chunk_def)
  have "represents E f' (real_leaves E d ?c seen k @ [obs_leaf E d k chunk])"
    using append_ok [OF k(1) inv(1-3), of chunk d] inv a by simp
  then have "represents E f' (real_leaves E d ?c (seen @ chunk) (Suc k))"
    using seen last by (simp add: real_leaves_Suc real_leaves_append)
  moreover have "length (seen @ chunk) = min (Suc k * ?c) ?n"
    using seen inv(6) lt by auto
  ultimately show ?thesis using inv(5) by (auto simp: observed_def)
qed

lemma observed_observe:
  "observed E d (unat len) (unat cs) s \<Longrightarrow> observed E d (unat len) (unat cs) (observe E d len cs s calls)"
  by (induction E d len cs s calls rule: observe.induct) (auto split: sum.split simp: observed_append)

lemma observed_start: "observed E d n c (frontier_default, [])"
  by (auto simp: observed_def represents_default real_leaves_def intro!: exI [of _ 0])

lemma root_exact:
  "programdata_observation_merkle_root E d raw cs =
     (if candidate cs \<and> 45 \<le> length raw \<and> length raw \<le> 10485760
      then Inr (observation_root E d raw (unat cs)) else Inl InvalidMerkleParameters)"
proof (cases "length raw < 2 ^ 64")
  case False
  then show ?thesis by (simp add: programdata_observation_merkle_root_def)
next
  case True
  let ?len = "of_nat (length raw) :: u64"
  have len: "unat ?len = length raw" using True by (simp add: unat_of_nat)
  show ?thesis
  proof (cases "candidate cs \<and> 45 \<le> length raw \<and> length raw \<le> 10485760")
    case False
    then show ?thesis
      using True observation_count_none [of cs ?len] len
      by (auto simp: programdata_observation_merkle_root_def)
  next
    case good: True
    then have c: "0 < unat cs" using candidate_bounds [of cs] by simp
    obtain f where f: "append_chunks E d ?len cs frontier_default (enumerate 0 (chunks (unat cs) raw)) = Inr f"
        "represents E f (real_leaves E d (unat cs) raw (div_ceil (length raw) (unat cs)))"
      using append_chunks_ok [of cs ?len raw "div_ceil (length raw) (unat cs)" E d] good len
      by (auto simp: enumerate_raw_chunks [OF c])
    have "finalize_programdata_observation_frontier E f d ?len cs = Inr (observation_root E d raw (unat cs))"
      using finalize_ok [OF f(2), of ?len] good len by simp
    then show ?thesis
      using True good f(1) observation_count [of cs ?len] len
      by (simp add: programdata_observation_merkle_root_def)
  qed
qed

text \<open>C21: The streaming computation of the root of a raw ProgramData account accepts exactly
  the four candidate chunk sizes and lengths from the 45-byte header to the runtime ceiling, never
  fails on them, and its result is the root of the full binary tree over all chunks, each bound to
  the subject, its index and its length, padded with subject-separated empty leaves.\<close>

theorem streaming_root_is_tree_root:
  "programdata_observation_merkle_root E subject_digest raw chunk_size =
     (if is_programdata_observation_chunk_size_candidate chunk_size
         \<and> 45 \<le> length raw \<and> length raw \<le> 10485760
      then Inr (observation_root E subject_digest raw (unat chunk_size))
      else Inl InvalidMerkleParameters)"
  by (rule root_exact)

text \<open>C20: An observation that is fed chunks over any number of calls, in whatever order
  they are attempted and however many of them are refused, can only be finalized once the accepted
  chunks make up an account of exactly the announced length, and then its root is the root of those
  bytes.\<close>

theorem observation_pins_every_byte:
  assumes "observe E subject_digest len chunk_size (frontier_default, []) calls = (frontier, raw)"
    and "finalize_programdata_observation_frontier E frontier subject_digest len chunk_size = Inr root"
  shows "length raw = unat len
    \<and> programdata_observation_merkle_root E subject_digest raw chunk_size = Inr root"
proof
  let ?c = "unat chunk_size"
  have "observed E subject_digest (unat len) ?c (frontier, raw)"
    using observed_observe [OF observed_start] assms(1) by metis
  then obtain k where k: "represents E frontier (real_leaves E subject_digest ?c raw k)"
      "length raw = min (k * ?c) (unat len)"
    by (auto simp: observed_def)
  note inv = finalize_inv [OF k(1) assms(2), simplified]
  have "unat len \<le> k * ?c"
    using inv(4) candidate_bounds [OF inv(1)] by (simp add: div_ceil_le_iff [symmetric])
  then show len: "length raw = unat len" using k(2) by simp
  show "programdata_observation_merkle_root E subject_digest raw chunk_size = Inr root"
    using finalize_ok [OF k(1) inv(1-3) len inv(4)] assms(2) inv len by (simp add: root_exact)
qed


section \<open>A concrete observation\<close>

abbreviation header_bytes :: "byte list" where "header_bytes \<equiv> replicate 45 7"

lemma small_candidate [simp]: "candidate 16384"
  by (simp add: is_programdata_observation_chunk_size_candidate_def obs_bounds)

lemma early_chunk_refused:
  "\<exists>e. append_programdata_observation_chunk E frontier_default d len cs 3 chunk = Inl e"
  using append_inv(4) [OF represents_default, of E d len cs 3 chunk]
  by (cases "append_programdata_observation_chunk E frontier_default d len cs 3 chunk") auto

lemma header_observed:
  obtains f where
    "append_programdata_observation_chunk sample_env frontier_default 9 45 16384 0 header_bytes = Inr f"
    "finalize_programdata_observation_frontier sample_env f 9 45 16384
       = Inr (observation_root sample_env 9 header_bytes 16384)"
proof -
  have one: "div_ceil 45 16384 = 1" by (simp add: div_ceil_def)
  obtain f where f: "append_programdata_observation_chunk sample_env frontier_default 9 45 16384 0 header_bytes = Inr f"
      "represents sample_env f [obs_leaf sample_env 9 0 header_bytes]"
    using append_ok [OF represents_default, of 16384 45 header_bytes sample_env 9] one by auto
  have "real_leaves sample_env 9 (unat (16384 :: u32)) header_bytes 1 = [obs_leaf sample_env 9 0 header_bytes]"
    by (simp add: real_leaves_def raw_chunk_def)
  then show thesis
    using that f finalize_ok [of sample_env f 9 16384 header_bytes 1 45] one by simp
qed

theorem observation_pins_every_byte_witness:
  "\<exists>frontier root.
     observe sample_env 9 45 16384 (frontier_default, []) [(3, [1]), (0, header_bytes)] = (frontier, header_bytes)
     \<and> finalize_programdata_observation_frontier sample_env frontier 9 45 16384 = Inr root
     \<and> length header_bytes = unat (45 :: u64)
     \<and> programdata_observation_merkle_root sample_env 9 header_bytes 16384 = Inr root"
proof -
  obtain f where f:
    "append_programdata_observation_chunk sample_env frontier_default 9 45 16384 0 header_bytes = Inr f"
    "finalize_programdata_observation_frontier sample_env f 9 45 16384
       = Inr (observation_root sample_env 9 header_bytes 16384)" by (rule header_observed)
  obtain e where "append_programdata_observation_chunk sample_env frontier_default 9 45 16384 3 [1] = Inl e"
    using early_chunk_refused by blast
  then have "observe sample_env 9 45 16384 (frontier_default, []) [(3, [1]), (0, header_bytes)] = (f, header_bytes)"
    using f(1) by simp
  then show ?thesis
    using f(2) observation_pins_every_byte [of sample_env 9 45 16384 _ f header_bytes] by blast
qed

end
