(* ===== verification/Target_Runs.thy ===== *)
theory Target_Runs
  imports Council_Runs
begin

text \<open>
  Complete runs of the target handlers on concrete ledgers: a gate transition, a registration, a
  closure, the reclamation of records and of the verification record.
\<close>

section \<open>A transaction\<close>

text \<open>The environment of a transaction of one instruction of the controller.\<close>

definition meta_of :: "account_info \<Rightarrow> account_meta" where
  "meta_of i = \<lparr>am_pubkey = ai_key i, am_signer = is_signer i, am_writable = is_writable i\<rparr>"

definition tx_env :: "account_info list \<Rightarrow> byte list \<Rightarrow> env" where
  "tx_env accounts data = world_env\<lparr>load_instruction_at_checked := \<lambda>n i bs.
     Inr \<lparr>ix_program = program_key, ix_accounts = map meta_of accounts, ix_data = data\<rparr>\<rparr>"

lemma tx_env_simps [simp]:
  "sha256 (tx_env as d) = sha256 world_env" "find_program_address (tx_env as d) = find_program_address world_env"
  "rent_get (tx_env as d) = rent_get world_env" "clock_get (tx_env as d) = clock_get world_env"
  "loader_id (tx_env as d) = 901" "system_program_id (tx_env as d) = 0" "instructions_id (tx_env as d) = 903"
  "compute_budget_id (tx_env as d) = 904" "rent_sysvar_id (tx_env as d) = 905" "clock_sysvar_id (tx_env as d) = 906"
  "invoke_signed (tx_env as d) = invoke_signed world_env"
  "load_current_index_checked (tx_env as d) i bs = Inr 0"
  "load_instruction_at_checked (tx_env as d) n i bs
     = Inr \<lparr>ix_program = program_key, ix_accounts = map meta_of as, ix_data = d\<rparr>"
  by (simp_all add: tx_env_def fun_eq_iff world_env_def sample_env_def)

lemma tx_cpi_frame [simp]: "cpi_frame (tx_env as d)"
  using world_cpi_frame by (simp add: cpi_frame_def)

lemma tx_same [simp]:
  "config_pda (tx_env as d) = config_pda sample_env" "authority_pda (tx_env as d) = authority_pda sample_env"
  "proposal_pda (tx_env as d) = proposal_pda sample_env" "gate_pda (tx_env as d) = gate_pda sample_env"
  "target_authority_pda (tx_env as d) = target_authority_pda sample_env"
  "buffer_authority_pda (tx_env as d) = buffer_authority_pda sample_env"
  "compute_digest (tx_env as d) = compute_digest sample_env"
  "config_validate (tx_env as d) = config_validate sample_env"
  "proposal_validate (tx_env as d) = proposal_validate sample_env"
  "clock (tx_env as d) = Inr 2000000"
  by (auto simp: fun_eq_iff config_pda_def authority_pda_def proposal_pda_def gate_pda_def
      target_authority_pda_def buffer_authority_pda_def compute_digest_def hashv_def config_validate_def
      proposal_validate_def proposal_fields_ok_def clock_ok)

lemma map2_meta_of: "checks (map2 (\<lambda>meta account. require (am_pubkey meta = ai_key account
         \<and> am_signer meta = is_signer account \<and> am_writable meta = is_writable account) e)
         (map meta_of accounts) accounts) = Inr ()"
  by (subst checks_map2_ok) (simp_all add: list_all2_conv_all_nth meta_of_def)

lemma one_instruction: "unat (le_word [1, 0] :: u16) = 1"
  by code_simp

lemma tx_envelope [simp]:
  "acc_data (L 903) = [1, 0] \<Longrightarrow> envelope (tx_env as d) program_key as (ro 903) d L = Inr ()"
  by (simp add: envelope_def guard_ok get_range_def map2_meta_of one_instruction [unfolded One_nat_def])

section \<open>A registered target\<close>

definition target_gate :: "gate_status \<Rightarrow> protocol_gate" where
  "target_gate s = (sample_gate s)\<lparr>gt_controller_config := 1026, gt_target_program := target_key,
     gt_target_programdata := 1032\<rparr>"

lemma target_gate_wf [simp]: "wf_gate (target_gate s)"
  by (simp add: target_gate_def sample_gate_def wf_gate_def PROTOCOL_GATE_DISCRIMINATOR_def)

lemma target_gate_ok [simp]: "s \<noteq> FrozenForUpgrade \<Longrightarrow> gate_validate_static (target_gate s) = Inr ()"
  by (auto simp: target_gate_def sample_gate_def gate_validate_static_ok gate_canonical_def target_key_def)

lemma target_gate_select [simp]:
  "gt_status (target_gate s) = s" "gt_epoch (target_gate s) = 5" "gt_bump (target_gate s) = 255"
  "gt_controller_config (target_gate s) = 1026" "gt_target_program (target_gate s) = target_key"
  "gt_target_programdata (target_gate s) = 1032"
  by (simp_all add: target_gate_def sample_gate_def)

definition target_ledger :: "proposal \<Rightarrow> gate_status \<Rightarrow> ledger" where
  "target_ledger p s =
     (sample_ledger p)
       (1055 := \<lparr>lamports = 3, acc_data = ser_gate (target_gate s), owner = program_key\<rparr>,
        700 := \<lparr>lamports = 5, acc_data = program_bytes 1032, owner = 901\<rparr>,
        1032 := \<lparr>lamports = 5, acc_data = programdata_bytes 44 (Some 1067) 0 (replicate 10 9), owner = 901\<rparr>,
        903 := \<lparr>lamports = 5, acc_data = [1, 0], owner = 0\<rparr>)"

lemma target_ledger_at [simp]:
  "target_ledger p s 1055 = \<lparr>lamports = 3, acc_data = ser_gate (target_gate s), owner = program_key\<rparr>"
  "target_ledger p s 700 = \<lparr>lamports = 5, acc_data = program_bytes 1032, owner = 901\<rparr>"
  "target_ledger p s 1032 = \<lparr>lamports = 5, acc_data = programdata_bytes 44 (Some 1067) 0 (replicate 10 9), owner = 901\<rparr>"
  "target_ledger p s 903 = \<lparr>lamports = 5, acc_data = [1, 0], owner = 0\<rparr>"
  "target_ledger p s 1026 = sample_ledger p 1026" "target_ledger p s 1035 = sample_ledger p 1035"
  "target_ledger p s 31 = \<lparr>lamports = 5, acc_data = [], owner = 0\<rparr>"
  by (simp_all add: target_ledger_def sample_ledger_def)

lemma target_loads:
  assumes "config_validate E = config_validate sample_env" "proposal_validate E = proposal_validate sample_env"
    "find_program_address E = find_program_address sample_env"
  shows "load_config E program_key (ro 1026) (target_ledger p s) = Inr sample_config"
    "wf_proposal p \<Longrightarrow> proposal_validate sample_env p program_key 1035 = Inr () \<Longrightarrow>
      load_proposal E program_key (rw 1035) (Some (pr_digest p)) (target_ledger p s) = Inr p"
    "s \<noteq> FrozenForUpgrade \<Longrightarrow> ai_key i = 1055 \<Longrightarrow>
      load_gate E program_key i target_key (target_ledger p s) = Inr (target_gate s)"
proof -
  have "gate_pda E = gate_pda sample_env" "config_pda E = config_pda sample_env"
    using assms(3) by (auto simp: gate_pda_def config_pda_def fun_eq_iff)
  then show "load_config E program_key (ro 1026) (target_ledger p s) = Inr sample_config"
    "wf_proposal p \<Longrightarrow> proposal_validate sample_env p program_key 1035 = Inr () \<Longrightarrow>
      load_proposal E program_key (rw 1035) (Some (pr_digest p)) (target_ledger p s) = Inr p"
    "s \<noteq> FrozenForUpgrade \<Longrightarrow> ai_key i = 1055 \<Longrightarrow>
      load_gate E program_key i target_key (target_ledger p s) = Inr (target_gate s)"
    using assms by (simp_all add: load_config_ok load_proposal_ok load_gate_ok sample_ledger_def)
      (simp add: target_key_def)
qed

section \<open>A gate transition\<close>

definition gate_action :: action where
  "gate_action = \<lparr>ac_kind = SET_TARGET_GATE,
     ac_data = ser_target_gate_policy \<lparr>gp_target = target_key, gp_expected_epoch = 5, gp_active = True\<rparr>
       @ replicate 151 0\<rparr>"

lemma gate_action_wf [simp]: "wf_action gate_action"
  by (simp add: wf_action_def gate_action_def target_gate_policy_codec.ser_size ACTION_LEN_def)

lemma gate_action_kind [simp]: "ac_kind gate_action = SET_TARGET_GATE" "\<not> is_upgrade gate_action"
  by (simp_all add: gate_action_def is_upgrade_def kind_consts)

lemma gate_action_decodes [simp]:
  "gate_policy gate_action = Inr \<lparr>gp_target = target_key, gp_expected_epoch = 5, gp_active = True\<rparr>"
  unfolding gate_policy_def
  by (subst target_gate_policy_codec.decode_padded_iff)
    (simp_all add: ACTION_LEN_def gate_action_def wf_action_def target_gate_policy_codec.ser_size)

lemma gate_action_ok [simp]: "action_validate gate_action = Inr ()"
  by (simp add: action_validate_def kind_consts target_key_def)

lemma add_five_one [simp]: "add 5 1 = Inr 6"
  by (simp add: add_def checked_add_def)

lemma gate_runs:
  "\<exists>M. execute_target_gate sample_env program_key [ro 1026, rw 1035, rw 1055] (pr_digest (approved_proposal gate_action))
      (target_ledger (approved_proposal gate_action) EmergencyFrozen) = Inr M"
proof -
  let ?p = "approved_proposal gate_action"
  let ?L = "target_ledger ?p EmergencyFrozen" and ?g = "target_gate EmergencyFrozen"
  have loads: "load_config sample_env program_key (ro 1026) ?L = Inr sample_config"
    "load_proposal sample_env program_key (rw 1035) (Some (pr_digest ?p)) ?L = Inr ?p"
    "load_gate sample_env program_key (rw 1055) target_key ?L = Inr ?g"
    by (rule target_loads; simp)+
  have slot: "clock sample_env = Inr 2000000" by (simp add: clock_ok)
  let ?g' = "?g\<lparr>gt_epoch := 6, gt_status := Active, gt_freeze_slot := 0, gt_freeze_reason_code := 0,
     gt_active_proposal := 0, gt_last_completed_proposal := 1035\<rparr>"
  let ?N = "set_data (rw 1055) (ser_gate ?g') ?L"
  have "wf_gate ?g'" "gate_validate_static ?g' = Inr ()"
    by (simp_all add: wf_gate_def gate_validate_static_ok gate_canonical_def target_gate_def sample_gate_def
        PROTOCOL_GATE_DISCRIMINATOR_def target_key_def)
  then have gate: "save_gate program_key (rw 1055) ?g' ?L = Inr ?N"
    by (simp add: save_gate_ok gate_codec.ser_size)
  have save: "save_proposal sample_env program_key (rw 1035) (executed ?p 2000000) ?N
      = Inr (set_data (rw 1035) (ser_proposal (executed ?p 2000000)) ?N)"
    by (rule save_executed [OF loads(2) approved_executable]) (simp_all add: ledger_simps)
  show ?thesis
    using gate save unfolding executed_def
    by (simp add: execute_target_gate_def loads slot guard_ok)
qed

theorem gate_transition_effect_witness:
  "\<exists>M p slot. execute_target_gate sample_env program_key [ro 1026, rw 1035, rw 1055]
      (pr_digest (approved_proposal gate_action)) (target_ledger (approved_proposal gate_action) EmergencyFrozen) = Inr M \<and>
    load_proposal sample_env program_key (rw 1035) (Some (pr_digest (approved_proposal gate_action))) M
      = Inr (executed p slot)"
proof -
  obtain M where M: "execute_target_gate sample_env program_key [ro 1026, rw 1035, rw 1055]
      (pr_digest (approved_proposal gate_action)) (target_ledger (approved_proposal gate_action) EmergencyFrozen) = Inr M"
    using gate_runs by blast
  have "ai_key (rw 1055) \<noteq> ai_key (rw 1035)" by simp
  from gate_transition_effect [OF M this] M show ?thesis by blast
qed

section \<open>The envelope\<close>

theorem envelope_pins_transaction_witness:
  "\<exists>current. load_instruction_at_checked (tx_env [ro 903] [13]) 0 (ro 903) [1, 0] = Inr current \<and>
    ix_program current = program_key \<and> ix_data current = [13] \<and> list_all2 meta_matches (ix_accounts current) [ro 903]"
proof -
  let ?L = "target_ledger (approved_proposal gate_action) Active"
  have "envelope (tx_env [ro 903] [13]) program_key [ro 903] (ro 903) [13] ?L = Inr ()" by simp
  from envelope_pins_transaction [OF this] show ?thesis by auto
qed

section \<open>Permanent closure\<close>

definition retire_action :: action where
  "retire_action = \<lparr>ac_kind = RETIRE_TARGET,
     ac_data = ser_retire_target_policy \<lparr>rt_target = target_key, rt_expected_epoch = 5, rt_deployed_slot = 44,
       rt_payload_sha256 = 10, rt_recovery_commitment = 8\<rparr> @ replicate 80 0\<rparr>"

lemma retire_action_wf [simp]: "wf_action retire_action"
  by (simp add: wf_action_def retire_action_def retire_target_policy_codec.ser_size ACTION_LEN_def)

lemma retire_action_kind [simp]: "ac_kind retire_action = RETIRE_TARGET" "\<not> is_upgrade retire_action"
  by (simp_all add: retire_action_def is_upgrade_def kind_consts)

lemma retire_action_decodes [simp]:
  "retirement_policy retire_action = Inr \<lparr>rt_target = target_key, rt_expected_epoch = 5, rt_deployed_slot = 44,
       rt_payload_sha256 = 10, rt_recovery_commitment = 8\<rparr>"
proof -
  have "decode_padded de_retire_target_policy 112 RETIRE_TARGET InvalidAccount retire_action = Inr \<lparr>rt_target = target_key,
      rt_expected_epoch = 5, rt_deployed_slot = 44, rt_payload_sha256 = 10, rt_recovery_commitment = 8\<rparr>"
    by (subst retire_target_policy_codec.decode_padded_iff) (simp_all add: ACTION_LEN_def retire_action_def wf_action_def
      retire_target_policy_codec.ser_size)
  then show ?thesis
    by (simp add: retirement_policy_def retire_target_policy_validate_def require_def target_key_def)
qed

lemma retire_action_ok [simp]: "action_validate retire_action = Inr ()"
  by (simp add: action_validate_def kind_consts retire_target_policy_validate_def target_key_def require_def)

definition prog_rw :: "pubkey \<Rightarrow> account_info" where
  "prog_rw k = \<lparr>ai_key = k, is_signer = False, is_writable = True, executable = True\<rparr>"

lemma prog_rw_simps [simp]:
  "ai_key (prog_rw k) = k" "\<not> is_signer (prog_rw k)" "is_writable (prog_rw k)" "executable (prog_rw k)"
  by (simp_all add: prog_rw_def)

abbreviation retire_accounts :: "account_info list" where
  "retire_accounts \<equiv> [ro 1026, rw 1035, prog_rw 700, rw 1032, rw 1055, rw 31, ro 1067, prog 901, ro 903]"

lemma retire_runs:
  "\<exists>M. retire (tx_env retire_accounts [16]) program_key retire_accounts (pr_digest (approved_proposal retire_action)) [16]
      (target_ledger (approved_proposal retire_action) EmergencyFrozen) = Inr M"
proof -
  let ?E = "tx_env retire_accounts [16]"
  let ?p = "approved_proposal retire_action"
  let ?L = "target_ledger ?p EmergencyFrozen" and ?g = "target_gate EmergencyFrozen"
  have loads: "load_config ?E program_key (ro 1026) ?L = Inr sample_config"
    "load_proposal ?E program_key (rw 1035) (Some (pr_digest ?p)) ?L = Inr ?p"
    "load_gate ?E program_key (rw 1055) target_key ?L = Inr ?g"
    by (rule target_loads; simp add: fun_eq_iff)+
  have header: "validate_program_programdata_linkage ?L (prog_rw 700) (rw 1032) 901
      = Inr \<lparr>deployed_slot = 44, upgrade_authority = Some 1067, payload_offset = 45, capacity = 10\<rparr>"
    by (simp add: validate_program_programdata_linkage_def parse_program_bytes parse_programdata_bytes)
  have payload: "checked_slice 45 (length (programdata_bytes 44 (Some 1067) 0 (replicate 10 9)))
      (programdata_bytes 44 (Some 1067) 0 (replicate 10 9)) = Inr (replicate 10 9)"
    by (simp add: checked_slice_def subslice_def programdata_bytes_def)
  let ?L1 = "move_all 1032 31 ?L"
  have call: "invoke_signed world_env (LoaderCloseAny 1032 31 (Some 1067) (Some 700)) [1032, 31, 1067, 700, 901] sds ?L
      = Inr ?L1" for sds
    by (subst world_invoke) (simp_all add: move_all_def)
  have at: "lamports (?L1 1032) = 0" "lamports (?L1 31) = 10" "?L1 1035 = ?L 1035" "?L1 1055 = ?L 1055"
    by (simp_all add: move_all_def)
  let ?g' = "?g\<lparr>gt_epoch := 6, gt_freeze_slot := 2000000, gt_freeze_reason_code := 4, gt_last_completed_proposal := 1035\<rparr>"
  let ?N = "set_data (rw 1055) (ser_gate ?g') ?L1"
  have "wf_gate ?g'" "gate_validate_static ?g' = Inr ()"
    by (simp_all add: wf_gate_def gate_validate_static_ok gate_canonical_def target_gate_def sample_gate_def
        PROTOCOL_GATE_DISCRIMINATOR_def target_key_def)
  then have gate: "save_gate program_key (rw 1055) ?g' ?L1 = Inr ?N"
    by (simp add: save_gate_ok gate_codec.ser_size at)
  have save: "save_proposal ?E program_key (rw 1035) (executed ?p 2000000) ?N
      = Inr (set_data (rw 1035) (ser_proposal (executed ?p 2000000)) ?N)"
    by (rule save_executed [OF loads(2) approved_executable]) (simp_all add: ledger_simps at)
  have sum: "add (5 :: u64) 5 = Inr 10" by (simp add: add_def checked_add_def)
  show ?thesis
    using gate save unfolding executed_def
    by (simp del: world_env_simps(11) add: retire_def loads [unfolded target_key_def] guard_ok header payload Let_def call at
        sum hashv_def target_key_def)
qed

theorem retire_effect_witness:
  "\<exists>M p slot. retire (tx_env retire_accounts [16]) program_key retire_accounts (pr_digest (approved_proposal retire_action))
      [16] (target_ledger (approved_proposal retire_action) EmergencyFrozen) = Inr M \<and>
    lamports (M 1032) = 0 \<and>
    load_proposal (tx_env retire_accounts [16]) program_key (rw 1035) (Some (pr_digest (approved_proposal retire_action))) M
      = Inr (executed p slot)"
proof -
  obtain M where M: "retire (tx_env retire_accounts [16]) program_key retire_accounts
      (pr_digest (approved_proposal retire_action)) [16] (target_ledger (approved_proposal retire_action) EmergencyFrozen) = Inr M"
    using retire_runs by blast
  have "distinct (map ai_key retire_accounts)" by simp
  from retire_effect [OF M tx_cpi_frame this] have "lamports_of M (rw 1032) = 0 \<and> (\<exists>p slot.
      load_proposal (tx_env retire_accounts [16]) program_key (rw 1035) (Some (pr_digest (approved_proposal retire_action))) M
      = Inr (executed p slot))"
    by blast
  with M show ?thesis by auto
qed

section \<open>Reclaiming what is left\<close>

definition retired_ledger :: ledger where
  "retired_ledger = (target_ledger (approved_proposal retire_action) EmergencyFrozen)
     (1032 := \<lparr>lamports = 0, acc_data = [], owner = 0\<rparr>,
      1067 := \<lparr>lamports = 7, acc_data = [], owner = 0\<rparr>,
      1076 := \<lparr>lamports = 0, acc_data = [], owner = VERIFY_PROGRAM\<rparr>)"

lemma retired_loads:
  "load_config E program_key (ro 1026) retired_ledger = load_config E program_key (ro 1026) (target_ledger (approved_proposal retire_action) EmergencyFrozen)"
  "load_gate E program_key (rw 1055) t retired_ledger = load_gate E program_key (rw 1055) t (target_ledger (approved_proposal retire_action) EmergencyFrozen)"
  by (rule load_local_facts, simp add: retired_ledger_def)+

lemma retired_ok:
  assumes "config_validate E = config_validate sample_env" "proposal_validate E = proposal_validate sample_env"
    "find_program_address E = find_program_address sample_env" "loader_id E = 901"
  shows "retired_target E program_key (ro 1026) (prog 700) (ro 1032) (rw 31) 700 retired_ledger = Inr ()"
  using target_loads(1) [OF assms(1-3)]
  by (simp add: retired_target_def retired_link Let_def guard_ok retired_loads assms) (simp add: retired_ledger_def program_bytes_def
      LOADER_STATE_TAG_PROGRAM_def)

lemma reclaim_runs:
  "\<exists>M. reclaim_records sample_env program_key [ro 1026, prog 700, ro 1032, rw 31, rw 1055] 700 retired_ledger = Inr M"
proof -
  have ok: "retired_target sample_env program_key (ro 1026) (prog 700) (ro 1032) (rw 31) 700 retired_ledger = Inr ()"
    by (rule retired_ok) simp_all
  have gate: "load_gate sample_env program_key (rw 1055) 700 retired_ledger = Inr (target_gate EmergencyFrozen)"
    unfolding retired_loads target_key_def [symmetric] by (rule target_loads) simp_all
  have sum: "add (5 :: u64) 3 = Inr 8" by (simp add: add_def checked_add_def)
  show ?thesis
    by (simp add: reclaim_records_def ok guard_ok gate) (simp add: retired_ledger_def sum)
qed

theorem reclaim_records_effect_witness:
  "\<exists>M. reclaim_records sample_env program_key [ro 1026, prog 700, ro 1032, rw 31, rw 1055] 700 retired_ledger = Inr M \<and>
    M 1055 = \<lparr>lamports = 0, acc_data = [], owner = 0\<rparr> \<and>
    total_lamports M [rw 31, rw 1055] = total_lamports retired_ledger [rw 31, rw 1055]"
proof -
  obtain M where M: "reclaim_records sample_env program_key [ro 1026, prog 700, ro 1032, rw 31, rw 1055] 700 retired_ledger = Inr M"
    using reclaim_runs by blast
  have "distinct (map ai_key [ro 1026, prog 700, ro 1032, rw 31, rw 1055])" by simp
  from reclaim_records_effect [OF M this] have
    "M (ai_key (rw 1055)) = \<lparr>lamports = 0, acc_data = [], owner = system_program_id sample_env\<rparr>"
    "total_lamports M [rw 31, rw 1055] = total_lamports retired_ledger [rw 31, rw 1055]"
    by (metis list.set_intros(1))+
  with M show ?thesis by simp
qed

lemma sample_metadata [simp]: "metadata_pda sample_env a t = (1076, 255)"
  by (simp add: metadata_pda_def)

lemma reclaim_verification_runs:
  "\<exists>M. reclaim_verification world_env program_key [ro 1026, prog 700, ro 1032, rw 31, rw 1067, rw 1076,
      prog VERIFY_PROGRAM, prog 0] 700 retired_ledger = Inr M"
proof -
  have ok: "retired_target world_env program_key (ro 1026) (prog 700) (ro 1032) (rw 31) 700 retired_ledger = Inr ()"
    by (rule retired_ok) (simp_all add: fun_eq_iff)
  have meta: "metadata_pda world_env a t = (1076, 255)" for a t by (simp add: metadata_pda_def)
  have raw: "invoke_signed world_env (Raw ix) keys sds retired_ledger = Inr retired_ledger" for ix keys sds
    by (simp add: fun_eq_iff)
  let ?M = "sample_effect (SystemTransfer 1067 31 7) retired_ledger"
  have call: "invoke_signed world_env (SystemTransfer 1067 31 7) [1067, 31, 0] sds retired_ledger = Inr ?M" for sds
    by (rule world_invoke) (auto simp: Let_def)
  have at: "retired_ledger 1067 = \<lparr>lamports = 7, acc_data = [], owner = 0\<rparr>"
    "retired_ledger 1076 = \<lparr>lamports = 0, acc_data = [], owner = VERIFY_PROGRAM\<rparr>"
    "retired_ledger 31 = \<lparr>lamports = 5, acc_data = [], owner = 0\<rparr>"
    by (simp_all add: retired_ledger_def)
  have sum: "add (7 :: u64) 0 = Inr 7" "add (5 :: u64) 7 = Inr 12" by (simp_all add: add_def checked_add_def)
  show ?thesis
    by (simp del: world_env_simps(11) sample_effect.simps add: reclaim_verification_def ok guard_ok meta raw call at sum Let_def)
      (simp add: at)
qed

theorem reclaim_verification_effect_witness:
  "\<exists>M. reclaim_verification world_env program_key [ro 1026, prog 700, ro 1032, rw 31, rw 1067, rw 1076,
      prog VERIFY_PROGRAM, prog 0] 700 retired_ledger = Inr M \<and> unat (lamports (M 31)) = 12"
proof -
  obtain M where M: "reclaim_verification world_env program_key [ro 1026, prog 700, ro 1032, rw 31, rw 1067, rw 1076,
      prog VERIFY_PROGRAM, prog 0] 700 retired_ledger = Inr M"
    using reclaim_verification_runs by blast
  have "distinct (map ai_key [ro 1026, prog 700, ro 1032, rw 31, rw 1067, rw 1076, prog VERIFY_PROGRAM, prog 0])"
    by (simp add: VERIFY_PROGRAM_def)
  from reclaim_verification_effect [OF M world_cpi_frame this] M show ?thesis
    by (auto simp: retired_ledger_def)
qed

section \<open>Registration\<close>

abbreviation register_accounts :: "account_info list" where
  "register_accounts \<equiv> [payer_info 61, sg 71, ro 1026, prog 700, rw 1032, rw 1055, ro 1067, prog 901, prog 0,
     sg 21, sg 22, sg 23, ro 903]"

definition unregistered_ledger :: ledger where
  "unregistered_ledger = (target_ledger (approved_proposal gate_action) Active)
     (1055 := \<lparr>lamports = 0, acc_data = [], owner = 0\<rparr>,
      1032 := \<lparr>lamports = 5, acc_data = programdata_bytes 44 (Some 71) 0 [1, 2, 3], owner = 901\<rparr>,
      61 := \<lparr>lamports = 9000000, acc_data = [], owner = 0\<rparr>)"

lemma unregistered_at:
  "unregistered_ledger 1055 = \<lparr>lamports = 0, acc_data = [], owner = 0\<rparr>"
  "unregistered_ledger 1032 = \<lparr>lamports = 5, acc_data = programdata_bytes 44 (Some 71) 0 [1, 2, 3], owner = 901\<rparr>"
  "unregistered_ledger 700 = \<lparr>lamports = 5, acc_data = program_bytes 1032, owner = 901\<rparr>"
  "unregistered_ledger 903 = \<lparr>lamports = 5, acc_data = [1, 0], owner = 0\<rparr>"
  by (simp_all add: unregistered_ledger_def)

lemma create_fixed_tx [simp]:
  "create_fixed_pda_account (tx_env as d) program payer pda system rent space seeds L
     = create_fixed_pda_account world_env program payer pda system rent space seeds L"
  by (simp only: create_fixed_pda_account_def fund_and_allocate_def tx_env_simps world_env_simps(6))

lemma register_runs:
  "\<exists>M. register_target (tx_env register_accounts [11]) program_key register_accounts [11] unregistered_ledger = Inr M"
proof -
  let ?E = "tx_env register_accounts [11]" and ?L = unregistered_ledger
  let ?g = "\<lparr>gt_discriminator = ascii ''AGVGAT01'', gt_version = 1, gt_bump = 255, gt_initialized = True,
     gt_status = EmergencyFrozen, gt_controller_config = 1026, gt_target_program = 700, gt_target_programdata = 1032,
     gt_epoch = 1, gt_active_proposal = 0, gt_freeze_slot = 2000000, gt_freeze_reason_code = 1,
     gt_last_completed_proposal = 0, gt_reserved = replicate 2 0\<rparr>"
  have cfg: "load_config ?E program_key (ro 1026) ?L = Inr sample_config"
    using target_loads(1) [of ?E "approved_proposal gate_action" Active]
      load_local_facts(1) [of ?L "ro 1026" "target_ledger (approved_proposal gate_action) Active"]
    by (simp add: fun_eq_iff unregistered_ledger_def)
  obtain L1 where L1: "create_fixed_pda_account world_env 500 (payer_info 61) (rw 1055) (prog 0) (\<lambda>n. 1000000)
      GATE_LEN [DOMAIN, ascii ''gate'', wr_32 700, [255]] ?L = Inr L1"
      "owner (L1 1055) = 500" "length (acc_data (L1 1055)) = GATE_LEN" "L1 700 = ?L 700" "L1 1032 = ?L 1032"
    using create_fixed_runs [of ?L 1055 61 GATE_LEN 500 "[DOMAIN, ascii ''gate'', wr_32 700, [255]]"]
    by (simp add: GATE_LEN_def unregistered_at)
  have "wf_gate ?g" "gate_validate_static ?g = Inr ()"
    by (simp_all add: wf_gate_def gate_validate_static_ok gate_canonical_def PROTOCOL_GATE_DISCRIMINATOR_def)
  then have gate: "save_gate 500 (rw 1055) ?g L1 = Inr (set_data (rw 1055) (ser_gate ?g) L1)"
    by (simp add: save_gate_ok gate_codec.ser_size L1)
  let ?L2 = "set_data (rw 1055) (ser_gate ?g) L1"
  let ?M = "?L2(1032 := (?L2 1032)\<lparr>acc_data := programdata_bytes 44 (Some 1067) 0 [1, 2, 3]\<rparr>)"
  have call: "invoke_signed world_env (SetUpgradeAuthorityChecked 700 71 1067) [1032, 71, 1067, 901] sds ?L2 = Inr ?M" for sds
    by (rule authority_call) (simp_all add: ledger_simps L1 unregistered_at)
  have before: "validate_program_programdata_linkage ?L (prog 700) (rw 1032) 901
      = Inr \<lparr>deployed_slot = 44, upgrade_authority = Some 71, payload_offset = 45, capacity = 3\<rparr>"
    by (simp add: validate_program_programdata_linkage_def unregistered_at parse_program_bytes parse_programdata_bytes)
  have after: "validate_program_programdata_linkage ?M (prog 700) (rw 1032) 901
      = Inr \<lparr>deployed_slot = 44, upgrade_authority = Some 1067, payload_offset = 45, capacity = 3\<rparr>"
    by (simp add: validate_program_programdata_linkage_def ledger_simps L1 unregistered_at
        parse_program_bytes parse_programdata_bytes)
  have seats: "seat sample_config (sg 21) = Inr 0" "seat sample_config (sg 22) = Inr 1" "seat sample_config (sg 23) = Inr 2"
    by (simp_all add: seat_ok)
  show ?thesis
    using L1(1) gate call
    by (simp del: world_env_simps(11) add: register_target_def guard_ok Let_def before seats after cfg unregistered_at)
qed

theorem register_target_effect_witness:
  "\<exists>M g. register_target (tx_env register_accounts [11]) program_key register_accounts [11] unregistered_ledger = Inr M \<and>
    load_gate (tx_env register_accounts [11]) program_key (rw 1055) 700 M = Inr g \<and> gt_status g = EmergencyFrozen \<and>
    gt_epoch g = 1"
proof -
  obtain M where M: "register_target (tx_env register_accounts [11]) program_key register_accounts [11] unregistered_ledger = Inr M"
    using register_runs by blast
  have "distinct (map ai_key register_accounts)" by simp
  from register_target_effect [OF M tx_cpi_frame this] M show ?thesis by auto
qed

end
