(* ===== verification/Publish_Runs.thy ===== *)
theory Publish_Runs
  imports Target_Runs
begin

text \<open>A complete run of the metadata publication on a concrete ledger.\<close>

definition pub_policy :: verification_policy where
  "pub_policy = \<lparr>vp_target = program_key, vp_deployed_slot = 123, vp_commit = replicate 20 0xab\<rparr>"

lemma pub_policy_wf [simp]: "wf_verification_policy pub_policy"
  by (simp add: pub_policy_def wf_verification_policy_def)

lemma pub_policy_ok [simp]: "verification_policy_validate pub_policy = Inr ()"
  by (simp add: pub_policy_def verification_policy_validate_def require_ok list_eq_iff_nth_eq exI [of _ 0])

definition publish_action :: action where
  "publish_action = \<lparr>ac_kind = PUBLISH_VERIFICATION, ac_data = ser_verification_policy pub_policy @ replicate 132 0\<rparr>"

lemma publish_action_wf [simp]: "wf_action publish_action"
  by (simp add: wf_action_def publish_action_def verification_policy_codec.ser_size ACTION_LEN_def VERIFICATION_POLICY_LEN_def)

lemma publish_action_kind [simp]: "ac_kind publish_action = PUBLISH_VERIFICATION" "\<not> is_upgrade publish_action"
  by (simp_all add: publish_action_def is_upgrade_def kind_consts)

lemma publish_action_decodes [simp]: "action_verification_policy publish_action = Inr pub_policy"
proof -
  have "decode_padded de_verification_policy VERIFICATION_POLICY_LEN PUBLISH_VERIFICATION InvalidAccount publish_action
      = Inr pub_policy"
    by (subst verification_policy_codec.decode_padded_iff)
      (simp_all add: ACTION_LEN_def publish_action_def wf_action_def verification_policy_codec.ser_size VERIFICATION_POLICY_LEN_def)
  then show ?thesis by (simp add: action_verification_policy_def)
qed

lemma publish_action_ok [simp]: "action_validate publish_action = Inr ()"
  by (simp add: action_validate_def kind_consts)

abbreviation publish_accounts :: "account_info list" where
  "publish_accounts \<equiv> [payer_info 61, ro 1026, rw 1035, prog 500, ro 1032, rw 1028, rw 1076, prog VERIFY_PROGRAM,
     prog 0, ro 903]"

text \<open>The verification program creates its record and is paid by the controller's authority.\<close>

definition publish_env :: "byte list \<Rightarrow> env" where
  "publish_env bytes = (tx_env publish_accounts [15])\<lparr>invoke_signed := \<lambda>c keys sds L.
     case c of
       Raw ix \<Rightarrow> Inr (L(1076 := \<lparr>lamports = 1000000, acc_data = bytes, owner = VERIFY_PROGRAM\<rparr>,
                      1028 := (L 1028)\<lparr>lamports := lamports (L 1028) - 1000000\<rparr>))
     | _ \<Rightarrow> invoke_signed world_env c keys sds L\<rparr>"

lemma publish_env_simps [simp]:
  "sha256 (publish_env bs) = sha256 sample_env" "find_program_address (publish_env bs) = find_program_address sample_env"
  "rent_get (publish_env bs) = Inr (\<lambda>n. 1000000)" "clock_get (publish_env bs) = Inr 2000000"
  "loader_id (publish_env bs) = 901" "system_program_id (publish_env bs) = 0" "instructions_id (publish_env bs) = 903"
  "load_current_index_checked (publish_env bs) i d = Inr 0"
  "load_instruction_at_checked (publish_env bs) n i d
     = Inr \<lparr>ix_program = program_key, ix_accounts = map meta_of publish_accounts, ix_data = [15]\<rparr>"
  by (simp_all add: publish_env_def fun_eq_iff)

lemma publish_same [simp]:
  "config_pda (publish_env bs) = config_pda sample_env" "authority_pda (publish_env bs) = authority_pda sample_env"
  "proposal_pda (publish_env bs) = proposal_pda sample_env"
  "compute_digest (publish_env bs) = compute_digest sample_env"
  "config_validate (publish_env bs) = config_validate sample_env"
  "proposal_validate (publish_env bs) = proposal_validate sample_env"
  "clock (publish_env bs) = Inr 2000000"
  "metadata_pda (publish_env bs) a t = (1076, 255)"
  "verification_record (publish_env bs) = verification_record sample_env"
  by (auto simp: fun_eq_iff config_pda_def authority_pda_def proposal_pda_def compute_digest_def hashv_def config_validate_def
      proposal_validate_def proposal_fields_ok_def clock_ok metadata_pda_def verification_record_def
      build_params_discriminator_def)

lemma envelope_single:
  assumes "instructions_id E = 903" and "load_current_index_checked E (ro 903) [1, 0] = Inr 0"
    and "load_instruction_at_checked E 0 (ro 903) [1, 0] = Inr \<lparr>ix_program = program_key, ix_accounts = map meta_of as, ix_data = d\<rparr>"
    and "acc_data (L 903) = [1, 0]"
  shows "envelope E program_key as (ro 903) d L = Inr ()"
  by (simp add: envelope_def guard_ok get_range_def map2_meta_of one_instruction [unfolded One_nat_def] assms)

lemma publish_envelope:
  "acc_data (L 903) = [1, 0] \<Longrightarrow> envelope (publish_env bs) program_key publish_accounts (ro 903) [15] L = Inr ()"
  by (rule envelope_single) (simp_all only: publish_env_simps)

definition publish_ledger :: ledger where
  "publish_ledger = (target_ledger (approved_proposal publish_action) Active)
     (500 := \<lparr>lamports = 5, acc_data = program_bytes 1032, owner = 901\<rparr>,
      1032 := \<lparr>lamports = 5, acc_data = programdata_bytes 123 (Some 1028) 0 [1, 2, 3], owner = 901\<rparr>,
      1028 := \<lparr>lamports = 3, acc_data = [], owner = 0\<rparr>,
      1076 := \<lparr>lamports = 0, acc_data = [], owner = 0\<rparr>,
      61 := \<lparr>lamports = 9000000, acc_data = [], owner = 0\<rparr>)"

lemma publish_at:
  "publish_ledger 500 = \<lparr>lamports = 5, acc_data = program_bytes 1032, owner = 901\<rparr>"
  "publish_ledger 1032 = \<lparr>lamports = 5, acc_data = programdata_bytes 123 (Some 1028) 0 [1, 2, 3], owner = 901\<rparr>"
  "publish_ledger 1028 = \<lparr>lamports = 3, acc_data = [], owner = 0\<rparr>"
  "publish_ledger 1076 = \<lparr>lamports = 0, acc_data = [], owner = 0\<rparr>"
  "publish_ledger 61 = \<lparr>lamports = 9000000, acc_data = [], owner = 0\<rparr>"
  "publish_ledger 903 = \<lparr>lamports = 5, acc_data = [1, 0], owner = 0\<rparr>"
  "publish_ledger 1035 = target_ledger (approved_proposal publish_action) Active 1035"
  "publish_ledger 1026 = target_ledger (approved_proposal publish_action) Active 1026"
  by (simp_all add: publish_ledger_def)

lemma publish_runs:
  "\<exists>bytes M. publish (publish_env bytes) program_key publish_accounts (pr_digest (approved_proposal publish_action)) [15]
      publish_ledger = Inr M"
proof -
  let ?p = "approved_proposal publish_action" and ?L = publish_ledger
  have "vp_target pub_policy \<noteq> 0 \<and> vp_commit pub_policy \<noteq> replicate 20 0"
    using pub_policy_ok [unfolded verification_policy_validate_def require_ok] .
  moreover have "known_target (vp_target pub_policy) 500 False" by (simp add: known_target_def pub_policy_def)
  ultimately obtain params where params: "verification_params pub_policy 500 = Inr params"
    unfolding verification_params_def params_for_ok [OF pub_policy_wf] by blast
  define bytes where "bytes = verification_record sample_env 500 1028 params 255"
  let ?E = "publish_env bytes"
  have loads: "load_config ?E program_key (ro 1026) ?L = Inr sample_config"
    "load_proposal ?E program_key (rw 1035) (Some (pr_digest ?p)) ?L = Inr ?p"
    using target_loads(1,2) [of ?E ?p Active]
      load_local_facts(1) [of ?L "ro 1026" "target_ledger ?p Active"]
      load_local_facts(2) [of ?L "rw 1035" "target_ledger ?p Active"]
    by (simp_all add: publish_at)
  have header: "validate_program_programdata_linkage ?L (prog 500) (ro 1032) 901
      = Inr \<lparr>deployed_slot = 123, upgrade_authority = Some 1028, payload_offset = 45, capacity = 3\<rparr>"
    by (simp add: validate_program_programdata_linkage_def publish_at parse_program_bytes parse_programdata_bytes)
  let ?L1 = "sample_effect (SystemTransfer 61 1028 1000000) ?L"
  have pay: "invoke_signed ?E (SystemTransfer 61 1028 1000000) [61, 1028, 0] [] ?L = Inr ?L1"
  proof -
    have "invoke_signed world_env (SystemTransfer 61 1028 1000000) [61, 1028, 0] [] ?L = Inr ?L1"
      by (rule world_invoke) simp
    then show ?thesis by (simp del: world_env_simps(11) add: publish_env_def)
  qed
  let ?L2 = "?L1(1076 := \<lparr>lamports = 1000000, acc_data = bytes, owner = VERIFY_PROGRAM\<rparr>,
     1028 := (?L1 1028)\<lparr>lamports := lamports (?L1 1028) - 1000000\<rparr>)"
  have wrote: "invoke_signed ?E (Raw ix) keys sds ?L1 = Inr ?L2" for ix keys sds
    by (simp add: publish_env_def)
  have at: "?L2 1035 = ?L 1035" "?L2 1076 = \<lparr>lamports = 1000000, acc_data = bytes, owner = VERIFY_PROGRAM\<rparr>"
    "lamports (?L2 1028) = 3" "lamports (?L2 61) = 8000000"
    by (simp_all add: publish_at)
  have paid: "lamports (?L1 1028) = 1000003" "lamports (?L1 61) = 8000000" by (simp_all add: publish_at)
  have save: "save_proposal ?E program_key (rw 1035) (executed ?p 2000000) ?L2
      = Inr (set_data (rw 1035) (ser_proposal (executed ?p 2000000)) ?L2)"
    by (rule save_executed [OF loads(2) approved_executable]) (simp_all add: at(1) del: sample_effect.simps fun_upd_apply)
  have policy: "vp_target pub_policy = 500" "vp_deployed_slot pub_policy = 123" by (simp_all add: pub_policy_def)
  have sum: "add 0 1000000 = Inr (1000000 :: u64)" by (simp add: add_def checked_add_def)
  show ?thesis
    using save unfolding executed_def
    by (intro exI [of _ bytes])
      (simp del: world_env_simps(11) sample_effect.simps add: publish_def loads guard_ok header params publish_envelope
        publish_at policy Let_def pay wrote at paid saturating_sub_def bytes_def [symmetric] return_excess_def sum)
qed

theorem publish_effect_witness:
  "\<exists>bytes M p slot. publish (publish_env bytes) program_key publish_accounts (pr_digest (approved_proposal publish_action)) [15]
      publish_ledger = Inr M \<and> has_quorum p slot \<and> unat (lamports (M 61)) \<le> 9000000 \<and>
    load_proposal (publish_env bytes) program_key (rw 1035) (Some (pr_digest (approved_proposal publish_action))) M
      = Inr (executed p slot)"
proof -
  obtain bytes M where M: "publish (publish_env bytes) program_key publish_accounts
      (pr_digest (approved_proposal publish_action)) [15] publish_ledger = Inr M"
    using publish_runs by blast
  have dist: "distinct (map ai_key publish_accounts)" by (simp add: VERIFY_PROGRAM_def)
  from publish_effect [OF M dist] obtain payer ci pi target pd authority metadata verifier system ixs rest p slot and funding :: u64 where
    r: "publish_accounts = [payer, ci, pi, target, pd, authority, metadata, verifier, system, ixs] @ rest"
      "has_quorum p slot" "unat (lamports_of M payer) + unat funding = unat (lamports_of publish_ledger payer)"
      "load_proposal (publish_env bytes) program_key pi (Some (pr_digest (approved_proposal publish_action))) M
        = Inr (executed p slot)"
    by blast
  have "payer = payer_info 61" "pi = rw 1035" using r(1) by simp_all
  with M r(2-4) show ?thesis by (fastforce simp: publish_at)
qed

end
