(* ===== verification/Release1_Types.thy ===== *)
theory Release1_Types
  imports Gate
begin

text \<open>
  The values of the Release 1 reference state machine, \<open>upgrade_controller/src/release1_model.rs\<close>: its
  errors, the identity graph, delays, council, observations, approvals and governance objects, with
  their validation functions.  Hashing is \<open>hashv\<close> of the environment.  The enumerations shared with the
  account formats come from \<open>release1_state.rs\<close> and \<open>state.rs\<close>.
\<close>

section \<open>Ordered maps\<close>

text \<open>A \<open>BTreeMap\<close> is its list of entries in key order; \<open>get\<close> is \<open>map_of\<close>, and a write through
  \<open>get_mut\<close> is an insertion at a key that is present.\<close>

type_synonym ('k, 'v) btree = "('k \<times> 'v) list"

fun bt_insert :: "'k::linorder \<Rightarrow> 'v \<Rightarrow> ('k, 'v) btree \<Rightarrow> ('k, 'v) btree" where
  "bt_insert k v [] = [(k, v)]"
| "bt_insert k v ((k', v') # m) =
     (if k < k' then (k, v) # (k', v') # m
      else if k = k' then (k, v) # m
      else (k', v') # bt_insert k v m)"

lemma map_of_bt_insert [simp]: "map_of (bt_insert k v m) = (map_of m)(k \<mapsto> v)"
  by (induction k v m rule: bt_insert.induct) auto

lemma keys_bt_insert: "set (map fst (bt_insert k v m)) = insert k (set (map fst m))"
  by (induction k v m rule: bt_insert.induct) auto

lemma sorted_bt_insert:
  "sorted_wrt (<) (map fst m) \<Longrightarrow> sorted_wrt (<) (map fst (bt_insert k v m))"
proof (induction k v m rule: bt_insert.induct)
  case (2 k v k' v' m)
  then show ?case
    using keys_bt_insert [of k v m] by (auto simp del: set_map)
qed simp

section \<open>Errors and enumerations\<close>

datatype model_error =
  AlreadyInitialized | NotInitialized | InvalidInitialization | InvalidTiming_model | InvalidCouncil_model
| UnsupportedProposalClass_model | TokenGovernanceDisabled | InvalidStateTransition_model | NotFound
| StaleBinding | InvalidApproval | DuplicateApproval_model | InactiveSeat | InvalidProposer
| QuorumNotSatisfied_model | TimingViolation | InvalidGate | CheckpointNotAccepted | InvalidRollbackLink
| ProgramDataChanged | ProgramDataFailureEvidenceRequired | HardPoststateMismatch | ArithmeticOverflow_model

type_synonym 'a model_result = "model_error + 'a"

definition ensure :: "bool \<Rightarrow> model_error \<Rightarrow> unit model_result" where
  "ensure c e = (if c then Inr () else Inl e)"

lemma ensure_ok [result_simps]: "ensure c e = Inr u \<longleftrightarrow> c"
  by (simp add: ensure_def)

datatype proposal_class =
  RoutineUpgrade | EmergencyRollback | EconomicChange | ConstitutionalChange | CouncilSetRotation
| TargetImmutability

datatype proposal_state =
  Draft | BufferAdopted | BufferVerified | CouncilApproved | TokenReviewOpen | GovernanceSatisfied
| Timelocked | Frozen | Extended | UpgradeExecuted | ProgramDataVerified | PoststateAccepted
| UnfreezeApproved | Completed | Cancelled | Expired | SupersededByRollback | Retired

datatype checkpoint_phase = Prestate | Poststate | Emergency

datatype rotation_state =
  Rotation_Draft | Rotation_CouncilApproved | Rotation_Timelocked | Rotation_Activated
| Rotation_Cancelled | Rotation_Expired

datatype resolution_state =
  Resolution_Draft | Resolution_CouncilApproved | Resolution_Timelocked | Resolution_Executed
| Resolution_Cancelled | Resolution_Expired

section \<open>Constants\<close>

definition MODEL_COUNCIL_SIZE :: nat where "MODEL_COUNCIL_SIZE = 5"
definition MODEL_ROUTINE_THRESHOLD :: byte where "MODEL_ROUTINE_THRESHOLD = 3"
definition MODEL_TERMINAL_THRESHOLD :: byte where "MODEL_TERMINAL_THRESHOLD = 4"
definition MODEL_VALID_APPROVAL_MASK :: byte where "MODEL_VALID_APPROVAL_MASK = 0x1F"
definition MODEL_GOVERNED_FREEZE_REASON :: u16 where "MODEL_GOVERNED_FREEZE_REASON = 2"
definition MODEL_EXPIRED_TERMINAL_REASON :: u16 where "MODEL_EXPIRED_TERMINAL_REASON = 1"
definition MODEL_COMPLETED_TERMINAL_REASON :: u16 where "MODEL_COMPLETED_TERMINAL_REASON = 2"
definition MODEL_SUPERSEDED_BY_ROLLBACK_TERMINAL_REASON :: u16 where
  "MODEL_SUPERSEDED_BY_ROLLBACK_TERMINAL_REASON = 3"
definition MODEL_RETIRED_ROLLBACK_TERMINAL_REASON :: u16 where "MODEL_RETIRED_ROLLBACK_TERMINAL_REASON = 4"
definition COUNCIL_HASH_DOMAIN :: "byte list" where
  "COUNCIL_HASH_DOMAIN = ascii ''AMOEBA_RELEASE1_MODEL_COUNCIL_V1''"
definition HARD_COMBINED_ROOT_DOMAIN :: "byte list" where
  "HARD_COMBINED_ROOT_DOMAIN = ascii ''AMOEBA_RELEASE1_MODEL_HARD_COMBINED_V1''"

definition BOOTSTRAP_INITIALIZATION_FREEZE_REASON :: u16 where "BOOTSTRAP_INITIALIZATION_FREEZE_REASON = 1"
definition COUNCIL_ROTATION_ACTIVATED_TERMINAL_REASON :: u16 where
  "COUNCIL_ROTATION_ACTIVATED_TERMINAL_REASON = 1"
definition COUNCIL_ROTATION_EXPIRED_TERMINAL_REASON :: u16 where "COUNCIL_ROTATION_EXPIRED_TERMINAL_REASON = 2"
definition EMERGENCY_RESOLUTION_EXECUTED_TERMINAL_REASON :: u16 where
  "EMERGENCY_RESOLUTION_EXECUTED_TERMINAL_REASON = 1"
definition EMERGENCY_RESOLUTION_EXPIRED_TERMINAL_REASON :: u16 where
  "EMERGENCY_RESOLUTION_EXPIRED_TERMINAL_REASON = 2"
definition LOADER_V3_PROGRAM_ACCOUNT_LEN :: u64 where "LOADER_V3_PROGRAM_ACCOUNT_LEN = 36"
definition LOADER_V3_PROGRAMDATA_METADATA_LEN :: u64 where "LOADER_V3_PROGRAMDATA_METADATA_LEN = 45"
definition MAX_ATOMIC_RAW_PROGRAMDATA_ACCOUNT_BYTES :: u64 where
  "MAX_ATOMIC_RAW_PROGRAMDATA_ACCOUNT_BYTES = 1572909"

definition checked_increment :: "u64 \<Rightarrow> u64 model_result" where
  "checked_increment v = ok_or (checked_add v 1) ArithmeticOverflow_model"

section \<open>Identity graph and delays\<close>

record identity_graph =
  ig_controller_program :: pubkey
  ig_controller_programdata :: pubkey
  ig_target_program :: pubkey
  ig_target_programdata :: pubkey
  ig_upgradeable_loader :: pubkey
  ig_authority_pda :: pubkey
  ig_gate_pda :: pubkey
  ig_policy_pda :: pubkey
  ig_council_pda :: pubkey
  ig_canonical_spill_treasury :: pubkey
  ig_guardian :: pubkey

definition graph_keys :: "identity_graph \<Rightarrow> pubkey list" where
  "graph_keys g =
     [ig_controller_program g, ig_controller_programdata g, ig_target_program g, ig_target_programdata g,
      ig_upgradeable_loader g, ig_authority_pda g, ig_gate_pda g, ig_policy_pda g, ig_council_pda g,
      ig_canonical_spill_treasury g, ig_guardian g]"

definition graph_validate :: "identity_graph \<Rightarrow> unit model_result" where
  "graph_validate g =
     bnd (ensure (0 \<notin> set (graph_keys g)) InvalidInitialization) (\<lambda>_.
     ensure (distinct (graph_keys g)) InvalidInitialization)"

record model_delays =
  dl_review_slots :: u64
  dl_rollback_slots :: u64
  dl_routine_slots :: u64
  dl_major_slots :: u64
  dl_terminal_slots :: u64
  dl_proposal_expiry_slots :: u64

definition delays_validate :: "model_delays \<Rightarrow> unit model_result" where
  "delays_validate d =
     bnd (ensure (\<not> (dl_review_slots d = 0 \<or> dl_rollback_slots d = 0 \<or> dl_routine_slots d = 0
       \<or> dl_major_slots d = 0 \<or> dl_terminal_slots d = 0 \<or> dl_proposal_expiry_slots d = 0
       \<or> dl_rollback_slots d > dl_routine_slots d \<or> dl_routine_slots d > dl_major_slots d
       \<or> dl_major_slots d > dl_terminal_slots d)) InvalidTiming_model) (\<lambda>_.
     bnd (ok_or (Option.bind (Option.bind (Option.bind (checked_add 1 (dl_review_slots d))
            (\<lambda>v. checked_add v (dl_major_slots d)))
            (\<lambda>v. checked_add v (dl_review_slots d)))
            (\<lambda>v. checked_add v 2)) ArithmeticOverflow_model) (\<lambda>required.
     ensure (dl_proposal_expiry_slots d > required) InvalidTiming_model))"

fun class_delay :: "model_delays \<Rightarrow> proposal_class \<Rightarrow> u64 model_result" where
  "class_delay d EmergencyRollback = Inr (dl_rollback_slots d)"
| "class_delay d RoutineUpgrade = Inr (dl_routine_slots d)"
| "class_delay d EconomicChange = Inr (dl_major_slots d)"
| "class_delay d ConstitutionalChange = Inr (dl_major_slots d)"
| "class_delay d CouncilSetRotation = Inl UnsupportedProposalClass_model"
| "class_delay d TargetImmutability = Inl UnsupportedProposalClass_model"

section \<open>Council\<close>

record seat_term =
  st_start_slot :: u64
  st_end_slot :: u64

definition term_covers :: "seat_term \<Rightarrow> u64 \<Rightarrow> bool" where
  "term_covers t slot \<longleftrightarrow> st_start_slot t \<le> slot \<and> slot < st_end_slot t"

definition term_validate_at :: "seat_term \<Rightarrow> u64 \<Rightarrow> unit model_result" where
  "term_validate_at t slot =
     ensure (\<not> (st_start_slot t \<ge> st_end_slot t \<or> \<not> term_covers t slot)) InactiveSeat"

record model_council =
  co_version :: u64
  co_activation_slot :: u64
  co_seats :: "pubkey list"
  co_seat_terms :: "seat_term list"
  co_hash :: hash32

definition model_council_hash :: "env \<Rightarrow> u64 \<Rightarrow> u64 \<Rightarrow> pubkey list \<Rightarrow> seat_term list \<Rightarrow> hash32" where
  "model_council_hash E version activation seats terms =
     hashv E ([COUNCIL_HASH_DOMAIN, wr_u64 version, wr_u64 activation] @
       concat (map (\<lambda>(s, t). [wr_32 s, wr_u64 (st_start_slot t) @ wr_u64 (st_end_slot t)]) (zip seats terms)))"

definition council_new :: "env \<Rightarrow> u64 \<Rightarrow> u64 \<Rightarrow> pubkey list \<Rightarrow> seat_term list \<Rightarrow> model_council model_result" where
  "council_new E version activation seats terms =
     bnd (ensure (\<not> (version = 0 \<or> activation = 0 \<or> 0 \<in> set seats)) InvalidCouncil_model) (\<lambda>_.
     bnd (ensure (card (set seats) = MODEL_COUNCIL_SIZE) InvalidCouncil_model) (\<lambda>_.
     bnd (checks (map (\<lambda>t. term_validate_at t activation) terms)) (\<lambda>_.
     Inr \<lparr>co_version = version, co_activation_slot = activation, co_seats = seats,
       co_seat_terms = terms, co_hash = model_council_hash E version activation seats terms\<rparr>)))"

definition council_validate :: "env \<Rightarrow> model_council \<Rightarrow> unit model_result" where
  "council_validate E c =
     bnd (council_new E (co_version c) (co_activation_slot c) (co_seats c) (co_seat_terms c)) (\<lambda>c'.
     ensure (c' = c) InvalidCouncil_model)"

definition require_seat_active :: "model_council \<Rightarrow> byte \<Rightarrow> u64 \<Rightarrow> unit model_result" where
  "require_seat_active c seat slot =
     bnd (ensure (unat seat < MODEL_COUNCIL_SIZE) InvalidApproval) (\<lambda>_.
     bnd (ensure (slot \<ge> co_activation_slot c) InactiveSeat) (\<lambda>_.
     term_validate_at (co_seat_terms c ! unat seat) slot))"

definition require_mask_active :: "model_council \<Rightarrow> byte \<Rightarrow> u64 \<Rightarrow> unit model_result" where
  "require_mask_active c bitset slot =
     bnd (ensure (bitset AND NOT MODEL_VALID_APPROVAL_MASK = 0) InvalidApproval) (\<lambda>_.
     checks (map (\<lambda>seat. if bitset AND shl1 seat \<noteq> 0 then require_seat_active c (of_nat seat) slot else Inr ())
       [0..<MODEL_COUNCIL_SIZE]))"

text \<open>The two arrays have five entries.\<close>

definition wf_council :: "model_council \<Rightarrow> bool" where
  "wf_council c \<longleftrightarrow> length (co_seats c) = 5 \<and> length (co_seat_terms c) = 5"

section \<open>ProgramData observations\<close>

record programdata_observation =
  po_slot :: u64
  po_payload_hash :: hash32
  po_raw_hash :: hash32
  po_capacity :: u64
  po_authority :: pubkey

definition observation_validate :: "programdata_observation \<Rightarrow> unit model_result" where
  "observation_validate o' =
     ensure (\<not> (po_slot o' = 0 \<or> po_payload_hash o' = 0 \<or> po_raw_hash o' = 0 \<or> po_capacity o' = 0
       \<or> po_authority o' = 0)) InvalidInitialization"

record guardian_observation =
  go_program_owner :: pubkey
  go_program_executable :: bool
  go_program_data_length :: u64
  go_program_header_present :: bool
  go_linked_programdata :: "pubkey option"
  go_programdata_owner :: pubkey
  go_programdata_executable :: bool
  go_programdata_data_length :: u64
  go_programdata_header_present :: bool
  go_slot :: u64
  go_raw_hash_complete :: bool
  go_raw_hash :: hash32
  go_capacity :: u64
  go_authority :: "pubkey option"

definition validate_persistable :: "guardian_observation \<Rightarrow> unit model_result" where
  "validate_persistable g =
     bnd (ensure (\<not> (go_linked_programdata g = Some 0 \<or> go_authority g = Some 0)) InvalidInitialization) (\<lambda>_.
     bnd (if go_program_header_present g then
            ensure (\<not> (go_program_data_length g \<noteq> LOADER_V3_PROGRAM_ACCOUNT_LEN
              \<or> go_linked_programdata g = None)) InvalidInitialization
          else ensure (go_linked_programdata g = None) InvalidInitialization) (\<lambda>_.
     bnd (if go_programdata_header_present g then
            bnd (ok_or (checked_add (go_capacity g) LOADER_V3_PROGRAMDATA_METADATA_LEN) ArithmeticOverflow_model) (\<lambda>len.
            ensure (go_programdata_data_length g = len) InvalidInitialization)
          else ensure (\<not> (go_slot g \<noteq> 0 \<or> go_capacity g \<noteq> 0 \<or> go_authority g \<noteq> None)) InvalidInitialization) (\<lambda>_.
     let within_atomic_ceiling = (go_programdata_data_length g \<le> MAX_ATOMIC_RAW_PROGRAMDATA_ACCOUNT_BYTES) in
     ensure (\<not> (go_raw_hash_complete g \<noteq> within_atomic_ceiling
       \<or> (go_raw_hash_complete g \<and> go_raw_hash g = 0)
       \<or> (\<not> go_raw_hash_complete g \<and> go_raw_hash g \<noteq> 0))) InvalidInitialization)))"

definition canonical_observation ::
    "identity_graph \<Rightarrow> programdata_observation \<Rightarrow> pubkey option \<Rightarrow> guardian_observation model_result" where
  "canonical_observation graph obs auth =
     bnd (observation_validate obs) (\<lambda>_.
     bnd (ensure (auth \<noteq> Some 0) InvalidInitialization) (\<lambda>_.
     bnd (ok_or (checked_add (po_capacity obs) LOADER_V3_PROGRAMDATA_METADATA_LEN) ArithmeticOverflow_model) (\<lambda>len.
     let canonical =
       \<lparr>go_program_owner = ig_upgradeable_loader graph, go_program_executable = True,
        go_program_data_length = LOADER_V3_PROGRAM_ACCOUNT_LEN, go_program_header_present = True,
        go_linked_programdata = Some (ig_target_programdata graph),
        go_programdata_owner = ig_upgradeable_loader graph, go_programdata_executable = False,
        go_programdata_data_length = len, go_programdata_header_present = True, go_slot = po_slot obs,
        go_raw_hash_complete = True, go_raw_hash = po_raw_hash obs, go_capacity = po_capacity obs,
        go_authority = auth\<rparr> in
     bnd (validate_persistable canonical) (\<lambda>_. Inr canonical))))"

definition is_canonical_for ::
    "guardian_observation \<Rightarrow> identity_graph \<Rightarrow> programdata_observation \<Rightarrow> pubkey option \<Rightarrow> bool" where
  "is_canonical_for g graph obs auth =
     (case canonical_observation graph obs auth of Inl _ \<Rightarrow> False | Inr canonical \<Rightarrow> canonical = g)"

record freeze_observation =
  fo_epoch :: u64
  fo_freeze_slot :: u64
  fo_freeze_reason :: u16
  fo_programdata :: guardian_observation

section \<open>Hard state and gate\<close>

record hard_state =
  hs_schema_identifier :: hash32
  hs_program_owned_root :: hash32
  hs_program_owned_count :: u64
  hs_logical_compressed_root :: hash32
  hs_logical_compressed_count :: u64
  hs_semantic_custody_root :: hash32
  hs_custody_identity_root :: hash32
  hs_hard_combined_root :: hash32

definition recompute_hard_combined_root :: "env \<Rightarrow> hard_state \<Rightarrow> hash32" where
  "recompute_hard_combined_root E h =
     hashv E [HARD_COMBINED_ROOT_DOMAIN, wr_32 (hs_schema_identifier h), wr_32 (hs_program_owned_root h),
       wr_u64 (hs_program_owned_count h), wr_32 (hs_logical_compressed_root h),
       wr_u64 (hs_logical_compressed_count h), wr_32 (hs_semantic_custody_root h),
       wr_32 (hs_custody_identity_root h)]"

definition hard_state_validate :: "env \<Rightarrow> hard_state \<Rightarrow> unit model_result" where
  "hard_state_validate E h =
     ensure (\<not> (hs_schema_identifier h = 0 \<or> hs_program_owned_root h = 0 \<or> hs_logical_compressed_root h = 0
       \<or> hs_semantic_custody_root h = 0 \<or> hs_custody_identity_root h = 0 \<or> hs_hard_combined_root h = 0
       \<or> hs_hard_combined_root h \<noteq> recompute_hard_combined_root E h)) InvalidInitialization"

record model_gate =
  ga_status :: gate_status
  ga_epoch :: u64
  ga_active_proposal :: "u64 option"
  ga_freeze_slot :: u64
  ga_freeze_reason :: u16
  ga_last_completed_proposal :: "u64 option"

definition model_gate_validate :: "model_gate \<Rightarrow> unit model_result" where
  "model_gate_validate g =
     bnd (ensure (ga_epoch g \<noteq> 0) InvalidGate) (\<lambda>_.
     ensure (case ga_status g of
         Active \<Rightarrow> ga_active_proposal g = None \<and> ga_freeze_slot g = 0 \<and> ga_freeze_reason g = 0
       | FrozenForUpgrade \<Rightarrow> ga_active_proposal g \<noteq> None \<and> ga_freeze_slot g \<noteq> 0 \<and> ga_freeze_reason g \<noteq> 0
       | EmergencyFrozen \<Rightarrow> ga_active_proposal g = None \<and> ga_freeze_slot g \<noteq> 0 \<and> ga_freeze_reason g \<noteq> 0)
       InvalidGate)"

record model_timing =
  ti_creation_slot :: u64
  ti_review_start_slot :: u64
  ti_review_end_slot :: u64
  ti_not_before_slot :: u64
  ti_expiry_slot :: u64

section \<open>Approvals\<close>

record accumulator =
  aa_council_version :: u64
  aa_council_hash :: hash32
  aa_bitset :: byte
  aa_count :: byte

definition accumulator_default :: accumulator where
  "accumulator_default = \<lparr>aa_council_version = 0, aa_council_hash = 0, aa_bitset = 0, aa_count = 0\<rparr>"

definition pinned :: "model_council \<Rightarrow> accumulator" where
  "pinned c = \<lparr>aa_council_version = co_version c, aa_council_hash = co_hash c, aa_bitset = 0, aa_count = 0\<rparr>"

definition accumulator_validate :: "accumulator \<Rightarrow> unit model_result" where
  "accumulator_validate a =
     ensure (\<not> (aa_bitset a AND NOT MODEL_VALID_APPROVAL_MASK \<noteq> 0
       \<or> aa_count a \<noteq> of_nat (pop_count (aa_bitset a))
       \<or> (aa_council_version a = 0) \<noteq> (aa_council_hash a = 0)
       \<or> (aa_council_version a = 0 \<and> (aa_bitset a \<noteq> 0 \<or> aa_count a \<noteq> 0)))) InvalidApproval"

definition is_complete :: "accumulator \<Rightarrow> bool" where
  "is_complete a \<longleftrightarrow> aa_count a \<ge> MODEL_ROUTINE_THRESHOLD"

definition is_complete_at :: "accumulator \<Rightarrow> model_council \<Rightarrow> u64 \<Rightarrow> bool model_result" where
  "is_complete_at a c slot =
     bnd (accumulator_validate a) (\<lambda>_.
     bnd (ensure (\<not> (aa_council_version a \<noteq> co_version c \<or> aa_council_hash a \<noteq> co_hash c)) StaleBinding) (\<lambda>_.
     bnd (require_mask_active c (aa_bitset a) slot) (\<lambda>_. Inr (is_complete a))))"

text \<open>The \<open>record_*\<close> methods return the updated accumulator and whether the threshold was crossed.\<close>

definition record_seat :: "accumulator \<Rightarrow> byte \<Rightarrow> (accumulator \<times> bool) model_result" where
  "record_seat a seat =
     bnd (ensure (unat seat < MODEL_COUNCIL_SIZE) InvalidApproval) (\<lambda>_.
     bnd (ensure (aa_bitset a AND shl1 (unat seat) = 0) DuplicateApproval_model) (\<lambda>_.
     let was_complete = is_complete a; bits = aa_bitset a OR shl1 (unat seat);
         a = a\<lparr>aa_bitset := bits, aa_count := of_nat (pop_count bits)\<rparr>
     in Inr (a, \<not> was_complete \<and> is_complete a)))"

definition record_pinned :: "accumulator \<Rightarrow> model_council \<Rightarrow> byte \<Rightarrow> u64 \<Rightarrow> (accumulator \<times> bool) model_result" where
  "record_pinned a c seat slot =
     bnd (accumulator_validate a) (\<lambda>_.
     bnd (ensure (\<not> (aa_council_version a \<noteq> co_version c \<or> aa_council_hash a \<noteq> co_hash c)) StaleBinding) (\<lambda>_.
     bnd (require_seat_active c seat slot) (\<lambda>_.
     record_seat a seat)))"

definition record_current :: "accumulator \<Rightarrow> model_council \<Rightarrow> byte \<Rightarrow> u64 \<Rightarrow> (accumulator \<times> bool) model_result" where
  "record_current a c seat slot =
     bnd (accumulator_validate a) (\<lambda>_.
     let a = (if aa_council_version a \<noteq> co_version c \<or> aa_council_hash a \<noteq> co_hash c then pinned c else a) in
     bnd (require_seat_active c seat slot) (\<lambda>_.
     record_seat a seat))"

definition routine_mask_satisfied :: "byte \<Rightarrow> bool model_result" where
  "routine_mask_satisfied bitset =
     bnd (ensure (bitset AND NOT MODEL_VALID_APPROVAL_MASK = 0) InvalidApproval) (\<lambda>_.
     Inr ((of_nat (pop_count bitset) :: byte) \<ge> MODEL_ROUTINE_THRESHOLD))"

definition terminal_mask_satisfied :: "byte \<Rightarrow> bool model_result" where
  "terminal_mask_satisfied bitset =
     bnd (ensure (bitset AND NOT MODEL_VALID_APPROVAL_MASK = 0) InvalidApproval) (\<lambda>_.
     Inr ((of_nat (pop_count bitset) :: byte) \<ge> MODEL_TERMINAL_THRESHOLD))"

section \<open>Governance objects\<close>

record checkpoint =
  ck_phase :: checkpoint_phase
  ck_gate_epoch :: u64
  ck_hard_state :: hard_state
  ck_forbidden_drift_count :: u32
  ck_approvals :: accumulator
  ck_finalized :: bool
  ck_accepted :: bool
  ck_rejected_hard_mismatch :: bool
  ck_accepted_slot :: u64

record attestation =
  at_subject_id :: u64
  at_phase :: checkpoint_phase
  at_gate_epoch :: u64
  at_council_version :: u64
  at_council_hash :: hash32
  at_seat :: byte
  at_seat_authority :: pubkey
  at_hard_state :: hard_state
  at_forbidden_drift_count :: u32
  at_attested_slot :: u64

datatype failure_kind =
  DeployedSlot | Authority | Capacity | PayloadChunk | MerkleRoot | NonzeroTail | RawCommitment
| IncompleteVerification

record failure_evidence =
  fe_proposal_id :: u64
  fe_gate_epoch :: u64
  fe_observed_slot :: u64
  fe_kind :: failure_kind
  fe_observed_programdata :: programdata_observation

record model_proposal =
  mp_id :: u64
  mp_class :: proposal_class
  mp_state :: proposal_state
  mp_target_nonce :: u64
  mp_creation_gate_status :: gate_status
  mp_creation_gate_epoch :: u64
  mp_creation_emergency_observation :: "freeze_observation option"
  mp_creation_programdata :: programdata_observation
  mp_freeze_gate_epoch :: u64
  mp_creation_council_version :: u64
  mp_creation_council_hash :: hash32
  mp_timing :: model_timing
  mp_extension_required :: bool
  mp_primary_proposal :: "u64 option"
  mp_rollback_proposal :: "u64 option"
  mp_initial_approvals :: accumulator
  mp_cancellation_approvals :: accumulator
  mp_unfreeze_approvals :: accumulator
  mp_prestate :: "checkpoint option"
  mp_poststate :: "checkpoint option"
  mp_prestate_attestations :: "attestation list"
  mp_poststate_attestations :: "attestation list"
  mp_frozen_slot :: u64
  mp_extended_slot :: u64
  mp_upgraded_slot :: u64
  mp_programdata_verified_slot :: u64
  mp_programdata_failure :: "failure_evidence option"
  mp_terminal_slot :: u64
  mp_cancellation_reason :: u16
  mp_terminal_reason :: u16

definition is_pre_freeze :: "model_proposal \<Rightarrow> bool" where
  "is_pre_freeze p \<longleftrightarrow>
     mp_state p \<in> {Draft, BufferAdopted, BufferVerified, CouncilApproved, GovernanceSatisfied, Timelocked}"

record council_rotation =
  ro_id :: u64
  ro_state :: rotation_state
  ro_current_council_version :: u64
  ro_current_council_hash :: hash32
  ro_candidate :: model_council
  ro_target_nonce :: u64
  ro_creation_slot :: u64
  ro_not_before_slot :: u64
  ro_expiry_slot :: u64
  ro_approvals :: accumulator
  ro_cancellation_approvals :: accumulator
  ro_cancellation_reason :: u16
  ro_terminal_slot :: u64
  ro_terminal_reason :: u16

record emergency_resolution =
  er_id :: u64
  er_state :: resolution_state
  er_frozen_epoch :: u64
  er_freeze_slot :: u64
  er_freeze_reason :: u16
  er_target_nonce :: u64
  er_creation_slot :: u64
  er_not_before_slot :: u64
  er_expiry_slot :: u64
  er_observed_programdata :: guardian_observation
  er_approvals :: accumulator
  er_checkpoint :: "checkpoint option"
  er_checkpoint_attestations :: "attestation list"
  er_executed_slot :: u64
  er_terminal_reason :: u16

record model_initialization =
  mi_slot :: u64
  mi_graph :: identity_graph
  mi_seats :: "pubkey list"
  mi_seat_terms :: "seat_term list"
  mi_delays :: model_delays
  mi_programdata :: programdata_observation
  mi_controller_programdata_linked :: bool
  mi_initializer_is_controller_upgrade_authority :: bool
  mi_target_programdata_linked :: bool
  mi_canonical_pdas_verified :: bool
  mi_seat_accounts_readonly :: bool
  mi_seat_accounts_nonexecutable :: bool

record proposal_request =
  rq_class :: proposal_class
  rq_extension_required :: bool
  rq_primary_proposal :: "u64 option"
  rq_rollback_proposal :: "u64 option"
  rq_proposer_seat :: byte
  rq_proposer_signed :: bool
  rq_payer_is_separate :: bool
  rq_slot :: u64

text \<open>The edges of the proposal lifecycle.\<close>

definition proposal_edge_allowed :: "proposal_state \<Rightarrow> proposal_state \<Rightarrow> bool \<Rightarrow> bool" where
  "proposal_edge_allowed current next extension_required \<longleftrightarrow>
     (current, next) \<in> {(Draft, BufferAdopted), (BufferAdopted, BufferVerified),
       (BufferVerified, CouncilApproved), (CouncilApproved, GovernanceSatisfied),
       (GovernanceSatisfied, Timelocked), (Timelocked, Frozen), (Extended, UpgradeExecuted),
       (UpgradeExecuted, ProgramDataVerified), (ProgramDataVerified, PoststateAccepted),
       (PoststateAccepted, UnfreezeApproved), (UnfreezeApproved, Completed)}
     \<or> (current, next) = (Frozen, Extended) \<and> extension_required
     \<or> (current, next) = (Frozen, UpgradeExecuted) \<and> \<not> extension_required"

definition checkpoint_accepted :: "checkpoint option \<Rightarrow> bool" where
  "checkpoint_accepted c = (case c of None \<Rightarrow> False
     | Some v \<Rightarrow> ck_finalized v \<and> ck_accepted v \<and> is_complete (ck_approvals v))"

end
