(* ===== verification/Release1_Model.thy ===== *)
theory Release1_Model
  imports Release1_Types
begin

text \<open>
  The Release 1 reference state machine of \<open>upgrade_controller/src/release1_model.rs\<close>: its state, one
  definition per method and the action dispatcher.  A method maps the model to an error or the updated
  model; \<open>apply\<close> evaluates an action on a clone, so an error leaves the model as it was.
\<close>

section \<open>State\<close>

record model =
  m_initialized :: bool
  m_graph :: identity_graph
  m_delays :: model_delays
  m_council :: model_council
  m_council_history :: "(u64, model_council) btree"
  m_programdata :: programdata_observation
  m_current_programdata_authority :: "pubkey option"
  m_current_guardian_runtime_observation :: guardian_observation
  m_token_governance_enabled :: bool
  m_target_immutability_enabled :: bool
  m_next_proposal_id :: u64
  m_target_nonce :: u64
  m_next_candidate_council_version :: u64
  m_gate :: model_gate
  m_emergency_freeze_observations :: "(u64, freeze_observation) btree"
  m_proposals :: "(u64, model_proposal) btree"
  m_rotations :: "(u64, council_rotation) btree"
  m_emergency_resolutions :: "(u64, emergency_resolution) btree"

datatype model_action =
  Initialize model_initialization
| SimulatePostHandoffActivation u64 bool
| SetProgramDataObservation programdata_observation
| SetProgramDataAuthorityObservation "pubkey option"
| SetGuardianRuntimeObservation guardian_observation
| CreateProposal proposal_request
| AdoptBuffer u64
| VerifyBuffer u64
| ApproveProposal u64 byte u64                \<comment> \<open>proposal, seat, slot\<close>
| SatisfyGovernance u64 u64
| QueueProposal u64 u64
| ApproveCancellation u64 byte u64 u16
| ExpireProposal u64 u64
| FreezeProposal u64 u64
| ConvertEmergencyFreeze u64 u64
| AttestCheckpoint u64 checkpoint_phase byte hard_state u32 u64
| FinalizeCheckpoint u64 checkpoint_phase "byte list" u64
| ExtendTarget u64 u64
| ExecuteUpgrade u64 u64
| VerifyProgramData u64 u64
| RecordProgramDataFailure u64 failure_kind u64
| ActivateRollback u64 u64 u64                \<comment> \<open>primary, rollback, slot\<close>
| ApproveUnfreeze u64 byte u64
| ExecuteUnfreeze u64 u64
| GuardianFreeze pubkey u64 u16
| CreateEmergencyResolution u64
| ApproveEmergencyResolution u64 byte u64
| QueueEmergencyResolution u64 u64
| AttestEmergencyCheckpoint u64 byte hard_state u32 u64
| FinalizeEmergencyCheckpoint u64 "byte list" u64
| ExecuteEmergencyResume u64 u64
| ExpireEmergencyResolution u64 u64
| CreateCandidateCouncilSet u64 "pubkey list" "seat_term list" u64 u64
| CreateCouncilRotation u64 u64
| ApproveCouncilRotation u64 byte u64
| QueueCouncilRotation u64 u64
| ApproveCouncilRotationCancellation u64 byte u64 u16
| ExpireCouncilRotation u64 u64
| ActivateCouncilRotation u64 u64
| EnableTokenGovernance

datatype model_outcome =
  Applied | ProposalCreated u64 | EmergencyResolutionCreated u64 | CandidateCouncilCreated u64
| CouncilRotationCreated u64

section \<open>Access\<close>

definition get_proposal :: "model \<Rightarrow> u64 \<Rightarrow> model_proposal model_result" where
  "get_proposal m i = ok_or (map_of (m_proposals m) i) NotFound"
definition get_rotation :: "model \<Rightarrow> u64 \<Rightarrow> council_rotation model_result" where
  "get_rotation m i = ok_or (map_of (m_rotations m) i) NotFound"
definition get_resolution :: "model \<Rightarrow> u64 \<Rightarrow> emergency_resolution model_result" where
  "get_resolution m i = ok_or (map_of (m_emergency_resolutions m) i) NotFound"

text \<open>Writing through the reference \<open>proposal_mut\<close> and its siblings return.\<close>

definition put_proposal :: "u64 \<Rightarrow> model_proposal \<Rightarrow> model \<Rightarrow> model" where
  "put_proposal i p m = m\<lparr>m_proposals := bt_insert i p (m_proposals m)\<rparr>"
definition put_rotation :: "u64 \<Rightarrow> council_rotation \<Rightarrow> model \<Rightarrow> model" where
  "put_rotation i r m = m\<lparr>m_rotations := bt_insert i r (m_rotations m)\<rparr>"
definition put_resolution :: "u64 \<Rightarrow> emergency_resolution \<Rightarrow> model \<Rightarrow> model" where
  "put_resolution i r m = m\<lparr>m_emergency_resolutions := bt_insert i r (m_emergency_resolutions m)\<rparr>"

definition clear_gate_to_active :: "model \<Rightarrow> model" where
  "clear_gate_to_active m = m\<lparr>m_gate := (m_gate m)\<lparr>ga_status := Active, ga_active_proposal := None,
     ga_freeze_slot := 0, ga_freeze_reason := 0\<rparr>\<rparr>"

section \<open>Guards\<close>

definition runtime_canonical :: "model \<Rightarrow> bool" where
  "runtime_canonical m = is_canonical_for (m_current_guardian_runtime_observation m) (m_graph m)
     (m_programdata m) (Some (ig_authority_pda (m_graph m)))"

definition require_controller_programdata_authority :: "model \<Rightarrow> unit model_result" where
  "require_controller_programdata_authority m =
     ensure (\<not> (m_current_programdata_authority m \<noteq> Some (ig_authority_pda (m_graph m))
       \<or> \<not> runtime_canonical m)) ProgramDataChanged"

definition bootstrap_frozen :: "model \<Rightarrow> bool" where
  "bootstrap_frozen m \<longleftrightarrow> ga_status (m_gate m) = EmergencyFrozen
     \<and> ga_freeze_reason (m_gate m) = BOOTSTRAP_INITIALIZATION_FREEZE_REASON"

definition observation_matches_gate :: "freeze_observation \<Rightarrow> model_gate \<Rightarrow> bool" where
  "observation_matches_gate f g \<longleftrightarrow> fo_epoch f = ga_epoch g \<and> fo_freeze_slot f = ga_freeze_slot g
     \<and> fo_freeze_reason f = ga_freeze_reason g"

definition validate_core :: "env \<Rightarrow> model \<Rightarrow> unit model_result" where
  "validate_core E m =
     bnd (ensure (m_initialized m) NotInitialized) (\<lambda>_.
     bnd (graph_validate (m_graph m)) (\<lambda>_.
     bnd (delays_validate (m_delays m)) (\<lambda>_.
     bnd (council_validate E (m_council m)) (\<lambda>_.
     bnd (checks (map (\<lambda>(version, c). bnd (ensure (version = co_version c) InvalidCouncil_model)
       (\<lambda>_. council_validate E c)) (m_council_history m))) (\<lambda>_.
     bnd (ensure (map_of (m_council_history m) (co_version (m_council m)) = Some (m_council m))
       InvalidCouncil_model) (\<lambda>_.
     bnd (observation_validate (m_programdata m)) (\<lambda>_.
     bnd (ensure (m_current_programdata_authority m \<noteq> Some 0) InvalidInitialization) (\<lambda>_.
     bnd (validate_persistable (m_current_guardian_runtime_observation m)) (\<lambda>_.
     bnd (model_gate_validate (m_gate m)) (\<lambda>_.
     bnd (if ga_status (m_gate m) = EmergencyFrozen
             \<and> ga_freeze_reason (m_gate m) \<noteq> BOOTSTRAP_INITIALIZATION_FREEZE_REASON then
            bnd (ok_or (map_of (m_emergency_freeze_observations m) (ga_epoch (m_gate m))) InvalidGate) (\<lambda>f.
            bnd (ensure (observation_matches_gate f (m_gate m)) InvalidGate) (\<lambda>_.
            validate_persistable (fo_programdata f)))
          else Inr ()) (\<lambda>_.
     ensure (\<not> (m_token_governance_enabled m \<or> m_target_immutability_enabled m \<or> m_next_proposal_id m = 0
       \<or> m_target_nonce m = 0 \<or> m_next_candidate_council_version m \<le> co_version (m_council m)))
       InvalidInitialization)))))))))))"

definition require_current_nonce :: "model \<Rightarrow> model_proposal \<Rightarrow> unit model_result" where
  "require_current_nonce m p = ensure (mp_target_nonce p = m_target_nonce m) StaleBinding"

definition require_creation_gate :: "model \<Rightarrow> model_proposal \<Rightarrow> unit model_result" where
  "require_creation_gate m p =
     bnd (ensure (\<not> (mp_creation_gate_status p \<noteq> ga_status (m_gate m)
       \<or> mp_creation_gate_epoch p \<noteq> ga_epoch (m_gate m) \<or> bootstrap_frozen m)) StaleBinding) (\<lambda>_.
     bnd (case mp_creation_gate_status p of
            Active \<Rightarrow> ensure (mp_creation_emergency_observation p = None) StaleBinding
          | EmergencyFrozen \<Rightarrow>
              bnd (ok_or (mp_creation_emergency_observation p) StaleBinding) (\<lambda>bound.
              bnd (ok_or (map_of (m_emergency_freeze_observations m) (ga_epoch (m_gate m))) StaleBinding) (\<lambda>f.
              ensure (bound = f) StaleBinding))
          | FrozenForUpgrade \<Rightarrow> Inl StaleBinding) (\<lambda>_.
     bnd (ensure (mp_creation_programdata p = m_programdata m) ProgramDataChanged) (\<lambda>_.
     require_controller_programdata_authority m)))"

definition require_frozen_proposal :: "model \<Rightarrow> model_proposal \<Rightarrow> unit model_result" where
  "require_frozen_proposal m p =
     (if ga_status (m_gate m) \<noteq> FrozenForUpgrade \<or> ga_active_proposal (m_gate m) \<noteq> Some (mp_id p)
         \<or> mp_freeze_gate_epoch p = 0 \<or> mp_freeze_gate_epoch p \<noteq> ga_epoch (m_gate m)
      then Inl InvalidGate
      else bnd (checked_increment (mp_target_nonce p)) (\<lambda>n. ensure (m_target_nonce m = n) InvalidGate))"

definition pinned_initial_quorum_complete :: "model \<Rightarrow> model_proposal \<Rightarrow> bool model_result" where
  "pinned_initial_quorum_complete m p =
     bnd (ok_or (map_of (m_council_history m) (mp_creation_council_version p)) StaleBinding) (\<lambda>c.
     bnd (accumulator_validate (mp_initial_approvals p)) (\<lambda>_.
     bnd (ensure (\<not> (co_hash c \<noteq> mp_creation_council_hash p
       \<or> aa_council_version (mp_initial_approvals p) \<noteq> co_version c
       \<or> aa_council_hash (mp_initial_approvals p) \<noteq> co_hash c)) StaleBinding) (\<lambda>_.
     Inr (is_complete (mp_initial_approvals p)))))"

definition proposal_timing :: "model \<Rightarrow> u64 \<Rightarrow> proposal_class \<Rightarrow> model_timing model_result" where
  "proposal_timing m creation_slot class =
     bnd (checked_increment creation_slot) (\<lambda>review_start_slot.
     bnd (ok_or (checked_add review_start_slot (dl_review_slots (m_delays m))) ArithmeticOverflow_model) (\<lambda>review_end_slot.
     bnd (class_delay (m_delays m) class) (\<lambda>delay.
     bnd (ok_or (checked_add review_end_slot delay) ArithmeticOverflow_model) (\<lambda>not_before_slot.
     bnd (ok_or (checked_add creation_slot (dl_proposal_expiry_slots (m_delays m))) ArithmeticOverflow_model) (\<lambda>expiry_slot.
     bnd (ensure (not_before_slot < expiry_slot) InvalidTiming_model) (\<lambda>_.
     Inr \<lparr>ti_creation_slot = creation_slot, ti_review_start_slot = review_start_slot,
       ti_review_end_slot = review_end_slot, ti_not_before_slot = not_before_slot,
       ti_expiry_slot = expiry_slot\<rparr>))))))"

definition validate_proposal_timing :: "model \<Rightarrow> model_proposal \<Rightarrow> unit model_result" where
  "validate_proposal_timing m p =
     bnd (proposal_timing m (ti_creation_slot (mp_timing p)) (mp_class p)) (\<lambda>t.
     ensure (t = mp_timing p) InvalidTiming_model)"

definition require_freeze_execution_runway :: "model \<Rightarrow> model_proposal \<Rightarrow> u64 \<Rightarrow> unit model_result" where
  "require_freeze_execution_runway m p slot =
     (let execution_slots = (if mp_extension_required p then 2 else 1) in
      bnd (ok_or (Option.bind (checked_add slot (dl_review_slots (m_delays m)))
        (\<lambda>v. checked_add v execution_slots)) ArithmeticOverflow_model) (\<lambda>horizon.
      ensure (horizon < ti_expiry_slot (mp_timing p)) TimingViolation))"

definition validate_prepared_rollback :: "model \<Rightarrow> model_proposal \<Rightarrow> u64 \<Rightarrow> unit model_result" where
  "validate_prepared_rollback m primary current_slot =
     bnd (ok_or (mp_rollback_proposal primary) InvalidRollbackLink) (\<lambda>rollback_id.
     bnd (get_proposal m rollback_id) (\<lambda>rollback.
     bnd (ensure (\<not> (mp_class rollback \<noteq> EmergencyRollback \<or> mp_primary_proposal rollback \<noteq> Some (mp_id primary)
       \<or> mp_rollback_proposal rollback \<noteq> None \<or> mp_target_nonce rollback \<noteq> mp_target_nonce primary
       \<or> mp_state rollback \<noteq> Timelocked)) InvalidRollbackLink) (\<lambda>_.
     bnd (ok_or (checked_add current_slot (dl_rollback_slots (m_delays m))) ArithmeticOverflow_model) (\<lambda>after_delay.
     bnd (ok_or (checked_add (ti_expiry_slot (mp_timing primary)) (dl_rollback_slots (m_delays m)))
       ArithmeticOverflow_model) (\<lambda>primary_expiry_with_runway.
     bnd (ensure (\<not> (current_slot \<ge> ti_expiry_slot (mp_timing rollback)
       \<or> after_delay \<ge> ti_expiry_slot (mp_timing rollback)
       \<or> ti_expiry_slot (mp_timing rollback) \<le> primary_expiry_with_runway)) TimingViolation) (\<lambda>_.
     bnd (pinned_initial_quorum_complete m rollback) (\<lambda>complete.
     ensure complete InvalidRollbackLink)))))))"

definition require_primary_execution_rollback_runway :: "model \<Rightarrow> model_proposal \<Rightarrow> u64 \<Rightarrow> unit model_result" where
  "require_primary_execution_rollback_runway m primary current_slot =
     bnd (ok_or (mp_rollback_proposal primary) InvalidRollbackLink) (\<lambda>rollback_id.
     bnd (get_proposal m rollback_id) (\<lambda>rollback.
     bnd (ok_or (Option.bind (Option.bind (checked_add current_slot (dl_rollback_slots (m_delays m)))
            (\<lambda>v. checked_add v (dl_review_slots (m_delays m)))) (\<lambda>v. checked_add v 1))
       ArithmeticOverflow_model) (\<lambda>recovery_horizon.
     ensure (\<not> (current_slot < ti_not_before_slot (mp_timing rollback)
       \<or> recovery_horizon \<ge> ti_expiry_slot (mp_timing rollback))) TimingViolation)))"

definition require_emergency_binding :: "model \<Rightarrow> u64 \<Rightarrow> u64 \<Rightarrow> unit model_result" where
  "require_emergency_binding m resolution_id slot =
     bnd (get_resolution m resolution_id) (\<lambda>r.
     bnd (ok_or (map_of (m_emergency_freeze_observations m) (er_frozen_epoch r)) StaleBinding) (\<lambda>f.
     ensure (\<not> (ga_status (m_gate m) \<noteq> EmergencyFrozen \<or> ga_active_proposal (m_gate m) \<noteq> None
       \<or> ga_epoch (m_gate m) \<noteq> er_frozen_epoch r \<or> ga_freeze_slot (m_gate m) \<noteq> er_freeze_slot r
       \<or> ga_freeze_reason (m_gate m) \<noteq> er_freeze_reason r
       \<or> ga_freeze_reason (m_gate m) = BOOTSTRAP_INITIALIZATION_FREEZE_REASON
       \<or> m_target_nonce m \<noteq> er_target_nonce r \<or> fo_epoch f \<noteq> er_frozen_epoch r
       \<or> fo_freeze_slot f \<noteq> er_freeze_slot r \<or> fo_freeze_reason f \<noteq> er_freeze_reason r
       \<or> fo_programdata f \<noteq> er_observed_programdata r
       \<or> (slot \<noteq> 0 \<and> slot \<ge> er_expiry_slot r))) StaleBinding))"

section \<open>Initialisation and activation\<close>

definition model_default :: model where
  "model_default =
     \<lparr>m_initialized = False,
      m_graph = \<lparr>ig_controller_program = 0, ig_controller_programdata = 0, ig_target_program = 0,
        ig_target_programdata = 0, ig_upgradeable_loader = 0, ig_authority_pda = 0, ig_gate_pda = 0,
        ig_policy_pda = 0, ig_council_pda = 0, ig_canonical_spill_treasury = 0, ig_guardian = 0\<rparr>,
      m_delays = \<lparr>dl_review_slots = 0, dl_rollback_slots = 0, dl_routine_slots = 0, dl_major_slots = 0,
        dl_terminal_slots = 0, dl_proposal_expiry_slots = 0\<rparr>,
      m_council = \<lparr>co_version = 0, co_activation_slot = 0, co_seats = replicate 5 0,
        co_seat_terms = replicate 5 \<lparr>st_start_slot = 0, st_end_slot = 0\<rparr>, co_hash = 0\<rparr>,
      m_council_history = [],
      m_programdata = \<lparr>po_slot = 0, po_payload_hash = 0, po_raw_hash = 0, po_capacity = 0, po_authority = 0\<rparr>,
      m_current_programdata_authority = None,
      m_current_guardian_runtime_observation =
        \<lparr>go_program_owner = 0, go_program_executable = False, go_program_data_length = 0,
         go_program_header_present = False, go_linked_programdata = None, go_programdata_owner = 0,
         go_programdata_executable = False, go_programdata_data_length = 0,
         go_programdata_header_present = False, go_slot = 0, go_raw_hash_complete = False,
         go_raw_hash = 0, go_capacity = 0, go_authority = None\<rparr>,
      m_token_governance_enabled = False, m_target_immutability_enabled = False,
      m_next_proposal_id = 0, m_target_nonce = 0, m_next_candidate_council_version = 0,
      m_gate = \<lparr>ga_status = Active, ga_epoch = 0, ga_active_proposal = None, ga_freeze_slot = 0,
        ga_freeze_reason = 0, ga_last_completed_proposal = None\<rparr>,
      m_emergency_freeze_observations = [], m_proposals = [], m_rotations = [],
      m_emergency_resolutions = []\<rparr>"

definition initialized_model :: "model_initialization \<Rightarrow> guardian_observation \<Rightarrow> model_council \<Rightarrow> model" where
  "initialized_model i obs c =
     \<lparr>m_initialized = True, m_graph = mi_graph i, m_delays = mi_delays i, m_council = c,
      m_council_history = bt_insert (co_version c) c [], m_programdata = mi_programdata i,
      m_current_programdata_authority = Some (po_authority (mi_programdata i)),
      m_current_guardian_runtime_observation = obs,
      m_token_governance_enabled = False, m_target_immutability_enabled = False,
      m_next_proposal_id = 1, m_target_nonce = 1, m_next_candidate_council_version = 2,
      m_gate = \<lparr>ga_status = EmergencyFrozen, ga_epoch = 1, ga_active_proposal = None,
        ga_freeze_slot = mi_slot i, ga_freeze_reason = BOOTSTRAP_INITIALIZATION_FREEZE_REASON,
        ga_last_completed_proposal = None\<rparr>,
      m_emergency_freeze_observations = [], m_proposals = [], m_rotations = [],
      m_emergency_resolutions = []\<rparr>"

definition initialize_model :: "env \<Rightarrow> model_initialization \<Rightarrow> model \<Rightarrow> model model_result" where
  "initialize_model E i m =
     bnd (ensure (\<not> m_initialized m) AlreadyInitialized) (\<lambda>_.
     bnd (ensure (\<not> (mi_slot i = 0 \<or> \<not> mi_controller_programdata_linked i
       \<or> \<not> mi_initializer_is_controller_upgrade_authority i \<or> \<not> mi_target_programdata_linked i
       \<or> \<not> mi_canonical_pdas_verified i \<or> \<not> mi_seat_accounts_readonly i
       \<or> \<not> mi_seat_accounts_nonexecutable i)) InvalidInitialization) (\<lambda>_.
     bnd (graph_validate (mi_graph i)) (\<lambda>_.
     bnd (delays_validate (mi_delays i)) (\<lambda>_.
     bnd (observation_validate (mi_programdata i)) (\<lambda>_.
     bnd (ensure (po_authority (mi_programdata i) \<noteq> ig_authority_pda (mi_graph i)) InvalidInitialization) (\<lambda>_.
     bnd (canonical_observation (mi_graph i) (mi_programdata i) (Some (po_authority (mi_programdata i)))) (\<lambda>obs.
     bnd (council_new E 1 (mi_slot i) (mi_seats i) (mi_seat_terms i)) (\<lambda>c.
     let m = initialized_model i obs c in
     bnd (validate_core E m) (\<lambda>_. Inr m)))))))))"

definition simulate_post_handoff_activation :: "u64 \<Rightarrow> bool \<Rightarrow> model \<Rightarrow> model model_result" where
  "simulate_post_handoff_activation slot verified m =
     bnd (ensure (\<not> (\<not> verified \<or> slot = 0 \<or> ga_status (m_gate m) \<noteq> EmergencyFrozen
       \<or> ga_freeze_reason (m_gate m) \<noteq> BOOTSTRAP_INITIALIZATION_FREEZE_REASON
       \<or> ga_active_proposal (m_gate m) \<noteq> None
       \<or> po_authority (m_programdata m) \<noteq> ig_authority_pda (m_graph m)
       \<or> m_current_programdata_authority m \<noteq> Some (ig_authority_pda (m_graph m))
       \<or> \<not> runtime_canonical m)) InvalidGate) (\<lambda>_.
     bnd (checked_increment (ga_epoch (m_gate m))) (\<lambda>epoch.
     Inr (clear_gate_to_active (m\<lparr>m_gate := (m_gate m)\<lparr>ga_epoch := epoch\<rparr>\<rparr>))))"

text \<open>The three actions that replace what is observed of the deployed program.\<close>

definition set_programdata_observation :: "programdata_observation \<Rightarrow> model \<Rightarrow> model model_result" where
  "set_programdata_observation obs m =
     bnd (observation_validate obs) (\<lambda>_.
     bnd (canonical_observation (m_graph m) obs (Some (po_authority obs))) (\<lambda>g.
     Inr (m\<lparr>m_current_programdata_authority := Some (po_authority obs),
       m_current_guardian_runtime_observation := g, m_programdata := obs\<rparr>)))"

definition set_programdata_authority :: "pubkey option \<Rightarrow> model \<Rightarrow> model model_result" where
  "set_programdata_authority auth m =
     bnd (ensure (auth \<noteq> Some 0) InvalidInitialization) (\<lambda>_.
     bnd (canonical_observation (m_graph m) (m_programdata m) auth) (\<lambda>g.
     Inr (m\<lparr>m_current_programdata_authority := auth, m_current_guardian_runtime_observation := g\<rparr>)))"

definition set_guardian_runtime_observation :: "guardian_observation \<Rightarrow> model \<Rightarrow> model model_result" where
  "set_guardian_runtime_observation g m =
     bnd (validate_persistable g) (\<lambda>_.
     Inr (m\<lparr>m_current_programdata_authority := go_authority g, m_current_guardian_runtime_observation := g\<rparr>))"

section \<open>Proposals before the freeze\<close>

definition link_shape :: "proposal_request \<Rightarrow> unit model_result" where
  "link_shape rq =
     (case rq_class rq of
        EmergencyRollback \<Rightarrow>
          ensure (rq_primary_proposal rq \<noteq> None \<and> rq_rollback_proposal rq = None) InvalidRollbackLink
      | CouncilSetRotation \<Rightarrow> Inl UnsupportedProposalClass_model
      | TargetImmutability \<Rightarrow> Inl UnsupportedProposalClass_model
      | _ \<Rightarrow> ensure (rq_primary_proposal rq = None \<and> rq_rollback_proposal rq \<noteq> None) InvalidRollbackLink)"

definition drafted_proposal ::
    "model \<Rightarrow> proposal_request \<Rightarrow> model_timing \<Rightarrow> freeze_observation option \<Rightarrow> model_proposal" where
  "drafted_proposal m rq timing obs =
     \<lparr>mp_id = m_next_proposal_id m, mp_class = rq_class rq, mp_state = Draft,
      mp_target_nonce = m_target_nonce m, mp_creation_gate_status = ga_status (m_gate m),
      mp_creation_gate_epoch = ga_epoch (m_gate m), mp_creation_emergency_observation = obs,
      mp_creation_programdata = m_programdata m, mp_freeze_gate_epoch = 0,
      mp_creation_council_version = co_version (m_council m),
      mp_creation_council_hash = co_hash (m_council m), mp_timing = timing,
      mp_extension_required = rq_extension_required rq,
      mp_primary_proposal = rq_primary_proposal rq, mp_rollback_proposal = rq_rollback_proposal rq,
      mp_initial_approvals = pinned (m_council m), mp_cancellation_approvals = accumulator_default,
      mp_unfreeze_approvals = accumulator_default, mp_prestate = None, mp_poststate = None,
      mp_prestate_attestations = [], mp_poststate_attestations = [], mp_frozen_slot = 0,
      mp_extended_slot = 0, mp_upgraded_slot = 0, mp_programdata_verified_slot = 0,
      mp_programdata_failure = None, mp_terminal_slot = 0, mp_cancellation_reason = 0,
      mp_terminal_reason = 0\<rparr>"

definition create_proposal :: "proposal_request \<Rightarrow> model \<Rightarrow> (model \<times> u64) model_result" where
  "create_proposal rq m =
     bnd (class_delay (m_delays m) (rq_class rq)) (\<lambda>_.
     bnd (ensure (\<not> (rq_slot rq = 0 \<or> ga_status (m_gate m) = FrozenForUpgrade \<or> bootstrap_frozen m))
       InvalidGate) (\<lambda>_.
     bnd (require_controller_programdata_authority m) (\<lambda>_.
     bnd (ensure (\<not> (\<not> rq_proposer_signed rq \<or> \<not> rq_payer_is_separate rq)) InvalidProposer) (\<lambda>_.
     bnd (map_err (\<lambda>_. InvalidProposer)
       (require_seat_active (m_council m) (rq_proposer_seat rq) (rq_slot rq))) (\<lambda>_.
     bnd (link_shape rq) (\<lambda>_.
     bnd (if ga_status (m_gate m) = EmergencyFrozen then
            bnd (ok_or (map_of (m_emergency_freeze_observations m) (ga_epoch (m_gate m))) InvalidGate) (\<lambda>f.
            bnd (ensure (observation_matches_gate f (m_gate m)) InvalidGate) (\<lambda>_. Inr (Some f)))
          else Inr None) (\<lambda>obs.
     let i = m_next_proposal_id m in
     bnd (checked_increment i) (\<lambda>next.
     bnd (proposal_timing m (rq_slot rq) (rq_class rq)) (\<lambda>timing.
     Inr (put_proposal i (drafted_proposal m rq timing obs) (m\<lparr>m_next_proposal_id := next\<rparr>), i))))))))))"

definition transition_simple ::
    "u64 \<Rightarrow> proposal_state \<Rightarrow> proposal_state \<Rightarrow> model \<Rightarrow> model model_result" where
  "transition_simple i current next m =
     bnd (get_proposal m i) (\<lambda>p.
     bnd (ensure (\<not> (mp_state p \<noteq> current
       \<or> \<not> proposal_edge_allowed current next (mp_extension_required p))) InvalidStateTransition_model) (\<lambda>_.
     Inr (put_proposal i (p\<lparr>mp_state := next\<rparr>) m)))"

definition transition_current_candidate ::
    "u64 \<Rightarrow> proposal_state \<Rightarrow> proposal_state \<Rightarrow> model \<Rightarrow> model model_result" where
  "transition_current_candidate i current next m =
     bnd (get_proposal m i) (\<lambda>p.
     bnd (require_current_nonce m p) (\<lambda>_.
     bnd (require_creation_gate m p) (\<lambda>_.
     transition_simple i current next m)))"

definition approve_proposal :: "u64 \<Rightarrow> byte \<Rightarrow> u64 \<Rightarrow> model \<Rightarrow> model model_result" where
  "approve_proposal i seat slot m =
     bnd (get_proposal m i) (\<lambda>p.
     bnd (validate_proposal_timing m p) (\<lambda>_.
     bnd (ensure (\<not> (mp_state p \<noteq> BufferVerified \<or> slot < ti_review_start_slot (mp_timing p)
       \<or> slot > ti_review_end_slot (mp_timing p) \<or> slot \<ge> ti_expiry_slot (mp_timing p))) TimingViolation) (\<lambda>_.
     bnd (require_current_nonce m p) (\<lambda>_.
     bnd (require_creation_gate m p) (\<lambda>_.
     bnd (ensure (\<not> (mp_creation_council_version p \<noteq> co_version (m_council m)
       \<or> mp_creation_council_hash p \<noteq> co_hash (m_council m))) StaleBinding) (\<lambda>_.
     bnd (record_pinned (mp_initial_approvals p) (m_council m) seat slot) (\<lambda>(acc, crossed).
     let p = p\<lparr>mp_initial_approvals := acc\<rparr>
     in Inr (put_proposal i (if crossed then p\<lparr>mp_state := CouncilApproved\<rparr> else p) m))))))))"

definition satisfy_governance :: "u64 \<Rightarrow> u64 \<Rightarrow> model \<Rightarrow> model model_result" where
  "satisfy_governance i slot m =
     bnd (get_proposal m i) (\<lambda>p.
     bnd (validate_proposal_timing m p) (\<lambda>_.
     bnd (ensure (\<not> (mp_state p \<noteq> CouncilApproved \<or> slot \<ge> ti_expiry_slot (mp_timing p)))
       InvalidStateTransition_model) (\<lambda>_.
     bnd (pinned_initial_quorum_complete m p) (\<lambda>complete.
     bnd (ensure complete QuorumNotSatisfied_model) (\<lambda>_.
     bnd (require_current_nonce m p) (\<lambda>_.
     bnd (require_creation_gate m p) (\<lambda>_.
     transition_simple i CouncilApproved GovernanceSatisfied m)))))))"

definition queue_proposal :: "u64 \<Rightarrow> u64 \<Rightarrow> model \<Rightarrow> model model_result" where
  "queue_proposal i slot m =
     bnd (get_proposal m i) (\<lambda>p.
     bnd (validate_proposal_timing m p) (\<lambda>_.
     bnd (ensure (\<not> (mp_state p \<noteq> GovernanceSatisfied \<or> slot \<ge> ti_expiry_slot (mp_timing p)))
       InvalidStateTransition_model) (\<lambda>_.
     bnd (pinned_initial_quorum_complete m p) (\<lambda>complete.
     bnd (ensure complete QuorumNotSatisfied_model) (\<lambda>_.
     bnd (require_current_nonce m p) (\<lambda>_.
     bnd (require_creation_gate m p) (\<lambda>_.
     transition_simple i GovernanceSatisfied Timelocked m)))))))"

definition approve_cancellation :: "u64 \<Rightarrow> byte \<Rightarrow> u64 \<Rightarrow> u16 \<Rightarrow> model \<Rightarrow> model model_result" where
  "approve_cancellation i seat slot reason m =
     bnd (get_proposal m i) (\<lambda>p.
     bnd (ensure (\<not> (\<not> is_pre_freeze p \<or> slot \<ge> ti_expiry_slot (mp_timing p) \<or> reason = 0
       \<or> (mp_cancellation_reason p \<noteq> 0 \<and> mp_cancellation_reason p \<noteq> reason)
       \<or> mp_terminal_reason p \<noteq> 0)) InvalidStateTransition_model) (\<lambda>_.
     let p = (if mp_cancellation_reason p = 0 then p\<lparr>mp_cancellation_reason := reason\<rparr> else p) in
     bnd (record_current (mp_cancellation_approvals p) (m_council m) seat slot) (\<lambda>(acc, crossed).
     let p = p\<lparr>mp_cancellation_approvals := acc\<rparr>
     in Inr (put_proposal i
          (if crossed then p\<lparr>mp_state := Cancelled, mp_terminal_slot := slot, mp_terminal_reason := reason\<rparr>
           else p) m))))"

definition expire_proposal :: "u64 \<Rightarrow> u64 \<Rightarrow> model \<Rightarrow> model model_result" where
  "expire_proposal i slot m =
     bnd (get_proposal m i) (\<lambda>p.
     bnd (ensure (\<not> (\<not> is_pre_freeze p \<or> slot < ti_expiry_slot (mp_timing p)))
       InvalidStateTransition_model) (\<lambda>_.
     Inr (put_proposal i (p\<lparr>mp_state := Expired, mp_terminal_slot := slot,
       mp_terminal_reason := MODEL_EXPIRED_TERMINAL_REASON\<rparr>) m)))"

section \<open>Freezing\<close>

definition consume_proposal_freeze :: "u64 \<Rightarrow> u64 \<Rightarrow> model \<Rightarrow> model model_result" where
  "consume_proposal_freeze i slot m =
     bnd (checked_increment (m_target_nonce m)) (\<lambda>nonce.
     bnd (checked_increment (ga_epoch (m_gate m))) (\<lambda>epoch.
     let m = m\<lparr>m_target_nonce := nonce,
               m_gate := (m_gate m)\<lparr>ga_epoch := epoch, ga_status := FrozenForUpgrade,
                 ga_active_proposal := Some i, ga_freeze_slot := slot,
                 ga_freeze_reason := MODEL_GOVERNED_FREEZE_REASON\<rparr>\<rparr> in
     bnd (get_proposal m i) (\<lambda>p.
     Inr (put_proposal i (p\<lparr>mp_state := Frozen, mp_freeze_gate_epoch := epoch, mp_frozen_slot := slot\<rparr>) m))))"

definition freeze_proposal :: "u64 \<Rightarrow> u64 \<Rightarrow> model \<Rightarrow> model model_result" where
  "freeze_proposal i slot m =
     bnd (get_proposal m i) (\<lambda>p.
     bnd (validate_proposal_timing m p) (\<lambda>_.
     bnd (ensure (mp_class p \<noteq> EmergencyRollback) InvalidRollbackLink) (\<lambda>_.
     bnd (ensure (\<not> (mp_state p \<noteq> Timelocked \<or> slot < ti_not_before_slot (mp_timing p)
       \<or> slot \<ge> ti_expiry_slot (mp_timing p))) TimingViolation) (\<lambda>_.
     bnd (require_freeze_execution_runway m p slot) (\<lambda>_.
     bnd (pinned_initial_quorum_complete m p) (\<lambda>complete.
     bnd (ensure complete QuorumNotSatisfied_model) (\<lambda>_.
     bnd (require_current_nonce m p) (\<lambda>_.
     bnd (require_creation_gate m p) (\<lambda>_.
     bnd (ensure (\<not> (mp_creation_gate_status p \<noteq> Active \<or> mp_creation_emergency_observation p \<noteq> None
       \<or> ga_status (m_gate m) \<noteq> Active \<or> mp_creation_gate_epoch p \<noteq> ga_epoch (m_gate m))) InvalidGate) (\<lambda>_.
     bnd (validate_prepared_rollback m p slot) (\<lambda>_.
     consume_proposal_freeze i slot m)))))))))))"

definition convert_emergency_freeze :: "u64 \<Rightarrow> u64 \<Rightarrow> model \<Rightarrow> model model_result" where
  "convert_emergency_freeze i slot m =
     bnd (get_proposal m i) (\<lambda>p.
     bnd (require_controller_programdata_authority m) (\<lambda>_.
     bnd (validate_proposal_timing m p) (\<lambda>_.
     bnd (ensure (mp_class p \<noteq> EmergencyRollback) InvalidRollbackLink) (\<lambda>_.
     bnd (ensure (\<not> (mp_state p \<noteq> Timelocked \<or> slot < ti_not_before_slot (mp_timing p)
       \<or> slot \<ge> ti_expiry_slot (mp_timing p))) TimingViolation) (\<lambda>_.
     bnd (require_freeze_execution_runway m p slot) (\<lambda>_.
     bnd (pinned_initial_quorum_complete m p) (\<lambda>complete.
     bnd (ensure complete QuorumNotSatisfied_model) (\<lambda>_.
     bnd (require_current_nonce m p) (\<lambda>_.
     bnd (require_creation_gate m p) (\<lambda>_.
     bnd (ensure (\<not> (mp_creation_gate_status p \<noteq> EmergencyFrozen \<or> ga_status (m_gate m) \<noteq> EmergencyFrozen
       \<or> mp_creation_gate_epoch p \<noteq> ga_epoch (m_gate m) \<or> ga_active_proposal (m_gate m) \<noteq> None
       \<or> ga_freeze_reason (m_gate m) = BOOTSTRAP_INITIALIZATION_FREEZE_REASON)) InvalidGate) (\<lambda>_.
     bnd (ok_or (mp_creation_emergency_observation p) InvalidGate) (\<lambda>bound.
     bnd (ok_or (map_of (m_emergency_freeze_observations m) (ga_epoch (m_gate m))) InvalidGate) (\<lambda>f.
     bnd (ensure (\<not> (bound \<noteq> f \<or> \<not> observation_matches_gate bound (m_gate m))) StaleBinding) (\<lambda>_.
     bnd (validate_prepared_rollback m p slot) (\<lambda>_.
     consume_proposal_freeze i slot m)))))))))))))))"

section \<open>Checkpoints\<close>

text \<open>A seat has one attestation per council: a later one replaces it in place.\<close>

fun upsert_attestation :: "attestation \<Rightarrow> attestation list \<Rightarrow> attestation list" where
  "upsert_attestation a [] = [a]"
| "upsert_attestation a (x # xs) =
     (if at_council_version x = at_council_version a \<and> at_seat x = at_seat a then a # xs
      else x # upsert_attestation a xs)"

definition seat_authority :: "model_council \<Rightarrow> byte \<Rightarrow> pubkey model_result" where
  "seat_authority c seat =
     ok_or (if unat seat < length (co_seats c) then Some (co_seats c ! unat seat) else None) InvalidApproval"

definition phase_open :: "checkpoint_phase \<Rightarrow> model_proposal \<Rightarrow> bool" where
  "phase_open ph p = (case ph of
       Prestate \<Rightarrow> mp_state p = Frozen \<and> mp_prestate p = None
     | Poststate \<Rightarrow> mp_state p = ProgramDataVerified \<and> mp_poststate p = None
     | Emergency \<Rightarrow> False)"

definition phase_attestations :: "checkpoint_phase \<Rightarrow> model_proposal \<Rightarrow> attestation list" where
  "phase_attestations ph p = (if ph = Prestate then mp_prestate_attestations p else mp_poststate_attestations p)"

definition attest_checkpoint ::
    "env \<Rightarrow> u64 \<Rightarrow> checkpoint_phase \<Rightarrow> byte \<Rightarrow> hard_state \<Rightarrow> u32 \<Rightarrow> u64 \<Rightarrow> model \<Rightarrow> model model_result" where
  "attest_checkpoint E i ph seat hard drift slot m =
     bnd (hard_state_validate E hard) (\<lambda>_.
     bnd (ensure (ph \<noteq> Emergency) InvalidStateTransition_model) (\<lambda>_.
     bnd (get_proposal m i) (\<lambda>p.
     bnd (require_frozen_proposal m p) (\<lambda>_.
     bnd (ensure (\<not> (\<not> phase_open ph p \<or> slot = 0)) InvalidStateTransition_model) (\<lambda>_.
     let c = m_council m in
     bnd (require_seat_active c seat slot) (\<lambda>_.
     bnd (seat_authority c seat) (\<lambda>authority.
     let a = \<lparr>at_subject_id = i, at_phase = ph, at_gate_epoch = ga_epoch (m_gate m),
              at_council_version = co_version c, at_council_hash = co_hash c, at_seat = seat,
              at_seat_authority = authority, at_hard_state = hard, at_forbidden_drift_count = drift,
              at_attested_slot = slot\<rparr>;
         as = upsert_attestation a (phase_attestations ph p)
     in Inr (put_proposal i (if ph = Prestate then p\<lparr>mp_prestate_attestations := as\<rparr>
                             else p\<lparr>mp_poststate_attestations := as\<rparr>) m))))))))"

text \<open>The loop of \<open>select_checkpoint_quorum\<close>: what the seats so far attested, and their approvals.\<close>

fun quorum_loop ::
    "model \<Rightarrow> u64 \<Rightarrow> checkpoint_phase \<Rightarrow> attestation list \<Rightarrow> u64 \<Rightarrow> byte list \<Rightarrow>
     attestation option \<Rightarrow> accumulator \<Rightarrow> (attestation option \<times> accumulator) model_result" where
  "quorum_loop m subject ph as slot [] selected acc = Inr (selected, acc)"
| "quorum_loop m subject ph as slot (seat # seats) selected acc =
     bnd (require_seat_active (m_council m) seat slot) (\<lambda>_.
     bnd (ok_or (List.find (\<lambda>a. at_council_version a = co_version (m_council m) \<and> at_seat a = seat) as)
       QuorumNotSatisfied_model) (\<lambda>a.
     bnd (seat_authority (m_council m) seat) (\<lambda>expected_authority.
     bnd (ensure (\<not> (at_subject_id a \<noteq> subject \<or> at_phase a \<noteq> ph \<or> at_gate_epoch a \<noteq> ga_epoch (m_gate m)
       \<or> at_council_hash a \<noteq> co_hash (m_council m) \<or> at_seat_authority a \<noteq> expected_authority
       \<or> at_attested_slot a = 0 \<or> at_attested_slot a > slot)) StaleBinding) (\<lambda>_.
     bnd (case selected of
            Some first \<Rightarrow> bnd (ensure (\<not> (at_hard_state a \<noteq> at_hard_state first
                \<or> at_forbidden_drift_count a \<noteq> at_forbidden_drift_count first)) QuorumNotSatisfied_model)
              (\<lambda>_. Inr first)
          | None \<Rightarrow> Inr a) (\<lambda>first.
     bnd (record_current acc (m_council m) seat slot) (\<lambda>(acc, _).
     quorum_loop m subject ph as slot seats (Some first) acc))))))"

definition select_checkpoint_quorum ::
    "model \<Rightarrow> u64 \<Rightarrow> checkpoint_phase \<Rightarrow> attestation list \<Rightarrow> byte list \<Rightarrow> u64 \<Rightarrow>
     (attestation \<times> accumulator) model_result" where
  "select_checkpoint_quorum m subject ph as seats slot =
     bnd (ensure (\<not> (slot = 0 \<or> card (set seats) \<noteq> unat MODEL_ROUTINE_THRESHOLD)) InvalidApproval) (\<lambda>_.
     bnd (quorum_loop m subject ph as slot seats None (pinned (m_council m))) (\<lambda>(selected, acc).
     bnd (is_complete_at acc (m_council m) slot) (\<lambda>complete.
     bnd (ensure complete QuorumNotSatisfied_model) (\<lambda>_.
     bnd (ok_or selected QuorumNotSatisfied_model) (\<lambda>a. Inr (a, acc))))))"

definition new_checkpoint ::
    "model \<Rightarrow> checkpoint_phase \<Rightarrow> attestation \<Rightarrow> accumulator \<Rightarrow> u64 \<Rightarrow> checkpoint" where
  "new_checkpoint m ph a acc slot =
     (let accepted = (at_forbidden_drift_count a = 0) in
      \<lparr>ck_phase = ph, ck_gate_epoch = ga_epoch (m_gate m), ck_hard_state = at_hard_state a,
       ck_forbidden_drift_count = at_forbidden_drift_count a, ck_approvals = acc, ck_finalized = True,
       ck_accepted = accepted, ck_rejected_hard_mismatch = (\<not> accepted),
       ck_accepted_slot = (if accepted then slot else 0)\<rparr>)"

definition finalize_checkpoint ::
    "u64 \<Rightarrow> checkpoint_phase \<Rightarrow> byte list \<Rightarrow> u64 \<Rightarrow> model \<Rightarrow> model model_result" where
  "finalize_checkpoint i ph seats slot m =
     bnd (ensure (\<not> (ph = Emergency \<or> slot = 0)) InvalidStateTransition_model) (\<lambda>_.
     bnd (get_proposal m i) (\<lambda>p.
     bnd (require_frozen_proposal m p) (\<lambda>_.
     bnd (ensure (phase_open ph p) InvalidStateTransition_model) (\<lambda>_.
     bnd (select_checkpoint_quorum m i ph (phase_attestations ph p) seats slot) (\<lambda>(a, acc).
     bnd (if ph = Poststate then
            (case mp_prestate p of
               None \<Rightarrow> Inl CheckpointNotAccepted
             | Some pre \<Rightarrow>
                 bnd (ensure (ck_accepted pre) CheckpointNotAccepted) (\<lambda>_.
                 ensure (\<not> (at_hard_state a \<noteq> ck_hard_state pre \<and> at_forbidden_drift_count a = 0))
                   HardPoststateMismatch))
          else Inr ()) (\<lambda>_.
     let ck = new_checkpoint m ph a acc slot in
     Inr (put_proposal i
       (if ph = Prestate then p\<lparr>mp_prestate := Some ck\<rparr>
        else if ck_accepted ck then p\<lparr>mp_poststate := Some ck, mp_state := PoststateAccepted\<rparr>
        else p\<lparr>mp_poststate := Some ck\<rparr>) m)))))))"

section \<open>Installing and verifying\<close>

definition extend_target :: "u64 \<Rightarrow> u64 \<Rightarrow> model \<Rightarrow> model model_result" where
  "extend_target i slot m =
     bnd (get_proposal m i) (\<lambda>p.
     bnd (require_controller_programdata_authority m) (\<lambda>_.
     bnd (require_frozen_proposal m p) (\<lambda>_.
     bnd (ensure (\<not> (mp_state p \<noteq> Frozen \<or> \<not> mp_extension_required p
       \<or> \<not> checkpoint_accepted (mp_prestate p) \<or> slot = 0 \<or> slot < mp_frozen_slot p
       \<or> slot \<ge> ti_expiry_slot (mp_timing p))) InvalidStateTransition_model) (\<lambda>_.
     Inr (put_proposal i (p\<lparr>mp_state := Extended, mp_extended_slot := slot\<rparr>) m)))))"

definition execute_proposal_upgrade :: "u64 \<Rightarrow> u64 \<Rightarrow> model \<Rightarrow> model model_result" where
  "execute_proposal_upgrade i slot m =
     bnd (get_proposal m i) (\<lambda>p.
     bnd (require_controller_programdata_authority m) (\<lambda>_.
     bnd (require_frozen_proposal m p) (\<lambda>_.
     let correct_state = (if mp_extension_required p
           then mp_state p = Extended \<and> mp_extended_slot p \<noteq> 0 \<and> slot > mp_extended_slot p
           else mp_state p = Frozen) in
     bnd (ensure (\<not> (\<not> correct_state \<or> \<not> checkpoint_accepted (mp_prestate p) \<or> slot = 0
       \<or> slot \<ge> ti_expiry_slot (mp_timing p))) InvalidStateTransition_model) (\<lambda>_.
     bnd (if mp_class p \<noteq> EmergencyRollback then
            bnd (validate_prepared_rollback m p slot) (\<lambda>_. require_primary_execution_rollback_runway m p slot)
          else Inr ()) (\<lambda>_.
     Inr (put_proposal i (p\<lparr>mp_state := UpgradeExecuted, mp_upgraded_slot := slot\<rparr>) m))))))"

definition verify_programdata :: "u64 \<Rightarrow> u64 \<Rightarrow> model \<Rightarrow> model model_result" where
  "verify_programdata i slot m =
     bnd (get_proposal m i) (\<lambda>p.
     bnd (require_controller_programdata_authority m) (\<lambda>_.
     bnd (require_frozen_proposal m p) (\<lambda>_.
     bnd (ensure (\<not> (mp_state p \<noteq> UpgradeExecuted \<or> mp_upgraded_slot p = 0 \<or> slot < mp_upgraded_slot p
       \<or> mp_programdata_failure p \<noteq> None)) InvalidStateTransition_model) (\<lambda>_.
     Inr (put_proposal i (p\<lparr>mp_state := ProgramDataVerified, mp_programdata_verified_slot := slot\<rparr>) m)))))"

definition record_programdata_failure :: "u64 \<Rightarrow> failure_kind \<Rightarrow> u64 \<Rightarrow> model \<Rightarrow> model model_result" where
  "record_programdata_failure i kind slot m =
     bnd (get_proposal m i) (\<lambda>p.
     bnd (require_frozen_proposal m p) (\<lambda>_.
     bnd (ensure (\<not> (mp_class p = EmergencyRollback \<or> mp_state p \<noteq> UpgradeExecuted \<or> mp_upgraded_slot p = 0
       \<or> slot < mp_upgraded_slot p \<or> mp_programdata_failure p \<noteq> None)) InvalidStateTransition_model) (\<lambda>_.
     bnd (observation_validate (m_programdata m)) (\<lambda>_.
     Inr (put_proposal i (p\<lparr>mp_programdata_failure := Some
       \<lparr>fe_proposal_id = i, fe_gate_epoch = ga_epoch (m_gate m), fe_observed_slot = slot, fe_kind = kind,
        fe_observed_programdata = m_programdata m\<rparr>\<rparr>) m)))))"

section \<open>Rollback\<close>

definition failure_in_force :: "model \<Rightarrow> u64 \<Rightarrow> model_proposal \<Rightarrow> u64 \<Rightarrow> failure_evidence option" where
  "failure_in_force m primary_id primary slot = (case mp_programdata_failure primary of
       None \<Rightarrow> None
     | Some f \<Rightarrow>
         if mp_state primary = UpgradeExecuted \<and> fe_proposal_id f = primary_id
            \<and> fe_gate_epoch f = ga_epoch (m_gate m) \<and> fe_observed_slot f \<ge> mp_upgraded_slot primary
            \<and> fe_observed_slot f \<le> slot
         then Some f else None)"

definition hard_poststate_failure :: "model \<Rightarrow> model_proposal \<Rightarrow> u64 \<Rightarrow> bool model_result" where
  "hard_poststate_failure m primary slot =
     (if mp_state primary = ProgramDataVerified then
        (case (mp_prestate primary, mp_poststate primary) of
           (Some pre, Some post) \<Rightarrow>
             if ck_accepted pre \<and> ck_finalized pre \<and> \<not> ck_accepted post \<and> ck_finalized post
                \<and> ck_rejected_hard_mismatch post \<and> ck_phase pre = Prestate \<and> ck_phase post = Poststate
                \<and> ck_gate_epoch pre = ga_epoch (m_gate m) \<and> ck_gate_epoch post = ga_epoch (m_gate m)
                \<and> (ck_hard_state pre \<noteq> ck_hard_state post \<or> ck_forbidden_drift_count post \<noteq> 0)
                \<and> aa_council_version (ck_approvals post) = co_version (m_council m)
                \<and> aa_council_hash (ck_approvals post) = co_hash (m_council m)
             then is_complete_at (ck_approvals post) (m_council m) slot
             else Inr False
         | _ \<Rightarrow> Inr False)
      else Inr False)"

definition activate_rollback :: "u64 \<Rightarrow> u64 \<Rightarrow> u64 \<Rightarrow> model \<Rightarrow> model model_result" where
  "activate_rollback primary_id rollback_id slot m =
     bnd (get_proposal m primary_id) (\<lambda>primary.
     bnd (get_proposal m rollback_id) (\<lambda>rollback.
     bnd (require_frozen_proposal m primary) (\<lambda>_.
     bnd (ensure (\<not> (mp_state rollback \<noteq> Timelocked \<or> mp_class rollback \<noteq> EmergencyRollback
       \<or> mp_rollback_proposal primary \<noteq> Some rollback_id \<or> mp_primary_proposal rollback \<noteq> Some primary_id
       \<or> mp_target_nonce rollback \<noteq> mp_target_nonce primary)) InvalidRollbackLink) (\<lambda>_.
     bnd (checked_increment (mp_target_nonce primary)) (\<lambda>n.
     bnd (ensure (\<not> (m_target_nonce m \<noteq> n \<or> slot \<ge> ti_expiry_slot (mp_timing rollback)))
       InvalidRollbackLink) (\<lambda>_.
     bnd (require_freeze_execution_runway m rollback slot) (\<lambda>_.
     bnd (ok_or (checked_add (mp_upgraded_slot primary) (dl_rollback_slots (m_delays m)))
       ArithmeticOverflow_model) (\<lambda>rollback_ready_slot.
     bnd (ensure (\<not> (mp_upgraded_slot primary = 0 \<or> slot < ti_not_before_slot (mp_timing rollback)
       \<or> slot < rollback_ready_slot)) TimingViolation) (\<lambda>_.
     bnd (case failure_in_force m primary_id primary slot of
            Some f \<Rightarrow> ensure (fe_observed_programdata f = m_programdata m) ProgramDataChanged
          | None \<Rightarrow> Inr ()) (\<lambda>_.
     bnd (hard_poststate_failure m primary slot) (\<lambda>hard_failure.
     bnd (ensure (\<not> (failure_in_force m primary_id primary slot = None \<and> \<not> hard_failure))
       ProgramDataFailureEvidenceRequired) (\<lambda>_.
     bnd (checked_increment (ga_epoch (m_gate m))) (\<lambda>epoch.
     let m = m\<lparr>m_gate := (m_gate m)\<lparr>ga_epoch := epoch, ga_active_proposal := Some rollback_id,
                 ga_freeze_slot := slot, ga_freeze_reason := MODEL_GOVERNED_FREEZE_REASON\<rparr>\<rparr> in
     bnd (get_proposal m rollback_id) (\<lambda>rollback.
     Inr (put_proposal rollback_id
       (rollback\<lparr>mp_state := Frozen, mp_freeze_gate_epoch := epoch, mp_frozen_slot := slot\<rparr>) m)))))))))))))))"

section \<open>Unfreezing\<close>

definition approve_unfreeze :: "u64 \<Rightarrow> byte \<Rightarrow> u64 \<Rightarrow> model \<Rightarrow> model model_result" where
  "approve_unfreeze i seat slot m =
     bnd (get_proposal m i) (\<lambda>p.
     bnd (require_frozen_proposal m p) (\<lambda>_.
     bnd (ensure (\<not> ((mp_state p \<noteq> PoststateAccepted \<and>
         \<not> (mp_state p = UnfreezeApproved
             \<and> (aa_council_version (mp_unfreeze_approvals p) \<noteq> co_version (m_council m)
               \<or> aa_council_hash (mp_unfreeze_approvals p) \<noteq> co_hash (m_council m))))
       \<or> \<not> checkpoint_accepted (mp_poststate p))) CheckpointNotAccepted) (\<lambda>_.
     let p = (if mp_state p = UnfreezeApproved then p\<lparr>mp_state := PoststateAccepted\<rparr> else p) in
     bnd (record_current (mp_unfreeze_approvals p) (m_council m) seat slot) (\<lambda>(acc, crossed).
     let p = p\<lparr>mp_unfreeze_approvals := acc\<rparr>
     in Inr (put_proposal i (if crossed then p\<lparr>mp_state := UnfreezeApproved\<rparr> else p) m)))))"

definition execute_unfreeze :: "u64 \<Rightarrow> u64 \<Rightarrow> model \<Rightarrow> model model_result" where
  "execute_unfreeze i slot m =
     bnd (get_proposal m i) (\<lambda>p.
     bnd (require_controller_programdata_authority m) (\<lambda>_.
     bnd (require_frozen_proposal m p) (\<lambda>_.
     bnd (ensure (\<not> (mp_state p \<noteq> UnfreezeApproved \<or> \<not> checkpoint_accepted (mp_poststate p)
       \<or> aa_council_version (mp_unfreeze_approvals p) \<noteq> co_version (m_council m)
       \<or> aa_council_hash (mp_unfreeze_approvals p) \<noteq> co_hash (m_council m))) InvalidStateTransition_model) (\<lambda>_.
     bnd (is_complete_at (mp_unfreeze_approvals p) (m_council m) slot) (\<lambda>complete.
     bnd (ensure (\<not> (\<not> complete \<or> slot = 0)) InvalidStateTransition_model) (\<lambda>_.
     bnd (checked_increment (ga_epoch (m_gate m))) (\<lambda>epoch.
     let m = clear_gate_to_active
               (m\<lparr>m_gate := (m_gate m)\<lparr>ga_epoch := epoch, ga_last_completed_proposal := Some i\<rparr>\<rparr>);
         m = put_proposal i (p\<lparr>mp_state := Completed, mp_terminal_slot := slot,
               mp_terminal_reason := MODEL_COMPLETED_TERMINAL_REASON\<rparr>) m in
     if mp_class p = EmergencyRollback then
       bnd (ok_or (mp_primary_proposal p) InvalidRollbackLink) (\<lambda>primary_id.
       bnd (get_proposal m primary_id) (\<lambda>primary.
       Inr (put_proposal primary_id (primary\<lparr>mp_state := SupersededByRollback, mp_terminal_slot := slot,
         mp_terminal_reason := MODEL_SUPERSEDED_BY_ROLLBACK_TERMINAL_REASON\<rparr>) m)))
     else
       bnd (ok_or (mp_rollback_proposal p) InvalidRollbackLink) (\<lambda>rollback_id.
       bnd (get_proposal m rollback_id) (\<lambda>rollback.
       bnd (ensure (mp_state rollback = Timelocked) InvalidRollbackLink) (\<lambda>_.
       Inr (put_proposal rollback_id (rollback\<lparr>mp_state := Retired, mp_terminal_slot := slot,
         mp_terminal_reason := MODEL_RETIRED_ROLLBACK_TERMINAL_REASON\<rparr>) m)))))))))))"

section \<open>Emergency freeze and resolution\<close>

definition guardian_freeze :: "pubkey \<Rightarrow> u64 \<Rightarrow> u16 \<Rightarrow> model \<Rightarrow> model model_result" where
  "guardian_freeze guardian slot reason m =
     bnd (ensure (\<not> (guardian \<noteq> ig_guardian (m_graph m) \<or> ga_status (m_gate m) \<noteq> Active \<or> slot = 0
       \<or> reason = 0 \<or> reason = BOOTSTRAP_INITIALIZATION_FREEZE_REASON)) InvalidGate) (\<lambda>_.
     bnd (checked_increment (ga_epoch (m_gate m))) (\<lambda>epoch.
     bnd (ensure (map_of (m_emergency_freeze_observations m) epoch = None) InvalidGate) (\<lambda>_.
     Inr (m\<lparr>m_emergency_freeze_observations := bt_insert epoch
              \<lparr>fo_epoch = epoch, fo_freeze_slot = slot, fo_freeze_reason = reason,
               fo_programdata = m_current_guardian_runtime_observation m\<rparr> (m_emergency_freeze_observations m),
            m_gate := (m_gate m)\<lparr>ga_epoch := epoch, ga_status := EmergencyFrozen,
              ga_active_proposal := None, ga_freeze_slot := slot, ga_freeze_reason := reason\<rparr>\<rparr>))))"

definition create_emergency_resolution :: "u64 \<Rightarrow> model \<Rightarrow> (model \<times> u64) model_result" where
  "create_emergency_resolution slot m =
     bnd (ensure (\<not> (ga_status (m_gate m) \<noteq> EmergencyFrozen
       \<or> ga_freeze_reason (m_gate m) = BOOTSTRAP_INITIALIZATION_FREEZE_REASON
       \<or> ga_active_proposal (m_gate m) \<noteq> None \<or> slot = 0)) InvalidGate) (\<lambda>_.
     bnd (ok_or (map_of (m_emergency_freeze_observations m) (ga_epoch (m_gate m))) InvalidGate) (\<lambda>f.
     bnd (ensure (observation_matches_gate f (m_gate m)) InvalidGate) (\<lambda>_.
     let i = ga_epoch (m_gate m) in
     bnd (ensure (map_of (m_emergency_resolutions m) i = None) InvalidStateTransition_model) (\<lambda>_.
     bnd (ok_or (checked_add (fo_freeze_slot f) (dl_routine_slots (m_delays m))) ArithmeticOverflow_model) (\<lambda>not_before.
     bnd (ok_or (checked_add (fo_freeze_slot f) (dl_proposal_expiry_slots (m_delays m)))
       ArithmeticOverflow_model) (\<lambda>expiry.
     bnd (ensure (\<not> (not_before \<ge> expiry \<or> slot < fo_freeze_slot f \<or> slot \<ge> expiry)) TimingViolation) (\<lambda>_.
     Inr (put_resolution i
       \<lparr>er_id = i, er_state = Resolution_Draft, er_frozen_epoch = ga_epoch (m_gate m),
        er_freeze_slot = ga_freeze_slot (m_gate m), er_freeze_reason = ga_freeze_reason (m_gate m),
        er_target_nonce = m_target_nonce m, er_creation_slot = slot, er_not_before_slot = not_before,
        er_expiry_slot = expiry, er_observed_programdata = fo_programdata f,
        er_approvals = accumulator_default, er_checkpoint = None, er_checkpoint_attestations = [],
        er_executed_slot = 0, er_terminal_reason = 0\<rparr> m, i))))))))"

definition approve_emergency_resolution :: "u64 \<Rightarrow> byte \<Rightarrow> u64 \<Rightarrow> model \<Rightarrow> model model_result" where
  "approve_emergency_resolution i seat slot m =
     bnd (require_emergency_binding m i slot) (\<lambda>_.
     bnd (get_resolution m i) (\<lambda>r.
     bnd (ensure (\<not> slot < er_not_before_slot r) TimingViolation) (\<lambda>_.
     let approvals_stale = aa_council_version (er_approvals r) \<noteq> co_version (m_council m)
           \<or> aa_council_hash (er_approvals r) \<noteq> co_hash (m_council m) in
     bnd (ensure (\<not> (er_state r \<noteq> Resolution_Draft \<and>
         \<not> (approvals_stale \<and> er_state r \<in> {Resolution_CouncilApproved, Resolution_Timelocked})))
       InvalidStateTransition_model) (\<lambda>_.
     let r = (if er_state r \<noteq> Resolution_Draft then r\<lparr>er_state := Resolution_Draft\<rparr> else r) in
     bnd (record_current (er_approvals r) (m_council m) seat slot) (\<lambda>(acc, crossed).
     let r = r\<lparr>er_approvals := acc\<rparr>
     in Inr (put_resolution i (if crossed then r\<lparr>er_state := Resolution_CouncilApproved\<rparr> else r) m))))))"

definition queue_emergency_resolution :: "u64 \<Rightarrow> u64 \<Rightarrow> model \<Rightarrow> model model_result" where
  "queue_emergency_resolution i slot m =
     bnd (require_emergency_binding m i slot) (\<lambda>_.
     bnd (get_resolution m i) (\<lambda>r.
     bnd (ensure (\<not> slot < er_not_before_slot r) TimingViolation) (\<lambda>_.
     bnd (ensure (er_state r = Resolution_CouncilApproved) InvalidStateTransition_model) (\<lambda>_.
     bnd (is_complete_at (er_approvals r) (m_council m) slot) (\<lambda>complete.
     bnd (ensure complete InvalidStateTransition_model) (\<lambda>_.
     Inr (put_resolution i (r\<lparr>er_state := Resolution_Timelocked\<rparr>) m)))))))"

definition attest_emergency_checkpoint ::
    "env \<Rightarrow> u64 \<Rightarrow> byte \<Rightarrow> hard_state \<Rightarrow> u32 \<Rightarrow> u64 \<Rightarrow> model \<Rightarrow> model model_result" where
  "attest_emergency_checkpoint E i seat hard drift slot m =
     bnd (hard_state_validate E hard) (\<lambda>_.
     bnd (require_emergency_binding m i slot) (\<lambda>_.
     let c = m_council m in
     bnd (require_seat_active c seat slot) (\<lambda>_.
     bnd (seat_authority c seat) (\<lambda>authority.
     bnd (get_resolution m i) (\<lambda>r.
     bnd (ensure (\<not> slot < er_not_before_slot r) TimingViolation) (\<lambda>_.
     bnd (ensure (\<not> (er_state r \<noteq> Resolution_Timelocked \<or> er_checkpoint r \<noteq> None))
       InvalidStateTransition_model) (\<lambda>_.
     let a = \<lparr>at_subject_id = i, at_phase = Emergency, at_gate_epoch = er_frozen_epoch r,
              at_council_version = co_version c, at_council_hash = co_hash c, at_seat = seat,
              at_seat_authority = authority, at_hard_state = hard, at_forbidden_drift_count = drift,
              at_attested_slot = slot\<rparr>
     in Inr (put_resolution i
          (r\<lparr>er_checkpoint_attestations := upsert_attestation a (er_checkpoint_attestations r)\<rparr>) m))))))))"

definition finalize_emergency_checkpoint :: "u64 \<Rightarrow> byte list \<Rightarrow> u64 \<Rightarrow> model \<Rightarrow> model model_result" where
  "finalize_emergency_checkpoint i seats slot m =
     bnd (ensure (slot \<noteq> 0) InvalidStateTransition_model) (\<lambda>_.
     bnd (require_emergency_binding m i slot) (\<lambda>_.
     bnd (get_resolution m i) (\<lambda>r.
     bnd (ensure (\<not> slot < er_not_before_slot r) TimingViolation) (\<lambda>_.
     bnd (ensure (\<not> (er_state r \<noteq> Resolution_Timelocked \<or> er_checkpoint r \<noteq> None))
       InvalidStateTransition_model) (\<lambda>_.
     bnd (select_checkpoint_quorum m i Emergency (er_checkpoint_attestations r) seats slot) (\<lambda>(a, acc).
     Inr (put_resolution i (r\<lparr>er_checkpoint := Some (new_checkpoint m Emergency a acc slot)\<rparr>) m)))))))"

definition execute_emergency_resume :: "u64 \<Rightarrow> u64 \<Rightarrow> model \<Rightarrow> model model_result" where
  "execute_emergency_resume i slot m =
     bnd (require_emergency_binding m i slot) (\<lambda>_.
     bnd (get_resolution m i) (\<lambda>r.
     let checkpoint_ready = (case er_checkpoint r of None \<Rightarrow> False
           | Some ck \<Rightarrow> checkpoint_accepted (Some ck) \<and> ck_accepted_slot ck \<noteq> 0 \<and> slot \<ge> ck_accepted_slot ck);
         programdata_changed =
           er_observed_programdata r \<noteq> m_current_guardian_runtime_observation m \<or> \<not> runtime_canonical m;
         e = (if programdata_changed then ProgramDataChanged else InvalidStateTransition_model) in
     bnd (ensure (\<not> (er_state r \<noteq> Resolution_Timelocked \<or> slot < er_not_before_slot r
       \<or> slot \<ge> er_expiry_slot r \<or> aa_council_version (er_approvals r) \<noteq> co_version (m_council m)
       \<or> aa_council_hash (er_approvals r) \<noteq> co_hash (m_council m))) e) (\<lambda>_.
     bnd (is_complete_at (er_approvals r) (m_council m) slot) (\<lambda>complete.
     bnd (ensure (\<not> (\<not> complete \<or> \<not> checkpoint_ready \<or> programdata_changed)) e) (\<lambda>_.
     bnd (checked_increment (ga_epoch (m_gate m))) (\<lambda>epoch.
     let m = clear_gate_to_active (m\<lparr>m_gate := (m_gate m)\<lparr>ga_epoch := epoch\<rparr>\<rparr>)
     in Inr (put_resolution i (r\<lparr>er_state := Resolution_Executed, er_executed_slot := slot,
          er_terminal_reason := EMERGENCY_RESOLUTION_EXECUTED_TERMINAL_REASON\<rparr>) m)))))))"

definition expire_emergency_resolution :: "u64 \<Rightarrow> u64 \<Rightarrow> model \<Rightarrow> model model_result" where
  "expire_emergency_resolution i slot m =
     bnd (require_emergency_binding m i 0) (\<lambda>_.
     bnd (get_resolution m i) (\<lambda>r.
     bnd (ensure (er_state r \<in> {Resolution_Draft, Resolution_CouncilApproved, Resolution_Timelocked})
       InvalidStateTransition_model) (\<lambda>_.
     bnd (ensure (\<not> slot < er_expiry_slot r) TimingViolation) (\<lambda>_.
     Inr (put_resolution i (r\<lparr>er_state := Resolution_Expired,
       er_terminal_reason := EMERGENCY_RESOLUTION_EXPIRED_TERMINAL_REASON\<rparr>) m)))))"

section \<open>Council rotation\<close>

definition create_candidate_council_set ::
    "env \<Rightarrow> u64 \<Rightarrow> pubkey list \<Rightarrow> seat_term list \<Rightarrow> u64 \<Rightarrow> u64 \<Rightarrow> model \<Rightarrow> (model \<times> u64) model_result" where
  "create_candidate_council_set E version seats terms activation slot m =
     bnd (ensure (\<not> (slot = 0 \<or> version \<le> co_version (m_council m))) InvalidCouncil_model) (\<lambda>_.
     bnd (ok_or (checked_add slot (dl_major_slots (m_delays m))) ArithmeticOverflow_model) (\<lambda>minimum.
     bnd (ensure (\<not> activation < minimum) InvalidTiming_model) (\<lambda>_.
     bnd (council_new E version activation seats terms) (\<lambda>candidate.
     bnd (ensure (map_of (m_council_history m) version = None) InvalidCouncil_model) (\<lambda>_.
     bnd (ok_or (checked_add version 1) ArithmeticOverflow_model) (\<lambda>next.
     Inr (m\<lparr>m_council_history := bt_insert version candidate (m_council_history m),
       m_next_candidate_council_version := max (m_next_candidate_council_version m) next\<rparr>, version)))))))"

definition create_council_rotation :: "u64 \<Rightarrow> u64 \<Rightarrow> model \<Rightarrow> (model \<times> u64) model_result" where
  "create_council_rotation version slot m =
     bnd (ensure (\<not> (slot = 0 \<or> version \<le> co_version (m_council m))) InvalidTiming_model) (\<lambda>_.
     bnd (ok_or (checked_add slot (dl_major_slots (m_delays m))) ArithmeticOverflow_model) (\<lambda>minimum.
     bnd (ok_or (checked_add slot (dl_proposal_expiry_slots (m_delays m))) ArithmeticOverflow_model) (\<lambda>expiry.
     bnd (ok_or (map_of (m_council_history m) version) NotFound) (\<lambda>candidate.
     let not_before = co_activation_slot candidate in
     bnd (ensure (\<not> (not_before < minimum \<or> not_before \<ge> expiry)) InvalidTiming_model) (\<lambda>_.
     bnd (ensure (map_of (m_rotations m) version = None) InvalidStateTransition_model) (\<lambda>_.
     Inr (put_rotation version
       \<lparr>ro_id = version, ro_state = Rotation_Draft, ro_current_council_version = co_version (m_council m),
        ro_current_council_hash = co_hash (m_council m), ro_candidate = candidate,
        ro_target_nonce = m_target_nonce m, ro_creation_slot = slot, ro_not_before_slot = not_before,
        ro_expiry_slot = expiry, ro_approvals = pinned (m_council m),
        ro_cancellation_approvals = accumulator_default, ro_cancellation_reason = 0,
        ro_terminal_slot = 0, ro_terminal_reason = 0\<rparr> m, version)))))))"

definition rotation_current :: "model \<Rightarrow> council_rotation \<Rightarrow> bool" where
  "rotation_current m r \<longleftrightarrow> ro_current_council_version r = co_version (m_council m)
     \<and> ro_current_council_hash r = co_hash (m_council m) \<and> ro_target_nonce r = m_target_nonce m"

definition rotation_open :: "council_rotation \<Rightarrow> bool" where
  "rotation_open r \<longleftrightarrow> ro_state r \<in> {Rotation_Draft, Rotation_CouncilApproved, Rotation_Timelocked}"

definition approve_council_rotation :: "u64 \<Rightarrow> byte \<Rightarrow> u64 \<Rightarrow> model \<Rightarrow> model model_result" where
  "approve_council_rotation i seat slot m =
     bnd (get_rotation m i) (\<lambda>r.
     bnd (ensure (\<not> (ro_state r \<noteq> Rotation_Draft \<or> \<not> rotation_current m r
       \<or> slot < ro_creation_slot r \<or> slot \<ge> ro_expiry_slot r)) StaleBinding) (\<lambda>_.
     bnd (record_pinned (ro_approvals r) (m_council m) seat slot) (\<lambda>(acc, crossed).
     let r = r\<lparr>ro_approvals := acc\<rparr>
     in Inr (put_rotation i (if crossed then r\<lparr>ro_state := Rotation_CouncilApproved\<rparr> else r) m))))"

definition queue_council_rotation :: "u64 \<Rightarrow> u64 \<Rightarrow> model \<Rightarrow> model model_result" where
  "queue_council_rotation i slot m =
     bnd (get_rotation m i) (\<lambda>r.
     bnd (ensure (\<not> (ro_state r \<noteq> Rotation_CouncilApproved \<or> \<not> rotation_current m r
       \<or> slot < ro_creation_slot r \<or> slot \<ge> ro_expiry_slot r)) InvalidStateTransition_model) (\<lambda>_.
     bnd (is_complete_at (ro_approvals r) (m_council m) slot) (\<lambda>complete.
     bnd (ensure complete InvalidStateTransition_model) (\<lambda>_.
     Inr (put_rotation i (r\<lparr>ro_state := Rotation_Timelocked\<rparr>) m)))))"

definition approve_council_rotation_cancellation ::
    "u64 \<Rightarrow> byte \<Rightarrow> u64 \<Rightarrow> u16 \<Rightarrow> model \<Rightarrow> model model_result" where
  "approve_council_rotation_cancellation i seat slot reason m =
     bnd (get_rotation m i) (\<lambda>r.
     bnd (ensure (\<not> (\<not> rotation_open r \<or> \<not> rotation_current m r \<or> slot < ro_creation_slot r
       \<or> slot \<ge> ro_expiry_slot r \<or> reason = 0
       \<or> (ro_cancellation_reason r \<noteq> 0 \<and> ro_cancellation_reason r \<noteq> reason)
       \<or> ro_terminal_reason r \<noteq> 0)) StaleBinding) (\<lambda>_.
     let r = (if ro_cancellation_reason r = 0 then r\<lparr>ro_cancellation_reason := reason\<rparr> else r) in
     bnd (record_current (ro_cancellation_approvals r) (m_council m) seat slot) (\<lambda>(acc, crossed).
     let r = r\<lparr>ro_cancellation_approvals := acc\<rparr>
     in Inr (put_rotation i
          (if crossed then r\<lparr>ro_state := Rotation_Cancelled, ro_terminal_slot := slot,
             ro_terminal_reason := reason\<rparr> else r) m))))"

definition expire_council_rotation :: "u64 \<Rightarrow> u64 \<Rightarrow> model \<Rightarrow> model model_result" where
  "expire_council_rotation i slot m =
     bnd (get_rotation m i) (\<lambda>r.
     bnd (ensure (\<not> (\<not> rotation_open r \<or> slot < ro_expiry_slot r)) TimingViolation) (\<lambda>_.
     Inr (put_rotation i (r\<lparr>ro_state := Rotation_Expired, ro_terminal_slot := slot,
       ro_terminal_reason := COUNCIL_ROTATION_EXPIRED_TERMINAL_REASON\<rparr>) m)))"

definition activate_council_rotation :: "u64 \<Rightarrow> u64 \<Rightarrow> model \<Rightarrow> model model_result" where
  "activate_council_rotation i slot m =
     bnd (get_rotation m i) (\<lambda>r.
     bnd (ok_or (map_of (m_council_history m) (co_version (ro_candidate r))) StaleBinding) (\<lambda>canonical.
     bnd (ensure (\<not> (ro_state r \<noteq> Rotation_Timelocked \<or> slot < ro_not_before_slot r
       \<or> slot \<ge> ro_expiry_slot r \<or> \<not> rotation_current m r \<or> ro_id r \<noteq> co_version (ro_candidate r)
       \<or> canonical \<noteq> ro_candidate r)) StaleBinding) (\<lambda>_.
     bnd (is_complete_at (ro_approvals r) (m_council m) slot) (\<lambda>complete.
     bnd (ensure complete StaleBinding) (\<lambda>_.
     bnd (require_mask_active (ro_candidate r) MODEL_VALID_APPROVAL_MASK slot) (\<lambda>_.
     Inr (put_rotation i (r\<lparr>ro_state := Rotation_Activated, ro_terminal_slot := slot,
       ro_terminal_reason := COUNCIL_ROTATION_ACTIVATED_TERMINAL_REASON\<rparr>)
       (m\<lparr>m_council := ro_candidate r\<rparr>))))))))"

section \<open>Actions\<close>

definition observation_action :: "model_action \<Rightarrow> bool" where
  "observation_action a = (case a of
       GuardianFreeze _ _ _ \<Rightarrow> True
     | SetProgramDataObservation _ \<Rightarrow> True
     | SetProgramDataAuthorityObservation _ \<Rightarrow> True
     | SetGuardianRuntimeObservation _ \<Rightarrow> True
     | _ \<Rightarrow> False)"

definition applied :: "model model_result \<Rightarrow> (model \<times> model_outcome) model_result" where
  "applied r = bnd r (\<lambda>m. Inr (m, Applied))"

definition created :: "(u64 \<Rightarrow> model_outcome) \<Rightarrow> (model \<times> u64) model_result \<Rightarrow> (model \<times> model_outcome) model_result" where
  "created f r = bnd r (\<lambda>(m, i). Inr (m, f i))"

fun perform :: "env \<Rightarrow> model_action \<Rightarrow> model \<Rightarrow> (model \<times> model_outcome) model_result" where
  "perform E (Initialize i) m = applied (initialize_model E i m)"
| "perform E (SimulatePostHandoffActivation slot ok) m = applied (simulate_post_handoff_activation slot ok m)"
| "perform E (SetProgramDataObservation obs) m = applied (set_programdata_observation obs m)"
| "perform E (SetProgramDataAuthorityObservation auth) m = applied (set_programdata_authority auth m)"
| "perform E (SetGuardianRuntimeObservation g) m = applied (set_guardian_runtime_observation g m)"
| "perform E (CreateProposal rq) m = created ProposalCreated (create_proposal rq m)"
| "perform E (AdoptBuffer i) m = applied (transition_current_candidate i Draft BufferAdopted m)"
| "perform E (VerifyBuffer i) m = applied (transition_current_candidate i BufferAdopted BufferVerified m)"
| "perform E (ApproveProposal i seat slot) m = applied (approve_proposal i seat slot m)"
| "perform E (SatisfyGovernance i slot) m = applied (satisfy_governance i slot m)"
| "perform E (QueueProposal i slot) m = applied (queue_proposal i slot m)"
| "perform E (ApproveCancellation i seat slot reason) m = applied (approve_cancellation i seat slot reason m)"
| "perform E (ExpireProposal i slot) m = applied (expire_proposal i slot m)"
| "perform E (FreezeProposal i slot) m = applied (freeze_proposal i slot m)"
| "perform E (ConvertEmergencyFreeze i slot) m = applied (convert_emergency_freeze i slot m)"
| "perform E (AttestCheckpoint i ph seat hard drift slot) m = applied (attest_checkpoint E i ph seat hard drift slot m)"
| "perform E (FinalizeCheckpoint i ph seats slot) m = applied (finalize_checkpoint i ph seats slot m)"
| "perform E (ExtendTarget i slot) m = applied (extend_target i slot m)"
| "perform E (ExecuteUpgrade i slot) m = applied (execute_proposal_upgrade i slot m)"
| "perform E (VerifyProgramData i slot) m = applied (verify_programdata i slot m)"
| "perform E (RecordProgramDataFailure i kind slot) m = applied (record_programdata_failure i kind slot m)"
| "perform E (ActivateRollback primary rollback slot) m = applied (activate_rollback primary rollback slot m)"
| "perform E (ApproveUnfreeze i seat slot) m = applied (approve_unfreeze i seat slot m)"
| "perform E (ExecuteUnfreeze i slot) m = applied (execute_unfreeze i slot m)"
| "perform E (GuardianFreeze guardian slot reason) m = applied (guardian_freeze guardian slot reason m)"
| "perform E (CreateEmergencyResolution slot) m =
     created EmergencyResolutionCreated (create_emergency_resolution slot m)"
| "perform E (ApproveEmergencyResolution i seat slot) m = applied (approve_emergency_resolution i seat slot m)"
| "perform E (QueueEmergencyResolution i slot) m = applied (queue_emergency_resolution i slot m)"
| "perform E (AttestEmergencyCheckpoint i seat hard drift slot) m =
     applied (attest_emergency_checkpoint E i seat hard drift slot m)"
| "perform E (FinalizeEmergencyCheckpoint i seats slot) m = applied (finalize_emergency_checkpoint i seats slot m)"
| "perform E (ExecuteEmergencyResume i slot) m = applied (execute_emergency_resume i slot m)"
| "perform E (ExpireEmergencyResolution i slot) m = applied (expire_emergency_resolution i slot m)"
| "perform E (CreateCandidateCouncilSet version seats terms activation slot) m =
     created CandidateCouncilCreated (create_candidate_council_set E version seats terms activation slot m)"
| "perform E (CreateCouncilRotation version slot) m =
     created CouncilRotationCreated (create_council_rotation version slot m)"
| "perform E (ApproveCouncilRotation i seat slot) m = applied (approve_council_rotation i seat slot m)"
| "perform E (QueueCouncilRotation i slot) m = applied (queue_council_rotation i slot m)"
| "perform E (ApproveCouncilRotationCancellation i seat slot reason) m =
     applied (approve_council_rotation_cancellation i seat slot reason m)"
| "perform E (ExpireCouncilRotation i slot) m = applied (expire_council_rotation i slot m)"
| "perform E (ActivateCouncilRotation i slot) m = applied (activate_council_rotation i slot m)"
| "perform E EnableTokenGovernance m = Inl TokenGovernanceDisabled"

definition is_initialize :: "model_action \<Rightarrow> bool" where
  "is_initialize a = (case a of Initialize _ \<Rightarrow> True | _ \<Rightarrow> False)"

definition apply_in_place :: "env \<Rightarrow> model_action \<Rightarrow> model \<Rightarrow> (model \<times> model_outcome) model_result" where
  "apply_in_place E a m =
     (if is_initialize a then perform E a m
      else bnd (validate_core E m) (\<lambda>_.
           bnd (ensure (\<not> (ga_status (m_gate m) = Active \<and> \<not> runtime_canonical m \<and> \<not> observation_action a))
             ProgramDataChanged) (\<lambda>_.
           perform E a m)))"

text \<open>\<open>apply\<close> works on a clone: on an error the caller's model is untouched.\<close>

definition apply_model :: "env \<Rightarrow> model_action \<Rightarrow> model \<Rightarrow> model \<times> model_outcome model_result" where
  "apply_model E a m = (case apply_in_place E a m of Inl e \<Rightarrow> (m, Inl e) | Inr (m', out) \<Rightarrow> (m', Inr out))"

end
