(* ===== verification/Release1_Steps.thy ===== *)
theory Release1_Steps
  imports Release1_Model
begin

text \<open>
  The Release 1 state machine in terms of what happens to one proposal (\<open>amends\<close>) and to the whole model
  (\<open>turn\<close>), and the refinement lemma that every successful action is such a turn.  The invariants of
  \<open>Release1_Facts\<close> go by cases over turns instead of over the forty actions.
\<close>

lemma map_err_Inl_iff: "map_err f r = Inl e \<longleftrightarrow> (\<exists>x. r = Inl x \<and> e = f x)"
  by (cases r) auto

lemma checked_increment_ok [result_simps]: "checked_increment v = Inr w \<longleftrightarrow> unat w = unat v + 1"
  by (simp add: checked_increment_def result_simps)

lemma incremented_nonzero: "unat (w :: u64) = Suc n \<Longrightarrow> w \<noteq> 0"
  by auto

lemma get_proposal_ok [result_simps]: "get_proposal m i = Inr p \<longleftrightarrow> map_of (m_proposals m) i = Some p"
  by (simp add: get_proposal_def result_simps)

lemma get_rotation_ok [result_simps]: "get_rotation m i = Inr r \<longleftrightarrow> map_of (m_rotations m) i = Some r"
  by (simp add: get_rotation_def result_simps)

lemma get_resolution_ok [result_simps]:
  "get_resolution m i = Inr r \<longleftrightarrow> map_of (m_emergency_resolutions m) i = Some r"
  by (simp add: get_resolution_def result_simps)

section \<open>What happens to a proposal\<close>

definition active_in :: "model \<Rightarrow> model_proposal \<Rightarrow> bool" where
  "active_in m p \<longleftrightarrow> require_frozen_proposal m p = Inr ()"

text \<open>A quorum: three different seats, all of the five.\<close>

definition quorum :: "accumulator \<Rightarrow> bool" where
  "quorum a \<longleftrightarrow> voters (aa_bitset a) \<subseteq> {..<5} \<and> 3 \<le> card (voters (aa_bitset a))"

definition attested :: "model \<Rightarrow> checkpoint_phase \<Rightarrow> checkpoint \<Rightarrow> bool" where
  "attested m ph ck \<longleftrightarrow> ck_phase ck = ph \<and> ck_gate_epoch ck = ga_epoch (m_gate m) \<and> ck_finalized ck
     \<and> ck_accepted ck = (ck_forbidden_drift_count ck = 0) \<and> ck_rejected_hard_mismatch ck = (\<not> ck_accepted ck)
     \<and> is_complete (ck_approvals ck) \<and> quorum (ck_approvals ck)
     \<and> aa_council_version (ck_approvals ck) = co_version (m_council m)
     \<and> aa_council_hash (ck_approvals ck) = co_hash (m_council m)"

text \<open>The current gate accepts new work: it is active, or an emergency freeze that is not the bootstrap.\<close>

definition gate_open :: "model \<Rightarrow> bool" where
  "gate_open m \<longleftrightarrow> ga_status (m_gate m) \<noteq> FrozenForUpgrade \<and> \<not> bootstrap_frozen m"

inductive amends :: "model \<Rightarrow> model_proposal \<Rightarrow> model_proposal \<Rightarrow> bool" for m p where
  advance: "amends m p (p\<lparr>mp_state := s\<rparr>)"
    if "(mp_state p, s) \<in> {(Draft, BufferAdopted), (BufferAdopted, BufferVerified),
          (CouncilApproved, GovernanceSatisfied), (GovernanceSatisfied, Timelocked)}"
       "gate_open m" "mp_target_nonce p = m_target_nonce m"
| vote: "amends m p (p\<lparr>mp_initial_approvals := acc, mp_state := s\<rparr>)"
    if "mp_state p = BufferVerified" "gate_open m"
       "record_pinned (mp_initial_approvals p) (m_council m) seat slot = Inr (acc, crossed)"
       "ti_review_start_slot (mp_timing p) \<le> slot" "slot \<le> ti_review_end_slot (mp_timing p)"
       "s = (if crossed then CouncilApproved else BufferVerified)"
| cancel: "amends m p (p\<lparr>mp_cancellation_reason := reason, mp_cancellation_approvals := acc,
      mp_state := s, mp_terminal_slot := slot, mp_terminal_reason := terminal\<rparr>)"
    if "is_pre_freeze p" "s = mp_state p \<or> (s = Cancelled \<and> quorum acc)"
| expire: "amends m p (p\<lparr>mp_state := Expired, mp_terminal_slot := slot, mp_terminal_reason := terminal\<rparr>)"
    if "is_pre_freeze p" "ti_expiry_slot (mp_timing p) \<le> slot"
| annotate: "amends m p (p\<lparr>mp_prestate_attestations := as, mp_poststate_attestations := bs,
      mp_programdata_failure := f\<rparr>)"
    if "active_in m p" "f \<noteq> mp_programdata_failure p \<longrightarrow> mp_state p = UpgradeExecuted"
| prestate: "amends m p (p\<lparr>mp_prestate := Some ck\<rparr>)"
    if "active_in m p" "mp_state p = Frozen" "mp_prestate p = None" "attested m Prestate ck"
| poststate: "amends m p (p\<lparr>mp_poststate := Some ck, mp_state := s\<rparr>)"
    if "active_in m p" "mp_state p = ProgramDataVerified" "mp_poststate p = None" "attested m Poststate ck"
       "mp_prestate p = Some pre" "ck_accepted pre" "ck_accepted ck \<longrightarrow> ck_hard_state ck = ck_hard_state pre"
       "s = (if ck_accepted ck then PoststateAccepted else ProgramDataVerified)"
| extend: "amends m p (p\<lparr>mp_state := Extended, mp_extended_slot := slot\<rparr>)"
    if "active_in m p" "mp_state p = Frozen" "mp_extension_required p" "checkpoint_accepted (mp_prestate p)"
| install: "amends m p (p\<lparr>mp_state := UpgradeExecuted, mp_upgraded_slot := slot\<rparr>)"
    if "active_in m p" "mp_state p = (if mp_extension_required p then Extended else Frozen)"
       "checkpoint_accepted (mp_prestate p)" "slot < ti_expiry_slot (mp_timing p)"
| verified: "amends m p (p\<lparr>mp_state := ProgramDataVerified, mp_programdata_verified_slot := slot\<rparr>)"
    if "active_in m p" "mp_state p = UpgradeExecuted"
| unfreeze: "amends m p (p\<lparr>mp_unfreeze_approvals := acc, mp_state := s\<rparr>)"
    if "active_in m p" "mp_state p \<in> {PoststateAccepted, UnfreezeApproved}"
       "checkpoint_accepted (mp_poststate p)" "s = PoststateAccepted \<or> (s = UnfreezeApproved \<and> quorum acc)"

section \<open>What happens to the model\<close>

text \<open>Parts of the model that a turn leaves alone.\<close>

definition newly_drafted :: "model \<Rightarrow> model_proposal \<Rightarrow> bool" where
  "newly_drafted m p \<longleftrightarrow> mp_id p = m_next_proposal_id m \<and> mp_state p = Draft
     \<and> mp_target_nonce p = m_target_nonce m
     \<and> mp_creation_council_version p = co_version (m_council m) \<and> mp_creation_council_hash p = co_hash (m_council m)
     \<and> mp_initial_approvals p = pinned (m_council m) \<and> mp_prestate p = None \<and> mp_poststate p = None
     \<and> (if mp_class p = EmergencyRollback then mp_primary_proposal p \<noteq> None \<and> mp_rollback_proposal p = None
        else mp_primary_proposal p = None \<and> mp_rollback_proposal p \<noteq> None)"

definition linked_rollback :: "model \<Rightarrow> u64 \<Rightarrow> model_proposal \<Rightarrow> bool" where
  "linked_rollback m i p \<longleftrightarrow> (\<exists>j r. mp_rollback_proposal p = Some j \<and> map_of (m_proposals m) j = Some r
     \<and> mp_class r = EmergencyRollback \<and> mp_primary_proposal r = Some (mp_id p) \<and> mp_state r = Timelocked)"

inductive turn :: "env \<Rightarrow> model \<Rightarrow> model \<Rightarrow> bool" for E m where
  edit: "turn E m (put_proposal i p' m)" if "map_of (m_proposals m) i = Some p" "amends m p p'"
| draft: "turn E m (put_proposal (m_next_proposal_id m) p (m\<lparr>m_next_proposal_id := n\<rparr>))"
    if "newly_drafted m p" "unat n = unat (m_next_proposal_id m) + 1" "gate_open m"
| freeze: "turn E m (put_proposal i
      (p\<lparr>mp_state := Frozen, mp_freeze_gate_epoch := epoch, mp_frozen_slot := slot\<rparr>)
      (m\<lparr>m_target_nonce := nonce, m_gate := (m_gate m)\<lparr>ga_epoch := epoch, ga_status := FrozenForUpgrade,
         ga_active_proposal := Some i, ga_freeze_slot := slot, ga_freeze_reason := MODEL_GOVERNED_FREEZE_REASON\<rparr>\<rparr>))"
    if "map_of (m_proposals m) i = Some p" "mp_state p = Timelocked" "mp_class p \<noteq> EmergencyRollback"
       "gate_open m" "linked_rollback m i p" "mp_target_nonce p = m_target_nonce m" "slot \<noteq> 0"
       "ti_not_before_slot (mp_timing p) \<le> slot" "slot < ti_expiry_slot (mp_timing p)"
       "unat nonce = unat (m_target_nonce m) + 1" "unat epoch = unat (ga_epoch (m_gate m)) + 1"
| roll_back: "turn E m (put_proposal j
      (r\<lparr>mp_state := Frozen, mp_freeze_gate_epoch := epoch, mp_frozen_slot := slot\<rparr>)
      (m\<lparr>m_gate := (m_gate m)\<lparr>ga_epoch := epoch, ga_active_proposal := Some j,
         ga_freeze_slot := slot, ga_freeze_reason := MODEL_GOVERNED_FREEZE_REASON\<rparr>\<rparr>))"
    if "map_of (m_proposals m) i = Some p" "map_of (m_proposals m) j = Some r" "active_in m p"
       "mp_state p \<in> {UpgradeExecuted, ProgramDataVerified}" "mp_rollback_proposal p = Some j"
       "mp_state r = Timelocked" "mp_class r = EmergencyRollback" "mp_primary_proposal r = Some i"
       "slot \<noteq> 0" "unat epoch = unat (ga_epoch (m_gate m)) + 1"
| complete_primary: "turn E m (put_proposal j (r\<lparr>mp_state := Retired, mp_terminal_slot := slot, mp_terminal_reason := c\<rparr>)
      (put_proposal i (p\<lparr>mp_state := Completed, mp_terminal_slot := slot, mp_terminal_reason := d\<rparr>)
        (clear_gate_to_active (m\<lparr>m_gate := (m_gate m)\<lparr>ga_epoch := epoch, ga_last_completed_proposal := Some i\<rparr>\<rparr>))))"
    if "map_of (m_proposals m) i = Some p" "active_in m p" "mp_state p = UnfreezeApproved"
       "quorum (mp_unfreeze_approvals p)" "mp_class p \<noteq> EmergencyRollback" "mp_rollback_proposal p = Some j"
       "map_of (m_proposals m) j = Some r" "mp_state r = Timelocked" "i \<noteq> j"
       "unat epoch = unat (ga_epoch (m_gate m)) + 1"
| complete_rollback: "turn E m (put_proposal j
      (r\<lparr>mp_state := SupersededByRollback, mp_terminal_slot := slot, mp_terminal_reason := c\<rparr>)
      (put_proposal i (p\<lparr>mp_state := Completed, mp_terminal_slot := slot, mp_terminal_reason := d\<rparr>)
        (clear_gate_to_active (m\<lparr>m_gate := (m_gate m)\<lparr>ga_epoch := epoch, ga_last_completed_proposal := Some i\<rparr>\<rparr>))))"
    if "map_of (m_proposals m) i = Some p" "active_in m p" "mp_state p = UnfreezeApproved"
       "quorum (mp_unfreeze_approvals p)" "mp_class p = EmergencyRollback" "mp_primary_proposal p = Some j"
       "i \<noteq> j \<longrightarrow> map_of (m_proposals m) j = Some r" "unat epoch = unat (ga_epoch (m_gate m)) + 1"
| guard: "turn E m (m\<lparr>m_emergency_freeze_observations := bt_insert epoch f (m_emergency_freeze_observations m),
      m_gate := (m_gate m)\<lparr>ga_epoch := epoch, ga_status := EmergencyFrozen, ga_active_proposal := None,
        ga_freeze_slot := fo_freeze_slot f, ga_freeze_reason := fo_freeze_reason f\<rparr>\<rparr>)"
    if "ga_status (m_gate m) = Active" "unat epoch = unat (ga_epoch (m_gate m)) + 1" "fo_epoch f = epoch"
       "fo_freeze_slot f \<noteq> 0" "fo_freeze_reason f \<noteq> 0"
       "fo_freeze_reason f \<noteq> BOOTSTRAP_INITIALIZATION_FREEZE_REASON"
       "fo_programdata f = m_current_guardian_runtime_observation m"
| resume: "turn E m (clear_gate_to_active (m\<lparr>m_emergency_resolutions := rs,
      m_gate := (m_gate m)\<lparr>ga_epoch := epoch\<rparr>\<rparr>))"
    if "ga_status (m_gate m) = EmergencyFrozen" "unat epoch = unat (ga_epoch (m_gate m)) + 1"
| observe: "turn E m (m\<lparr>m_current_programdata_authority := auth,
      m_current_guardian_runtime_observation := g, m_programdata := obs\<rparr>)"
    if "observation_validate obs = Inr ()" "auth \<noteq> Some 0" "validate_persistable g = Inr ()"
| aside: "turn E m (m\<lparr>m_rotations := rs, m_emergency_resolutions := es\<rparr>)"
| candidate: "turn E m (m\<lparr>m_council_history := bt_insert version c (m_council_history m),
      m_next_candidate_council_version := max (m_next_candidate_council_version m) n\<rparr>)"
    if "council_validate E c = Inr ()" "co_version c = version" "unat n = unat version + 1"
       "map_of (m_council_history m) version = None"
| rotate: "turn E m (m\<lparr>m_council := c, m_rotations := rs\<rparr>)"
    if "map_of (m_council_history m) (co_version c) = Some c"
       "map_of (m_rotations m) i = Some r" "ro_candidate r = c" "ro_state r = Rotation_Timelocked"
       "quorum (ro_approvals r)" "aa_council_version (ro_approvals r) = co_version (m_council m)"
       "aa_council_hash (ro_approvals r) = co_hash (m_council m)"

section \<open>Quorums\<close>

lemma within_mask: "b AND NOT MODEL_VALID_APPROVAL_MASK = 0 \<Longrightarrow> voters b \<subseteq> {..<5}"
proof
  fix i assume zero: "b AND NOT MODEL_VALID_APPROVAL_MASK = 0" and "i \<in> voters b"
  then have "i < 8" "bit b i" by (simp_all add: voters_def)
  moreover have "\<not> bit (b AND NOT MODEL_VALID_APPROVAL_MASK) i" using zero by simp
  ultimately have "bit MODEL_VALID_APPROVAL_MASK i" by (simp add: bit_simps)
  also have "MODEL_VALID_APPROVAL_MASK = mask 5"
    by (simp add: MODEL_VALID_APPROVAL_MASK_def mask_eq_exp_minus_1)
  finally show "i \<in> {..<5}" by (simp add: bit_mask_iff)
qed

lemma complete_quorum:
  assumes "voters (aa_bitset a) \<subseteq> {..<5}" "aa_count a = of_nat (pop_count (aa_bitset a))" "is_complete a"
  shows "quorum a"
  using assms pop_count_byte [of "aa_bitset a"]
  by (simp add: quorum_def is_complete_def MODEL_ROUTINE_THRESHOLD_def word_le_nat_alt card_voters)

lemma accumulator_validD:
  assumes "accumulator_validate a = Inr u"
  shows "voters (aa_bitset a) \<subseteq> {..<5}" "aa_count a = of_nat (pop_count (aa_bitset a))"
  using assms within_mask by (auto simp: accumulator_validate_def ensure_ok)

lemma complete_at_quorum:
  assumes "is_complete_at a c slot = Inr True"
  shows "quorum a" "is_complete a" "aa_council_version a = co_version c" "aa_council_hash a = co_hash c"
  using assms accumulator_validD [of a] complete_quorum [of a] by (auto simp: is_complete_at_def bnd_Inr_iff ensure_ok)

lemma record_seat_quorum:
  assumes "record_seat a seat = Inr (a', crossed)" "voters (aa_bitset a) \<subseteq> {..<5}"
  shows "crossed \<Longrightarrow> quorum a'" "aa_council_version a' = aa_council_version a"
    "aa_council_hash a' = aa_council_hash a"
proof -
  have seat: "unat seat < 5" and a': "a' = a\<lparr>aa_bitset := aa_bitset a OR shl1 (unat seat),
      aa_count := of_nat (pop_count (aa_bitset a OR shl1 (unat seat)))\<rparr>"
    and crossed: "crossed \<Longrightarrow> is_complete a'"
    using assms(1) by (auto simp: record_seat_def bnd_Inr_iff ensure_ok Let_def MODEL_COUNCIL_SIZE_def)
  have "voters (aa_bitset a') \<subseteq> {..<5}"
    using seat assms(2) by (auto simp: a' voters_or)
  then show "quorum a'" if crossed
    using crossed [OF that] complete_quorum [of a'] by (simp add: a')
  show "aa_council_version a' = aa_council_version a" "aa_council_hash a' = aa_council_hash a"
    by (simp_all add: a')
qed

lemma record_current_quorum: "record_current a c seat slot = Inr (a', True) \<Longrightarrow> quorum a'"
  using record_seat_quorum(1) [of _ seat a' True] accumulator_validD(1) [of a]
  by (fastforce simp: record_current_def bnd_Inr_iff Let_def pinned_def voters_def split: if_splits)

lemma record_pinned_quorum:
  assumes "record_pinned a c seat slot = Inr (a', crossed)"
  shows "crossed \<Longrightarrow> quorum a'" "aa_council_version a' = co_version c" "aa_council_hash a' = co_hash c"
  using assms record_seat_quorum [of a seat a' crossed] accumulator_validD(1) [of a]
  by (auto simp: record_pinned_def bnd_Inr_iff ensure_ok)

section \<open>The actions on one proposal\<close>

lemma creation_gate_open: "require_creation_gate m p = Inr u \<Longrightarrow> gate_open m"
  by (auto simp: require_creation_gate_def gate_open_def bnd_Inr_iff ensure_ok split: gate_status.splits)

lemma current_nonce: "require_current_nonce m p = Inr u \<longleftrightarrow> mp_target_nonce p = m_target_nonce m"
  by (simp add: require_current_nonce_def ensure_ok)

lemma editI: "map_of (m_proposals m) i = Some p \<Longrightarrow> amends m p p' \<Longrightarrow> m' = put_proposal i p' m \<Longrightarrow> turn E m m'"
  by (simp add: turn.edit)

lemma transition_turn:
  assumes "transition_simple i s s' m = Inr m'" "map_of (m_proposals m) i = Some p"
    and "gate_open m" "mp_target_nonce p = m_target_nonce m"
    and "(s, s') \<in> {(Draft, BufferAdopted), (BufferAdopted, BufferVerified),
          (CouncilApproved, GovernanceSatisfied), (GovernanceSatisfied, Timelocked)}"
  shows "turn E m m'"
  using assms by (intro editI [OF assms(2) amends.advance [of p s']])
    (auto simp: transition_simple_def bnd_Inr_iff ensure_ok get_proposal_ok)

lemma candidate_turn:
  assumes "transition_current_candidate i s s' m = Inr m'" "(s, s') \<in> {(Draft, BufferAdopted), (BufferAdopted, BufferVerified)}"
  shows "turn E m m'"
  using assms by (auto simp: transition_current_candidate_def bnd_Inr_iff get_proposal_ok current_nonce
      dest!: creation_gate_open intro: transition_turn)

lemma satisfy_turn: "satisfy_governance i slot m = Inr m' \<Longrightarrow> turn E m m'"
  by (auto simp: satisfy_governance_def bnd_Inr_iff get_proposal_ok current_nonce
      dest!: creation_gate_open intro: transition_turn)

lemma queue_turn: "queue_proposal i slot m = Inr m' \<Longrightarrow> turn E m m'"
  by (auto simp: queue_proposal_def bnd_Inr_iff get_proposal_ok current_nonce
      dest!: creation_gate_open intro: transition_turn)

lemma approve_turn: "approve_proposal i seat slot m = Inr m' \<Longrightarrow> turn E m m'"
proof (clarsimp simp: approve_proposal_def bnd_Inr_iff get_proposal_ok ensure_ok Let_def)
  fix p acc crossed
  assume p: "map_of (m_proposals m) i = Some p" "mp_state p = BufferVerified"
    "require_creation_gate m p = Inr ()"
    "record_pinned (mp_initial_approvals p) (m_council m) seat slot = Inr (acc, crossed)"
    "\<not> slot < ti_review_start_slot (mp_timing p)" "\<not> ti_review_end_slot (mp_timing p) < slot"
  have "amends m p (p\<lparr>mp_initial_approvals := acc, mp_state := (if crossed then CouncilApproved else BufferVerified)\<rparr>)"
    by (rule amends.vote) (use p creation_gate_open in auto)
  moreover have "(if crossed then p\<lparr>mp_initial_approvals := acc, mp_state := CouncilApproved\<rparr>
      else p\<lparr>mp_initial_approvals := acc\<rparr>) =
    p\<lparr>mp_initial_approvals := acc, mp_state := (if crossed then CouncilApproved else BufferVerified)\<rparr>"
    using p(2) by simp
  ultimately show "(crossed \<longrightarrow> turn E m (put_proposal i (p\<lparr>mp_initial_approvals := acc, mp_state := CouncilApproved\<rparr>) m)) \<and>
      (\<not> crossed \<longrightarrow> turn E m (put_proposal i (p\<lparr>mp_initial_approvals := acc\<rparr>) m))"
    using turn.edit [OF p(1)] by metis
qed

lemma cancel_turn: "approve_cancellation i seat slot reason m = Inr m' \<Longrightarrow> turn E m m'"
proof -
  assume ok: "approve_cancellation i seat slot reason m = Inr m'"
  obtain p acc crossed where p: "map_of (m_proposals m) i = Some p" "is_pre_freeze p"
    and acc: "record_current (mp_cancellation_approvals p) (m_council m) seat slot = Inr (acc, crossed)"
    and m': "m' = put_proposal i
          (let p = (if mp_cancellation_reason p = 0 then p\<lparr>mp_cancellation_reason := reason\<rparr> else p)\<lparr>mp_cancellation_approvals := acc\<rparr>
           in if crossed then p\<lparr>mp_state := Cancelled, mp_terminal_slot := slot, mp_terminal_reason := reason\<rparr>
              else p) m"
    using ok by (auto simp: approve_cancellation_def bnd_Inr_iff get_proposal_ok ensure_ok Let_def split: if_splits)
  let ?p = "p\<lparr>mp_cancellation_reason := if mp_cancellation_reason p = 0 then reason else mp_cancellation_reason p,
    mp_cancellation_approvals := acc, mp_state := if crossed then Cancelled else mp_state p,
    mp_terminal_slot := if crossed then slot else mp_terminal_slot p,
    mp_terminal_reason := if crossed then reason else mp_terminal_reason p\<rparr>"
  have "amends m p ?p"
    by (rule amends.cancel) (use p acc record_current_quorum in auto)
  moreover have "m' = put_proposal i ?p m"
    unfolding m' by (simp add: Let_def)
  ultimately show ?thesis using editI [OF p(1)] by blast
qed

lemma expire_turn: "expire_proposal i slot m = Inr m' \<Longrightarrow> turn E m m'"
  by (auto simp: expire_proposal_def bnd_Inr_iff get_proposal_ok ensure_ok
      intro!: editI [OF _ amends.expire [where slot = slot]])

lemma attest_turn: "attest_checkpoint E i ph seat hard drift slot m = Inr m' \<Longrightarrow> turn F m m'"
proof -
  assume ok: "attest_checkpoint E i ph seat hard drift slot m = Inr m'"
  obtain p as where p: "map_of (m_proposals m) i = Some p" "active_in m p"
    and m': "m' = put_proposal i (if ph = Prestate then p\<lparr>mp_prestate_attestations := as\<rparr>
                             else p\<lparr>mp_poststate_attestations := as\<rparr>) m"
    using ok by (auto simp: attest_checkpoint_def bnd_Inr_iff get_proposal_ok active_in_def Let_def)
  have "amends m p (p\<lparr>mp_prestate_attestations := if ph = Prestate then as else mp_prestate_attestations p,
      mp_poststate_attestations := if ph = Prestate then mp_poststate_attestations p else as,
      mp_programdata_failure := mp_programdata_failure p\<rparr>)"
    by (rule amends.annotate) (use p in auto)
  then show ?thesis
    by (rule editI [OF p(1)]) (simp add: m')
qed

lemma extend_turn: "extend_target i slot m = Inr m' \<Longrightarrow> turn E m m'"
  by (auto simp: extend_target_def bnd_Inr_iff get_proposal_ok ensure_ok active_in_def
      intro!: editI amends.extend)

lemma install_turn: "execute_proposal_upgrade i slot m = Inr m' \<Longrightarrow> turn E m m'"
  by (auto simp: execute_proposal_upgrade_def bnd_Inr_iff get_proposal_ok ensure_ok active_in_def Let_def
      intro!: editI amends.install split: if_splits)

lemma verify_turn: "verify_programdata i slot m = Inr m' \<Longrightarrow> turn E m m'"
  by (auto simp: verify_programdata_def bnd_Inr_iff get_proposal_ok ensure_ok active_in_def
      intro!: editI amends.verified)

lemma failure_turn: "record_programdata_failure i kind slot m = Inr m' \<Longrightarrow> turn E m m'"
proof -
  assume ok: "record_programdata_failure i kind slot m = Inr m'"
  obtain p f where p: "map_of (m_proposals m) i = Some p" "active_in m p" "mp_state p = UpgradeExecuted"
    and m': "m' = put_proposal i (p\<lparr>mp_programdata_failure := Some f\<rparr>) m"
    using ok by (auto simp: record_programdata_failure_def bnd_Inr_iff get_proposal_ok active_in_def ensure_ok)
  have "amends m p (p\<lparr>mp_prestate_attestations := mp_prestate_attestations p,
      mp_poststate_attestations := mp_poststate_attestations p, mp_programdata_failure := Some f\<rparr>)"
    by (rule amends.annotate) (use p in auto)
  then show ?thesis
    by (rule editI [OF p(1)]) (simp add: m')
qed

lemma unfreeze_vote_turn: "approve_unfreeze i seat slot m = Inr m' \<Longrightarrow> turn E m m'"
proof -
  assume ok: "approve_unfreeze i seat slot m = Inr m'"
  obtain p acc crossed where p: "map_of (m_proposals m) i = Some p" "active_in m p"
      "mp_state p \<in> {PoststateAccepted, UnfreezeApproved}" "checkpoint_accepted (mp_poststate p)"
    and acc: "record_current (mp_unfreeze_approvals p) (m_council m) seat slot = Inr (acc, crossed)"
    and m': "m' = put_proposal i (let p = (if mp_state p = UnfreezeApproved then p\<lparr>mp_state := PoststateAccepted\<rparr> else p)
        \<lparr>mp_unfreeze_approvals := acc\<rparr> in if crossed then p\<lparr>mp_state := UnfreezeApproved\<rparr> else p) m"
    using ok by (auto simp: approve_unfreeze_def bnd_Inr_iff get_proposal_ok active_in_def ensure_ok Let_def split: if_splits)
  have "amends m p (p\<lparr>mp_unfreeze_approvals := acc,
      mp_state := if crossed then UnfreezeApproved else PoststateAccepted\<rparr>)"
    by (rule amends.unfreeze) (use p acc record_current_quorum in auto)
  then show ?thesis
    by (rule editI [OF p(1)]) (use p(3) in \<open>cases p; auto simp: m'\<close>)
qed

section \<open>Checkpoints\<close>

lemma quorum_loop_pinned:
  "quorum_loop m subject ph as slot seats selected acc = Inr (selected', acc') \<Longrightarrow>
   aa_council_version acc = co_version (m_council m) \<Longrightarrow> aa_council_hash acc = co_hash (m_council m) \<Longrightarrow>
   aa_council_version acc' = co_version (m_council m) \<and> aa_council_hash acc' = co_hash (m_council m)"
  by (induction seats arbitrary: selected acc)
    (auto simp: bnd_Inr_iff record_current_def record_seat_def Let_def ensure_ok split: prod.splits if_splits)

lemma selected_attested:
  assumes "select_checkpoint_quorum m subject ph as seats slot = Inr (a, acc)"
  shows "attested m ph' (new_checkpoint m ph' a acc slot')"
  using assms complete_at_quorum [of acc "m_council m" slot]
  by (auto simp: select_checkpoint_quorum_def bnd_Inr_iff ensure_ok attested_def new_checkpoint_def Let_def)

lemma finalize_turn: "finalize_checkpoint i ph seats slot m = Inr m' \<Longrightarrow> turn E m m'"
proof -
  assume ok: "finalize_checkpoint i ph seats slot m = Inr m'"
  obtain p a acc where p: "map_of (m_proposals m) i = Some p" "active_in m p" "phase_open ph p"
    and sel: "select_checkpoint_quorum m i ph (phase_attestations ph p) seats slot = Inr (a, acc)"
    and pre: "ph = Poststate \<Longrightarrow> \<exists>pre. mp_prestate p = Some pre \<and> ck_accepted pre \<and>
        (at_hard_state a = ck_hard_state pre \<or> at_forbidden_drift_count a \<noteq> 0)"
    and m': "m' = put_proposal i (let ck = new_checkpoint m ph a acc slot in
        if ph = Prestate then p\<lparr>mp_prestate := Some ck\<rparr>
        else if ck_accepted ck then p\<lparr>mp_poststate := Some ck, mp_state := PoststateAccepted\<rparr>
        else p\<lparr>mp_poststate := Some ck\<rparr>) m"
    using ok by (auto simp: finalize_checkpoint_def bnd_Inr_iff get_proposal_ok active_in_def ensure_ok Let_def
        split: if_splits option.splits)
  let ?ck = "new_checkpoint m ph a acc slot"
  have good: "attested m ph ?ck" "ck_accepted ?ck \<longleftrightarrow> at_forbidden_drift_count a = 0" "ck_hard_state ?ck = at_hard_state a"
    using selected_attested [OF sel] by (auto simp: new_checkpoint_def Let_def)
  show ?thesis
  proof (cases "ph = Prestate")
    case True
    then have "amends m p (p\<lparr>mp_prestate := Some ?ck\<rparr>)"
      using p good by (intro amends.prestate) (auto simp: phase_open_def)
    with True show ?thesis using editI [OF p(1)] by (simp add: m')
  next
    case False
    with p(3) have post: "ph = Poststate" "mp_state p = ProgramDataVerified" "mp_poststate p = None"
      by (cases ph; simp add: phase_open_def)+
    with pre obtain pre where pre: "mp_prestate p = Some pre" "ck_accepted pre"
      "ck_accepted ?ck \<longrightarrow> ck_hard_state ?ck = ck_hard_state pre" using good by auto
    have "amends m p (p\<lparr>mp_poststate := Some ?ck,
        mp_state := if ck_accepted ?ck then PoststateAccepted else ProgramDataVerified\<rparr>)"
      by (rule amends.poststate [OF p(2) post(2,3) _ pre]) (use good post in simp_all)
    then show ?thesis
      by (rule editI [OF p(1)]) (use post in \<open>cases p; simp add: m' Let_def\<close>)
  qed
qed

section \<open>The actions on the gate\<close>

lemma timing_nonzero: "validate_proposal_timing m p = Inr u \<Longrightarrow> ti_not_before_slot (mp_timing p) \<noteq> 0"
  by (auto simp: validate_proposal_timing_def proposal_timing_def bnd_Inr_iff ensure_ok result_simps
      dest!: arg_cong [where f = ti_not_before_slot])

lemma prepared_linked:
  assumes "validate_prepared_rollback m p slot = Inr u"
  shows "linked_rollback m i p"
  using assms by (auto simp: validate_prepared_rollback_def bnd_Inr_iff ensure_ok result_simps linked_rollback_def)

lemma consume_turn:
  assumes "consume_proposal_freeze i slot m = Inr m'"
    and "map_of (m_proposals m) i = Some p" "mp_state p = Timelocked" "mp_class p \<noteq> EmergencyRollback"
    and "gate_open m" "validate_prepared_rollback m p slot = Inr u" "mp_target_nonce p = m_target_nonce m"
    and "validate_proposal_timing m p = Inr v" "ti_not_before_slot (mp_timing p) \<le> slot" "slot < ti_expiry_slot (mp_timing p)"
  shows "turn E m m'"
proof -
  have "slot \<noteq> 0" using assms(9) timing_nonzero [OF assms(8)] by auto
  moreover obtain nonce epoch where "unat nonce = unat (m_target_nonce m) + 1"
    "unat epoch = unat (ga_epoch (m_gate m)) + 1"
    and m': "m' = put_proposal i (p\<lparr>mp_state := Frozen, mp_freeze_gate_epoch := epoch, mp_frozen_slot := slot\<rparr>)
      (m\<lparr>m_target_nonce := nonce, m_gate := (m_gate m)\<lparr>ga_epoch := epoch, ga_status := FrozenForUpgrade,
         ga_active_proposal := Some i, ga_freeze_slot := slot, ga_freeze_reason := MODEL_GOVERNED_FREEZE_REASON\<rparr>\<rparr>)"
    using assms(1,2) by (auto simp: consume_proposal_freeze_def bnd_Inr_iff checked_increment_ok Let_def get_proposal_ok)
  ultimately show ?thesis unfolding m' 
    by (intro turn.freeze assms prepared_linked [OF assms(6)]) 
qed

lemma freeze_turn: "freeze_proposal i slot m = Inr m' \<Longrightarrow> turn E m m'"
  by (auto simp: freeze_proposal_def bnd_Inr_iff get_proposal_ok ensure_ok current_nonce not_less
      dest!: creation_gate_open intro: consume_turn)

lemma convert_turn: "convert_emergency_freeze i slot m = Inr m' \<Longrightarrow> turn E m m'"
  by (auto simp: convert_emergency_freeze_def bnd_Inr_iff get_proposal_ok ensure_ok current_nonce not_less
      dest!: creation_gate_open intro: consume_turn)

lemma evidence_state:
  "failure_in_force m i p slot \<noteq> None \<or> hard_poststate_failure m p slot = Inr True \<Longrightarrow>
   mp_state p \<in> {UpgradeExecuted, ProgramDataVerified}"
  by (auto simp: failure_in_force_def hard_poststate_failure_def split: option.splits if_splits)

lemma rollback_turn: "activate_rollback i j slot m = Inr m' \<Longrightarrow> turn E m m'"
proof -
  assume ok: "activate_rollback i j slot m = Inr m'"
  obtain p r ready h epoch where p: "map_of (m_proposals m) i = Some p" "active_in m p" "mp_rollback_proposal p = Some j"
    and r: "map_of (m_proposals m) j = Some r" "mp_state r = Timelocked" "mp_class r = EmergencyRollback"
      "mp_primary_proposal r = Some i"
    and ready: "unat ready = unat (mp_upgraded_slot p) + unat (dl_rollback_slots (m_delays m))"
      "mp_upgraded_slot p \<noteq> 0" "\<not> slot < ready"
    and evidence: "hard_poststate_failure m p slot = Inr h" "failure_in_force m i p slot \<noteq> None \<or> h"
    and epoch: "unat epoch = unat (ga_epoch (m_gate m)) + 1"
    and m': "m' = put_proposal j (r\<lparr>mp_state := Frozen, mp_freeze_gate_epoch := epoch, mp_frozen_slot := slot\<rparr>)
      (m\<lparr>m_gate := (m_gate m)\<lparr>ga_epoch := epoch, ga_active_proposal := Some j,
         ga_freeze_slot := slot, ga_freeze_reason := MODEL_GOVERNED_FREEZE_REASON\<rparr>\<rparr>)"
    using ok by (auto simp: activate_rollback_def bnd_Inr_iff get_proposal_ok ensure_ok active_in_def
        checked_increment_ok ok_or_Inr_iff checked_add_Some_iff Let_def)
  have "slot \<noteq> 0"
    using ready by (auto simp: word_less_nat_alt unat_gt_0)
  moreover have "mp_state p \<in> {UpgradeExecuted, ProgramDataVerified}"
    using evidence evidence_state [of m i p slot] by auto
  ultimately show ?thesis
    unfolding m' by (intro turn.roll_back [OF p(1) r(1) p(2) _ p(3) r(2-4)] epoch)
qed

lemma unfreeze_turn: "execute_unfreeze i slot m = Inr m' \<Longrightarrow> turn E m m'"
proof -
  assume ok: "execute_unfreeze i slot m = Inr m'"
  let ?done = "\<lambda>p epoch. put_proposal i (p\<lparr>mp_state := Completed, mp_terminal_slot := slot,
      mp_terminal_reason := MODEL_COMPLETED_TERMINAL_REASON\<rparr>)
    (clear_gate_to_active (m\<lparr>m_gate := (m_gate m)\<lparr>ga_epoch := epoch, ga_last_completed_proposal := Some i\<rparr>\<rparr>))"
  obtain p epoch where p: "map_of (m_proposals m) i = Some p" "active_in m p" "mp_state p = UnfreezeApproved"
      "is_complete_at (mp_unfreeze_approvals p) (m_council m) slot = Inr True"
    and epoch: "unat epoch = unat (ga_epoch (m_gate m)) + 1"
    and tail: "if mp_class p = EmergencyRollback then
       (\<exists>j r. mp_primary_proposal p = Some j \<and> map_of (m_proposals (?done p epoch)) j = Some r \<and>
         m' = put_proposal j (r\<lparr>mp_state := SupersededByRollback, mp_terminal_slot := slot,
            mp_terminal_reason := MODEL_SUPERSEDED_BY_ROLLBACK_TERMINAL_REASON\<rparr>) (?done p epoch))
     else (\<exists>j r. mp_rollback_proposal p = Some j \<and> map_of (m_proposals (?done p epoch)) j = Some r \<and>
         mp_state r = Timelocked \<and>
         m' = put_proposal j (r\<lparr>mp_state := Retired, mp_terminal_slot := slot,
            mp_terminal_reason := MODEL_RETIRED_ROLLBACK_TERMINAL_REASON\<rparr>) (?done p epoch))"
    using ok by (auto simp: execute_unfreeze_def bnd_Inr_iff get_proposal_ok ensure_ok active_in_def
        checked_increment_ok ok_or_Inr_iff Let_def split: if_splits)
  note quorum = complete_at_quorum(1) [OF p(4)]
  have same: "map_of (m_proposals (?done p epoch)) j =
      (if j = i then Some (p\<lparr>mp_state := Completed, mp_terminal_slot := slot,
         mp_terminal_reason := MODEL_COMPLETED_TERMINAL_REASON\<rparr>) else map_of (m_proposals m) j)" for j
    by (simp add: put_proposal_def clear_gate_to_active_def)
  show ?thesis
  proof (cases "mp_class p = EmergencyRollback")
    case True
    with tail obtain j r where j: "mp_primary_proposal p = Some j" "map_of (m_proposals (?done p epoch)) j = Some r"
      "m' = put_proposal j (r\<lparr>mp_state := SupersededByRollback, mp_terminal_slot := slot,
            mp_terminal_reason := MODEL_SUPERSEDED_BY_ROLLBACK_TERMINAL_REASON\<rparr>) (?done p epoch)" by auto
    show ?thesis unfolding j(3)
      by (rule turn.complete_rollback [OF p(1-3) quorum True j(1) _ epoch]) (use j(2) same [of j] in auto)
  next
    case False
    with tail obtain j r where j: "mp_rollback_proposal p = Some j" "map_of (m_proposals (?done p epoch)) j = Some r"
      "mp_state r = Timelocked"
      "m' = put_proposal j (r\<lparr>mp_state := Retired, mp_terminal_slot := slot,
            mp_terminal_reason := MODEL_RETIRED_ROLLBACK_TERMINAL_REASON\<rparr>) (?done p epoch)" by auto
    have "i \<noteq> j" using j(2,3) same [of j] by auto
    moreover from this have "map_of (m_proposals m) j = Some r" using j(2) same [of j] by simp
    ultimately show ?thesis unfolding j(4)
      by (intro turn.complete_primary [OF p(1-3) quorum False j(1) _ j(3) _ epoch])
  qed
qed

lemma guardian_turn: "guardian_freeze guardian slot reason m = Inr m' \<Longrightarrow> turn E m m'"
proof -
  assume ok: "guardian_freeze guardian slot reason m = Inr m'"
  obtain epoch where g: "ga_status (m_gate m) = Active" "slot \<noteq> 0" "reason \<noteq> 0"
      "reason \<noteq> BOOTSTRAP_INITIALIZATION_FREEZE_REASON" "unat epoch = unat (ga_epoch (m_gate m)) + 1"
    and m': "m' = m\<lparr>m_emergency_freeze_observations := bt_insert epoch
              \<lparr>fo_epoch = epoch, fo_freeze_slot = slot, fo_freeze_reason = reason,
               fo_programdata = m_current_guardian_runtime_observation m\<rparr> (m_emergency_freeze_observations m),
            m_gate := (m_gate m)\<lparr>ga_epoch := epoch, ga_status := EmergencyFrozen,
              ga_active_proposal := None, ga_freeze_slot := slot, ga_freeze_reason := reason\<rparr>\<rparr>"
    using ok by (auto simp: guardian_freeze_def bnd_Inr_iff ensure_ok checked_increment_ok)
  show ?thesis
    unfolding m' using turn.guard [of m epoch "\<lparr>fo_epoch = epoch, fo_freeze_slot = slot, fo_freeze_reason = reason,
      fo_programdata = m_current_guardian_runtime_observation m\<rparr>" E] g by simp
qed

lemma activation_turn: "simulate_post_handoff_activation slot v m = Inr m' \<Longrightarrow> turn E m m'"
proof -
  assume ok: "simulate_post_handoff_activation slot v m = Inr m'"
  then obtain epoch where "ga_status (m_gate m) = EmergencyFrozen" "unat epoch = unat (ga_epoch (m_gate m)) + 1"
    and m': "m' = clear_gate_to_active (m\<lparr>m_emergency_resolutions := m_emergency_resolutions m,
      m_gate := (m_gate m)\<lparr>ga_epoch := epoch\<rparr>\<rparr>)"
    by (auto simp: simulate_post_handoff_activation_def bnd_Inr_iff ensure_ok checked_increment_ok)
  then show ?thesis unfolding m' by (intro turn.resume)
qed

lemma resume_turn: "execute_emergency_resume i slot m = Inr m' \<Longrightarrow> turn E m m'"
proof -
  assume ok: "execute_emergency_resume i slot m = Inr m'"
  then have "ga_status (m_gate m) = EmergencyFrozen"
    by (auto simp: execute_emergency_resume_def require_emergency_binding_def bnd_Inr_iff ensure_ok)
  moreover obtain epoch r where "unat epoch = unat (ga_epoch (m_gate m)) + 1"
    and m': "m' = put_resolution i r (clear_gate_to_active (m\<lparr>m_gate := (m_gate m)\<lparr>ga_epoch := epoch\<rparr>\<rparr>))"
    using ok by (auto simp: execute_emergency_resume_def bnd_Inr_iff checked_increment_ok Let_def)
  moreover have "m' = clear_gate_to_active (m\<lparr>m_emergency_resolutions := bt_insert i r (m_emergency_resolutions m),
      m_gate := (m_gate m)\<lparr>ga_epoch := epoch\<rparr>\<rparr>)"
    unfolding m' by (simp add: put_resolution_def clear_gate_to_active_def)
  ultimately show ?thesis by (metis turn.resume)
qed

section \<open>Creation, resolutions and rotations\<close>

lemma create_turn: "create_proposal rq m = Inr (m', i) \<Longrightarrow> turn E m m'"
proof -
  assume ok: "create_proposal rq m = Inr (m', i)"
  have links: "link_shape rq = Inr ()"
    using ok by (auto simp: create_proposal_def bnd_Inr_iff)
  obtain n timing obs where "unat n = unat (m_next_proposal_id m) + 1"
    and m': "m' = put_proposal (m_next_proposal_id m) (drafted_proposal m rq timing obs) (m\<lparr>m_next_proposal_id := n\<rparr>)"
    using ok by (auto simp: create_proposal_def bnd_Inr_iff checked_increment_ok Let_def)
  moreover have "gate_open m"
    using ok by (auto simp: create_proposal_def bnd_Inr_iff ensure_ok gate_open_def)
  moreover have "newly_drafted m (drafted_proposal m rq timing obs)"
    using links by (auto simp: newly_drafted_def drafted_proposal_def link_shape_def ensure_ok split: proposal_class.splits)
  ultimately show ?thesis unfolding m' by (intro turn.draft)
qed

lemma aside_rotation: "turn E m (put_rotation i r m)"
  using turn.aside [where rs = "bt_insert i r (m_rotations m)" and es = "m_emergency_resolutions m" and m = m and E = E]
  by (simp add: put_rotation_def)

lemma aside_resolution: "turn E m (put_resolution i r m)"
  using turn.aside [where rs = "m_rotations m" and es = "bt_insert i r (m_emergency_resolutions m)" and m = m and E = E]
  by (simp add: put_resolution_def)

lemma resolution_turns:
  "create_emergency_resolution slot m = Inr (m', i) \<Longrightarrow> turn E m m'"
  "approve_emergency_resolution i seat slot m = Inr m' \<Longrightarrow> turn E m m'"
  "queue_emergency_resolution i slot m = Inr m' \<Longrightarrow> turn E m m'"
  "attest_emergency_checkpoint F i seat hard drift slot m = Inr m' \<Longrightarrow> turn E m m'"
  "finalize_emergency_checkpoint i seats slot m = Inr m' \<Longrightarrow> turn E m m'"
  "expire_emergency_resolution i slot m = Inr m' \<Longrightarrow> turn E m m'"
  by (auto simp: create_emergency_resolution_def approve_emergency_resolution_def queue_emergency_resolution_def
      attest_emergency_checkpoint_def finalize_emergency_checkpoint_def expire_emergency_resolution_def
      bnd_Inr_iff Let_def split: prod.splits intro!: aside_resolution)

lemma rotation_turns:
  "create_council_rotation version slot m = Inr (m', i) \<Longrightarrow> turn E m m'"
  "approve_council_rotation i seat slot m = Inr m' \<Longrightarrow> turn E m m'"
  "queue_council_rotation i slot m = Inr m' \<Longrightarrow> turn E m m'"
  "approve_council_rotation_cancellation i seat slot reason m = Inr m' \<Longrightarrow> turn E m m'"
  "expire_council_rotation i slot m = Inr m' \<Longrightarrow> turn E m m'"
  by (auto simp: create_council_rotation_def approve_council_rotation_def queue_council_rotation_def
      approve_council_rotation_cancellation_def expire_council_rotation_def
      bnd_Inr_iff Let_def split: prod.splits intro!: aside_rotation)

lemma council_new_select:
  assumes "council_new E v activation seats terms = Inr c"
  shows "co_version c = v" "council_validate E c = Inr ()"
  using assms by (auto simp: council_validate_def council_new_def bnd_Inr_iff ensure_ok)

lemma candidate_set_turn: "create_candidate_council_set E v seats terms activation slot m = Inr (m', i) \<Longrightarrow> turn E m m'"
  by (auto simp: create_candidate_council_set_def bnd_Inr_iff ensure_ok result_simps
      dest: council_new_select intro!: turn.candidate)

lemma activate_turn: "activate_council_rotation i slot m = Inr m' \<Longrightarrow> turn E m m'"
proof -
  assume ok: "activate_council_rotation i slot m = Inr m'"
  obtain r r' where r: "map_of (m_rotations m) i = Some r" "ro_state r = Rotation_Timelocked" "rotation_current m r"
      "map_of (m_council_history m) (co_version (ro_candidate r)) = Some (ro_candidate r)"
      "is_complete_at (ro_approvals r) (m_council m) slot = Inr True"
    and m': "m' = put_rotation i r' (m\<lparr>m_council := ro_candidate r\<rparr>)" and i: "ro_id r = co_version (ro_candidate r)"
    using ok by (auto simp: activate_council_rotation_def bnd_Inr_iff get_rotation_ok ensure_ok ok_or_Inr_iff)
  have "turn E m (m\<lparr>m_council := ro_candidate r, m_rotations := bt_insert i r' (m_rotations m)\<rparr>)"
    by (rule turn.rotate [OF r(4) r(1) refl r(2) complete_at_quorum(1,3,4) [OF r(5)]])
  then show ?thesis by (simp add: m' put_rotation_def)
qed

section \<open>Every action is a turn\<close>

lemma applied_ok: "applied r = Inr (m', out) \<longleftrightarrow> r = Inr m' \<and> out = Applied"
  by (auto simp: applied_def bnd_Inr_iff)

lemma created_ok: "created f r = Inr (m', out) \<longleftrightarrow> (\<exists>i. r = Inr (m', i) \<and> out = f i)"
  by (auto simp: created_def bnd_Inr_iff)

lemma canonical_persistable: "canonical_observation g obs auth = Inr c \<Longrightarrow> validate_persistable c = Inr ()"
  by (auto simp: canonical_observation_def bnd_Inr_iff Let_def)

lemma observe_turns:
  "set_programdata_observation obs m = Inr m' \<Longrightarrow> turn E m m'"
  "set_programdata_authority auth m = Inr m' \<Longrightarrow> observation_validate (m_programdata m) = Inr () \<Longrightarrow> turn E m m'"
  "set_guardian_runtime_observation g m = Inr m' \<Longrightarrow> observation_validate (m_programdata m) = Inr () \<Longrightarrow> turn E m m'"
proof -
  assume "set_programdata_observation obs m = Inr m'"
  then obtain g where m': "m' = m\<lparr>m_current_programdata_authority := Some (po_authority obs),
      m_current_guardian_runtime_observation := g, m_programdata := obs\<rparr>" "observation_validate obs = Inr ()" "validate_persistable g = Inr ()"
    using canonical_persistable by (auto simp: set_programdata_observation_def bnd_Inr_iff)
  then show "turn E m m'"
    by (auto simp: observation_validate_def ensure_ok intro!: turn.observe)
next
  assume "set_programdata_authority auth m = Inr m'" "observation_validate (m_programdata m) = Inr ()"
  then obtain g where "m' = m\<lparr>m_current_programdata_authority := auth,
      m_current_guardian_runtime_observation := g, m_programdata := m_programdata m\<rparr>" "auth \<noteq> Some 0" "validate_persistable g = Inr ()"
    using canonical_persistable by (auto simp: set_programdata_authority_def bnd_Inr_iff ensure_ok)
  then show "turn E m m'"
    using turn.observe [where obs = "m_programdata m" and auth = auth and g = g and E = E and m = m]
      \<open>observation_validate (m_programdata m) = Inr ()\<close> by blast
next
  assume "set_guardian_runtime_observation g m = Inr m'" "observation_validate (m_programdata m) = Inr ()"
  then show "turn E m m'"
    using turn.observe [where obs = "m_programdata m" and auth = "go_authority g" and g = g and E = E and m = m]
    by (auto simp: set_guardian_runtime_observation_def bnd_Inr_iff validate_persistable_def ensure_ok)
qed

lemmas action_turns = candidate_turn satisfy_turn queue_turn approve_turn cancel_turn expire_turn attest_turn
  extend_turn install_turn verify_turn failure_turn unfreeze_vote_turn finalize_turn freeze_turn convert_turn
  rollback_turn unfreeze_turn guardian_turn activation_turn resume_turn create_turn resolution_turns rotation_turns
  candidate_set_turn activate_turn observe_turns

lemma perform_turn:
  assumes "perform E a m = Inr (m', out)" "\<not> is_initialize a" "observation_validate (m_programdata m) = Inr ()"
  shows "turn E m m'"
  using assms by (cases a) (auto simp: is_initialize_def applied_ok created_ok intro: action_turns)

end
