(* ===== verification/Release1_Facts.thy ===== *)
theory Release1_Facts
  imports Release1_Steps
begin

text \<open>
  Invariants of the Release 1 reference model: its own consistency check, the evidence behind every
  proposal state, the one upgrade in flight, and what follows for runs of actions.
\<close>

section \<open>Reachable models\<close>

inductive reached :: "env \<Rightarrow> model \<Rightarrow> bool" for E where
  start: "reached E m" if "apply_in_place E (Initialize i) model_default = Inr (m, out)"
| act: "reached E (fst (apply_model E a m))" if "reached E m"

fun run_model :: "env \<Rightarrow> model_action list \<Rightarrow> model \<Rightarrow> model" where
  "run_model E [] m = m"
| "run_model E (a # as) m = run_model E as (fst (apply_model E a m))"

lemma reached_run: "reached E m \<Longrightarrow> reached E (run_model E as m)"
  by (induction as arbitrary: m) (auto intro: reached.act)

lemma put_proposal_simps [simp]:
  "map_of (m_proposals (put_proposal i p m)) = (map_of (m_proposals m))(i \<mapsto> p)"
  "m_gate (put_proposal i p m) = m_gate m" "m_next_proposal_id (put_proposal i p m) = m_next_proposal_id m"
  "m_target_nonce (put_proposal i p m) = m_target_nonce m" "m_council (put_proposal i p m) = m_council m"
  "m_council_history (put_proposal i p m) = m_council_history m"
  "m_next_candidate_council_version (put_proposal i p m) = m_next_candidate_council_version m"
  "validate_core E (put_proposal i p m) = validate_core E m"
  by (simp_all add: put_proposal_def validate_core_def)

lemma clear_gate_simps [simp]:
  "m_proposals (clear_gate_to_active m) = m_proposals m" "ga_status (m_gate (clear_gate_to_active m)) = Active"
  "ga_epoch (m_gate (clear_gate_to_active m)) = ga_epoch (m_gate m)"
  "m_next_proposal_id (clear_gate_to_active m) = m_next_proposal_id m"
  "m_target_nonce (clear_gate_to_active m) = m_target_nonce m"
  "m_council_history (clear_gate_to_active m) = m_council_history m"
  "m_next_candidate_council_version (clear_gate_to_active m) = m_next_candidate_council_version m"
  by (simp_all add: clear_gate_to_active_def)

section \<open>The model stays consistent\<close>

text \<open>What \<open>validate_core\<close> checks besides the gate, and the part of it that concerns the gate.\<close>

definition gate_core :: "model \<Rightarrow> bool" where
  "gate_core m \<longleftrightarrow> model_gate_validate (m_gate m) = Inr () \<and>
     (ga_status (m_gate m) = EmergencyFrozen \<and> ga_freeze_reason (m_gate m) \<noteq> BOOTSTRAP_INITIALIZATION_FREEZE_REASON \<longrightarrow>
       (\<exists>f. map_of (m_emergency_freeze_observations m) (ga_epoch (m_gate m)) = Some f \<and>
         observation_matches_gate f (m_gate m) \<and> validate_persistable (fo_programdata f) = Inr ()))"

definition value_core :: "env \<Rightarrow> model \<Rightarrow> bool" where
  "value_core E m \<longleftrightarrow> m_initialized m \<and> graph_validate (m_graph m) = Inr () \<and> delays_validate (m_delays m) = Inr ()
     \<and> council_validate E (m_council m) = Inr ()
     \<and> (\<forall>(v, c) \<in> set (m_council_history m). v = co_version c \<and> council_validate E c = Inr ())
     \<and> map_of (m_council_history m) (co_version (m_council m)) = Some (m_council m)
     \<and> observation_validate (m_programdata m) = Inr () \<and> m_current_programdata_authority m \<noteq> Some 0
     \<and> validate_persistable (m_current_guardian_runtime_observation m) = Inr ()
     \<and> \<not> m_token_governance_enabled m \<and> \<not> m_target_immutability_enabled m \<and> m_next_proposal_id m \<noteq> 0
     \<and> m_target_nonce m \<noteq> 0 \<and> co_version (m_council m) < m_next_candidate_council_version m"

lemma validate_core_ok: "validate_core E m = Inr () \<longleftrightarrow> value_core E m \<and> gate_core m"
  by (auto simp: validate_core_def value_core_def gate_core_def bnd_Inr_iff ensure_ok checks_Inr_iff ok_or_Inr_iff
      not_le split: if_splits)

definition versions_below :: "model \<Rightarrow> bool" where
  "versions_below m \<longleftrightarrow> (\<forall>(v, c) \<in> set (m_council_history m). v < m_next_candidate_council_version m)"

lemma set_bt_insert: "set (bt_insert k v m) \<subseteq> insert (k, v) (set m)"
  by (induction k v m rule: bt_insert.induct) auto

lemma gate_core_same:
  "m_gate m' = m_gate m \<Longrightarrow> m_emergency_freeze_observations m' = m_emergency_freeze_observations m \<Longrightarrow>
   gate_core m' = gate_core m"
  by (simp add: gate_core_def)

lemma gate_core_active:
  "ga_epoch (m_gate m) \<noteq> 0 \<Longrightarrow> gate_core (clear_gate_to_active m)"
  by (simp add: gate_core_def model_gate_validate_def bnd_Inr_iff ensure_ok clear_gate_to_active_def)

lemma gate_core_frozen:
  "m_gate m = g\<lparr>ga_epoch := epoch, ga_status := FrozenForUpgrade, ga_active_proposal := Some i, ga_freeze_slot := slot,
     ga_freeze_reason := MODEL_GOVERNED_FREEZE_REASON\<rparr> \<Longrightarrow> epoch \<noteq> 0 \<Longrightarrow> slot \<noteq> 0 \<Longrightarrow> gate_core m"
  by (simp add: gate_core_def model_gate_validate_def bnd_Inr_iff ensure_ok MODEL_GOVERNED_FREEZE_REASON_def)

lemma active_frozen: "active_in m p \<Longrightarrow> ga_status (m_gate m) = FrozenForUpgrade \<and> ga_active_proposal (m_gate m) = Some (mp_id p)"
  by (simp add: active_in_def require_frozen_proposal_def split: if_splits)

lemma versions_below_insert:
  assumes "versions_below m" "unat n = unat v + 1" "set h \<subseteq> insert (v, c) (set (m_council_history m))"
  shows "\<forall>(w, d) \<in> set h. w < max (m_next_candidate_council_version m) n"
proof safe
  fix w d assume "(w, d) \<in> set h"
  with assms(3) have "(w, d) = (v, c) \<or> (w, d) \<in> set (m_council_history m)" by auto
  then show "w < max (m_next_candidate_council_version m) n"
  proof
    assume "(w, d) = (v, c)"
    with assms(2) have "w < n" by (simp add: word_less_nat_alt)
    then show ?thesis by (simp add: less_max_iff_disj)
  next
    assume "(w, d) \<in> set (m_council_history m)"
    with assms(1) have "w < m_next_candidate_council_version m" by (auto simp: versions_below_def)
    then show ?thesis by (simp add: less_max_iff_disj)
  qed
qed

lemma map_of_below: "versions_below m \<Longrightarrow> map_of (m_council_history m) v = Some c \<Longrightarrow> v < m_next_candidate_council_version m"
  by (auto simp: versions_below_def dest: map_of_SomeD)

lemma less_maxI1: "a < b \<Longrightarrow> a < max b (c :: u64)"
  by (simp add: less_max_iff_disj)

lemma value_core_put [simp]: "value_core E (put_proposal i p m) = value_core E m"
  and gate_core_put [simp]: "gate_core (put_proposal i p m) = gate_core m"
  and versions_below_put [simp]: "versions_below (put_proposal i p m) = versions_below m"
  by (simp_all add: value_core_def gate_core_def versions_below_def put_proposal_def)

lemmas put_cores = value_core_put gate_core_put versions_below_put

lemma value_core_gate [simp]:
  "value_core E (m\<lparr>m_gate := g\<rparr>) = value_core E m" "value_core E (clear_gate_to_active m) = value_core E m"
  "versions_below (m\<lparr>m_gate := g\<rparr>) = versions_below m" "versions_below (clear_gate_to_active m) = versions_below m"
  by (simp_all add: value_core_def versions_below_def clear_gate_to_active_def)

lemma turn_core:
  assumes "turn E m m'" "value_core E m \<and> gate_core m \<and> versions_below m"
  shows "value_core E m' \<and> gate_core m' \<and> versions_below m'"
  using assms(1)
proof cases
  case (draft p n)
  have "n \<noteq> 0" using draft(3) by auto
  with assms(2) show ?thesis
    unfolding draft(1) put_cores by (simp add: value_core_def gate_core_def versions_below_def)
next
  case (freeze i p slot nonce epoch)
  have "nonce \<noteq> 0" "epoch \<noteq> 0" using freeze by auto
  moreover have "gate_core m'" unfolding freeze(1) gate_core_put
    by (rule gate_core_frozen [where epoch = epoch and slot = slot]) (use calculation freeze in simp_all)
  ultimately show ?thesis
    using assms(2) unfolding freeze(1) put_cores by (simp add: value_core_def versions_below_def)
next
  case (roll_back i p j r slot epoch)
  have "epoch \<noteq> 0" using roll_back by auto
  have "gate_core m'" unfolding roll_back(1) gate_core_put
    using active_frozen [OF roll_back(4)] \<open>epoch \<noteq> 0\<close> roll_back(10)
    by (simp add: gate_core_def model_gate_validate_def bnd_Inr_iff ensure_ok MODEL_GOVERNED_FREEZE_REASON_def)
  then show ?thesis using assms(2) by (simp add: roll_back(1))
next
  case (complete_primary i p j r epoch slot c d)
  have "epoch \<noteq> 0" using complete_primary by auto
  then show ?thesis using assms(2) by (simp add: complete_primary(1) gate_core_active)
next
  case (complete_rollback i p j r epoch slot c d)
  have "epoch \<noteq> 0" using complete_rollback by auto
  then show ?thesis using assms(2) by (simp add: complete_rollback(1) gate_core_active)
next
  case (guard epoch f)
  have "epoch \<noteq> 0" using guard by auto
  then show ?thesis using assms(2) guard(2-)
    by (simp add: guard(1) value_core_def gate_core_def versions_below_def model_gate_validate_def bnd_Inr_iff
        ensure_ok observation_matches_gate_def)
next
  case (resume epoch rs)
  have "epoch \<noteq> 0" using resume by auto
  then show ?thesis using assms(2)
    by (simp add: resume(1) gate_core_active) (simp add: value_core_def versions_below_def)
next
  case (candidate c version n)
  let ?h = "bt_insert version c (m_council_history m)"
  have sub: "set ?h \<subseteq> insert (version, c) (set (m_council_history m))" by (rule set_bt_insert)
  have "co_version (m_council m) \<noteq> version"
    using assms(2) candidate(5) by (auto simp: value_core_def)
  moreover have "\<forall>(v, d) \<in> set ?h. v = co_version d \<and> council_validate E d = Inr ()"
    using sub assms(2) candidate(2,3) by (fastforce simp: value_core_def)
  ultimately show ?thesis
    using assms(2) versions_below_insert [OF _ candidate(4) sub]
    by (auto simp: candidate(1) value_core_def gate_core_def versions_below_def less_maxI1)
next
  case (rotate c i r rs)
  have "(co_version c, c) \<in> set (m_council_history m)"
    using rotate(2) by (rule map_of_SomeD)
  then show ?thesis
    using assms(2) map_of_below [OF _ rotate(2)] rotate(2)
    by (auto simp: rotate(1) value_core_def gate_core_def versions_below_def)
next
  case (edit i p p')
  then show ?thesis using assms(2) by simp
qed (use assms(2) in \<open>simp_all add: value_core_def gate_core_def versions_below_def\<close>)

lemma initialize_ok:
  assumes "apply_in_place E (Initialize i) m0 = Inr (m, out)"
  shows "value_core E m \<and> gate_core m \<and> versions_below m" "m_proposals m = []"
    "ga_status (m_gate m) = EmergencyFrozen"
proof -
  obtain obs c where c: "council_new E 1 (mi_slot i) (mi_seats i) (mi_seat_terms i) = Inr c"
    and m: "m = initialized_model i obs c" and core: "validate_core E m = Inr ()"
    using assms by (auto simp: apply_in_place_def is_initialize_def applied_ok initialize_model_def bnd_Inr_iff Let_def)
  show "m_proposals m = []" "ga_status (m_gate m) = EmergencyFrozen"
    by (simp_all add: m initialized_model_def)
  have "versions_below m"
    using council_new_select(1) [OF c] by (simp add: m versions_below_def initialized_model_def)
  then show "value_core E m \<and> gate_core m \<and> versions_below m"
    using core by (simp add: validate_core_ok)
qed

lemma apply_turn:
  assumes "value_core E m" "fst (apply_model E a m) \<noteq> m"
  shows "turn E m (fst (apply_model E a m))" "validate_core E m = Inr ()"
proof -
  have on: "m_initialized m" "observation_validate (m_programdata m) = Inr ()"
    using assms(1) by (auto simp: value_core_def)
  obtain m' out where ok: "apply_in_place E a m = Inr (m', out)" and m': "fst (apply_model E a m) = m'"
    using assms(2) by (auto simp: apply_model_def split: sum.splits)
  have "\<not> is_initialize a"
  proof
    assume "is_initialize a"
    then obtain i where "a = Initialize i" by (auto simp: is_initialize_def split: model_action.splits)
    with ok on(1) show False
      by (auto simp: apply_in_place_def is_initialize_def applied_ok initialize_model_def bnd_Inr_iff ensure_ok)
  qed
  with ok have "perform E a m = Inr (m', out)" "validate_core E m = Inr ()"
    by (auto simp: apply_in_place_def bnd_Inr_iff)
  with \<open>\<not> is_initialize a\<close> on(2) show "turn E m (fst (apply_model E a m))" "validate_core E m = Inr ()"
    by (auto simp: m' intro: perform_turn)
qed

lemma reached_core: "reached E m \<Longrightarrow> value_core E m \<and> gate_core m \<and> versions_below m"
proof (induction rule: reached.induct)
  case (act m a)
  then show ?case
    using turn_core [OF apply_turn(1)] by (cases "fst (apply_model E a m) = m") auto
qed (rule initialize_ok)

text \<open>Induction over the turns behind a reached model.\<close>

lemma reached_turns [consumes 1, case_names start turn]:
  assumes "reached E m"
    and "\<And>m. m_proposals m = [] \<Longrightarrow> ga_status (m_gate m) = EmergencyFrozen \<Longrightarrow> P m"
    and "\<And>m m'. reached E m \<Longrightarrow> P m \<Longrightarrow> turn E m m' \<Longrightarrow> P m'"
  shows "P m"
  using assms(1)
proof (induction rule: reached.induct)
  case (act m a)
  then show ?case
    using assms(3) [OF act] apply_turn(1) reached_core by (cases "fst (apply_model E a m) = m") auto
qed (rule assms(2); rule initialize_ok)

section \<open>The evidence behind a proposal state\<close>

definition after_approval :: "proposal_state set" where
  "after_approval = {CouncilApproved, GovernanceSatisfied, Timelocked, Frozen, Extended, UpgradeExecuted,
     ProgramDataVerified, PoststateAccepted, UnfreezeApproved, Completed, SupersededByRollback, Retired}"

definition after_prestate :: "proposal_state set" where
  "after_prestate = {Extended, UpgradeExecuted, ProgramDataVerified, PoststateAccepted, UnfreezeApproved,
     Completed, SupersededByRollback}"

definition after_poststate :: "proposal_state set" where
  "after_poststate = {PoststateAccepted, UnfreezeApproved, Completed}"

text \<open>A checkpoint three seats attested, without forbidden drift if it was accepted.\<close>

definition quorum_checkpoint :: "checkpoint option \<Rightarrow> bool" where
  "quorum_checkpoint c \<longleftrightarrow> (\<forall>ck. c = Some ck \<longrightarrow> quorum (ck_approvals ck)
     \<and> (ck_accepted ck \<longleftrightarrow> ck_forbidden_drift_count ck = 0))"

definition same_hard_state :: "model_proposal \<Rightarrow> bool" where
  "same_hard_state p \<longleftrightarrow> (\<exists>pre post. mp_prestate p = Some pre \<and> mp_poststate p = Some post
     \<and> ck_accepted pre \<and> ck_accepted post \<and> ck_hard_state post = ck_hard_state pre)"

definition sound :: "model_proposal \<Rightarrow> bool" where
  "sound p \<longleftrightarrow>
     (mp_state p \<in> after_approval \<longrightarrow> quorum (mp_initial_approvals p))
     \<and> aa_council_version (mp_initial_approvals p) = mp_creation_council_version p
     \<and> aa_council_hash (mp_initial_approvals p) = mp_creation_council_hash p
     \<and> quorum_checkpoint (mp_prestate p) \<and> quorum_checkpoint (mp_poststate p)
     \<and> (mp_state p \<in> after_prestate \<longrightarrow> checkpoint_accepted (mp_prestate p))
     \<and> (mp_state p \<in> after_poststate \<longrightarrow> same_hard_state p)
     \<and> (mp_state p \<in> {UnfreezeApproved, Completed} \<longrightarrow> quorum (mp_unfreeze_approvals p))"

lemmas state_sets = after_approval_def after_prestate_def after_poststate_def

lemma record_pinned_same:
  "record_pinned a c seat slot = Inr (a', crossed) \<Longrightarrow>
   aa_council_version a' = aa_council_version a \<and> aa_council_hash a' = aa_council_hash a"
  by (auto simp: record_pinned_def bnd_Inr_iff ensure_ok record_seat_def Let_def)

lemma attested_quorum: "attested m ph ck \<Longrightarrow> quorum_checkpoint (Some ck)"
  by (simp add: attested_def quorum_checkpoint_def)

lemma amends_sound:
  assumes "amends m p p'" "sound p"
  shows "sound p'"
  using assms(1)
proof cases
  case (vote seat slot acc crossed s)
  then show ?thesis
    using assms(2) record_pinned_quorum(1) [OF vote(4)] record_pinned_same [OF vote(4)]
    by (simp add: sound_def state_sets same_hard_state_def)
next
  case (poststate ck pre s)
  then show ?thesis
    using assms(2) attested_quorum [OF poststate(5)]
    by (simp add: sound_def state_sets same_hard_state_def)
next
  case (prestate ck)
  then show ?thesis
    using assms(2) attested_quorum [OF prestate(5)]
    by (simp add: sound_def state_sets same_hard_state_def)
next
  case (cancel s acc reason slot terminal)
  from cancel(3) show ?thesis
  proof (elim disjE conjE)
    assume "s = mp_state p"
    then show ?thesis using assms(2) by (simp add: cancel(1) sound_def same_hard_state_def)
  next
    assume "s = Cancelled"
    then show ?thesis using assms(2) by (simp add: cancel(1) sound_def same_hard_state_def state_sets)
  qed
next
  case (advance s)
  then have "s \<in> after_approval \<longrightarrow> mp_state p \<in> after_approval"
    "s \<notin> after_prestate" "s \<notin> after_poststate" "s \<notin> {UnfreezeApproved, Completed}"
    by (auto simp: state_sets)
  then show ?thesis using assms(2) by (simp add: advance(1) sound_def same_hard_state_def)
next
  case (unfreeze s acc)
  then have "mp_state p \<in> after_approval \<inter> after_prestate \<inter> after_poststate"
    and s: "s \<in> {UnfreezeApproved, Completed} \<longrightarrow> quorum acc"
    by (auto simp: state_sets)
  then show ?thesis using assms(2) by (simp add: unfreeze(1) sound_def same_hard_state_def)
next
  case (install slot)
  then show ?thesis using assms(2) by (simp add: sound_def state_sets same_hard_state_def split: if_splits)
next
  case (annotate f as bs)
  then show ?thesis using assms(2) by (simp add: sound_def same_hard_state_def)
qed (use assms(2) in \<open>simp_all add: sound_def state_sets same_hard_state_def\<close>)

section \<open>The proposal table\<close>

definition terms_kept :: "model_proposal \<Rightarrow> model_proposal \<Rightarrow> bool" where
  "terms_kept p p' \<longleftrightarrow> mp_id p' = mp_id p \<and> mp_class p' = mp_class p \<and> mp_target_nonce p' = mp_target_nonce p
     \<and> mp_creation_council_version p' = mp_creation_council_version p
     \<and> mp_creation_council_hash p' = mp_creation_council_hash p \<and> mp_timing p' = mp_timing p
     \<and> mp_creation_programdata p' = mp_creation_programdata p
     \<and> mp_extension_required p' = mp_extension_required p \<and> mp_primary_proposal p' = mp_primary_proposal p
     \<and> mp_rollback_proposal p' = mp_rollback_proposal p"

lemma terms_kept_refl [simp]: "terms_kept p p"
  by (simp add: terms_kept_def)

lemma amends_terms: "amends m p p' \<Longrightarrow> terms_kept p p'"
  by (erule amends.cases) (simp_all add: terms_kept_def)

definition linked :: "model_proposal \<Rightarrow> bool" where
  "linked p \<longleftrightarrow> (if mp_class p = EmergencyRollback then mp_primary_proposal p \<noteq> None \<and> mp_rollback_proposal p = None
     else mp_primary_proposal p = None \<and> mp_rollback_proposal p \<noteq> None)"

lemma linked_kept: "terms_kept p p' \<Longrightarrow> linked p' = linked p"
  by (simp add: terms_kept_def linked_def)

definition table_ok :: "model \<Rightarrow> bool" where
  "table_ok m \<longleftrightarrow> (\<forall>i p. map_of (m_proposals m) i = Some p \<longrightarrow>
     mp_id p = i \<and> i < m_next_proposal_id m \<and> linked p \<and> sound p)"

lemma table_okD:
  assumes "table_ok m" "map_of (m_proposals m) i = Some p"
  shows "mp_id p = i" "i < m_next_proposal_id m" "linked p" "sound p"
  using assms by (auto simp: table_ok_def)

lemma table_put:
  assumes "table_ok m" "map_of (m_proposals m) i = Some p" "terms_kept p p'" "sound p'"
  shows "table_ok (put_proposal i p' m)"
  using assms table_okD [OF assms(1)] linked_kept [OF assms(3)]
  by (auto simp: table_ok_def terms_kept_def)

lemma table_same: "m_proposals m' = m_proposals m \<Longrightarrow> m_next_proposal_id m' = m_next_proposal_id m \<Longrightarrow> table_ok m' = table_ok m"
  by (simp add: table_ok_def)

text \<open>Moving a proposal on without touching its evidence.\<close>

lemma sound_state:
  assumes "sound p" "s \<in> after_approval \<longrightarrow> mp_state p \<in> after_approval"
    "s \<in> after_prestate \<longrightarrow> mp_state p \<in> after_prestate" "s \<in> after_poststate \<longrightarrow> mp_state p \<in> after_poststate"
    "s \<in> {UnfreezeApproved, Completed} \<longrightarrow> quorum (mp_unfreeze_approvals p)"
    "p' = p\<lparr>mp_state := s, mp_freeze_gate_epoch := e, mp_frozen_slot := fs, mp_terminal_slot := t, mp_terminal_reason := c\<rparr>"
  shows "sound p'"
  using assms by (simp add: sound_def same_hard_state_def)

lemma sound_frozen:
  "sound p \<Longrightarrow> mp_state p = Timelocked \<Longrightarrow>
   sound (p\<lparr>mp_state := Frozen, mp_freeze_gate_epoch := e, mp_frozen_slot := fs\<rparr>)"
  by (rule sound_state [where p = p and s = Frozen and e = e and fs = fs and t = "mp_terminal_slot p"
        and c = "mp_terminal_reason p"]) (simp_all add: state_sets)

lemma sound_ended:
  assumes "sound p" "s \<in> after_approval \<longrightarrow> mp_state p \<in> after_approval"
    "s \<in> after_prestate \<longrightarrow> mp_state p \<in> after_prestate" "s \<in> after_poststate \<longrightarrow> mp_state p \<in> after_poststate"
    "s \<in> {UnfreezeApproved, Completed} \<longrightarrow> quorum (mp_unfreeze_approvals p)"
  shows "sound (p\<lparr>mp_state := s, mp_terminal_slot := t, mp_terminal_reason := c\<rparr>)"
  by (rule sound_state [OF assms, where e = "mp_freeze_gate_epoch p" and fs = "mp_frozen_slot p" and t = t and c = c]) simp

section \<open>One upgrade in flight\<close>

definition in_flight :: "model_proposal \<Rightarrow> bool" where
  "in_flight p \<longleftrightarrow> mp_state p \<in> {Frozen, Extended, UpgradeExecuted, ProgramDataVerified, PoststateAccepted, UnfreezeApproved}"

definition flying :: "model \<Rightarrow> u64 set" where
  "flying m = {i. \<exists>p. map_of (m_proposals m) i = Some p \<and> in_flight p}"

text \<open>A primary upgrade under way, and a rollback under way with the primary it undoes left where it failed.\<close>

definition forward :: "model \<Rightarrow> u64 \<Rightarrow> model_proposal \<Rightarrow> bool" where
  "forward m i p \<longleftrightarrow> ga_status (m_gate m) = FrozenForUpgrade \<and> ga_active_proposal (m_gate m) = Some i
     \<and> map_of (m_proposals m) i = Some p \<and> mp_class p \<noteq> EmergencyRollback \<and> flying m = {i}"

definition backward :: "model \<Rightarrow> u64 \<Rightarrow> model_proposal \<Rightarrow> u64 \<Rightarrow> model_proposal \<Rightarrow> bool" where
  "backward m i p q pq \<longleftrightarrow> ga_status (m_gate m) = FrozenForUpgrade \<and> ga_active_proposal (m_gate m) = Some i
     \<and> map_of (m_proposals m) i = Some p \<and> mp_class p = EmergencyRollback \<and> mp_primary_proposal p = Some q
     \<and> q \<noteq> i \<and> map_of (m_proposals m) q = Some pq \<and> mp_class pq \<noteq> EmergencyRollback
     \<and> mp_state pq \<in> {UpgradeExecuted, ProgramDataVerified} \<and> flying m = {i, q}"

definition idle :: "model \<Rightarrow> bool" where
  "idle m \<longleftrightarrow> ga_status (m_gate m) \<noteq> FrozenForUpgrade \<and> flying m = {}"

definition flight_ok :: "model \<Rightarrow> bool" where
  "flight_ok m \<longleftrightarrow> idle m \<or> (\<exists>i p. forward m i p) \<or> (\<exists>i p q pq. backward m i p q pq)"

lemma flight_cases:
  assumes "flight_ok m"
  obtains (idle) "idle m" | (forward) i p where "forward m i p" | (backward) i p q pq where "backward m i p q pq"
  using assms by (auto simp: flight_ok_def)

lemma flying_put: "flying (put_proposal i p m) = (if in_flight p then insert i (flying m) else flying m - {i})"
  by (auto simp: flying_def)

lemma flying_same: "m_proposals m' = m_proposals m \<Longrightarrow> flying m' = flying m"
  by (simp add: flying_def)

lemma flying_simps [simp]:
  "flying (m\<lparr>m_gate := g\<rparr>) = flying m" "flying (m\<lparr>m_target_nonce := n\<rparr>) = flying m"
  "flying (m\<lparr>m_emergency_resolutions := rs\<rparr>) = flying m" "flying (clear_gate_to_active m) = flying m"
  "flying (m\<lparr>m_emergency_freeze_observations := os\<rparr>) = flying m"
  by (simp_all add: flying_def)

lemma flyingI: "map_of (m_proposals m) i = Some p \<Longrightarrow> i \<in> flying m \<longleftrightarrow> in_flight p"
  by (simp add: flying_def)

lemma amends_flight:
  assumes "amends m p p'"
  shows "in_flight p' = in_flight p" "in_flight p \<Longrightarrow> active_in m p"
  using assms by (cases; auto simp: in_flight_def is_pre_freeze_def split: if_splits)+

lemma flight_edit:
  assumes "flight_ok m" "table_ok m" "map_of (m_proposals m) i = Some p" "amends m p p'"
  shows "flight_ok (put_proposal i p' m)"
proof -
  note kept = amends_terms [OF assms(4), unfolded terms_kept_def]
  have same: "flying (put_proposal i p' m) = flying m"
    using flyingI [OF assms(3)] amends_flight(1) [OF assms(4)] by (auto simp: flying_put)
  have act: "ga_active_proposal (m_gate m) = Some i" if "i \<in> flying m"
    using that flyingI [OF assms(3)] amends_flight(2) [OF assms(4)] active_frozen [of m p] table_okD(1) [OF assms(2,3)] by simp
  from assms(1) show ?thesis
  proof (cases rule: flight_cases)
    case idle
    then show ?thesis by (simp add: flight_ok_def idle_def same)
  next
    case (forward j r)
    then have "forward (put_proposal i p' m) j (if j = i then p' else r)"
      using assms(3) kept by (auto simp: forward_def same)
    then show ?thesis by (auto simp: flight_ok_def)
  next
    case (backward j r q pq)
    then have "q \<noteq> i" using act by (auto simp: backward_def)
    with backward have "backward (put_proposal i p' m) j (if j = i then p' else r) q pq"
      using assms(3) kept by (auto simp: backward_def same)
    then show ?thesis by (auto simp: flight_ok_def)
  qed
qed

text \<open>Proposals that are not in flight come and go without notice.\<close>

lemma flight_ground:
  assumes "flight_ok m" "i \<notin> flying m" "\<not> in_flight p'" "m_gate m' = m_gate m" "m_proposals m' = m_proposals m"
  shows "flight_ok (put_proposal i p' m')"
proof -
  have same: "flying (put_proposal i p' m') = flying m"
    using assms(2,3) flying_same [OF assms(5)] by (simp add: flying_put)
  from assms(1) show ?thesis
  proof (cases rule: flight_cases)
    case idle
    then show ?thesis using assms(4) by (simp add: flight_ok_def idle_def same)
  next
    case (forward j r)
    then have "forward (put_proposal i p' m') j r"
      using assms by (auto simp: forward_def same)
    then show ?thesis by (auto simp: flight_ok_def)
  next
    case (backward j r q pq)
    then have "backward (put_proposal i p' m') j r q pq"
      using assms by (auto simp: backward_def same)
    then show ?thesis by (auto simp: flight_ok_def)
  qed
qed

lemma flight_active:
  assumes "flight_ok m" "active_in m p" "mp_id p = i"
  shows "(\<exists>p. forward m i p) \<or> (\<exists>p q pq. backward m i p q pq)"
  using assms(1) active_frozen [OF assms(2)] assms(3)
  by (auto simp: flight_ok_def idle_def forward_def backward_def)

lemma flight_same:
  "m_gate m' = m_gate m \<Longrightarrow> m_proposals m' = m_proposals m \<Longrightarrow> flight_ok m' = flight_ok m"
  by (simp add: flight_ok_def idle_def forward_def backward_def flying_def)

definition settled :: "model \<Rightarrow> bool" where
  "settled m \<longleftrightarrow> table_ok m \<and> flight_ok m"

lemma settledD:
  assumes "settled m"
  shows "table_ok m" "flight_ok m"
  using assms by (simp_all add: settled_def)

lemma settled_same:
  assumes "settled m" "m_gate m' = m_gate m" "m_proposals m' = m_proposals m" "m_next_proposal_id m' = m_next_proposal_id m"
  shows "settled m'"
  using assms table_same [of m' m] flight_same [of m' m] by (simp add: settled_def)

lemma settle_draft:
  assumes "settled m" "newly_drafted m p" "unat n = unat (m_next_proposal_id m) + 1"
  shows "settled (put_proposal (m_next_proposal_id m) p (m\<lparr>m_next_proposal_id := n\<rparr>))"
proof -
  note row = table_okD [OF settledD(1) [OF assms(1)]]
  have "map_of (m_proposals m) (m_next_proposal_id m) = None"
    using row(2) by (cases "map_of (m_proposals m) (m_next_proposal_id m)") auto
  then have "m_next_proposal_id m \<notin> flying m" by (simp add: flying_def)
  then have "flight_ok (put_proposal (m_next_proposal_id m) p (m\<lparr>m_next_proposal_id := n\<rparr>))"
    by (rule flight_ground [OF settledD(2) [OF assms(1)]])
      (use assms(2) in \<open>simp_all add: newly_drafted_def in_flight_def\<close>)
  moreover have "linked p" "sound p" "mp_id p = m_next_proposal_id m"
    using assms(2) by (auto simp: newly_drafted_def linked_def sound_def state_sets quorum_checkpoint_def pinned_def)
  moreover have "i < n" if "i < m_next_proposal_id m" for i
    using that assms(3) by (simp add: word_less_nat_alt)
  moreover have "m_next_proposal_id m < n" using assms(3) by (simp add: word_less_nat_alt)
  ultimately show ?thesis using row(1-4)
    by (auto simp: settled_def table_ok_def)
qed

text \<open>Freezing a waiting proposal.\<close>

lemma table_frozen:
  assumes "table_ok m" "map_of (m_proposals m) i = Some p" "mp_state p = Timelocked"
    and "m_proposals m' = m_proposals m" "m_next_proposal_id m' = m_next_proposal_id m"
  shows "table_ok (put_proposal i (p\<lparr>mp_state := Frozen, mp_freeze_gate_epoch := e, mp_frozen_slot := fs\<rparr>) m')"
  by (rule table_put [where p = p])
    (use assms table_okD(1) [OF assms(1,2)] sound_frozen [OF table_okD(4) [OF assms(1,2)] assms(3)] in
      \<open>simp_all add: table_same [of m' m] terms_kept_def\<close>)

text \<open>Ending two proposals: the completed one and its companion.\<close>

lemma table_ended:
  assumes "table_ok m" "map_of (m_proposals m) i = Some p" "map_of (m_proposals m) j = Some r" "i \<noteq> j"
    and "mp_state p = UnfreezeApproved" "quorum (mp_unfreeze_approvals p)"
    and "(mp_state r, s) \<in> {(Timelocked, Retired), (UpgradeExecuted, SupersededByRollback), (ProgramDataVerified, SupersededByRollback)}"
    and "m_proposals m' = m_proposals m" "m_next_proposal_id m' = m_next_proposal_id m"
  shows "table_ok (put_proposal j (r\<lparr>mp_state := s, mp_terminal_slot := t, mp_terminal_reason := c\<rparr>)
    (put_proposal i (p\<lparr>mp_state := Completed, mp_terminal_slot := t', mp_terminal_reason := c'\<rparr>) m'))"
proof (rule table_put [where p = r])
  have "sound (p\<lparr>mp_state := Completed, mp_terminal_slot := t', mp_terminal_reason := c'\<rparr>)"
    by (rule sound_ended [OF table_okD(4) [OF assms(1,2)]]) (use assms(5,6) in \<open>simp_all add: state_sets\<close>)
  then show "table_ok (put_proposal i (p\<lparr>mp_state := Completed, mp_terminal_slot := t', mp_terminal_reason := c'\<rparr>) m')"
    using assms by (intro table_put) (auto simp: table_ok_def terms_kept_def)
  show "sound (r\<lparr>mp_state := s, mp_terminal_slot := t, mp_terminal_reason := c\<rparr>)"
    by (rule sound_ended [OF table_okD(4) [OF assms(1,3)]]) (use assms(7) in \<open>auto simp: state_sets\<close>)
qed (use assms in \<open>simp_all add: terms_kept_def\<close>)

lemma settle_rollback:
  assumes "settled m" "map_of (m_proposals m) i = Some p" "map_of (m_proposals m) j = Some r" "active_in m p"
    and "mp_state p \<in> {UpgradeExecuted, ProgramDataVerified}" "mp_rollback_proposal p = Some j"
    and "mp_state r = Timelocked" "mp_class r = EmergencyRollback" "mp_primary_proposal r = Some i"
  shows "settled (put_proposal j (r\<lparr>mp_state := Frozen, mp_freeze_gate_epoch := epoch, mp_frozen_slot := slot\<rparr>)
      (m\<lparr>m_gate := (m_gate m)\<lparr>ga_epoch := epoch, ga_active_proposal := Some j,
         ga_freeze_slot := slot, ga_freeze_reason := reason\<rparr>\<rparr>))" (is "settled ?m'")
proof -
  note row = table_okD [OF settledD(1) [OF assms(1)]]
  have "forward m i p"
    using flight_active [OF settledD(2) [OF assms(1)] assms(4) row(1) [OF assms(2)]] assms(2,6) row(3) [OF assms(2)]
    by (auto simp: forward_def backward_def linked_def)
  moreover have "i \<noteq> j" using assms by auto
  ultimately have "backward ?m' j (r\<lparr>mp_state := Frozen, mp_freeze_gate_epoch := epoch, mp_frozen_slot := slot\<rparr>) i p"
    using assms(2-9) by (auto simp: forward_def backward_def flying_put in_flight_def)
  moreover have "table_ok ?m'"
    by (rule table_frozen [OF settledD(1) [OF assms(1)] assms(3,7)]) simp_all
  ultimately show ?thesis by (auto simp: settled_def flight_ok_def)
qed

lemma turn_settled:
  assumes "turn E m m'" "settled m"
  shows "settled m'"
proof -
  note table = settledD(1) [OF assms(2)] and flight = settledD(2) [OF assms(2)]
  note row = table_okD [OF table]
  from assms(1) show ?thesis
  proof cases
    case (edit i p p')
    then show ?thesis unfolding settled_def edit(1)
      using table_put [OF table edit(2) amends_terms [OF edit(3)] amends_sound [OF edit(3) row(4) [OF edit(2)]]]
        flight_edit [OF flight table edit(2,3)] by simp
  next
    case (draft p n)
    show ?thesis unfolding draft(1) by (rule settle_draft [OF assms(2) draft(2,3)])
  next
    case (freeze i p slot nonce epoch)
    have "flying m = {}"
      using flight freeze(5) by (auto simp: flight_ok_def idle_def forward_def backward_def gate_open_def)
    then have "forward m' i (p\<lparr>mp_state := Frozen, mp_freeze_gate_epoch := epoch, mp_frozen_slot := slot\<rparr>)"
      using freeze(4) by (simp add: freeze(1) forward_def flying_put in_flight_def)
    moreover have "table_ok m'" unfolding freeze(1)
      by (rule table_frozen [OF table freeze(2,3)]) simp_all
    ultimately show ?thesis by (auto simp: settled_def flight_ok_def)
  next
    case (roll_back i p j r slot epoch)
    show ?thesis unfolding roll_back(1) by (rule settle_rollback [OF assms(2) roll_back(2-9)])
  next
    case (complete_primary i p j r epoch slot c d)
    have "forward m i p"
      using flight_active [OF flight complete_primary(3) row(1) [OF complete_primary(2)]] complete_primary(2,6)
      by (auto simp: forward_def backward_def)
    then have "flight_ok m'"
      by (simp add: complete_primary(1) flying_put in_flight_def forward_def flight_ok_def idle_def)
    moreover have "table_ok m'" unfolding complete_primary(1)
      by (rule table_ended [OF table complete_primary(2,8,10,4,5)]) (use complete_primary(9) in simp_all)
    ultimately show ?thesis by (simp add: settled_def)
  next
    case (complete_rollback i p j r epoch slot c d)
    obtain pq where bwd: "backward m i p j pq"
      using flight_active [OF flight complete_rollback(3) row(1) [OF complete_rollback(2)]] complete_rollback(2,6,7)
      by (auto simp: forward_def backward_def)
    then have r: "i \<noteq> j" "map_of (m_proposals m) j = Some r" "mp_state r \<in> {UpgradeExecuted, ProgramDataVerified}"
      using complete_rollback(8) by (auto simp: backward_def)
    have "flying m' = {}" using bwd
      by (auto simp: complete_rollback(1) flying_put in_flight_def backward_def)
    then have "flight_ok m'" by (simp add: complete_rollback(1) flight_ok_def idle_def)
    moreover have "table_ok m'" unfolding complete_rollback(1)
      by (rule table_ended [OF table complete_rollback(2) r(2,1) complete_rollback(4,5)]) (use r(3) in auto)
    ultimately show ?thesis by (simp add: settled_def)
  next
    case (guard epoch f)
    have "flying m = {}"
      using flight guard(2) by (auto simp: flight_ok_def idle_def forward_def backward_def)
    then show ?thesis using table by (simp add: flight_ok_def idle_def settled_def guard(1) table_ok_def)
  next
    case (resume epoch rs)
    have "flying m = {}"
      using flight resume(2) by (auto simp: flight_ok_def idle_def forward_def backward_def)
    then show ?thesis using table by (simp add: flight_ok_def idle_def settled_def resume(1) table_ok_def)
  qed (auto intro: settled_same [OF assms(2)])
qed

lemma reached_settled: "reached E m \<Longrightarrow> settled m"
proof (induction rule: reached_turns)
  case (start m)
  then show ?case by (simp add: settled_def table_ok_def flight_ok_def idle_def flying_def)
next
  case (turn m m')
  then show ?case by (blast intro: turn_settled)
qed

text \<open>The proposal the gate names is in flight.\<close>

lemma active_flying:
  assumes "settled m" "active_in m p" "map_of (m_proposals m) i = Some p"
  shows "in_flight p"
proof -
  have "mp_id p = i" by (rule table_okD(1) [OF settledD(1) [OF assms(1)] assms(3)])
  from flight_active [OF settledD(2) [OF assms(1)] assms(2) this] have "i \<in> flying m"
    by (auto simp: forward_def backward_def)
  with assms(3) show ?thesis by (simp add: flyingI)
qed

section \<open>How proposals move\<close>

definition may_move :: "proposal_state \<Rightarrow> proposal_state \<Rightarrow> bool \<Rightarrow> bool" where
  "may_move s s' extension \<longleftrightarrow> proposal_edge_allowed s s' extension
     \<or> s \<in> {Draft, BufferAdopted, BufferVerified, CouncilApproved, GovernanceSatisfied, Timelocked} \<and> s' \<in> {Cancelled, Expired}
     \<or> (s, s') \<in> {(Timelocked, Retired), (UpgradeExecuted, SupersededByRollback),
          (ProgramDataVerified, SupersededByRollback), (UnfreezeApproved, PoststateAccepted)}"

definition terminal_states :: "proposal_state set" where
  "terminal_states = {Completed, Cancelled, Expired, SupersededByRollback, Retired}"

definition moved :: "model_proposal \<Rightarrow> model_proposal \<Rightarrow> bool" where
  "moved p p' \<longleftrightarrow> terms_kept p p' \<and> (mp_state p' = mp_state p \<or> may_move (mp_state p) (mp_state p') (mp_extension_required p))
     \<and> (mp_state p \<in> terminal_states \<longrightarrow> p' = p)"

lemma moved_refl [simp]: "moved p p"
  by (simp add: moved_def)

lemma movedI:
  "terms_kept p p' \<Longrightarrow> mp_state p \<notin> terminal_states \<Longrightarrow>
   mp_state p' = mp_state p \<or> may_move (mp_state p) (mp_state p') (mp_extension_required p) \<Longrightarrow> moved p p'"
  by (simp add: moved_def)

lemma may_move_end:
  "s \<in> {Draft, BufferAdopted, BufferVerified, CouncilApproved, GovernanceSatisfied, Timelocked} \<Longrightarrow>
   s' \<in> {Cancelled, Expired} \<Longrightarrow> may_move s s' x"
  unfolding may_move_def by blast

lemma moved_frozen:
  "mp_state p = Timelocked \<Longrightarrow> moved p (p\<lparr>mp_state := Frozen, mp_freeze_gate_epoch := e, mp_frozen_slot := fs\<rparr>)"
  by (simp add: moved_def terms_kept_def may_move_def proposal_edge_allowed_def terminal_states_def)

lemma moved_ended:
  "(mp_state p, s) \<in> {(UnfreezeApproved, Completed), (Timelocked, Retired), (UpgradeExecuted, SupersededByRollback),
     (ProgramDataVerified, SupersededByRollback)} \<Longrightarrow>
   moved p (p\<lparr>mp_state := s, mp_terminal_slot := t, mp_terminal_reason := c\<rparr>)"
  by (elim insertE emptyE)
    (simp_all add: moved_def terms_kept_def may_move_def proposal_edge_allowed_def terminal_states_def)

lemma may_move_edge: "proposal_edge_allowed s s' x \<Longrightarrow> may_move s s' x"
  by (simp add: may_move_def)

lemma amends_moves:
  assumes "amends m p p'"
  shows "mp_state p' = mp_state p \<or> may_move (mp_state p) (mp_state p') (mp_extension_required p)"
  using assms
proof cases
  case (advance s)
  then have "proposal_edge_allowed (mp_state p) s (mp_extension_required p)"
    by (auto simp: proposal_edge_allowed_def)
  then show ?thesis by (simp add: advance(1) may_move_edge)
next
  case (vote seat slot acc crossed s)
  then show ?thesis by (simp add: may_move_edge proposal_edge_allowed_def)
next
  case (cancel s acc reason slot terminal)
  have "may_move (mp_state p) Cancelled (mp_extension_required p)"
    by (rule may_move_end [OF cancel(2) [unfolded is_pre_freeze_def]]) simp
  with cancel(3) show ?thesis by (auto simp: cancel(1))
next
  case (expire slot terminal)
  have "may_move (mp_state p) Expired (mp_extension_required p)"
    by (rule may_move_end [OF expire(2) [unfolded is_pre_freeze_def]]) simp
  then show ?thesis by (simp add: expire(1))
next
  case (unfreeze s acc)
  then have "(mp_state p, s) \<in> {(PoststateAccepted, PoststateAccepted), (PoststateAccepted, UnfreezeApproved),
      (UnfreezeApproved, PoststateAccepted), (UnfreezeApproved, UnfreezeApproved)}" by auto
  then show ?thesis
    by (elim insertE emptyE) (simp_all add: unfreeze(1) may_move_def proposal_edge_allowed_def)
qed (simp_all add: may_move_edge proposal_edge_allowed_def)

lemma amends_alive: "amends m p p' \<Longrightarrow> mp_state p \<in> terminal_states \<Longrightarrow> active_in m p"
  by (erule amends.cases) (auto simp: terminal_states_def is_pre_freeze_def)

lemma turn_moves:
  assumes "turn E m m'" "settled m" "map_of (m_proposals m) k = Some q"
  shows "\<exists>q'. map_of (m_proposals m') k = Some q' \<and> moved q q'"
  using assms(1)
proof cases
  case (edit i p p')
  have "moved p p'"
  proof (rule movedI [OF amends_terms [OF edit(3)] _ amends_moves [OF edit(3)]])
    show "mp_state p \<notin> terminal_states"
      using amends_alive [OF edit(3)] active_flying [OF assms(2) _ edit(2)] by (auto simp: in_flight_def terminal_states_def)
  qed
  then show ?thesis using assms(3) edit(2) by (auto simp: edit(1))
next
  case (draft p n)
  have "k \<noteq> m_next_proposal_id m"
    using table_okD(2) [OF settledD(1) [OF assms(2)] assms(3)] by auto
  then show ?thesis using assms(3) by (simp add: draft(1))
next
  case (freeze i p slot nonce epoch)
  then show ?thesis using assms(3) moved_frozen [OF freeze(3)] by auto
next
  case (roll_back i p j r slot epoch)
  then show ?thesis using assms(3) moved_frozen [OF roll_back(7)] by auto
next
  case (complete_primary i p j r epoch slot c d)
  then show ?thesis using assms(3) moved_ended [of p Completed] moved_ended [of r Retired] by auto
next
  case (complete_rollback i p j r epoch slot c d)
  have "mp_id p = i" by (rule table_okD(1) [OF settledD(1) [OF assms(2)] complete_rollback(2)])
  then obtain pq where "backward m i p j pq"
    using flight_active [OF settledD(2) [OF assms(2)] complete_rollback(3)] complete_rollback(2,6,7)
    by (auto simp: forward_def backward_def)
  then have "i \<noteq> j" "map_of (m_proposals m) j = Some r" "mp_state r \<in> {UpgradeExecuted, ProgramDataVerified}"
    using complete_rollback(8) by (auto simp: backward_def)
  then show ?thesis using assms(3) complete_rollback(2,4) moved_ended [of p Completed] moved_ended [of r SupersededByRollback]
    by (auto simp: complete_rollback(1))
qed (use assms(3) in simp_all)

lemma apply_moves:
  assumes "reached E m" "map_of (m_proposals m) k = Some q"
  shows "\<exists>q'. map_of (m_proposals (fst (apply_model E a m))) k = Some q' \<and> moved q q'"
proof (cases "fst (apply_model E a m) = m")
  case False
  have "value_core E m" using reached_core [OF assms(1)] by simp
  from turn_moves [OF apply_turn(1) [OF this False] reached_settled [OF assms(1)] assms(2)] show ?thesis .
qed (use assms(2) in auto)

section \<open>How the gate moves\<close>

definition gate_edges :: "(gate_status \<times> gate_status) set" where
  "gate_edges = {(Active, FrozenForUpgrade), (EmergencyFrozen, FrozenForUpgrade), (FrozenForUpgrade, FrozenForUpgrade),
     (FrozenForUpgrade, Active), (Active, EmergencyFrozen), (EmergencyFrozen, Active)}"

definition gate_counted :: "model \<Rightarrow> model \<Rightarrow> bool" where
  "gate_counted m m' \<longleftrightarrow>
     (m_gate m' = m_gate m \<and> m_target_nonce m' = m_target_nonce m)
     \<or> (unat (ga_epoch (m_gate m')) = unat (ga_epoch (m_gate m)) + 1
        \<and> (ga_status (m_gate m), ga_status (m_gate m')) \<in> gate_edges
        \<and> unat (m_target_nonce m') = unat (m_target_nonce m) +
            (if ga_status (m_gate m') = FrozenForUpgrade \<and> ga_status (m_gate m) \<noteq> FrozenForUpgrade then 1 else 0))"

lemma turn_gate:
  assumes "turn E m m'"
  shows "gate_counted m m'"
  using assms
proof cases
  case (freeze i p slot nonce epoch)
  then show ?thesis
    by (cases "ga_status (m_gate m)") (simp_all add: gate_counted_def gate_edges_def gate_open_def)
next
  case (roll_back i p j r slot epoch)
  then show ?thesis using active_frozen [OF roll_back(4)] by (simp add: gate_counted_def gate_edges_def)
next
  case (complete_primary i p j r epoch slot c d)
  then show ?thesis using active_frozen [OF complete_primary(3)] by (simp add: gate_counted_def gate_edges_def)
next
  case (complete_rollback i p j r epoch slot c d)
  then show ?thesis using active_frozen [OF complete_rollback(3)] by (simp add: gate_counted_def gate_edges_def)
qed (simp_all add: gate_counted_def gate_edges_def)

lemma apply_gate:
  assumes "reached E m"
  shows "gate_counted m (fst (apply_model E a m))"
proof (cases "fst (apply_model E a m) = m")
  case False
  then show ?thesis using turn_gate apply_turn(1) reached_core [OF assms] by blast
qed (simp add: gate_counted_def)

section \<open>Stranded upgrades\<close>

definition stranded :: "model \<Rightarrow> u64 \<Rightarrow> u64 \<Rightarrow> bool" where
  "stranded m i j \<longleftrightarrow> ga_status (m_gate m) = FrozenForUpgrade \<and> ga_active_proposal (m_gate m) = Some i
     \<and> (\<exists>p r. map_of (m_proposals m) i = Some p \<and> mp_class p \<noteq> EmergencyRollback \<and> mp_rollback_proposal p = Some j
          \<and> map_of (m_proposals m) j = Some r \<and> mp_state r \<in> {Cancelled, Expired})"

lemma turn_stranded_gate:
  assumes "turn E m m'" "settled m" "stranded m i j"
  shows "m_gate m' = m_gate m"
proof -
  note row = table_okD [OF settledD(1) [OF assms(2)]]
  have gate: "ga_status (m_gate m) = FrozenForUpgrade" "ga_active_proposal (m_gate m) = Some i"
    using assms(3) by (simp_all add: stranded_def)
  have only: "k = i" if "map_of (m_proposals m) k = Some q" "active_in m q" for k q
    using active_frozen [OF that(2)] row(1) [OF that(1)] gate(2) by simp
  from assms(1) show ?thesis
  proof cases
    case (roll_back k p j' r slot epoch)
    with only [OF roll_back(2,4)] assms(3) show ?thesis by (auto simp: stranded_def)
  next
    case (complete_primary k p j' r epoch slot c d)
    with only [OF complete_primary(2,3)] assms(3) show ?thesis by (auto simp: stranded_def)
  next
    case (complete_rollback k p j' r epoch slot c d)
    with only [OF complete_rollback(2,3)] assms(3) show ?thesis by (auto simp: stranded_def)
  qed (use gate in \<open>simp_all add: gate_open_def\<close>)
qed

lemma turn_stranded:
  assumes "turn E m m'" "settled m" "stranded m i j"
  shows "stranded m' i j"
proof -
  obtain p r where p: "map_of (m_proposals m) i = Some p" "mp_class p \<noteq> EmergencyRollback" "mp_rollback_proposal p = Some j"
    and r: "map_of (m_proposals m) j = Some r" "mp_state r \<in> {Cancelled, Expired}"
    using assms(3) by (auto simp: stranded_def)
  obtain p' where "map_of (m_proposals m') i = Some p'" "terms_kept p p'"
    using turn_moves [OF assms(1,2) p(1)] by (auto simp: moved_def)
  moreover have "map_of (m_proposals m') j = Some r"
    using turn_moves [OF assms(1,2) r(1)] r(2) by (auto simp: moved_def terminal_states_def)
  ultimately show ?thesis
    using assms(3) p r by (auto simp: stranded_def turn_stranded_gate [OF assms] terms_kept_def)
qed

lemma run_stranded: "reached E m \<Longrightarrow> stranded m i j \<Longrightarrow> stranded (run_model E as m) i j"
proof (induction as arbitrary: m)
  case (Cons a as)
  have "stranded (fst (apply_model E a m)) i j"
    using Cons.prems turn_stranded [OF apply_turn(1)] reached_core reached_settled
    by (cases "fst (apply_model E a m) = m") auto
  with Cons show ?case by (simp add: reached.act)
qed simp

end
