(* ===== verification/Release1_Safety.thy ===== *)
theory Release1_Safety
  imports Release1_Facts
begin

text \<open>
  What the Release 1 reference model guarantees along every run of actions from its initialisation, and
  the one way in which a run can get stuck.
\<close>

text \<open>C17: In every reachable model the consistency check that guards each action passes, so
  that no sequence of actions can lead the machine into a state it would itself reject.\<close>

theorem model_stays_consistent:
  assumes "reached E m"
  shows "validate_core E m = Inr ()"
  using reached_core [OF assms] by (simp add: validate_core_ok)

text \<open>C6: In every reachable model, a completed upgrade was approved by three different
  seats of the council it was created under, and three seats each attested the state before and after
  it, without forbidden drift and with the same hard state, and three approved the unfreezing.\<close>

theorem completed_upgrade_evidence:
  assumes "reached E m" and "map_of (m_proposals m) i = Some p" and "mp_state p = Completed"
  shows "quorum (mp_initial_approvals p) \<and>
    aa_council_version (mp_initial_approvals p) = mp_creation_council_version p \<and>
    aa_council_hash (mp_initial_approvals p) = mp_creation_council_hash p \<and>
    (\<exists>pre post. mp_prestate p = Some pre \<and> mp_poststate p = Some post \<and>
       quorum (ck_approvals pre) \<and> quorum (ck_approvals post) \<and>
       ck_forbidden_drift_count pre = 0 \<and> ck_forbidden_drift_count post = 0 \<and>
       ck_hard_state post = ck_hard_state pre) \<and>
    quorum (mp_unfreeze_approvals p)"
  using table_okD(4) [OF settledD(1) [OF reached_settled [OF assms(1)]] assms(2)] assms(3)
  by (auto simp: sound_def state_sets same_hard_state_def quorum_checkpoint_def)

text \<open>C14: In every reachable model, proposals are under way only while the gate is frozen for
  an upgrade; then the one it names is, and beside it at most the failed primary that it rolls back.\<close>

theorem one_upgrade_in_flight:
  assumes "reached E m"
  shows "if ga_status (m_gate m) = FrozenForUpgrade
    then \<exists>i p. ga_active_proposal (m_gate m) = Some i \<and> map_of (m_proposals m) i = Some p \<and>
      (flying m = {i} \<or> (\<exists>k q. flying m = {i, k} \<and> mp_class p = EmergencyRollback \<and> mp_primary_proposal p = Some k \<and>
         map_of (m_proposals m) k = Some q \<and> mp_state q \<in> {UpgradeExecuted, ProgramDataVerified}))
    else flying m = {}"
  using settledD(2) [OF reached_settled [OF assms]]
proof (cases rule: flight_cases)
  case idle
  then show ?thesis by (simp add: idle_def)
next
  case (forward i p)
  then show ?thesis by (auto simp: forward_def)
next
  case (backward i p q pq)
  then have "flying m = {i, q}" "mp_class p = EmergencyRollback" "mp_primary_proposal p = Some q"
    "map_of (m_proposals m) q = Some pq" "mp_state pq \<in> {UpgradeExecuted, ProgramDataVerified}"
    "ga_active_proposal (m_gate m) = Some i" "map_of (m_proposals m) i = Some p"
    by (simp_all add: backward_def)
  moreover have "ga_status (m_gate m) = FrozenForUpgrade" using backward by (simp add: backward_def)
  ultimately show ?thesis by metis
qed

text \<open>C16: An action leaves every existing proposal in the table with its terms, in the
  same state or moved along an edge of the lifecycle, and does not touch a proposal that has ended.\<close>

theorem proposals_follow_the_lifecycle:
  assumes "reached E m" and "map_of (m_proposals m) i = Some p"
  shows "\<exists>p'. map_of (m_proposals (fst (apply_model E a m))) i = Some p' \<and> terms_kept p p' \<and>
    (mp_state p' = mp_state p \<or> may_move (mp_state p) (mp_state p') (mp_extension_required p)) \<and>
    (mp_state p \<in> terminal_states \<longrightarrow> p' = p)"
  using apply_moves [OF assms, of a] by (simp add: moved_def)

text \<open>C18: An action either leaves the gate and the target nonce alone, or it moves the gate
  along one of six edges and advances its epoch by exactly one; the nonce advances, by one, exactly when
  the gate freezes for an upgrade.\<close>

theorem gate_changes_are_counted:
  assumes "reached E m" and "m' = fst (apply_model E a m)"
  shows "m_gate m' = m_gate m \<and> m_target_nonce m' = m_target_nonce m \<or>
    unat (ga_epoch (m_gate m')) = unat (ga_epoch (m_gate m)) + 1 \<and>
    (ga_status (m_gate m), ga_status (m_gate m')) \<in> gate_edges \<and>
    unat (m_target_nonce m') = unat (m_target_nonce m) +
      (if ga_status (m_gate m') = FrozenForUpgrade \<and> ga_status (m_gate m) \<noteq> FrozenForUpgrade then 1 else 0)"
  using apply_gate [OF assms(1), of a] unfolding assms(2) gate_counted_def .

text \<open>C15: If the prepared rollback of a primary upgrade is cancelled or expires while
  that upgrade holds the gate, no sequence of actions whatever opens the gate again: completing the
  upgrade and rolling it back both insist on a rollback that is still waiting.\<close>

theorem lost_rollback_freezes_for_good:
  assumes "reached E m" and "ga_status (m_gate m) = FrozenForUpgrade" and "ga_active_proposal (m_gate m) = Some i"
    and "map_of (m_proposals m) i = Some p" and "mp_class p \<noteq> EmergencyRollback"
    and "mp_rollback_proposal p = Some j" and "map_of (m_proposals m) j = Some r"
    and "mp_state r \<in> {Cancelled, Expired}"
  shows "ga_status (m_gate (run_model E as m)) = FrozenForUpgrade \<and>
    ga_active_proposal (m_gate (run_model E as m)) = Some i"
proof -
  have "stranded m i j" using assms by (auto simp: stranded_def)
  from run_stranded [OF assms(1) this, of as] show ?thesis by (simp add: stranded_def)
qed

end
