(* ===== verification/Release1_Runs.thy ===== *)
theory Release1_Runs
  imports Release1_Safety
begin

text \<open>
  Runs of the Release 1 reference model on concrete values, as the witnesses of its properties.
\<close>

definition run_graph :: identity_graph where
  "run_graph = \<lparr>ig_controller_program = 11, ig_controller_programdata = 12, ig_target_program = 13,
     ig_target_programdata = 14, ig_upgradeable_loader = 15, ig_authority_pda = 16, ig_gate_pda = 17,
     ig_policy_pda = 18, ig_council_pda = 19, ig_canonical_spill_treasury = 20, ig_guardian = 21\<rparr>"

definition run_observation :: "pubkey \<Rightarrow> programdata_observation" where
  "run_observation auth = \<lparr>po_slot = 5, po_payload_hash = 6, po_raw_hash = 7, po_capacity = 800, po_authority = auth\<rparr>"

definition run_term :: seat_term where
  "run_term = \<lparr>st_start_slot = 1, st_end_slot = 100000\<rparr>"

definition run_init :: model_initialization where
  "run_init = \<lparr>mi_slot = 1000, mi_graph = run_graph, mi_seats = [1, 2, 3, 4, 5],
     mi_seat_terms = [run_term, run_term, run_term, run_term, run_term],
     mi_delays = \<lparr>dl_review_slots = 10, dl_rollback_slots = 5, dl_routine_slots = 20, dl_major_slots = 30,
       dl_terminal_slots = 40, dl_proposal_expiry_slots = 100\<rparr>,
     mi_programdata = run_observation 99, mi_controller_programdata_linked = True,
     mi_initializer_is_controller_upgrade_authority = True, mi_target_programdata_linked = True,
     mi_canonical_pdas_verified = True, mi_seat_accounts_readonly = True, mi_seat_accounts_nonexecutable = True\<rparr>"

definition run_hard :: hard_state where
  "run_hard = \<lparr>hs_schema_identifier = 1, hs_program_owned_root = 2, hs_program_owned_count = 3,
     hs_logical_compressed_root = 4, hs_logical_compressed_count = 5, hs_semantic_custody_root = 6,
     hs_custody_identity_root = 7, hs_hard_combined_root = 214\<rparr>"

definition run_request :: "proposal_class \<Rightarrow> u64 option \<Rightarrow> u64 option \<Rightarrow> u64 \<Rightarrow> proposal_request" where
  "run_request c primary rollback slot = \<lparr>rq_class = c, rq_extension_required = False, rq_primary_proposal = primary,
     rq_rollback_proposal = rollback, rq_proposer_seat = 0, rq_proposer_signed = True, rq_payer_is_separate = True,
     rq_slot = slot\<rparr>"

definition handoff :: "model_action list" where
  "handoff = [SetProgramDataObservation (run_observation 16), SimulatePostHandoffActivation 1001 True]"

text \<open>Approving proposal \<open>i\<close> up to its timelock.\<close>

definition approving :: "u64 \<Rightarrow> u64 \<Rightarrow> model_action list" where
  "approving i slot = [AdoptBuffer i, VerifyBuffer i, ApproveProposal i 0 slot, ApproveProposal i 1 slot,
     ApproveProposal i 2 slot, SatisfyGovernance i slot, QueueProposal i slot]"

definition attesting :: "u64 \<Rightarrow> checkpoint_phase \<Rightarrow> u64 \<Rightarrow> model_action list" where
  "attesting i ph slot = map (\<lambda>seat. AttestCheckpoint i ph seat run_hard 0 slot) [0, 1, 2] @
     [FinalizeCheckpoint i ph [0, 1, 2] slot]"

text \<open>A primary upgrade with its prepared rollback, up to the installation of the code.\<close>

definition installing :: "model_action list" where
  "installing = handoff @ [CreateProposal (run_request RoutineUpgrade None (Some 2) 1010),
       CreateProposal (run_request EmergencyRollback (Some 1) None 1020)] @
     approving 1 1015 @ approving 2 1025 @ [FreezeProposal 1 1045] @ attesting 1 Prestate 1050 @ [ExecuteUpgrade 1 1052]"

text \<open>The upgrade is completed; or it is not, and anyone expires the rollback when its time is up.\<close>

definition finishing :: "model_action list" where
  "finishing = VerifyProgramData 1 1053 # attesting 1 Poststate 1054 @
     [ApproveUnfreeze 1 0 1056, ApproveUnfreeze 1 1 1056, ApproveUnfreeze 1 2 1056, ExecuteUnfreeze 1 1057]"

definition lost :: "model_action list" where
  "lost = [ExpireProposal 2 1120]"

text \<open>A run in which every action succeeds; the consistency check may be skipped on reachable models.\<close>

fun performs :: "env \<Rightarrow> model_action list \<Rightarrow> model \<Rightarrow> model option" where
  "performs E [] m = Some m"
| "performs E (a # as) m =
     (if \<not> is_initialize a \<and> \<not> (ga_status (m_gate m) = Active \<and> \<not> runtime_canonical m \<and> \<not> observation_action a)
      then (case perform E a m of Inl e \<Rightarrow> None | Inr (m', out) \<Rightarrow> performs E as m') else None)"

lemma performs_reached:
  "reached E m \<Longrightarrow> performs E as m = Some m' \<Longrightarrow> reached E m' \<and> run_model E as m = m'"
proof (induction as arbitrary: m)
  case (Cons a as)
  obtain m1 out where m1: "perform E a m = Inr (m1, out)" and rest: "performs E as m1 = Some m'"
    and guard: "\<not> is_initialize a" "\<not> (ga_status (m_gate m) = Active \<and> \<not> runtime_canonical m \<and> \<not> observation_action a)"
    using Cons.prems(2) by (auto split: if_splits sum.splits)
  have "validate_core E m = Inr ()"
    using reached_core [OF Cons.prems(1)] by (simp add: validate_core_ok)
  then have "fst (apply_model E a m) = m1"
    using m1 guard by (simp add: apply_model_def apply_in_place_def ensure_def)
  with Cons.IH [OF _ rest] reached.act [OF Cons.prems(1), of a] show ?case by simp
qed simp

lemma performs_append: "performs E (as @ bs) m = Option.bind (performs E as m) (performs E bs)"
  by (induction as arbitrary: m) (auto split: sum.split)

lemma bnd_weak: "m = m' \<Longrightarrow> bnd m f = bnd m' f" by simp

lemma hashv_sample: "hashv sample_env vals = of_nat (length (concat vals))"
  by (simp add: hashv_def)

lemmas value_defs = ensure_def graph_validate_def graph_keys_def delays_validate_def observation_validate_def
  canonical_observation_def validate_persistable_def council_new_def council_validate_def model_council_hash_def
  checked_add_def term_validate_at_def term_covers_def MODEL_COUNCIL_SIZE_def
  LOADER_V3_PROGRAMDATA_METADATA_LEN_def LOADER_V3_PROGRAM_ACCOUNT_LEN_def MAX_ATOMIC_RAW_PROGRAMDATA_ACCOUNT_BYTES_def
  COUNCIL_HASH_DOMAIN_def hashv_sample Let_def word_le_nat_alt word_less_nat_alt

lemmas core_defs = validate_core_def model_gate_validate_def runtime_canonical_def is_canonical_for_def
  BOOTSTRAP_INITIALIZATION_FREEZE_REASON_def apply_model_def apply_in_place_def is_initialize_def observation_action_def
  applied_def created_def

lemmas run_defs = run_term_def run_graph_def run_observation_def run_init_def model_default_def initialize_model_def initialized_model_def

lemma small_masks:
  "pop_count (1 :: byte) = 1" "pop_count (3 :: byte) = 2" "pop_count (7 :: byte) = 3"
  "shl1 0 = (1 :: byte)" "shl1 1 = (2 :: byte)" "shl1 2 = (4 :: byte)"
  "shl1 (Suc 0) = (2 :: byte)" "shl1 3 = (8 :: byte)" "shl1 4 = (16 :: byte)" "[0..<5] = [0, 1, 2, 3, 4]"
  by code_simp+

lemmas handler_defs = set_programdata_observation_def simulate_post_handoff_activation_def clear_gate_to_active_def
  create_proposal_def require_controller_programdata_authority_def require_seat_active_def link_shape_def
  bootstrap_frozen_def proposal_timing_def drafted_proposal_def checked_increment_def put_proposal_def get_proposal_def
  transition_current_candidate_def require_current_nonce_def require_creation_gate_def transition_simple_def
  proposal_edge_allowed_def approve_proposal_def validate_proposal_timing_def record_pinned_def record_seat_def
  accumulator_validate_def MODEL_VALID_APPROVAL_MASK_def is_complete_def MODEL_ROUTINE_THRESHOLD_def
  satisfy_governance_def queue_proposal_def pinned_initial_quorum_complete_def pinned_def accumulator_default_def
  run_request_def handoff_def approving_def small_masks freeze_proposal_def require_freeze_execution_runway_def
  validate_prepared_rollback_def consume_proposal_freeze_def MODEL_GOVERNED_FREEZE_REASON_def attest_checkpoint_def
  hard_state_validate_def run_hard_def recompute_hard_combined_root_def HARD_COMBINED_ROOT_DOMAIN_def
  require_frozen_proposal_def phase_open_def seat_authority_def phase_attestations_def finalize_checkpoint_def
  select_checkpoint_quorum_def record_current_def is_complete_at_def require_mask_active_def new_checkpoint_def
  execute_proposal_upgrade_def checkpoint_accepted_def require_primary_execution_rollback_runway_def
  expire_proposal_def is_pre_freeze_def verify_programdata_def approve_unfreeze_def execute_unfreeze_def
  installing_def lost_def finishing_def attesting_def

lemmas run_congs = bnd_weak if_weak_cong option.case_cong_weak sum.case_cong_weak



text \<open>What the two runs end in.\<close>

definition completed_run :: "model \<Rightarrow> bool" where
  "completed_run m \<longleftrightarrow> ga_status (m_gate m) = Active \<and> (\<exists>p. map_of (m_proposals m) 1 = Some p \<and> mp_state p = Completed)"

definition stranded_run :: "model \<Rightarrow> bool" where
  "stranded_run m \<longleftrightarrow> ga_status (m_gate m) = FrozenForUpgrade \<and> ga_active_proposal (m_gate m) = Some 1
     \<and> (\<exists>p r. map_of (m_proposals m) 1 = Some p \<and> mp_class p = RoutineUpgrade \<and> mp_rollback_proposal p = Some 2
          \<and> mp_state p = UpgradeExecuted \<and> map_of (m_proposals m) 2 = Some r \<and> mp_state r = Expired)"

lemma runs:
  "case apply_in_place sample_env (Initialize run_init) model_default of Inl _ \<Rightarrow> False | Inr (m0, out) \<Rightarrow>
     (case performs sample_env installing m0 of None \<Rightarrow> False | Some m1 \<Rightarrow>
       (case performs sample_env finishing m1 of None \<Rightarrow> False | Some m2 \<Rightarrow> completed_run m2) \<and>
       (case performs sample_env lost m1 of None \<Rightarrow> False | Some m3 \<Rightarrow> stranded_run m3))"
  by (simp add: value_defs core_defs run_defs handler_defs completed_run_def stranded_run_def cong: run_congs)

lemma final_models:
  obtains m2 m3 where "reached sample_env m2" "completed_run m2" "reached sample_env m3" "stranded_run m3"
proof -
  obtain m0 out m1 m2 m3 where run: "apply_in_place sample_env (Initialize run_init) model_default = Inr (m0, out)"
      "performs sample_env installing m0 = Some m1" "performs sample_env finishing m1 = Some m2"
      "performs sample_env lost m1 = Some m3" "completed_run m2" "stranded_run m3"
    using runs by (auto split: sum.split_asm prod.split_asm option.split_asm)
  have "reached sample_env m1"
    using performs_reached [OF reached.start [OF run(1)] run(2)] by simp
  with run show ?thesis using that performs_reached by blast
qed

theorem model_stays_consistent_witness: "\<exists>m. completed_run m \<and> validate_core sample_env m = Inr ()"
  using final_models model_stays_consistent by metis

theorem completed_upgrade_evidence_witness:
  "\<exists>m p. completed_run m \<and> map_of (m_proposals m) 1 = Some p \<and> quorum (mp_initial_approvals p) \<and> quorum (mp_unfreeze_approvals p)"
proof -
  obtain m where m: "reached sample_env m" "completed_run m" by (rule final_models)
  then obtain p where p: "map_of (m_proposals m) 1 = Some p" "mp_state p = Completed"
    by (auto simp: completed_run_def)
  from completed_upgrade_evidence [OF m(1) p] m(2) p(1) show ?thesis by blast
qed

theorem one_upgrade_in_flight_witness: "\<exists>m. stranded_run m \<and> flying m = {1}"
proof -
  obtain m where m: "reached sample_env m" "stranded_run m" by (rule final_models)
  from one_upgrade_in_flight [OF m(1)] m(2) have "flying m = {1}"
    by (auto simp: stranded_run_def)
  with m(2) show ?thesis by blast
qed

theorem proposals_follow_the_lifecycle_witness:
  "\<exists>m r. mp_state r = Expired \<and> map_of (m_proposals (fst (apply_model sample_env (ApproveCancellation 2 0 1130 5) m))) 2 = Some r"
proof -
  obtain m where m: "reached sample_env m" "stranded_run m" by (rule final_models)
  then obtain r where r: "map_of (m_proposals m) 2 = Some r" "mp_state r = Expired"
    by (auto simp: stranded_run_def)
  from proposals_follow_the_lifecycle [OF m(1) r(1), of "ApproveCancellation 2 0 1130 5"] r(2) show ?thesis
    by (auto simp: terminal_states_def)
qed

theorem gate_changes_are_counted_witness:
  "\<exists>m m'. completed_run m \<and> m' = fst (apply_model sample_env (GuardianFreeze 21 1200 7) m) \<and>
    (m_gate m' = m_gate m \<or> unat (ga_epoch (m_gate m')) = unat (ga_epoch (m_gate m)) + 1)"
proof -
  obtain m where m: "reached sample_env m" "completed_run m" by (rule final_models)
  from gate_changes_are_counted [OF m(1) refl, of "GuardianFreeze 21 1200 7"] m(2) show ?thesis by blast
qed

theorem lost_rollback_freezes_for_good_witness:
  "\<exists>m. stranded_run m \<and> (\<forall>as. ga_status (m_gate (run_model sample_env as m)) = FrozenForUpgrade)"
proof -
  obtain m where m: "reached sample_env m" "stranded_run m" by (rule final_models)
  then obtain p r where "ga_status (m_gate m) = FrozenForUpgrade" "ga_active_proposal (m_gate m) = Some 1"
    "map_of (m_proposals m) 1 = Some p" "mp_class p \<noteq> EmergencyRollback" "mp_rollback_proposal p = Some 2"
    "map_of (m_proposals m) 2 = Some r" "mp_state r \<in> {Cancelled, Expired}"
    by (auto simp: stranded_run_def)
  from lost_rollback_freezes_for_good [OF m(1) this] m(2) show ?thesis by blast
qed

end
