(* ===== verification/Upgrade_Runs.thy ===== *)
theory Upgrade_Runs
  imports Target_Runs
begin

text \<open>
  Complete runs of the artifact handlers: the verification of the only chunk of a small artifact and
  its installation into a registered target.
\<close>

section \<open>Verification\<close>

abbreviation chunk_bytes :: "byte list" where "chunk_bytes \<equiv> [1, 2, 3, 4, 5]"

text \<open>The sealed buffer holds the artifact behind the 37 bytes of its header.\<close>

definition sealed_ledger :: "proposal \<Rightarrow> ledger" where
  "sealed_ledger p = (target_ledger p EmergencyFrozen)
     (41 := \<lparr>lamports = 4, acc_data = buffer_bytes (Some 1057) 0 chunk_bytes, owner = 901\<rparr>)"

lemma sealed_ledger_at [simp]:
  "sealed_ledger p 41 = \<lparr>lamports = 4, acc_data = buffer_bytes (Some 1057) 0 chunk_bytes, owner = 901\<rparr>"
  "k \<noteq> 41 \<Longrightarrow> sealed_ledger p k = target_ledger p EmergencyFrozen k"
  by (simp_all add: sealed_ledger_def)

lemma sealed_loads:
  assumes "config_validate E = config_validate sample_env" "proposal_validate E = proposal_validate sample_env"
    "find_program_address E = find_program_address sample_env"
  shows "load_config E program_key (ro 1026) (sealed_ledger p) = Inr sample_config"
    "wf_proposal p \<Longrightarrow> proposal_validate sample_env p program_key 1035 = Inr () \<Longrightarrow>
      load_proposal E program_key (rw 1035) (Some (pr_digest p)) (sealed_ledger p) = Inr p"
    "load_gate E program_key (rw 1055) target_key (sealed_ledger p) = Inr (target_gate EmergencyFrozen)"
proof -
  note same = load_local_facts [of "sealed_ledger p" _ "target_ledger p EmergencyFrozen"]
  have "load_config E program_key (ro 1026) (sealed_ledger p) = load_config E program_key (ro 1026) (target_ledger p EmergencyFrozen)"
    "load_proposal E program_key (rw 1035) d (sealed_ledger p) = load_proposal E program_key (rw 1035) d (target_ledger p EmergencyFrozen)"
    "load_gate E program_key (rw 1055) t (sealed_ledger p) = load_gate E program_key (rw 1055) t (target_ledger p EmergencyFrozen)" for d t
    by (rule same, simp)+
  with target_loads [OF assms]
  show "load_config E program_key (ro 1026) (sealed_ledger p) = Inr sample_config"
    "wf_proposal p \<Longrightarrow> proposal_validate sample_env p program_key 1035 = Inr () \<Longrightarrow>
      load_proposal E program_key (rw 1035) (Some (pr_digest p)) (sealed_ledger p) = Inr p"
    "load_gate E program_key (rw 1055) target_key (sealed_ledger p) = Inr (target_gate EmergencyFrozen)"
    by simp_all
qed

lemma sealed_sample:
  assumes "buffer_authority_pda E = buffer_authority_pda sample_env" and "loader_id E = 901" and "ai_key i = 41"
    "\<not> executable i" "\<not> is_signer i"
  shows "sealed E program_key 1035 i sample_artifact (sealed_ledger p) = Inr ()"
  using assms by (simp add: sealed_def validate_buffer_account_def parse_buffer_bytes require_def sample_artifact_def)

lemma chunk_verifies: "verify_chunk sample_env 37 5 0 chunk_bytes [] = Inr ()"
  by (simp add: verify_chunk_ok div_ceil_def next_power_of_two_def next_power_from.simps leaf_material_def
      ARTIFACT_CHUNK_LEAF_DOMAIN_V1_def tree_root_0)

lemma verify_runs:
  "\<exists>M. verify sample_env program_key [ro 1026, rw 1035, ro 41] (pr_digest (proposal_for upgrade_action)) 0 0 []
      (sealed_ledger (proposal_for upgrade_action)) = Inr M"
proof -
  let ?p = "proposal_for upgrade_action" and ?L = "sealed_ledger (proposal_for upgrade_action)"
  have loads: "load_config sample_env program_key (ro 1026) ?L = Inr sample_config"
    "load_proposal sample_env program_key (rw 1035) (Some (pr_digest ?p)) ?L = Inr ?p"
    by (rule sealed_loads; simp)+
  have slot: "clock sample_env = Inr 2000000" by (simp add: clock_ok)
  have current: "proposal_current ?p sample_config 2000000 = Inr ()" by (simp add: proposal_current_ok)
  have wf: "wf_proposal ?p" by simp
  have "proposal_validate sample_env ?p program_key 1035 = Inr ()" by simp
  moreover obtain q where q: "mark_chunk_verified ?p 0 = Inr q"
    using mark_chunk_ok [OF wf, of 0] by (simp add: verified_bitmap_def Let_def nth_append)
  ultimately have "proposal_validate sample_env q program_key 1035 = Inr ()" "wf_proposal q"
    using mark_chunk_valid [OF wf _ _ q] mark_chunk_marked [OF wf q] by simp_all
  then have save: "save_proposal sample_env program_key (rw 1035) q ?L = Inr (set_data (rw 1035) (ser_proposal q) ?L)"
    using proposal_store.save_loaded [of sample_env program_key "rw 1035" ?L ?p q] load_proposal_any [OF loads(2)] by simp
  have slice: "checked_slice 37 42 (buffer_bytes (Some 1057) 0 chunk_bytes) = Inr chunk_bytes"
    by (simp add: checked_slice_def subslice_def buffer_bytes_def)
  have "chunk_count 5 = Inr 1" by (simp add: chunk_count_def require_def div_ceil_def CHUNK_def MAX_ARTIFACT_BYTES_def)
  moreover have "checked_slice 0 0 ([] :: hash32 list) = Inr []" by (simp add: checked_slice_def subslice_def)
  moreover have "sealed sample_env program_key 1035 (ro 41) sample_artifact ?L = Inr ()"
    by (rule sealed_sample) simp_all
  moreover have "ar_artifact_length sample_artifact = 5" "ar_merkle_root sample_artifact = 37"
    by (simp_all add: sample_artifact_def)
  ultimately show ?thesis
    using save by (simp add: verify_def guard_ok loads slot current q Let_def CHUNK_def slice chunk_verifies)
qed

theorem verify_effect_witness:
  "\<exists>M q. verify sample_env program_key [ro 1026, rw 1035, ro 41] (pr_digest (proposal_for upgrade_action)) 0 0 []
      (sealed_ledger (proposal_for upgrade_action)) = Inr M \<and>
    load_proposal sample_env program_key (rw 1035) (Some (pr_digest (proposal_for upgrade_action))) M = Inr q \<and>
    0 \<in> marked (verified_bitmap q)"
proof -
  obtain M where M: "verify sample_env program_key [ro 1026, rw 1035, ro 41] (pr_digest (proposal_for upgrade_action)) 0 0 []
      (sealed_ledger (proposal_for upgrade_action)) = Inr M"
    using verify_runs by blast
  from verify_effect [OF M] M show ?thesis by auto
qed

section \<open>Installation\<close>

definition ready_proposal :: proposal where
  "ready_proposal = (approved_proposal upgrade_action)
     \<lparr>pr_verified_chunks := 1 # replicate 11 0, pr_verified_count := 1\<rparr>"

lemma marked_zeros [simp]: "marked (replicate n 0) = {}"
  by (auto simp: marked_def)

lemma ready_bitmap: "verified_bitmap ready_proposal = 1 # replicate 15 0"
  by (simp add: ready_proposal_def verified_bitmap_def approved_proposal_def flip: replicate_add)

lemma ready_marked: "marked (verified_bitmap ready_proposal) = {0}"
  by (auto simp: ready_bitmap marked_Cons voters_def bit_1_iff)

lemma ready_wf [simp]: "wf_proposal ready_proposal"
  using approved_proposal_wf [of upgrade_action] by (simp add: ready_proposal_def wf_proposal_def)

lemma pop_count_1 [simp]: "pop_count (1 :: byte) = 1"
  by code_simp

lemma ready_valid [simp]: "proposal_validate sample_env ready_proposal program_key 1035 = Inr ()"
proof -
  have v: "proposal_validate sample_env (approved_proposal upgrade_action) program_key 1035 = Inr ()" by simp
  have "sum_list (map pop_count (verified_bitmap ready_proposal)) = 1"
    unfolding ready_bitmap by (simp add: bitmap_zero del: replicate.simps)
  with v [unfolded proposal_validate_ok proposal_fields_ok_def lifecycle_ok_def extension_validate_def compute_digest_def]
  show ?thesis
    unfolding proposal_validate_ok proposal_fields_ok_def lifecycle_ok_def extension_validate_def compute_digest_def
    by (simp add: ready_proposal_def state_consts)
qed

lemma ready_complete: "complete ready_proposal = Inr ()"
  unfolding complete_ok [OF ready_wf] ready_marked
  by (auto simp: ready_proposal_def sample_artifact_def div_ceil_def)

lemma ready_select [simp]:
  "pr_action ready_proposal = upgrade_action" "proposal_executable ready_proposal sample_config 2000000 = Inr ()"
  "pr_digest ready_proposal = pr_digest (approved_proposal upgrade_action)"
  by (simp_all add: ready_proposal_def proposal_executable_ok)

abbreviation upgrade_list_sample :: "account_info list" where
  "upgrade_list_sample \<equiv> [ro 1026, rw 1035, prog_rw 700, rw 1032, rw 41, rw 31, ro 1067, ro 1057, prog 901, ro 905,
     ro 906, ro 903, rw 1055]"

definition resealed :: ledger where
  "resealed = (sealed_ledger ready_proposal)
     (41 := \<lparr>lamports = 4, acc_data = buffer_bytes (Some 1067) 0 chunk_bytes, owner = 901\<rparr>)"

definition installed :: ledger where
  "installed = move_all 41 31 (resealed
     (1032 := \<lparr>lamports = 5, acc_data = programdata_bytes 2000000 (Some 1067) 0 (chunk_bytes @ replicate 5 0), owner = 901\<rparr>))"

lemma reseal_call:
  "invoke_signed world_env (SetBufferAuthorityChecked 41 1057 1067) [41, 1057, 1067, 901] sds (sealed_ledger ready_proposal)
     = Inr resealed"
proof -
  let ?L = "sealed_ledger ready_proposal"
  have "invoke_signed world_env (SetBufferAuthorityChecked 41 1057 1067) [41, 1057, 1067, 901] sds ?L
      = Inr (sample_effect (SetBufferAuthorityChecked 41 1057 1067) ?L)"
    by (rule world_invoke) simp
  also have "sample_effect (SetBufferAuthorityChecked 41 1057 1067) ?L = resealed"
    by (simp add: resealed_def buffer_bytes_def LOADER_STATE_TAG_BUFFER_def)
  finally show ?thesis .
qed

lemma resealed_at [simp]:
  "acc_data (resealed 700) = program_bytes 1032" "acc_data (resealed 41) = buffer_bytes (Some 1067) 0 chunk_bytes"
  "resealed 1032 = \<lparr>lamports = 5, acc_data = programdata_bytes 44 (Some 1067) 0 (replicate 10 9), owner = 901\<rparr>"
  by (simp_all add: resealed_def)

lemma install_call:
  "invoke_signed world_env (LoaderUpgrade 700 41 1067 31) [1032, 700, 41, 31, 905, 906, 1067, 901] sds resealed = Inr installed"
proof -
  have pd: "programdata_of resealed 700 = 1032" by (rule programdata_of_program) simp
  have "invoke_signed world_env (LoaderUpgrade 700 41 1067 31) [1032, 700, 41, 31, 905, 906, 1067, 901] sds resealed
      = Inr (sample_effect (LoaderUpgrade 700 41 1067 31) resealed)"
    by (rule world_invoke) (simp add: pd Let_def move_all_def)
  also have "sample_effect (LoaderUpgrade 700 41 1067 31) resealed = installed"
    by (simp add: pd installed_def Let_def buffer_bytes_def programdata_bytes_def)
  finally show ?thesis .
qed

lemma installed_at [simp]:
  "installed 700 = sealed_ledger ready_proposal 700" "installed 1055 = sealed_ledger ready_proposal 1055"
  "installed 1035 = sealed_ledger ready_proposal 1035"
  "acc_data (installed 1032) = programdata_bytes 2000000 (Some 1067) 0 (chunk_bytes @ replicate 5 0)"
  "owner (installed 1032) = 901"
  by (simp_all add: installed_def move_all_def resealed_def)

lemma upgrade_runs:
  "\<exists>M. execute_upgrade (tx_env upgrade_list_sample [12]) program_key upgrade_list_sample
      (pr_digest (approved_proposal upgrade_action)) [12] True (sealed_ledger ready_proposal) = Inr M"
proof -
  let ?E = "tx_env upgrade_list_sample [12]" and ?p = ready_proposal and ?L = "sealed_ledger ready_proposal"
  let ?g = "target_gate EmergencyFrozen"
  have loads: "load_config ?E program_key (ro 1026) ?L = Inr sample_config"
    "load_proposal ?E program_key (rw 1035) (Some (pr_digest ?p)) ?L = Inr ?p"
    "load_gate ?E program_key (rw 1055) target_key ?L = Inr ?g"
    by (rule sealed_loads; simp add: fun_eq_iff)+
  have "load_gate ?E program_key (rw 1055) target_key installed = load_gate ?E program_key (rw 1055) target_key ?L"
    by (rule load_local_facts) simp
  with loads(3) have gate: "load_gate ?E program_key (rw 1055) 700 installed = Inr ?g"
    by (simp add: target_key_def)
  have before: "validate_program_programdata_linkage ?L (prog_rw 700) (rw 1032) 901
      = Inr \<lparr>deployed_slot = 44, upgrade_authority = Some 1067, payload_offset = 45, capacity = 10\<rparr>"
    by (simp add: validate_program_programdata_linkage_def parse_program_bytes parse_programdata_bytes)
  have after: "validate_program_programdata_linkage installed (prog_rw 700) (rw 1032) 901
      = Inr \<lparr>deployed_slot = 2000000, upgrade_authority = Some 1067, payload_offset = 45, capacity = 10\<rparr>"
    by (simp add: validate_program_programdata_linkage_def parse_program_bytes parse_programdata_bytes)
  have seal: "sealed ?E program_key 1035 (rw 41) sample_artifact ?L = Inr ()"
    by (rule sealed_sample) simp_all
  let ?g' = "?g\<lparr>gt_epoch := 6, gt_freeze_slot := 2000000, gt_freeze_reason_code := 2, gt_last_completed_proposal := 1035\<rparr>"
  let ?N = "set_data (rw 1055) (ser_gate ?g') installed"
  have "wf_gate ?g'" "gate_validate_static ?g' = Inr ()"
    by (simp_all add: wf_gate_def gate_validate_static_ok gate_canonical_def target_gate_def sample_gate_def
        PROTOCOL_GATE_DISCRIMINATOR_def target_key_def)
  then have save_gate: "save_gate program_key (rw 1055) ?g' installed = Inr ?N"
    by (simp add: save_gate_ok gate_codec.ser_size)
  have save: "save_proposal ?E program_key (rw 1035) (executed ?p 2000000) ?N
      = Inr (set_data (rw 1035) (ser_proposal (executed ?p 2000000)) ?N)"
    by (rule save_executed [OF loads(2) ready_select(2)]) (simp_all add: ledger_simps)
  have split: "split_target_accounts upgrade_list_sample True = Inr (butlast upgrade_list_sample, Some (rw 1055))"
    by (simp add: split_target_accounts_def guard_ok)
  have "tu_target sample_target_upgrade = 700" "tu_gate_epoch sample_target_upgrade = 5"
    "ar_artifact_length sample_artifact = 5"
    by (simp_all add: sample_target_upgrade_def target_key_def sample_artifact_def)
  then show ?thesis
    using save_gate save unfolding executed_def
    by (simp del: world_env_simps(11) add: execute_upgrade_def split loads [unfolded target_key_def ready_select] guard_ok
        ready_complete upgrade_scope_def before after seal Let_def reseal_call install_call gate)
qed

theorem execute_upgrade_effect_witness:
  "\<exists>M p slot. execute_upgrade (tx_env upgrade_list_sample [12]) program_key upgrade_list_sample
      (pr_digest (approved_proposal upgrade_action)) [12] True (sealed_ledger ready_proposal) = Inr M \<and>
    marked (verified_bitmap p) = {..<1} \<and> has_quorum p slot"
proof -
  obtain M where M: "execute_upgrade (tx_env upgrade_list_sample [12]) program_key upgrade_list_sample
      (pr_digest (approved_proposal upgrade_action)) [12] True (sealed_ledger ready_proposal) = Inr M"
    using upgrade_runs by blast
  have "distinct (map ai_key upgrade_list_sample)" by simp
  from execute_upgrade_effect [OF M tx_cpi_frame this] obtain u p slot a where
    p: "load_proposal (tx_env upgrade_list_sample [12]) program_key (ua_proposal u)
      (Some (pr_digest (approved_proposal upgrade_action))) (sealed_ledger ready_proposal) = Inr p"
    "has_quorum p slot" "action_artifact (pr_action p) = Inr a"
    "marked (verified_bitmap p) = {..<div_ceil (unat (ar_artifact_length a)) 16384}"
    and u: "\<exists>g. upgrade_list_sample = upgrade_list u @ (case g of Some i \<Rightarrow> [i] | None \<Rightarrow> [])"
    by blast
  have "ua_proposal u = rw 1035" using u by (auto simp: upgrade_list_def)
  moreover have "load_proposal (tx_env upgrade_list_sample [12]) program_key (rw 1035)
      (Some (pr_digest ready_proposal)) (sealed_ledger ready_proposal) = Inr ready_proposal"
    by (rule sealed_loads; simp add: fun_eq_iff)
  ultimately have "p = ready_proposal" using p(1) by simp
  then have "marked (verified_bitmap p) = {..<1}" by (auto simp: ready_marked)
  with M p(2) show ?thesis by blast
qed

end
