(* ===== verification/Upgrade_Proposal.thy ===== *)
theory Upgrade_Proposal
  imports Controller_Accounts
begin

text \<open>
  The Version 1 upgrade proposal of \<open>upgrade_controller/src/state.rs\<close>: its 1280-byte layout and the
  predicates on it.
\<close>

section \<open>The account\<close>

definition UPGRADE_PROPOSAL_LEN :: nat where "UPGRADE_PROPOSAL_LEN = 1280"

record upgrade_proposal_v1 =
  up_discriminator :: "byte list"
  up_account_version :: byte
  up_bump :: byte
  up_initialized :: bool
  up_proposal_id :: u64
  up_target_nonce :: u64
  up_proposal_class :: proposal_class_v1
  up_state :: proposal_state_v1
  up_cluster_domain :: hash32
  up_controller_program :: pubkey
  up_controller_config :: pubkey
  up_protocol_gate :: pubkey
  up_policy_version :: u64
  up_policy_hash :: hash32
  up_council_version :: u64
  up_council_hash :: hash32
  up_creation_gate_epoch :: u64
  up_freeze_gate_epoch :: u64
  up_target_program :: pubkey
  up_target_programdata :: pubkey
  up_upgradeable_loader :: pubkey
  up_authority_pda :: pubkey
  up_canonical_spill_treasury :: pubkey
  up_buffer_pubkey :: pubkey
  up_buffer_loader_owner :: pubkey
  up_buffer_authority :: pubkey
  up_artifact_length :: u64
  up_artifact_sha256 :: hash32
  up_source_commit_hash :: hash32
  up_source_tree_hash :: hash32
  up_build_input_inventory_hash :: hash32
  up_reproducible_build_receipt_hash :: hash32
  up_package_receipt_hash :: hash32
  up_release_intent_hash :: hash32
  up_current_deployed_payload_hash :: hash32
  up_current_raw_programdata_hash :: hash32
  up_deployed_slot :: u64
  up_current_capacity :: u64
  up_extension_delta :: u64
  up_expected_post_capacity :: u64
  up_prestate_checkpoint :: pubkey
  up_required_poststate_checkpoint :: pubkey
  up_rollback_proposal :: optional_pubkey_v1
  up_rollback_buffer :: optional_pubkey_v1
  up_rollback_artifact_hash :: hash32
  up_vote_requirement :: vote_requirement_v1
  up_vote_program :: pubkey
  up_vote_result_pda :: pubkey
  up_review_start_slot :: u64
  up_review_end_slot :: u64
  up_not_before_slot :: u64
  up_expiry_slot :: u64
  up_council_approval_bitset :: byte
  up_council_approval_count :: byte
  up_poststate_approval_bitset :: byte
  up_poststate_approval_count :: byte
  up_unfreeze_approval_bitset :: byte
  up_unfreeze_approval_count :: byte
  up_proposal_digest :: hash32
  up_cancellation_reason_code :: u16
  up_terminal_reason_code :: u16
  up_reserved :: "byte list"

definition wf_upgrade_proposal_v1 :: "upgrade_proposal_v1 \<Rightarrow> bool" where
  "wf_upgrade_proposal_v1 x \<longleftrightarrow>
     length (up_discriminator x) = 8 \<and> length (up_reserved x) = 142"

definition ser_upgrade_proposal_v1 :: "upgrade_proposal_v1 \<Rightarrow> byte list" where
  "ser_upgrade_proposal_v1 x =
     up_discriminator x @ wr_u8 (up_account_version x) @ wr_u8 (up_bump x) @
     wr_bool (up_initialized x) @ wr_u64 (up_proposal_id x) @ wr_u64 (up_target_nonce x) @
     ser_enum proposal_class_byte (up_proposal_class x) @
     ser_enum proposal_state_byte (up_state x) @ wr_32 (up_cluster_domain x) @
     wr_32 (up_controller_program x) @ wr_32 (up_controller_config x) @ wr_32 (up_protocol_gate x) @
     wr_u64 (up_policy_version x) @ wr_32 (up_policy_hash x) @ wr_u64 (up_council_version x) @
     wr_32 (up_council_hash x) @ wr_u64 (up_creation_gate_epoch x) @
     wr_u64 (up_freeze_gate_epoch x) @ wr_32 (up_target_program x) @
     wr_32 (up_target_programdata x) @ wr_32 (up_upgradeable_loader x) @
     wr_32 (up_authority_pda x) @ wr_32 (up_canonical_spill_treasury x) @
     wr_32 (up_buffer_pubkey x) @ wr_32 (up_buffer_loader_owner x) @ wr_32 (up_buffer_authority x) @
     wr_u64 (up_artifact_length x) @ wr_32 (up_artifact_sha256 x) @
     wr_32 (up_source_commit_hash x) @ wr_32 (up_source_tree_hash x) @
     wr_32 (up_build_input_inventory_hash x) @ wr_32 (up_reproducible_build_receipt_hash x) @
     wr_32 (up_package_receipt_hash x) @ wr_32 (up_release_intent_hash x) @
     wr_32 (up_current_deployed_payload_hash x) @ wr_32 (up_current_raw_programdata_hash x) @
     wr_u64 (up_deployed_slot x) @ wr_u64 (up_current_capacity x) @ wr_u64 (up_extension_delta x) @
     wr_u64 (up_expected_post_capacity x) @ wr_32 (up_prestate_checkpoint x) @
     wr_32 (up_required_poststate_checkpoint x) @ ser_optional_pubkey_v1 (up_rollback_proposal x) @
     ser_optional_pubkey_v1 (up_rollback_buffer x) @ wr_32 (up_rollback_artifact_hash x) @
     ser_enum vote_requirement_byte (up_vote_requirement x) @ wr_32 (up_vote_program x) @
     wr_32 (up_vote_result_pda x) @ wr_u64 (up_review_start_slot x) @
     wr_u64 (up_review_end_slot x) @ wr_u64 (up_not_before_slot x) @ wr_u64 (up_expiry_slot x) @
     wr_u8 (up_council_approval_bitset x) @ wr_u8 (up_council_approval_count x) @
     wr_u8 (up_poststate_approval_bitset x) @ wr_u8 (up_poststate_approval_count x) @
     wr_u8 (up_unfreeze_approval_bitset x) @ wr_u8 (up_unfreeze_approval_count x) @
     wr_32 (up_proposal_digest x) @ wr_u16 (up_cancellation_reason_code x) @
     wr_u16 (up_terminal_reason_code x) @ up_reserved x"

definition de_upgrade_proposal_v1 :: "upgrade_proposal_v1 reader" where
  "de_upgrade_proposal_v1 bs = do {
     (discriminator, bs) \<leftarrow> rd_bytes 8 bs; (account_version, bs) \<leftarrow> rd_u8 bs;
     (bump, bs) \<leftarrow> rd_u8 bs; (initialized, bs) \<leftarrow> rd_bool bs;
     (proposal_id, bs) \<leftarrow> rd_u64 bs; (target_nonce, bs) \<leftarrow> rd_u64 bs;
     (proposal_class, bs) \<leftarrow> de_enum proposal_class_byte PROPOSAL_CLASSES bs;
     (state_v, bs) \<leftarrow> de_enum proposal_state_byte PROPOSAL_STATES bs;
     (cluster_domain, bs) \<leftarrow> rd_32 bs; (controller_program, bs) \<leftarrow> rd_32 bs;
     (controller_config, bs) \<leftarrow> rd_32 bs; (protocol_gate, bs) \<leftarrow> rd_32 bs;
     (policy_version, bs) \<leftarrow> rd_u64 bs; (policy_hash, bs) \<leftarrow> rd_32 bs;
     (council_version, bs) \<leftarrow> rd_u64 bs; (council_hash, bs) \<leftarrow> rd_32 bs;
     (creation_gate_epoch, bs) \<leftarrow> rd_u64 bs;
     (freeze_gate_epoch, bs) \<leftarrow> rd_u64 bs; (target_program, bs) \<leftarrow> rd_32 bs;
     (target_programdata, bs) \<leftarrow> rd_32 bs; (upgradeable_loader, bs) \<leftarrow> rd_32 bs;
     (authority_pda, bs) \<leftarrow> rd_32 bs;
     (canonical_spill_treasury, bs) \<leftarrow> rd_32 bs;
     (buffer_pubkey, bs) \<leftarrow> rd_32 bs; (buffer_loader_owner, bs) \<leftarrow> rd_32 bs;
     (buffer_authority, bs) \<leftarrow> rd_32 bs; (artifact_length, bs) \<leftarrow> rd_u64 bs;
     (artifact_sha256, bs) \<leftarrow> rd_32 bs; (source_commit_hash, bs) \<leftarrow> rd_32 bs;
     (source_tree_hash, bs) \<leftarrow> rd_32 bs;
     (build_input_inventory_hash, bs) \<leftarrow> rd_32 bs;
     (reproducible_build_receipt_hash, bs) \<leftarrow> rd_32 bs;
     (package_receipt_hash, bs) \<leftarrow> rd_32 bs;
     (release_intent_hash, bs) \<leftarrow> rd_32 bs;
     (current_deployed_payload_hash, bs) \<leftarrow> rd_32 bs;
     (current_raw_programdata_hash, bs) \<leftarrow> rd_32 bs;
     (deployed_slot, bs) \<leftarrow> rd_u64 bs; (current_capacity, bs) \<leftarrow> rd_u64 bs;
     (extension_delta, bs) \<leftarrow> rd_u64 bs;
     (expected_post_capacity, bs) \<leftarrow> rd_u64 bs;
     (prestate_checkpoint, bs) \<leftarrow> rd_32 bs;
     (required_poststate_checkpoint, bs) \<leftarrow> rd_32 bs;
     (rollback_proposal, bs) \<leftarrow> de_optional_pubkey_v1 bs;
     (rollback_buffer, bs) \<leftarrow> de_optional_pubkey_v1 bs;
     (rollback_artifact_hash, bs) \<leftarrow> rd_32 bs;
     (vote_requirement, bs) \<leftarrow> de_enum vote_requirement_byte VOTE_REQUIREMENTS bs;
     (vote_program, bs) \<leftarrow> rd_32 bs; (vote_result_pda, bs) \<leftarrow> rd_32 bs;
     (review_start_slot, bs) \<leftarrow> rd_u64 bs; (review_end_slot, bs) \<leftarrow> rd_u64 bs;
     (not_before_slot, bs) \<leftarrow> rd_u64 bs; (expiry_slot, bs) \<leftarrow> rd_u64 bs;
     (council_approval_bitset, bs) \<leftarrow> rd_u8 bs;
     (council_approval_count, bs) \<leftarrow> rd_u8 bs;
     (poststate_approval_bitset, bs) \<leftarrow> rd_u8 bs;
     (poststate_approval_count, bs) \<leftarrow> rd_u8 bs;
     (unfreeze_approval_bitset, bs) \<leftarrow> rd_u8 bs;
     (unfreeze_approval_count, bs) \<leftarrow> rd_u8 bs;
     (proposal_digest, bs) \<leftarrow> rd_32 bs;
     (cancellation_reason_code, bs) \<leftarrow> rd_u16 bs;
     (terminal_reason_code, bs) \<leftarrow> rd_u16 bs; (reserved, bs) \<leftarrow> rd_bytes 142 bs;
     Some (\<lparr>up_discriminator = discriminator, up_account_version = account_version, up_bump = bump,
            up_initialized = initialized, up_proposal_id = proposal_id,
            up_target_nonce = target_nonce, up_proposal_class = proposal_class, up_state = state_v,
            up_cluster_domain = cluster_domain, up_controller_program = controller_program,
            up_controller_config = controller_config, up_protocol_gate = protocol_gate,
            up_policy_version = policy_version, up_policy_hash = policy_hash,
            up_council_version = council_version, up_council_hash = council_hash,
            up_creation_gate_epoch = creation_gate_epoch, up_freeze_gate_epoch = freeze_gate_epoch,
            up_target_program = target_program, up_target_programdata = target_programdata,
            up_upgradeable_loader = upgradeable_loader, up_authority_pda = authority_pda,
            up_canonical_spill_treasury = canonical_spill_treasury,
            up_buffer_pubkey = buffer_pubkey, up_buffer_loader_owner = buffer_loader_owner,
            up_buffer_authority = buffer_authority, up_artifact_length = artifact_length,
            up_artifact_sha256 = artifact_sha256, up_source_commit_hash = source_commit_hash,
            up_source_tree_hash = source_tree_hash,
            up_build_input_inventory_hash = build_input_inventory_hash,
            up_reproducible_build_receipt_hash = reproducible_build_receipt_hash,
            up_package_receipt_hash = package_receipt_hash,
            up_release_intent_hash = release_intent_hash,
            up_current_deployed_payload_hash = current_deployed_payload_hash,
            up_current_raw_programdata_hash = current_raw_programdata_hash,
            up_deployed_slot = deployed_slot, up_current_capacity = current_capacity,
            up_extension_delta = extension_delta,
            up_expected_post_capacity = expected_post_capacity,
            up_prestate_checkpoint = prestate_checkpoint,
            up_required_poststate_checkpoint = required_poststate_checkpoint,
            up_rollback_proposal = rollback_proposal, up_rollback_buffer = rollback_buffer,
            up_rollback_artifact_hash = rollback_artifact_hash,
            up_vote_requirement = vote_requirement, up_vote_program = vote_program,
            up_vote_result_pda = vote_result_pda, up_review_start_slot = review_start_slot,
            up_review_end_slot = review_end_slot, up_not_before_slot = not_before_slot,
            up_expiry_slot = expiry_slot, up_council_approval_bitset = council_approval_bitset,
            up_council_approval_count = council_approval_count,
            up_poststate_approval_bitset = poststate_approval_bitset,
            up_poststate_approval_count = poststate_approval_count,
            up_unfreeze_approval_bitset = unfreeze_approval_bitset,
            up_unfreeze_approval_count = unfreeze_approval_count,
            up_proposal_digest = proposal_digest,
            up_cancellation_reason_code = cancellation_reason_code,
            up_terminal_reason_code = terminal_reason_code, up_reserved = reserved\<rparr>, bs) }"

interpretation upgrade_proposal_codec: borsh_codec ser_upgrade_proposal_v1 de_upgrade_proposal_v1 wf_upgrade_proposal_v1 UPGRADE_PROPOSAL_LEN
proof
  fix x :: upgrade_proposal_v1 and r
  show "wf_upgrade_proposal_v1 x \<Longrightarrow> de_upgrade_proposal_v1 (ser_upgrade_proposal_v1 x @ r) = Some (x, r)"
    by (simp add: ser_upgrade_proposal_v1_def de_upgrade_proposal_v1_def wf_upgrade_proposal_v1_def proposal_class_codec.de_ser proposal_class_codec.ser_size proposal_state_codec.de_ser proposal_state_codec.ser_size optional_pubkey_codec.de_ser optional_pubkey_codec.ser_size OPTIONAL_PUBKEY_LEN_def vote_requirement_codec.de_ser vote_requirement_codec.ser_size)
  show "wf_upgrade_proposal_v1 x \<Longrightarrow> length (ser_upgrade_proposal_v1 x) = UPGRADE_PROPOSAL_LEN"
    by (simp add: ser_upgrade_proposal_v1_def wf_upgrade_proposal_v1_def UPGRADE_PROPOSAL_LEN_def proposal_class_codec.de_ser proposal_class_codec.ser_size proposal_state_codec.de_ser proposal_state_codec.ser_size optional_pubkey_codec.de_ser optional_pubkey_codec.ser_size OPTIONAL_PUBKEY_LEN_def vote_requirement_codec.de_ser vote_requirement_codec.ser_size)
next
  fix bs r and x :: upgrade_proposal_v1 assume "de_upgrade_proposal_v1 bs = Some (x, r)"
  then show "bs = ser_upgrade_proposal_v1 x @ r" "wf_upgrade_proposal_v1 x"
    by (auto simp: de_upgrade_proposal_v1_def ser_upgrade_proposal_v1_def wf_upgrade_proposal_v1_def bind_eq_Some_conv
        dest!: borsh_readD proposal_class_codec_readD proposal_state_codec_readD optional_pubkey_codec_readD vote_requirement_codec_readD)
qed

definition is_code_upgrade :: "upgrade_proposal_v1 \<Rightarrow> bool" where
  "is_code_upgrade p \<longleftrightarrow> up_artifact_length p \<noteq> 0"

definition vote_required :: "upgrade_proposal_v1 \<Rightarrow> bool" where
  "vote_required p \<longleftrightarrow> up_vote_requirement p \<noteq> NoVote"

definition extension_required :: "upgrade_proposal_v1 \<Rightarrow> bool" where
  "extension_required p \<longleftrightarrow> up_extension_delta p \<noteq> 0"

end
