(* ===== verification/Council_Governance.thy ===== *)
theory Council_Governance
  imports Upgrade_Proposal
begin

text \<open>
  The Version 1 value layer of the upgrade controller: policy (\<open>policy.rs\<close>), proposal digest
  (\<open>digest.rs\<close>), proposal validation and transition shape (\<open>proposal.rs\<close>), council sets, approvals
  and quorum (\<open>council.rs\<close>), and the runtime contract of a seat authority (\<open>authorization.rs\<close>).
\<close>

section \<open>Policy\<close>

definition require_pubkey :: "pubkey \<Rightarrow> governance_error + unit" where
  "require_pubkey key = (if key = 0 then Inl DefaultPubkey else Inr ())"

lemma require_pubkey_ok [result_simps]: "require_pubkey key = Inr u \<longleftrightarrow> key \<noteq> 0"
  by (simp add: require_pubkey_def)

definition POLICY_HASH_DOMAIN_V1 :: "byte list" where
  "POLICY_HASH_DOMAIN_V1 = ascii ''AMOEBA_GOVERNANCE_POLICY_V1''"
definition POLICY_HASH_MATERIAL_LEN :: nat where "POLICY_HASH_MATERIAL_LEN = 96"

text \<open>The material is written field by field at a running offset into a zeroed array.\<close>

definition policy_hash_fields :: "governance_policy_v1 \<Rightarrow> byte list list" where
  "policy_hash_fields p =
     [wr_32 (gp_controller_config p), wr_32 (gp_target_program p), wr_u64 (gp_version p),
      wr_u64 (gp_activation_slot p)]
     @ map (\<lambda>v. [v]) [gp_council_size p, gp_routine_threshold p, gp_terminal_threshold p,
          governance_mode_byte (gp_governance_mode p), gp_policy_flags p]
     @ map wr_u16 [gp_veto_quorum_bps p, gp_affirmative_quorum_bps p, gp_affirmative_approval_bps p]
     @ map wr_bool [gp_routine_requires_vote p, gp_economic_requires_vote p,
          gp_constitutional_requires_vote p, gp_rotation_requires_vote p, gp_immutability_requires_vote p]"

definition canonical_policy_hash_material :: "governance_policy_v1 \<Rightarrow> byte list" where
  "canonical_policy_hash_material p =
     put_all 0 (policy_hash_fields p) (replicate POLICY_HASH_MATERIAL_LEN 0)"

definition compute_policy_hash :: "env \<Rightarrow> governance_policy_v1 \<Rightarrow> hash32" where
  "compute_policy_hash E p = hashv E [POLICY_HASH_DOMAIN_V1, canonical_policy_hash_material p]"

definition validate_policy :: "env \<Rightarrow> governance_policy_v1 \<Rightarrow> governance_error + unit" where
  "validate_policy E p =
     (if gp_discriminator p \<noteq> GOVERNANCE_POLICY_DISCRIMINATOR then Inl InvalidDiscriminator
      else if gp_account_version p \<noteq> ACCOUNT_VERSION_V1 then Inl UnsupportedVersion
      else if \<not> gp_initialized p then Inl Uninitialized
      else bnd (validate_reserved (gp_reserved p)) (\<lambda>_.
           bnd (require_pubkey (gp_controller_config p)) (\<lambda>_.
           bnd (require_pubkey (gp_target_program p)) (\<lambda>_.
           if gp_version p = 0 \<or> gp_council_size p \<noteq> 5 \<or> gp_routine_threshold p \<noteq> 3
              \<or> gp_terminal_threshold p \<noteq> 4 \<or> gp_governance_mode p \<noteq> BootstrapCouncilOnly
              \<or> gp_policy_flags p \<noteq> 0 \<or> gp_veto_quorum_bps p \<noteq> 0
              \<or> gp_affirmative_quorum_bps p \<noteq> 0 \<or> gp_affirmative_approval_bps p \<noteq> 0
              \<or> gp_routine_requires_vote p \<or> gp_economic_requires_vote p
              \<or> gp_constitutional_requires_vote p \<or> gp_rotation_requires_vote p
              \<or> gp_immutability_requires_vote p
           then Inl InvalidPolicy
           else if compute_policy_hash E p \<noteq> gp_policy_hash p then Inl PolicyHashMismatch
           else Inr ()))))"

definition vote_requirement_for_class ::
    "env \<Rightarrow> governance_policy_v1 \<Rightarrow> proposal_class_v1 \<Rightarrow> governance_error + vote_requirement_v1" where
  "vote_requirement_for_class E p _ = bnd (validate_policy E p) (\<lambda>_. Inr NoVote)"

definition validate_policy_against_config ::
    "env \<Rightarrow> governance_policy_v1 \<Rightarrow> controller_config_v1 \<Rightarrow> governance_error + unit" where
  "validate_policy_against_config E p c =
     bnd (config_validate_static c) (\<lambda>_.
     bnd (validate_policy E p) (\<lambda>_.
     if gp_controller_config p = 0 \<or> gp_target_program p \<noteq> cc_target_program c
        \<or> gp_version p \<noteq> cc_current_policy_version c \<or> cc_token_governance_enabled c
        \<or> (\<exists>key \<in> set [cc_vote_program c, cc_vote_programdata c, cc_vote_config c, cc_vote_mint c]. key \<noteq> 0)
     then Inl InvalidPolicy else Inr ()))"

section \<open>Proposal digest\<close>

definition PROPOSAL_DIGEST_DOMAIN_V1 :: "byte list" where
  "PROPOSAL_DIGEST_DOMAIN_V1 = ascii ''AMOEBA_UPGRADE_PROPOSAL_V1''"
definition PROPOSAL_DIGEST_MATERIAL_LEN :: nat where "PROPOSAL_DIGEST_MATERIAL_LEN = 1084"

definition put_optional_pubkey :: "optional_pubkey_v1 \<Rightarrow> byte list list" where
  "put_optional_pubkey x = [wr_bool (op_present x), wr_32 (op_value x)]"

definition proposal_digest_fields :: "upgrade_proposal_v1 \<Rightarrow> byte list list" where
  "proposal_digest_fields p =
     [wr_32 (up_cluster_domain p), wr_32 (up_controller_program p), wr_32 (up_controller_config p),
      wr_32 (up_protocol_gate p), wr_u64 (up_policy_version p), wr_32 (up_policy_hash p),
      wr_32 (up_target_program p), wr_32 (up_target_programdata p), wr_32 (up_upgradeable_loader p),
      wr_32 (up_authority_pda p), wr_32 (up_canonical_spill_treasury p), wr_u64 (up_proposal_id p),
      wr_u64 (up_target_nonce p), [proposal_class_byte (up_proposal_class p)],
      wr_u64 (up_council_version p), wr_32 (up_council_hash p), wr_u64 (up_creation_gate_epoch p),
      wr_u64 (up_freeze_gate_epoch p), wr_32 (up_buffer_pubkey p), wr_32 (up_buffer_loader_owner p),
      wr_32 (up_buffer_authority p), wr_u64 (up_artifact_length p), wr_32 (up_artifact_sha256 p),
      wr_32 (up_source_commit_hash p), wr_32 (up_source_tree_hash p),
      wr_32 (up_build_input_inventory_hash p), wr_32 (up_reproducible_build_receipt_hash p),
      wr_32 (up_package_receipt_hash p), wr_32 (up_release_intent_hash p),
      wr_32 (up_current_deployed_payload_hash p), wr_32 (up_current_raw_programdata_hash p),
      wr_u64 (up_deployed_slot p), wr_u64 (up_current_capacity p), wr_u64 (up_extension_delta p),
      wr_u64 (up_expected_post_capacity p), wr_32 (up_prestate_checkpoint p),
      wr_32 (up_required_poststate_checkpoint p)]
     @ put_optional_pubkey (up_rollback_proposal p) @ put_optional_pubkey (up_rollback_buffer p)
     @ [wr_32 (up_rollback_artifact_hash p), wr_32 (up_vote_program p), wr_32 (up_vote_result_pda p),
      [vote_requirement_byte (up_vote_requirement p)], wr_u64 (up_review_start_slot p),
      wr_u64 (up_review_end_slot p), wr_u64 (up_not_before_slot p), wr_u64 (up_expiry_slot p)]"

definition canonical_proposal_digest_material :: "upgrade_proposal_v1 \<Rightarrow> governance_error + byte list" where
  "canonical_proposal_digest_material p =
     bnd (optional_validate (up_rollback_proposal p)) (\<lambda>_.
     bnd (optional_validate (up_rollback_buffer p)) (\<lambda>_.
     Inr (put_all 0 (proposal_digest_fields p) (replicate PROPOSAL_DIGEST_MATERIAL_LEN 0))))"

definition compute_proposal_digest :: "env \<Rightarrow> upgrade_proposal_v1 \<Rightarrow> governance_error + hash32" where
  "compute_proposal_digest E p =
     bnd (canonical_proposal_digest_material p) (\<lambda>material.
     Inr (hashv E [PROPOSAL_DIGEST_DOMAIN_V1, material]))"

section \<open>Approvals\<close>

definition VALID_APPROVAL_MASK :: byte where "VALID_APPROVAL_MASK = 31"

definition validate_approval_encoding :: "byte \<Rightarrow> byte \<Rightarrow> governance_error + unit" where
  "validate_approval_encoding bitset stored_count =
     (if bitset AND NOT VALID_APPROVAL_MASK \<noteq> 0 then Inl InvalidApprovalBitset
      else if of_nat (pop_count bitset) \<noteq> stored_count then Inl ApprovalCountMismatch
      else Inr ())"

text \<open>\<open>validate_approval_pair\<close> of \<open>proposal.rs\<close> has the same body.\<close>

definition validate_approval_pair :: "byte \<Rightarrow> byte \<Rightarrow> governance_error + unit" where
  "validate_approval_pair bitset count =
     (if bitset AND NOT VALID_APPROVAL_MASK \<noteq> 0 then Inl InvalidApprovalBitset
      else if of_nat (pop_count bitset) \<noteq> count then Inl ApprovalCountMismatch
      else Inr ())"

section \<open>Static validity of a proposal\<close>

definition validate_proposal_static :: "env \<Rightarrow> upgrade_proposal_v1 \<Rightarrow> governance_error + unit" where
  "validate_proposal_static E p =
     (if up_discriminator p \<noteq> UPGRADE_PROPOSAL_DISCRIMINATOR then Inl InvalidDiscriminator
      else if up_account_version p \<noteq> ACCOUNT_VERSION_V1 then Inl UnsupportedVersion
      else if \<not> up_initialized p then Inl Uninitialized
      else bnd (validate_reserved (up_reserved p)) (\<lambda>_.
       bnd (checks (map require_pubkey
              [up_controller_program p, up_controller_config p, up_protocol_gate p,
               up_target_program p, up_target_programdata p, up_upgradeable_loader p,
               up_authority_pda p, up_canonical_spill_treasury p, up_prestate_checkpoint p,
               up_required_poststate_checkpoint p])) (\<lambda>_.
       bnd (optional_validate (up_rollback_proposal p)) (\<lambda>_.
       bnd (optional_validate (up_rollback_buffer p)) (\<lambda>_.
       if op_present (up_rollback_proposal p) \<noteq> op_present (up_rollback_buffer p)
       then Inl InvalidProposalCommitment
       else if op_present (up_rollback_proposal p) \<noteq> (up_rollback_artifact_hash p \<noteq> 0)
       then Inl InvalidProposalCommitment
       else bnd (ok_or (checked_add (up_creation_gate_epoch p) 1) ArithmeticOverflow) (\<lambda>expected_freeze_epoch.
       if up_freeze_gate_epoch p \<noteq> expected_freeze_epoch then Inl InvalidProposalEpoch
       else if up_review_start_slot p > up_review_end_slot p
          \<or> up_review_end_slot p > up_not_before_slot p \<or> up_not_before_slot p \<ge> up_expiry_slot p
       then Inl InvalidProposalTiming
       else bnd (ok_or (checked_add (up_current_capacity p) (up_extension_delta p)) ArithmeticOverflow)
         (\<lambda>expected_capacity.
       if expected_capacity \<noteq> up_expected_post_capacity p then Inl InvalidCapacityPlan
       else bnd
         (if is_code_upgrade p
          then bnd (checks (map require_pubkey
                 [up_buffer_pubkey p, up_buffer_loader_owner p, up_buffer_authority p])) (\<lambda>_.
               if up_artifact_sha256 p = 0 \<or> up_artifact_length p > up_expected_post_capacity p
                  \<or> up_buffer_loader_owner p \<noteq> up_upgradeable_loader p
                  \<or> up_buffer_authority p \<noteq> up_authority_pda p
               then Inl InvalidProposalCommitment else Inr ())
          else if up_buffer_pubkey p \<noteq> 0 \<or> up_buffer_loader_owner p \<noteq> 0
             \<or> up_buffer_authority p \<noteq> 0 \<or> up_artifact_sha256 p \<noteq> 0 \<or> up_extension_delta p \<noteq> 0
          then Inl InvalidProposalCommitment else Inr ()) (\<lambda>_.
       if up_vote_requirement p \<noteq> NoVote \<or> up_vote_program p \<noteq> 0 \<or> up_vote_result_pda p \<noteq> 0
       then Inl InvalidProposalCommitment
       else bnd (validate_approval_pair (up_council_approval_bitset p) (up_council_approval_count p)) (\<lambda>_.
       bnd (validate_approval_pair (up_poststate_approval_bitset p) (up_poststate_approval_count p)) (\<lambda>_.
       bnd (validate_approval_pair (up_unfreeze_approval_bitset p) (up_unfreeze_approval_count p)) (\<lambda>_.
       bnd (compute_proposal_digest E p) (\<lambda>digest.
       if digest \<noteq> up_proposal_digest p then Inl ProposalDigestMismatch else Inr ()))))))))))))"

definition validate_proposal_against_policy ::
    "env \<Rightarrow> upgrade_proposal_v1 \<Rightarrow> governance_policy_v1 \<Rightarrow> governance_error + unit" where
  "validate_proposal_against_policy E p policy =
     bnd (validate_proposal_static E p) (\<lambda>_.
     bnd (validate_policy E policy) (\<lambda>_.
     if up_controller_config p \<noteq> gp_controller_config policy
        \<or> up_target_program p \<noteq> gp_target_program policy
        \<or> up_policy_version p \<noteq> gp_version policy
        \<or> up_policy_hash p \<noteq> gp_policy_hash policy
     then Inl InvalidProposalCommitment
     else bnd (vote_requirement_for_class E policy (up_proposal_class p)) (\<lambda>requirement.
       if up_vote_requirement p \<noteq> requirement then Inl InvalidProposalCommitment else Inr ())))"

section \<open>Transition shape\<close>

definition transition_allowed :: "bool \<Rightarrow> proposal_state_v1 \<Rightarrow> proposal_state_v1 \<Rightarrow> bool" where
  "transition_allowed extension current next \<longleftrightarrow>
     (current, next) \<in>
       {(Draft, BufferAdopted), (BufferAdopted, BufferVerified), (BufferVerified, CouncilApproved),
        (CouncilApproved, GovernanceSatisfied), (GovernanceSatisfied, Timelocked), (Timelocked, Frozen),
        (Extended, UpgradeExecuted), (UpgradeExecuted, ProgramDataVerified),
        (ProgramDataVerified, PoststateAccepted), (PoststateAccepted, UnfreezeApproved),
        (UnfreezeApproved, Completed)}
     \<or> (current, next) = (Frozen, Extended) \<and> extension
     \<or> (current, next) = (Frozen, UpgradeExecuted) \<and> \<not> extension"

definition validate_proposal_transition ::
    "env \<Rightarrow> upgrade_proposal_v1 \<Rightarrow> governance_policy_v1 \<Rightarrow> proposal_state_v1 \<Rightarrow> governance_error + unit" where
  "validate_proposal_transition E p policy next =
     bnd (validate_proposal_against_policy E p policy) (\<lambda>_.
     if \<not> is_code_upgrade p
        \<or> up_proposal_class p \<in> {EmergencyRollback, CouncilSetRotation, TargetImmutability}
     then Inl InvalidStateTransition
     else let current = up_state p in
     if current = next \<or> is_terminal current then Inl InvalidStateTransition
     else if current = TokenReviewOpen \<or> next = TokenReviewOpen then Inl InvalidStateTransition
     else if next \<in> {Cancelled, Expired}
     then (if is_frozen_or_later current then Inl InvalidStateTransition else Inr ())
     else if transition_allowed (extension_required p) current next then Inr ()
     else Inl InvalidStateTransition)"

section \<open>Council sets\<close>

definition COUNCIL_SET_HASH_DOMAIN_V1 :: "byte list" where
  "COUNCIL_SET_HASH_DOMAIN_V1 = ascii ''AMOEBA_GOVERNANCE_COUNCIL_V1''"
definition COUNCIL_SET_HASH_MATERIAL_LEN :: nat where "COUNCIL_SET_HASH_MATERIAL_LEN = 336"

datatype approval_requirement_v1 = Routine | Terminal

record quorum_evaluation_v1 =
  qe_total_approvals :: byte
  qe_required_approvals :: byte

definition council_hash_fields :: "council_set_v1 \<Rightarrow> byte list list" where
  "council_hash_fields c =
     [wr_32 (gc_controller_config c), wr_u64 (gc_version c), wr_32 (gc_target_program c),
      wr_u64 (gc_activation_slot c), wr_u64 (gc_deactivation_slot c)]
     @ concat (map (\<lambda>s. [wr_32 (se_seat_authority s), wr_u64 (se_term_start_slot s),
          wr_u64 (se_term_end_slot s), wr_bool (se_active s)]) (gc_seats c))
     @ [[gc_routine_threshold c], [gc_terminal_threshold c], [gc_policy_flags c]]"

definition canonical_council_hash_material :: "council_set_v1 \<Rightarrow> byte list" where
  "canonical_council_hash_material c =
     put_all 0 (council_hash_fields c) (replicate COUNCIL_SET_HASH_MATERIAL_LEN 0)"

definition compute_council_set_hash :: "env \<Rightarrow> council_set_v1 \<Rightarrow> hash32" where
  "compute_council_set_hash E c = hashv E [COUNCIL_SET_HASH_DOMAIN_V1, canonical_council_hash_material c]"

definition validate_seat :: "council_seat_v1 \<Rightarrow> u64 \<Rightarrow> governance_error + unit" where
  "validate_seat s activation_slot =
     bnd (validate_reserved (se_reserved s)) (\<lambda>_.
     if se_seat_authority s = 0 then Inl DefaultPubkey
     else if \<not> seat_in_term s activation_slot \<or> se_term_start_slot s \<ge> se_term_end_slot s
     then Inl InactiveCouncilSeat else Inr ())"

text \<open>The loop over the seats with the set of authorities seen so far.\<close>

fun validate_seat_set :: "u64 \<Rightarrow> pubkey set \<Rightarrow> council_seat_v1 list \<Rightarrow> governance_error + unit" where
  "validate_seat_set activation_slot authorities [] = Inr ()"
| "validate_seat_set activation_slot authorities (s # seats) =
     bnd (validate_seat s activation_slot) (\<lambda>_.
     if se_seat_authority s \<in> authorities then Inl DuplicateSeatAuthority
     else validate_seat_set activation_slot (insert (se_seat_authority s) authorities) seats)"

definition validate_council_set :: "env \<Rightarrow> council_set_v1 \<Rightarrow> governance_policy_v1 \<Rightarrow> governance_error + unit" where
  "validate_council_set E c policy =
     bnd (validate_policy E policy) (\<lambda>_.
     if gc_discriminator c \<noteq> GOVERNANCE_COUNCIL_DISCRIMINATOR then Inl InvalidDiscriminator
     else if gc_account_version c \<noteq> ACCOUNT_VERSION_V1 then Inl UnsupportedVersion
     else if \<not> gc_initialized c then Inl Uninitialized
     else bnd (validate_reserved (gc_reserved c)) (\<lambda>_.
     if gc_controller_config c = 0 \<or> gc_target_program c = 0
        \<or> gc_controller_config c \<noteq> gp_controller_config policy
        \<or> gc_target_program c \<noteq> gp_target_program policy
     then Inl DefaultPubkey
     else if gc_version c = 0
        \<or> (gc_deactivation_slot c \<noteq> 0 \<and> gc_deactivation_slot c \<le> gc_activation_slot c)
     then Inl InvalidCouncilActivation
     else if gc_routine_threshold c \<noteq> gp_routine_threshold policy
        \<or> gc_terminal_threshold c \<noteq> gp_terminal_threshold policy
        \<or> gc_routine_threshold c \<noteq> 3 \<or> gc_terminal_threshold c \<noteq> 4 \<or> gc_policy_flags c \<noteq> 0
     then Inl InvalidCouncilThreshold
     else bnd (validate_seat_set (gc_activation_slot c) {} (gc_seats c)) (\<lambda>_.
     if compute_council_set_hash E c \<noteq> gc_set_hash c then Inl CouncilHashMismatch else Inr ())))"

definition validate_council_guardian_separation :: "council_set_v1 \<Rightarrow> pubkey \<Rightarrow> governance_error + unit" where
  "validate_council_guardian_separation c guardian =
     (if guardian = 0 \<or> (\<exists>s \<in> set (gc_seats c). se_seat_authority s = guardian)
      then Inl InvalidCouncilComposition else Inr ())"

definition record_seat_approval ::
    "council_set_v1 \<Rightarrow> byte \<Rightarrow> byte \<Rightarrow> pubkey \<Rightarrow> u64 \<Rightarrow> governance_error + byte \<times> byte" where
  "record_seat_approval c current_bitset current_count seat_authority slot =
     bnd (validate_approval_encoding current_bitset current_count) (\<lambda>_.
     bnd (ok_or (position (\<lambda>s. se_seat_authority s = seat_authority) (gc_seats c)) UnknownSeatAuthority) (\<lambda>index.
     if \<not> active_at c slot \<or> \<not> seat_in_term (gc_seats c ! index) slot then Inl InactiveCouncilSeat
     else let b = shl1 index in
       if current_bitset AND b \<noteq> 0 then Inl DuplicateApproval_gov
       else let next = current_bitset OR b in Inr (next, of_nat (pop_count next))))"

definition record_proposal_approval ::
    "env \<Rightarrow> council_set_v1 \<Rightarrow> governance_policy_v1 \<Rightarrow> u64 \<Rightarrow> upgrade_proposal_v1 \<Rightarrow> pubkey \<Rightarrow> hash32 \<Rightarrow> u64
       \<Rightarrow> governance_error + byte \<times> byte" where
  "record_proposal_approval E c policy config_current_council_version p seat_authority expected_digest slot =
     bnd (validate_proposal_against_policy E p policy) (\<lambda>_.
     bnd (validate_council_set E c policy) (\<lambda>_.
     if up_state p \<noteq> BufferVerified then Inl InvalidStateTransition
     else if expected_digest \<noteq> up_proposal_digest p then Inl ProposalDigestMismatch
     else if gc_version c \<noteq> config_current_council_version \<or> gc_version c \<noteq> up_council_version p
     then Inl StaleCouncilVersion
     else if gc_set_hash c \<noteq> up_council_hash p then Inl ProposalCouncilHashMismatch
     else record_seat_approval c (up_council_approval_bitset p) (up_council_approval_count p)
            seat_authority slot))"

fun count_approvals :: "byte \<Rightarrow> u64 \<Rightarrow> byte \<Rightarrow> (nat \<times> council_seat_v1) list \<Rightarrow> governance_error + byte" where
  "count_approvals bitset slot tally [] = Inr tally"
| "count_approvals bitset slot tally ((index, s) # seats) =
     (if bitset AND shl1 index = 0 then count_approvals bitset slot tally seats
      else if \<not> seat_in_term s slot then Inl InactiveCouncilSeat
      else bnd (ok_or (checked_add tally 1) ArithmeticOverflow) (\<lambda>tally.
        count_approvals bitset slot tally seats))"

definition evaluate_quorum ::
    "env \<Rightarrow> council_set_v1 \<Rightarrow> governance_policy_v1 \<Rightarrow> u64 \<Rightarrow> u64 \<Rightarrow> hash32 \<Rightarrow> byte \<Rightarrow> byte \<Rightarrow> u64
       \<Rightarrow> approval_requirement_v1 \<Rightarrow> governance_error + quorum_evaluation_v1" where
  "evaluate_quorum E c policy config_current_council_version proposal_council_version
       proposal_council_hash bitset stored_count slot requirement =
     bnd (validate_council_set E c policy) (\<lambda>_.
     if gc_version c \<noteq> config_current_council_version \<or> gc_version c \<noteq> proposal_council_version
     then Inl StaleCouncilVersion
     else if gc_set_hash c \<noteq> proposal_council_hash then Inl ProposalCouncilHashMismatch
     else if \<not> active_at c slot then Inl InactiveCouncilSeat
     else bnd (validate_approval_encoding bitset stored_count) (\<lambda>_.
     bnd (count_approvals bitset slot 0 (enumerate 0 (gc_seats c))) (\<lambda>tally.
     let threshold = (case requirement of
           Routine \<Rightarrow> gp_routine_threshold policy | Terminal \<Rightarrow> gp_terminal_threshold policy)
     in if tally < threshold then Inl QuorumNotSatisfied
        else Inr \<lparr>qe_total_approvals = tally, qe_required_approvals = threshold\<rparr>)))"

definition evaluate_proposal_quorum ::
    "env \<Rightarrow> council_set_v1 \<Rightarrow> governance_policy_v1 \<Rightarrow> u64 \<Rightarrow> upgrade_proposal_v1 \<Rightarrow> u64
       \<Rightarrow> governance_error + quorum_evaluation_v1" where
  "evaluate_proposal_quorum E c policy config_current_council_version p slot =
     bnd (validate_proposal_against_policy E p policy) (\<lambda>_.
     let requirement = (case up_proposal_class p of TargetImmutability \<Rightarrow> Terminal | _ \<Rightarrow> Routine)
     in evaluate_quorum E c policy config_current_council_version (up_council_version p)
          (up_council_hash p) (up_council_approval_bitset p) (up_council_approval_count p) slot requirement)"

section \<open>Seat authorities\<close>

definition validate_seat_authority :: "account_info \<Rightarrow> governance_error + unit" where
  "validate_seat_authority account =
     (if \<not> is_signer account then Inl MissingSeatAuthoritySignature
      else if is_writable account then Inl WritableSeatAuthority
      else if executable account then Inl ExecutableSeatAuthority
      else Inr ())"

end
