(* ===== verification/V3_Layout.thy ===== *)
theory V3_Layout
  imports Council_Governance Address_Derivation Observation_Merkle Release1_Types
begin

text \<open>
  The fixed 2048-byte layout of the Release 1 proposal \<open>UpgradeProposalV3\<close>
  (\<open>upgrade_controller/src/release1_v3_state.rs\<close>) and the one-byte encoding of its state
  (\<open>release1_state.rs\<close>).
\<close>

section \<open>The state byte\<close>

fun proposal_state_v2_byte :: "proposal_state \<Rightarrow> byte" where
  "proposal_state_v2_byte Draft = 0"
| "proposal_state_v2_byte BufferAdopted = 1"
| "proposal_state_v2_byte BufferVerified = 2"
| "proposal_state_v2_byte CouncilApproved = 3"
| "proposal_state_v2_byte TokenReviewOpen = 4"
| "proposal_state_v2_byte GovernanceSatisfied = 5"
| "proposal_state_v2_byte Timelocked = 6"
| "proposal_state_v2_byte Frozen = 7"
| "proposal_state_v2_byte Extended = 8"
| "proposal_state_v2_byte UpgradeExecuted = 9"
| "proposal_state_v2_byte ProgramDataVerified = 10"
| "proposal_state_v2_byte PoststateAccepted = 11"
| "proposal_state_v2_byte UnfreezeApproved = 12"
| "proposal_state_v2_byte Completed = 13"
| "proposal_state_v2_byte Cancelled = 14"
| "proposal_state_v2_byte Expired = 15"
| "proposal_state_v2_byte SupersededByRollback = 16"
| "proposal_state_v2_byte Retired = 17"

definition PROPOSAL_STATES_V2 :: "proposal_state list" where
  "PROPOSAL_STATES_V2 = [Draft, BufferAdopted, BufferVerified, CouncilApproved, TokenReviewOpen,
     GovernanceSatisfied, Timelocked, Frozen, Extended, UpgradeExecuted, ProgramDataVerified,
     PoststateAccepted, UnfreezeApproved, Completed, Cancelled, Expired, SupersededByRollback,
     Retired]"

interpretation proposal_state_v2_codec: byte_enum proposal_state_v2_byte PROPOSAL_STATES_V2
proof
  show "distinct (map proposal_state_v2_byte PROPOSAL_STATES_V2)" by (simp add: PROPOSAL_STATES_V2_def)
  show "v \<in> set PROPOSAL_STATES_V2" for v by (cases v) (simp_all add: PROPOSAL_STATES_V2_def)
qed

lemmas proposal_state_v2_codec_readD = proposal_state_v2_codec.ser_de

lemmas gate_status_codec_readD = gate_status_codec.ser_de

section \<open>The account\<close>

definition UPGRADE_PROPOSAL_V3_LEN :: nat where "UPGRADE_PROPOSAL_V3_LEN = 2048"
definition UPGRADE_PROPOSAL_V3_RESERVED_LEN :: nat where "UPGRADE_PROPOSAL_V3_RESERVED_LEN = 274"

record upgrade_proposal_v3 =
  v3_discriminator :: "byte list"
  v3_account_version :: byte
  v3_bump :: byte
  v3_initialized :: bool
  v3_proposal_class :: proposal_class_v1
  v3_state :: proposal_state
  v3_creation_gate_status :: gate_status
  v3_zero_tail_required :: bool
  v3_proposal_flags :: byte
  v3_proposal_id :: u64
  v3_target_nonce :: u64
  v3_creation_slot :: u64
  v3_cluster_domain :: hash32
  v3_controller_program :: pubkey
  v3_controller_config :: pubkey
  v3_protocol_gate :: pubkey
  v3_capacity_policy :: pubkey
  v3_capacity_policy_digest :: hash32
  v3_policy_version :: u64
  v3_policy_hash :: hash32
  v3_creation_council_version :: u64
  v3_creation_council_hash :: hash32
  v3_creation_gate_epoch :: u64
  v3_freeze_gate_epoch :: u64
  v3_target_program :: pubkey
  v3_target_programdata :: pubkey
  v3_upgradeable_loader :: pubkey
  v3_authority_pda :: pubkey
  v3_canonical_spill_treasury :: pubkey
  v3_current_deployment_state :: pubkey
  v3_current_deployment_digest :: hash32
  v3_current_deployment_generation :: u64
  v3_buffer_pubkey :: pubkey
  v3_buffer_loader_owner :: pubkey
  v3_buffer_uploader_authority :: pubkey
  v3_buffer_final_authority :: pubkey
  v3_buffer_verification :: pubkey
  v3_programdata_verification :: pubkey
  v3_artifact_length :: u64
  v3_artifact_sha256 :: hash32
  v3_artifact_chunk_merkle_root :: hash32
  v3_artifact_scheme_id :: hash32
  v3_artifact_chunk_size :: u32
  v3_artifact_chunk_count :: u32
  v3_source_commit_hash :: hash32
  v3_source_tree_hash :: hash32
  v3_build_input_inventory_hash :: hash32
  v3_reproducible_build_receipt_hash :: hash32
  v3_package_receipt_hash :: hash32
  v3_release_intent_hash :: hash32
  v3_minimum_required_capacity :: u64
  v3_maximum_supported_raw_programdata_length :: u64
  v3_programdata_observation_scheme_id :: hash32
  v3_prestate_checkpoint :: pubkey
  v3_required_poststate_checkpoint :: pubkey
  v3_checkpoint_schema_id :: hash32
  v3_checkpoint_policy_hash :: hash32
  v3_primary_proposal :: optional_pubkey_v1
  v3_rollback_proposal :: optional_pubkey_v1
  v3_rollback_buffer :: optional_pubkey_v1
  v3_rollback_artifact_length :: u64
  v3_rollback_artifact_sha256 :: hash32
  v3_rollback_artifact_chunk_root :: hash32
  v3_rollback_artifact_scheme_id :: hash32
  v3_vote_requirement :: vote_requirement_v1
  v3_vote_program :: pubkey
  v3_vote_result_pda :: pubkey
  v3_review_start_slot :: u64
  v3_review_end_slot :: u64
  v3_not_before_slot :: u64
  v3_expiry_slot :: u64
  v3_first_approval_slot :: u64
  v3_council_approved_slot :: u64
  v3_governance_satisfied_slot :: u64
  v3_queued_slot :: u64
  v3_frozen_slot :: u64
  v3_extension_executed_slot :: u64
  v3_upgrade_executed_slot :: u64
  v3_programdata_verified_slot :: u64
  v3_poststate_accepted_slot :: u64
  v3_unfreeze_approved_slot :: u64
  v3_terminal_slot :: u64
  v3_council_approval_bitset :: byte
  v3_council_approval_count :: byte
  v3_cancellation_council_version :: u64
  v3_cancellation_council_hash :: hash32
  v3_cancellation_approval_bitset :: byte
  v3_cancellation_approval_count :: byte
  v3_unfreeze_council_version :: u64
  v3_unfreeze_council_hash :: hash32
  v3_unfreeze_approval_bitset :: byte
  v3_unfreeze_approval_count :: byte
  v3_proposal_digest_domain_id :: hash32
  v3_proposal_digest :: hash32
  v3_cancellation_reason_code :: u16
  v3_terminal_reason_code :: u16
  v3_reserved :: "byte list"

definition wf_upgrade_proposal_v3 :: "upgrade_proposal_v3 \<Rightarrow> bool" where
  "wf_upgrade_proposal_v3 x \<longleftrightarrow>
     length (v3_discriminator x) = 8 \<and> length (v3_reserved x) = 274"

definition ser_upgrade_proposal_v3 :: "upgrade_proposal_v3 \<Rightarrow> byte list" where
  "ser_upgrade_proposal_v3 x =
     v3_discriminator x @ wr_u8 (v3_account_version x) @ wr_u8 (v3_bump x) @
     wr_bool (v3_initialized x) @ ser_enum proposal_class_byte (v3_proposal_class x) @
     ser_enum proposal_state_v2_byte (v3_state x) @ ser_gate_status (v3_creation_gate_status x) @
     wr_bool (v3_zero_tail_required x) @ wr_u8 (v3_proposal_flags x) @ wr_u64 (v3_proposal_id x) @
     wr_u64 (v3_target_nonce x) @ wr_u64 (v3_creation_slot x) @ wr_32 (v3_cluster_domain x) @
     wr_32 (v3_controller_program x) @ wr_32 (v3_controller_config x) @ wr_32 (v3_protocol_gate x) @
     wr_32 (v3_capacity_policy x) @ wr_32 (v3_capacity_policy_digest x) @
     wr_u64 (v3_policy_version x) @ wr_32 (v3_policy_hash x) @
     wr_u64 (v3_creation_council_version x) @ wr_32 (v3_creation_council_hash x) @
     wr_u64 (v3_creation_gate_epoch x) @ wr_u64 (v3_freeze_gate_epoch x) @
     wr_32 (v3_target_program x) @ wr_32 (v3_target_programdata x) @
     wr_32 (v3_upgradeable_loader x) @ wr_32 (v3_authority_pda x) @
     wr_32 (v3_canonical_spill_treasury x) @ wr_32 (v3_current_deployment_state x) @
     wr_32 (v3_current_deployment_digest x) @ wr_u64 (v3_current_deployment_generation x) @
     wr_32 (v3_buffer_pubkey x) @ wr_32 (v3_buffer_loader_owner x) @
     wr_32 (v3_buffer_uploader_authority x) @ wr_32 (v3_buffer_final_authority x) @
     wr_32 (v3_buffer_verification x) @ wr_32 (v3_programdata_verification x) @
     wr_u64 (v3_artifact_length x) @ wr_32 (v3_artifact_sha256 x) @
     wr_32 (v3_artifact_chunk_merkle_root x) @ wr_32 (v3_artifact_scheme_id x) @
     wr_u32 (v3_artifact_chunk_size x) @ wr_u32 (v3_artifact_chunk_count x) @
     wr_32 (v3_source_commit_hash x) @ wr_32 (v3_source_tree_hash x) @
     wr_32 (v3_build_input_inventory_hash x) @ wr_32 (v3_reproducible_build_receipt_hash x) @
     wr_32 (v3_package_receipt_hash x) @ wr_32 (v3_release_intent_hash x) @
     wr_u64 (v3_minimum_required_capacity x) @
     wr_u64 (v3_maximum_supported_raw_programdata_length x) @
     wr_32 (v3_programdata_observation_scheme_id x) @ wr_32 (v3_prestate_checkpoint x) @
     wr_32 (v3_required_poststate_checkpoint x) @ wr_32 (v3_checkpoint_schema_id x) @
     wr_32 (v3_checkpoint_policy_hash x) @ ser_optional_pubkey_v1 (v3_primary_proposal x) @
     ser_optional_pubkey_v1 (v3_rollback_proposal x) @
     ser_optional_pubkey_v1 (v3_rollback_buffer x) @ wr_u64 (v3_rollback_artifact_length x) @
     wr_32 (v3_rollback_artifact_sha256 x) @ wr_32 (v3_rollback_artifact_chunk_root x) @
     wr_32 (v3_rollback_artifact_scheme_id x) @
     ser_enum vote_requirement_byte (v3_vote_requirement x) @ wr_32 (v3_vote_program x) @
     wr_32 (v3_vote_result_pda x) @ wr_u64 (v3_review_start_slot x) @
     wr_u64 (v3_review_end_slot x) @ wr_u64 (v3_not_before_slot x) @ wr_u64 (v3_expiry_slot x) @
     wr_u64 (v3_first_approval_slot x) @ wr_u64 (v3_council_approved_slot x) @
     wr_u64 (v3_governance_satisfied_slot x) @ wr_u64 (v3_queued_slot x) @
     wr_u64 (v3_frozen_slot x) @ wr_u64 (v3_extension_executed_slot x) @
     wr_u64 (v3_upgrade_executed_slot x) @ wr_u64 (v3_programdata_verified_slot x) @
     wr_u64 (v3_poststate_accepted_slot x) @ wr_u64 (v3_unfreeze_approved_slot x) @
     wr_u64 (v3_terminal_slot x) @ wr_u8 (v3_council_approval_bitset x) @
     wr_u8 (v3_council_approval_count x) @ wr_u64 (v3_cancellation_council_version x) @
     wr_32 (v3_cancellation_council_hash x) @ wr_u8 (v3_cancellation_approval_bitset x) @
     wr_u8 (v3_cancellation_approval_count x) @ wr_u64 (v3_unfreeze_council_version x) @
     wr_32 (v3_unfreeze_council_hash x) @ wr_u8 (v3_unfreeze_approval_bitset x) @
     wr_u8 (v3_unfreeze_approval_count x) @ wr_32 (v3_proposal_digest_domain_id x) @
     wr_32 (v3_proposal_digest x) @ wr_u16 (v3_cancellation_reason_code x) @
     wr_u16 (v3_terminal_reason_code x) @ v3_reserved x"

definition de_upgrade_proposal_v3 :: "upgrade_proposal_v3 reader" where
  "de_upgrade_proposal_v3 bs = do {
     (discriminator, bs) \<leftarrow> rd_bytes 8 bs; (account_version, bs) \<leftarrow> rd_u8 bs;
     (bump, bs) \<leftarrow> rd_u8 bs; (initialized, bs) \<leftarrow> rd_bool bs;
     (proposal_class, bs) \<leftarrow> de_enum proposal_class_byte PROPOSAL_CLASSES bs;
     (state_v, bs) \<leftarrow> de_enum proposal_state_v2_byte PROPOSAL_STATES_V2 bs;
     (creation_gate_status, bs) \<leftarrow> de_gate_status bs;
     (zero_tail_required, bs) \<leftarrow> rd_bool bs; (proposal_flags, bs) \<leftarrow> rd_u8 bs;
     (proposal_id, bs) \<leftarrow> rd_u64 bs; (target_nonce, bs) \<leftarrow> rd_u64 bs;
     (creation_slot, bs) \<leftarrow> rd_u64 bs; (cluster_domain, bs) \<leftarrow> rd_32 bs;
     (controller_program, bs) \<leftarrow> rd_32 bs; (controller_config, bs) \<leftarrow> rd_32 bs;
     (protocol_gate, bs) \<leftarrow> rd_32 bs; (capacity_policy, bs) \<leftarrow> rd_32 bs;
     (capacity_policy_digest, bs) \<leftarrow> rd_32 bs;
     (policy_version, bs) \<leftarrow> rd_u64 bs; (policy_hash, bs) \<leftarrow> rd_32 bs;
     (creation_council_version, bs) \<leftarrow> rd_u64 bs;
     (creation_council_hash, bs) \<leftarrow> rd_32 bs;
     (creation_gate_epoch, bs) \<leftarrow> rd_u64 bs;
     (freeze_gate_epoch, bs) \<leftarrow> rd_u64 bs; (target_program, bs) \<leftarrow> rd_32 bs;
     (target_programdata, bs) \<leftarrow> rd_32 bs; (upgradeable_loader, bs) \<leftarrow> rd_32 bs;
     (authority_pda, bs) \<leftarrow> rd_32 bs;
     (canonical_spill_treasury, bs) \<leftarrow> rd_32 bs;
     (current_deployment_state, bs) \<leftarrow> rd_32 bs;
     (current_deployment_digest, bs) \<leftarrow> rd_32 bs;
     (current_deployment_generation, bs) \<leftarrow> rd_u64 bs;
     (buffer_pubkey, bs) \<leftarrow> rd_32 bs; (buffer_loader_owner, bs) \<leftarrow> rd_32 bs;
     (buffer_uploader_authority, bs) \<leftarrow> rd_32 bs;
     (buffer_final_authority, bs) \<leftarrow> rd_32 bs;
     (buffer_verification, bs) \<leftarrow> rd_32 bs;
     (programdata_verification, bs) \<leftarrow> rd_32 bs;
     (artifact_length, bs) \<leftarrow> rd_u64 bs; (artifact_sha256, bs) \<leftarrow> rd_32 bs;
     (artifact_chunk_merkle_root, bs) \<leftarrow> rd_32 bs;
     (artifact_scheme_id, bs) \<leftarrow> rd_32 bs;
     (artifact_chunk_size, bs) \<leftarrow> rd_u32 bs;
     (artifact_chunk_count, bs) \<leftarrow> rd_u32 bs;
     (source_commit_hash, bs) \<leftarrow> rd_32 bs; (source_tree_hash, bs) \<leftarrow> rd_32 bs;
     (build_input_inventory_hash, bs) \<leftarrow> rd_32 bs;
     (reproducible_build_receipt_hash, bs) \<leftarrow> rd_32 bs;
     (package_receipt_hash, bs) \<leftarrow> rd_32 bs;
     (release_intent_hash, bs) \<leftarrow> rd_32 bs;
     (minimum_required_capacity, bs) \<leftarrow> rd_u64 bs;
     (maximum_supported_raw_programdata_length, bs) \<leftarrow> rd_u64 bs;
     (programdata_observation_scheme_id, bs) \<leftarrow> rd_32 bs;
     (prestate_checkpoint, bs) \<leftarrow> rd_32 bs;
     (required_poststate_checkpoint, bs) \<leftarrow> rd_32 bs;
     (checkpoint_schema_id, bs) \<leftarrow> rd_32 bs;
     (checkpoint_policy_hash, bs) \<leftarrow> rd_32 bs;
     (primary_proposal, bs) \<leftarrow> de_optional_pubkey_v1 bs;
     (rollback_proposal, bs) \<leftarrow> de_optional_pubkey_v1 bs;
     (rollback_buffer, bs) \<leftarrow> de_optional_pubkey_v1 bs;
     (rollback_artifact_length, bs) \<leftarrow> rd_u64 bs;
     (rollback_artifact_sha256, bs) \<leftarrow> rd_32 bs;
     (rollback_artifact_chunk_root, bs) \<leftarrow> rd_32 bs;
     (rollback_artifact_scheme_id, bs) \<leftarrow> rd_32 bs;
     (vote_requirement, bs) \<leftarrow> de_enum vote_requirement_byte VOTE_REQUIREMENTS bs;
     (vote_program, bs) \<leftarrow> rd_32 bs; (vote_result_pda, bs) \<leftarrow> rd_32 bs;
     (review_start_slot, bs) \<leftarrow> rd_u64 bs; (review_end_slot, bs) \<leftarrow> rd_u64 bs;
     (not_before_slot, bs) \<leftarrow> rd_u64 bs; (expiry_slot, bs) \<leftarrow> rd_u64 bs;
     (first_approval_slot, bs) \<leftarrow> rd_u64 bs;
     (council_approved_slot, bs) \<leftarrow> rd_u64 bs;
     (governance_satisfied_slot, bs) \<leftarrow> rd_u64 bs;
     (queued_slot, bs) \<leftarrow> rd_u64 bs; (frozen_slot, bs) \<leftarrow> rd_u64 bs;
     (extension_executed_slot, bs) \<leftarrow> rd_u64 bs;
     (upgrade_executed_slot, bs) \<leftarrow> rd_u64 bs;
     (programdata_verified_slot, bs) \<leftarrow> rd_u64 bs;
     (poststate_accepted_slot, bs) \<leftarrow> rd_u64 bs;
     (unfreeze_approved_slot, bs) \<leftarrow> rd_u64 bs;
     (terminal_slot, bs) \<leftarrow> rd_u64 bs;
     (council_approval_bitset, bs) \<leftarrow> rd_u8 bs;
     (council_approval_count, bs) \<leftarrow> rd_u8 bs;
     (cancellation_council_version, bs) \<leftarrow> rd_u64 bs;
     (cancellation_council_hash, bs) \<leftarrow> rd_32 bs;
     (cancellation_approval_bitset, bs) \<leftarrow> rd_u8 bs;
     (cancellation_approval_count, bs) \<leftarrow> rd_u8 bs;
     (unfreeze_council_version, bs) \<leftarrow> rd_u64 bs;
     (unfreeze_council_hash, bs) \<leftarrow> rd_32 bs;
     (unfreeze_approval_bitset, bs) \<leftarrow> rd_u8 bs;
     (unfreeze_approval_count, bs) \<leftarrow> rd_u8 bs;
     (proposal_digest_domain_id, bs) \<leftarrow> rd_32 bs;
     (proposal_digest, bs) \<leftarrow> rd_32 bs;
     (cancellation_reason_code, bs) \<leftarrow> rd_u16 bs;
     (terminal_reason_code, bs) \<leftarrow> rd_u16 bs; (reserved, bs) \<leftarrow> rd_bytes 274 bs;
     Some (\<lparr>v3_discriminator = discriminator, v3_account_version = account_version, v3_bump = bump,
            v3_initialized = initialized, v3_proposal_class = proposal_class, v3_state = state_v,
            v3_creation_gate_status = creation_gate_status,
            v3_zero_tail_required = zero_tail_required, v3_proposal_flags = proposal_flags,
            v3_proposal_id = proposal_id, v3_target_nonce = target_nonce,
            v3_creation_slot = creation_slot, v3_cluster_domain = cluster_domain,
            v3_controller_program = controller_program, v3_controller_config = controller_config,
            v3_protocol_gate = protocol_gate, v3_capacity_policy = capacity_policy,
            v3_capacity_policy_digest = capacity_policy_digest, v3_policy_version = policy_version,
            v3_policy_hash = policy_hash, v3_creation_council_version = creation_council_version,
            v3_creation_council_hash = creation_council_hash,
            v3_creation_gate_epoch = creation_gate_epoch, v3_freeze_gate_epoch = freeze_gate_epoch,
            v3_target_program = target_program, v3_target_programdata = target_programdata,
            v3_upgradeable_loader = upgradeable_loader, v3_authority_pda = authority_pda,
            v3_canonical_spill_treasury = canonical_spill_treasury,
            v3_current_deployment_state = current_deployment_state,
            v3_current_deployment_digest = current_deployment_digest,
            v3_current_deployment_generation = current_deployment_generation,
            v3_buffer_pubkey = buffer_pubkey, v3_buffer_loader_owner = buffer_loader_owner,
            v3_buffer_uploader_authority = buffer_uploader_authority,
            v3_buffer_final_authority = buffer_final_authority,
            v3_buffer_verification = buffer_verification,
            v3_programdata_verification = programdata_verification,
            v3_artifact_length = artifact_length, v3_artifact_sha256 = artifact_sha256,
            v3_artifact_chunk_merkle_root = artifact_chunk_merkle_root,
            v3_artifact_scheme_id = artifact_scheme_id,
            v3_artifact_chunk_size = artifact_chunk_size,
            v3_artifact_chunk_count = artifact_chunk_count,
            v3_source_commit_hash = source_commit_hash, v3_source_tree_hash = source_tree_hash,
            v3_build_input_inventory_hash = build_input_inventory_hash,
            v3_reproducible_build_receipt_hash = reproducible_build_receipt_hash,
            v3_package_receipt_hash = package_receipt_hash,
            v3_release_intent_hash = release_intent_hash,
            v3_minimum_required_capacity = minimum_required_capacity,
            v3_maximum_supported_raw_programdata_length = maximum_supported_raw_programdata_length,
            v3_programdata_observation_scheme_id = programdata_observation_scheme_id,
            v3_prestate_checkpoint = prestate_checkpoint,
            v3_required_poststate_checkpoint = required_poststate_checkpoint,
            v3_checkpoint_schema_id = checkpoint_schema_id,
            v3_checkpoint_policy_hash = checkpoint_policy_hash,
            v3_primary_proposal = primary_proposal, v3_rollback_proposal = rollback_proposal,
            v3_rollback_buffer = rollback_buffer,
            v3_rollback_artifact_length = rollback_artifact_length,
            v3_rollback_artifact_sha256 = rollback_artifact_sha256,
            v3_rollback_artifact_chunk_root = rollback_artifact_chunk_root,
            v3_rollback_artifact_scheme_id = rollback_artifact_scheme_id,
            v3_vote_requirement = vote_requirement, v3_vote_program = vote_program,
            v3_vote_result_pda = vote_result_pda, v3_review_start_slot = review_start_slot,
            v3_review_end_slot = review_end_slot, v3_not_before_slot = not_before_slot,
            v3_expiry_slot = expiry_slot, v3_first_approval_slot = first_approval_slot,
            v3_council_approved_slot = council_approved_slot,
            v3_governance_satisfied_slot = governance_satisfied_slot, v3_queued_slot = queued_slot,
            v3_frozen_slot = frozen_slot, v3_extension_executed_slot = extension_executed_slot,
            v3_upgrade_executed_slot = upgrade_executed_slot,
            v3_programdata_verified_slot = programdata_verified_slot,
            v3_poststate_accepted_slot = poststate_accepted_slot,
            v3_unfreeze_approved_slot = unfreeze_approved_slot, v3_terminal_slot = terminal_slot,
            v3_council_approval_bitset = council_approval_bitset,
            v3_council_approval_count = council_approval_count,
            v3_cancellation_council_version = cancellation_council_version,
            v3_cancellation_council_hash = cancellation_council_hash,
            v3_cancellation_approval_bitset = cancellation_approval_bitset,
            v3_cancellation_approval_count = cancellation_approval_count,
            v3_unfreeze_council_version = unfreeze_council_version,
            v3_unfreeze_council_hash = unfreeze_council_hash,
            v3_unfreeze_approval_bitset = unfreeze_approval_bitset,
            v3_unfreeze_approval_count = unfreeze_approval_count,
            v3_proposal_digest_domain_id = proposal_digest_domain_id,
            v3_proposal_digest = proposal_digest,
            v3_cancellation_reason_code = cancellation_reason_code,
            v3_terminal_reason_code = terminal_reason_code, v3_reserved = reserved\<rparr>, bs) }"

interpretation upgrade_proposal_v3_codec: borsh_codec ser_upgrade_proposal_v3 de_upgrade_proposal_v3 wf_upgrade_proposal_v3 UPGRADE_PROPOSAL_V3_LEN
proof
  fix x :: upgrade_proposal_v3 and r
  show "wf_upgrade_proposal_v3 x \<Longrightarrow> de_upgrade_proposal_v3 (ser_upgrade_proposal_v3 x @ r) = Some (x, r)"
    by (simp add: ser_upgrade_proposal_v3_def de_upgrade_proposal_v3_def wf_upgrade_proposal_v3_def proposal_class_codec.de_ser proposal_class_codec.ser_size proposal_state_v2_codec.de_ser proposal_state_v2_codec.ser_size gate_status_codec.de_ser gate_status_codec.ser_size optional_pubkey_codec.de_ser optional_pubkey_codec.ser_size OPTIONAL_PUBKEY_LEN_def vote_requirement_codec.de_ser vote_requirement_codec.ser_size)
  show "wf_upgrade_proposal_v3 x \<Longrightarrow> length (ser_upgrade_proposal_v3 x) = UPGRADE_PROPOSAL_V3_LEN"
    by (simp add: ser_upgrade_proposal_v3_def wf_upgrade_proposal_v3_def UPGRADE_PROPOSAL_V3_LEN_def proposal_class_codec.de_ser proposal_class_codec.ser_size proposal_state_v2_codec.de_ser proposal_state_v2_codec.ser_size gate_status_codec.de_ser gate_status_codec.ser_size optional_pubkey_codec.de_ser optional_pubkey_codec.ser_size OPTIONAL_PUBKEY_LEN_def vote_requirement_codec.de_ser vote_requirement_codec.ser_size)
next
  fix bs r and x :: upgrade_proposal_v3 assume "de_upgrade_proposal_v3 bs = Some (x, r)"
  then show "bs = ser_upgrade_proposal_v3 x @ r" "wf_upgrade_proposal_v3 x"
    by (auto simp: de_upgrade_proposal_v3_def ser_upgrade_proposal_v3_def wf_upgrade_proposal_v3_def bind_eq_Some_conv
        dest!: borsh_readD proposal_class_codec_readD proposal_state_v2_codec_readD gate_status_codec_readD optional_pubkey_codec_readD vote_requirement_codec_readD)
qed

end
