(* ===== verification/V3_State.thy ===== *)
theory V3_State
  imports V3_Layout Artifact_Merkle Loader_Accounts
begin

text \<open>
  Validity and digest of the Release 1 proposal \<open>UpgradeProposalV3\<close>, from
  \<open>upgrade_controller/src/release1_v3_state.rs\<close> and \<open>release1_v3_digest.rs\<close>: the schema check with
  its lifecycle rules, the strict decoder, the loader of \<open>release1_account_io.rs\<close>, and the digest
  of the terms.
\<close>

section \<open>Constants\<close>

definition UPGRADE_PROPOSAL_V3_DISCRIMINATOR :: "byte list" where
  "UPGRADE_PROPOSAL_V3_DISCRIMINATOR = ascii ''AGVPRP03''"
definition CAPACITY_SAFE_ACCOUNT_VERSION_V3 :: byte where "CAPACITY_SAFE_ACCOUNT_VERSION_V3 = 3"
definition UPGRADE_PROPOSAL_V3_DIGEST_DOMAIN :: "byte list" where
  "UPGRADE_PROPOSAL_V3_DIGEST_DOMAIN = ascii ''AMOEBA_UPGRADE_PROPOSAL_V3''"
definition RELEASE1_APPROVAL_THRESHOLD :: byte where "RELEASE1_APPROVAL_THRESHOLD = 3"
definition PROPOSAL_EXPIRED_TERMINAL_REASON :: u16 where "PROPOSAL_EXPIRED_TERMINAL_REASON = 1"
definition PROPOSAL_COMPLETED_TERMINAL_REASON :: u16 where "PROPOSAL_COMPLETED_TERMINAL_REASON = 2"
definition PROPOSAL_SUPERSEDED_BY_ROLLBACK_TERMINAL_REASON :: u16 where
  "PROPOSAL_SUPERSEDED_BY_ROLLBACK_TERMINAL_REASON = 3"
definition PROPOSAL_RETIRED_ROLLBACK_TERMINAL_REASON :: u16 where
  "PROPOSAL_RETIRED_ROLLBACK_TERMINAL_REASON = 4"

text \<open>The 32 bytes of an identifier as one little-endian word.\<close>

definition UPGRADE_PROPOSAL_V3_DIGEST_DOMAIN_ID :: hash32 where
  "UPGRADE_PROPOSAL_V3_DIGEST_DOMAIN_ID =
     0x7183399a8be68e59f256b16b2fd643e5cd3d7b09c1ca1e8bc992be04e7179242"
definition ARTIFACT_MERKLE_SCHEME_ID :: hash32 where
  "ARTIFACT_MERKLE_SCHEME_ID = 0xa5321a5d3f56d0dc0d5c3c7d3c31113c300d263d74b32e6ec17479693996858a"
definition PROGRAMDATA_OBSERVATION_MERKLE_SCHEME_ID_V1 :: hash32 where
  "PROGRAMDATA_OBSERVATION_MERKLE_SCHEME_ID_V1 =
     0xd22e2449b5689ec6cd2d1854d4d610de24de4571ded9c5bd01d7f1ac51fe7a6f"

definition MAX_PROGRAMDATA_PAYLOAD_CAPACITY_V1 :: u64 where
  "MAX_PROGRAMDATA_PAYLOAD_CAPACITY_V1 =
     MAX_RAW_PROGRAMDATA_ACCOUNT_BYTES_V1 - LOADER_V3_PROGRAMDATA_METADATA_LEN"

lemmas terminal_reason_defs = PROPOSAL_EXPIRED_TERMINAL_REASON_def
  PROPOSAL_COMPLETED_TERMINAL_REASON_def PROPOSAL_SUPERSEDED_BY_ROLLBACK_TERMINAL_REASON_def
  PROPOSAL_RETIRED_ROLLBACK_TERMINAL_REASON_def

section \<open>Shared checks\<close>

text \<open>\<open>if bad { return Err(e) }\<close>.\<close>

definition reject_if :: "bool \<Rightarrow> 'e \<Rightarrow> 'e + unit" where
  "reject_if bad e = (if bad then Inl e else Inr ())"

lemma reject_if_ok [result_simps]: "reject_if bad e = Inr u \<longleftrightarrow> \<not> bad"
  by (simp add: reject_if_def)

lemma reject_if_simps [simp]: "reject_if True e = Inl e" "reject_if False e = Inr ()"
  by (simp_all add: reject_if_def)

definition release1_validate_header ::
    "byte list \<Rightarrow> byte list \<Rightarrow> byte \<Rightarrow> byte \<Rightarrow> bool \<Rightarrow> byte list \<Rightarrow> governance_error + unit" where
  "release1_validate_header actual_discriminator expected_discriminator actual_version expected_version
       initialized reserved =
     checks [reject_if (actual_discriminator \<noteq> expected_discriminator) InvalidDiscriminator,
       reject_if (actual_version \<noteq> expected_version) UnsupportedVersion,
       reject_if (\<not> initialized) Uninitialized,
       reject_if (\<exists>b \<in> set reserved. b \<noteq> 0) NonzeroReserved]"

definition require_nondefault_keys :: "pubkey list \<Rightarrow> governance_error + unit" where
  "require_nondefault_keys keys = reject_if (0 \<in> set keys) DefaultPubkey"

definition require_nonzero_hashes :: "hash32 list \<Rightarrow> governance_error + unit" where
  "require_nonzero_hashes hashes = reject_if (0 \<in> set hashes) InvalidProposalCommitment"

text \<open>\<open>validate_approval_pair\<close> has the body of the function of \<open>proposal.rs\<close>.\<close>

definition validate_versioned_approval :: "u64 \<Rightarrow> hash32 \<Rightarrow> byte \<Rightarrow> byte \<Rightarrow> governance_error + unit" where
  "validate_versioned_approval council_version council_hash bitset count =
     bnd (validate_approval_pair bitset count) (\<lambda>_.
     let empty = (council_version = 0 \<and> council_hash = 0 \<and> bitset = 0 \<and> count = 0);
         pinned = (council_version \<noteq> 0 \<and> council_hash \<noteq> 0 \<and> count \<noteq> 0)
     in if empty \<or> pinned then Inr () else Inl InvalidRelease1Account)"

definition validate_artifact_identity_without_chunks ::
    "u64 \<Rightarrow> hash32 \<Rightarrow> hash32 \<Rightarrow> hash32 \<Rightarrow> governance_error + unit" where
  "validate_artifact_identity_without_chunks artifact_length artifact_sha256 artifact_root artifact_scheme_id =
     reject_if (artifact_length = 0 \<or> artifact_length > MAX_ARTIFACT_BYTES_V1 \<or> artifact_sha256 = 0
       \<or> artifact_root = 0 \<or> artifact_scheme_id \<noteq> ARTIFACT_MERKLE_SCHEME_ID) InvalidMerkleParameters"

text \<open>The second operand of the condition is evaluated, and may fail, only for an admitted chunk size.\<close>

definition validate_artifact_identity ::
    "u64 \<Rightarrow> hash32 \<Rightarrow> hash32 \<Rightarrow> hash32 \<Rightarrow> u32 \<Rightarrow> u32 \<Rightarrow> governance_error + unit" where
  "validate_artifact_identity artifact_length artifact_sha256 artifact_root artifact_scheme_id
       chunk_size chunk_count =
     bnd (validate_artifact_identity_without_chunks artifact_length artifact_sha256 artifact_root
            artifact_scheme_id) (\<lambda>_.
     if \<not> is_release1_chunk_size chunk_size then Inl InvalidMerkleParameters
     else bnd (artifact_chunk_count artifact_length chunk_size) (\<lambda>count.
       reject_if (chunk_count \<noteq> count) InvalidMerkleParameters))"

text \<open>The loop over the recorded slots, zeros skipped, with the last one seen.\<close>

fun slots_from :: "u64 \<Rightarrow> u64 list \<Rightarrow> governance_error + unit" where
  "slots_from previous [] = Inr ()"
| "slots_from previous (slot # slots) =
     (if slot = 0 then slots_from previous slots
      else if slot < previous then Inl InvalidProposalTiming else slots_from slot slots)"

definition validate_non_decreasing_nonzero_slots :: "u64 list \<Rightarrow> governance_error + unit" where
  "validate_non_decreasing_nonzero_slots slots = slots_from 0 slots"

section \<open>The rollback link\<close>

definition validate_rollback_shape :: "upgrade_proposal_v3 \<Rightarrow> governance_error + unit" where
  "validate_rollback_shape p =
     (let present = op_present (v3_rollback_proposal p) in
      bnd (reject_if (\<not> (present = op_present (v3_rollback_buffer p)
             \<and> present = (v3_rollback_artifact_length p \<noteq> 0)
             \<and> present = (v3_rollback_artifact_sha256 p \<noteq> 0)
             \<and> present = (v3_rollback_artifact_chunk_root p \<noteq> 0)
             \<and> present = (v3_rollback_artifact_scheme_id p \<noteq> 0))) InvalidProposalCommitment) (\<lambda>_.
      bnd (if present
           then validate_artifact_identity_without_chunks (v3_rollback_artifact_length p)
                  (v3_rollback_artifact_sha256 p) (v3_rollback_artifact_chunk_root p)
                  (v3_rollback_artifact_scheme_id p)
           else Inr ()) (\<lambda>_.
      case v3_proposal_class p of
        proposal_class_v1.EmergencyRollback \<Rightarrow>
          reject_if (\<not> op_present (v3_primary_proposal p) \<or> present) InvalidProposalCommitment
      | proposal_class_v1.CouncilSetRotation \<Rightarrow> Inl UnsupportedProposalClass
      | proposal_class_v1.TargetImmutability \<Rightarrow> Inl UnsupportedProposalClass
      | _ \<Rightarrow> reject_if (op_present (v3_primary_proposal p) \<or> \<not> present) InvalidProposalCommitment)))"

section \<open>The lifecycle rules\<close>

definition frozen_or_later :: "proposal_state \<Rightarrow> bool" where
  "frozen_or_later s \<longleftrightarrow> s \<in> {Frozen, Extended, UpgradeExecuted, ProgramDataVerified, PoststateAccepted,
     UnfreezeApproved, Completed, SupersededByRollback}"

definition extension_allowed :: "proposal_state \<Rightarrow> bool" where
  "extension_allowed s \<longleftrightarrow> s \<in> {Extended, UpgradeExecuted, ProgramDataVerified, PoststateAccepted,
     UnfreezeApproved, Completed, SupersededByRollback}"

definition upgrade_executed :: "proposal_state \<Rightarrow> bool" where
  "upgrade_executed s \<longleftrightarrow> s \<in> {UpgradeExecuted, ProgramDataVerified, PoststateAccepted, UnfreezeApproved,
     Completed, SupersededByRollback}"

definition programdata_verified :: "proposal_state \<Rightarrow> bool" where
  "programdata_verified s \<longleftrightarrow> s \<in> {ProgramDataVerified, PoststateAccepted, UnfreezeApproved, Completed}"

definition poststate_accepted :: "proposal_state \<Rightarrow> bool" where
  "poststate_accepted s \<longleftrightarrow> s \<in> {PoststateAccepted, UnfreezeApproved, Completed}"

definition unfreeze_approved :: "proposal_state \<Rightarrow> bool" where
  "unfreeze_approved s \<longleftrightarrow> s \<in> {UnfreezeApproved, Completed}"

lemmas state_groups = frozen_or_later_def extension_allowed_def upgrade_executed_def
  programdata_verified_def poststate_accepted_def unfreeze_approved_def

definition class_and_counts_bad :: "upgrade_proposal_v3 \<Rightarrow> bool" where
  "class_and_counts_bad p \<longleftrightarrow>
     v3_proposal_id p = - 1 \<or> v3_target_nonce p = - 1
     \<or> (v3_state p = Retired \<and> v3_proposal_class p \<noteq> proposal_class_v1.EmergencyRollback)
     \<or> (v3_state p = SupersededByRollback \<and> v3_proposal_class p = proposal_class_v1.EmergencyRollback)
     \<or> v3_council_approval_count p > RELEASE1_APPROVAL_THRESHOLD
     \<or> v3_cancellation_approval_count p > RELEASE1_APPROVAL_THRESHOLD
     \<or> v3_unfreeze_approval_count p > RELEASE1_APPROVAL_THRESHOLD"

definition freeze_bad :: "upgrade_proposal_v3 \<Rightarrow> bool" where
  "freeze_bad p \<longleftrightarrow>
     (let frozen = frozen_or_later (v3_state p) in
      (v3_freeze_gate_epoch p \<noteq> 0) \<noteq> frozen \<or> (v3_frozen_slot p \<noteq> 0) \<noteq> frozen
      \<or> (frozen \<and> (v3_freeze_gate_epoch p \<le> v3_creation_gate_epoch p
           \<or> v3_frozen_slot p < v3_not_before_slot p \<or> v3_frozen_slot p \<ge> v3_expiry_slot p)))"

definition cancellation_bad :: "upgrade_proposal_v3 \<Rightarrow> bool" where
  "cancellation_bad p \<longleftrightarrow>
     (v3_cancellation_approval_count p \<noteq> 0) \<noteq> (v3_cancellation_reason_code p \<noteq> 0)
     \<or> (if v3_state p = Cancelled
        then v3_cancellation_approval_count p \<noteq> RELEASE1_APPROVAL_THRESHOLD
             \<or> v3_terminal_reason_code p \<noteq> v3_cancellation_reason_code p
        else v3_cancellation_approval_count p = RELEASE1_APPROVAL_THRESHOLD)"

definition approval_slots_bad :: "upgrade_proposal_v3 \<Rightarrow> bool" where
  "approval_slots_bad p \<longleftrightarrow>
     (let first = (v3_first_approval_slot p \<noteq> 0); approved = (v3_council_approved_slot p \<noteq> 0) in
      first \<noteq> (v3_council_approval_count p \<noteq> 0)
      \<or> approved \<noteq> (v3_council_approval_count p = RELEASE1_APPROVAL_THRESHOLD)
      \<or> (first \<and> (v3_first_approval_slot p < v3_review_start_slot p
           \<or> v3_first_approval_slot p > v3_review_end_slot p \<or> v3_first_approval_slot p \<ge> v3_expiry_slot p))
      \<or> (approved \<and> (v3_council_approved_slot p < v3_first_approval_slot p
           \<or> v3_council_approved_slot p > v3_review_end_slot p
           \<or> v3_council_approved_slot p \<ge> v3_expiry_slot p)))"

definition governance_slots_bad :: "upgrade_proposal_v3 \<Rightarrow> bool" where
  "governance_slots_bad p \<longleftrightarrow>
     (let approved = (v3_council_approved_slot p \<noteq> 0); satisfied = (v3_governance_satisfied_slot p \<noteq> 0);
          queued = (v3_queued_slot p \<noteq> 0) in
      (satisfied \<and> (\<not> approved \<or> v3_governance_satisfied_slot p \<ge> v3_expiry_slot p))
      \<or> (queued \<and> (\<not> satisfied \<or> v3_queued_slot p \<ge> v3_expiry_slot p)))"

definition approval_shape :: "upgrade_proposal_v3 \<Rightarrow> bool" where
  "approval_shape p =
     (let count = v3_council_approval_count p; satisfied = (v3_governance_satisfied_slot p \<noteq> 0);
          queued = (v3_queued_slot p \<noteq> 0) in
      if v3_state p \<in> {Draft, BufferAdopted} then count = 0 \<and> \<not> satisfied \<and> \<not> queued
      else if v3_state p = BufferVerified
      then count < RELEASE1_APPROVAL_THRESHOLD \<and> \<not> satisfied \<and> \<not> queued
      else if v3_state p = CouncilApproved
      then count = RELEASE1_APPROVAL_THRESHOLD \<and> \<not> satisfied \<and> \<not> queued
      else if v3_state p = GovernanceSatisfied
      then count = RELEASE1_APPROVAL_THRESHOLD \<and> satisfied \<and> \<not> queued
      else if v3_state p \<in> {Cancelled, Expired} then True
      else if v3_state p = TokenReviewOpen then False
      else count = RELEASE1_APPROVAL_THRESHOLD \<and> satisfied \<and> queued)"

definition extension_bad :: "upgrade_proposal_v3 \<Rightarrow> bool" where
  "extension_bad p \<longleftrightarrow>
     (let slot = v3_extension_executed_slot p in
      (v3_state p = Extended \<and> slot = 0)
      \<or> (\<not> extension_allowed (v3_state p) \<and> slot \<noteq> 0)
      \<or> (slot \<noteq> 0 \<and> (slot < v3_frozen_slot p \<or> slot \<ge> v3_expiry_slot p)))"

definition upgrade_bad :: "upgrade_proposal_v3 \<Rightarrow> bool" where
  "upgrade_bad p \<longleftrightarrow>
     (let executed = upgrade_executed (v3_state p) in
      (v3_upgrade_executed_slot p \<noteq> 0) \<noteq> executed
      \<or> (executed \<and> v3_upgrade_executed_slot p \<ge> v3_expiry_slot p)
      \<or> (v3_extension_executed_slot p \<noteq> 0 \<and> executed
          \<and> v3_extension_executed_slot p \<ge> v3_upgrade_executed_slot p))"

definition verification_bad :: "upgrade_proposal_v3 \<Rightarrow> bool" where
  "verification_bad p \<longleftrightarrow>
     (let verified = programdata_verified (v3_state p);
          allowed = (verified \<or> v3_state p = SupersededByRollback) in
      (verified \<and> v3_programdata_verified_slot p = 0) \<or> (\<not> allowed \<and> v3_programdata_verified_slot p \<noteq> 0))"

definition unfreeze_shape :: "upgrade_proposal_v3 \<Rightarrow> bool" where
  "unfreeze_shape p =
     (if v3_state p = PoststateAccepted then v3_unfreeze_approval_count p < RELEASE1_APPROVAL_THRESHOLD
      else if v3_state p \<in> {UnfreezeApproved, Completed}
      then v3_unfreeze_approval_count p = RELEASE1_APPROVAL_THRESHOLD
      else v3_unfreeze_approval_count p = 0)"

definition unfreeze_bad :: "upgrade_proposal_v3 \<Rightarrow> bool" where
  "unfreeze_bad p \<longleftrightarrow>
     (let approved = unfreeze_approved (v3_state p) in
      \<not> unfreeze_shape p \<or> (v3_unfreeze_approved_slot p \<noteq> 0) \<noteq> approved
      \<or> (approved \<and> v3_unfreeze_approved_slot p < v3_poststate_accepted_slot p))"

definition expected_terminal_reason :: "upgrade_proposal_v3 \<Rightarrow> u16" where
  "expected_terminal_reason p =
     (case v3_state p of
        Completed \<Rightarrow> PROPOSAL_COMPLETED_TERMINAL_REASON
      | Cancelled \<Rightarrow> v3_cancellation_reason_code p
      | Expired \<Rightarrow> PROPOSAL_EXPIRED_TERMINAL_REASON
      | SupersededByRollback \<Rightarrow> PROPOSAL_SUPERSEDED_BY_ROLLBACK_TERMINAL_REASON
      | Retired \<Rightarrow> PROPOSAL_RETIRED_ROLLBACK_TERMINAL_REASON
      | _ \<Rightarrow> 0)"

definition terminal_bad :: "upgrade_proposal_v3 \<Rightarrow> bool" where
  "terminal_bad p \<longleftrightarrow>
     (let reason = expected_terminal_reason p; terminal = (reason \<noteq> 0) in
      (v3_terminal_slot p \<noteq> 0) \<noteq> terminal \<or> v3_terminal_reason_code p \<noteq> reason
      \<or> (v3_state p = Cancelled \<and> v3_terminal_slot p \<ge> v3_expiry_slot p)
      \<or> (v3_state p = Expired \<and> v3_terminal_slot p < v3_expiry_slot p))"

definition recorded_slots :: "upgrade_proposal_v3 \<Rightarrow> u64 list" where
  "recorded_slots p =
     [v3_creation_slot p, v3_first_approval_slot p, v3_council_approved_slot p,
      v3_governance_satisfied_slot p, v3_queued_slot p, v3_frozen_slot p, v3_extension_executed_slot p,
      v3_upgrade_executed_slot p, v3_programdata_verified_slot p, v3_poststate_accepted_slot p,
      v3_unfreeze_approved_slot p, v3_terminal_slot p]"

definition validate_upgrade_proposal_v3_lifecycle :: "upgrade_proposal_v3 \<Rightarrow> governance_error + unit" where
  "validate_upgrade_proposal_v3_lifecycle p =
     checks [reject_if (class_and_counts_bad p) InvalidRelease1Account,
       reject_if (freeze_bad p) InvalidProposalEpoch,
       reject_if (cancellation_bad p) InvalidRelease1Account,
       reject_if (approval_slots_bad p) InvalidProposalTiming,
       reject_if (governance_slots_bad p) InvalidProposalTiming,
       reject_if (\<not> approval_shape p) InvalidRelease1Account,
       reject_if (extension_bad p) InvalidProposalTiming,
       reject_if (upgrade_bad p) InvalidProposalTiming,
       reject_if (verification_bad p) InvalidRelease1Account,
       reject_if ((v3_poststate_accepted_slot p \<noteq> 0) \<noteq> poststate_accepted (v3_state p)) InvalidRelease1Account,
       reject_if (unfreeze_bad p) InvalidRelease1Account,
       reject_if (terminal_bad p) InvalidRelease1Account,
       validate_non_decreasing_nonzero_slots (recorded_slots p)]"

section \<open>The schema\<close>

definition v3_keys :: "upgrade_proposal_v3 \<Rightarrow> pubkey list" where
  "v3_keys p =
     [v3_controller_program p, v3_controller_config p, v3_protocol_gate p, v3_capacity_policy p,
      v3_target_program p, v3_target_programdata p, v3_upgradeable_loader p, v3_authority_pda p,
      v3_canonical_spill_treasury p, v3_current_deployment_state p, v3_buffer_pubkey p,
      v3_buffer_loader_owner p, v3_buffer_uploader_authority p, v3_buffer_final_authority p,
      v3_buffer_verification p, v3_programdata_verification p, v3_prestate_checkpoint p,
      v3_required_poststate_checkpoint p]"

definition v3_hashes :: "upgrade_proposal_v3 \<Rightarrow> hash32 list" where
  "v3_hashes p =
     [v3_cluster_domain p, v3_capacity_policy_digest p, v3_policy_hash p, v3_creation_council_hash p,
      v3_current_deployment_digest p, v3_source_commit_hash p, v3_source_tree_hash p,
      v3_build_input_inventory_hash p, v3_reproducible_build_receipt_hash p, v3_package_receipt_hash p,
      v3_release_intent_hash p, v3_checkpoint_schema_id p, v3_checkpoint_policy_hash p,
      v3_proposal_digest p]"

definition v3_flags_bad :: "upgrade_proposal_v3 \<Rightarrow> bool" where
  "v3_flags_bad p \<longleftrightarrow>
     v3_proposal_flags p \<noteq> 0 \<or> \<not> v3_zero_tail_required p \<or> v3_state p = TokenReviewOpen
     \<or> v3_creation_gate_status p \<notin> {Active, EmergencyFrozen}
     \<or> v3_proposal_digest_domain_id p \<noteq> UPGRADE_PROPOSAL_V3_DIGEST_DOMAIN_ID"

definition v3_commitment_bad :: "env \<Rightarrow> upgrade_proposal_v3 \<Rightarrow> bool" where
  "v3_commitment_bad E p \<longleftrightarrow>
     v3_proposal_id p = 0 \<or> v3_target_nonce p = 0 \<or> v3_creation_slot p = 0 \<or> v3_policy_version p = 0
     \<or> v3_creation_council_version p = 0 \<or> v3_creation_gate_epoch p = 0
     \<or> v3_current_deployment_generation p = 0 \<or> v3_upgradeable_loader p \<noteq> loader_id E
     \<or> v3_buffer_loader_owner p \<noteq> v3_upgradeable_loader p
     \<or> v3_buffer_final_authority p \<noteq> v3_authority_pda p
     \<or> v3_maximum_supported_raw_programdata_length p \<noteq> MAX_RAW_PROGRAMDATA_ACCOUNT_BYTES_V1
     \<or> v3_programdata_observation_scheme_id p \<noteq> PROGRAMDATA_OBSERVATION_MERKLE_SCHEME_ID_V1"

definition v3_timing_bad :: "upgrade_proposal_v3 \<Rightarrow> bool" where
  "v3_timing_bad p \<longleftrightarrow>
     v3_creation_slot p > v3_review_start_slot p \<or> v3_review_start_slot p \<ge> v3_review_end_slot p
     \<or> v3_review_end_slot p > v3_not_before_slot p \<or> v3_not_before_slot p \<ge> v3_expiry_slot p"

definition proposal_v3_validate_schema :: "env \<Rightarrow> upgrade_proposal_v3 \<Rightarrow> governance_error + unit" where
  "proposal_v3_validate_schema E p =
     checks [release1_validate_header (v3_discriminator p) UPGRADE_PROPOSAL_V3_DISCRIMINATOR
         (v3_account_version p) CAPACITY_SAFE_ACCOUNT_VERSION_V3 (v3_initialized p) (v3_reserved p),
       reject_if (v3_flags_bad p) InvalidProposalCommitment,
       require_nondefault_keys (v3_keys p),
       require_nonzero_hashes (v3_hashes p),
       reject_if (v3_commitment_bad E p) InvalidProposalCommitment,
       validate_artifact_identity (v3_artifact_length p) (v3_artifact_sha256 p)
         (v3_artifact_chunk_merkle_root p) (v3_artifact_scheme_id p) (v3_artifact_chunk_size p)
         (v3_artifact_chunk_count p),
       reject_if (v3_minimum_required_capacity p < v3_artifact_length p
         \<or> v3_minimum_required_capacity p > MAX_PROGRAMDATA_PAYLOAD_CAPACITY_V1) InvalidCapacityPlan,
       reject_if (v3_timing_bad p) InvalidProposalTiming,
       optional_validate (v3_primary_proposal p),
       optional_validate (v3_rollback_proposal p),
       optional_validate (v3_rollback_buffer p),
       validate_rollback_shape p,
       reject_if (v3_vote_requirement p \<noteq> NoVote \<or> v3_vote_program p \<noteq> 0 \<or> v3_vote_result_pda p \<noteq> 0)
         InvalidProposalCommitment,
       validate_approval_pair (v3_council_approval_bitset p) (v3_council_approval_count p),
       validate_versioned_approval (v3_cancellation_council_version p) (v3_cancellation_council_hash p)
         (v3_cancellation_approval_bitset p) (v3_cancellation_approval_count p),
       validate_versioned_approval (v3_unfreeze_council_version p) (v3_unfreeze_council_hash p)
         (v3_unfreeze_approval_bitset p) (v3_unfreeze_approval_count p),
       validate_upgrade_proposal_v3_lifecycle p]"

text \<open>The field by field reader of the boxed account and its check for trailing bytes.\<close>

definition from_bytes_boxed_strict :: "env \<Rightarrow> byte list \<Rightarrow> governance_error + upgrade_proposal_v3" where
  "from_bytes_boxed_strict E data =
     (if length data \<noteq> UPGRADE_PROPOSAL_V3_LEN then Inl InvalidAccountSize
      else case de_upgrade_proposal_v3 data of
        None \<Rightarrow> Inl InvalidRelease1Account
      | Some (p, rest) \<Rightarrow>
          if rest \<noteq> [] then Inl InvalidRelease1Account
          else bnd (proposal_v3_validate_schema E p) (\<lambda>_. Inr p))"

definition load_upgrade_proposal_v3 ::
    "env \<Rightarrow> ledger \<Rightarrow> pubkey \<Rightarrow> account_info \<Rightarrow> program_error + upgrade_proposal_v3" where
  "load_upgrade_proposal_v3 E L program_id i =
     (if owner_of L i \<noteq> program_id then Inl (gov IncorrectAccountOwner)
      else if length (data_of L i) \<noteq> UPGRADE_PROPOSAL_V3_LEN then Inl (gov InvalidAccountSize)
      else map_err gov (from_bytes_boxed_strict E (data_of L i)))"

section \<open>The digest\<close>

definition clear_upgrade_proposal_lifecycle_v3 :: "upgrade_proposal_v3 \<Rightarrow> upgrade_proposal_v3" where
  "clear_upgrade_proposal_lifecycle_v3 p = p
     \<lparr>v3_state := Draft, v3_freeze_gate_epoch := 0, v3_first_approval_slot := 0,
      v3_council_approved_slot := 0, v3_governance_satisfied_slot := 0, v3_queued_slot := 0,
      v3_frozen_slot := 0, v3_extension_executed_slot := 0, v3_upgrade_executed_slot := 0,
      v3_programdata_verified_slot := 0, v3_poststate_accepted_slot := 0,
      v3_unfreeze_approved_slot := 0, v3_terminal_slot := 0, v3_council_approval_bitset := 0,
      v3_council_approval_count := 0, v3_cancellation_council_version := 0,
      v3_cancellation_council_hash := 0, v3_cancellation_approval_bitset := 0,
      v3_cancellation_approval_count := 0, v3_unfreeze_council_version := 0,
      v3_unfreeze_council_hash := 0, v3_unfreeze_approval_bitset := 0,
      v3_unfreeze_approval_count := 0, v3_cancellation_reason_code := 0, v3_terminal_reason_code := 0\<rparr>"

text \<open>The image buffer has the length of the largest account; an image of another length is refused.\<close>

definition hash_fixed_image :: "env \<Rightarrow> ('a \<Rightarrow> byte list) \<Rightarrow> byte list \<Rightarrow> 'a \<Rightarrow> nat \<Rightarrow> governance_error + hash32" where
  "hash_fixed_image E ser domain x expected_image_len =
     (if expected_image_len > UPGRADE_PROPOSAL_V3_LEN then Inl InvalidRelease1Account
      else if length (ser x) \<noteq> expected_image_len then Inl InvalidRelease1Account
      else Inr (hashv E [domain, ser x]))"

definition require_digest :: "hash32 \<Rightarrow> hash32 \<Rightarrow> governance_error + unit" where
  "require_digest actual expected = (if actual = expected then Inr () else Inl Release1DigestMismatch)"

lemma require_digest_ok [result_simps]: "require_digest a b = Inr u \<longleftrightarrow> a = b"
  by (simp add: require_digest_def)

text \<open>The terms of a proposal: what stays when its lifecycle and its digest are cleared.\<close>

definition terms_v3 :: "upgrade_proposal_v3 \<Rightarrow> upgrade_proposal_v3" where
  "terms_v3 p = (clear_upgrade_proposal_lifecycle_v3 p)\<lparr>v3_proposal_digest := 0\<rparr>"

definition compute_upgrade_proposal_digest_v3 :: "env \<Rightarrow> upgrade_proposal_v3 \<Rightarrow> governance_error + hash32" where
  "compute_upgrade_proposal_digest_v3 E p =
     (let canonical = terms_v3 p
      in hash_fixed_image E ser_upgrade_proposal_v3 UPGRADE_PROPOSAL_V3_DIGEST_DOMAIN canonical
           UPGRADE_PROPOSAL_V3_LEN)"

definition validate_upgrade_proposal_digest_v3 :: "env \<Rightarrow> upgrade_proposal_v3 \<Rightarrow> governance_error + unit" where
  "validate_upgrade_proposal_digest_v3 E p =
     bnd (proposal_v3_validate_schema E p) (\<lambda>_.
     bnd (compute_upgrade_proposal_digest_v3 E p) (\<lambda>digest.
     require_digest digest (v3_proposal_digest p)))"

end
