(* ===== verification/V3_Accounts.thy ===== *)
theory V3_Accounts
  imports V3_State
begin

text \<open>
  The singleton accounts beside a Release 1 proposal, from \<open>release1_ceremony_state.rs\<close>,
  \<open>release1_ceremony_digest.rs\<close> and \<open>release1_state.rs\<close> of \<open>upgrade_controller/src\<close>: the ProgramData
  capacity policy, the current deployment, and the verification record of a buffer, with their
  layouts, static checks and digests.
\<close>

section \<open>The capacity policy\<close>

definition CAPACITY_POLICY_LEN :: nat where "CAPACITY_POLICY_LEN = 512"
definition PROGRAMDATA_CAPACITY_POLICY_V1_RESERVED_LEN :: nat where
  "PROGRAMDATA_CAPACITY_POLICY_V1_RESERVED_LEN = 122"

record capacity_policy_v1 =
  cp_discriminator :: "byte list"
  cp_version :: byte
  cp_bump :: byte
  cp_initialized :: bool
  cp_controller_program :: pubkey
  cp_controller_config :: pubkey
  cp_target_program :: pubkey
  cp_target_programdata :: pubkey
  cp_upgradeable_loader :: pubkey
  cp_loader_programdata_metadata_len :: u64
  cp_maximum_raw_programdata_length :: u64
  cp_maximum_payload_capacity :: u64
  cp_maximum_artifact_length :: u64
  cp_observation_scheme_id :: hash32
  cp_observation_chunk_size :: u32
  cp_observation_max_chunk_count :: u32
  cp_observation_padded_leaf_count :: u32
  cp_observation_tree_depth :: byte
  cp_observation_frontier_hash_count :: byte
  cp_artifact_scheme_id :: hash32
  cp_artifact_chunk_size :: u32
  cp_zero_tail_required :: bool
  cp_extend_program_checked_feature :: pubkey
  cp_set_authority_checked_feature :: pubkey
  cp_policy_digest :: hash32
  cp_creation_slot :: u64
  cp_reserved :: "byte list"

definition wf_capacity_policy_v1 :: "capacity_policy_v1 \<Rightarrow> bool" where
  "wf_capacity_policy_v1 x \<longleftrightarrow>
     length (cp_discriminator x) = 8 \<and> length (cp_reserved x) = 122"

definition ser_capacity_policy_v1 :: "capacity_policy_v1 \<Rightarrow> byte list" where
  "ser_capacity_policy_v1 x =
     cp_discriminator x @ wr_u8 (cp_version x) @ wr_u8 (cp_bump x) @ wr_bool (cp_initialized x) @
     wr_32 (cp_controller_program x) @ wr_32 (cp_controller_config x) @
     wr_32 (cp_target_program x) @ wr_32 (cp_target_programdata x) @
     wr_32 (cp_upgradeable_loader x) @ wr_u64 (cp_loader_programdata_metadata_len x) @
     wr_u64 (cp_maximum_raw_programdata_length x) @ wr_u64 (cp_maximum_payload_capacity x) @
     wr_u64 (cp_maximum_artifact_length x) @ wr_32 (cp_observation_scheme_id x) @
     wr_u32 (cp_observation_chunk_size x) @ wr_u32 (cp_observation_max_chunk_count x) @
     wr_u32 (cp_observation_padded_leaf_count x) @ wr_u8 (cp_observation_tree_depth x) @
     wr_u8 (cp_observation_frontier_hash_count x) @ wr_32 (cp_artifact_scheme_id x) @
     wr_u32 (cp_artifact_chunk_size x) @ wr_bool (cp_zero_tail_required x) @
     wr_32 (cp_extend_program_checked_feature x) @ wr_32 (cp_set_authority_checked_feature x) @
     wr_32 (cp_policy_digest x) @ wr_u64 (cp_creation_slot x) @ cp_reserved x"

definition de_capacity_policy_v1 :: "capacity_policy_v1 reader" where
  "de_capacity_policy_v1 bs = do {
     (discriminator, bs) \<leftarrow> rd_bytes 8 bs; (version, bs) \<leftarrow> rd_u8 bs;
     (bump, bs) \<leftarrow> rd_u8 bs; (initialized, bs) \<leftarrow> rd_bool bs;
     (controller_program, bs) \<leftarrow> rd_32 bs; (controller_config, bs) \<leftarrow> rd_32 bs;
     (target_program, bs) \<leftarrow> rd_32 bs; (target_programdata, bs) \<leftarrow> rd_32 bs;
     (upgradeable_loader, bs) \<leftarrow> rd_32 bs;
     (loader_programdata_metadata_len, bs) \<leftarrow> rd_u64 bs;
     (maximum_raw_programdata_length, bs) \<leftarrow> rd_u64 bs;
     (maximum_payload_capacity, bs) \<leftarrow> rd_u64 bs;
     (maximum_artifact_length, bs) \<leftarrow> rd_u64 bs;
     (observation_scheme_id, bs) \<leftarrow> rd_32 bs;
     (observation_chunk_size, bs) \<leftarrow> rd_u32 bs;
     (observation_max_chunk_count, bs) \<leftarrow> rd_u32 bs;
     (observation_padded_leaf_count, bs) \<leftarrow> rd_u32 bs;
     (observation_tree_depth, bs) \<leftarrow> rd_u8 bs;
     (observation_frontier_hash_count, bs) \<leftarrow> rd_u8 bs;
     (artifact_scheme_id, bs) \<leftarrow> rd_32 bs;
     (artifact_chunk_size, bs) \<leftarrow> rd_u32 bs;
     (zero_tail_required, bs) \<leftarrow> rd_bool bs;
     (extend_program_checked_feature, bs) \<leftarrow> rd_32 bs;
     (set_authority_checked_feature, bs) \<leftarrow> rd_32 bs;
     (policy_digest, bs) \<leftarrow> rd_32 bs; (creation_slot, bs) \<leftarrow> rd_u64 bs;
     (reserved, bs) \<leftarrow> rd_bytes 122 bs;
     Some (\<lparr>cp_discriminator = discriminator, cp_version = version, cp_bump = bump,
            cp_initialized = initialized, cp_controller_program = controller_program,
            cp_controller_config = controller_config, cp_target_program = target_program,
            cp_target_programdata = target_programdata, cp_upgradeable_loader = upgradeable_loader,
            cp_loader_programdata_metadata_len = loader_programdata_metadata_len,
            cp_maximum_raw_programdata_length = maximum_raw_programdata_length,
            cp_maximum_payload_capacity = maximum_payload_capacity,
            cp_maximum_artifact_length = maximum_artifact_length,
            cp_observation_scheme_id = observation_scheme_id,
            cp_observation_chunk_size = observation_chunk_size,
            cp_observation_max_chunk_count = observation_max_chunk_count,
            cp_observation_padded_leaf_count = observation_padded_leaf_count,
            cp_observation_tree_depth = observation_tree_depth,
            cp_observation_frontier_hash_count = observation_frontier_hash_count,
            cp_artifact_scheme_id = artifact_scheme_id,
            cp_artifact_chunk_size = artifact_chunk_size,
            cp_zero_tail_required = zero_tail_required,
            cp_extend_program_checked_feature = extend_program_checked_feature,
            cp_set_authority_checked_feature = set_authority_checked_feature,
            cp_policy_digest = policy_digest, cp_creation_slot = creation_slot,
            cp_reserved = reserved\<rparr>, bs) }"

interpretation capacity_policy_codec: borsh_codec ser_capacity_policy_v1 de_capacity_policy_v1 wf_capacity_policy_v1 CAPACITY_POLICY_LEN
proof
  fix x :: capacity_policy_v1 and r
  show "wf_capacity_policy_v1 x \<Longrightarrow> de_capacity_policy_v1 (ser_capacity_policy_v1 x @ r) = Some (x, r)"
    by (simp add: ser_capacity_policy_v1_def de_capacity_policy_v1_def wf_capacity_policy_v1_def )
  show "wf_capacity_policy_v1 x \<Longrightarrow> length (ser_capacity_policy_v1 x) = CAPACITY_POLICY_LEN"
    by (simp add: ser_capacity_policy_v1_def wf_capacity_policy_v1_def CAPACITY_POLICY_LEN_def )
next
  fix bs r and x :: capacity_policy_v1 assume "de_capacity_policy_v1 bs = Some (x, r)"
  then show "bs = ser_capacity_policy_v1 x @ r" "wf_capacity_policy_v1 x"
    by (auto simp: de_capacity_policy_v1_def ser_capacity_policy_v1_def wf_capacity_policy_v1_def bind_eq_Some_conv
        dest!: borsh_readD )
qed

section \<open>The current deployment\<close>

definition CURRENT_DEPLOYMENT_LEN :: nat where "CURRENT_DEPLOYMENT_LEN = 1024"
definition CURRENT_DEPLOYMENT_STATE_V1_RESERVED_LEN :: nat where
  "CURRENT_DEPLOYMENT_STATE_V1_RESERVED_LEN = 187"

record current_deployment_v1 =
  cd_discriminator :: "byte list"
  cd_version :: byte
  cd_bump :: byte
  cd_initialized :: bool
  cd_controller_program :: pubkey
  cd_controller_config :: pubkey
  cd_capacity_policy :: pubkey
  cd_capacity_policy_digest :: hash32
  cd_target_program :: pubkey
  cd_target_programdata :: pubkey
  cd_upgradeable_loader :: pubkey
  cd_controller_authority :: pubkey
  cd_artifact_length :: u64
  cd_artifact_sha256 :: hash32
  cd_artifact_merkle_root :: hash32
  cd_artifact_scheme_id :: hash32
  cd_actual_programdata_capacity :: u64
  cd_programdata_observation :: pubkey
  cd_observation_generation :: u64
  cd_observation_root :: hash32
  cd_observation_digest :: hash32
  cd_deployed_slot :: u64
  cd_installed_authority :: pubkey
  cd_source_commitment :: hash32
  cd_build_inputs_commitment :: hash32
  cd_package_commitment :: hash32
  cd_release_manifest_commitment :: hash32
  cd_release_commitment :: pubkey
  cd_release_commitment_digest :: hash32
  cd_activation_receipt :: optional_pubkey_v1
  cd_completed_proposal :: optional_pubkey_v1
  cd_gate_epoch_at_activation :: u64
  cd_deployment_generation :: u64
  cd_deployment_digest :: hash32
  cd_last_updated_slot :: u64
  cd_reserved :: "byte list"

definition wf_current_deployment_v1 :: "current_deployment_v1 \<Rightarrow> bool" where
  "wf_current_deployment_v1 x \<longleftrightarrow>
     length (cd_discriminator x) = 8 \<and> length (cd_reserved x) = 187"

definition ser_current_deployment_v1 :: "current_deployment_v1 \<Rightarrow> byte list" where
  "ser_current_deployment_v1 x =
     cd_discriminator x @ wr_u8 (cd_version x) @ wr_u8 (cd_bump x) @ wr_bool (cd_initialized x) @
     wr_32 (cd_controller_program x) @ wr_32 (cd_controller_config x) @
     wr_32 (cd_capacity_policy x) @ wr_32 (cd_capacity_policy_digest x) @
     wr_32 (cd_target_program x) @ wr_32 (cd_target_programdata x) @
     wr_32 (cd_upgradeable_loader x) @ wr_32 (cd_controller_authority x) @
     wr_u64 (cd_artifact_length x) @ wr_32 (cd_artifact_sha256 x) @
     wr_32 (cd_artifact_merkle_root x) @ wr_32 (cd_artifact_scheme_id x) @
     wr_u64 (cd_actual_programdata_capacity x) @ wr_32 (cd_programdata_observation x) @
     wr_u64 (cd_observation_generation x) @ wr_32 (cd_observation_root x) @
     wr_32 (cd_observation_digest x) @ wr_u64 (cd_deployed_slot x) @
     wr_32 (cd_installed_authority x) @ wr_32 (cd_source_commitment x) @
     wr_32 (cd_build_inputs_commitment x) @ wr_32 (cd_package_commitment x) @
     wr_32 (cd_release_manifest_commitment x) @ wr_32 (cd_release_commitment x) @
     wr_32 (cd_release_commitment_digest x) @ ser_optional_pubkey_v1 (cd_activation_receipt x) @
     ser_optional_pubkey_v1 (cd_completed_proposal x) @ wr_u64 (cd_gate_epoch_at_activation x) @
     wr_u64 (cd_deployment_generation x) @ wr_32 (cd_deployment_digest x) @
     wr_u64 (cd_last_updated_slot x) @ cd_reserved x"

definition de_current_deployment_v1 :: "current_deployment_v1 reader" where
  "de_current_deployment_v1 bs = do {
     (discriminator, bs) \<leftarrow> rd_bytes 8 bs; (version, bs) \<leftarrow> rd_u8 bs;
     (bump, bs) \<leftarrow> rd_u8 bs; (initialized, bs) \<leftarrow> rd_bool bs;
     (controller_program, bs) \<leftarrow> rd_32 bs; (controller_config, bs) \<leftarrow> rd_32 bs;
     (capacity_policy, bs) \<leftarrow> rd_32 bs;
     (capacity_policy_digest, bs) \<leftarrow> rd_32 bs; (target_program, bs) \<leftarrow> rd_32 bs;
     (target_programdata, bs) \<leftarrow> rd_32 bs; (upgradeable_loader, bs) \<leftarrow> rd_32 bs;
     (controller_authority, bs) \<leftarrow> rd_32 bs; (artifact_length, bs) \<leftarrow> rd_u64 bs;
     (artifact_sha256, bs) \<leftarrow> rd_32 bs; (artifact_merkle_root, bs) \<leftarrow> rd_32 bs;
     (artifact_scheme_id, bs) \<leftarrow> rd_32 bs;
     (actual_programdata_capacity, bs) \<leftarrow> rd_u64 bs;
     (programdata_observation, bs) \<leftarrow> rd_32 bs;
     (observation_generation, bs) \<leftarrow> rd_u64 bs;
     (observation_root, bs) \<leftarrow> rd_32 bs; (observation_digest, bs) \<leftarrow> rd_32 bs;
     (deployed_slot, bs) \<leftarrow> rd_u64 bs; (installed_authority, bs) \<leftarrow> rd_32 bs;
     (source_commitment, bs) \<leftarrow> rd_32 bs;
     (build_inputs_commitment, bs) \<leftarrow> rd_32 bs;
     (package_commitment, bs) \<leftarrow> rd_32 bs;
     (release_manifest_commitment, bs) \<leftarrow> rd_32 bs;
     (release_commitment, bs) \<leftarrow> rd_32 bs;
     (release_commitment_digest, bs) \<leftarrow> rd_32 bs;
     (activation_receipt, bs) \<leftarrow> de_optional_pubkey_v1 bs;
     (completed_proposal, bs) \<leftarrow> de_optional_pubkey_v1 bs;
     (gate_epoch_at_activation, bs) \<leftarrow> rd_u64 bs;
     (deployment_generation, bs) \<leftarrow> rd_u64 bs;
     (deployment_digest, bs) \<leftarrow> rd_32 bs; (last_updated_slot, bs) \<leftarrow> rd_u64 bs;
     (reserved, bs) \<leftarrow> rd_bytes 187 bs;
     Some (\<lparr>cd_discriminator = discriminator, cd_version = version, cd_bump = bump,
            cd_initialized = initialized, cd_controller_program = controller_program,
            cd_controller_config = controller_config, cd_capacity_policy = capacity_policy,
            cd_capacity_policy_digest = capacity_policy_digest, cd_target_program = target_program,
            cd_target_programdata = target_programdata, cd_upgradeable_loader = upgradeable_loader,
            cd_controller_authority = controller_authority, cd_artifact_length = artifact_length,
            cd_artifact_sha256 = artifact_sha256, cd_artifact_merkle_root = artifact_merkle_root,
            cd_artifact_scheme_id = artifact_scheme_id,
            cd_actual_programdata_capacity = actual_programdata_capacity,
            cd_programdata_observation = programdata_observation,
            cd_observation_generation = observation_generation,
            cd_observation_root = observation_root, cd_observation_digest = observation_digest,
            cd_deployed_slot = deployed_slot, cd_installed_authority = installed_authority,
            cd_source_commitment = source_commitment,
            cd_build_inputs_commitment = build_inputs_commitment,
            cd_package_commitment = package_commitment,
            cd_release_manifest_commitment = release_manifest_commitment,
            cd_release_commitment = release_commitment,
            cd_release_commitment_digest = release_commitment_digest,
            cd_activation_receipt = activation_receipt, cd_completed_proposal = completed_proposal,
            cd_gate_epoch_at_activation = gate_epoch_at_activation,
            cd_deployment_generation = deployment_generation,
            cd_deployment_digest = deployment_digest, cd_last_updated_slot = last_updated_slot,
            cd_reserved = reserved\<rparr>, bs) }"

interpretation current_deployment_codec: borsh_codec ser_current_deployment_v1 de_current_deployment_v1 wf_current_deployment_v1 CURRENT_DEPLOYMENT_LEN
proof
  fix x :: current_deployment_v1 and r
  show "wf_current_deployment_v1 x \<Longrightarrow> de_current_deployment_v1 (ser_current_deployment_v1 x @ r) = Some (x, r)"
    by (simp add: ser_current_deployment_v1_def de_current_deployment_v1_def wf_current_deployment_v1_def optional_pubkey_codec.de_ser optional_pubkey_codec.ser_size OPTIONAL_PUBKEY_LEN_def)
  show "wf_current_deployment_v1 x \<Longrightarrow> length (ser_current_deployment_v1 x) = CURRENT_DEPLOYMENT_LEN"
    by (simp add: ser_current_deployment_v1_def wf_current_deployment_v1_def CURRENT_DEPLOYMENT_LEN_def optional_pubkey_codec.de_ser optional_pubkey_codec.ser_size OPTIONAL_PUBKEY_LEN_def)
next
  fix bs r and x :: current_deployment_v1 assume "de_current_deployment_v1 bs = Some (x, r)"
  then show "bs = ser_current_deployment_v1 x @ r" "wf_current_deployment_v1 x"
    by (auto simp: de_current_deployment_v1_def ser_current_deployment_v1_def wf_current_deployment_v1_def bind_eq_Some_conv
        dest!: borsh_readD optional_pubkey_codec_readD)
qed

section \<open>The verification record of a buffer\<close>

datatype buffer_verification_status =
  Adopted | Verifying | ReadyToFinalize | Verified | ConsumedByUpgrade | ClosedAbandoned

fun buffer_verification_status_byte :: "buffer_verification_status \<Rightarrow> byte" where
  "buffer_verification_status_byte Adopted = 0"
| "buffer_verification_status_byte Verifying = 1"
| "buffer_verification_status_byte ReadyToFinalize = 2"
| "buffer_verification_status_byte Verified = 3"
| "buffer_verification_status_byte ConsumedByUpgrade = 4"
| "buffer_verification_status_byte ClosedAbandoned = 5"

definition BUFFER_VERIFICATION_STATUSES :: "buffer_verification_status list" where
  "BUFFER_VERIFICATION_STATUSES = [Adopted, Verifying, ReadyToFinalize, Verified,
     ConsumedByUpgrade, ClosedAbandoned]"

interpretation buffer_verification_status_codec: byte_enum buffer_verification_status_byte BUFFER_VERIFICATION_STATUSES
proof
  show "distinct (map buffer_verification_status_byte BUFFER_VERIFICATION_STATUSES)" by (simp add: BUFFER_VERIFICATION_STATUSES_def)
  show "v \<in> set BUFFER_VERIFICATION_STATUSES" for v by (cases v) (simp_all add: BUFFER_VERIFICATION_STATUSES_def)
qed

lemmas buffer_verification_status_codec_readD = buffer_verification_status_codec.ser_de

definition BUFFER_VERIFICATION_LEN :: nat where "BUFFER_VERIFICATION_LEN = 512"
definition BUFFER_VERIFICATION_V1_RESERVED_LEN :: nat where "BUFFER_VERIFICATION_V1_RESERVED_LEN = 72"
definition VERIFICATION_BITMAP_BYTES_V1 :: nat where "VERIFICATION_BITMAP_BYTES_V1 = 64"

record buffer_verification_v1 =
  bv_discriminator :: "byte list"
  bv_account_version :: byte
  bv_bump :: byte
  bv_initialized :: bool
  bv_status :: buffer_verification_status
  bv_controller_config :: pubkey
  bv_proposal :: pubkey
  bv_upgradeable_loader :: pubkey
  bv_buffer :: pubkey
  bv_expected_uploader_authority :: pubkey
  bv_controller_authority :: pubkey
  bv_artifact_length :: u64
  bv_artifact_sha256 :: hash32
  bv_artifact_chunk_merkle_root :: hash32
  bv_chunk_hash_domain :: hash32
  bv_chunk_size :: u32
  bv_chunk_count :: u32
  bv_verified_chunk_bitmap :: "byte list"
  bv_verified_chunk_count :: u32
  bv_adopted_slot :: u64
  bv_finalized_slot :: u64
  bv_sealed_buffer_header_hash :: hash32
  bv_terminal_slot :: u64
  bv_reserved :: "byte list"

definition wf_buffer_verification_v1 :: "buffer_verification_v1 \<Rightarrow> bool" where
  "wf_buffer_verification_v1 x \<longleftrightarrow>
     length (bv_discriminator x) = 8 \<and> length (bv_verified_chunk_bitmap x) = 64 \<and>
     length (bv_reserved x) = 72"

definition ser_buffer_verification_v1 :: "buffer_verification_v1 \<Rightarrow> byte list" where
  "ser_buffer_verification_v1 x =
     bv_discriminator x @ wr_u8 (bv_account_version x) @ wr_u8 (bv_bump x) @
     wr_bool (bv_initialized x) @ ser_enum buffer_verification_status_byte (bv_status x) @
     wr_32 (bv_controller_config x) @ wr_32 (bv_proposal x) @ wr_32 (bv_upgradeable_loader x) @
     wr_32 (bv_buffer x) @ wr_32 (bv_expected_uploader_authority x) @
     wr_32 (bv_controller_authority x) @ wr_u64 (bv_artifact_length x) @
     wr_32 (bv_artifact_sha256 x) @ wr_32 (bv_artifact_chunk_merkle_root x) @
     wr_32 (bv_chunk_hash_domain x) @ wr_u32 (bv_chunk_size x) @ wr_u32 (bv_chunk_count x) @
     bv_verified_chunk_bitmap x @ wr_u32 (bv_verified_chunk_count x) @ wr_u64 (bv_adopted_slot x) @
     wr_u64 (bv_finalized_slot x) @ wr_32 (bv_sealed_buffer_header_hash x) @
     wr_u64 (bv_terminal_slot x) @ bv_reserved x"

definition de_buffer_verification_v1 :: "buffer_verification_v1 reader" where
  "de_buffer_verification_v1 bs = do {
     (discriminator, bs) \<leftarrow> rd_bytes 8 bs; (account_version, bs) \<leftarrow> rd_u8 bs;
     (bump, bs) \<leftarrow> rd_u8 bs; (initialized, bs) \<leftarrow> rd_bool bs;
     (status, bs) \<leftarrow> de_enum buffer_verification_status_byte BUFFER_VERIFICATION_STATUSES bs;
     (controller_config, bs) \<leftarrow> rd_32 bs; (proposal, bs) \<leftarrow> rd_32 bs;
     (upgradeable_loader, bs) \<leftarrow> rd_32 bs; (buffer, bs) \<leftarrow> rd_32 bs;
     (expected_uploader_authority, bs) \<leftarrow> rd_32 bs;
     (controller_authority, bs) \<leftarrow> rd_32 bs; (artifact_length, bs) \<leftarrow> rd_u64 bs;
     (artifact_sha256, bs) \<leftarrow> rd_32 bs;
     (artifact_chunk_merkle_root, bs) \<leftarrow> rd_32 bs;
     (chunk_hash_domain, bs) \<leftarrow> rd_32 bs; (chunk_size, bs) \<leftarrow> rd_u32 bs;
     (chunk_count, bs) \<leftarrow> rd_u32 bs;
     (verified_chunk_bitmap, bs) \<leftarrow> rd_bytes 64 bs;
     (verified_chunk_count, bs) \<leftarrow> rd_u32 bs; (adopted_slot, bs) \<leftarrow> rd_u64 bs;
     (finalized_slot, bs) \<leftarrow> rd_u64 bs;
     (sealed_buffer_header_hash, bs) \<leftarrow> rd_32 bs;
     (terminal_slot, bs) \<leftarrow> rd_u64 bs; (reserved, bs) \<leftarrow> rd_bytes 72 bs;
     Some (\<lparr>bv_discriminator = discriminator, bv_account_version = account_version, bv_bump = bump,
            bv_initialized = initialized, bv_status = status,
            bv_controller_config = controller_config, bv_proposal = proposal,
            bv_upgradeable_loader = upgradeable_loader, bv_buffer = buffer,
            bv_expected_uploader_authority = expected_uploader_authority,
            bv_controller_authority = controller_authority, bv_artifact_length = artifact_length,
            bv_artifact_sha256 = artifact_sha256,
            bv_artifact_chunk_merkle_root = artifact_chunk_merkle_root,
            bv_chunk_hash_domain = chunk_hash_domain, bv_chunk_size = chunk_size,
            bv_chunk_count = chunk_count, bv_verified_chunk_bitmap = verified_chunk_bitmap,
            bv_verified_chunk_count = verified_chunk_count, bv_adopted_slot = adopted_slot,
            bv_finalized_slot = finalized_slot,
            bv_sealed_buffer_header_hash = sealed_buffer_header_hash,
            bv_terminal_slot = terminal_slot, bv_reserved = reserved\<rparr>, bs) }"

interpretation buffer_verification_codec: borsh_codec ser_buffer_verification_v1 de_buffer_verification_v1 wf_buffer_verification_v1 BUFFER_VERIFICATION_LEN
proof
  fix x :: buffer_verification_v1 and r
  show "wf_buffer_verification_v1 x \<Longrightarrow> de_buffer_verification_v1 (ser_buffer_verification_v1 x @ r) = Some (x, r)"
    by (simp add: ser_buffer_verification_v1_def de_buffer_verification_v1_def wf_buffer_verification_v1_def buffer_verification_status_codec.de_ser buffer_verification_status_codec.ser_size)
  show "wf_buffer_verification_v1 x \<Longrightarrow> length (ser_buffer_verification_v1 x) = BUFFER_VERIFICATION_LEN"
    by (simp add: ser_buffer_verification_v1_def wf_buffer_verification_v1_def BUFFER_VERIFICATION_LEN_def buffer_verification_status_codec.de_ser buffer_verification_status_codec.ser_size)
next
  fix bs r and x :: buffer_verification_v1 assume "de_buffer_verification_v1 bs = Some (x, r)"
  then show "bs = ser_buffer_verification_v1 x @ r" "wf_buffer_verification_v1 x"
    by (auto simp: de_buffer_verification_v1_def ser_buffer_verification_v1_def wf_buffer_verification_v1_def bind_eq_Some_conv
        dest!: borsh_readD buffer_verification_status_codec_readD)
qed

section \<open>Static checks\<close>

definition PROGRAMDATA_CAPACITY_POLICY_V1_DISCRIMINATOR :: "byte list" where
  "PROGRAMDATA_CAPACITY_POLICY_V1_DISCRIMINATOR = ascii ''AGVCAP01''"
definition CURRENT_DEPLOYMENT_STATE_V1_DISCRIMINATOR :: "byte list" where
  "CURRENT_DEPLOYMENT_STATE_V1_DISCRIMINATOR = ascii ''AGVDEP01''"
definition BUFFER_VERIFICATION_V1_DISCRIMINATOR :: "byte list" where
  "BUFFER_VERIFICATION_V1_DISCRIMINATOR = ascii ''AGVBFV01''"
definition CEREMONY_ACCOUNT_VERSION_V1 :: byte where "CEREMONY_ACCOUNT_VERSION_V1 = 1"
definition RELEASE1_ACCOUNT_VERSION_V1 :: byte where "RELEASE1_ACCOUNT_VERSION_V1 = 1"
definition MAX_ARTIFACT_CHUNKS_V1 :: nat where "MAX_ARTIFACT_CHUNKS_V1 = 512"

text \<open>The \<open>pubkey!\<close> literals, decoded from base 58, as little-endian words.\<close>

definition EXTEND_PROGRAM_CHECKED_FEATURE_ID_V1 :: pubkey where
  "EXTEND_PROGRAM_CHECKED_FEATURE_ID_V1 =
     0x499032c796888c1170e95d3950994d28aff92b631eb17ad57170cf84367fbb1a"
definition SET_AUTHORITY_CHECKED_FEATURE_ID_V1 :: pubkey where
  "SET_AUTHORITY_CHECKED_FEATURE_ID_V1 =
     0x09fce0fa6eb192a41d1b150cf7d18e3a8aa1ebda59f3a3b09f4323f726178849"

text \<open>\<open>validate_header\<close> of the ceremony accounts fixes the version.\<close>

definition ceremony_validate_header ::
    "byte list \<Rightarrow> byte list \<Rightarrow> byte \<Rightarrow> bool \<Rightarrow> byte list \<Rightarrow> governance_error + unit" where
  "ceremony_validate_header actual_discriminator expected_discriminator version initialized reserved =
     checks [reject_if (actual_discriminator \<noteq> expected_discriminator) InvalidDiscriminator,
       reject_if (version \<noteq> CEREMONY_ACCOUNT_VERSION_V1) UnsupportedVersion,
       reject_if (\<not> initialized) Uninitialized,
       reject_if (\<exists>b \<in> set reserved. b \<noteq> 0) NonzeroReserved]"

definition ceremony_require_nonzero_hashes :: "hash32 list \<Rightarrow> governance_error + unit" where
  "ceremony_require_nonzero_hashes hashes = reject_if (0 \<in> set hashes) InvalidRelease1Account"

definition u32_trailing_zeros :: "u32 \<Rightarrow> nat" where
  "u32_trailing_zeros w = length (takeWhile (\<lambda>i. \<not> bit w i) [0..<32])"

text \<open>The feature that admits other chunk sizes is a benchmark feature and off by default.  The
  \<open>u8::try_from\<close> of a count of zero bits cannot fail.\<close>

definition observation_geometry :: "u64 \<Rightarrow> u32 \<Rightarrow> governance_error + u32 \<times> u32 \<times> byte" where
  "observation_geometry raw_length chunk_size =
     (if raw_length = 0 \<or> raw_length > MAX_RAW_PROGRAMDATA_ACCOUNT_BYTES_V1
         \<or> chunk_size \<noteq> PROGRAMDATA_OBSERVATION_CHUNK_SIZE_16_KIB
      then Inl InvalidMerkleParameters
      else bnd (programdata_observation_chunk_count raw_length chunk_size) (\<lambda>count.
      if next_power_of_two (unat count) \<ge> 2 ^ 32 then Inl ArithmeticOverflow
      else let padded = of_nat (next_power_of_two (unat count)) :: u32; depth = u32_trailing_zeros padded in
      if count = 0 \<or> count > MAX_PROGRAMDATA_OBSERVATION_CHUNKS_V1
         \<or> padded > MAX_PADDED_PROGRAMDATA_OBSERVATION_CHUNKS_V1
         \<or> depth > MAX_PROGRAMDATA_OBSERVATION_TREE_DEPTH_V1
      then Inl InvalidMerkleParameters
      else Inr (count, padded, of_nat depth)))"

definition capacity_policy_validate_static :: "env \<Rightarrow> capacity_policy_v1 \<Rightarrow> governance_error + unit" where
  "capacity_policy_validate_static E c =
     bnd (ceremony_validate_header (cp_discriminator c) PROGRAMDATA_CAPACITY_POLICY_V1_DISCRIMINATOR
            (cp_version c) (cp_initialized c) (cp_reserved c)) (\<lambda>_.
     bnd (require_nondefault_keys
            [cp_controller_program c, cp_controller_config c, cp_target_program c, cp_target_programdata c,
             cp_upgradeable_loader c, cp_extend_program_checked_feature c,
             cp_set_authority_checked_feature c]) (\<lambda>_.
     bnd (reject_if
           (cp_upgradeable_loader c \<noteq> loader_id E
            \<or> cp_extend_program_checked_feature c \<noteq> EXTEND_PROGRAM_CHECKED_FEATURE_ID_V1
            \<or> cp_set_authority_checked_feature c \<noteq> SET_AUTHORITY_CHECKED_FEATURE_ID_V1
            \<or> cp_loader_programdata_metadata_len c \<noteq> of_nat LOADER_PROGRAMDATA_METADATA_LEN
            \<or> cp_maximum_raw_programdata_length c \<noteq> MAX_RAW_PROGRAMDATA_ACCOUNT_BYTES_V1
            \<or> cp_maximum_payload_capacity c \<noteq> MAX_PROGRAMDATA_PAYLOAD_CAPACITY_V1
            \<or> cp_maximum_artifact_length c \<noteq> MAX_ARTIFACT_BYTES_V1
            \<or> cp_observation_scheme_id c \<noteq> PROGRAMDATA_OBSERVATION_MERKLE_SCHEME_ID_V1
            \<or> cp_observation_chunk_size c \<noteq> PROGRAMDATA_OBSERVATION_CHUNK_SIZE_16_KIB
            \<or> cp_artifact_scheme_id c \<noteq> ARTIFACT_MERKLE_SCHEME_ID
            \<or> cp_artifact_chunk_size c \<noteq> RELEASE1_ARTIFACT_CHUNK_SIZE_V1
            \<or> \<not> cp_zero_tail_required c \<or> cp_policy_digest c = 0 \<or> cp_creation_slot c = 0)
           InvalidRelease1Account) (\<lambda>_.
     bnd (observation_geometry (cp_maximum_raw_programdata_length c) (cp_observation_chunk_size c))
       (\<lambda>(count, padded, depth).
     reject_if (cp_observation_max_chunk_count c \<noteq> count \<or> cp_observation_padded_leaf_count c \<noteq> padded
         \<or> cp_observation_tree_depth c \<noteq> depth
         \<or> cp_observation_frontier_hash_count c \<noteq> of_nat PROGRAMDATA_OBSERVATION_FRONTIER_SLOTS_V1)
       InvalidRelease1Account))))"

definition ceremony_validate_artifact_identity :: "u64 \<Rightarrow> hash32 \<Rightarrow> hash32 \<Rightarrow> hash32 \<Rightarrow> governance_error + unit" where
  "ceremony_validate_artifact_identity len artifact_hash merkle_root scheme_id =
     bnd (reject_if (len = 0 \<or> len > MAX_ARTIFACT_BYTES_V1 \<or> artifact_hash = 0 \<or> merkle_root = 0
            \<or> scheme_id \<noteq> ARTIFACT_MERKLE_SCHEME_ID) InvalidMerkleParameters) (\<lambda>_.
     bnd (artifact_chunk_count len RELEASE1_ARTIFACT_CHUNK_SIZE_V1) (\<lambda>_. Inr ()))"

definition current_deployment_validate_static :: "env \<Rightarrow> current_deployment_v1 \<Rightarrow> governance_error + unit" where
  "current_deployment_validate_static E d =
     checks [ceremony_validate_header (cd_discriminator d) CURRENT_DEPLOYMENT_STATE_V1_DISCRIMINATOR
         (cd_version d) (cd_initialized d) (cd_reserved d),
       require_nondefault_keys
         [cd_controller_program d, cd_controller_config d, cd_capacity_policy d, cd_target_program d,
          cd_target_programdata d, cd_upgradeable_loader d, cd_controller_authority d,
          cd_programdata_observation d, cd_installed_authority d, cd_release_commitment d],
       optional_validate (cd_activation_receipt d), optional_validate (cd_completed_proposal d),
       ceremony_validate_artifact_identity (cd_artifact_length d) (cd_artifact_sha256 d)
         (cd_artifact_merkle_root d) (cd_artifact_scheme_id d),
       ceremony_require_nonzero_hashes
         [cd_capacity_policy_digest d, cd_observation_root d, cd_observation_digest d,
          cd_source_commitment d, cd_build_inputs_commitment d, cd_package_commitment d,
          cd_release_manifest_commitment d, cd_release_commitment_digest d, cd_deployment_digest d],
       reject_if
         (cd_upgradeable_loader d \<noteq> loader_id E \<or> cd_installed_authority d \<noteq> cd_controller_authority d
          \<or> cd_actual_programdata_capacity d < cd_artifact_length d
          \<or> cd_actual_programdata_capacity d > MAX_PROGRAMDATA_PAYLOAD_CAPACITY_V1
          \<or> cd_observation_generation d = 0 \<or> cd_deployed_slot d = 0 \<or> cd_gate_epoch_at_activation d = 0
          \<or> cd_deployment_generation d = 0 \<or> cd_last_updated_slot d = 0
          \<or> op_present (cd_activation_receipt d) = op_present (cd_completed_proposal d))
         InvalidRelease1Account]"

definition release1_validate_artifact_commitment ::
    "u64 \<Rightarrow> hash32 \<Rightarrow> hash32 \<Rightarrow> hash32 \<Rightarrow> u32 \<Rightarrow> u32 \<Rightarrow> governance_error + unit" where
  "release1_validate_artifact_commitment artifact_length artifact_sha256 artifact_root scheme_id
       chunk_size chunk_count =
     (if artifact_length = 0 \<or> artifact_length > MAX_ARTIFACT_BYTES_V1 \<or> artifact_sha256 = 0
         \<or> artifact_root = 0 \<or> scheme_id \<noteq> ARTIFACT_MERKLE_SCHEME_ID
         \<or> \<not> is_release1_chunk_size chunk_size
      then Inl InvalidMerkleParameters
      else bnd (artifact_chunk_count artifact_length chunk_size) (\<lambda>count.
        reject_if (chunk_count \<noteq> count) InvalidMerkleParameters))"

definition validate_bitmap :: "byte list \<Rightarrow> u32 \<Rightarrow> u32 \<Rightarrow> governance_error + unit" where
  "validate_bitmap bitmap bit_count stored_count =
     checks [reject_if (unat bit_count > MAX_ARTIFACT_CHUNKS_V1) InvalidRelease1Bitmap,
       reject_if (of_nat (sum_list (map pop_count bitmap)) \<noteq> stored_count) InvalidRelease1Bitmap,
       reject_if (\<exists>index \<in> set [unat bit_count..<MAX_ARTIFACT_CHUNKS_V1].
           bitmap ! (index div 8) AND shl1 (index mod 8) \<noteq> 0) InvalidRelease1Bitmap]"

definition buffer_status_canonical :: "buffer_verification_v1 \<Rightarrow> bool" where
  "buffer_status_canonical b =
     (case bv_status b of
        Adopted \<Rightarrow> bv_verified_chunk_count b = 0 \<and> bv_finalized_slot b = 0 \<and> bv_terminal_slot b = 0
      | Verifying \<Rightarrow> bv_verified_chunk_count b > 0 \<and> bv_verified_chunk_count b < bv_chunk_count b
          \<and> bv_finalized_slot b = 0 \<and> bv_terminal_slot b = 0
      | ReadyToFinalize \<Rightarrow> bv_verified_chunk_count b = bv_chunk_count b
          \<and> bv_finalized_slot b = 0 \<and> bv_terminal_slot b = 0
      | Verified \<Rightarrow> bv_verified_chunk_count b = bv_chunk_count b
          \<and> bv_finalized_slot b \<noteq> 0 \<and> bv_terminal_slot b = 0
      | ConsumedByUpgrade \<Rightarrow> bv_verified_chunk_count b = bv_chunk_count b
          \<and> bv_finalized_slot b \<noteq> 0 \<and> bv_terminal_slot b \<noteq> 0
      | ClosedAbandoned \<Rightarrow> bv_terminal_slot b \<noteq> 0
          \<and> ((bv_finalized_slot b = 0 \<and> bv_verified_chunk_count b \<le> bv_chunk_count b)
             \<or> (bv_finalized_slot b \<noteq> 0 \<and> bv_verified_chunk_count b = bv_chunk_count b)))"

definition buffer_verification_validate_schema :: "buffer_verification_v1 \<Rightarrow> governance_error + unit" where
  "buffer_verification_validate_schema b =
     checks [release1_validate_header (bv_discriminator b) BUFFER_VERIFICATION_V1_DISCRIMINATOR
         (bv_account_version b) RELEASE1_ACCOUNT_VERSION_V1 (bv_initialized b) (bv_reserved b),
       require_nondefault_keys
         [bv_controller_config b, bv_proposal b, bv_upgradeable_loader b, bv_buffer b,
          bv_expected_uploader_authority b, bv_controller_authority b],
       release1_validate_artifact_commitment (bv_artifact_length b) (bv_artifact_sha256 b)
         (bv_artifact_chunk_merkle_root b) (bv_chunk_hash_domain b) (bv_chunk_size b) (bv_chunk_count b),
       validate_bitmap (bv_verified_chunk_bitmap b) (bv_chunk_count b) (bv_verified_chunk_count b),
       reject_if (bv_adopted_slot b = 0 \<or> bv_sealed_buffer_header_hash b = 0) InvalidRelease1Account,
       reject_if (\<not> buffer_status_canonical b) InvalidRelease1Account,
       reject_if ((bv_finalized_slot b \<noteq> 0 \<and> bv_finalized_slot b < bv_adopted_slot b)
         \<or> (bv_terminal_slot b \<noteq> 0 \<and> bv_terminal_slot b < bv_adopted_slot b)
         \<or> (bv_finalized_slot b \<noteq> 0 \<and> bv_terminal_slot b \<noteq> 0
             \<and> bv_terminal_slot b < bv_finalized_slot b)) InvalidRelease1Account]"

section \<open>Digests\<close>

definition CAPACITY_POLICY_DIGEST_DOMAIN_V1 :: "byte list" where
  "CAPACITY_POLICY_DIGEST_DOMAIN_V1 = ascii ''AMOEBA_PROGRAMDATA_CAPACITY_POLICY_V1''"
definition CURRENT_DEPLOYMENT_DIGEST_DOMAIN_V1 :: "byte list" where
  "CURRENT_DEPLOYMENT_DIGEST_DOMAIN_V1 = ascii ''AMOEBA_CURRENT_DEPLOYMENT_STATE_V1''"
definition MAX_CEREMONY_DIGEST_IMAGE_LEN :: nat where "MAX_CEREMONY_DIGEST_IMAGE_LEN = 1280"

definition hash_fixed :: "env \<Rightarrow> ('a \<Rightarrow> byte list) \<Rightarrow> byte list \<Rightarrow> 'a \<Rightarrow> governance_error + hash32" where
  "hash_fixed E ser domain x =
     (if length (ser x) > MAX_CEREMONY_DIGEST_IMAGE_LEN then Inl InvalidRelease1Account
      else Inr (hashv E [domain, ser x]))"

definition compute_capacity_policy_digest_v1 :: "env \<Rightarrow> capacity_policy_v1 \<Rightarrow> governance_error + hash32" where
  "compute_capacity_policy_digest_v1 E c =
     hash_fixed E ser_capacity_policy_v1 CAPACITY_POLICY_DIGEST_DOMAIN_V1
       (c\<lparr>cp_policy_digest := 0, cp_creation_slot := 0\<rparr>)"

definition validate_capacity_policy_digest_v1 :: "env \<Rightarrow> capacity_policy_v1 \<Rightarrow> governance_error + unit" where
  "validate_capacity_policy_digest_v1 E c =
     bnd (capacity_policy_validate_static E c) (\<lambda>_.
     bnd (compute_capacity_policy_digest_v1 E c) (\<lambda>digest. require_digest digest (cp_policy_digest c)))"

definition compute_current_deployment_digest_v1 :: "env \<Rightarrow> current_deployment_v1 \<Rightarrow> governance_error + hash32" where
  "compute_current_deployment_digest_v1 E d =
     hash_fixed E ser_current_deployment_v1 CURRENT_DEPLOYMENT_DIGEST_DOMAIN_V1 (d\<lparr>cd_deployment_digest := 0\<rparr>)"

definition validate_current_deployment_digest_v1 :: "env \<Rightarrow> current_deployment_v1 \<Rightarrow> governance_error + unit" where
  "validate_current_deployment_digest_v1 E d =
     bnd (current_deployment_validate_static E d) (\<lambda>_.
     bnd (compute_current_deployment_digest_v1 E d) (\<lambda>digest. require_digest digest (cd_deployment_digest d)))"

end
