(* ===== verification/V3_Context.thy ===== *)
theory V3_Context
  imports V3_Accounts
begin

text \<open>
  What every Release 1 proposal handler reads first and checks, from
  \<open>release1_processor_v3_lifecycle/account_context.rs\<close> and \<open>proposal_guards.rs\<close> of
  \<open>upgrade_controller/src\<close>: privileges, the typed accounts at their derived addresses, the runtime
  header of the target, and the guards an instruction carries.
\<close>

section \<open>Small checks\<close>

abbreviation gfail :: "governance_error \<Rightarrow> program_error + 'a" where
  "gfail e \<equiv> Inl (gov e)"

definition current_slot :: "env \<Rightarrow> program_error + u64" where
  "current_slot E = bnd (clock_get E) (\<lambda>slot. if slot = 0 then gfail InvalidProposalTiming else Inr slot)"

definition checked_nonterminal_increment :: "u64 \<Rightarrow> governance_error + u64" where
  "checked_nonterminal_increment n =
     bnd (ok_or (checked_add n 1) ArithmeticOverflow) (\<lambda>next.
     if next = - 1 then Inl ArithmeticOverflow else Inr next)"

definition exact_account_count :: "account_info list \<Rightarrow> nat \<Rightarrow> program_error + unit" where
  "exact_account_count accounts expected = reject_if (length accounts \<noteq> expected) (gov InvalidAccountCount)"

definition all_distinct :: "account_info list \<Rightarrow> program_error + unit" where
  "all_distinct accounts = require_distinct_accounts accounts"

definition readonly_account :: "account_info \<Rightarrow> program_error + unit" where
  "readonly_account i = validate_exact_privileges i False False False"
definition writable_account :: "account_info \<Rightarrow> program_error + unit" where
  "writable_account i = validate_exact_privileges i True False False"
definition signer_writable :: "account_info \<Rightarrow> program_error + unit" where
  "signer_writable i = validate_exact_privileges i True True False"
definition executable_readonly :: "account_info \<Rightarrow> program_error + unit" where
  "executable_readonly i = validate_exact_privileges i False False True"

definition system_program_account :: "env \<Rightarrow> account_info \<Rightarrow> program_error + unit" where
  "system_program_account E i =
     bnd (executable_readonly i) (\<lambda>_. reject_if (ai_key i \<noteq> system_program_id E) (gov CrossAccountMismatch))"

section \<open>The singleton accounts\<close>

definition council_review_slots :: "controller_config_v1 \<Rightarrow> u64" where
  "council_review_slots c = cc_vote_review_slots c"

definition load_controller_config :: "env \<Rightarrow> ledger \<Rightarrow> pubkey \<Rightarrow> account_info \<Rightarrow> program_error + controller_config_v1" where
  "load_controller_config E L program i =
     bnd (load_fixed_controller_account de_controller_config_v1 L program i CONTROLLER_CONFIG_LEN) (\<lambda>c.
     bnd (map_err gov (config_validate_static c)) (\<lambda>_.
     if derive_controller_config_pda E program (cc_target_program c) \<noteq> (ai_key i, cc_bump c)
        \<or> cc_upgradeable_loader c \<noteq> loader_id E
        \<or> fst (derive_upgradeable_programdata_address E (cc_target_program c)) \<noteq> cc_target_programdata c
        \<or> fst (derive_authority_pda E program (cc_target_program c)) \<noteq> cc_authority_pda c
        \<or> fst (derive_gate_pda E program (cc_target_program c)) \<noteq> cc_gate_pda c
     then gfail InvalidPda else Inr c))"

definition load_governance_policy ::
    "env \<Rightarrow> ledger \<Rightarrow> pubkey \<Rightarrow> account_info \<Rightarrow> account_info \<Rightarrow> controller_config_v1 \<Rightarrow> u64
       \<Rightarrow> program_error + governance_policy_v1" where
  "load_governance_policy E L program i config_info c slot =
     bnd (load_fixed_controller_account de_governance_policy_v1 L program i GOVERNANCE_POLICY_LEN) (\<lambda>policy.
     bnd (map_err gov (validate_policy_against_config E policy c)) (\<lambda>_.
     if derive_policy_pda E program (cc_target_program c) (cc_current_policy_version c)
          \<noteq> (ai_key i, gp_bump policy)
        \<or> gp_controller_config policy \<noteq> ai_key config_info \<or> gp_activation_slot policy > slot
     then gfail InactivePolicy else Inr policy))"

definition load_council ::
    "env \<Rightarrow> ledger \<Rightarrow> pubkey \<Rightarrow> account_info \<Rightarrow> account_info \<Rightarrow> controller_config_v1 \<Rightarrow> governance_policy_v1
       \<Rightarrow> u64 \<Rightarrow> hash32 \<Rightarrow> u64 \<Rightarrow> bool \<Rightarrow> program_error + council_set_v1" where
  "load_council E L program i config_info c policy expected_version expected_hash slot require_current =
     bnd (load_fixed_controller_account de_council_set_v1 L program i COUNCIL_SET_LEN) (\<lambda>council.
     bnd (map_err gov (validate_council_set E council policy)) (\<lambda>_.
     bnd (map_err gov (validate_council_guardian_separation council (cc_guardian c))) (\<lambda>_.
     if derive_council_pda E program (cc_target_program c) expected_version \<noteq> (ai_key i, gc_bump council)
        \<or> gc_controller_config council \<noteq> ai_key config_info
        \<or> gc_target_program council \<noteq> cc_target_program c
        \<or> gc_version council \<noteq> expected_version \<or> gc_set_hash council \<noteq> expected_hash
        \<or> \<not> active_at council slot
        \<or> (require_current \<and> gc_version council \<noteq> cc_current_council_version c)
     then gfail StaleCouncilVersion else Inr council)))"

definition load_current_council ::
    "env \<Rightarrow> ledger \<Rightarrow> pubkey \<Rightarrow> account_info \<Rightarrow> account_info \<Rightarrow> controller_config_v1 \<Rightarrow> governance_policy_v1
       \<Rightarrow> u64 \<Rightarrow> program_error + council_set_v1" where
  "load_current_council E L program i config_info c policy slot =
     bnd (load_fixed_controller_account de_council_set_v1 L program i COUNCIL_SET_LEN) (\<lambda>council.
     load_council E L program i config_info c policy (cc_current_council_version c) (gc_set_hash council)
       slot True)"

definition load_protocol_gate ::
    "env \<Rightarrow> ledger \<Rightarrow> pubkey \<Rightarrow> account_info \<Rightarrow> account_info \<Rightarrow> controller_config_v1 \<Rightarrow> program_error + protocol_gate" where
  "load_protocol_gate E L program i config_info c =
     bnd (load_fixed_controller_account de_gate L program i GATE_LEN) (\<lambda>g.
     bnd (map_err gov (gate_validate_static g)) (\<lambda>_.
     if derive_gate_pda E program (cc_target_program c) \<noteq> (ai_key i, gt_bump g) \<or> ai_key i \<noteq> cc_gate_pda c
        \<or> gt_controller_config g \<noteq> ai_key config_info
        \<or> gt_target_program g \<noteq> cc_target_program c \<or> gt_target_programdata g \<noteq> cc_target_programdata c
     then gfail CrossAccountMismatch else Inr g))"

definition load_capacity_policy ::
    "env \<Rightarrow> ledger \<Rightarrow> pubkey \<Rightarrow> account_info \<Rightarrow> account_info \<Rightarrow> controller_config_v1
       \<Rightarrow> program_error + capacity_policy_v1" where
  "load_capacity_policy E L program i config_info c =
     bnd (load_fixed_controller_account de_capacity_policy_v1 L program i CAPACITY_POLICY_LEN) (\<lambda>cap.
     bnd (map_err gov (validate_capacity_policy_digest_v1 E cap)) (\<lambda>_.
     if derive_capacity_policy_pda E program (cc_target_program c) \<noteq> (ai_key i, cp_bump cap)
        \<or> cp_controller_program cap \<noteq> program \<or> cp_controller_config cap \<noteq> ai_key config_info
        \<or> cp_target_program cap \<noteq> cc_target_program c \<or> cp_target_programdata cap \<noteq> cc_target_programdata c
        \<or> cp_upgradeable_loader cap \<noteq> cc_upgradeable_loader c
     then gfail CapacityPolicyMismatch else Inr cap))"

definition load_current_deployment ::
    "env \<Rightarrow> ledger \<Rightarrow> pubkey \<Rightarrow> account_info \<Rightarrow> account_info \<Rightarrow> account_info \<Rightarrow> controller_config_v1
       \<Rightarrow> capacity_policy_v1 \<Rightarrow> program_error + current_deployment_v1" where
  "load_current_deployment E L program i config_info capacity_info c cap =
     bnd (load_fixed_controller_account de_current_deployment_v1 L program i CURRENT_DEPLOYMENT_LEN) (\<lambda>d.
     bnd (map_err gov (validate_current_deployment_digest_v1 E d)) (\<lambda>_.
     if derive_current_deployment_state_pda E program (cc_target_program c) \<noteq> (ai_key i, cd_bump d)
        \<or> cd_controller_program d \<noteq> program \<or> cd_controller_config d \<noteq> ai_key config_info
        \<or> cd_capacity_policy d \<noteq> ai_key capacity_info
        \<or> cd_capacity_policy_digest d \<noteq> cp_policy_digest cap
        \<or> cd_target_program d \<noteq> cc_target_program c \<or> cd_target_programdata d \<noteq> cc_target_programdata c
        \<or> cd_upgradeable_loader d \<noteq> cc_upgradeable_loader c
        \<or> cd_controller_authority d \<noteq> cc_authority_pda c
        \<or> cd_installed_authority d \<noteq> cc_authority_pda c
        \<or> cd_actual_programdata_capacity d > cp_maximum_payload_capacity cap
     then gfail CrossAccountMismatch else Inr d))"

record lifecycle_context =
  lc_config :: controller_config_v1
  lc_gate :: protocol_gate
  lc_capacity :: capacity_policy_v1
  lc_deployment :: current_deployment_v1

definition load_lifecycle_context ::
    "env \<Rightarrow> ledger \<Rightarrow> pubkey \<Rightarrow> account_info \<Rightarrow> account_info \<Rightarrow> account_info \<Rightarrow> account_info
       \<Rightarrow> program_error + lifecycle_context" where
  "load_lifecycle_context E L program config_info gate_info capacity_info deployment_info =
     bnd (load_controller_config E L program config_info) (\<lambda>c.
     bnd (load_protocol_gate E L program gate_info config_info c) (\<lambda>g.
     bnd (load_capacity_policy E L program capacity_info config_info c) (\<lambda>cap.
     bnd (load_current_deployment E L program deployment_info config_info capacity_info c cap) (\<lambda>d.
     Inr \<lparr>lc_config = c, lc_gate = g, lc_capacity = cap, lc_deployment = d\<rparr>))))"

section \<open>The runtime header\<close>

record runtime_programdata_header =
  rh_deployed_slot :: u64
  rh_raw_data_length :: u64
  rh_capacity :: u64
  rh_authority :: "pubkey option"

text \<open>\<open>u64::try_from\<close> of a length.\<close>

definition u64_of_length :: "nat \<Rightarrow> program_error + u64" where
  "u64_of_length n = (if n < 2 ^ 64 then Inr (of_nat n) else gfail ArithmeticOverflow)"

definition read_runtime_programdata_header ::
    "ledger \<Rightarrow> account_info \<Rightarrow> account_info \<Rightarrow> controller_config_v1 \<Rightarrow> capacity_policy_v1
       \<Rightarrow> program_error + runtime_programdata_header" where
  "read_runtime_programdata_header L target_program target_programdata c cap =
     (if ai_key target_program \<noteq> cc_target_program c \<or> ai_key target_programdata \<noteq> cc_target_programdata c
      then gfail CrossAccountMismatch
      else bnd (map_err gov (validate_program_programdata_linkage L target_program target_programdata
                  (cc_upgradeable_loader c))) (\<lambda>header.
           bnd (u64_of_length (length (data_of L target_programdata))) (\<lambda>raw_data_length.
           bnd (u64_of_length (capacity header)) (\<lambda>payload_capacity.
           let runtime = \<lparr>rh_deployed_slot = deployed_slot header, rh_raw_data_length = raw_data_length,
                 rh_capacity = payload_capacity, rh_authority = upgrade_authority header\<rparr> in
           if rh_deployed_slot runtime = 0
              \<or> rh_raw_data_length runtime > cp_maximum_raw_programdata_length cap
              \<or> rh_capacity runtime > cp_maximum_payload_capacity cap
           then gfail InvalidCapacityPlan
           else bnd (ok_or (checked_add (rh_capacity runtime) (cp_loader_programdata_metadata_len cap))
                      (gov ArithmeticOverflow)) (\<lambda>sum.
             if rh_raw_data_length runtime \<noteq> sum then gfail InvalidCapacityPlan else Inr runtime)))))"

definition require_runtime_matches_trusted_deployment ::
    "runtime_programdata_header \<Rightarrow> current_deployment_v1 \<Rightarrow> controller_config_v1 \<Rightarrow> program_error + unit" where
  "require_runtime_matches_trusted_deployment runtime d c =
     reject_if (rh_deployed_slot runtime \<noteq> cd_deployed_slot d
       \<or> rh_capacity runtime < cd_actual_programdata_capacity d
       \<or> rh_authority runtime \<noteq> Some (cc_authority_pda c)) (gov StaleProgramDataObservation)"

section \<open>The proposal and its guards\<close>

definition require_guard_deployment ::
    "capacity_policy_v1 \<Rightarrow> current_deployment_v1 \<Rightarrow> hash32 \<Rightarrow> hash32 \<Rightarrow> u64 \<Rightarrow> program_error + unit" where
  "require_guard_deployment cap d expected_capacity_digest expected_deployment_digest
       expected_deployment_generation =
     reject_if (cp_policy_digest cap \<noteq> expected_capacity_digest
       \<or> cd_deployment_digest d \<noteq> expected_deployment_digest
       \<or> cd_deployment_generation d \<noteq> expected_deployment_generation) (gov CrossAccountMismatch)"

definition load_proposal_v3 ::
    "env \<Rightarrow> ledger \<Rightarrow> pubkey \<Rightarrow> account_info \<Rightarrow> account_info \<Rightarrow> account_info \<Rightarrow> account_info \<Rightarrow> account_info
       \<Rightarrow> lifecycle_context \<Rightarrow> program_error + upgrade_proposal_v3" where
  "load_proposal_v3 E L program i config_info gate_info capacity_info deployment_info context =
     bnd (load_upgrade_proposal_v3 E L program i) (\<lambda>p.
     bnd (map_err gov (validate_upgrade_proposal_digest_v3 E p)) (\<lambda>_.
     let c = lc_config context; cap = lc_capacity context in
     if derive_proposal_pda E program (cc_target_program c) (v3_proposal_id p) \<noteq> (ai_key i, v3_bump p)
        \<or> v3_controller_program p \<noteq> program \<or> v3_controller_config p \<noteq> ai_key config_info
        \<or> v3_protocol_gate p \<noteq> ai_key gate_info \<or> v3_capacity_policy p \<noteq> ai_key capacity_info
        \<or> v3_capacity_policy_digest p \<noteq> cp_policy_digest cap
        \<or> v3_current_deployment_state p \<noteq> ai_key deployment_info
        \<or> v3_cluster_domain p \<noteq> cc_cluster_domain c
        \<or> v3_target_program p \<noteq> cc_target_program c \<or> v3_target_programdata p \<noteq> cc_target_programdata c
        \<or> v3_upgradeable_loader p \<noteq> cc_upgradeable_loader c \<or> v3_authority_pda p \<noteq> cc_authority_pda c
        \<or> v3_canonical_spill_treasury p \<noteq> cc_canonical_spill_treasury c
        \<or> v3_policy_version p \<noteq> cc_current_policy_version c
        \<or> v3_maximum_supported_raw_programdata_length p \<noteq> cp_maximum_raw_programdata_length cap
        \<or> v3_programdata_observation_scheme_id p \<noteq> cp_observation_scheme_id cap
        \<or> v3_artifact_scheme_id p \<noteq> cp_artifact_scheme_id cap
        \<or> v3_artifact_chunk_size p \<noteq> cp_artifact_chunk_size cap
     then gfail CrossAccountMismatch else Inr p))"

definition require_proposal_deployment_current ::
    "upgrade_proposal_v3 \<Rightarrow> current_deployment_v1 \<Rightarrow> program_error + unit" where
  "require_proposal_deployment_current p d =
     reject_if (v3_current_deployment_digest p \<noteq> cd_deployment_digest d
       \<or> v3_current_deployment_generation p \<noteq> cd_deployment_generation d) (gov StaleProgramDataObservation)"

text \<open>\<open>ProposalGuardV3\<close> of \<open>release1_v3_instruction.rs\<close>: what the caller believes of the accounts.\<close>

record proposal_guard_v3 =
  pg_expected_proposal_digest :: hash32
  pg_expected_state :: proposal_state
  pg_expected_gate_status :: gate_status
  pg_expected_gate_epoch :: u64
  pg_expected_target_nonce :: u64
  pg_expected_capacity_policy_digest :: hash32
  pg_expected_current_deployment_digest :: hash32
  pg_expected_current_deployment_generation :: u64

definition check_proposal_guard ::
    "proposal_guard_v3 \<Rightarrow> upgrade_proposal_v3 \<Rightarrow> lifecycle_context \<Rightarrow> program_error + unit" where
  "check_proposal_guard expected p context =
     bnd (require_guard_deployment (lc_capacity context) (lc_deployment context)
            (pg_expected_capacity_policy_digest expected) (pg_expected_current_deployment_digest expected)
            (pg_expected_current_deployment_generation expected)) (\<lambda>_.
     reject_if (pg_expected_proposal_digest expected \<noteq> v3_proposal_digest p
       \<or> pg_expected_state expected \<noteq> v3_state p
       \<or> pg_expected_gate_status expected \<noteq> gt_status (lc_gate context)
       \<or> pg_expected_gate_epoch expected \<noteq> gt_epoch (lc_gate context)
       \<or> pg_expected_target_nonce expected \<noteq> cc_target_nonce (lc_config context)) (gov CrossAccountMismatch))"

definition require_creation_gate ::
    "upgrade_proposal_v3 \<Rightarrow> controller_config_v1 \<Rightarrow> protocol_gate \<Rightarrow> program_error + unit" where
  "require_creation_gate p c g =
     reject_if (v3_target_nonce p \<noteq> cc_target_nonce c \<or> v3_creation_gate_status p \<noteq> gt_status g
       \<or> v3_creation_gate_epoch p \<noteq> gt_epoch g \<or> gt_active_proposal g \<noteq> 0
       \<or> (gt_status g = EmergencyFrozen \<and> gt_freeze_reason_code g = BOOTSTRAP_INITIALIZATION_FREEZE_REASON)
       \<or> gt_status g \<notin> {Active, EmergencyFrozen}) (gov InvalidProposalEpoch)"

definition derive_proposal_timing ::
    "controller_config_v1 \<Rightarrow> proposal_class_v1 \<Rightarrow> u64 \<Rightarrow> governance_error + u64 \<times> u64 \<times> u64 \<times> u64" where
  "derive_proposal_timing c class creation_slot =
     bnd (case class of
            proposal_class_v1.EmergencyRollback \<Rightarrow> Inr (cc_rollback_delay_slots c)
          | proposal_class_v1.RoutineUpgrade \<Rightarrow> Inr (cc_routine_delay_slots c)
          | proposal_class_v1.EconomicChange \<Rightarrow> Inr (cc_major_delay_slots c)
          | proposal_class_v1.ConstitutionalChange \<Rightarrow> Inr (cc_major_delay_slots c)
          | _ \<Rightarrow> Inl UnsupportedProposalClass) (\<lambda>delay.
     bnd (ok_or (checked_add creation_slot 1) ArithmeticOverflow) (\<lambda>review_start.
     bnd (ok_or (checked_add review_start (council_review_slots c)) ArithmeticOverflow) (\<lambda>review_end.
     bnd (ok_or (checked_add review_end delay) ArithmeticOverflow) (\<lambda>not_before.
     bnd (ok_or (checked_add creation_slot (cc_proposal_expiry_slots c)) ArithmeticOverflow) (\<lambda>expiry.
     if not_before \<ge> expiry then Inl InvalidProposalTiming
     else Inr (review_start, review_end, not_before, expiry))))))"

definition verify_exact_proposal_timing ::
    "upgrade_proposal_v3 \<Rightarrow> controller_config_v1 \<Rightarrow> program_error + unit" where
  "verify_exact_proposal_timing p c =
     bnd (map_err gov (derive_proposal_timing c (v3_proposal_class p) (v3_creation_slot p))) (\<lambda>timing.
     reject_if (timing \<noteq> (v3_review_start_slot p, v3_review_end_slot p, v3_not_before_slot p, v3_expiry_slot p))
       (gov InvalidProposalTiming))"

definition require_approval_window :: "upgrade_proposal_v3 \<Rightarrow> u64 \<Rightarrow> program_error + unit" where
  "require_approval_window p slot =
     reject_if (slot < v3_review_start_slot p \<or> slot > v3_review_end_slot p \<or> slot \<ge> v3_expiry_slot p)
       (gov InvalidProposalTiming)"

definition require_exact_recorded_quorum ::
    "council_set_v1 \<Rightarrow> byte \<Rightarrow> byte \<Rightarrow> u64 \<Rightarrow> program_error + unit" where
  "require_exact_recorded_quorum council bitset count approval_slot =
     bnd (reject_if (bitset AND NOT VALID_APPROVAL_MASK \<noteq> 0 \<or> of_nat (pop_count bitset) \<noteq> count
            \<or> count \<noteq> RELEASE1_APPROVAL_THRESHOLD \<or> \<not> active_at council approval_slot)
            (gov QuorumNotSatisfied)) (\<lambda>_.
     checks (map (\<lambda>(index, s).
         reject_if (bitset AND shl1 index \<noteq> 0 \<and> \<not> seat_in_term s approval_slot) (gov InactiveCouncilSeat))
       (enumerate 0 (gc_seats council))))"

definition is_prefreeze_state :: "proposal_state \<Rightarrow> bool" where
  "is_prefreeze_state s \<longleftrightarrow>
     s \<in> {Draft, BufferAdopted, BufferVerified, CouncilApproved, GovernanceSatisfied, Timelocked}"

definition load_verified_buffer_for_proposal ::
    "env \<Rightarrow> ledger \<Rightarrow> pubkey \<Rightarrow> account_info \<Rightarrow> account_info \<Rightarrow> upgrade_proposal_v3 \<Rightarrow> u64
       \<Rightarrow> program_error + buffer_verification_v1" where
  "load_verified_buffer_for_proposal E L program i proposal_info p slot =
     bnd (load_fixed_controller_account de_buffer_verification_v1 L program i BUFFER_VERIFICATION_LEN) (\<lambda>b.
     bnd (map_err gov (buffer_verification_validate_schema b)) (\<lambda>_.
     if derive_buffer_check_pda E program (ai_key proposal_info) \<noteq> (ai_key i, bv_bump b)
        \<or> v3_buffer_verification p \<noteq> ai_key i \<or> bv_controller_config b \<noteq> v3_controller_config p
        \<or> bv_proposal b \<noteq> ai_key proposal_info \<or> bv_upgradeable_loader b \<noteq> v3_upgradeable_loader p
        \<or> bv_buffer b \<noteq> v3_buffer_pubkey p
        \<or> bv_expected_uploader_authority b \<noteq> v3_buffer_uploader_authority p
        \<or> bv_controller_authority b \<noteq> v3_authority_pda p \<or> bv_status b \<noteq> Verified
        \<or> bv_artifact_length b \<noteq> v3_artifact_length p \<or> bv_artifact_sha256 b \<noteq> v3_artifact_sha256 p
        \<or> bv_artifact_chunk_merkle_root b \<noteq> v3_artifact_chunk_merkle_root p
        \<or> bv_chunk_hash_domain b \<noteq> v3_artifact_scheme_id p
        \<or> bv_chunk_size b \<noteq> v3_artifact_chunk_size p \<or> bv_chunk_count b \<noteq> v3_artifact_chunk_count p
        \<or> bv_finalized_slot b = 0 \<or> bv_finalized_slot b > slot
     then gfail CrossAccountMismatch else Inr b))"

end
