(* ===== verification/V3_Handlers.thy ===== *)
theory V3_Handlers
  imports V3_Context
begin

text \<open>
  The handlers that carry a Release 1 proposal from its creation to the freeze of the gate, or to
  its cancellation or expiry, from \<open>proposals.rs\<close> and \<open>lifecycle.rs\<close> of
  \<open>upgrade_controller/src/release1_processor_v3_lifecycle\<close>.  A handler takes the ledger and the
  account list of the instruction and returns the new ledger.
\<close>

section \<open>Writing accounts\<close>

text \<open>How every handler that changes only the proposal ends.\<close>

definition commit_proposal_v3 ::
    "env \<Rightarrow> pubkey \<Rightarrow> account_info \<Rightarrow> upgrade_proposal_v3 \<Rightarrow> ledger \<Rightarrow> program_error + ledger" where
  "commit_proposal_v3 E program i p L =
     bnd (map_err gov (validate_upgrade_proposal_digest_v3 E p)) (\<lambda>_.
     store_fixed_controller_account ser_upgrade_proposal_v3 L program i p UPGRADE_PROPOSAL_V3_LEN)"

section \<open>Creation\<close>

record proposal_manifest_v3 =
  pm_proposal_class :: proposal_class_v1
  pm_expected_proposal_id :: u64
  pm_expected_target_nonce :: u64
  pm_expected_gate_status :: gate_status
  pm_expected_gate_epoch :: u64
  pm_expected_capacity_policy_digest :: hash32
  pm_expected_current_deployment_digest :: hash32
  pm_expected_current_deployment_generation :: u64
  pm_expected_policy_version :: u64
  pm_expected_policy_hash :: hash32
  pm_expected_council_version :: u64
  pm_expected_council_hash :: hash32
  pm_artifact_length :: u64
  pm_artifact_sha256 :: hash32
  pm_artifact_chunk_merkle_root :: hash32
  pm_source_commit_hash :: hash32
  pm_source_tree_hash :: hash32
  pm_build_input_inventory_hash :: hash32
  pm_reproducible_build_receipt_hash :: hash32
  pm_package_receipt_hash :: hash32
  pm_release_intent_hash :: hash32
  pm_minimum_required_capacity :: u64
  pm_checkpoint_schema_id :: hash32
  pm_checkpoint_policy_hash :: hash32
  pm_primary_proposal :: optional_pubkey_v1
  pm_rollback_proposal :: optional_pubkey_v1
  pm_rollback_buffer :: optional_pubkey_v1
  pm_rollback_artifact_length :: u64
  pm_rollback_artifact_sha256 :: hash32
  pm_rollback_artifact_chunk_root :: hash32
  pm_plan_valid_until_slot :: u64

text \<open>The draft assembled from the manifest and the loaded accounts; its digest is still open.\<close>

definition candidate_proposal_v3 ::
    "env \<Rightarrow> pubkey \<Rightarrow> proposal_manifest_v3 \<Rightarrow> lifecycle_context \<Rightarrow> governance_policy_v1 \<Rightarrow> council_set_v1
       \<Rightarrow> account_info \<Rightarrow> account_info \<Rightarrow> account_info \<Rightarrow> account_info \<Rightarrow> account_info \<Rightarrow> account_info \<Rightarrow> account_info
       \<Rightarrow> byte \<Rightarrow> u64 \<Rightarrow> u64 \<times> u64 \<times> u64 \<times> u64 \<Rightarrow> u32 \<Rightarrow> upgrade_proposal_v3" where
  "candidate_proposal_v3 E program m context policy council config_info gate_info capacity_info
       deployment_info buffer uploader proposal_info bump slot timing chunk_count =
     (let c = lc_config context; g = lc_gate context; cap = lc_capacity context; d = lc_deployment context;
          (review_start, review_end, not_before, expiry) = timing in
      \<lparr>v3_discriminator = UPGRADE_PROPOSAL_V3_DISCRIMINATOR,
       v3_account_version = CAPACITY_SAFE_ACCOUNT_VERSION_V3, v3_bump = bump, v3_initialized = True,
       v3_proposal_class = pm_proposal_class m, v3_state = Draft, v3_creation_gate_status = gt_status g,
       v3_zero_tail_required = cp_zero_tail_required cap, v3_proposal_flags = 0,
       v3_proposal_id = cc_next_proposal_id c, v3_target_nonce = cc_target_nonce c,
       v3_creation_slot = slot, v3_cluster_domain = cc_cluster_domain c, v3_controller_program = program,
       v3_controller_config = ai_key config_info, v3_protocol_gate = ai_key gate_info,
       v3_capacity_policy = ai_key capacity_info, v3_capacity_policy_digest = cp_policy_digest cap,
       v3_policy_version = gp_version policy, v3_policy_hash = gp_policy_hash policy,
       v3_creation_council_version = gc_version council, v3_creation_council_hash = gc_set_hash council,
       v3_creation_gate_epoch = gt_epoch g, v3_freeze_gate_epoch = 0,
       v3_target_program = cc_target_program c, v3_target_programdata = cc_target_programdata c,
       v3_upgradeable_loader = cc_upgradeable_loader c, v3_authority_pda = cc_authority_pda c,
       v3_canonical_spill_treasury = cc_canonical_spill_treasury c,
       v3_current_deployment_state = ai_key deployment_info,
       v3_current_deployment_digest = cd_deployment_digest d,
       v3_current_deployment_generation = cd_deployment_generation d,
       v3_buffer_pubkey = ai_key buffer, v3_buffer_loader_owner = cc_upgradeable_loader c,
       v3_buffer_uploader_authority = ai_key uploader, v3_buffer_final_authority = cc_authority_pda c,
       v3_buffer_verification = fst (derive_buffer_check_pda E program (ai_key proposal_info)),
       v3_programdata_verification = fst (derive_programdata_check_pda E program (ai_key proposal_info)),
       v3_artifact_length = pm_artifact_length m, v3_artifact_sha256 = pm_artifact_sha256 m,
       v3_artifact_chunk_merkle_root = pm_artifact_chunk_merkle_root m,
       v3_artifact_scheme_id = cp_artifact_scheme_id cap,
       v3_artifact_chunk_size = cp_artifact_chunk_size cap, v3_artifact_chunk_count = chunk_count,
       v3_source_commit_hash = pm_source_commit_hash m, v3_source_tree_hash = pm_source_tree_hash m,
       v3_build_input_inventory_hash = pm_build_input_inventory_hash m,
       v3_reproducible_build_receipt_hash = pm_reproducible_build_receipt_hash m,
       v3_package_receipt_hash = pm_package_receipt_hash m, v3_release_intent_hash = pm_release_intent_hash m,
       v3_minimum_required_capacity = pm_minimum_required_capacity m,
       v3_maximum_supported_raw_programdata_length = cp_maximum_raw_programdata_length cap,
       v3_programdata_observation_scheme_id = cp_observation_scheme_id cap,
       v3_prestate_checkpoint =
         fst (derive_checkpoint_pda E program (ai_key proposal_info) checkpoint_phase_v1.Prestate),
       v3_required_poststate_checkpoint =
         fst (derive_checkpoint_pda E program (ai_key proposal_info) checkpoint_phase_v1.Poststate),
       v3_checkpoint_schema_id = pm_checkpoint_schema_id m,
       v3_checkpoint_policy_hash = pm_checkpoint_policy_hash m,
       v3_primary_proposal = pm_primary_proposal m, v3_rollback_proposal = pm_rollback_proposal m,
       v3_rollback_buffer = pm_rollback_buffer m,
       v3_rollback_artifact_length = pm_rollback_artifact_length m,
       v3_rollback_artifact_sha256 = pm_rollback_artifact_sha256 m,
       v3_rollback_artifact_chunk_root = pm_rollback_artifact_chunk_root m,
       v3_rollback_artifact_scheme_id =
         (if op_present (pm_rollback_proposal m) then cp_artifact_scheme_id cap else 0),
       v3_vote_requirement = NoVote, v3_vote_program = 0, v3_vote_result_pda = 0,
       v3_review_start_slot = review_start, v3_review_end_slot = review_end,
       v3_not_before_slot = not_before, v3_expiry_slot = expiry,
       v3_first_approval_slot = 0, v3_council_approved_slot = 0, v3_governance_satisfied_slot = 0,
       v3_queued_slot = 0, v3_frozen_slot = 0, v3_extension_executed_slot = 0,
       v3_upgrade_executed_slot = 0, v3_programdata_verified_slot = 0, v3_poststate_accepted_slot = 0,
       v3_unfreeze_approved_slot = 0, v3_terminal_slot = 0, v3_council_approval_bitset = 0,
       v3_council_approval_count = 0, v3_cancellation_council_version = 0,
       v3_cancellation_council_hash = 0, v3_cancellation_approval_bitset = 0,
       v3_cancellation_approval_count = 0, v3_unfreeze_council_version = 0,
       v3_unfreeze_council_hash = 0, v3_unfreeze_approval_bitset = 0, v3_unfreeze_approval_count = 0,
       v3_proposal_digest_domain_id = UPGRADE_PROPOSAL_V3_DIGEST_DOMAIN_ID, v3_proposal_digest = 0,
       v3_cancellation_reason_code = 0, v3_terminal_reason_code = 0,
       v3_reserved = replicate UPGRADE_PROPOSAL_V3_RESERVED_LEN 0\<rparr>)"

definition manifest_matches ::
    "proposal_manifest_v3 \<Rightarrow> lifecycle_context \<Rightarrow> governance_policy_v1 \<Rightarrow> council_set_v1 \<Rightarrow> u64 \<Rightarrow> bool" where
  "manifest_matches m context policy council slot \<longleftrightarrow>
     (let c = lc_config context; g = lc_gate context; cap = lc_capacity context; d = lc_deployment context in
      slot \<le> pm_plan_valid_until_slot m
      \<and> pm_expected_proposal_id m = cc_next_proposal_id c \<and> pm_expected_target_nonce m = cc_target_nonce c
      \<and> pm_expected_gate_status m = gt_status g \<and> pm_expected_gate_epoch m = gt_epoch g
      \<and> pm_expected_capacity_policy_digest m = cp_policy_digest cap
      \<and> pm_expected_current_deployment_digest m = cd_deployment_digest d
      \<and> pm_expected_current_deployment_generation m = cd_deployment_generation d
      \<and> pm_expected_policy_version m = gp_version policy \<and> pm_expected_policy_hash m = gp_policy_hash policy
      \<and> pm_expected_council_version m = gc_version council \<and> pm_expected_council_hash m = gc_set_hash council
      \<and> pm_artifact_length m \<le> cp_maximum_artifact_length cap
      \<and> pm_artifact_length m \<le> pm_minimum_required_capacity m
      \<and> pm_minimum_required_capacity m \<le> cp_maximum_payload_capacity cap)"

text \<open>The gate states in which proposals may be created.\<close>

definition creation_gate_bad :: "protocol_gate \<Rightarrow> bool" where
  "creation_gate_bad g \<longleftrightarrow>
     gt_status g \<notin> {Active, EmergencyFrozen} \<or> gt_active_proposal g \<noteq> 0
     \<or> (gt_status g = EmergencyFrozen \<and> gt_freeze_reason_code g = BOOTSTRAP_INITIALIZATION_FREEZE_REASON)"

definition process_create_proposal_v3 ::
    "env \<Rightarrow> pubkey \<Rightarrow> account_info list \<Rightarrow> proposal_manifest_v3 \<Rightarrow> ledger \<Rightarrow> program_error + ledger" where
  "process_create_proposal_v3 E program accounts m L =
     bnd (exact_account_count accounts 17) (\<lambda>_.
     bnd (all_distinct accounts) (\<lambda>_.
     case accounts of
       [payer, creator, config_info, policy_info, council_info, gate_info, capacity_info, deployment_info,
        target_program, target_programdata, loader, auth, spill, buffer, uploader, proposal_info, system] \<Rightarrow>
     bnd (checks (signer_writable payer # map_err gov (validate_seat_authority creator)
            # writable_account config_info
            # map readonly_account [policy_info, council_info, gate_info, capacity_info, deployment_info,
                auth, spill, buffer, uploader]
            @ [executable_readonly target_program, readonly_account target_programdata,
               executable_readonly loader, writable_account proposal_info,
               system_program_account E system])) (\<lambda>_.
     bnd (current_slot E) (\<lambda>slot.
     bnd (load_controller_config E L program config_info) (\<lambda>c.
     bnd (load_governance_policy E L program policy_info config_info c slot) (\<lambda>policy.
     bnd (load_current_council E L program council_info config_info c policy slot) (\<lambda>council.
     bnd (load_protocol_gate E L program gate_info config_info c) (\<lambda>g.
     bnd (load_capacity_policy E L program capacity_info config_info c) (\<lambda>cap.
     bnd (load_current_deployment E L program deployment_info config_info capacity_info c cap) (\<lambda>d.
     bnd (reject_if (ai_key creator = cc_guardian c
            \<or> \<not> (\<exists>s \<in> set (gc_seats council). se_seat_authority s = ai_key creator \<and> seat_in_term s slot)
            \<or> \<not> active_at council slot) (gov InactiveCouncilSeat)) (\<lambda>_.
     bnd (reject_if (creation_gate_bad g) (gov InvalidGateState)) (\<lambda>_.
     bnd (reject_if (ai_key loader \<noteq> cc_upgradeable_loader c \<or> ai_key auth \<noteq> cc_authority_pda c
            \<or> ai_key spill \<noteq> cc_canonical_spill_treasury c) (gov CrossAccountMismatch)) (\<lambda>_.
     bnd (read_runtime_programdata_header L target_program target_programdata c cap) (\<lambda>runtime.
     bnd (require_runtime_matches_trusted_deployment runtime d c) (\<lambda>_.
     bnd (map_err gov (validate_buffer_account L buffer (cc_upgradeable_loader c))) (\<lambda>header.
     let context = \<lparr>lc_config = c, lc_gate = g, lc_capacity = cap, lc_deployment = d\<rparr>;
         expected_proposal = derive_proposal_pda E program (cc_target_program c) (cc_next_proposal_id c) in
     bnd (map_err gov (derive_proposal_timing c (pm_proposal_class m) slot)) (\<lambda>timing.
     bnd (reject_if (\<not> manifest_matches m context policy council slot
            \<or> fst expected_proposal \<noteq> ai_key proposal_info
            \<or> bh_authority header \<noteq> Some (ai_key uploader)) (gov CrossAccountMismatch)) (\<lambda>_.
     bnd (u64_of_length (bh_payload_length header)) (\<lambda>payload_length.
     bnd (reject_if (payload_length \<noteq> pm_artifact_length m) (gov CrossAccountMismatch)) (\<lambda>_.
     bnd (map_err gov (artifact_chunk_count (pm_artifact_length m) (cp_artifact_chunk_size cap))) (\<lambda>chunk_count.
     let candidate = candidate_proposal_v3 E program m context policy council config_info gate_info
           capacity_info deployment_info buffer uploader proposal_info (snd expected_proposal) slot timing
           chunk_count in
     bnd (map_err gov (compute_upgrade_proposal_digest_v3 E candidate)) (\<lambda>digest.
     let candidate = candidate\<lparr>v3_proposal_digest := digest\<rparr> in
     bnd (map_err gov (validate_upgrade_proposal_digest_v3 E candidate)) (\<lambda>_.
     bnd (ok_or (checked_add (cc_next_proposal_id c) 1) (gov ArithmeticOverflow)) (\<lambda>next_proposal_id.
     bnd (reject_if (next_proposal_id = - 1) (gov ArithmeticOverflow)) (\<lambda>_.
     let c' = c\<lparr>cc_next_proposal_id := next_proposal_id\<rparr> in
     bnd (map_err gov (config_validate_static c')) (\<lambda>_.
     bnd (encode_fixed_account ser_upgrade_proposal_v3 candidate UPGRADE_PROPOSAL_V3_LEN) (\<lambda>proposal_bytes.
     bnd (encode_fixed_account ser_controller_config_v1 c' CONTROLLER_CONFIG_LEN) (\<lambda>config_bytes.
     bnd (rent_get E) (\<lambda>rent.
     bnd (create_fixed_pda_account E program payer proposal_info system rent UPGRADE_PROPOSAL_V3_LEN
            [UPGRADE_SEED_DOMAIN_V1, PROPOSAL_SEED, wr_32 (cc_target_program c'),
             wr_u64 (v3_proposal_id candidate), [v3_bump candidate]] L) (\<lambda>L.
     bnd (copy_from_slice proposal_info proposal_bytes L) (\<lambda>L.
     copy_from_slice config_info config_bytes L)))))))))))))))))))))))))))))
     | _ \<Rightarrow> Inl Panicked))"

section \<open>Approval\<close>

record approve_proposal_v3 =
  ap_expected :: proposal_guard_v3
  ap_expected_creation_council_version :: u64
  ap_expected_creation_council_hash :: hash32
  ap_expected_approval_bitset :: byte
  ap_expected_approval_count :: byte

text \<open>The update of the proposal once a seat is recorded.\<close>

definition approved_v3 :: "upgrade_proposal_v3 \<Rightarrow> byte \<Rightarrow> byte \<Rightarrow> u64 \<Rightarrow> upgrade_proposal_v3" where
  "approved_v3 p bitset count slot =
     (let p = p\<lparr>v3_council_approval_bitset := bitset, v3_council_approval_count := count\<rparr>;
          p = (if v3_first_approval_slot p = 0 then p\<lparr>v3_first_approval_slot := slot\<rparr> else p)
      in if count = RELEASE1_APPROVAL_THRESHOLD
         then p\<lparr>v3_state := CouncilApproved, v3_council_approved_slot := slot\<rparr> else p)"

definition process_approve_proposal_v3 ::
    "env \<Rightarrow> pubkey \<Rightarrow> account_info list \<Rightarrow> approve_proposal_v3 \<Rightarrow> ledger \<Rightarrow> program_error + ledger" where
  "process_approve_proposal_v3 E program accounts ix L =
     bnd (exact_account_count accounts 9) (\<lambda>_.
     bnd (all_distinct accounts) (\<lambda>_.
     case accounts of
       [config_info, policy_info, council_info, gate_info, capacity_info, deployment_info, proposal_info,
        buffer_verification_info, seat] \<Rightarrow>
     bnd (checks (map readonly_account [config_info, policy_info, council_info, gate_info, capacity_info,
                deployment_info, buffer_verification_info]
            @ [writable_account proposal_info, map_err gov (validate_seat_authority seat)])) (\<lambda>_.
     bnd (current_slot E) (\<lambda>slot.
     bnd (load_lifecycle_context E L program config_info gate_info capacity_info deployment_info) (\<lambda>context.
     bnd (load_governance_policy E L program policy_info config_info (lc_config context) slot) (\<lambda>policy.
     bnd (load_proposal_v3 E L program proposal_info config_info gate_info capacity_info deployment_info
            context) (\<lambda>p.
     bnd (load_council E L program council_info config_info (lc_config context) policy
            (v3_creation_council_version p) (v3_creation_council_hash p) slot True) (\<lambda>council.
     bnd (require_proposal_deployment_current p (lc_deployment context)) (\<lambda>_.
     bnd (check_proposal_guard (ap_expected ix) p context) (\<lambda>_.
     bnd (require_creation_gate p (lc_config context) (lc_gate context)) (\<lambda>_.
     bnd (require_approval_window p slot) (\<lambda>_.
     bnd (reject_if (ai_key seat = cc_guardian (lc_config context) \<or> v3_state p \<noteq> BufferVerified
            \<or> ap_expected_creation_council_version ix \<noteq> v3_creation_council_version p
            \<or> ap_expected_creation_council_hash ix \<noteq> v3_creation_council_hash p
            \<or> ap_expected_approval_bitset ix \<noteq> v3_council_approval_bitset p
            \<or> ap_expected_approval_count ix \<noteq> v3_council_approval_count p
            \<or> v3_council_approval_count p \<ge> RELEASE1_APPROVAL_THRESHOLD) (gov InvalidStateTransition)) (\<lambda>_.
     bnd (load_verified_buffer_for_proposal E L program buffer_verification_info proposal_info p slot) (\<lambda>_.
     bnd (map_err gov (record_seat_approval council (v3_council_approval_bitset p)
            (v3_council_approval_count p) (ai_key seat) slot)) (\<lambda>(bitset, count).
     commit_proposal_v3 E program proposal_info (approved_v3 p bitset count slot) L)))))))))))))
     | _ \<Rightarrow> Inl Panicked))"

section \<open>Finalization and queueing\<close>

record finalize_governance_v3 =
  fg_expected :: proposal_guard_v3
  fg_expected_approval_bitset :: byte
  fg_expected_approval_count :: byte

definition process_finalize_governance_v3 ::
    "env \<Rightarrow> pubkey \<Rightarrow> account_info list \<Rightarrow> finalize_governance_v3 \<Rightarrow> ledger \<Rightarrow> program_error + ledger" where
  "process_finalize_governance_v3 E program accounts ix L =
     bnd (exact_account_count accounts 7) (\<lambda>_.
     bnd (all_distinct accounts) (\<lambda>_.
     case accounts of
       [config_info, policy_info, council_info, gate_info, capacity_info, deployment_info, proposal_info] \<Rightarrow>
     bnd (checks (map readonly_account [config_info, policy_info, council_info, gate_info, capacity_info,
                deployment_info] @ [writable_account proposal_info])) (\<lambda>_.
     bnd (current_slot E) (\<lambda>slot.
     bnd (load_lifecycle_context E L program config_info gate_info capacity_info deployment_info) (\<lambda>context.
     bnd (load_governance_policy E L program policy_info config_info (lc_config context) slot) (\<lambda>policy.
     bnd (load_proposal_v3 E L program proposal_info config_info gate_info capacity_info deployment_info
            context) (\<lambda>p.
     bnd (load_council E L program council_info config_info (lc_config context) policy
            (v3_creation_council_version p) (v3_creation_council_hash p) slot False) (\<lambda>council.
     bnd (require_proposal_deployment_current p (lc_deployment context)) (\<lambda>_.
     bnd (check_proposal_guard (fg_expected ix) p context) (\<lambda>_.
     bnd (require_creation_gate p (lc_config context) (lc_gate context)) (\<lambda>_.
     bnd (reject_if (v3_state p \<noteq> CouncilApproved \<or> slot \<ge> v3_expiry_slot p
            \<or> fg_expected_approval_bitset ix \<noteq> v3_council_approval_bitset p
            \<or> fg_expected_approval_count ix \<noteq> v3_council_approval_count p) (gov InvalidStateTransition)) (\<lambda>_.
     bnd (require_exact_recorded_quorum council (v3_council_approval_bitset p) (v3_council_approval_count p)
            (v3_council_approved_slot p)) (\<lambda>_.
     commit_proposal_v3 E program proposal_info
       (p\<lparr>v3_state := GovernanceSatisfied, v3_governance_satisfied_slot := slot\<rparr>) L)))))))))))
     | _ \<Rightarrow> Inl Panicked))"

definition process_queue_proposal_v3 ::
    "env \<Rightarrow> pubkey \<Rightarrow> account_info list \<Rightarrow> proposal_guard_v3 \<Rightarrow> ledger \<Rightarrow> program_error + ledger" where
  "process_queue_proposal_v3 E program accounts expected L =
     bnd (exact_account_count accounts 6) (\<lambda>_.
     bnd (all_distinct accounts) (\<lambda>_.
     case accounts of
       [config_info, policy_info, gate_info, capacity_info, deployment_info, proposal_info] \<Rightarrow>
     bnd (checks (map readonly_account [config_info, policy_info, gate_info, capacity_info, deployment_info]
            @ [writable_account proposal_info])) (\<lambda>_.
     bnd (current_slot E) (\<lambda>slot.
     bnd (load_lifecycle_context E L program config_info gate_info capacity_info deployment_info) (\<lambda>context.
     bnd (load_governance_policy E L program policy_info config_info (lc_config context) slot) (\<lambda>_.
     bnd (load_proposal_v3 E L program proposal_info config_info gate_info capacity_info deployment_info
            context) (\<lambda>p.
     bnd (require_proposal_deployment_current p (lc_deployment context)) (\<lambda>_.
     bnd (check_proposal_guard expected p context) (\<lambda>_.
     bnd (require_creation_gate p (lc_config context) (lc_gate context)) (\<lambda>_.
     bnd (verify_exact_proposal_timing p (lc_config context)) (\<lambda>_.
     bnd (reject_if (v3_state p \<noteq> GovernanceSatisfied
            \<or> v3_council_approval_count p \<noteq> RELEASE1_APPROVAL_THRESHOLD
            \<or> slot \<ge> v3_expiry_slot p) (gov InvalidStateTransition)) (\<lambda>_.
     commit_proposal_v3 E program proposal_info (p\<lparr>v3_state := Timelocked, v3_queued_slot := slot\<rparr>) L))))))))))
     | _ \<Rightarrow> Inl Panicked))"

section \<open>The prepared rollback\<close>

definition rollback_identity_ok ::
    "pubkey \<Rightarrow> lifecycle_context \<Rightarrow> upgrade_proposal_v3 \<Rightarrow> upgrade_proposal_v3 \<Rightarrow> bool" where
  "rollback_identity_ok program context primary r \<longleftrightarrow>
     (let c = lc_config context; cap = lc_capacity context in
      v3_controller_program r = program \<and> v3_controller_config r = v3_controller_config primary
      \<and> v3_protocol_gate r = v3_protocol_gate primary \<and> v3_capacity_policy r = v3_capacity_policy primary
      \<and> v3_capacity_policy_digest r = cp_policy_digest cap
      \<and> v3_current_deployment_state r = v3_current_deployment_state primary
      \<and> v3_current_deployment_digest r = v3_current_deployment_digest primary
      \<and> v3_current_deployment_generation r = v3_current_deployment_generation primary
      \<and> v3_target_program r = cc_target_program c \<and> v3_target_programdata r = cc_target_programdata c
      \<and> v3_upgradeable_loader r = cc_upgradeable_loader c \<and> v3_authority_pda r = cc_authority_pda c
      \<and> v3_canonical_spill_treasury r = cc_canonical_spill_treasury c
      \<and> v3_maximum_supported_raw_programdata_length r = cp_maximum_raw_programdata_length cap
      \<and> v3_programdata_observation_scheme_id r = cp_observation_scheme_id cap
      \<and> v3_artifact_scheme_id r = cp_artifact_scheme_id cap
      \<and> v3_artifact_chunk_size r = cp_artifact_chunk_size cap)"

definition rollback_link_ok ::
    "env \<Rightarrow> pubkey \<Rightarrow> account_info \<Rightarrow> upgrade_proposal_v3 \<Rightarrow> account_info \<Rightarrow> upgrade_proposal_v3
       \<Rightarrow> account_info \<Rightarrow> buffer_verification_v1 \<Rightarrow> account_info \<Rightarrow> u64 \<Rightarrow> bool" where
  "rollback_link_ok E program primary_info primary rollback_info r verification_info verification
       buffer_info slot \<longleftrightarrow>
     op_present (v3_rollback_proposal primary) \<and> op_value (v3_rollback_proposal primary) = ai_key rollback_info
     \<and> op_present (v3_rollback_buffer primary) \<and> op_value (v3_rollback_buffer primary) = ai_key buffer_info
     \<and> v3_proposal_class r = proposal_class_v1.EmergencyRollback
     \<and> op_present (v3_primary_proposal r) \<and> op_value (v3_primary_proposal r) = ai_key primary_info
     \<and> \<not> op_present (v3_rollback_proposal r) \<and> \<not> op_present (v3_rollback_buffer r)
     \<and> v3_state r = Timelocked \<and> v3_target_nonce r = v3_target_nonce primary
     \<and> v3_creation_council_version r = v3_creation_council_version primary
     \<and> v3_creation_council_hash r = v3_creation_council_hash primary
     \<and> v3_checkpoint_schema_id r = v3_checkpoint_schema_id primary
     \<and> v3_checkpoint_policy_hash r = v3_checkpoint_policy_hash primary
     \<and> v3_buffer_pubkey r = ai_key buffer_info \<and> v3_buffer_verification r = ai_key verification_info
     \<and> v3_programdata_verification r = fst (derive_programdata_check_pda E program (ai_key rollback_info))
     \<and> v3_prestate_checkpoint r
         = fst (derive_checkpoint_pda E program (ai_key rollback_info) checkpoint_phase_v1.Prestate)
     \<and> v3_required_poststate_checkpoint r
         = fst (derive_checkpoint_pda E program (ai_key rollback_info) checkpoint_phase_v1.Poststate)
     \<and> v3_rollback_artifact_length primary = v3_artifact_length r
     \<and> v3_rollback_artifact_sha256 primary = v3_artifact_sha256 r
     \<and> v3_rollback_artifact_chunk_root primary = v3_artifact_chunk_merkle_root r
     \<and> v3_rollback_artifact_scheme_id primary = v3_artifact_scheme_id r
     \<and> v3_council_approval_count r = RELEASE1_APPROVAL_THRESHOLD
     \<and> v3_governance_satisfied_slot r \<noteq> 0 \<and> v3_queued_slot r \<noteq> 0
     \<and> slot < v3_expiry_slot r \<and> bv_status verification = Verified"

definition validate_prepared_rollback_v3 ::
    "env \<Rightarrow> ledger \<Rightarrow> pubkey \<Rightarrow> lifecycle_context \<Rightarrow> account_info \<Rightarrow> upgrade_proposal_v3 \<Rightarrow> account_info
       \<Rightarrow> account_info \<Rightarrow> account_info \<Rightarrow> u64 \<Rightarrow> program_error + unit" where
  "validate_prepared_rollback_v3 E L program context primary_info primary rollback_info verification_info
       buffer_info slot =
     (let c = lc_config context in
      bnd (load_upgrade_proposal_v3 E L program rollback_info) (\<lambda>r.
      bnd (map_err gov (validate_upgrade_proposal_digest_v3 E r)) (\<lambda>_.
      bnd (reject_if (derive_proposal_pda E program (cc_target_program c) (v3_proposal_id r)
               \<noteq> (ai_key rollback_info, v3_bump r)
             \<or> \<not> rollback_identity_ok program context primary r) (gov CrossAccountMismatch)) (\<lambda>_.
      bnd (load_verified_buffer_for_proposal E L program verification_info rollback_info r slot)
        (\<lambda>verification.
      bnd (verify_exact_proposal_timing r c) (\<lambda>_.
      bnd (reject_if (\<not> rollback_link_ok E program primary_info primary rollback_info r verification_info
             verification buffer_info slot) (gov CrossAccountMismatch)) (\<lambda>_.
      bnd (ok_or (checked_add slot (cc_rollback_delay_slots c)) (gov ArithmeticOverflow)) (\<lambda>rollback_ready.
      bnd (ok_or (checked_add (v3_expiry_slot primary) (cc_rollback_delay_slots c)) (gov ArithmeticOverflow))
        (\<lambda>primary_runway.
      bnd (reject_if (rollback_ready \<ge> v3_expiry_slot r \<or> v3_expiry_slot r \<le> primary_runway)
             (gov InvalidProposalTiming)) (\<lambda>_.
      bnd (map_err gov (validate_buffer_account L buffer_info (cc_upgradeable_loader c))) (\<lambda>header.
      let header_hash = hashv E [take LOADER_BUFFER_METADATA_LEN (data_of L buffer_info)] in
      bnd (reject_if (bh_authority header \<noteq> Some (cc_authority_pda c)) (gov CrossAccountMismatch)) (\<lambda>_.
      bnd (u64_of_length (bh_payload_length header)) (\<lambda>payload_length.
      reject_if (payload_length \<noteq> v3_artifact_length r
        \<or> header_hash \<noteq> bv_sealed_buffer_header_hash verification) (gov CrossAccountMismatch))))))))))))))"

section \<open>The freeze\<close>

definition GOVERNED_UPGRADE_FREEZE_REASON_V3 :: u16 where "GOVERNED_UPGRADE_FREEZE_REASON_V3 = 2"

definition require_freeze_execution_runway :: "bool \<Rightarrow> u64 \<Rightarrow> u64 \<Rightarrow> u64 \<Rightarrow> program_error + unit" where
  "require_freeze_execution_runway needs_extension expiry_slot review_slots slot =
     (let execution_slots = (if needs_extension then 2 else 1) in
      bnd (ok_or (do { s \<leftarrow> checked_add slot review_slots; checked_add s execution_slots })
             (gov ArithmeticOverflow)) (\<lambda>horizon.
      reject_if (horizon \<ge> expiry_slot) (gov InvalidProposalTiming)))"

record freeze_proposal_v3_ix =
  fz_expected :: proposal_guard_v3
  fz_expected_next_gate_epoch :: u64

definition frozen_gate_v3 :: "protocol_gate \<Rightarrow> u64 \<Rightarrow> pubkey \<Rightarrow> u64 \<Rightarrow> protocol_gate" where
  "frozen_gate_v3 g epoch active_proposal slot = g
     \<lparr>gt_epoch := epoch, gt_status := FrozenForUpgrade, gt_active_proposal := active_proposal,
      gt_freeze_slot := slot, gt_freeze_reason_code := GOVERNED_UPGRADE_FREEZE_REASON_V3\<rparr>"

definition frozen_v3 :: "upgrade_proposal_v3 \<Rightarrow> u64 \<Rightarrow> u64 \<Rightarrow> upgrade_proposal_v3" where
  "frozen_v3 p epoch slot =
     p\<lparr>v3_state := Frozen, v3_freeze_gate_epoch := epoch, v3_frozen_slot := slot\<rparr>"

definition process_freeze_proposal_v3 ::
    "env \<Rightarrow> pubkey \<Rightarrow> account_info list \<Rightarrow> freeze_proposal_v3_ix \<Rightarrow> ledger \<Rightarrow> program_error + ledger" where
  "process_freeze_proposal_v3 E program accounts ix L =
     bnd (exact_account_count accounts 14) (\<lambda>_.
     bnd (all_distinct accounts) (\<lambda>_.
     case accounts of
       [config_info, policy_info, council_info, gate_info, capacity_info, deployment_info, proposal_info,
        target_program, target_programdata, loader, auth, rollback_info, rollback_verification_info,
        rollback_buffer] \<Rightarrow>
     bnd (checks (writable_account config_info
            # map readonly_account [policy_info, council_info, capacity_info, deployment_info]
            @ [writable_account gate_info, writable_account proposal_info, executable_readonly target_program,
               readonly_account target_programdata, executable_readonly loader]
            @ map readonly_account [auth, rollback_info, rollback_verification_info, rollback_buffer])) (\<lambda>_.
     bnd (current_slot E) (\<lambda>slot.
     bnd (load_lifecycle_context E L program config_info gate_info capacity_info deployment_info) (\<lambda>context.
     bnd (load_governance_policy E L program policy_info config_info (lc_config context) slot) (\<lambda>policy.
     bnd (load_proposal_v3 E L program proposal_info config_info gate_info capacity_info deployment_info
            context) (\<lambda>p.
     bnd (require_proposal_deployment_current p (lc_deployment context)) (\<lambda>_.
     bnd (load_council E L program council_info config_info (lc_config context) policy
            (v3_creation_council_version p) (v3_creation_council_hash p) slot False) (\<lambda>council.
     bnd (check_proposal_guard (fz_expected ix) p context) (\<lambda>_.
     bnd (require_creation_gate p (lc_config context) (lc_gate context)) (\<lambda>_.
     bnd (verify_exact_proposal_timing p (lc_config context)) (\<lambda>_.
     bnd (ok_or (checked_add (cc_target_nonce (lc_config context)) 1) (gov ArithmeticOverflow)) (\<lambda>next_nonce.
     bnd (map_err gov (checked_nonterminal_increment (gt_epoch (lc_gate context)))) (\<lambda>next_epoch.
     bnd (reject_if (next_nonce = - 1 \<or> next_epoch = - 1 \<or> fz_expected_next_gate_epoch ix \<noteq> next_epoch
            \<or> v3_state p \<noteq> Timelocked \<or> v3_proposal_class p = proposal_class_v1.EmergencyRollback
            \<or> slot < v3_not_before_slot p \<or> slot \<ge> v3_expiry_slot p
            \<or> v3_council_approval_count p \<noteq> RELEASE1_APPROVAL_THRESHOLD) (gov InvalidStateTransition)) (\<lambda>_.
     bnd (require_exact_recorded_quorum council (v3_council_approval_bitset p) (v3_council_approval_count p)
            (v3_council_approved_slot p)) (\<lambda>_.
     bnd (reject_if (ai_key loader \<noteq> cc_upgradeable_loader (lc_config context)
            \<or> ai_key auth \<noteq> cc_authority_pda (lc_config context)) (gov CrossAccountMismatch)) (\<lambda>_.
     bnd (read_runtime_programdata_header L target_program target_programdata (lc_config context)
            (lc_capacity context)) (\<lambda>runtime.
     bnd (require_runtime_matches_trusted_deployment runtime (lc_deployment context) (lc_config context)) (\<lambda>_.
     bnd (require_freeze_execution_runway (rh_capacity runtime < v3_minimum_required_capacity p)
            (v3_expiry_slot p) (council_review_slots (lc_config context)) slot) (\<lambda>_.
     bnd (validate_prepared_rollback_v3 E L program context proposal_info p rollback_info
            rollback_verification_info rollback_buffer slot) (\<lambda>_.
     let c = (lc_config context)\<lparr>cc_target_nonce := next_nonce\<rparr>;
         g = frozen_gate_v3 (lc_gate context) next_epoch (ai_key proposal_info) slot;
         p = frozen_v3 p next_epoch slot in
     bnd (map_err gov (config_validate_static c)) (\<lambda>_.
     bnd (map_err gov (gate_validate_static g)) (\<lambda>_.
     bnd (map_err gov (validate_upgrade_proposal_digest_v3 E p)) (\<lambda>_.
     bnd (encode_fixed_account ser_controller_config_v1 c CONTROLLER_CONFIG_LEN) (\<lambda>config_bytes.
     bnd (encode_fixed_account ser_gate g GATE_LEN) (\<lambda>gate_bytes.
     bnd (encode_fixed_account ser_upgrade_proposal_v3 p UPGRADE_PROPOSAL_V3_LEN) (\<lambda>proposal_bytes.
     bnd (copy_from_slice config_info config_bytes L) (\<lambda>L.
     bnd (copy_from_slice gate_info gate_bytes L) (\<lambda>L.
     copy_from_slice proposal_info proposal_bytes L)))))))))))))))))))))))))))
     | _ \<Rightarrow> Inl Panicked))"

section \<open>Cancellation and expiry\<close>

record cancel_proposal_v3 =
  ca_expected :: proposal_guard_v3
  ca_expected_cancellation_council_version :: u64
  ca_expected_cancellation_council_hash :: hash32
  ca_expected_cancellation_approval_bitset :: byte
  ca_expected_cancellation_approval_count :: byte
  ca_cancellation_reason_code :: u16

text \<open>A tally opened by a former council is dropped.\<close>

definition stale_cancellation :: "upgrade_proposal_v3 \<Rightarrow> council_set_v1 \<Rightarrow> bool" where
  "stale_cancellation p council \<longleftrightarrow>
     v3_cancellation_approval_count p \<noteq> 0
     \<and> (v3_cancellation_council_version p \<noteq> gc_version council
        \<or> v3_cancellation_council_hash p \<noteq> gc_set_hash council)"

definition reset_cancellation :: "upgrade_proposal_v3 \<Rightarrow> upgrade_proposal_v3" where
  "reset_cancellation p = p
     \<lparr>v3_cancellation_council_version := 0, v3_cancellation_council_hash := 0,
      v3_cancellation_approval_bitset := 0, v3_cancellation_approval_count := 0,
      v3_cancellation_reason_code := 0\<rparr>"

definition open_cancellation :: "upgrade_proposal_v3 \<Rightarrow> council_set_v1 \<Rightarrow> u16 \<Rightarrow> upgrade_proposal_v3" where
  "open_cancellation p council reason =
     (if v3_cancellation_approval_count p = 0
      then p\<lparr>v3_cancellation_council_version := gc_version council,
             v3_cancellation_council_hash := gc_set_hash council, v3_cancellation_reason_code := reason\<rparr>
      else p)"

definition cancelled_v3 :: "upgrade_proposal_v3 \<Rightarrow> byte \<Rightarrow> byte \<Rightarrow> u64 \<Rightarrow> upgrade_proposal_v3" where
  "cancelled_v3 p bitset count slot =
     (let p = p\<lparr>v3_cancellation_approval_bitset := bitset, v3_cancellation_approval_count := count\<rparr>
      in if count = RELEASE1_APPROVAL_THRESHOLD
         then p\<lparr>v3_state := Cancelled, v3_terminal_slot := slot,
                v3_terminal_reason_code := v3_cancellation_reason_code p\<rparr>
         else p)"

definition process_cancel_proposal_v3 ::
    "env \<Rightarrow> pubkey \<Rightarrow> account_info list \<Rightarrow> cancel_proposal_v3 \<Rightarrow> ledger \<Rightarrow> program_error + ledger" where
  "process_cancel_proposal_v3 E program accounts ix L =
     bnd (exact_account_count accounts 8) (\<lambda>_.
     bnd (all_distinct accounts) (\<lambda>_.
     case accounts of
       [config_info, policy_info, council_info, gate_info, capacity_info, deployment_info, proposal_info,
        seat] \<Rightarrow>
     bnd (checks (map readonly_account [config_info, policy_info, council_info, gate_info, capacity_info,
                deployment_info]
            @ [writable_account proposal_info, map_err gov (validate_seat_authority seat)])) (\<lambda>_.
     bnd (current_slot E) (\<lambda>slot.
     bnd (load_lifecycle_context E L program config_info gate_info capacity_info deployment_info) (\<lambda>context.
     bnd (load_governance_policy E L program policy_info config_info (lc_config context) slot) (\<lambda>policy.
     bnd (load_current_council E L program council_info config_info (lc_config context) policy slot)
       (\<lambda>council.
     bnd (load_proposal_v3 E L program proposal_info config_info gate_info capacity_info deployment_info
            context) (\<lambda>p.
     bnd (check_proposal_guard (ca_expected ix) p context) (\<lambda>_.
     bnd (reject_if (\<not> is_prefreeze_state (v3_state p) \<or> slot \<ge> v3_expiry_slot p
            \<or> ca_cancellation_reason_code ix = 0
            \<or> ca_expected_cancellation_approval_bitset ix \<noteq> v3_cancellation_approval_bitset p
            \<or> ca_expected_cancellation_approval_count ix \<noteq> v3_cancellation_approval_count p
            \<or> ai_key seat = cc_guardian (lc_config context)) (gov InvalidStateTransition)) (\<lambda>_.
     bnd (if v3_cancellation_approval_count p = 0
          then reject_if (ca_expected_cancellation_council_version ix \<noteq> gc_version council
                 \<or> ca_expected_cancellation_council_hash ix \<noteq> gc_set_hash council) (gov StaleCouncilVersion)
          else reject_if
                 (ca_expected_cancellation_council_version ix \<noteq> v3_cancellation_council_version p
                  \<or> ca_expected_cancellation_council_hash ix \<noteq> v3_cancellation_council_hash p)
                 (gov CrossAccountMismatch)) (\<lambda>_.
     let p = (if stale_cancellation p council then reset_cancellation p else p) in
     bnd (reject_if (v3_cancellation_reason_code p \<noteq> 0
            \<and> v3_cancellation_reason_code p \<noteq> ca_cancellation_reason_code ix)
            (gov InvalidStateTransition)) (\<lambda>_.
     let p = open_cancellation p council (ca_cancellation_reason_code ix) in
     bnd (map_err gov (record_seat_approval council (v3_cancellation_approval_bitset p)
            (v3_cancellation_approval_count p) (ai_key seat) slot)) (\<lambda>(bitset, count).
     commit_proposal_v3 E program proposal_info (cancelled_v3 p bitset count slot) L)))))))))))
     | _ \<Rightarrow> Inl Panicked))"

definition expired_v3 :: "upgrade_proposal_v3 \<Rightarrow> u64 \<Rightarrow> upgrade_proposal_v3" where
  "expired_v3 p slot =
     p\<lparr>v3_state := Expired, v3_terminal_slot := slot, v3_terminal_reason_code := PROPOSAL_EXPIRED_TERMINAL_REASON\<rparr>"

definition process_expire_proposal_v3 ::
    "env \<Rightarrow> pubkey \<Rightarrow> account_info list \<Rightarrow> proposal_guard_v3 \<Rightarrow> ledger \<Rightarrow> program_error + ledger" where
  "process_expire_proposal_v3 E program accounts expected L =
     bnd (exact_account_count accounts 5) (\<lambda>_.
     bnd (all_distinct accounts) (\<lambda>_.
     case accounts of
       [config_info, gate_info, capacity_info, deployment_info, proposal_info] \<Rightarrow>
     bnd (checks (map readonly_account [config_info, gate_info, capacity_info, deployment_info]
            @ [writable_account proposal_info])) (\<lambda>_.
     bnd (load_lifecycle_context E L program config_info gate_info capacity_info deployment_info) (\<lambda>context.
     bnd (load_proposal_v3 E L program proposal_info config_info gate_info capacity_info deployment_info
            context) (\<lambda>p.
     bnd (check_proposal_guard expected p context) (\<lambda>_.
     bnd (current_slot E) (\<lambda>slot.
     bnd (reject_if (\<not> is_prefreeze_state (v3_state p) \<or> slot < v3_expiry_slot p)
            (gov InvalidStateTransition)) (\<lambda>_.
     commit_proposal_v3 E program proposal_info (expired_v3 p slot) L))))))
     | _ \<Rightarrow> Inl Panicked))"

end
