(* ===== verification/V3_Facts.thy ===== *)
theory V3_Facts
  imports V3_Handlers
begin

text \<open>
  The life of a Release 1 proposal: what each handler changes, that its terms never change, which
  edges its state takes, and what lies behind a freeze.
\<close>

section \<open>The proposal an account holds\<close>

definition plain_info :: "pubkey \<Rightarrow> account_info" where
  "plain_info k = \<lparr>ai_key = k, is_signer = False, is_writable = False, executable = False\<rparr>"

text \<open>The proposal at an address: it decodes, its schema is valid and its digest is that of its terms.\<close>

definition proposal_at :: "env \<Rightarrow> pubkey \<Rightarrow> ledger \<Rightarrow> pubkey \<Rightarrow> upgrade_proposal_v3 option" where
  "proposal_at E program L k =
     (case load_upgrade_proposal_v3 E L program (plain_info k) of
        Inl _ \<Rightarrow> None
      | Inr p \<Rightarrow> (case validate_upgrade_proposal_digest_v3 E p of Inl _ \<Rightarrow> None | Inr _ \<Rightarrow> Some p))"

lemma de_exact:
  "de_upgrade_proposal_v3 data = Some (p, []) \<longleftrightarrow> wf_upgrade_proposal_v3 p \<and> data = ser_upgrade_proposal_v3 p"
  using upgrade_proposal_v3_codec.de_ser [of p "[]"] upgrade_proposal_v3_codec.ser_de [of data p "[]"]
    upgrade_proposal_v3_codec.de_wf [of data p "[]"]
  by auto

lemma de_ser_v3: "wf_upgrade_proposal_v3 p \<Longrightarrow> de_upgrade_proposal_v3 (ser_upgrade_proposal_v3 p) = Some (p, [])"
  using de_exact by blast

lemma load_v3_ok:
  "load_upgrade_proposal_v3 E L program i = Inr p \<longleftrightarrow>
     owner_of L i = program \<and> wf_upgrade_proposal_v3 p \<and> data_of L i = ser_upgrade_proposal_v3 p
     \<and> proposal_v3_validate_schema E p = Inr ()" (is "?run \<longleftrightarrow> ?ok")
proof
  assume ?run
  then have "owner_of L i = program" "de_upgrade_proposal_v3 (data_of L i) = Some (p, [])"
    "proposal_v3_validate_schema E p = Inr ()"
    by (auto simp: load_upgrade_proposal_v3_def from_bytes_boxed_strict_def map_err_Inr_iff bnd_Inr_iff
        split: option.splits if_splits)
  then show ?ok by (simp add: de_exact)
next
  assume ?ok
  then show ?run
    by (simp add: load_upgrade_proposal_v3_def from_bytes_boxed_strict_def de_ser_v3
        upgrade_proposal_v3_codec.ser_size)
qed

lemma validate_digest_ok:
  "validate_upgrade_proposal_digest_v3 E p = Inr u \<longleftrightarrow>
     proposal_v3_validate_schema E p = Inr () \<and> compute_upgrade_proposal_digest_v3 E p = Inr (v3_proposal_digest p)"
  by (auto simp: validate_upgrade_proposal_digest_v3_def bnd_Inr_iff require_digest_ok)

lemma proposal_at_Some:
  "proposal_at E program L k = Some p \<longleftrightarrow>
     owner (L k) = program \<and> wf_upgrade_proposal_v3 p \<and> acc_data (L k) = ser_upgrade_proposal_v3 p
     \<and> validate_upgrade_proposal_digest_v3 E p = Inr ()" (is "?held \<longleftrightarrow> ?ok")
proof
  assume ?held
  then have "load_upgrade_proposal_v3 E L program (plain_info k) = Inr p"
    "validate_upgrade_proposal_digest_v3 E p = Inr ()"
    by (auto simp: proposal_at_def split: sum.splits)
  then show ?ok by (simp add: load_v3_ok plain_info_def)
next
  assume ?ok
  then have "load_upgrade_proposal_v3 E L program (plain_info k) = Inr p"
    by (simp add: load_v3_ok plain_info_def validate_digest_ok)
  with \<open>?ok\<close> show ?held by (simp add: proposal_at_def)
qed

lemma proposal_at_local: "L k = M k \<Longrightarrow> proposal_at E program L k = proposal_at E program M k"
  by (simp add: proposal_at_def load_upgrade_proposal_v3_def plain_info_def)

lemma proposal_at_size: "proposal_at E program L k = Some p \<Longrightarrow> length (acc_data (L k)) = 2048"
  by (simp add: proposal_at_Some upgrade_proposal_v3_codec.ser_size UPGRADE_PROPOSAL_V3_LEN_def)

lemma same_chain_v3:
  assumes "same_chain E E'"
  shows "validate_upgrade_proposal_digest_v3 E' p = validate_upgrade_proposal_digest_v3 E p"
    "proposal_at E' program L k = proposal_at E program L k"
proof -
  have same: "sha256 E' = sha256 E" "loader_id E' = loader_id E"
    using assms by (simp_all add: same_chain_def)
  have schema: "proposal_v3_validate_schema E' q = proposal_v3_validate_schema E q" for q
    by (simp add: proposal_v3_validate_schema_def v3_commitment_bad_def same)
  have digest: "compute_upgrade_proposal_digest_v3 E' q = compute_upgrade_proposal_digest_v3 E q" for q
    by (simp add: compute_upgrade_proposal_digest_v3_def hash_fixed_image_def hashv_def Let_def same)
  show valid: "validate_upgrade_proposal_digest_v3 E' q = validate_upgrade_proposal_digest_v3 E q" for q
    by (simp add: validate_upgrade_proposal_digest_v3_def schema digest)
  have schema': "proposal_v3_validate_schema E' = proposal_v3_validate_schema E" by (rule ext) (rule schema)
  have valid': "validate_upgrade_proposal_digest_v3 E' = validate_upgrade_proposal_digest_v3 E"
    by (rule ext) (rule valid)
  show "proposal_at E' program L k = proposal_at E program L k"
    unfolding proposal_at_def load_upgrade_proposal_v3_def from_bytes_boxed_strict_def schema' valid'
    by (rule refl)
qed

section \<open>Storing a proposal\<close>

text \<open>A handler that ends by committing the proposal writes that account alone.\<close>

lemma commit_v3_ok:
  assumes "commit_proposal_v3 E program i p' L = Inr M"
  shows "M = set_data i (ser_upgrade_proposal_v3 p') L" "owner_of L i = program"
    "validate_upgrade_proposal_digest_v3 E p' = Inr ()"
  using assms by (auto simp: commit_proposal_v3_def result_simps store_ok_iff)

lemma commit_v3_held:
  assumes "commit_proposal_v3 E program i p' L = Inr M" and "wf_upgrade_proposal_v3 p'"
  shows "proposal_at E program M (ai_key i) = Some p'" "k \<noteq> ai_key i \<Longrightarrow> M k = L k"
  using commit_v3_ok [OF assms(1)] assms(2) by (simp_all add: proposal_at_Some ledger_simps)

text \<open>Loading it is finding it at its address.\<close>

lemma load_proposal_v3_held:
  assumes "load_proposal_v3 E L program i config_info gate_info capacity_info deployment_info context = Inr p"
  shows "proposal_at E program L (ai_key i) = Some p"
  using assms by (auto simp: load_proposal_v3_def result_simps load_v3_ok proposal_at_Some Let_def split: if_splits)

section \<open>The terms never change\<close>

lemma terms_v3_approved: "terms_v3 (approved_v3 p b n slot) = terms_v3 p"
  by (simp add: terms_v3_def clear_upgrade_proposal_lifecycle_v3_def approved_v3_def Let_def)

lemma terms_v3_frozen: "terms_v3 (frozen_v3 p epoch slot) = terms_v3 p"
  by (simp add: terms_v3_def clear_upgrade_proposal_lifecycle_v3_def frozen_v3_def)

lemma terms_v3_expired: "terms_v3 (expired_v3 p slot) = terms_v3 p"
  by (simp add: terms_v3_def clear_upgrade_proposal_lifecycle_v3_def expired_v3_def)

lemma terms_v3_cancelled: "terms_v3 (cancelled_v3 p b n slot) = terms_v3 p"
  by (simp add: terms_v3_def clear_upgrade_proposal_lifecycle_v3_def cancelled_v3_def Let_def)

lemma terms_v3_cancellation:
  "terms_v3 (reset_cancellation p) = terms_v3 p" "terms_v3 (open_cancellation p council reason) = terms_v3 p"
  by (simp_all add: terms_v3_def clear_upgrade_proposal_lifecycle_v3_def reset_cancellation_def
      open_cancellation_def)

lemma terms_v3_slots:
  "terms_v3 (p\<lparr>v3_state := GovernanceSatisfied, v3_governance_satisfied_slot := slot\<rparr>) = terms_v3 p"
  "terms_v3 (p\<lparr>v3_state := Timelocked, v3_queued_slot := slot\<rparr>) = terms_v3 p"
  by (simp_all add: terms_v3_def clear_upgrade_proposal_lifecycle_v3_def)

section \<open>What a successful handler did\<close>

lemma accounts_split:
  "length xs = 5 \<Longrightarrow> \<exists>a b c d e. xs = [a, b, c, d, e]"
  "length xs = 6 \<Longrightarrow> \<exists>a b c d e f. xs = [a, b, c, d, e, f]"
  "length xs = 7 \<Longrightarrow> \<exists>a b c d e f g. xs = [a, b, c, d, e, f, g]"
  "length xs = 8 \<Longrightarrow> \<exists>a b c d e f g h. xs = [a, b, c, d, e, f, g, h]"
  "length xs = 9 \<Longrightarrow> \<exists>a b c d e f g h i. xs = [a, b, c, d, e, f, g, h, i]"
  "length xs = 14 \<Longrightarrow> \<exists>a b c d e f g h i j k l m n. xs = [a, b, c, d, e, f, g, h, i, j, k, l, m, n]"
  by (auto simp: numeral_eq_Suc length_Suc_conv)

lemma exact_account_count_ok [result_simps]: "exact_account_count accounts n = Inr u \<longleftrightarrow> length accounts = n"
  by (auto simp: exact_account_count_def result_simps)

lemma validate_seat_authority_ok [result_simps]:
  "validate_seat_authority i = Inr u \<longleftrightarrow> is_signer i \<and> \<not> is_writable i \<and> \<not> executable i"
  by (simp add: validate_seat_authority_def)

lemma approve_v3_ok:
  assumes "process_approve_proposal_v3 E program accounts ix L = Inr M"
  obtains config_info policy_info council_info gate_info capacity_info deployment_info proposal_info
    verification_info seat slot ctx policy p council b bitset count
  where "accounts = [config_info, policy_info, council_info, gate_info, capacity_info, deployment_info,
      proposal_info, verification_info, seat]"
    "is_signer seat" "current_slot E = Inr slot"
    "load_lifecycle_context E L program config_info gate_info capacity_info deployment_info = Inr ctx"
    "proposal_at E program L (ai_key proposal_info) = Some p"
    "load_council E L program council_info config_info (lc_config ctx) policy
       (v3_creation_council_version p) (v3_creation_council_hash p) slot True = Inr council"
    "require_creation_gate p (lc_config ctx) (lc_gate ctx) = Inr ()"
    "v3_review_start_slot p \<le> slot" "slot \<le> v3_review_end_slot p" "slot < v3_expiry_slot p"
    "v3_state p = BufferVerified" "v3_council_approval_count p < RELEASE1_APPROVAL_THRESHOLD"
    "ai_key seat \<noteq> cc_guardian (lc_config ctx)"
    "load_verified_buffer_for_proposal E L program verification_info proposal_info p slot = Inr b"
    "record_seat_approval council (v3_council_approval_bitset p) (v3_council_approval_count p)
       (ai_key seat) slot = Inr (bitset, count)"
    "commit_proposal_v3 E program proposal_info (approved_v3 p bitset count slot) L = Inr M"
proof -
  from assms have "length accounts = 9"
    unfolding process_approve_proposal_v3_def by (elim bnd_okE) (simp add: result_simps)
  then obtain config_info policy_info council_info gate_info capacity_info deployment_info proposal_info
      verification_info seat
    where acc: "accounts = [config_info, policy_info, council_info, gate_info, capacity_info,
      deployment_info, proposal_info, verification_info, seat]"
    using accounts_split(5) by blast
  from assms [unfolded process_approve_proposal_v3_def acc list.case]
  show thesis
    apply (elim bnd_okE)
    subgoal for u1 u2 u3 slot ctx policy p council u4 u5 u6 u7 u8 b x
      using that [OF acc] apply (cases x)
      apply (simp add: result_simps require_approval_window_def not_le not_less load_proposal_v3_held)
      done
    done
qed

lemma finalize_v3_ok:
  assumes "process_finalize_governance_v3 E program accounts ix L = Inr M"
  obtains config_info policy_info council_info gate_info capacity_info deployment_info proposal_info slot
    ctx policy p council
  where "accounts = [config_info, policy_info, council_info, gate_info, capacity_info, deployment_info,
      proposal_info]" "current_slot E = Inr slot"
    "load_lifecycle_context E L program config_info gate_info capacity_info deployment_info = Inr ctx"
    "proposal_at E program L (ai_key proposal_info) = Some p"
    "load_council E L program council_info config_info (lc_config ctx) policy
       (v3_creation_council_version p) (v3_creation_council_hash p) slot False = Inr council"
    "require_creation_gate p (lc_config ctx) (lc_gate ctx) = Inr ()"
    "slot < v3_expiry_slot p" "v3_state p = CouncilApproved"
    "require_exact_recorded_quorum council (v3_council_approval_bitset p) (v3_council_approval_count p)
       (v3_council_approved_slot p) = Inr ()"
    "commit_proposal_v3 E program proposal_info
       (p\<lparr>v3_state := GovernanceSatisfied, v3_governance_satisfied_slot := slot\<rparr>) L = Inr M"
proof -
  from assms have "length accounts = 7"
    unfolding process_finalize_governance_v3_def by (elim bnd_okE) (simp add: result_simps)
  then obtain config_info policy_info council_info gate_info capacity_info deployment_info proposal_info
    where acc: "accounts = [config_info, policy_info, council_info, gate_info, capacity_info,
      deployment_info, proposal_info]"
    using accounts_split(3) by blast
  from assms [unfolded process_finalize_governance_v3_def acc list.case]
  show thesis
    by (elim bnd_okE) (rule that [OF acc], simp_all add: result_simps not_le load_proposal_v3_held)
qed

lemma queue_v3_ok:
  assumes "process_queue_proposal_v3 E program accounts expected L = Inr M"
  obtains config_info policy_info gate_info capacity_info deployment_info proposal_info slot ctx p
  where "accounts = [config_info, policy_info, gate_info, capacity_info, deployment_info, proposal_info]"
    "current_slot E = Inr slot"
    "load_lifecycle_context E L program config_info gate_info capacity_info deployment_info = Inr ctx"
    "proposal_at E program L (ai_key proposal_info) = Some p"
    "require_creation_gate p (lc_config ctx) (lc_gate ctx) = Inr ()"
    "slot < v3_expiry_slot p" "v3_state p = GovernanceSatisfied"
    "v3_council_approval_count p = RELEASE1_APPROVAL_THRESHOLD"
    "commit_proposal_v3 E program proposal_info (p\<lparr>v3_state := Timelocked, v3_queued_slot := slot\<rparr>) L = Inr M"
proof -
  from assms have "length accounts = 6"
    unfolding process_queue_proposal_v3_def by (elim bnd_okE) (simp add: result_simps)
  then obtain config_info policy_info gate_info capacity_info deployment_info proposal_info
    where acc: "accounts = [config_info, policy_info, gate_info, capacity_info, deployment_info, proposal_info]"
    using accounts_split(2) by blast
  from assms [unfolded process_queue_proposal_v3_def acc list.case]
  show thesis
    by (elim bnd_okE) (rule that [OF acc], simp_all add: result_simps not_le load_proposal_v3_held)
qed

lemma cancel_v3_ok:
  assumes "process_cancel_proposal_v3 E program accounts ix L = Inr M"
  obtains config_info policy_info council_info gate_info capacity_info deployment_info proposal_info seat
    slot ctx policy council p q bitset count
  where "accounts = [config_info, policy_info, council_info, gate_info, capacity_info, deployment_info,
      proposal_info, seat]" "is_signer seat" "current_slot E = Inr slot"
    "load_lifecycle_context E L program config_info gate_info capacity_info deployment_info = Inr ctx"
    "load_current_council E L program council_info config_info (lc_config ctx) policy slot = Inr council"
    "proposal_at E program L (ai_key proposal_info) = Some p"
    "is_prefreeze_state (v3_state p)" "slot < v3_expiry_slot p" "ca_cancellation_reason_code ix \<noteq> 0"
    "ai_key seat \<noteq> cc_guardian (lc_config ctx)"
    "q = (if stale_cancellation p council then reset_cancellation p else p)"
    "v3_cancellation_reason_code q = 0 \<or> v3_cancellation_reason_code q = ca_cancellation_reason_code ix"
    "record_seat_approval council (v3_cancellation_approval_bitset q) (v3_cancellation_approval_count q)
       (ai_key seat) slot = Inr (bitset, count)"
    "commit_proposal_v3 E program proposal_info
       (cancelled_v3 (open_cancellation q council (ca_cancellation_reason_code ix)) bitset count slot) L = Inr M"
proof -
  from assms have "length accounts = 8"
    unfolding process_cancel_proposal_v3_def by (elim bnd_okE) (simp add: result_simps)
  then obtain config_info policy_info council_info gate_info capacity_info deployment_info proposal_info seat
    where acc: "accounts = [config_info, policy_info, council_info, gate_info, capacity_info,
      deployment_info, proposal_info, seat]"
    using accounts_split(4) by blast
  have tally: "v3_cancellation_approval_bitset (open_cancellation q council reason) = v3_cancellation_approval_bitset q"
    "v3_cancellation_approval_count (open_cancellation q council reason) = v3_cancellation_approval_count q"
    for q council reason
    by (simp_all add: open_cancellation_def)
  from assms [unfolded process_cancel_proposal_v3_def acc list.case Let_def tally]
  show thesis
    apply (elim bnd_okE)
    subgoal for u1 u2 u3 slot ctx policy council p u4 u5 u6 u7 x
      using that [OF acc] apply (cases x)
      apply (simp add: result_simps not_le not_less load_proposal_v3_held)
      done
    done
qed

lemma expire_v3_ok:
  assumes "process_expire_proposal_v3 E program accounts expected L = Inr M"
  obtains config_info gate_info capacity_info deployment_info proposal_info p slot
  where "accounts = [config_info, gate_info, capacity_info, deployment_info, proposal_info]"
    "current_slot E = Inr slot" "proposal_at E program L (ai_key proposal_info) = Some p"
    "is_prefreeze_state (v3_state p)" "v3_expiry_slot p \<le> slot"
    "commit_proposal_v3 E program proposal_info (expired_v3 p slot) L = Inr M"
proof -
  from assms have "length accounts = 5"
    unfolding process_expire_proposal_v3_def by (elim bnd_okE) (simp add: result_simps)
  then obtain config_info gate_info capacity_info deployment_info proposal_info
    where acc: "accounts = [config_info, gate_info, capacity_info, deployment_info, proposal_info]"
    using accounts_split(1) by blast
  from assms [unfolded process_expire_proposal_v3_def acc list.case]
  show thesis
    by (elim bnd_okE) (rule that [OF acc], simp_all add: result_simps not_less load_proposal_v3_held)
qed


lemma encode_fixed_ok [result_simps]:
  "encode_fixed_account ser x n = Inr bytes \<longleftrightarrow> length (ser x) = n \<and> bytes = ser x"
  by (auto simp: encode_fixed_account_def Let_def)

lemma checked_nonterminal_increment_ok:
  "checked_nonterminal_increment n = Inr m \<longleftrightarrow> unat m = unat n + 1 \<and> m \<noteq> - 1"
  by (auto simp: checked_nonterminal_increment_def result_simps split: if_splits)

lemma load_lifecycle_context_ok:
  assumes "load_lifecycle_context E L program config_info gate_info capacity_info deployment_info = Inr ctx"
  shows "load_controller_config E L program config_info = Inr (lc_config ctx)"
    "load_protocol_gate E L program gate_info config_info (lc_config ctx) = Inr (lc_gate ctx)"
    "load_capacity_policy E L program capacity_info config_info (lc_config ctx) = Inr (lc_capacity ctx)"
    "load_current_deployment E L program deployment_info config_info capacity_info (lc_config ctx)
       (lc_capacity ctx) = Inr (lc_deployment ctx)"
  using assms by (auto simp: load_lifecycle_context_def result_simps)

lemma freeze_v3_ok:
  assumes "process_freeze_proposal_v3 E program accounts ix L = Inr M"
  obtains config_info policy_info council_info gate_info capacity_info deployment_info proposal_info
    target_program target_programdata loader auth rollback_info rollback_verification_info rollback_buffer
    slot ctx policy p council epoch nonce runtime
  where "accounts = [config_info, policy_info, council_info, gate_info, capacity_info, deployment_info,
      proposal_info, target_program, target_programdata, loader, auth, rollback_info,
      rollback_verification_info, rollback_buffer]"
    "distinct (map ai_key accounts)" "current_slot E = Inr slot"
    "load_lifecycle_context E L program config_info gate_info capacity_info deployment_info = Inr ctx"
    "proposal_at E program L (ai_key proposal_info) = Some p"
    "require_proposal_deployment_current p (lc_deployment ctx) = Inr ()"
    "load_council E L program council_info config_info (lc_config ctx) policy
       (v3_creation_council_version p) (v3_creation_council_hash p) slot False = Inr council"
    "require_creation_gate p (lc_config ctx) (lc_gate ctx) = Inr ()"
    "verify_exact_proposal_timing p (lc_config ctx) = Inr ()"
    "unat nonce = unat (cc_target_nonce (lc_config ctx)) + 1"
    "unat epoch = unat (gt_epoch (lc_gate ctx)) + 1"
    "v3_state p = Timelocked" "v3_proposal_class p \<noteq> proposal_class_v1.EmergencyRollback"
    "v3_not_before_slot p \<le> slot" "slot < v3_expiry_slot p"
    "require_exact_recorded_quorum council (v3_council_approval_bitset p) (v3_council_approval_count p)
       (v3_council_approved_slot p) = Inr ()"
    "read_runtime_programdata_header L target_program target_programdata (lc_config ctx) (lc_capacity ctx)
       = Inr runtime"
    "require_runtime_matches_trusted_deployment runtime (lc_deployment ctx) (lc_config ctx) = Inr ()"
    "require_freeze_execution_runway (rh_capacity runtime < v3_minimum_required_capacity p)
       (v3_expiry_slot p) (council_review_slots (lc_config ctx)) slot = Inr ()"
    "validate_prepared_rollback_v3 E L program ctx proposal_info p rollback_info
       rollback_verification_info rollback_buffer slot = Inr ()"
    "validate_upgrade_proposal_digest_v3 E (frozen_v3 p epoch slot) = Inr ()"
    "gate_validate_static (frozen_gate_v3 (lc_gate ctx) epoch (ai_key proposal_info) slot) = Inr ()"
    "config_validate_static ((lc_config ctx)\<lparr>cc_target_nonce := nonce\<rparr>) = Inr ()"
    "M = set_data proposal_info (ser_upgrade_proposal_v3 (frozen_v3 p epoch slot))
       (set_data gate_info (ser_gate (frozen_gate_v3 (lc_gate ctx) epoch (ai_key proposal_info) slot))
       (set_data config_info (ser_controller_config_v1 ((lc_config ctx)\<lparr>cc_target_nonce := nonce\<rparr>)) L))"
proof -
  from assms have n: "length accounts = 14"
    unfolding process_freeze_proposal_v3_def by (elim bnd_okE) (simp add: result_simps)
  then obtain config_info policy_info council_info gate_info capacity_info deployment_info proposal_info
      target_program target_programdata loader auth rollback_info rollback_verification_info rollback_buffer
    where acc: "accounts = [config_info, policy_info, council_info, gate_info, capacity_info,
      deployment_info, proposal_info, target_program, target_programdata, loader, auth, rollback_info,
      rollback_verification_info, rollback_buffer]"
    using accounts_split(6) [OF n] by (elim exE) (rule that)
  from assms [unfolded process_freeze_proposal_v3_def acc list.case Let_def]
  show thesis
    by (elim bnd_okE) (rule that [OF acc], simp_all add: result_simps all_distinct_def not_le not_less
      load_proposal_v3_held checked_nonterminal_increment_ok acc)
qed

section \<open>One call\<close>

datatype v3_call =
  is_Approve_Proposal: Approve_Proposal "account_info list" approve_proposal_v3
| Finalize_Governance "account_info list" finalize_governance_v3
| Queue_Proposal "account_info list" proposal_guard_v3
| Freeze_Proposal "account_info list" freeze_proposal_v3_ix
| Cancel_Proposal "account_info list" cancel_proposal_v3
| Expire_Proposal "account_info list" proposal_guard_v3

fun run_v3 :: "env \<Rightarrow> pubkey \<Rightarrow> v3_call \<Rightarrow> ledger \<Rightarrow> program_error + ledger" where
  "run_v3 E program (Approve_Proposal accounts ix) L = process_approve_proposal_v3 E program accounts ix L"
| "run_v3 E program (Finalize_Governance accounts ix) L = process_finalize_governance_v3 E program accounts ix L"
| "run_v3 E program (Queue_Proposal accounts ix) L = process_queue_proposal_v3 E program accounts ix L"
| "run_v3 E program (Freeze_Proposal accounts ix) L = process_freeze_proposal_v3 E program accounts ix L"
| "run_v3 E program (Cancel_Proposal accounts ix) L = process_cancel_proposal_v3 E program accounts ix L"
| "run_v3 E program (Expire_Proposal accounts ix) L = process_expire_proposal_v3 E program accounts ix L"

text \<open>The account a call is about.\<close>

fun subject_of :: "v3_call \<Rightarrow> pubkey" where
  "subject_of (Approve_Proposal accounts ix) = ai_key (accounts ! 6)"
| "subject_of (Finalize_Governance accounts ix) = ai_key (accounts ! 6)"
| "subject_of (Queue_Proposal accounts ix) = ai_key (accounts ! 5)"
| "subject_of (Freeze_Proposal accounts ix) = ai_key (accounts ! 6)"
| "subject_of (Cancel_Proposal accounts ix) = ai_key (accounts ! 6)"
| "subject_of (Expire_Proposal accounts ix) = ai_key (accounts ! 4)"

text \<open>The new proposal is stored with the width of its arrays intact.\<close>

lemma wf_v3_updates:
  assumes "wf_upgrade_proposal_v3 p"
  shows "wf_upgrade_proposal_v3 (approved_v3 p b n slot)" "wf_upgrade_proposal_v3 (frozen_v3 p epoch slot)"
    "wf_upgrade_proposal_v3 (expired_v3 p slot)" "wf_upgrade_proposal_v3 (cancelled_v3 p b n slot)"
    "wf_upgrade_proposal_v3 (reset_cancellation p)" "wf_upgrade_proposal_v3 (open_cancellation p council reason)"
    "wf_upgrade_proposal_v3 (p\<lparr>v3_state := GovernanceSatisfied, v3_governance_satisfied_slot := slot\<rparr>)"
    "wf_upgrade_proposal_v3 (p\<lparr>v3_state := Timelocked, v3_queued_slot := slot\<rparr>)"
  using assms by (simp_all add: wf_upgrade_proposal_v3_def approved_v3_def frozen_v3_def expired_v3_def
      cancelled_v3_def reset_cancellation_def open_cancellation_def Let_def)

text \<open>Every edge a successful call may take, with what it leaves in the proposal.\<close>

inductive v3_change :: "u64 \<Rightarrow> upgrade_proposal_v3 \<Rightarrow> upgrade_proposal_v3 \<Rightarrow> bool" where
  approved: "v3_change slot p (approved_v3 p bitset count slot)" if "v3_state p = BufferVerified"
| satisfied: "v3_change slot p (p\<lparr>v3_state := GovernanceSatisfied, v3_governance_satisfied_slot := slot\<rparr>)"
    if "v3_state p = CouncilApproved"
| queued: "v3_change slot p (p\<lparr>v3_state := Timelocked, v3_queued_slot := slot\<rparr>)"
    if "v3_state p = GovernanceSatisfied"
| frozen: "v3_change slot p (frozen_v3 p epoch slot)" if "v3_state p = Timelocked"
| cancelled: "v3_change slot p (cancelled_v3 (open_cancellation q council reason) bitset count slot)"
    if "is_prefreeze_state (v3_state p)" "q = p \<or> q = reset_cancellation p"
| expired: "v3_change slot p (expired_v3 p slot)" if "is_prefreeze_state (v3_state p)" "v3_expiry_slot p \<le> slot"

lemma v3_change_terms: "v3_change slot p q \<Longrightarrow> terms_v3 q = terms_v3 p"
  by (induction rule: v3_change.induct)
    (auto simp: terms_v3_approved terms_v3_frozen terms_v3_expired terms_v3_cancelled terms_v3_cancellation
      terms_v3_slots)

lemma v3_change_wf: "v3_change slot p q \<Longrightarrow> wf_upgrade_proposal_v3 p \<Longrightarrow> wf_upgrade_proposal_v3 q"
  by (induction rule: v3_change.induct) (auto simp: wf_v3_updates)

lemma controller_config_size:
  "load_controller_config E L program i = Inr c \<Longrightarrow> length (data_of L i) = 512"
  by (auto simp: load_controller_config_def result_simps load_ok_iff CONTROLLER_CONFIG_LEN_def)

lemma protocol_gate_size:
  "load_protocol_gate E L program i config_info c = Inr g \<Longrightarrow> length (data_of L i) = 192"
  by (auto simp: load_protocol_gate_def result_simps load_ok_iff GATE_LEN_def)

text \<open>What a successful call does: its subject holds a proposal before and after, related by one edge,
  and an account that holds another proposal is not touched.\<close>

lemma commit_v3_effect:
  assumes "commit_proposal_v3 E program i q L = Inr M" and "proposal_at E program L (ai_key i) = Some p"
    and "v3_change slot p q"
  shows "proposal_at E program M (ai_key i) = Some q" "j \<noteq> ai_key i \<Longrightarrow> M j = L j"
  using commit_v3_held [OF assms(1)] v3_change_wf [OF assms(3)] assms(2) by (simp_all add: proposal_at_Some)

text \<open>Only an approval changes the tally of approvals.\<close>

lemma approved_v3_bitset: "v3_council_approval_bitset (approved_v3 p bitset count slot) = bitset"
  by (simp add: approved_v3_def Let_def)

lemma other_tallies:
  "v3_council_approval_bitset (frozen_v3 p epoch slot) = v3_council_approval_bitset p"
  "v3_council_approval_bitset (expired_v3 p slot) = v3_council_approval_bitset p"
  "v3_council_approval_bitset (cancelled_v3 p bitset count slot) = v3_council_approval_bitset p"
  "v3_council_approval_bitset (open_cancellation p council reason) = v3_council_approval_bitset p"
  "v3_council_approval_bitset (reset_cancellation p) = v3_council_approval_bitset p"
  by (simp_all add: frozen_v3_def expired_v3_def cancelled_v3_def open_cancellation_def
      reset_cancellation_def Let_def)

lemma run_v3_effect:
  assumes "run_v3 E program call L = Inr M"
  obtains slot p q where "current_slot E = Inr slot" "proposal_at E program L (subject_of call) = Some p"
    "proposal_at E program M (subject_of call) = Some q" "v3_change slot p q"
    "\<not> is_Approve_Proposal call \<Longrightarrow> v3_council_approval_bitset q = v3_council_approval_bitset p"
    "\<And>j r. j \<noteq> subject_of call \<Longrightarrow> proposal_at E program L j = Some r \<Longrightarrow> M j = L j"
proof (cases call)
  case (Approve_Proposal accounts ix)
  with assms have "process_approve_proposal_v3 E program accounts ix L = Inr M" by simp
  then show thesis
  proof (rule approve_v3_ok, goal_cases)
    case (1 _ _ _ _ _ _ i _ _ slot _ _ p _ _ bitset count)
    note change = v3_change.approved [OF \<open>v3_state p = BufferVerified\<close>, of slot bitset count]
    show ?case
      by (rule that [OF _ _ _ change _]) (use 1 commit_v3_effect [OF _ _ change] Approve_Proposal in \<open>simp_all add: other_tallies\<close>)
  qed
next
  case (Finalize_Governance accounts ix)
  with assms have "process_finalize_governance_v3 E program accounts ix L = Inr M" by simp
  then show thesis
  proof (rule finalize_v3_ok, goal_cases)
    case (1 _ _ _ _ _ _ i slot _ _ p)
    note change = v3_change.satisfied [OF \<open>v3_state p = CouncilApproved\<close>, of slot]
    show ?case
      by (rule that [OF _ _ _ change _]) (use 1 commit_v3_effect [OF _ _ change] Finalize_Governance in \<open>simp_all add: other_tallies\<close>)
  qed
next
  case (Queue_Proposal accounts ix)
  with assms have "process_queue_proposal_v3 E program accounts ix L = Inr M" by simp
  then show thesis
  proof (rule queue_v3_ok, goal_cases)
    case (1 _ _ _ _ _ i slot _ p)
    note change = v3_change.queued [OF \<open>v3_state p = GovernanceSatisfied\<close>, of slot]
    show ?case
      by (rule that [OF _ _ _ change _]) (use 1 commit_v3_effect [OF _ _ change] Queue_Proposal in \<open>simp_all add: other_tallies\<close>)
  qed
next
  case (Cancel_Proposal accounts ix)
  with assms have "process_cancel_proposal_v3 E program accounts ix L = Inr M" by simp
  then show thesis
  proof (rule cancel_v3_ok, goal_cases)
    case (1 _ _ _ _ _ _ i _ slot _ _ council p q bitset count)
    have "q = p \<or> q = reset_cancellation p" using 1 by simp
    note change = v3_change.cancelled [OF \<open>is_prefreeze_state (v3_state p)\<close> this,
        of slot council "ca_cancellation_reason_code ix" bitset count]
    show ?case
      by (rule that [OF _ _ _ change _]) (use 1 commit_v3_effect [OF _ _ change] Cancel_Proposal in \<open>simp_all add: other_tallies\<close>)
  qed
next
  case (Expire_Proposal accounts ix)
  with assms have "process_expire_proposal_v3 E program accounts ix L = Inr M" by simp
  then show thesis
  proof (rule expire_v3_ok, goal_cases)
    case (1 _ _ _ _ i p slot)
    note change = v3_change.expired [OF \<open>is_prefreeze_state (v3_state p)\<close> \<open>v3_expiry_slot p \<le> slot\<close>]
    show ?case
      by (rule that [OF _ _ _ change _]) (use 1 commit_v3_effect [OF _ _ change] Expire_Proposal in \<open>simp_all add: other_tallies\<close>)
  qed
next
  case (Freeze_Proposal accounts ix)
  with assms have "process_freeze_proposal_v3 E program accounts ix L = Inr M" by simp
  then show thesis
  proof (rule freeze_v3_ok, goal_cases)
    case (1 config_info _ _ gate_info _ _ i _ _ _ _ _ _ _ slot ctx _ p _ epoch nonce)
    note ctx = load_lifecycle_context_ok [OF 1(4)]
    note change = v3_change.frozen [OF \<open>v3_state p = Timelocked\<close>, of slot epoch]
    have keys: "ai_key config_info \<noteq> ai_key i" "ai_key gate_info \<noteq> ai_key i" using 1(1,2) by auto
    have sizes: "length (data_of L config_info) = 512" "length (data_of L gate_info) = 192"
      using controller_config_size [OF ctx(1)] protocol_gate_size [OF ctx(2)] .
    have held: "owner_of L i = program" "wf_upgrade_proposal_v3 (frozen_v3 p epoch slot)"
      using \<open>proposal_at E program L (ai_key i) = Some p\<close> by (simp_all add: proposal_at_Some wf_v3_updates)
    show ?case
    proof (rule that [OF 1(3) _ _ change _])
      show "proposal_at E program L (subject_of call) = Some p" using 1 Freeze_Proposal by simp
      show "proposal_at E program M (subject_of call) = Some (frozen_v3 p epoch slot)"
        using 1 Freeze_Proposal keys held by (simp add: proposal_at_Some ledger_simps)
      show "v3_council_approval_bitset (frozen_v3 p epoch slot) = v3_council_approval_bitset p"
        by (rule other_tallies)
      show "M j = L j" if "j \<noteq> subject_of call" "proposal_at E program L j = Some r" for j r
        using that 1(1,24) Freeze_Proposal sizes proposal_at_size [OF that(2)]
        by (auto simp: ledger_simps)
    qed
  qed
qed

end
