(* ===== verification/Governance_Facts.thy ===== *)
theory Governance_Facts
  imports Council_Governance
begin

text \<open>
  Facts about the Version 1 governance values: the digest binds every term of a proposal, a quorum is
  a set of distinct active seats, approvals are counted once, and a validated lifecycle is finite and
  leaves no stage out.
\<close>

section \<open>Digest material\<close>

lemma concat_same_lengths:
  "map length xs = map length ys \<Longrightarrow> concat xs = concat ys \<longleftrightarrow> xs = ys"
proof (induction xs arbitrary: ys)
  case (Cons x xs)
  then show ?case by (cases ys) auto
qed auto

lemma optional_eq: "op_present x = op_present y \<Longrightarrow> op_value x = op_value y \<Longrightarrow> x = (y :: optional_pubkey_v1)"
  by simp

lemma digest_material:
  "put_all 0 (proposal_digest_fields p) (replicate PROPOSAL_DIGEST_MATERIAL_LEN 0) = concat (proposal_digest_fields p)"
  by (rule put_all_zeroed)
    (simp add: proposal_digest_fields_def put_optional_pubkey_def PROPOSAL_DIGEST_MATERIAL_LEN_def)

lemma digest_field_lengths: "map length (proposal_digest_fields p) = map length (proposal_digest_fields q)"
  by (simp add: proposal_digest_fields_def put_optional_pubkey_def)

definition digest_preimage :: "upgrade_proposal_v1 \<Rightarrow> byte list" where
  "digest_preimage p = PROPOSAL_DIGEST_DOMAIN_V1 @ concat (proposal_digest_fields p)"

lemma compute_proposal_digest_ok:
  "compute_proposal_digest E p = Inr d \<longleftrightarrow>
     op_present (up_rollback_proposal p) = (op_value (up_rollback_proposal p) \<noteq> 0)
     \<and> op_present (up_rollback_buffer p) = (op_value (up_rollback_buffer p) \<noteq> 0)
     \<and> d = sha256 E (digest_preimage p)"
  by (auto simp: compute_proposal_digest_def canonical_proposal_digest_material_def result_simps
      digest_material hashv_def digest_preimage_def)

lemma length_digest_preimage: "length (digest_preimage p) = 1110"
  by (simp add: digest_preimage_def proposal_digest_fields_def put_optional_pubkey_def
      PROPOSAL_DIGEST_DOMAIN_V1_def)

lemma digest_preimage_inject:
  "digest_preimage p = digest_preimage q \<longleftrightarrow> proposal_digest_fields p = proposal_digest_fields q"
  by (simp add: digest_preimage_def concat_same_lengths [OF digest_field_lengths])

lemma digest_fields_inject:
  assumes "proposal_digest_fields p = proposal_digest_fields q"
  shows "p = q\<lparr>up_discriminator := up_discriminator p, up_account_version := up_account_version p,
      up_bump := up_bump p, up_initialized := up_initialized p, up_state := up_state p,
      up_council_approval_bitset := up_council_approval_bitset p,
      up_council_approval_count := up_council_approval_count p,
      up_poststate_approval_bitset := up_poststate_approval_bitset p,
      up_poststate_approval_count := up_poststate_approval_count p,
      up_unfreeze_approval_bitset := up_unfreeze_approval_bitset p,
      up_unfreeze_approval_count := up_unfreeze_approval_count p,
      up_proposal_digest := up_proposal_digest p,
      up_cancellation_reason_code := up_cancellation_reason_code p,
      up_terminal_reason_code := up_terminal_reason_code p, up_reserved := up_reserved p\<rparr>"
  using assms
  by (cases p; cases q)
    (simp add: proposal_digest_fields_def put_optional_pubkey_def le_bytes_inject wr_bool_inject
      proposal_class_codec.to_byte_inject vote_requirement_codec.to_byte_inject optional_eq)

section \<open>Approvals\<close>

lemma len8: "LENGTH(8) = 8"
  by simp

lemma mask_ok: "(b :: byte) AND NOT VALID_APPROVAL_MASK = 0 \<longleftrightarrow> b < 32"
proof -
  have "b AND NOT VALID_APPROVAL_MASK = 0 \<longleftrightarrow> (\<forall>i. bit b i \<longrightarrow> i < 5)"
  proof -
    have "VALID_APPROVAL_MASK = mask 5" by (simp add: VALID_APPROVAL_MASK_def mask_eq_exp_minus_1)
    then show ?thesis
      by (auto simp: bit_eq_iff bit_simps not_less) (metis bit_imp_le_length len8 not_less)
  qed
  then show ?thesis by (simp add: byte_less_32)
qed

lemma approval_encoding_ok [result_simps]:
  "validate_approval_encoding b n = Inr u \<longleftrightarrow> b < 32 \<and> of_nat (pop_count b) = n"
  by (simp add: validate_approval_encoding_def mask_ok)

lemma approval_pair_ok [result_simps]:
  "validate_approval_pair b n = Inr u \<longleftrightarrow> b < 32 \<and> of_nat (pop_count b) = n"
  by (simp add: validate_approval_pair_def mask_ok)

lemma record_seat_approval_ok:
  "record_seat_approval c b n a slot = Inr (b', n') \<longleftrightarrow>
     b < 32 \<and> of_nat (pop_count b) = n \<and> active_at c slot
     \<and> (\<exists>i. position (\<lambda>s. se_seat_authority s = a) (gc_seats c) = Some i
          \<and> seat_in_term (gc_seats c ! i) slot \<and> \<not> bit b i
          \<and> b' = b OR shl1 i \<and> n' = of_nat (pop_count (b OR shl1 i)))"
  by (auto simp: record_seat_approval_def result_simps Let_def and_shl1_iff)

text \<open>Counting: every marked seat must be in its term, and each adds one.\<close>

lemma marked_split:
  "{i. i < Suc n \<and> P i} = (if P 0 then {0} else {}) \<union> Suc ` {i. i < n \<and> P (Suc i)}"
  by (auto simp: image_iff less_Suc_eq_0_disj)

lemma count_approvals_ok:
  "unat t + length seats < 256 \<Longrightarrow>
     count_approvals b slot t (enumerate k seats) = Inr r \<longleftrightarrow>
       (\<forall>i < length seats. bit b (k + i) \<longrightarrow> seat_in_term (seats ! i) slot)
       \<and> unat r = unat t + card {i. i < length seats \<and> bit b (k + i)}"
proof (induction seats arbitrary: k t)
  case Nil
  then show ?case by (auto simp: word_unat_eq_iff)
next
  case (Cons s seats)
  have card: "card {i. i < Suc (length seats) \<and> bit b (k + i)}
      = (if bit b k then 1 else 0) + card {i. i < length seats \<and> bit b (Suc k + i)}"
    using marked_split [of "length seats" "\<lambda>i. bit b (k + i)"]
    by (simp add: card_image card_Un_disjoint)
  have all: "(\<forall>i < Suc (length seats). bit b (k + i) \<longrightarrow> seat_in_term ((s # seats) ! i) slot) \<longleftrightarrow>
      (bit b k \<longrightarrow> seat_in_term s slot) \<and> (\<forall>i < length seats. bit b (Suc k + i) \<longrightarrow> seat_in_term (seats ! i) slot)"
    by (auto simp: less_Suc_eq_0_disj)
  show ?case
  proof (cases "bit b k \<and> seat_in_term s slot")
    case True
    have small: "unat t + 1 < 256" using Cons.prems by simp
    then have t: "unat (t + 1) = unat t + 1" by (simp add: unat_word_ariths)
    have step: "checked_add t 1 = Some (t + 1)" using small by (simp add: checked_add_def)
    have "unat (t + 1) + length seats < 256" using Cons.prems t by simp
    from Cons.IH [OF this, of "Suc k"] True t step card all show ?thesis
      by (simp add: and_shl1_iff) 
  next
    case False
    then show ?thesis using Cons.IH [of t "Suc k"] Cons.prems card all by (auto simp: and_shl1_iff)
  qed
qed

lemma distinct_seats:
  "validate_seat_set slot seen seats = Inr u \<Longrightarrow>
     distinct (map se_seat_authority seats) \<and> se_seat_authority ` set seats \<inter> seen = {}
     \<and> 0 \<notin> se_seat_authority ` set seats"
proof (induction slot seen seats rule: validate_seat_set.induct)
  case (2 slot seen s seats)
  then show ?case by (auto simp: result_simps validate_seat_def split: if_splits)
qed simp

lemma council_seats_distinct:
  "validate_council_set E c policy = Inr u \<Longrightarrow> distinct (map se_seat_authority (gc_seats c))"
  using distinct_seats by (fastforce simp: validate_council_set_def result_simps split: if_splits)

lemma seats_inj:
  assumes "validate_council_set E c policy = Inr u" "length (gc_seats c) = 5"
  shows "inj_on (\<lambda>i. se_seat_authority (gc_seats c ! i)) {..<5}"
  using council_seats_distinct [OF assms(1)] assms(2) by (auto simp: inj_on_def distinct_conv_nth)

lemma policy_thresholds:
  "validate_policy E policy = Inr u \<Longrightarrow> gp_routine_threshold policy = 3 \<and> gp_terminal_threshold policy = 4"
  by (auto simp: validate_policy_def result_simps split: if_splits)

lemma against_policy_policy:
  "validate_proposal_against_policy E p policy = Inr u \<Longrightarrow> validate_policy E policy = Inr ()"
  by (auto simp: validate_proposal_against_policy_def result_simps)

lemma evaluate_proposal_quorum_ok:
  assumes "length (gc_seats c) = 5"
  shows "evaluate_proposal_quorum E c policy v p slot = Inr q \<longleftrightarrow>
    validate_proposal_against_policy E p policy = Inr () \<and> validate_council_set E c policy = Inr ()
    \<and> gc_version c = v \<and> gc_version c = up_council_version p \<and> gc_set_hash c = up_council_hash p
    \<and> active_at c slot \<and> up_council_approval_bitset p < 32
    \<and> of_nat (pop_count (up_council_approval_bitset p)) = up_council_approval_count p
    \<and> (\<forall>i \<in> voters (up_council_approval_bitset p). seat_in_term (gc_seats c ! i) slot)
    \<and> unat (qe_total_approvals q) = card (voters (up_council_approval_bitset p))
    \<and> qe_required_approvals q = (if up_proposal_class p = TargetImmutability then 4 else 3)
    \<and> qe_required_approvals q \<le> qe_total_approvals q"
proof -
  let ?b = "up_council_approval_bitset p"
  have voters: "voters ?b = {i. i < length (gc_seats c) \<and> bit ?b (0 + i)}" if "?b < 32"
    using that assms by (auto simp: voters_def byte_less_32)
  have count: "count_approvals ?b slot 0 (enumerate 0 (gc_seats c)) = Inr r \<longleftrightarrow>
      (\<forall>i \<in> voters ?b. seat_in_term (gc_seats c ! i) slot) \<and> unat r = card (voters ?b)"
    if "?b < 32" for r
    using count_approvals_ok [of 0 "gc_seats c" ?b slot 0 r] assms voters [OF that] by auto
  show ?thesis
  proof (cases "validate_proposal_against_policy E p policy")
    case (Inl e)
    then show ?thesis by (simp add: evaluate_proposal_quorum_def)
  next
    case (Inr u)
    have t: "gp_routine_threshold policy = 3" "gp_terminal_threshold policy = 4"
      using policy_thresholds [OF against_policy_policy [OF Inr]] by simp_all
    have needs: "(case up_proposal_class p of TargetImmutability \<Rightarrow> Terminal | _ \<Rightarrow> Routine)
        = (if up_proposal_class p = TargetImmutability then Terminal else Routine)"
      by (cases "up_proposal_class p") simp_all
    show ?thesis
      unfolding evaluate_proposal_quorum_def needs
      by (cases q) (auto simp: Inr evaluate_quorum_def result_simps Let_def count not_less t)
  qed
qed


section \<open>Collecting approvals\<close>

text \<open>A history of approval calls on one proposal: a refused call changes nothing, an accepted one
  stores the new bitmap and count.  The second component records who was accepted, and the digest
  they named.\<close>

fun collect_approvals ::
    "env \<Rightarrow> council_set_v1 \<Rightarrow> governance_policy_v1 \<Rightarrow> u64 \<Rightarrow> (pubkey \<times> hash32 \<times> u64) list
       \<Rightarrow> upgrade_proposal_v1 \<times> (pubkey \<times> hash32) list \<Rightarrow> upgrade_proposal_v1 \<times> (pubkey \<times> hash32) list" where
  "collect_approvals E c policy v [] s = s"
| "collect_approvals E c policy v ((a, d, slot) # calls) (p, accepted) =
     collect_approvals E c policy v calls
       (case record_proposal_approval E c policy v p a d slot of
          Inl _ \<Rightarrow> (p, accepted)
        | Inr (b, n) \<Rightarrow> (p\<lparr>up_council_approval_bitset := b, up_council_approval_count := n\<rparr>, accepted @ [(a, d)]))"

definition tallied :: "council_set_v1 \<Rightarrow> upgrade_proposal_v1 \<Rightarrow> upgrade_proposal_v1 \<times> (pubkey \<times> hash32) list \<Rightarrow> bool" where
  "tallied c p s \<longleftrightarrow>
     distinct (map fst (snd s))
     \<and> fst ` set (snd s) = (\<lambda>i. se_seat_authority (gc_seats c ! i)) ` voters (up_council_approval_bitset (fst s))
     \<and> voters (up_council_approval_bitset (fst s)) \<subseteq> {..<5}
     \<and> (\<forall>(a, d) \<in> set (snd s). d = up_proposal_digest p)
     \<and> up_proposal_digest (fst s) = up_proposal_digest p
     \<and> up_proposal_class (fst s) = up_proposal_class p"

lemma tallied_step:
  assumes t: "tallied c p (p', accepted)" and five: "length (gc_seats c) = 5"
    and r: "record_proposal_approval E c policy v p' a d slot = Inr (b, n)"
  shows "tallied c p (p'\<lparr>up_council_approval_bitset := b, up_council_approval_count := n\<rparr>, accepted @ [(a, d)])"
proof -
  let ?b = "up_council_approval_bitset p'"
  have valid: "validate_council_set E c policy = Inr ()" and d: "d = up_proposal_digest p'"
    and seat: "record_seat_approval c ?b (up_council_approval_count p') a slot = Inr (b, n)"
    using r by (auto simp: record_proposal_approval_def result_simps split: if_splits)
  from seat obtain i where i: "position (\<lambda>s. se_seat_authority s = a) (gc_seats c) = Some i"
      "\<not> bit ?b i" "b = ?b OR shl1 i"
    by (auto simp: record_seat_approval_ok)
  have i5: "i < 5" and a: "se_seat_authority (gc_seats c ! i) = a"
    using position_Some [OF i(1)] five by simp_all
  have b: "voters b = insert i (voters ?b)" using i(3) i5 by (simp add: voters_or)
  note inj = seats_inj [OF valid five]
  have "a \<notin> fst ` set accepted"
  proof
    assume "a \<in> fst ` set accepted"
    then obtain j where j: "j \<in> voters ?b" "se_seat_authority (gc_seats c ! j) = a"
      using t by (auto simp: tallied_def)
    then have "j < 5" using t by (auto simp: tallied_def)
    with inj j(2) a i5 have "j = i" by (auto dest: inj_onD)
    with j(1) i(2) show False by (simp add: voters_def)
  qed
  then show ?thesis using t b a i5 d by (auto simp: tallied_def)
qed

lemma tallied_collect:
  "length (gc_seats c) = 5 \<Longrightarrow> tallied c p s \<Longrightarrow> tallied c p (collect_approvals E c policy v calls s)"
  by (induction E c policy v calls s rule: collect_approvals.induct)
    (auto split: sum.split simp: tallied_step)

text \<open>C22: The proposal digest commits to every term of a proposal: two proposals with the same
  digest, where SHA-256 tells their preimages apart, agree on every field except the account header,
  the lifecycle state, the three approval accumulators, the reason codes, the stored digest and the
  reserved bytes.\<close>

theorem digest_binds_terms:
  assumes "compute_proposal_digest E p = Inr d" and "compute_proposal_digest E q = Inr d"
    and "inj_on (sha256 E) {digest_preimage p, digest_preimage q}"
  shows "p = q\<lparr>up_discriminator := up_discriminator p, up_account_version := up_account_version p,
      up_bump := up_bump p, up_initialized := up_initialized p, up_state := up_state p,
      up_council_approval_bitset := up_council_approval_bitset p,
      up_council_approval_count := up_council_approval_count p,
      up_poststate_approval_bitset := up_poststate_approval_bitset p,
      up_poststate_approval_count := up_poststate_approval_count p,
      up_unfreeze_approval_bitset := up_unfreeze_approval_bitset p,
      up_unfreeze_approval_count := up_unfreeze_approval_count p,
      up_proposal_digest := up_proposal_digest p,
      up_cancellation_reason_code := up_cancellation_reason_code p,
      up_terminal_reason_code := up_terminal_reason_code p, up_reserved := up_reserved p\<rparr>"
proof (rule digest_fields_inject)
  have "sha256 E (digest_preimage p) = sha256 E (digest_preimage q)"
    using assms(1,2) by (simp add: compute_proposal_digest_ok)
  then have "digest_preimage p = digest_preimage q" by (rule inj_onD [OF assms(3)]) simp_all
  then show "proposal_digest_fields p = proposal_digest_fields q" by (simp add: digest_preimage_inject)
qed

text \<open>C19: A quorum is real: after any history of approval calls on a fresh
  proposal, a successful evaluation counts exactly the accepted calls, at least three of them, four
  for the immutability of the target; they came from as many distinct seats of the council, each
  inside its term when the quorum is evaluated, and each named the digest of the proposal.\<close>

theorem quorum_counts_accepted_approvals:
  assumes "wf_council_set_v1 c" and "up_council_approval_bitset p = 0"
    and "collect_approvals E c policy v calls (p, []) = (p', accepted)"
    and "evaluate_proposal_quorum E c policy v p' slot = Inr q"
  shows "length accepted = unat (qe_total_approvals q)
    \<and> (if up_proposal_class p = TargetImmutability then 4 else 3) \<le> length accepted
    \<and> distinct (map fst accepted)
    \<and> (\<forall>(a, d) \<in> set accepted. d = up_proposal_digest p
         \<and> (\<exists>s \<in> set (gc_seats c). se_seat_authority s = a \<and> seat_in_term s slot))"
proof -
  let ?b = "up_council_approval_bitset p'" and ?auth = "\<lambda>i. se_seat_authority (gc_seats c ! i)"
  have five: "length (gc_seats c) = 5" using assms(1) by (simp add: wf_council_set_v1_def)
  have "tallied c p (p, [])" using assms(2) by (simp add: tallied_def voters_def)
  then have t: "tallied c p (p', accepted)"
    using tallied_collect [OF five] assms(3) by metis
  note quorum = assms(4) [unfolded evaluate_proposal_quorum_ok [OF five]]
  have sub: "voters ?b \<subseteq> {..<5}" using t by (simp add: tallied_def)
  have "inj_on ?auth {..<5}" using seats_inj [OF _ five] quorum by blast
  then have inj: "inj_on ?auth (voters ?b)" using sub by (rule inj_on_subset)
  have "length accepted = card (fst ` set accepted)"
    using t distinct_card [of "map fst accepted"] by (simp add: tallied_def)
  also have "\<dots> = card (voters ?b)" using t inj by (simp add: tallied_def card_image)
  finally have len: "length accepted = unat (qe_total_approvals q)" using quorum by simp
  have enough: "(if up_proposal_class p = TargetImmutability then 4 else 3) \<le> length accepted"
    using quorum t len by (auto simp: tallied_def word_le_nat_alt)
  have seats: "\<exists>s \<in> set (gc_seats c). se_seat_authority s = a \<and> seat_in_term s slot"
    if "(a, d) \<in> set accepted" for a d
  proof -
    have "a \<in> ?auth ` voters ?b" using t that by (force simp: tallied_def)
    then obtain i where i: "i \<in> voters ?b" "?auth i = a" by auto
    then have "i < 5" using t by (auto simp: tallied_def)
    then show ?thesis using i quorum five by (metis nth_mem)
  qed
  show ?thesis using len enough seats t by (auto simp: tallied_def)
qed

section \<open>Lifecycles\<close>

text \<open>A life of a code-upgrade proposal: consecutive versions of the account, each reached from the
  one before by a transition that the validator accepts.\<close>

fun validated_path :: "env \<Rightarrow> governance_policy_v1 \<Rightarrow> upgrade_proposal_v1 list \<Rightarrow> bool" where
  "validated_path E policy (p # q # ps) \<longleftrightarrow>
     validate_proposal_transition E p policy (up_state q) = Inr () \<and> validated_path E policy (q # ps)"
| "validated_path E policy ps \<longleftrightarrow> True"

fun steps_left :: "proposal_state_v1 \<Rightarrow> nat" where
  "steps_left Draft = 12" | "steps_left BufferAdopted = 11" | "steps_left BufferVerified = 10"
| "steps_left CouncilApproved = 9" | "steps_left TokenReviewOpen = 0"
| "steps_left GovernanceSatisfied = 8" | "steps_left Timelocked = 7" | "steps_left Frozen = 6"
| "steps_left Extended = 5" | "steps_left UpgradeExecuted = 4" | "steps_left ProgramDataVerified = 3"
| "steps_left PoststateAccepted = 2" | "steps_left UnfreezeApproved = 1" | "steps_left Completed = 0"
| "steps_left Cancelled = 0" | "steps_left Expired = 0"

text \<open>The stages before a stage on the way of an upgrade; \<open>Extended\<close> is optional.\<close>

definition mandatory :: "proposal_state_v1 list" where
  "mandatory = [Draft, BufferAdopted, BufferVerified, CouncilApproved, GovernanceSatisfied, Timelocked,
     Frozen, UpgradeExecuted, ProgramDataVerified, PoststateAccepted, UnfreezeApproved, Completed]"

definition before :: "proposal_state_v1 \<Rightarrow> proposal_state_v1 set" where
  "before s = (if s \<in> {Cancelled, Expired, TokenReviewOpen} then {}
     else {m \<in> set mandatory. steps_left s < steps_left m})"

lemma transition_shape:
  assumes "validate_proposal_transition E p policy next = Inr u"
  shows "steps_left next < steps_left (up_state p)"
    and "before next \<subseteq> insert (up_state p) (before (up_state p))"
proof -
  consider (stop) "next \<in> {Cancelled, Expired}" "\<not> is_frozen_or_later (up_state p)"
        "\<not> is_terminal (up_state p)" "up_state p \<noteq> TokenReviewOpen"
    | (go) "transition_allowed (extension_required p) (up_state p) next"
    using assms by (auto simp: validate_proposal_transition_def result_simps Let_def split: if_splits)
  then show "steps_left next < steps_left (up_state p)"
  proof cases
    case stop
    then show ?thesis by (cases "up_state p") (auto simp: is_terminal_def is_frozen_or_later_def)
  next
    case go
    then show ?thesis by (auto simp: transition_allowed_def)
  qed
  consider (stop) "next \<in> {Cancelled, Expired}"
    | (go) "transition_allowed (extension_required p) (up_state p) next"
    using assms by (auto simp: validate_proposal_transition_def result_simps Let_def split: if_splits)
  then show "before next \<subseteq> insert (up_state p) (before (up_state p))"
  proof cases
    case stop
    then show ?thesis by (auto simp: before_def)
  next
    case go
    then show ?thesis
      unfolding transition_allowed_def
      by (elim disjE insertE emptyE conjE) (auto simp: before_def mandatory_def)
  qed
qed

lemma path_length: "validated_path E policy (p # ps) \<Longrightarrow> length ps \<le> steps_left (up_state p)"
proof (induction ps arbitrary: p)
  case (Cons q ps)
  then have "length ps \<le> steps_left (up_state q)" "steps_left (up_state q) < steps_left (up_state p)"
    using transition_shape(1) by auto
  then show ?case by simp
qed simp

lemma path_stages:
  "validated_path E policy (p # ps) \<Longrightarrow>
     before (up_state (last (p # ps))) \<subseteq> before (up_state p) \<union> set (map up_state (p # ps))"
proof (induction ps arbitrary: p)
  case (Cons q ps)
  have step: "validate_proposal_transition E p policy (up_state q) = Inr ()" "validated_path E policy (q # ps)"
    using Cons.prems by simp_all
  have "before (up_state (last (p # q # ps))) \<subseteq> before (up_state q) \<union> set (map up_state (q # ps))"
    using Cons.IH [OF step(2)] by simp
  with transition_shape(2) [OF step(1)] show ?case by auto
qed auto

lemma steps_left_bound: "steps_left s \<le> 12"
  by (cases s) simp_all

lemma before_completed: "set mandatory = insert Completed (before Completed)" "before Draft = {}"
  by (auto simp: before_def mandatory_def)

text \<open>C23: Validated transitions cannot go on for ever or round in circles: a proposal goes
  through at most twelve of them.  And none of the stages can be skipped: a proposal that went from
  the draft to completion was adopted, verified, approved by the council, satisfied governance, was
  timelocked, frozen, executed, checked against the chain, accepted and released.\<close>

theorem validated_life_ends:
  assumes "validated_path E policy ps"
  shows "length ps \<le> 13
    \<and> (up_state (hd ps) = Draft \<and> up_state (last ps) = Completed \<and> ps \<noteq> [] \<longrightarrow>
         set mandatory \<subseteq> set (map up_state ps))"
proof (cases ps)
  case (Cons p qs)
  have "length qs \<le> 12"
    using path_length [of E policy p qs] steps_left_bound [of "up_state p"] assms Cons by simp
  moreover have "set mandatory \<subseteq> set (map up_state ps)"
    if "up_state (hd ps) = Draft" "up_state (last ps) = Completed"
  proof -
    have "before Completed \<subseteq> set (map up_state ps)"
      using path_stages [of E policy p qs] assms that Cons by (simp add: before_completed(2))
    moreover have "Completed \<in> set (map up_state ps)"
      using that(2) Cons by (metis image_eqI last_in_set list.distinct(1) list.set_map)
    ultimately show ?thesis by (simp add: before_completed(1))
  qed
  ultimately show ?thesis using Cons by auto
qed simp

end
