(* ===== verification/V3_History.thy ===== *)
theory V3_History
  imports V3_Facts Governance_Facts
begin

text \<open>
  What lies behind a Release 1 proposal.  A history is a run of handler calls, each at a slot of its
  own, and of other programs' work on other accounts; it records which seat approved the proposal,
  when, for which council and over which buffer.
\<close>

section \<open>Approvals on record\<close>

record seat_approval =
  sa_seat :: nat
  sa_key :: pubkey
  sa_slot :: u64
  sa_council :: council_set_v1
  sa_buffer :: buffer_verification_v1

text \<open>The approval a successful call adds, read off its accounts.\<close>

fun approvals_of :: "env \<Rightarrow> pubkey \<Rightarrow> v3_call \<Rightarrow> ledger \<Rightarrow> seat_approval list" where
  "approvals_of E program (Approve_Proposal accounts ix) L =
     (case (current_slot E,
        load_fixed_controller_account de_council_set_v1 L program (accounts ! 2) COUNCIL_SET_LEN,
        load_fixed_controller_account de_buffer_verification_v1 L program (accounts ! 7) BUFFER_VERIFICATION_LEN) of
        (Inr slot, Inr council, Inr b) \<Rightarrow>
          (case position (\<lambda>s. se_seat_authority s = ai_key (accounts ! 8)) (gc_seats council) of
             Some i \<Rightarrow> [\<lparr>sa_seat = i, sa_key = ai_key (accounts ! 8), sa_slot = slot, sa_council = council,
               sa_buffer = b\<rparr>]
           | None \<Rightarrow> [])
      | _ \<Rightarrow> [])"
| "approvals_of E program _ L = []"

text \<open>What one approval is worth: a seat of the council the proposal was created under, in its term,
  inside the review window, over a buffer that was verified to hold the proposed artifact.\<close>

definition approval_sound :: "pubkey \<Rightarrow> upgrade_proposal_v3 \<Rightarrow> seat_approval \<Rightarrow> bool" where
  "approval_sound k p a \<longleftrightarrow>
     gc_version (sa_council a) = v3_creation_council_version p
     \<and> gc_set_hash (sa_council a) = v3_creation_council_hash p
     \<and> active_at (sa_council a) (sa_slot a)
     \<and> sa_seat a < length (gc_seats (sa_council a))
     \<and> se_seat_authority (gc_seats (sa_council a) ! sa_seat a) = sa_key a
     \<and> seat_in_term (gc_seats (sa_council a) ! sa_seat a) (sa_slot a)
     \<and> v3_review_start_slot p \<le> sa_slot a \<and> sa_slot a \<le> v3_review_end_slot p
     \<and> sa_slot a < v3_expiry_slot p
     \<and> bv_status (sa_buffer a) = Verified \<and> bv_proposal (sa_buffer a) = k
     \<and> bv_buffer (sa_buffer a) = v3_buffer_pubkey p
     \<and> bv_artifact_length (sa_buffer a) = v3_artifact_length p
     \<and> bv_artifact_sha256 (sa_buffer a) = v3_artifact_sha256 p
     \<and> bv_artifact_chunk_merkle_root (sa_buffer a) = v3_artifact_chunk_merkle_root p"

lemma approval_sound_terms: "approval_sound k (terms_v3 p) a = approval_sound k p a"
  by (simp add: approval_sound_def terms_v3_def clear_upgrade_proposal_lifecycle_v3_def)

lemma same_terms_sound: "terms_v3 p = terms_v3 q \<Longrightarrow> approval_sound k p a = approval_sound k q a"
  using approval_sound_terms [of k p a] approval_sound_terms [of k q a] by simp

lemma load_council_ok:
  assumes "load_council E L program i config_info c policy version hash slot current = Inr council"
  shows "load_fixed_controller_account de_council_set_v1 L program i COUNCIL_SET_LEN = Inr council"
    "validate_council_set E council policy = Inr ()" "gc_version council = version"
    "gc_set_hash council = hash" "active_at council slot"
    "derive_council_pda E program (cc_target_program c) version = (ai_key i, gc_bump council)"
    "current \<longrightarrow> version = cc_current_council_version c"
  using assms by (auto simp: load_council_def result_simps split: if_splits)

text \<open>The council account a call names, pinned by its contents and its address.\<close>

definition council_at ::
    "env \<Rightarrow> pubkey \<Rightarrow> ledger \<Rightarrow> account_info \<Rightarrow> controller_config_v1 \<Rightarrow> u64 \<Rightarrow> u64 \<Rightarrow> council_set_v1 \<Rightarrow> bool" where
  "council_at E program L i c version slot council \<longleftrightarrow>
     load_fixed_controller_account de_council_set_v1 L program i COUNCIL_SET_LEN = Inr council
     \<and> derive_council_pda E program (cc_target_program c) version = (ai_key i, gc_bump council)
     \<and> gc_version council = version \<and> active_at council slot"

lemma load_council_at:
  "load_council E L program i config_info c policy version hash slot current = Inr council \<Longrightarrow>
     council_at E program L i c version slot council"
  using load_council_ok by (simp add: council_at_def)

lemma load_current_council_at:
  "load_current_council E L program i config_info c policy slot = Inr council \<Longrightarrow>
     council_at E program L i c (cc_current_council_version c) slot council"
  by (auto simp: load_current_council_def result_simps dest: load_council_at)

lemma load_verified_buffer_ok:
  assumes "load_verified_buffer_for_proposal E L program i proposal_info p slot = Inr b"
  shows "load_fixed_controller_account de_buffer_verification_v1 L program i BUFFER_VERIFICATION_LEN = Inr b"
    "bv_status b = Verified" "bv_proposal b = ai_key proposal_info" "bv_buffer b = v3_buffer_pubkey p"
    "bv_artifact_length b = v3_artifact_length p" "bv_artifact_sha256 b = v3_artifact_sha256 p"
    "bv_artifact_chunk_merkle_root b = v3_artifact_chunk_merkle_root p"
  using assms by (auto simp: load_verified_buffer_for_proposal_def result_simps split: if_splits)

section \<open>What a call adds\<close>

text \<open>The recorded approvals match the bits of the tally.\<close>

definition tally_matches :: "seat_approval list \<Rightarrow> upgrade_proposal_v3 \<Rightarrow> bool" where
  "tally_matches approvals p \<longleftrightarrow>
     distinct (map sa_seat approvals)
     \<and> set (map sa_seat approvals) = voters (v3_council_approval_bitset p)"

lemma tally_matches_same:
  "v3_council_approval_bitset q = v3_council_approval_bitset p \<Longrightarrow> tally_matches approvals q = tally_matches approvals p"
  by (simp add: tally_matches_def)

lemma approve_adds_approval:
  assumes "process_approve_proposal_v3 E program accounts ix L = Inr M"
  obtains p q a where "proposal_at E program L (ai_key (accounts ! 6)) = Some p"
    "proposal_at E program M (ai_key (accounts ! 6)) = Some q"
    "approvals_of E program (Approve_Proposal accounts ix) L = [a]"
    "approval_sound (ai_key (accounts ! 6)) p a"
    "\<And>as. tally_matches as p \<Longrightarrow> tally_matches (as @ [a]) q"
  using assms
proof (rule approve_v3_ok, goal_cases)
  case (1 _ _ council_info _ _ _ i verification_info seat slot _ _ p council b bitset count)
  note council = load_council_ok [OF \<open>load_council E _ _ _ _ _ _ _ _ _ _ = _\<close>]
  note buffer = load_verified_buffer_ok [OF \<open>load_verified_buffer_for_proposal _ _ _ _ _ _ _ = _\<close>]
  note change = v3_change.approved [OF \<open>v3_state p = BufferVerified\<close>, of slot bitset count]
  from \<open>record_seat_approval _ _ _ _ _ = _\<close> obtain n
    where n: "position (\<lambda>s. se_seat_authority s = ai_key seat) (gc_seats council) = Some n"
      "seat_in_term (gc_seats council ! n) slot" "\<not> bit (v3_council_approval_bitset p) n"
      "bitset = v3_council_approval_bitset p OR shl1 n"
    by (auto simp: record_seat_approval_ok)
  note pos = position_Some [OF n(1)]
  let ?a = "\<lparr>sa_seat = n, sa_key = ai_key seat, sa_slot = slot, sa_council = council, sa_buffer = b\<rparr>"
  have keys: "accounts ! 6 = i" "accounts ! 2 = council_info" "accounts ! 7 = verification_info" "accounts ! 8 = seat"
    using 1(2) by simp_all
  have "length (gc_seats council) = 5"
    using council(1) by (simp add: council_set_codec.load_iff wf_council_set_v1_def)
  with pos have small: "n < 8" by simp
  show ?case
  proof (rule 1(1))
    show "proposal_at E program L (ai_key (accounts ! 6)) = Some p" using 1 keys by simp
    show "proposal_at E program M (ai_key (accounts ! 6)) = Some (approved_v3 p bitset count slot)"
      using 1 keys commit_v3_effect [OF _ _ change] by simp
    show "approvals_of E program (Approve_Proposal accounts ix) L = [?a]"
      using 1 n(1) by (simp add: keys council(1) buffer(1))
    show "approval_sound (ai_key (accounts ! 6)) p ?a"
      using pos n(2) 1 council buffer keys by (simp add: approval_sound_def)
    show "tally_matches (as @ [?a]) (approved_v3 p bitset count slot)" if "tally_matches as p" for as
    proof -
      have "n \<notin> voters (v3_council_approval_bitset p)" using n(3) by (simp add: voters_def)
      with that show ?thesis
        by (simp add: tally_matches_def approved_v3_bitset n(4) voters_or [OF small])
    qed
  qed
qed

lemma call_adds_approvals:
  assumes "run_v3 E program call L = Inr M"
  obtains p q where "proposal_at E program L (subject_of call) = Some p"
    "proposal_at E program M (subject_of call) = Some q" "terms_v3 q = terms_v3 p"
    "\<And>a. a \<in> set (approvals_of E program call L) \<Longrightarrow> approval_sound (subject_of call) p a"
    "\<And>as. tally_matches as p \<Longrightarrow> tally_matches (as @ approvals_of E program call L) q"
  using assms
proof (rule run_v3_effect, goal_cases)
  case (1 slot p q)
  note terms = v3_change_terms [OF \<open>v3_change slot p q\<close>]
  have other: thesis if "\<not> is_Approve_Proposal call" "approvals_of E program call L = []"
    by (rule 1(1) [of p q]) (use that 1(3,4,6) terms in \<open>simp_all add: tally_matches_def\<close>)
  show ?case
  proof (cases call)
    case (Approve_Proposal accounts ix)
    with assms have "process_approve_proposal_v3 E program accounts ix L = Inr M" by simp
    then obtain p' q' a where a: "proposal_at E program L (ai_key (accounts ! 6)) = Some p'"
      "proposal_at E program M (ai_key (accounts ! 6)) = Some q'"
      "approvals_of E program (Approve_Proposal accounts ix) L = [a]"
      "approval_sound (ai_key (accounts ! 6)) p' a"
      "\<And>as. tally_matches as p' \<Longrightarrow> tally_matches (as @ [a]) q'"
      by (rule approve_adds_approval) blast
    then have same: "p' = p" "q' = q" using 1 Approve_Proposal by simp_all
    show ?thesis
      by (rule 1(1) [of p q])
        (use 1(3,4) a(3,4,5) terms in \<open>simp_all only: Approve_Proposal subject_of.simps same list.set insert_iff empty_iff simp_thms\<close>)
  qed (rule other; simp)+
qed

section \<open>Histories\<close>

text \<open>A proposal opened with a verified buffer and no approval, then any calls, each at its own slot,
  and any work elsewhere on the ledger that leaves its account alone.\<close>

inductive v3_history ::
    "env \<Rightarrow> pubkey \<Rightarrow> pubkey \<Rightarrow> upgrade_proposal_v3 \<Rightarrow> seat_approval list \<Rightarrow> ledger \<Rightarrow> bool"
  for E program k p where
  opened: "v3_history E program k p [] L"
    if "proposal_at E program L k = Some p" "v3_state p = BufferVerified" "v3_council_approval_bitset p = 0"
| called: "v3_history E program k p
      (approvals @ (if subject_of call = k then approvals_of E' program call L else [])) M"
    if "v3_history E program k p approvals L" "same_chain E E'" "run_v3 E' program call L = Inr M"
| elsewhere: "v3_history E program k p approvals M" if "v3_history E program k p approvals L" "M k = L k"

lemma v3_history_invariant:
  assumes "v3_history E program k p approvals L"
  obtains q where "proposal_at E program L k = Some q" "terms_v3 q = terms_v3 p" "tally_matches approvals q"
    "\<And>a. a \<in> set approvals \<Longrightarrow> approval_sound k p a"
proof -
  from assms have "\<exists>q. proposal_at E program L k = Some q \<and> terms_v3 q = terms_v3 p
      \<and> tally_matches approvals q \<and> (\<forall>a \<in> set approvals. approval_sound k p a)"
  proof induction
    case (opened L)
    then show ?case by (simp add: tally_matches_def voters_def)
  next
    case (called approvals L E' call M)
    then obtain q where q: "proposal_at E program L k = Some q" "terms_v3 q = terms_v3 p"
      "tally_matches approvals q" "\<forall>a \<in> set approvals. approval_sound k p a" by blast
    note chain = same_chain_v3(2) [OF \<open>same_chain E E'\<close>]
    show ?case
    proof (cases "subject_of call = k")
      case True
      from \<open>run_v3 E' program call L = Inr M\<close> show ?thesis
      proof (rule call_adds_approvals, goal_cases)
        case (1 q' r)
        then have "q' = q" using q(1) True by (simp add: chain)
        note added = 1(4,5) [unfolded \<open>q' = q\<close> True]
        have "approval_sound k p a" if "a \<in> set (approvals_of E' program call L)" for a
          using added(1) [OF that] same_terms_sound [OF q(2)] by simp
        with 1(2,3) q added(2) [OF q(3)] True \<open>q' = q\<close> show ?case by (auto simp: chain)
      qed
    next
      case False
      from \<open>run_v3 E' program call L = Inr M\<close> show ?thesis
      proof (rule run_v3_effect, goal_cases)
        case (1 slot q' r)
        have "M k = L k" by (rule 1(6)) (use False q(1) chain in simp_all)
        then have "proposal_at E program M k = Some q" using q(1) proposal_at_local by metis
        with q False show ?case by auto
      qed
    qed
  next
    case (elsewhere approvals L M)
    then show ?case using proposal_at_local by metis
  qed
  then show thesis using that by blast
qed

text \<open>Equal terms have equal digests.\<close>

lemma compute_digest_terms:
  "terms_v3 p = terms_v3 q \<Longrightarrow> compute_upgrade_proposal_digest_v3 E p = compute_upgrade_proposal_digest_v3 E q"
  by (simp add: compute_upgrade_proposal_digest_v3_def)

lemma held_digest:
  assumes "proposal_at E program L k = Some p" "proposal_at E program M j = Some q" "terms_v3 p = terms_v3 q"
  shows "v3_proposal_digest p = v3_proposal_digest q"
  using assms compute_digest_terms [OF assms(3), of E] by (simp add: proposal_at_Some validate_digest_ok)

text \<open>What the schema of a held proposal says of its tally and its freeze.\<close>

lemma held_lifecycle:
  assumes "proposal_at E program L k = Some p"
  shows "validate_upgrade_proposal_v3_lifecycle p = Inr ()"
    "v3_council_approval_bitset p < 32" "unat (v3_council_approval_count p) = pop_count (v3_council_approval_bitset p)"
proof -
  from assms have schema: "proposal_v3_validate_schema E p = Inr ()" by (simp add: proposal_at_Some validate_digest_ok)
  then show "validate_upgrade_proposal_v3_lifecycle p = Inr ()"
    by (simp add: proposal_v3_validate_schema_def result_simps)
  from schema have "validate_approval_pair (v3_council_approval_bitset p) (v3_council_approval_count p) = Inr ()"
    by (simp add: proposal_v3_validate_schema_def result_simps)
  then show "v3_council_approval_bitset p < 32"
    "unat (v3_council_approval_count p) = pop_count (v3_council_approval_bitset p)"
    using pop_count_byte [of "v3_council_approval_bitset p"] by (auto simp: approval_pair_ok)
qed

lemma held_approval_shape: "proposal_at E program L k = Some p \<Longrightarrow> approval_shape p"
  using held_lifecycle(1) by (auto simp: validate_upgrade_proposal_v3_lifecycle_def result_simps)

definition council_quorum_states :: "proposal_state set" where
  "council_quorum_states = {CouncilApproved, GovernanceSatisfied, Timelocked, Frozen}"

lemma quorum_count:
  assumes "proposal_at E program L k = Some p" and "v3_state p \<in> council_quorum_states"
  shows "v3_council_approval_count p = RELEASE1_APPROVAL_THRESHOLD"
  using held_approval_shape [OF assms(1)] assms(2)
  by (auto simp: approval_shape_def council_quorum_states_def Let_def)

end
