(* ===== verification/V3_Safety.thy ===== *)
theory V3_Safety
  imports V3_History
begin

text \<open>
  The properties of the Release 1 proposal handlers.
\<close>

section \<open>Edges\<close>

definition v3_edge :: "proposal_state \<Rightarrow> proposal_state \<Rightarrow> bool" where
  "v3_edge s s' \<longleftrightarrow> proposal_edge_allowed s s' False \<or> (is_prefreeze_state s \<and> s' \<in> {s, Cancelled, Expired})"

text \<open>The states the updates leave.\<close>

lemma new_states:
  "v3_state (approved_v3 p b n slot) = (if n = RELEASE1_APPROVAL_THRESHOLD then CouncilApproved else v3_state p)"
  "v3_state (frozen_v3 p epoch slot) = Frozen" "v3_state (expired_v3 p slot) = Expired"
  "v3_state (cancelled_v3 p b n slot) = (if n = RELEASE1_APPROVAL_THRESHOLD then Cancelled else v3_state p)"
  "v3_state (open_cancellation p council reason) = v3_state p" "v3_state (reset_cancellation p) = v3_state p"
  by (simp_all add: approved_v3_def frozen_v3_def expired_v3_def cancelled_v3_def open_cancellation_def
      reset_cancellation_def Let_def)

lemma edges:
  "v3_edge BufferVerified BufferVerified" "v3_edge BufferVerified CouncilApproved"
  "v3_edge CouncilApproved GovernanceSatisfied" "v3_edge GovernanceSatisfied Timelocked"
  "v3_edge Timelocked Frozen" "is_prefreeze_state s \<Longrightarrow> v3_edge s s"
  "is_prefreeze_state s \<Longrightarrow> v3_edge s Cancelled" "is_prefreeze_state s \<Longrightarrow> v3_edge s Expired"
  by (simp_all add: v3_edge_def proposal_edge_allowed_def is_prefreeze_state_def)

lemma change_edge: "v3_change slot p q \<Longrightarrow> v3_edge (v3_state p) (v3_state q)"
proof (induction rule: v3_change.induct)
  case (cancelled p q slot council reason bitset count)
  have "v3_state q = v3_state p" using cancelled(2) new_states(6) by metis
  with cancelled(1) show ?case by (simp add: new_states edges)
qed (simp_all add: new_states edges)

lemma change_prefreeze: "v3_change slot p q \<Longrightarrow> is_prefreeze_state (v3_state p)"
  by (induction rule: v3_change.induct) (auto simp: is_prefreeze_state_def)

text \<open>C9: types survive.  A successful call leaves in its subject's
  account a well-formed, schema-valid proposal with the same terms and the same, still matching, digest;
  its state stays or moves along one edge of the lifecycle, and every other account that holds a
  proposal holds the same one.\<close>
theorem v3_call_keeps_every_proposal:
  assumes "run_v3 E program call L = Inr M"
  shows "\<exists>p q. proposal_at E program L (subject_of call) = Some p
    \<and> proposal_at E program M (subject_of call) = Some q
    \<and> wf_upgrade_proposal_v3 q \<and> proposal_v3_validate_schema E q = Inr ()
    \<and> terms_v3 q = terms_v3 p \<and> v3_proposal_digest q = v3_proposal_digest p
    \<and> compute_upgrade_proposal_digest_v3 E q = Inr (v3_proposal_digest q)
    \<and> v3_edge (v3_state p) (v3_state q)
    \<and> (\<forall>j r. j \<noteq> subject_of call \<and> proposal_at E program L j = Some r
         \<longrightarrow> proposal_at E program M j = Some r)"
  using assms
proof (rule run_v3_effect, goal_cases)
  case (1 slot p q)
  note terms = v3_change_terms [OF \<open>v3_change slot p q\<close>]
  have "v3_proposal_digest q = v3_proposal_digest p" by (rule held_digest [OF 1(3) 1(2) terms])
  moreover have "wf_upgrade_proposal_v3 q" "proposal_v3_validate_schema E q = Inr ()"
    "compute_upgrade_proposal_digest_v3 E q = Inr (v3_proposal_digest q)"
    using 1(3) by (simp_all add: proposal_at_Some validate_digest_ok)
  moreover have "proposal_at E program M j = Some r"
    if "j \<noteq> subject_of call" "proposal_at E program L j = Some r" for j r
    using 1(6) [OF that] that(2) proposal_at_local by metis
  ultimately show ?case using 1(2,3) terms change_edge [OF 1(4)] by blast
qed

text \<open>C12: none of the six handlers touches a proposal again once
  it is frozen or has ended; the call fails and no ledger comes out.\<close>
theorem v3_frozen_or_finished_is_refused:
  assumes "proposal_at E program L (subject_of call) = Some p"
    and "v3_state p \<notin> {Draft, BufferAdopted, BufferVerified, CouncilApproved, GovernanceSatisfied, Timelocked}"
  shows "\<exists>e. run_v3 E program call L = Inl e"
proof (cases "run_v3 E program call L")
  case (Inr M)
  then show ?thesis
  proof (rule run_v3_effect, goal_cases)
    case (1 slot q r)
    then show ?case using assms change_prefreeze [OF 1(4)] by (simp add: is_prefreeze_state_def)
  qed
qed blast

section \<open>Quorum\<close>

text \<open>C7: along every history of a proposal, whatever else happens on
  the ledger, a proposal that reached council approval or any later stage up to the freeze has exactly
  three approvals on record, by three different seats of the council its terms name, each in its term
  and in the review window, each given while the buffer was verified to hold the artifact of the terms;
  and the terms and the digest are those the history began with.\<close>
theorem v3_quorum_behind_every_advance:
  assumes "v3_history E program k p approvals L" and "proposal_at E program L k = Some q"
    and "v3_state q \<in> council_quorum_states" and "proposal_at E program M k = Some p"
  shows "length approvals = 3 \<and> distinct (map sa_seat approvals)
    \<and> (\<forall>a \<in> set approvals. approval_sound k p a)
    \<and> terms_v3 q = terms_v3 p \<and> v3_proposal_digest q = v3_proposal_digest p"
  using assms(1)
proof (rule v3_history_invariant, goal_cases)
  case (1 r)
  then have "r = q" using assms(2) by simp
  have "length approvals = card (voters (v3_council_approval_bitset q))"
    using 1(3) \<open>r = q\<close> by (metis distinct_card length_map tally_matches_def)
  moreover have "pop_count (v3_council_approval_bitset q) = 3"
    using held_lifecycle(3) [OF assms(2)] quorum_count [OF assms(2,3)] by (simp add: RELEASE1_APPROVAL_THRESHOLD_def)
  ultimately have "length approvals = 3" by (simp add: card_voters)
  moreover have "v3_proposal_digest q = v3_proposal_digest p"
    by (rule held_digest [OF assms(2,4)]) (use 1(2) \<open>r = q\<close> in simp)
  ultimately show ?case using 1 \<open>r = q\<close> by (auto simp: tally_matches_def)
qed

section \<open>Time\<close>

lemma config_expiry_ok:
  assumes "config_validate_static c = Inr ()"
  shows "unat (cc_vote_review_slots c) + unat (cc_major_delay_slots c) + unat (cc_vote_review_slots c) + 3
      < unat (cc_proposal_expiry_slots c)" "cc_vote_review_slots c \<noteq> 0"
    "cc_rollback_delay_slots c \<le> cc_routine_delay_slots c" "cc_routine_delay_slots c \<le> cc_major_delay_slots c"
proof -
  from assms obtain m where m: "do { s \<leftarrow> checked_add 1 (cc_vote_review_slots c);
        s \<leftarrow> checked_add s (cc_major_delay_slots c);
        s \<leftarrow> checked_add s (cc_vote_review_slots c);
        checked_add s 2 } = Some m" "m < cc_proposal_expiry_slots c"
    and rest: "\<not> cc_vote_review_slots c < RELEASE1_MIN_COUNCIL_REVIEW_SLOTS"
      "\<not> cc_rollback_delay_slots c > cc_routine_delay_slots c"
      "\<not> cc_routine_delay_slots c > cc_major_delay_slots c"
    unfolding config_validate_static_def by (elim bnd_okE) (simp add: result_simps not_le split: if_splits)
  show "unat (cc_vote_review_slots c) + unat (cc_major_delay_slots c) + unat (cc_vote_review_slots c) + 3
      < unat (cc_proposal_expiry_slots c)"
    using m by (auto simp: bind_eq_Some_conv checked_add_Some_iff word_less_nat_alt)
  show "cc_vote_review_slots c \<noteq> 0" "cc_rollback_delay_slots c \<le> cc_routine_delay_slots c"
    "cc_routine_delay_slots c \<le> cc_major_delay_slots c"
    using rest by (auto simp: RELEASE1_MIN_COUNCIL_REVIEW_SLOTS_def)
qed

lemma checked_add_obtain:
  assumes "unat (a :: u64) + unat b < 2 ^ 64"
  obtains c where "checked_add a b = Some c" "unat c = unat a + unat b"
  using assms by (cases "checked_add a b") (auto simp: checked_add_None_iff checked_add_Some_iff)

definition governed_classes :: "proposal_class_v1 set" where
  "governed_classes = {proposal_class_v1.EmergencyRollback, proposal_class_v1.RoutineUpgrade,
     proposal_class_v1.EconomicChange, proposal_class_v1.ConstitutionalChange}"

definition class_delay :: "controller_config_v1 \<Rightarrow> proposal_class_v1 \<Rightarrow> u64" where
  "class_delay c class = (if class = proposal_class_v1.EmergencyRollback then cc_rollback_delay_slots c
     else if class = proposal_class_v1.RoutineUpgrade then cc_routine_delay_slots c
     else cc_major_delay_slots c)"

lemma derive_timing_ok:
  assumes "derive_proposal_timing c class slot = Inr (review_start, review_end, not_before, expiry)"
  shows "class \<in> governed_classes" "unat review_start = unat slot + 1"
    "unat review_end = unat slot + 1 + unat (cc_vote_review_slots c)"
    "unat not_before = unat slot + 1 + unat (cc_vote_review_slots c) + unat (class_delay c class)"
    "unat expiry = unat slot + unat (cc_proposal_expiry_slots c)"
  using assms
  by (cases "class", auto simp: derive_proposal_timing_def result_simps council_review_slots_def governed_classes_def
      class_delay_def split: if_splits)+

text \<open>C11: in every valid configuration, for every governed class and as long
  as the slot counter does not overflow, a proposal gets a timetable whose stages come in order, and at
  the end of its timelock there is still room before its expiry for a freeze, an extension of the
  program account if it needs one, the upgrade and a full review: the freeze's runway check passes.\<close>
theorem v3_timing_leaves_runway:
  assumes "config_validate_static c = Inr ()" and "class \<in> governed_classes"
    and "unat slot + unat (cc_proposal_expiry_slots c) < 2 ^ 64"
  shows "\<exists>review_start review_end not_before expiry.
    derive_proposal_timing c class slot = Inr (review_start, review_end, not_before, expiry)
    \<and> slot < review_start \<and> review_start < review_end \<and> review_end \<le> not_before \<and> not_before < expiry
    \<and> (\<forall>needs_extension.
         require_freeze_execution_runway needs_extension expiry (council_review_slots c) not_before = Inr ())"
proof -
  note config = config_expiry_ok [OF assms(1)]
  let ?r = "cc_vote_review_slots c" and ?d = "class_delay c class" and ?e = "cc_proposal_expiry_slots c"
  have "?d \<le> cc_major_delay_slots c" using config(3,4) by (auto simp: class_delay_def)
  then have d: "unat ?d \<le> unat (cc_major_delay_slots c)" by (simp add: word_le_nat_alt)
  have small: "unat slot + 1 + unat ?r + unat ?d + unat ?r + 2 < unat slot + unat ?e" using config(1) d by simp
  obtain rs where rs: "checked_add slot 1 = Some rs" "unat rs = unat slot + 1"
    by (rule checked_add_obtain [of slot 1]) (use small assms(3) in simp_all)
  obtain re where re: "checked_add rs ?r = Some re" "unat re = unat slot + 1 + unat ?r"
    by (rule checked_add_obtain [of rs ?r]) (use small assms(3) rs in simp_all)
  obtain nb where nb: "checked_add re ?d = Some nb" "unat nb = unat slot + 1 + unat ?r + unat ?d"
    by (rule checked_add_obtain [of re ?d]) (use small assms(3) re in simp_all)
  obtain ex where ex: "checked_add slot ?e = Some ex" "unat ex = unat slot + unat ?e"
    by (rule checked_add_obtain [OF assms(3)])
  obtain h where h: "checked_add nb ?r = Some h" "unat h = unat slot + 1 + unat ?r + unat ?d + unat ?r"
    by (rule checked_add_obtain [of nb ?r]) (use small assms(3) nb in simp_all)
  obtain h1 where h1: "checked_add h 1 = Some h1" "unat h1 = unat h + 1"
    by (rule checked_add_obtain [of h 1]) (use small assms(3) h in simp_all)
  obtain h2 where h2: "checked_add h 2 = Some h2" "unat h2 = unat h + 2"
    by (rule checked_add_obtain [of h 2]) (use small assms(3) h in simp_all)
  have not_late: "nb < ex" "h1 < ex" "h2 < ex"
    using small by (simp_all add: word_less_nat_alt nb ex h h1 h2)
  have delay: "(case class of
            proposal_class_v1.EmergencyRollback \<Rightarrow> Inr (cc_rollback_delay_slots c)
          | proposal_class_v1.RoutineUpgrade \<Rightarrow> Inr (cc_routine_delay_slots c)
          | proposal_class_v1.EconomicChange \<Rightarrow> Inr (cc_major_delay_slots c)
          | proposal_class_v1.ConstitutionalChange \<Rightarrow> Inr (cc_major_delay_slots c)
          | _ \<Rightarrow> Inl UnsupportedProposalClass) = (Inr ?d :: governance_error + u64)"
    using assms(2) by (auto simp: governed_classes_def class_delay_def)
  have timing: "derive_proposal_timing c class slot = Inr (rs, re, nb, ex)"
    using not_late(1) unfolding derive_proposal_timing_def delay council_review_slots_def
    by (simp add: rs re nb ex not_le)
  have order: "slot < rs" "rs < re" "re \<le> nb"
    using config(2) by (simp_all add: word_less_nat_alt word_le_nat_alt rs re nb unat_gt_0)
  have runway: "require_freeze_execution_runway needs_extension ex (council_review_slots c) nb = Inr ()"
    for needs_extension
    using not_late(2,3) by (cases needs_extension)
      (simp_all add: require_freeze_execution_runway_def council_review_slots_def h(1) h1(1) h2(1) reject_if_def not_le)
  show ?thesis using timing order not_late(1) runway by blast
qed

section \<open>The digest\<close>

lemma terms_v3_wf: "wf_upgrade_proposal_v3 p \<Longrightarrow> wf_upgrade_proposal_v3 (terms_v3 p)"
  by (simp add: wf_upgrade_proposal_v3_def terms_v3_def clear_upgrade_proposal_lifecycle_v3_def)

lemma ser_v3_inject:
  "wf_upgrade_proposal_v3 p \<Longrightarrow> wf_upgrade_proposal_v3 q \<Longrightarrow>
     ser_upgrade_proposal_v3 p = ser_upgrade_proposal_v3 q \<longleftrightarrow> p = q"
  by (metis de_ser_v3 option.inject prod.inject)

lemma same_terms_same_fields:
  assumes "terms_v3 p = terms_v3 q" and "v3_proposal_digest p = v3_proposal_digest q"
  shows "p = q
     \<lparr>v3_state := v3_state p, v3_freeze_gate_epoch := v3_freeze_gate_epoch p,
      v3_first_approval_slot := v3_first_approval_slot p,
      v3_council_approved_slot := v3_council_approved_slot p,
      v3_governance_satisfied_slot := v3_governance_satisfied_slot p,
      v3_queued_slot := v3_queued_slot p, v3_frozen_slot := v3_frozen_slot p,
      v3_extension_executed_slot := v3_extension_executed_slot p,
      v3_upgrade_executed_slot := v3_upgrade_executed_slot p,
      v3_programdata_verified_slot := v3_programdata_verified_slot p,
      v3_poststate_accepted_slot := v3_poststate_accepted_slot p,
      v3_unfreeze_approved_slot := v3_unfreeze_approved_slot p,
      v3_terminal_slot := v3_terminal_slot p,
      v3_council_approval_bitset := v3_council_approval_bitset p,
      v3_council_approval_count := v3_council_approval_count p,
      v3_cancellation_council_version := v3_cancellation_council_version p,
      v3_cancellation_council_hash := v3_cancellation_council_hash p,
      v3_cancellation_approval_bitset := v3_cancellation_approval_bitset p,
      v3_cancellation_approval_count := v3_cancellation_approval_count p,
      v3_unfreeze_council_version := v3_unfreeze_council_version p,
      v3_unfreeze_council_hash := v3_unfreeze_council_hash p,
      v3_unfreeze_approval_bitset := v3_unfreeze_approval_bitset p,
      v3_unfreeze_approval_count := v3_unfreeze_approval_count p,
      v3_cancellation_reason_code := v3_cancellation_reason_code p,
      v3_terminal_reason_code := v3_terminal_reason_code p\<rparr>"
  using assms by (cases p, cases q) (simp add: terms_v3_def clear_upgrade_proposal_lifecycle_v3_def)

text \<open>C13: two stored proposals with one digest agree in every field but the
  twenty-five that record the progress of the proposal (its state, the slots of its stages, the epoch of
  its freeze, its three tallies and its two reason codes), or their canonical images are a collision of the
  hash under the proposal's domain.  What the council approved under a digest is thus one artifact, buffer,
  program, deployment, rollback, schedule and council.\<close>
theorem v3_digest_binds_terms:
  assumes "proposal_at E program L k = Some p" and "proposal_at E program M j = Some q"
    and "v3_proposal_digest p = v3_proposal_digest q"
  shows "p = q
     \<lparr>v3_state := v3_state p, v3_freeze_gate_epoch := v3_freeze_gate_epoch p,
      v3_first_approval_slot := v3_first_approval_slot p,
      v3_council_approved_slot := v3_council_approved_slot p,
      v3_governance_satisfied_slot := v3_governance_satisfied_slot p,
      v3_queued_slot := v3_queued_slot p, v3_frozen_slot := v3_frozen_slot p,
      v3_extension_executed_slot := v3_extension_executed_slot p,
      v3_upgrade_executed_slot := v3_upgrade_executed_slot p,
      v3_programdata_verified_slot := v3_programdata_verified_slot p,
      v3_poststate_accepted_slot := v3_poststate_accepted_slot p,
      v3_unfreeze_approved_slot := v3_unfreeze_approved_slot p,
      v3_terminal_slot := v3_terminal_slot p,
      v3_council_approval_bitset := v3_council_approval_bitset p,
      v3_council_approval_count := v3_council_approval_count p,
      v3_cancellation_council_version := v3_cancellation_council_version p,
      v3_cancellation_council_hash := v3_cancellation_council_hash p,
      v3_cancellation_approval_bitset := v3_cancellation_approval_bitset p,
      v3_cancellation_approval_count := v3_cancellation_approval_count p,
      v3_unfreeze_council_version := v3_unfreeze_council_version p,
      v3_unfreeze_council_hash := v3_unfreeze_council_hash p,
      v3_unfreeze_approval_bitset := v3_unfreeze_approval_bitset p,
      v3_unfreeze_approval_count := v3_unfreeze_approval_count p,
      v3_cancellation_reason_code := v3_cancellation_reason_code p,
      v3_terminal_reason_code := v3_terminal_reason_code p\<rparr>
    \<or> (ser_upgrade_proposal_v3 (terms_v3 p) \<noteq> ser_upgrade_proposal_v3 (terms_v3 q)
       \<and> hashv E [UPGRADE_PROPOSAL_V3_DIGEST_DOMAIN, ser_upgrade_proposal_v3 (terms_v3 p)]
         = hashv E [UPGRADE_PROPOSAL_V3_DIGEST_DOMAIN, ser_upgrade_proposal_v3 (terms_v3 q)])"
proof -
  have image: "hashv E [UPGRADE_PROPOSAL_V3_DIGEST_DOMAIN, ser_upgrade_proposal_v3 (terms_v3 r)] = v3_proposal_digest r"
    if "proposal_at E program N i = Some r" for N i r
  proof -
    from that have "compute_upgrade_proposal_digest_v3 E r = Inr (v3_proposal_digest r)"
      by (simp add: proposal_at_Some validate_digest_ok)
    then show ?thesis unfolding compute_upgrade_proposal_digest_v3_def hash_fixed_image_def Let_def
      by (simp split: if_split_asm)
  qed
  have "wf_upgrade_proposal_v3 (terms_v3 p)" "wf_upgrade_proposal_v3 (terms_v3 q)"
    using assms(1,2) by (simp_all add: proposal_at_Some terms_v3_wf)
  then have "terms_v3 p = terms_v3 q
    \<or> (ser_upgrade_proposal_v3 (terms_v3 p) \<noteq> ser_upgrade_proposal_v3 (terms_v3 q)
       \<and> hashv E [UPGRADE_PROPOSAL_V3_DIGEST_DOMAIN, ser_upgrade_proposal_v3 (terms_v3 p)]
         = hashv E [UPGRADE_PROPOSAL_V3_DIGEST_DOMAIN, ser_upgrade_proposal_v3 (terms_v3 q)])"
    using ser_v3_inject image [OF assms(1)] image [OF assms(2)] assms(3) by metis
  then show ?thesis
  proof
    assume "terms_v3 p = terms_v3 q"
    then show ?thesis by (intro disjI1) (rule same_terms_same_fields [OF _ assms(3)])
  qed (rule disjI2)
qed

section \<open>The freeze\<close>

lemma prepared_rollback_ok:
  assumes "validate_prepared_rollback_v3 E L program ctx primary_info p rollback_info verification_info
      buffer_info slot = Inr ()"
  obtains r ready runway verification
  where "proposal_at E program L (ai_key rollback_info) = Some r"
    "rollback_identity_ok program ctx p r"
    "rollback_link_ok E program primary_info p rollback_info r verification_info verification buffer_info slot"
    "verify_exact_proposal_timing r (lc_config ctx) = Inr ()"
    "unat ready = unat slot + unat (cc_rollback_delay_slots (lc_config ctx))" "ready < v3_expiry_slot r"
    "unat runway = unat (v3_expiry_slot p) + unat (cc_rollback_delay_slots (lc_config ctx))"
    "runway < v3_expiry_slot r"
proof -
  from assms show thesis
    unfolding validate_prepared_rollback_v3_def Let_def
    apply (elim bnd_okE)
    subgoal for r u1 u2 verification u3 u4 ready runway
      by (rule that [of r verification ready runway])
        (simp_all add: result_simps load_v3_ok proposal_at_Some not_le not_less)
    done
qed

lemma exact_timing_ok:
  assumes "verify_exact_proposal_timing p c = Inr ()"
  shows "unat (v3_expiry_slot p) = unat (v3_creation_slot p) + unat (cc_proposal_expiry_slots c)"
    "unat (v3_not_before_slot p) = unat (v3_creation_slot p) + 1 + unat (cc_vote_review_slots c)
       + unat (class_delay c (v3_proposal_class p))"
proof -
  from assms have "derive_proposal_timing c (v3_proposal_class p) (v3_creation_slot p)
      = Inr (v3_review_start_slot p, v3_review_end_slot p, v3_not_before_slot p, v3_expiry_slot p)"
    by (auto simp: verify_exact_proposal_timing_def result_simps)
  from derive_timing_ok [OF this]
  show "unat (v3_expiry_slot p) = unat (v3_creation_slot p) + unat (cc_proposal_expiry_slots c)"
    "unat (v3_not_before_slot p) = unat (v3_creation_slot p) + 1 + unat (cc_vote_review_slots c)
       + unat (class_delay c (v3_proposal_class p))" by auto
qed

text \<open>What a rollback has to be when the proposal it backs is frozen.\<close>

definition rollback_ready_for :: "pubkey \<Rightarrow> pubkey \<Rightarrow> controller_config_v1 \<Rightarrow> u64 \<Rightarrow> upgrade_proposal_v3 \<Rightarrow> upgrade_proposal_v3 \<Rightarrow> bool" where
  "rollback_ready_for k j c slot p r \<longleftrightarrow>
     op_value (v3_rollback_proposal p) = j \<and> op_value (v3_primary_proposal r) = k
     \<and> v3_proposal_class r = proposal_class_v1.EmergencyRollback \<and> v3_state r = Timelocked
     \<and> v3_council_approval_count r = RELEASE1_APPROVAL_THRESHOLD
     \<and> v3_target_program r = cc_target_program c
     \<and> v3_current_deployment_digest r = v3_current_deployment_digest p
     \<and> v3_artifact_sha256 r = v3_rollback_artifact_sha256 p
     \<and> unat slot + unat (cc_rollback_delay_slots c) < unat (v3_expiry_slot r)
     \<and> unat (v3_creation_slot p) + unat (cc_rollback_delay_slots c) < unat (v3_creation_slot r)"

lemma recorded_quorum_ok:
  assumes "require_exact_recorded_quorum council bitset count slot = Inr ()" and "length (gc_seats council) = 5"
  shows "card (voters bitset) = 3" "\<forall>i \<in> voters bitset. i < 5 \<and> seat_in_term (gc_seats council ! i) slot"
proof -
  from assms(1) have b: "bitset < 32" "of_nat (pop_count bitset) = count" "count = RELEASE1_APPROVAL_THRESHOLD"
    and seats: "\<forall>(i, s) \<in> set (enumerate 0 (gc_seats council)). bit bitset i \<longrightarrow> seat_in_term s slot"
    by (auto simp: require_exact_recorded_quorum_def result_simps mask_ok and_shl1_iff)
  have "unat (of_nat (pop_count bitset) :: byte) = unat (3 :: byte)"
    using b(2,3) by (simp add: RELEASE1_APPROVAL_THRESHOLD_def)
  then show "card (voters bitset) = 3" by (simp add: pop_count_byte card_voters)
  show "\<forall>i \<in> voters bitset. i < 5 \<and> seat_in_term (gc_seats council ! i) slot"
    using voters_less [OF b(1)] seats assms(2) by (force simp: in_set_enumerate_eq voters_def)
qed

lemma freeze_runway_ok:
  assumes "require_freeze_execution_runway ext expiry review slot = Inr ()"
  shows "unat slot + unat review + (if ext then 2 else 1) < unat expiry"
  using assms by (auto simp: require_freeze_execution_runway_def result_simps bind_eq_Some_conv
      word_less_nat_alt not_le split: if_splits)

lemma load_config_v3_iff:
  "load_controller_config E L program i = Inr c \<longleftrightarrow>
     owner_of L i = program \<and> wf_controller_config_v1 c \<and> data_of L i = ser_controller_config_v1 c
     \<and> config_validate_static c = Inr ()
     \<and> derive_controller_config_pda E program (cc_target_program c) = (ai_key i, cc_bump c)
     \<and> cc_upgradeable_loader c = loader_id E
     \<and> fst (derive_upgradeable_programdata_address E (cc_target_program c)) = cc_target_programdata c
     \<and> fst (derive_authority_pda E program (cc_target_program c)) = cc_authority_pda c
     \<and> fst (derive_gate_pda E program (cc_target_program c)) = cc_gate_pda c"
  by (auto simp: load_controller_config_def bnd_Inr_iff map_err_Inr_iff controller_config_codec.load_iff
      split: if_split_asm)

lemma load_gate_v3_iff:
  "load_protocol_gate E L program i config_info c = Inr g \<longleftrightarrow>
     owner_of L i = program \<and> wf_gate g \<and> data_of L i = ser_gate g \<and> gate_validate_static g = Inr ()
     \<and> derive_gate_pda E program (cc_target_program c) = (ai_key i, gt_bump g) \<and> ai_key i = cc_gate_pda c
     \<and> gt_controller_config g = ai_key config_info
     \<and> gt_target_program g = cc_target_program c \<and> gt_target_programdata g = cc_target_programdata c"
  by (auto simp: load_protocol_gate_def bnd_Inr_iff map_err_Inr_iff gate_codec.load_iff
      split: if_split_asm)

lemma config_update_loads:
  assumes "load_controller_config E L program i = Inr c" "config_validate_static (c\<lparr>cc_target_nonce := n\<rparr>) = Inr ()"
    and "owner_of M i = owner_of L i" "data_of M i = ser_controller_config_v1 (c\<lparr>cc_target_nonce := n\<rparr>)"
  shows "load_controller_config E M program i = Inr (c\<lparr>cc_target_nonce := n\<rparr>)"
  using assms by (simp add: load_config_v3_iff wf_controller_config_v1_def)

lemma gate_update_loads:
  assumes "load_protocol_gate E L program i config_info c = Inr g" "gate_validate_static (frozen_gate_v3 g e k slot) = Inr ()"
    and "owner_of M i = owner_of L i" "data_of M i = ser_gate (frozen_gate_v3 g e k slot)"
  shows "load_protocol_gate E M program i config_info (c\<lparr>cc_target_nonce := n\<rparr>) = Inr (frozen_gate_v3 g e k slot)"
  using assms by (auto simp: load_gate_v3_iff wf_gate_def frozen_gate_v3_def)

lemma creation_gate_ok:
  assumes "require_creation_gate p c g = Inr ()"
  shows "gt_active_proposal g = 0" "gt_epoch g = v3_creation_gate_epoch p" "v3_target_nonce p = cc_target_nonce c"
  using assms by (auto simp: require_creation_gate_def result_simps)

text \<open>C8: a freeze needs, all at once, a proposal still in its timelock whose delay is
  over, three different seats recorded for it, in their terms, of the very council its terms name, which
  is the one in the council account of the call, room before its expiry for the upgrade and a review, and a
  rollback for the same deployment that is itself approved and timelocked and was created later than the
  proposal by more than the rollback delay; it then freezes the gate for this proposal under the next
  epoch, advances the nonce by one and stamps the proposal, and no other account changes.\<close>
theorem v3_freeze_effect:
  assumes "process_freeze_proposal_v3 E program accounts ix L = Inr M"
  shows "\<exists>slot c g p r council epoch nonce.
    current_slot E = Inr slot
    \<and> load_controller_config E L program (accounts ! 0) = Inr c
    \<and> load_protocol_gate E L program (accounts ! 3) (accounts ! 0) c = Inr g
    \<and> proposal_at E program L (ai_key (accounts ! 6)) = Some p
    \<and> proposal_at E program L (ai_key (accounts ! 11)) = Some r
    \<and> rollback_ready_for (ai_key (accounts ! 6)) (ai_key (accounts ! 11)) c slot p r
    \<and> v3_state p = Timelocked \<and> v3_proposal_class p \<noteq> proposal_class_v1.EmergencyRollback
    \<and> gt_active_proposal g = 0 \<and> gt_epoch g = v3_creation_gate_epoch p
    \<and> unat (v3_creation_slot p) + 1 + unat (cc_vote_review_slots c)
        + unat (class_delay c (v3_proposal_class p)) \<le> unat slot
    \<and> unat slot + unat (cc_vote_review_slots c) + 1 < unat (v3_expiry_slot p)
    \<and> council_at E program L (accounts ! 2) c (v3_creation_council_version p) slot council
    \<and> gc_set_hash council = v3_creation_council_hash p
    \<and> card (voters (v3_council_approval_bitset p)) = 3
    \<and> (\<forall>i \<in> voters (v3_council_approval_bitset p).
         i < 5 \<and> seat_in_term (gc_seats council ! i) (v3_council_approved_slot p))
    \<and> unat epoch = unat (gt_epoch g) + 1 \<and> unat nonce = unat (cc_target_nonce c) + 1
    \<and> proposal_at E program M (ai_key (accounts ! 6)) = Some (frozen_v3 p epoch slot)
    \<and> load_controller_config E M program (accounts ! 0) = Inr (c\<lparr>cc_target_nonce := nonce\<rparr>)
    \<and> load_protocol_gate E M program (accounts ! 3) (accounts ! 0) (c\<lparr>cc_target_nonce := nonce\<rparr>)
        = Inr (frozen_gate_v3 g epoch (ai_key (accounts ! 6)) slot)
    \<and> (\<forall>j. j \<notin> {ai_key (accounts ! 0), ai_key (accounts ! 3), ai_key (accounts ! 6)} \<longrightarrow> M j = L j)"
  using assms
proof (rule freeze_v3_ok, goal_cases)
  case (1 config_info _ council_info gate_info _ _ i _ _ _ _ rollback_info verification_info buffer_info
      slot ctx _ p council epoch nonce runtime)
  note ctx = load_lifecycle_context_ok [OF 1(4)]
  have acc: "accounts ! 0 = config_info" "accounts ! 2 = council_info" "accounts ! 3 = gate_info"
    "accounts ! 6 = i" "accounts ! 11 = rollback_info"
    using 1(1) by simp_all
  note held_council = load_council_at [OF \<open>load_council _ _ _ _ _ _ _ _ _ _ _ = _\<close>]
  have keys: "ai_key config_info \<noteq> ai_key i" "ai_key gate_info \<noteq> ai_key i" "ai_key config_info \<noteq> ai_key gate_info"
    using 1(1,2) by auto
  note council = load_council_ok [OF \<open>load_council _ _ _ _ _ _ _ _ _ _ _ = _\<close>]
  have five: "length (gc_seats council) = 5"
    using council(1) by (simp add: council_set_codec.load_iff wf_council_set_v1_def)
  note gate = creation_gate_ok [OF \<open>require_creation_gate _ _ _ = _\<close>]
  note quorum = recorded_quorum_ok [OF \<open>require_exact_recorded_quorum _ _ _ _ = _\<close> five]
  note time = exact_timing_ok [OF \<open>verify_exact_proposal_timing p _ = _\<close>]
  note runway = freeze_runway_ok [OF \<open>require_freeze_execution_runway _ _ _ _ = _\<close>]
  obtain r where r: "proposal_at E program L (ai_key rollback_info) = Some r"
      "rollback_ready_for (ai_key i) (ai_key rollback_info) (lc_config ctx) slot p r"
  proof (rule prepared_rollback_ok [OF \<open>validate_prepared_rollback_v3 _ _ _ _ _ _ _ _ _ _ = _\<close>], goal_cases)
    case (1 r ready runway verification)
    note rtime = exact_timing_ok(1) [OF \<open>verify_exact_proposal_timing r _ = _\<close>]
    have "rollback_ready_for (ai_key i) (ai_key rollback_info) (lc_config ctx) slot p r"
      using 1(3,4,6,7,8,9) rtime time(1)
      by (simp add: rollback_ready_for_def rollback_identity_ok_def rollback_link_ok_def Let_def word_less_nat_alt)
    then show ?case using 1(1,2) by blast
  qed
  note M = 1(24)
  have held: "owner_of L i = program" "wf_upgrade_proposal_v3 (frozen_v3 p epoch slot)"
    using \<open>proposal_at E program L (ai_key i) = Some p\<close> by (simp_all add: proposal_at_Some wf_v3_updates)
  have after: "proposal_at E program M (ai_key i) = Some (frozen_v3 p epoch slot)"
    "owner_of M config_info = owner_of L config_info" "owner_of M gate_info = owner_of L gate_info"
    "data_of M config_info = ser_controller_config_v1 ((lc_config ctx)\<lparr>cc_target_nonce := nonce\<rparr>)"
    "data_of M gate_info = ser_gate (frozen_gate_v3 (lc_gate ctx) epoch (ai_key i) slot)"
    using M keys held 1 by (simp_all add: proposal_at_Some ledger_simps)
  have elsewhere: "\<forall>j. j \<notin> {ai_key config_info, ai_key gate_info, ai_key i} \<longrightarrow> M j = L j"
    by (simp add: M ledger_simps)
  note loads = config_update_loads [where M = M and L = L and i = config_info,
      OF ctx(1) \<open>config_validate_static _ = _\<close> after(2,4)]
    gate_update_loads [where M = M and L = L and i = gate_info and n = nonce,
      OF ctx(2) \<open>gate_validate_static _ = _\<close> after(3,5)]
  have late: "unat (v3_creation_slot p) + 1 + unat (cc_vote_review_slots (lc_config ctx))
      + unat (class_delay (lc_config ctx) (v3_proposal_class p)) \<le> unat slot"
    using \<open>v3_not_before_slot p \<le> slot\<close> time by (simp add: word_le_nat_alt)
  have early: "unat slot + unat (cc_vote_review_slots (lc_config ctx)) + 1 < unat (v3_expiry_slot p)"
    using runway by (simp add: council_review_slots_def split: if_splits)
  show ?case
    unfolding acc
    apply (rule exI [of _ slot], rule exI [of _ "lc_config ctx"], rule exI [of _ "lc_gate ctx"], rule exI [of _ p],
        rule exI [of _ r], rule exI [of _ council], rule exI [of _ epoch], rule exI [of _ nonce])
    using 1 ctx r gate quorum held_council council after(1) elsewhere loads late early
    by (intro conjI) assumption+
qed

end
