(* ===== verification/V3_Cancel.thy ===== *)
theory V3_Cancel
  imports V3_Safety
begin

text \<open>
  The cancellation of a release 1 proposal.  Approvals to cancel are tallied for the council in force;
  a tally a former council left behind is dropped when the next one votes.  The seats behind a
  cancellation are therefore seats of one council, the current one, and are counted once each.
\<close>

section \<open>Cancellation\<close>

lemma held_cancellation:
  assumes "proposal_at E program L k = Some p"
  shows "v3_cancellation_approval_bitset p < 32"
    "unat (v3_cancellation_approval_count p) = pop_count (v3_cancellation_approval_bitset p)"
    "v3_cancellation_approval_count p \<noteq> 0 \<longleftrightarrow> v3_cancellation_reason_code p \<noteq> 0"
proof -
  from assms have schema: "proposal_v3_validate_schema E p = Inr ()" by (simp add: proposal_at_Some validate_digest_ok)
  then have pair: "validate_versioned_approval (v3_cancellation_council_version p) (v3_cancellation_council_hash p)
         (v3_cancellation_approval_bitset p) (v3_cancellation_approval_count p) = Inr ()"
    by (simp add: proposal_v3_validate_schema_def result_simps)
  then show "v3_cancellation_approval_bitset p < 32"
    "unat (v3_cancellation_approval_count p) = pop_count (v3_cancellation_approval_bitset p)"
    using pop_count_byte [of "v3_cancellation_approval_bitset p"]
    by (auto simp: validate_versioned_approval_def result_simps split: if_splits)
  show "v3_cancellation_approval_count p \<noteq> 0 \<longleftrightarrow> v3_cancellation_reason_code p \<noteq> 0"
    using held_lifecycle(1) [OF assms]
    by (auto simp: validate_upgrade_proposal_v3_lifecycle_def result_simps cancellation_bad_def)
qed

lemma empty_tally: "b < 32 \<Longrightarrow> pop_count (b :: byte) = 0 \<Longrightarrow> voters b = {}"
  by (simp flip: card_voters)

text \<open>The seats counted so far for the council that cancels.\<close>

definition counted_seats :: "upgrade_proposal_v3 \<Rightarrow> council_set_v1 \<Rightarrow> nat set" where
  "counted_seats p council =
     (if stale_cancellation p council then {} else voters (v3_cancellation_approval_bitset p))"

lemma cancelled_fields:
  "v3_cancellation_approval_bitset (cancelled_v3 p b n slot) = b"
  "v3_cancellation_council_version (cancelled_v3 p b n slot) = v3_cancellation_council_version p"
  "v3_cancellation_council_hash (cancelled_v3 p b n slot) = v3_cancellation_council_hash p"
  "v3_cancellation_reason_code (cancelled_v3 p b n slot) = v3_cancellation_reason_code p"
  by (simp_all add: cancelled_v3_def Let_def)

text \<open>Opening a tally over a proposal whose former tally was dropped if it was another council's.\<close>

lemma opened_tally:
  assumes "proposal_at E program L k = Some p"
    and q: "q = (if stale_cancellation p council then reset_cancellation p else p)"
    and reason: "v3_cancellation_reason_code q = 0 \<or> v3_cancellation_reason_code q = reason"
  defines "w \<equiv> open_cancellation q council reason"
  shows "v3_cancellation_council_version w = gc_version council" "v3_cancellation_council_hash w = gc_set_hash council"
    "v3_cancellation_reason_code w = reason" "voters (v3_cancellation_approval_bitset q) = counted_seats p council"
    "v3_state w = v3_state p"
proof -
  note p = held_cancellation [OF assms(1)]
  consider (new) "v3_cancellation_approval_count q = 0"
    | (same) "q = p" "v3_cancellation_approval_count p \<noteq> 0" "\<not> stale_cancellation p council"
    using q by (auto simp: reset_cancellation_def split: if_splits)
  then have "v3_cancellation_council_version w = gc_version council \<and> v3_cancellation_council_hash w = gc_set_hash council
    \<and> v3_cancellation_reason_code w = reason"
  proof cases
    case new
    then show ?thesis by (simp add: w_def open_cancellation_def)
  next
    case same
    then show ?thesis using p(3) reason by (simp add: w_def open_cancellation_def stale_cancellation_def)
  qed
  then show "v3_cancellation_council_version w = gc_version council" "v3_cancellation_council_hash w = gc_set_hash council"
    "v3_cancellation_reason_code w = reason" by simp_all
  show "voters (v3_cancellation_approval_bitset q) = counted_seats p council"
    using q by (simp add: counted_seats_def reset_cancellation_def voters_def)
  show "v3_state w = v3_state p" using q by (simp add: w_def new_states)
qed

text \<open>C10: a successful vote to cancel is a signature of a seat in its
  term that had not voted, not the guardian's, and the council is the one the configuration names as
  current, read from its own address; the tally it leaves belongs to that council alone, what
  a former council had collected being dropped; the reason is the one voted for; and the proposal becomes
  cancelled exactly when the tally reaches three seats, staying as it was otherwise.\<close>
theorem v3_cancellation_counts_one_council:
  assumes "process_cancel_proposal_v3 E program accounts ix L = Inr M"
  shows "\<exists>slot c p q council n.
    current_slot E = Inr slot \<and> load_controller_config E L program (accounts ! 0) = Inr c
    \<and> council_at E program L (accounts ! 2) c (cc_current_council_version c) slot council
    \<and> ai_key (accounts ! 7) \<noteq> cc_guardian c
    \<and> proposal_at E program L (ai_key (accounts ! 6)) = Some p
    \<and> proposal_at E program M (ai_key (accounts ! 6)) = Some q
    \<and> is_prefreeze_state (v3_state p) \<and> slot < v3_expiry_slot p
    \<and> is_signer (accounts ! 7) \<and> n < length (gc_seats council)
    \<and> se_seat_authority (gc_seats council ! n) = ai_key (accounts ! 7)
    \<and> seat_in_term (gc_seats council ! n) slot
    \<and> v3_cancellation_council_version q = gc_version council
    \<and> v3_cancellation_council_hash q = gc_set_hash council
    \<and> v3_cancellation_reason_code q = ca_cancellation_reason_code ix
    \<and> n \<notin> counted_seats p council
    \<and> voters (v3_cancellation_approval_bitset q) = insert n (counted_seats p council)
    \<and> v3_state q = (if card (insert n (counted_seats p council)) = 3 then Cancelled else v3_state p)"
  using assms
proof (rule cancel_v3_ok, goal_cases)
  case (1 config_info _ council_info _ _ _ i seat slot ctx _ council p q bitset count)
  have acc: "accounts ! 0 = config_info" "accounts ! 2 = council_info" "accounts ! 6 = i" "accounts ! 7 = seat"
    using 1(1) by simp_all
  note ctx = load_lifecycle_context_ok(1) [OF \<open>load_lifecycle_context _ _ _ _ _ _ _ = _\<close>]
  note current = load_current_council_at [OF \<open>load_current_council _ _ _ _ _ _ _ _ = _\<close>]
  let ?o = "open_cancellation q council (ca_cancellation_reason_code ix)"
  let ?r = "cancelled_v3 ?o bitset count slot"
  note opened = opened_tally [OF \<open>proposal_at _ _ _ _ = _\<close> \<open>q = _\<close> \<open>_ \<or> _\<close>]
  from \<open>record_seat_approval _ _ _ _ _ = _\<close> obtain n
    where n: "position (\<lambda>s. se_seat_authority s = ai_key seat) (gc_seats council) = Some n"
      "seat_in_term (gc_seats council ! n) slot" "\<not> bit (v3_cancellation_approval_bitset q) n"
      "bitset = v3_cancellation_approval_bitset q OR shl1 n" "count = of_nat (pop_count bitset)"
      "active_at council slot"
    by (auto simp: record_seat_approval_ok)
  note pos = position_Some [OF n(1)]
  from \<open>load_current_council _ _ _ _ _ _ _ _ = _\<close> have "length (gc_seats council) = 5"
    by (auto simp: load_current_council_def result_simps council_set_codec.load_iff wf_council_set_v1_def
        dest!: load_council_ok(1))
  with pos have small: "n < 8" by simp
  have tally: "voters bitset = insert n (counted_seats p council)"
    by (simp add: n(4) voters_or [OF small] opened(4))
  have three: "count = RELEASE1_APPROVAL_THRESHOLD \<longleftrightarrow> card (insert n (counted_seats p council)) = 3"
    using pop_count_byte [of bitset] by (auto simp: n(5) RELEASE1_APPROVAL_THRESHOLD_def card_voters tally [symmetric])
  have wf: "wf_upgrade_proposal_v3 q" "v3_state q = v3_state p"
    using \<open>proposal_at _ _ _ _ = _\<close> \<open>q = _\<close> by (simp_all add: proposal_at_Some wf_v3_updates new_states)
  have "proposal_at E program M (ai_key i) = Some ?r"
    by (rule commit_v3_held [OF \<open>commit_proposal_v3 _ _ _ _ _ = _\<close>]) (simp add: wf wf_v3_updates)
  moreover have "n \<notin> counted_seats p council" using n(3) by (simp add: voters_def flip: opened(4))
  moreover have "v3_cancellation_council_version ?r = gc_version council"
    "v3_cancellation_council_hash ?r = gc_set_hash council"
    "v3_cancellation_reason_code ?r = ca_cancellation_reason_code ix"
    "voters (v3_cancellation_approval_bitset ?r) = insert n (counted_seats p council)"
    by (simp_all only: cancelled_fields opened tally)
  moreover have "v3_state ?r = (if card (insert n (counted_seats p council)) = 3 then Cancelled else v3_state p)"
    by (simp only: new_states three wf(2))
  moreover have "n < length (gc_seats council)" "se_seat_authority (gc_seats council ! n) = ai_key seat"
    using pos by simp_all
  ultimately show ?case
    unfolding acc using ctx current \<open>ai_key seat \<noteq> _\<close> \<open>current_slot E = _\<close> \<open>proposal_at E program L _ = _\<close> \<open>is_prefreeze_state _\<close>
      \<open>slot < _\<close> \<open>is_signer seat\<close> n(2) by blast
qed

end
