(* ===== verification/Governance_Runs.thy ===== *)
theory Governance_Runs
  imports Governance_Facts
begin

text \<open>Concrete Version 1 accounts in the sample environment, and the properties applied to them.\<close>

definition sample_policy_v1 :: governance_policy_v1 where
  "sample_policy_v1 =
     \<lparr>gp_discriminator = GOVERNANCE_POLICY_DISCRIMINATOR, gp_account_version = 1, gp_bump = 255,
      gp_initialized = True, gp_controller_config = 11, gp_version = 1, gp_target_program = 12,
      gp_activation_slot = 1, gp_council_size = 5, gp_routine_threshold = 3, gp_terminal_threshold = 4,
      gp_governance_mode = BootstrapCouncilOnly, gp_policy_flags = 0, gp_veto_quorum_bps = 0,
      gp_affirmative_quorum_bps = 0, gp_affirmative_approval_bps = 0, gp_routine_requires_vote = False,
      gp_economic_requires_vote = False, gp_constitutional_requires_vote = False,
      gp_rotation_requires_vote = False, gp_immutability_requires_vote = False, gp_policy_hash = 123,
      gp_reserved = replicate 21 0\<rparr>"

definition sample_seat_v1 :: "pubkey \<Rightarrow> council_seat_v1" where
  "sample_seat_v1 key =
     \<lparr>se_seat_authority = key, se_term_start_slot = 1, se_term_end_slot = 1000, se_active = True,
      se_reserved = replicate 47 0\<rparr>"

definition sample_council_v1 :: council_set_v1 where
  "sample_council_v1 =
     \<lparr>gc_discriminator = GOVERNANCE_COUNCIL_DISCRIMINATOR, gc_account_version = 1, gc_bump = 255,
      gc_initialized = True, gc_controller_config = 11, gc_version = 1, gc_target_program = 12,
      gc_activation_slot = 1, gc_deactivation_slot = 0,
      gc_seats = map sample_seat_v1 [21, 22, 23, 24, 25], gc_routine_threshold = 3,
      gc_terminal_threshold = 4, gc_policy_flags = 0, gc_set_hash = 364, gc_reserved = replicate 26 0\<rparr>"

definition sample_upgrade_v1 :: upgrade_proposal_v1 where
  "sample_upgrade_v1 =
     \<lparr>up_discriminator = UPGRADE_PROPOSAL_DISCRIMINATOR, up_account_version = 1, up_bump = 255,
      up_initialized = True, up_proposal_id = 0, up_target_nonce = 0,
      up_proposal_class = RoutineUpgrade, up_state = Draft, up_cluster_domain = 1,
      up_controller_program = 40, up_controller_config = 11, up_protocol_gate = 41,
      up_policy_version = 1, up_policy_hash = 123, up_council_version = 1,
      up_council_hash = 364, up_creation_gate_epoch = 4, up_freeze_gate_epoch = 5,
      up_target_program = 12, up_target_programdata = 42, up_upgradeable_loader = 901,
      up_authority_pda = 15, up_canonical_spill_treasury = 43, up_buffer_pubkey = 16,
      up_buffer_loader_owner = 901, up_buffer_authority = 15, up_artifact_length = 100,
      up_artifact_sha256 = 77, up_source_commit_hash = 1, up_source_tree_hash = 1,
      up_build_input_inventory_hash = 1, up_reproducible_build_receipt_hash = 1,
      up_package_receipt_hash = 1, up_release_intent_hash = 1,
      up_current_deployed_payload_hash = 1, up_current_raw_programdata_hash = 1,
      up_deployed_slot = 0, up_current_capacity = 900, up_extension_delta = 100,
      up_expected_post_capacity = 1000, up_prestate_checkpoint = 44,
      up_required_poststate_checkpoint = 45, up_rollback_proposal = optional_none,
      up_rollback_buffer = optional_none, up_rollback_artifact_hash = 0,
      up_vote_requirement = NoVote, up_vote_program = 0, up_vote_result_pda = 0,
      up_review_start_slot = 10, up_review_end_slot = 20, up_not_before_slot = 30,
      up_expiry_slot = 90, up_council_approval_bitset = 0, up_council_approval_count = 0,
      up_poststate_approval_bitset = 0, up_poststate_approval_count = 0,
      up_unfreeze_approval_bitset = 0, up_unfreeze_approval_count = 0,
      up_proposal_digest = 1110, up_cancellation_reason_code = 0, up_terminal_reason_code = 0,
      up_reserved = replicate 142 0\<rparr>"

lemma sample_upgrade_fields [simp]:
  "up_discriminator sample_upgrade_v1 = UPGRADE_PROPOSAL_DISCRIMINATOR"
  "up_account_version sample_upgrade_v1 = 1" "up_bump sample_upgrade_v1 = 255"
  "up_initialized sample_upgrade_v1 = True" "up_proposal_id sample_upgrade_v1 = 0"
  "up_target_nonce sample_upgrade_v1 = 0" "up_proposal_class sample_upgrade_v1 = RoutineUpgrade"
  "up_state sample_upgrade_v1 = Draft" "up_cluster_domain sample_upgrade_v1 = 1"
  "up_controller_program sample_upgrade_v1 = 40" "up_controller_config sample_upgrade_v1 = 11"
  "up_protocol_gate sample_upgrade_v1 = 41" "up_policy_version sample_upgrade_v1 = 1"
  "up_policy_hash sample_upgrade_v1 = 123" "up_council_version sample_upgrade_v1 = 1"
  "up_council_hash sample_upgrade_v1 = 364" "up_creation_gate_epoch sample_upgrade_v1 = 4"
  "up_freeze_gate_epoch sample_upgrade_v1 = 5" "up_target_program sample_upgrade_v1 = 12"
  "up_target_programdata sample_upgrade_v1 = 42" "up_upgradeable_loader sample_upgrade_v1 = 901"
  "up_authority_pda sample_upgrade_v1 = 15" "up_canonical_spill_treasury sample_upgrade_v1 = 43"
  "up_buffer_pubkey sample_upgrade_v1 = 16" "up_buffer_loader_owner sample_upgrade_v1 = 901"
  "up_buffer_authority sample_upgrade_v1 = 15" "up_artifact_length sample_upgrade_v1 = 100"
  "up_artifact_sha256 sample_upgrade_v1 = 77" "up_source_commit_hash sample_upgrade_v1 = 1"
  "up_source_tree_hash sample_upgrade_v1 = 1" "up_build_input_inventory_hash sample_upgrade_v1 = 1"
  "up_reproducible_build_receipt_hash sample_upgrade_v1 = 1" "up_package_receipt_hash sample_upgrade_v1 = 1"
  "up_release_intent_hash sample_upgrade_v1 = 1" "up_current_deployed_payload_hash sample_upgrade_v1 = 1"
  "up_current_raw_programdata_hash sample_upgrade_v1 = 1" "up_deployed_slot sample_upgrade_v1 = 0"
  "up_current_capacity sample_upgrade_v1 = 900" "up_extension_delta sample_upgrade_v1 = 100"
  "up_expected_post_capacity sample_upgrade_v1 = 1000" "up_prestate_checkpoint sample_upgrade_v1 = 44"
  "up_required_poststate_checkpoint sample_upgrade_v1 = 45"
  "up_rollback_proposal sample_upgrade_v1 = optional_none"
  "up_rollback_buffer sample_upgrade_v1 = optional_none" "up_rollback_artifact_hash sample_upgrade_v1 = 0"
  "up_vote_requirement sample_upgrade_v1 = NoVote" "up_vote_program sample_upgrade_v1 = 0"
  "up_vote_result_pda sample_upgrade_v1 = 0" "up_review_start_slot sample_upgrade_v1 = 10"
  "up_review_end_slot sample_upgrade_v1 = 20" "up_not_before_slot sample_upgrade_v1 = 30"
  "up_expiry_slot sample_upgrade_v1 = 90" "up_council_approval_bitset sample_upgrade_v1 = 0"
  "up_council_approval_count sample_upgrade_v1 = 0" "up_poststate_approval_bitset sample_upgrade_v1 = 0"
  "up_poststate_approval_count sample_upgrade_v1 = 0" "up_unfreeze_approval_bitset sample_upgrade_v1 = 0"
  "up_unfreeze_approval_count sample_upgrade_v1 = 0" "up_proposal_digest sample_upgrade_v1 = 1110"
  "up_cancellation_reason_code sample_upgrade_v1 = 0" "up_terminal_reason_code sample_upgrade_v1 = 0"
  "up_reserved sample_upgrade_v1 = replicate 142 0"
  unfolding sample_upgrade_v1_def by (rule upgrade_proposal_v1.select_convs)+

lemma sample_policy_material: "length (canonical_policy_hash_material sample_policy_v1) = 96"
proof -
  have "canonical_policy_hash_material sample_policy_v1 = concat (policy_hash_fields sample_policy_v1)"
    unfolding canonical_policy_hash_material_def
    by (rule put_all_zeroed) (simp add: policy_hash_fields_def POLICY_HASH_MATERIAL_LEN_def)
  then show ?thesis by (simp add: policy_hash_fields_def)
qed

lemma sample_policy_valid: "validate_policy sample_env sample_policy_v1 = Inr ()"
proof -
  have "compute_policy_hash sample_env sample_policy_v1 = 123"
    by (simp add: compute_policy_hash_def hashv_def sample_policy_material POLICY_HASH_DOMAIN_V1_def)
  then show ?thesis
    by (simp add: validate_policy_def sample_policy_v1_def result_simps ACCOUNT_VERSION_V1_def)
qed

lemma sample_council_material: "length (canonical_council_hash_material sample_council_v1) = 336"
proof -
  have "canonical_council_hash_material sample_council_v1 = concat (council_hash_fields sample_council_v1)"
    unfolding canonical_council_hash_material_def
    by (rule put_all_zeroed) (simp add: council_hash_fields_def COUNCIL_SET_HASH_MATERIAL_LEN_def sample_council_v1_def)
  then show ?thesis by (simp add: council_hash_fields_def sample_council_v1_def)
qed

lemma sample_council_wf: "wf_council_set_v1 sample_council_v1"
  by (simp add: wf_council_set_v1_def sample_council_v1_def wf_council_seat_v1_def sample_seat_v1_def
      GOVERNANCE_COUNCIL_DISCRIMINATOR_def)

lemma sample_council_valid: "validate_council_set sample_env sample_council_v1 sample_policy_v1 = Inr ()"
proof -
  have "compute_council_set_hash sample_env sample_council_v1 = 364"
    by (simp add: compute_council_set_hash_def hashv_def sample_council_material COUNCIL_SET_HASH_DOMAIN_V1_def)
  then show ?thesis
    using sample_policy_valid
    by (simp add: validate_council_set_def sample_council_v1_def sample_policy_v1_def result_simps
        ACCOUNT_VERSION_V1_def validate_seat_def seat_in_term_def sample_seat_v1_def not_le word_less_nat_alt)
qed

text \<open>Proposals that differ from the sample in the mutable fields alone stay valid.\<close>

definition sample_version :: "proposal_state_v1 \<Rightarrow> byte \<Rightarrow> upgrade_proposal_v1" where
  "sample_version s b = sample_upgrade_v1\<lparr>up_state := s, up_council_approval_bitset := b,
     up_council_approval_count := of_nat (pop_count b)\<rparr>"

lemma sample_digest: "compute_proposal_digest sample_env (sample_version s b) = Inr 1110"
  by (simp add: compute_proposal_digest_ok length_digest_preimage sample_version_def
      optional_none_def)

lemma sample_valid:
  assumes "b < 32"
  shows "validate_proposal_against_policy sample_env (sample_version s b) sample_policy_v1 = Inr ()"
proof -
  have v: "up_discriminator (sample_version s b) = UPGRADE_PROPOSAL_DISCRIMINATOR"
    "up_proposal_digest (sample_version s b) = 1110"
    by (simp_all add: sample_version_def)
  have pair: "validate_approval_pair b (of_nat (pop_count b)) = Inr ()"
    using assms pop_count_byte [of b] by (simp add: result_simps unat_of_nat)
  have "validate_proposal_static sample_env (sample_version s b) = Inr ()"
    unfolding validate_proposal_static_def
    using sample_digest [of s b] v
    by (simp add: sample_version_def ACCOUNT_VERSION_V1_def result_simps optional_none_def
        is_code_upgrade_def checked_add_def pair)
  then show ?thesis
    using sample_policy_valid
    by (simp add: validate_proposal_against_policy_def vote_requirement_for_class_def)
       (simp add: sample_version_def sample_policy_v1_def)
qed

theorem digest_binds_terms_witness:
  "sample_version Draft 0 = (sample_version BufferVerified 7)
     \<lparr>up_state := Draft, up_council_approval_bitset := 0, up_council_approval_count := 0\<rparr>"
proof -
  let ?p = "sample_version Draft 0" and ?q = "sample_version BufferVerified 7"
  have "digest_preimage ?p = digest_preimage ?q"
    by (simp add: digest_preimage_def proposal_digest_fields_def sample_version_def)
  then have "inj_on (sha256 sample_env) {digest_preimage ?p, digest_preimage ?q}" by simp
  from digest_binds_terms [OF sample_digest sample_digest this]
  show ?thesis by (simp add: sample_version_def)
qed

lemma sample_transition:
  "validate_proposal_transition sample_env (sample_version Draft 0) sample_policy_v1 BufferAdopted = Inr ()"
  using sample_valid [of 0 Draft]
  by (simp add: validate_proposal_transition_def)
     (simp add: sample_version_def is_code_upgrade_def is_terminal_def
      transition_allowed_def)

theorem validated_life_ends_witness:
  "length [sample_version Draft 0, sample_version BufferAdopted 0] \<le> 13"
  using validated_life_ends [of sample_env sample_policy_v1 "[sample_version Draft 0, sample_version BufferAdopted 0]"]
    sample_transition by (simp add: sample_version_def)

lemma position_map: "position P (map f xs) = position (\<lambda>x. P (f x)) xs"
  by (induction xs) auto

abbreviation sample_keys :: "pubkey list" where "sample_keys \<equiv> [21, 22, 23, 24, 25]"

lemma sample_record:
  assumes "b < 32"
  shows "record_proposal_approval sample_env sample_council_v1 sample_policy_v1 1
      (sample_version BufferVerified b) a 1110 15
    = record_seat_approval sample_council_v1 b (of_nat (pop_count b)) a 15"
proof -
  have p: "up_state (sample_version BufferVerified b) = BufferVerified"
    "up_proposal_digest (sample_version BufferVerified b) = 1110"
    "up_council_version (sample_version BufferVerified b) = 1"
    "up_council_hash (sample_version BufferVerified b) = 364"
    "up_council_approval_bitset (sample_version BufferVerified b) = b"
    "up_council_approval_count (sample_version BufferVerified b) = of_nat (pop_count b)"
    by (simp_all add: sample_version_def)
  have c: "gc_version sample_council_v1 = 1" "gc_set_hash sample_council_v1 = 364"
    by (simp_all add: sample_council_v1_def)
  show ?thesis
    using sample_valid [OF assms, of BufferVerified] sample_council_valid
    by (simp add: record_proposal_approval_def p c)
qed

lemma sample_seats:
  "gc_seats sample_council_v1 = map sample_seat_v1 sample_keys" "active_at sample_council_v1 15"
  by (simp_all add: sample_council_v1_def active_at_def)

lemma sample_position:
  "position (\<lambda>s. se_seat_authority s = a) (gc_seats sample_council_v1) = position (\<lambda>k. k = a) sample_keys"
  unfolding sample_seats position_map by (simp add: sample_seat_v1_def)

lemma sample_in_term:
  assumes "i < 5"
  shows "seat_in_term (gc_seats sample_council_v1 ! i) 15"
proof -
  have "gc_seats sample_council_v1 ! i = sample_seat_v1 (sample_keys ! i)"
    unfolding sample_seats using assms by (intro nth_map) simp
  then show ?thesis by (simp add: sample_seat_v1_def seat_in_term_def word_less_nat_alt)
qed

lemma sample_approvals:
  assumes "b < 32"
  shows "i < 5 \<Longrightarrow> \<not> bit b i \<Longrightarrow> record_seat_approval sample_council_v1 b (of_nat (pop_count b)) (sample_keys ! i) 15
      = Inr (b OR shl1 i, of_nat (pop_count (b OR shl1 i)))"
    and "i < 5 \<Longrightarrow> bit b i \<Longrightarrow> record_seat_approval sample_council_v1 b (of_nat (pop_count b)) (sample_keys ! i) 15
      = Inl DuplicateApproval_gov"
    and "a \<notin> set sample_keys \<Longrightarrow> record_seat_approval sample_council_v1 b (of_nat (pop_count b)) a 15
      = Inl UnknownSeatAuthority"
proof -
  have enc: "validate_approval_encoding b (of_nat (pop_count b)) = Inr ()"
    using assms by (simp add: result_simps)
  have pos: "position (\<lambda>k. k = sample_keys ! i) sample_keys = Some i" if "i < 5"
    by (rule position_distinct_nth) (use that in simp_all)
  show "i < 5 \<Longrightarrow> \<not> bit b i \<Longrightarrow> record_seat_approval sample_council_v1 b (of_nat (pop_count b)) (sample_keys ! i) 15
      = Inr (b OR shl1 i, of_nat (pop_count (b OR shl1 i)))"
    "i < 5 \<Longrightarrow> bit b i \<Longrightarrow> record_seat_approval sample_council_v1 b (of_nat (pop_count b)) (sample_keys ! i) 15
      = Inl DuplicateApproval_gov"
    unfolding record_seat_approval_def sample_position
    by (simp_all only: pos enc bnd.simps ok_or_simps sample_seats(2) sample_in_term if_False if_True simp_thms Let_def
        and_shl1_iff)
  assume "a \<notin> set sample_keys"
  then have "position (\<lambda>k. k = a) sample_keys = None" by (auto simp: position_None)
  then show "record_seat_approval sample_council_v1 b (of_nat (pop_count b)) a 15 = Inl UnknownSeatAuthority"
    unfolding record_seat_approval_def sample_position by (simp only: enc bnd.simps ok_or_simps)
qed

text \<open>Seats 0, 2 and 4 approve; seat 2 tries twice and an outsider once.\<close>

lemma sample_collected:
  "collect_approvals sample_env sample_council_v1 sample_policy_v1 1
     [(21, 1110, 15), (23, 1110, 15), (23, 1110, 15), (99, 1110, 15), (25, 1110, 15)]
     (sample_version BufferVerified 0, [])
   = (sample_version BufferVerified 21, [(21, 1110), (23, 1110), (25, 1110)])"
proof -
  let ?r = "\<lambda>b a. record_proposal_approval sample_env sample_council_v1 sample_policy_v1 1
      (sample_version BufferVerified b) a 1110 15"
  have pops: "pop_count (1 :: byte) = 1" "pop_count (5 :: byte) = 2" "pop_count (21 :: byte) = 3"
    by (simp_all add: pop_count_def upt_rec)
  have ok: "?r 0 21 = Inr (1, 1)" "?r 1 23 = Inr (5, 2)" "?r 5 23 = Inl DuplicateApproval_gov"
      "?r 5 99 = Inl UnknownSeatAuthority" "?r 5 25 = Inr (21, 3)"
    using sample_approvals(1) [of 0 0] sample_approvals(1) [of 1 2] sample_approvals(1) [of 5 4]
      sample_approvals(2) [of 5 2] sample_approvals(3) [of 5 99]
    by (simp_all add: sample_record shl1_def pops)
  have step: "(sample_version BufferVerified b)\<lparr>up_council_approval_bitset := b',
      up_council_approval_count := of_nat (pop_count b')\<rparr> = sample_version BufferVerified b'" for b b'
    by (simp add: sample_version_def)
  show ?thesis
    using step [where b = 0 and b' = 1] step [where b = 1 and b' = 5] step [where b = 5 and b' = 21] ok pops
    by simp
qed

lemma sample_quorum:
  "evaluate_proposal_quorum sample_env sample_council_v1 sample_policy_v1 1 (sample_version BufferVerified 21) 15
     = Inr \<lparr>qe_total_approvals = 3, qe_required_approvals = 3\<rparr>"
proof -
  have p: "up_council_version (sample_version BufferVerified 21) = 1"
    "up_council_hash (sample_version BufferVerified 21) = 364"
    "up_council_approval_bitset (sample_version BufferVerified 21) = 21"
    "up_council_approval_count (sample_version BufferVerified 21) = of_nat (pop_count (21 :: byte))"
    "up_proposal_class (sample_version BufferVerified 21) = RoutineUpgrade"
    "gc_version sample_council_v1 = 1" "gc_set_hash sample_council_v1 = 364"
    by (simp_all add: sample_version_def sample_council_v1_def)
  have five: "length (gc_seats sample_council_v1) = 5" by (simp add: sample_seats)
  have b: "(21 :: byte) < 32" by simp
  have pop: "card (voters (21 :: byte)) = 3"
    by (simp add: card_voters pop_count_def upt_rec)
  have "\<forall>i \<in> voters (21 :: byte). seat_in_term (gc_seats sample_council_v1 ! i) 15"
    using voters_less [OF b] sample_in_term by auto
  then show ?thesis
    using sample_valid [OF b, of BufferVerified] sample_council_valid sample_seats(2) pop
    unfolding evaluate_proposal_quorum_ok [OF five] p by simp
qed

theorem quorum_counts_accepted_approvals_witness:
  "length [(21 :: pubkey, 1110 :: hash32), (23, 1110), (25, 1110)]
     = unat (qe_total_approvals \<lparr>qe_total_approvals = 3, qe_required_approvals = 3\<rparr>)"
  using quorum_counts_accepted_approvals [OF sample_council_wf _ sample_collected sample_quorum]
  by (simp add: sample_version_def)

end
