(* ===== verification/V3_Samples.thy ===== *)
theory V3_Samples
  imports V3_Cancel Governance_Runs
begin

text \<open>
  A concrete controller for the Release 1 handlers: its accounts at their derived addresses in a sample
  environment, two proposals and the stages of their lives.
\<close>

section \<open>Addresses\<close>

text \<open>An address that tells the derivations of one controller apart: the length of the seeds and the
  first byte of the last.\<close>

definition v3_find :: "byte list list \<Rightarrow> pubkey \<Rightarrow> pubkey \<times> byte" where
  "v3_find seeds program = (1000 * of_nat (length (concat seeds)) + ucast (hd (last seeds)), 255)"

definition v3_env :: "u64 \<Rightarrow> env" where
  "v3_env slot = sample_env\<lparr>find_program_address := v3_find, clock_get := Inr slot\<rparr>"

lemma v3_env_simps [simp]:
  "sha256 (v3_env slot) bs = of_nat (length bs)" "find_program_address (v3_env slot) = v3_find"
  "clock_get (v3_env slot) = Inr slot" "loader_id (v3_env slot) = 901"
  "system_program_id (v3_env slot) = 0"
  by (simp_all add: v3_env_def)

lemma v3_env_chain: "same_chain (v3_env slot) (v3_env slot')"
  by (simp add: same_chain_def v3_env_def)

lemma hd_le_bytes: "0 < n \<Longrightarrow> hd (le_bytes n w) = ucast w"
  by (cases n) (simp_all add: le_bytes.simps)

lemma le_bytes_not_Nil: "0 < n \<Longrightarrow> le_bytes n w \<noteq> []"
  by (cases n) (simp_all add: le_bytes.simps)

lemmas v3_derivation_defs = derive_upgradeable_programdata_address_def derive_controller_config_pda_def
  derive_authority_pda_def derive_gate_pda_def derive_policy_pda_def derive_council_pda_def
  derive_proposal_pda_def derive_checkpoint_pda_def derive_buffer_check_pda_def
  derive_programdata_check_pda_def derive_capacity_policy_pda_def derive_current_deployment_state_pda_def

lemma v3_addresses [simp]:
  "derive_upgradeable_programdata_address (v3_env slot) 7 = (32007, 255)"
  "derive_controller_config_pda (v3_env slot) 500 7 = (54007, 255)"
  "derive_authority_pda (v3_env slot) 500 7 = (57007, 255)"
  "derive_gate_pda (v3_env slot) 500 7 = (52007, 255)"
  "derive_policy_pda (v3_env slot) 500 7 1 = (62001, 255)"
  "derive_council_pda (v3_env slot) 500 7 1 = (63001, 255)"
  "derive_proposal_pda (v3_env slot) 500 7 1 = (64001, 255)"
  "derive_proposal_pda (v3_env slot) 500 7 2 = (64002, 255)"
  "derive_capacity_policy_pda (v3_env slot) 500 7 = (63007, 255)"
  "derive_current_deployment_state_pda (v3_env slot) 500 7 = (64007, 255)"
  "derive_buffer_check_pda (v3_env slot) 500 64001 = (60001, 255)"
  "derive_buffer_check_pda (v3_env slot) 500 64002 = (60002, 255)"
  "derive_programdata_check_pda (v3_env slot) 500 64001 = (65001, 255)"
  "derive_programdata_check_pda (v3_env slot) 500 64002 = (65002, 255)"
  "derive_checkpoint_pda (v3_env slot) 500 64001 checkpoint_phase_v1.Prestate = (59000, 255)"
  "derive_checkpoint_pda (v3_env slot) 500 64001 checkpoint_phase_v1.Poststate = (59001, 255)"
  "derive_checkpoint_pda (v3_env slot) 500 64002 checkpoint_phase_v1.Prestate = (59000, 255)"
  "derive_checkpoint_pda (v3_env slot) 500 64002 checkpoint_phase_v1.Poststate = (59001, 255)"
  by (simp_all add: v3_derivation_defs v3_find_def hd_le_bytes seed_defs)

section \<open>The singletons\<close>

definition v3_config :: controller_config_v1 where
  "v3_config =
     \<lparr>cc_discriminator = CONTROLLER_CONFIG_DISCRIMINATOR, cc_version = 1, cc_bump = 255, cc_initialized = True,
      cc_cluster_domain = 1, cc_target_program = 7, cc_target_programdata = 32007,
      cc_upgradeable_loader = 901, cc_authority_pda = 57007, cc_gate_pda = 52007,
      cc_canonical_spill_treasury = 43, cc_current_council_version = 1, cc_current_policy_version = 1,
      cc_next_proposal_id = 3, cc_target_nonce = 1, cc_guardian = 26, cc_vote_program = 0,
      cc_vote_programdata = 0, cc_vote_config = 0, cc_vote_mint = 0, cc_token_governance_enabled = False,
      cc_routine_delay_slots = 10, cc_major_delay_slots = 20, cc_rollback_delay_slots = 5,
      cc_terminal_delay_slots = 30, cc_vote_review_slots = 7, cc_proposal_expiry_slots = 100,
      cc_policy_flags = 0, cc_reserved = replicate 28 0\<rparr>"

lemma v3_config_wf: "wf_controller_config_v1 v3_config"
  by (simp add: wf_controller_config_v1_def v3_config_def CONTROLLER_CONFIG_DISCRIMINATOR_def)

lemma v3_config_static:
  "config_validate_static v3_config = Inr ()" "config_validate_static (v3_config\<lparr>cc_target_nonce := 2\<rparr>) = Inr ()"
  by (simp_all add: config_validate_static_def v3_config_def validate_header_def validate_reserved_def
      ACCOUNT_VERSION_V1_def checked_add_def RELEASE1_MIN_ROUTINE_DELAY_SLOTS_def
      RELEASE1_MIN_MAJOR_DELAY_SLOTS_def RELEASE1_MIN_ROLLBACK_DELAY_SLOTS_def RELEASE1_MIN_TERMINAL_DELAY_SLOTS_def
      RELEASE1_MIN_COUNCIL_REVIEW_SLOTS_def RELEASE1_MIN_PROPOSAL_EXPIRY_SLOTS_def)

definition v3_gate :: protocol_gate where
  "v3_gate =
     \<lparr>gt_discriminator = PROTOCOL_GATE_DISCRIMINATOR, gt_version = 1, gt_bump = 255, gt_initialized = True,
      gt_status = Active, gt_controller_config = 54007, gt_target_program = 7,
      gt_target_programdata = 32007, gt_epoch = 4, gt_active_proposal = 0, gt_freeze_slot = 0,
      gt_freeze_reason_code = 0, gt_last_completed_proposal = 0, gt_reserved = replicate 2 0\<rparr>"

lemma v3_gate_ok:
  "wf_gate v3_gate" "gate_validate_static v3_gate = Inr ()"
  "gate_validate_static (frozen_gate_v3 v3_gate 5 64001 130) = Inr ()"
  by (simp_all add: wf_gate_def v3_gate_def frozen_gate_v3_def gate_validate_static_def PROTOCOL_GATE_DISCRIMINATOR_def
      validate_header_def validate_reserved_def ACCOUNT_VERSION_V1_def GOVERNED_UPGRADE_FREEZE_REASON_V3_def)

definition v3_policy :: governance_policy_v1 where
  "v3_policy = sample_policy_v1\<lparr>gp_controller_config := 54007, gp_target_program := 7\<rparr>"

definition v3_council :: council_set_v1 where
  "v3_council = sample_council_v1\<lparr>gc_controller_config := 54007, gc_target_program := 7\<rparr>"

lemma v3_policy_valid: "validate_policy (v3_env slot) v3_policy = Inr ()"
proof -
  have "canonical_policy_hash_material v3_policy = concat (policy_hash_fields v3_policy)"
    unfolding canonical_policy_hash_material_def
    by (rule put_all_zeroed) (simp add: policy_hash_fields_def POLICY_HASH_MATERIAL_LEN_def)
  then have "compute_policy_hash (v3_env slot) v3_policy = 123"
    by (simp add: compute_policy_hash_def hashv_def policy_hash_fields_def POLICY_HASH_DOMAIN_V1_def)
  then show ?thesis
    by (simp add: validate_policy_def v3_policy_def sample_policy_v1_def result_simps ACCOUNT_VERSION_V1_def)
qed

lemma v3_policy_fields:
  "gp_controller_config v3_policy = 54007" "gp_target_program v3_policy = 7" "gp_version v3_policy = 1"
  "gp_bump v3_policy = 255" "gp_activation_slot v3_policy = 1"
  by (simp_all add: v3_policy_def sample_policy_v1_def)

lemma v3_policy_ok:
  "wf_governance_policy_v1 v3_policy" "validate_policy_against_config (v3_env slot) v3_policy v3_config = Inr ()"
proof -
  show "wf_governance_policy_v1 v3_policy"
    by (simp add: wf_governance_policy_v1_def v3_policy_def sample_policy_v1_def GOVERNANCE_POLICY_DISCRIMINATOR_def)
  show "validate_policy_against_config (v3_env slot) v3_policy v3_config = Inr ()"
    unfolding validate_policy_against_config_def v3_config_static v3_policy_valid bnd.simps v3_policy_fields
    by (simp add: v3_config_def)
qed

lemma v3_seats: "gc_seats v3_council = map sample_seat_v1 [21, 22, 23, 24, 25]"
  by (simp add: v3_council_def sample_council_v1_def)

lemma v3_council_valid: "validate_council_set (v3_env slot) v3_council v3_policy = Inr ()"
proof -
  have "canonical_council_hash_material v3_council = concat (council_hash_fields v3_council)"
    unfolding canonical_council_hash_material_def
    by (rule put_all_zeroed) (simp add: council_hash_fields_def COUNCIL_SET_HASH_MATERIAL_LEN_def v3_council_def sample_council_v1_def)
  then have "compute_council_set_hash (v3_env slot) v3_council = 364"
    by (simp add: compute_council_set_hash_def hashv_def council_hash_fields_def COUNCIL_SET_HASH_DOMAIN_V1_def
        v3_council_def sample_council_v1_def)
  then show ?thesis
    using v3_policy_valid [of slot]
    by (simp add: validate_council_set_def v3_council_def v3_policy_def sample_council_v1_def sample_policy_v1_def
        result_simps ACCOUNT_VERSION_V1_def validate_seat_def seat_in_term_def sample_seat_v1_def not_le
        word_less_nat_alt)
qed

lemma v3_council_ok:
  "wf_council_set_v1 v3_council" "validate_council_guardian_separation v3_council 26 = Inr ()"
  "gc_version v3_council = 1" "gc_set_hash v3_council = 364" "gc_bump v3_council = 255"
  "gc_controller_config v3_council = 54007" "gc_target_program v3_council = 7" "active_at v3_council slot \<longleftrightarrow> 1 \<le> slot"
  by (simp_all add: wf_council_set_v1_def wf_council_seat_v1_def sample_seat_v1_def v3_council_def
      sample_council_v1_def GOVERNANCE_COUNCIL_DISCRIMINATOR_def validate_council_guardian_separation_def active_at_def)

definition v3_capacity :: capacity_policy_v1 where
  "v3_capacity =
     \<lparr>cp_discriminator = PROGRAMDATA_CAPACITY_POLICY_V1_DISCRIMINATOR, cp_version = 1, cp_bump = 255,
      cp_initialized = True, cp_controller_program = 500, cp_controller_config = 54007,
      cp_target_program = 7, cp_target_programdata = 32007, cp_upgradeable_loader = 901,
      cp_loader_programdata_metadata_len = 45, cp_maximum_raw_programdata_length = 10485760,
      cp_maximum_payload_capacity = 10485715, cp_maximum_artifact_length = 1572864,
      cp_observation_scheme_id = PROGRAMDATA_OBSERVATION_MERKLE_SCHEME_ID_V1,
      cp_observation_chunk_size = 16384, cp_observation_max_chunk_count = 640,
      cp_observation_padded_leaf_count = 1024, cp_observation_tree_depth = 10,
      cp_observation_frontier_hash_count = 11, cp_artifact_scheme_id = ARTIFACT_MERKLE_SCHEME_ID,
      cp_artifact_chunk_size = 16384, cp_zero_tail_required = True,
      cp_extend_program_checked_feature = EXTEND_PROGRAM_CHECKED_FEATURE_ID_V1,
      cp_set_authority_checked_feature = SET_AUTHORITY_CHECKED_FEATURE_ID_V1,
      cp_policy_digest = 549, cp_creation_slot = 3, cp_reserved = replicate 122 0\<rparr>"

lemma v3_capacity_wf: "wf_capacity_policy_v1 v3_capacity"
  by (simp add: wf_capacity_policy_v1_def v3_capacity_def PROGRAMDATA_CAPACITY_POLICY_V1_DISCRIMINATOR_def)

lemma npo2_640: "next_power_of_two 640 = 1024"
  by code_simp

lemma trailing_1024: "u32_trailing_zeros 1024 = 10"
  by (simp add: u32_trailing_zeros_def upt_rec bit_simps)

lemma observation_geometry_full: "observation_geometry 10485760 16384 = Inr (640, 1024, 10)"
  by (simp add: observation_geometry_def obs_bounds programdata_observation_chunk_count_def
      is_programdata_observation_chunk_size_candidate_def checked_add_def Let_def npo2_640 trailing_1024)

lemma v3_capacity_valid: "validate_capacity_policy_digest_v1 (v3_env slot) v3_capacity = Inr ()"
proof -
  have wf: "wf_capacity_policy_v1 (v3_capacity\<lparr>cp_policy_digest := 0, cp_creation_slot := 0\<rparr>)"
    using v3_capacity_wf by (simp add: wf_capacity_policy_v1_def)
  have "compute_capacity_policy_digest_v1 (v3_env slot) v3_capacity = Inr 549"
    by (simp add: compute_capacity_policy_digest_v1_def hash_fixed_def hashv_def capacity_policy_codec.ser_size [OF wf]
        MAX_CEREMONY_DIGEST_IMAGE_LEN_def CAPACITY_POLICY_LEN_def CAPACITY_POLICY_DIGEST_DOMAIN_V1_def)
  moreover have "capacity_policy_validate_static (v3_env slot) v3_capacity = Inr ()"
    by (simp add: capacity_policy_validate_static_def ceremony_validate_header_def require_nondefault_keys_def
        v3_capacity_def CEREMONY_ACCOUNT_VERSION_V1_def observation_geometry_full
        MAX_PROGRAMDATA_PAYLOAD_CAPACITY_V1_def MAX_RAW_PROGRAMDATA_ACCOUNT_BYTES_V1_def
        LOADER_V3_PROGRAMDATA_METADATA_LEN_def LOADER_PROGRAMDATA_METADATA_LEN_def MAX_ARTIFACT_BYTES_V1_def
        PROGRAMDATA_OBSERVATION_CHUNK_SIZE_16_KIB_def RELEASE1_ARTIFACT_CHUNK_SIZE_V1_def
        ARTIFACT_CHUNK_SIZE_16_KIB_def PROGRAMDATA_OBSERVATION_FRONTIER_SLOTS_V1_def
        MAX_PROGRAMDATA_OBSERVATION_TREE_DEPTH_V1_def EXTEND_PROGRAM_CHECKED_FEATURE_ID_V1_def
        SET_AUTHORITY_CHECKED_FEATURE_ID_V1_def)
  ultimately show ?thesis
    by (simp add: validate_capacity_policy_digest_v1_def require_digest_def) (simp add: v3_capacity_def)
qed

definition v3_deployment :: current_deployment_v1 where
  "v3_deployment =
     \<lparr>cd_discriminator = CURRENT_DEPLOYMENT_STATE_V1_DISCRIMINATOR, cd_version = 1, cd_bump = 255,
      cd_initialized = True, cd_controller_program = 500, cd_controller_config = 54007,
      cd_capacity_policy = 63007, cd_capacity_policy_digest = 549, cd_target_program = 7,
      cd_target_programdata = 32007, cd_upgradeable_loader = 901, cd_controller_authority = 57007,
      cd_artifact_length = 100, cd_artifact_sha256 = 77, cd_artifact_merkle_root = 78,
      cd_artifact_scheme_id = ARTIFACT_MERKLE_SCHEME_ID, cd_actual_programdata_capacity = 1000,
      cd_programdata_observation = 44, cd_observation_generation = 1, cd_observation_root = 79,
      cd_observation_digest = 80, cd_deployed_slot = 50, cd_installed_authority = 57007,
      cd_source_commitment = 1, cd_build_inputs_commitment = 1, cd_package_commitment = 1,
      cd_release_manifest_commitment = 1, cd_release_commitment = 45,
      cd_release_commitment_digest = 1, cd_activation_receipt = \<lparr>op_present = True, op_value = 46\<rparr>,
      cd_completed_proposal = \<lparr>op_present = False, op_value = 0\<rparr>, cd_gate_epoch_at_activation = 1,
      cd_deployment_generation = 1, cd_deployment_digest = 1058, cd_last_updated_slot = 60,
      cd_reserved = replicate 187 0\<rparr>"

lemma chunk_count_100: "artifact_chunk_count 100 16384 = Inr 1"
  by (simp add: artifact_chunk_count_def is_release1_chunk_size_def RELEASE1_ARTIFACT_CHUNK_SIZE_V1_def
      ARTIFACT_CHUNK_SIZE_16_KIB_def MAX_ARTIFACT_BYTES_V1_def checked_add_def)

lemma v3_deployment_wf: "wf_current_deployment_v1 v3_deployment"
  by (simp add: wf_current_deployment_v1_def v3_deployment_def CURRENT_DEPLOYMENT_STATE_V1_DISCRIMINATOR_def)

lemma v3_deployment_valid: "validate_current_deployment_digest_v1 (v3_env slot) v3_deployment = Inr ()"
proof -
  have wf: "wf_current_deployment_v1 (v3_deployment\<lparr>cd_deployment_digest := 0\<rparr>)"
    using v3_deployment_wf by (simp add: wf_current_deployment_v1_def)
  have "compute_current_deployment_digest_v1 (v3_env slot) v3_deployment = Inr 1058"
    by (simp add: compute_current_deployment_digest_v1_def hash_fixed_def hashv_def current_deployment_codec.ser_size [OF wf]
        MAX_CEREMONY_DIGEST_IMAGE_LEN_def CURRENT_DEPLOYMENT_LEN_def CURRENT_DEPLOYMENT_DIGEST_DOMAIN_V1_def)
  moreover have "current_deployment_validate_static (v3_env slot) v3_deployment = Inr ()"
    by (simp add: current_deployment_validate_static_def ceremony_validate_header_def require_nondefault_keys_def
        ceremony_validate_artifact_identity_def ceremony_require_nonzero_hashes_def optional_validate_def
        v3_deployment_def CEREMONY_ACCOUNT_VERSION_V1_def chunk_count_100 MAX_ARTIFACT_BYTES_V1_def
        RELEASE1_ARTIFACT_CHUNK_SIZE_V1_def ARTIFACT_CHUNK_SIZE_16_KIB_def MAX_PROGRAMDATA_PAYLOAD_CAPACITY_V1_def
        MAX_RAW_PROGRAMDATA_ACCOUNT_BYTES_V1_def LOADER_V3_PROGRAMDATA_METADATA_LEN_def)
  ultimately show ?thesis
    by (simp add: validate_current_deployment_digest_v1_def require_digest_def) (simp add: v3_deployment_def)
qed

end
