(* ===== verification/V3_Stages.thy ===== *)
theory V3_Stages
  imports V3_Samples
begin

text \<open>
  Two sample proposals, a routine upgrade and its prepared rollback, the stages of the upgrade, and the
  ledger that holds them beside the sample controller's accounts.
\<close>

section \<open>The proposals\<close>

definition v3_primary :: upgrade_proposal_v3 where
  "v3_primary =
     \<lparr>v3_discriminator = UPGRADE_PROPOSAL_V3_DISCRIMINATOR, v3_account_version = 3,
      v3_bump = 255, v3_initialized = True, v3_proposal_class = proposal_class_v1.RoutineUpgrade,
      v3_state = BufferVerified, v3_creation_gate_status = Active, v3_zero_tail_required = True,
      v3_proposal_flags = 0, v3_proposal_id = 1, v3_target_nonce = 1, v3_creation_slot = 100,
      v3_cluster_domain = 1, v3_controller_program = 500, v3_controller_config = 54007,
      v3_protocol_gate = 52007, v3_capacity_policy = 63007, v3_capacity_policy_digest = 549,
      v3_policy_version = 1, v3_policy_hash = 123, v3_creation_council_version = 1,
      v3_creation_council_hash = 364, v3_creation_gate_epoch = 4, v3_freeze_gate_epoch = 0,
      v3_target_program = 7, v3_target_programdata = 32007, v3_upgradeable_loader = 901,
      v3_authority_pda = 57007, v3_canonical_spill_treasury = 43, v3_current_deployment_state = 64007,
      v3_current_deployment_digest = 1058, v3_current_deployment_generation = 1, v3_buffer_pubkey = 71,
      v3_buffer_loader_owner = 901, v3_buffer_uploader_authority = 48,
      v3_buffer_final_authority = 57007, v3_buffer_verification = 60001,
      v3_programdata_verification = 65001, v3_artifact_length = 100, v3_artifact_sha256 = 81,
      v3_artifact_chunk_merkle_root = 82, v3_artifact_scheme_id = ARTIFACT_MERKLE_SCHEME_ID,
      v3_artifact_chunk_size = 16384, v3_artifact_chunk_count = 1, v3_source_commit_hash = 1,
      v3_source_tree_hash = 1, v3_build_input_inventory_hash = 1,
      v3_reproducible_build_receipt_hash = 1, v3_package_receipt_hash = 1, v3_release_intent_hash = 1,
      v3_minimum_required_capacity = 1000, v3_maximum_supported_raw_programdata_length = 10485760,
      v3_programdata_observation_scheme_id = PROGRAMDATA_OBSERVATION_MERKLE_SCHEME_ID_V1,
      v3_prestate_checkpoint = 59000, v3_required_poststate_checkpoint = 59001,
      v3_checkpoint_schema_id = 1, v3_checkpoint_policy_hash = 1,
      v3_primary_proposal = \<lparr>op_present = False, op_value = 0\<rparr>,
      v3_rollback_proposal = \<lparr>op_present = True, op_value = 64002\<rparr>,
      v3_rollback_buffer = \<lparr>op_present = True, op_value = 72\<rparr>,
      v3_rollback_artifact_length = 100, v3_rollback_artifact_sha256 = 83,
      v3_rollback_artifact_chunk_root = 84, v3_rollback_artifact_scheme_id = ARTIFACT_MERKLE_SCHEME_ID,
      v3_vote_requirement = NoVote, v3_vote_program = 0, v3_vote_result_pda = 0,
      v3_review_start_slot = 101, v3_review_end_slot = 108, v3_not_before_slot = 118,
      v3_expiry_slot = 200, v3_first_approval_slot = 0, v3_council_approved_slot = 0,
      v3_governance_satisfied_slot = 0, v3_queued_slot = 0, v3_frozen_slot = 0,
      v3_extension_executed_slot = 0, v3_upgrade_executed_slot = 0, v3_programdata_verified_slot = 0,
      v3_poststate_accepted_slot = 0, v3_unfreeze_approved_slot = 0, v3_terminal_slot = 0,
      v3_council_approval_bitset = 0, v3_council_approval_count = 0,
      v3_cancellation_council_version = 0, v3_cancellation_council_hash = 0,
      v3_cancellation_approval_bitset = 0, v3_cancellation_approval_count = 0,
      v3_unfreeze_council_version = 0, v3_unfreeze_council_hash = 0, v3_unfreeze_approval_bitset = 0,
      v3_unfreeze_approval_count = 0,
      v3_proposal_digest_domain_id = UPGRADE_PROPOSAL_V3_DIGEST_DOMAIN_ID, v3_proposal_digest = 2074,
      v3_cancellation_reason_code = 0, v3_terminal_reason_code = 0,
      v3_reserved = replicate UPGRADE_PROPOSAL_V3_RESERVED_LEN 0\<rparr>"

definition v3_rollback :: upgrade_proposal_v3 where
  "v3_rollback =
     \<lparr>v3_discriminator = UPGRADE_PROPOSAL_V3_DISCRIMINATOR, v3_account_version = 3,
      v3_bump = 255, v3_initialized = True, v3_proposal_class = proposal_class_v1.EmergencyRollback,
      v3_state = Timelocked, v3_creation_gate_status = Active, v3_zero_tail_required = True,
      v3_proposal_flags = 0, v3_proposal_id = 2, v3_target_nonce = 1, v3_creation_slot = 106,
      v3_cluster_domain = 1, v3_controller_program = 500, v3_controller_config = 54007,
      v3_protocol_gate = 52007, v3_capacity_policy = 63007, v3_capacity_policy_digest = 549,
      v3_policy_version = 1, v3_policy_hash = 123, v3_creation_council_version = 1,
      v3_creation_council_hash = 364, v3_creation_gate_epoch = 4, v3_freeze_gate_epoch = 0,
      v3_target_program = 7, v3_target_programdata = 32007, v3_upgradeable_loader = 901,
      v3_authority_pda = 57007, v3_canonical_spill_treasury = 43, v3_current_deployment_state = 64007,
      v3_current_deployment_digest = 1058, v3_current_deployment_generation = 1, v3_buffer_pubkey = 72,
      v3_buffer_loader_owner = 901, v3_buffer_uploader_authority = 48,
      v3_buffer_final_authority = 57007, v3_buffer_verification = 60002,
      v3_programdata_verification = 65002, v3_artifact_length = 100, v3_artifact_sha256 = 83,
      v3_artifact_chunk_merkle_root = 84, v3_artifact_scheme_id = ARTIFACT_MERKLE_SCHEME_ID,
      v3_artifact_chunk_size = 16384, v3_artifact_chunk_count = 1, v3_source_commit_hash = 1,
      v3_source_tree_hash = 1, v3_build_input_inventory_hash = 1,
      v3_reproducible_build_receipt_hash = 1, v3_package_receipt_hash = 1, v3_release_intent_hash = 1,
      v3_minimum_required_capacity = 1000, v3_maximum_supported_raw_programdata_length = 10485760,
      v3_programdata_observation_scheme_id = PROGRAMDATA_OBSERVATION_MERKLE_SCHEME_ID_V1,
      v3_prestate_checkpoint = 59000, v3_required_poststate_checkpoint = 59001,
      v3_checkpoint_schema_id = 1, v3_checkpoint_policy_hash = 1,
      v3_primary_proposal = \<lparr>op_present = True, op_value = 64001\<rparr>,
      v3_rollback_proposal = \<lparr>op_present = False, op_value = 0\<rparr>,
      v3_rollback_buffer = \<lparr>op_present = False, op_value = 0\<rparr>,
      v3_rollback_artifact_length = 0, v3_rollback_artifact_sha256 = 0,
      v3_rollback_artifact_chunk_root = 0, v3_rollback_artifact_scheme_id = 0,
      v3_vote_requirement = NoVote, v3_vote_program = 0, v3_vote_result_pda = 0,
      v3_review_start_slot = 107, v3_review_end_slot = 114, v3_not_before_slot = 119,
      v3_expiry_slot = 206, v3_first_approval_slot = 107, v3_council_approved_slot = 109,
      v3_governance_satisfied_slot = 110, v3_queued_slot = 111, v3_frozen_slot = 0,
      v3_extension_executed_slot = 0, v3_upgrade_executed_slot = 0, v3_programdata_verified_slot = 0,
      v3_poststate_accepted_slot = 0, v3_unfreeze_approved_slot = 0, v3_terminal_slot = 0,
      v3_council_approval_bitset = 7, v3_council_approval_count = 3,
      v3_cancellation_council_version = 0, v3_cancellation_council_hash = 0,
      v3_cancellation_approval_bitset = 0, v3_cancellation_approval_count = 0,
      v3_unfreeze_council_version = 0, v3_unfreeze_council_hash = 0, v3_unfreeze_approval_bitset = 0,
      v3_unfreeze_approval_count = 0,
      v3_proposal_digest_domain_id = UPGRADE_PROPOSAL_V3_DIGEST_DOMAIN_ID, v3_proposal_digest = 2074,
      v3_cancellation_reason_code = 0, v3_terminal_reason_code = 0,
      v3_reserved = replicate UPGRADE_PROPOSAL_V3_RESERVED_LEN 0\<rparr>"

text \<open>The upgrade with a tally, the slots of its stages, and its freeze epoch.\<close>

definition v3_stage ::
    "proposal_state \<Rightarrow> byte \<Rightarrow> byte \<Rightarrow> u64 \<Rightarrow> u64 \<Rightarrow> u64 \<Rightarrow> u64 \<Rightarrow> u64 \<Rightarrow> u64 \<Rightarrow> upgrade_proposal_v3" where
  "v3_stage s b n first approved satisfied queued frozen epoch = v3_primary
     \<lparr>v3_state := s, v3_freeze_gate_epoch := epoch, v3_first_approval_slot := first,
      v3_council_approved_slot := approved, v3_governance_satisfied_slot := satisfied,
      v3_queued_slot := queued, v3_frozen_slot := frozen, v3_council_approval_bitset := b,
      v3_council_approval_count := n\<rparr>"

lemma v3_stage_wf: "wf_upgrade_proposal_v3 (v3_stage s b n f a q u z e)" "wf_upgrade_proposal_v3 v3_rollback"
  by (simp_all add: wf_upgrade_proposal_v3_def v3_stage_def v3_primary_def v3_rollback_def
      UPGRADE_PROPOSAL_V3_DISCRIMINATOR_def UPGRADE_PROPOSAL_V3_RESERVED_LEN_def)

lemma digest_of_length:
  assumes "wf_upgrade_proposal_v3 p"
  shows "compute_upgrade_proposal_digest_v3 (v3_env slot) p = Inr 2074"
  using upgrade_proposal_v3_codec.ser_size [OF terms_v3_wf [OF assms]]
  by (simp add: compute_upgrade_proposal_digest_v3_def hash_fixed_image_def hashv_def UPGRADE_PROPOSAL_V3_LEN_def
      UPGRADE_PROPOSAL_V3_DIGEST_DOMAIN_def Let_def)

lemma scheme_nonzero: "ARTIFACT_MERKLE_SCHEME_ID \<noteq> 0"
  by (simp add: ARTIFACT_MERKLE_SCHEME_ID_def)

lemmas v3_schema_defs = release1_validate_header_def v3_flags_bad_def require_nondefault_keys_def v3_keys_def
  require_nonzero_hashes_def v3_hashes_def v3_commitment_bad_def validate_artifact_identity_def
  validate_artifact_identity_without_chunks_def chunk_count_100 v3_timing_bad_def optional_validate_def
  validate_rollback_shape_def validate_approval_pair_def validate_versioned_approval_def
  CAPACITY_SAFE_ACCOUNT_VERSION_V3_def MAX_ARTIFACT_BYTES_V1_def MAX_RAW_PROGRAMDATA_ACCOUNT_BYTES_V1_def
  MAX_PROGRAMDATA_PAYLOAD_CAPACITY_V1_def LOADER_V3_PROGRAMDATA_METADATA_LEN_def is_release1_chunk_size_def
  RELEASE1_ARTIFACT_CHUNK_SIZE_V1_def ARTIFACT_CHUNK_SIZE_16_KIB_def

lemmas v3_lifecycle_defs = validate_upgrade_proposal_v3_lifecycle_def class_and_counts_bad_def freeze_bad_def
  cancellation_bad_def approval_slots_bad_def governance_slots_bad_def approval_shape_def extension_bad_def
  upgrade_bad_def verification_bad_def unfreeze_shape_def unfreeze_bad_def expected_terminal_reason_def
  terminal_bad_def recorded_slots_def validate_non_decreasing_nonzero_slots_def state_groups
  RELEASE1_APPROVAL_THRESHOLD_def terminal_reason_defs

text \<open>The schema of the upgrade but for its lifecycle fields.\<close>

lemma v3_stage_schema:
  assumes "validate_approval_pair b n = Inr ()"
    and "validate_upgrade_proposal_v3_lifecycle (v3_stage s b n f a q u z e) = Inr ()" and "s \<noteq> TokenReviewOpen"
  shows "validate_upgrade_proposal_digest_v3 (v3_env slot) (v3_stage s b n f a q u z e) = Inr ()"
proof -
  have "proposal_v3_validate_schema (v3_env slot) (v3_stage s b n f a q u z e) = Inr ()"
    unfolding proposal_v3_validate_schema_def assms(2)
    using assms(1,3) by (simp add: v3_stage_def v3_primary_def v3_schema_defs scheme_nonzero)
  then show ?thesis
    by (simp add: validate_upgrade_proposal_digest_v3_def digest_of_length [OF v3_stage_wf(1)] require_digest_def)
      (simp add: v3_stage_def v3_primary_def)
qed

text \<open>The stages of the sample upgrade.\<close>

abbreviation "stage_open \<equiv> v3_stage BufferVerified 0 0 0 0 0 0 0 0"
abbreviation "stage_one \<equiv> v3_stage BufferVerified 1 1 101 0 0 0 0 0"
abbreviation "stage_two \<equiv> v3_stage BufferVerified 3 2 101 0 0 0 0 0"
abbreviation "stage_approved \<equiv> v3_stage CouncilApproved 7 3 101 103 0 0 0 0"
abbreviation "stage_timelocked \<equiv> v3_stage Timelocked 7 3 101 103 104 105 0 0"
abbreviation "stage_frozen \<equiv> v3_stage Frozen 7 3 101 103 104 105 130 5"

lemma small_pop_counts [simp]:
  "pop_count (1 :: byte) = 1" "pop_count (3 :: byte) = 2" "pop_count (7 :: byte) = 3"
  by (simp_all add: pop_count_def upt_rec)

lemma stage_pairs:
  "validate_approval_pair 0 0 = Inr ()" "validate_approval_pair 1 1 = Inr ()"
  "validate_approval_pair 3 2 = Inr ()" "validate_approval_pair 7 3 = Inr ()"
  by (simp_all add: validate_approval_pair_def VALID_APPROVAL_MASK_def)

lemma stages_valid:
  "validate_upgrade_proposal_digest_v3 (v3_env slot) stage_open = Inr ()"
  "validate_upgrade_proposal_digest_v3 (v3_env slot) stage_one = Inr ()"
  "validate_upgrade_proposal_digest_v3 (v3_env slot) stage_two = Inr ()"
  "validate_upgrade_proposal_digest_v3 (v3_env slot) stage_approved = Inr ()"
  "validate_upgrade_proposal_digest_v3 (v3_env slot) stage_timelocked = Inr ()"
  "validate_upgrade_proposal_digest_v3 (v3_env slot) stage_frozen = Inr ()"
  by (rule v3_stage_schema; simp add: stage_pairs v3_lifecycle_defs v3_stage_def v3_primary_def)+

lemma v3_rollback_valid: "validate_upgrade_proposal_digest_v3 (v3_env slot) v3_rollback = Inr ()"
proof -
  have "validate_upgrade_proposal_v3_lifecycle v3_rollback = Inr ()"
    by (simp add: v3_lifecycle_defs v3_rollback_def)
  then have "proposal_v3_validate_schema (v3_env slot) v3_rollback = Inr ()"
    unfolding proposal_v3_validate_schema_def
    by (simp add: stage_pairs [unfolded validate_approval_pair_def] v3_rollback_def v3_schema_defs scheme_nonzero)
  then show ?thesis
    by (simp add: validate_upgrade_proposal_digest_v3_def digest_of_length [OF v3_stage_wf(2)] require_digest_def)
      (simp add: v3_rollback_def)
qed

section \<open>The verification records\<close>

definition v3_verification :: "pubkey \<Rightarrow> pubkey \<Rightarrow> hash32 \<Rightarrow> hash32 \<Rightarrow> buffer_verification_v1" where
  "v3_verification proposal buffer hash root =
     \<lparr>bv_discriminator = BUFFER_VERIFICATION_V1_DISCRIMINATOR, bv_account_version = 1, bv_bump = 255,
      bv_initialized = True, bv_status = Verified, bv_controller_config = 54007, bv_proposal = proposal,
      bv_upgradeable_loader = 901, bv_buffer = buffer, bv_expected_uploader_authority = 48,
      bv_controller_authority = 57007, bv_artifact_length = 100, bv_artifact_sha256 = hash,
      bv_artifact_chunk_merkle_root = root, bv_chunk_hash_domain = ARTIFACT_MERKLE_SCHEME_ID,
      bv_chunk_size = 16384, bv_chunk_count = 1, bv_verified_chunk_bitmap = 1 # replicate 63 0,
      bv_verified_chunk_count = 1, bv_adopted_slot = 90, bv_finalized_slot = 95,
      bv_sealed_buffer_header_hash = 37, bv_terminal_slot = 0,
      bv_reserved = replicate BUFFER_VERIFICATION_V1_RESERVED_LEN 0\<rparr>"

lemma one_chunk_bitmap: "validate_bitmap (1 # replicate 63 0) 1 1 = Inr ()"
proof -
  have "(1 # replicate 63 (0 :: byte)) ! (i div 8) AND shl1 (i mod 8) = 0" if "1 \<le> i" "i < 512" for i
  proof (cases "i div 8")
    case 0
    then have "i mod 8 = i" "i < 8" by auto
    then have "\<not> bit (1 :: byte) (i mod 8)" using that by (simp add: bit_1_iff)
    then show ?thesis using 0 by (simp add: and_shl1_iff)
  next
    case (Suc j)
    then have "j < 63" using that by auto
    then show ?thesis using Suc by simp
  qed
  then show ?thesis by (auto simp: validate_bitmap_def result_simps MAX_ARTIFACT_CHUNKS_V1_def sum_list_replicate)
qed

lemma v3_verification_ok:
  "wf_buffer_verification_v1 (v3_verification k b h r)"
  "k \<noteq> 0 \<Longrightarrow> b \<noteq> 0 \<Longrightarrow> h \<noteq> 0 \<Longrightarrow> r \<noteq> 0 \<Longrightarrow> buffer_verification_validate_schema (v3_verification k b h r) = Inr ()"
  by (simp_all add: wf_buffer_verification_v1_def v3_verification_def BUFFER_VERIFICATION_V1_DISCRIMINATOR_def
      BUFFER_VERIFICATION_V1_RESERVED_LEN_def buffer_verification_validate_schema_def release1_validate_header_def
      RELEASE1_ACCOUNT_VERSION_V1_def require_nondefault_keys_def release1_validate_artifact_commitment_def
      chunk_count_100 one_chunk_bitmap buffer_status_canonical_def MAX_ARTIFACT_BYTES_V1_def is_release1_chunk_size_def
      RELEASE1_ARTIFACT_CHUNK_SIZE_V1_def ARTIFACT_CHUNK_SIZE_16_KIB_def)

end
