(* ===== verification/V3_Runs.thy ===== *)
theory V3_Runs
  imports V3_Stages
begin

text \<open>
  The sample upgrade on its ledger: three approvals, a vote to cancel and a freeze, each evaluated, and
  the properties of the Release 1 handlers applied to them.
\<close>

section \<open>The ledger\<close>

definition v3_held :: "byte list \<Rightarrow> account" where
  "v3_held bytes = \<lparr>lamports = 5, acc_data = bytes, owner = 500\<rparr>"

definition v3_loaded :: "byte list \<Rightarrow> account" where
  "v3_loaded bytes = \<lparr>lamports = 5, acc_data = bytes, owner = 901\<rparr>"

lemma v3_held_simps [simp]:
  "owner (v3_held d) = 500" "acc_data (v3_held d) = d" "owner (v3_loaded d) = 901" "acc_data (v3_loaded d) = d"
  by (simp_all add: v3_held_def v3_loaded_def)

definition v3_world :: ledger where
  "v3_world = (\<lambda>_. v3_loaded [])
     (54007 := v3_held (ser_controller_config_v1 v3_config),
      62001 := v3_held (ser_governance_policy_v1 v3_policy),
      63001 := v3_held (ser_council_set_v1 v3_council),
      52007 := v3_held (ser_gate v3_gate),
      63007 := v3_held (ser_capacity_policy_v1 v3_capacity),
      64007 := v3_held (ser_current_deployment_v1 v3_deployment),
      64002 := v3_held (ser_upgrade_proposal_v3 v3_rollback),
      60001 := v3_held (ser_buffer_verification_v1 (v3_verification 64001 71 81 82)),
      60002 := v3_held (ser_buffer_verification_v1 (v3_verification 64002 72 83 84)),
      7 := v3_loaded (program_bytes 32007),
      32007 := v3_loaded (programdata_bytes 50 (Some 57007) 0 (replicate 1000 0)),
      72 := v3_loaded (buffer_bytes (Some 57007) 0 (replicate 100 0)))"

definition v3_ledger :: "upgrade_proposal_v3 \<Rightarrow> ledger" where
  "v3_ledger p = v3_world(64001 := v3_held (ser_upgrade_proposal_v3 p))"

lemma v3_ledger_at:
  "v3_ledger p 54007 = v3_held (ser_controller_config_v1 v3_config)"
  "v3_ledger p 62001 = v3_held (ser_governance_policy_v1 v3_policy)"
  "v3_ledger p 63001 = v3_held (ser_council_set_v1 v3_council)"
  "v3_ledger p 52007 = v3_held (ser_gate v3_gate)"
  "v3_ledger p 63007 = v3_held (ser_capacity_policy_v1 v3_capacity)"
  "v3_ledger p 64007 = v3_held (ser_current_deployment_v1 v3_deployment)"
  "v3_ledger p 64001 = v3_held (ser_upgrade_proposal_v3 p)"
  "v3_ledger p 64002 = v3_held (ser_upgrade_proposal_v3 v3_rollback)"
  "v3_ledger p 60001 = v3_held (ser_buffer_verification_v1 (v3_verification 64001 71 81 82))"
  "v3_ledger p 60002 = v3_held (ser_buffer_verification_v1 (v3_verification 64002 72 83 84))"
  "v3_ledger p 7 = v3_loaded (program_bytes 32007)"
  "v3_ledger p 32007 = v3_loaded (programdata_bytes 50 (Some 57007) 0 (replicate 1000 0))"
  "v3_ledger p 72 = v3_loaded (buffer_bytes (Some 57007) 0 (replicate 100 0))"
  by (simp_all add: v3_ledger_def v3_world_def)

text \<open>Storing the next stage of the proposal.\<close>

definition v3_rw :: "pubkey \<Rightarrow> account_info" where
  "v3_rw k = \<lparr>ai_key = k, is_signer = False, is_writable = True, executable = False\<rparr>"
definition v3_exe :: "pubkey \<Rightarrow> account_info" where
  "v3_exe k = \<lparr>ai_key = k, is_signer = False, is_writable = False, executable = True\<rparr>"
definition v3_seat :: "pubkey \<Rightarrow> account_info" where
  "v3_seat k = \<lparr>ai_key = k, is_signer = True, is_writable = False, executable = False\<rparr>"

lemma v3_infos [simp]:
  "ai_key (plain_info k) = k" "ai_key (v3_rw k) = k" "ai_key (v3_exe k) = k" "ai_key (v3_seat k) = k"
  "is_signer (v3_seat k)" "\<not> is_signer (plain_info k)" "\<not> is_signer (v3_rw k)" "\<not> is_signer (v3_exe k)"
  "is_writable (v3_rw k)" "\<not> is_writable (plain_info k)" "\<not> is_writable (v3_exe k)" "\<not> is_writable (v3_seat k)"
  "executable (v3_exe k)" "\<not> executable (plain_info k)" "\<not> executable (v3_rw k)" "\<not> executable (v3_seat k)"
  by (simp_all add: plain_info_def v3_rw_def v3_exe_def v3_seat_def)

lemma v3_ledger_store: "set_data (v3_rw 64001) (ser_upgrade_proposal_v3 q) (v3_ledger p) = v3_ledger q"
  by (rule ext) (simp add: v3_ledger_def set_data_def v3_held_def)

lemma v3_commit:
  assumes "wf_upgrade_proposal_v3 p" "wf_upgrade_proposal_v3 q"
    "validate_upgrade_proposal_digest_v3 (v3_env slot) q = Inr ()"
  shows "commit_proposal_v3 (v3_env slot) 500 (v3_rw 64001) q (v3_ledger p) = Inr (v3_ledger q)"
  using assms
  by (simp add: commit_proposal_v3_def store_ok_iff v3_ledger_at v3_ledger_store upgrade_proposal_v3_codec.ser_size)

section \<open>Loading the accounts\<close>

lemma v3_load_config:
  "load_controller_config (v3_env slot) (v3_ledger p) 500 (plain_info 54007) = Inr v3_config"
  "load_controller_config (v3_env slot) (v3_ledger p) 500 (v3_rw 54007) = Inr v3_config"
  by (simp_all add: load_config_v3_iff v3_ledger_at v3_config_wf v3_config_static) (simp_all add: v3_config_def)

lemma v3_load_gate:
  "load_protocol_gate (v3_env slot) (v3_ledger p) 500 (plain_info 52007) (plain_info 54007) v3_config = Inr v3_gate"
  "load_protocol_gate (v3_env slot) (v3_ledger p) 500 (v3_rw 52007) (v3_rw 54007) v3_config = Inr v3_gate"
  by (simp_all add: load_gate_v3_iff v3_ledger_at v3_gate_ok) (simp_all add: v3_config_def v3_gate_def)

lemma v3_load_policy:
  assumes "1 \<le> slot" "ai_key i = 54007"
  shows "load_governance_policy (v3_env slot) (v3_ledger p) 500 (plain_info 62001) i v3_config slot = Inr v3_policy"
proof -
  have "load_fixed_controller_account de_governance_policy_v1 (v3_ledger p) 500 (plain_info 62001) GOVERNANCE_POLICY_LEN
      = Inr v3_policy"
    by (simp add: governance_policy_codec.load_iff v3_ledger_at v3_policy_ok)
  moreover have "cc_target_program v3_config = 7" "cc_current_policy_version v3_config = 1" by (simp_all add: v3_config_def)
  moreover have "slot \<noteq> 0" using assms(1) by auto
  ultimately show ?thesis using assms
    by (simp add: load_governance_policy_def v3_policy_ok v3_policy_fields not_less)
qed

lemma v3_load_council:
  assumes "1 \<le> slot" "ai_key i = 54007"
  shows "load_council (v3_env slot) (v3_ledger p) 500 (plain_info 63001) i v3_config v3_policy 1 364 slot current
     = Inr v3_council"
    "load_current_council (v3_env slot) (v3_ledger p) 500 (plain_info 63001) i v3_config v3_policy slot = Inr v3_council"
proof -
  have fixed: "load_fixed_controller_account de_council_set_v1 (v3_ledger p) 500 (plain_info 63001) COUNCIL_SET_LEN
      = Inr v3_council"
    by (simp add: council_set_codec.load_iff v3_ledger_at v3_council_ok)
  have c: "cc_target_program v3_config = 7" "cc_current_council_version v3_config = 1" "cc_guardian v3_config = 26"
    by (simp_all add: v3_config_def)
  show council: "load_council (v3_env slot) (v3_ledger p) 500 (plain_info 63001) i v3_config v3_policy 1 364 slot current
     = Inr v3_council" for current
    using assms by (simp add: load_council_def fixed c v3_council_ok v3_council_valid)
  show "load_current_council (v3_env slot) (v3_ledger p) 500 (plain_info 63001) i v3_config v3_policy slot = Inr v3_council"
    using council by (simp add: load_current_council_def fixed c v3_council_ok)
qed

lemma v3_load_capacity:
  assumes "ai_key i = 54007"
  shows "load_capacity_policy (v3_env slot) (v3_ledger p) 500 (plain_info 63007) i v3_config = Inr v3_capacity"
proof -
  have "load_fixed_controller_account de_capacity_policy_v1 (v3_ledger p) 500 (plain_info 63007) CAPACITY_POLICY_LEN
      = Inr v3_capacity"
    by (simp add: capacity_policy_codec.load_iff v3_ledger_at v3_capacity_wf)
  then show ?thesis using assms
    by (simp add: load_capacity_policy_def v3_capacity_valid) (simp add: v3_capacity_def v3_config_def)
qed

lemma v3_load_deployment:
  assumes "ai_key i = 54007"
  shows "load_current_deployment (v3_env slot) (v3_ledger p) 500 (plain_info 64007) i (plain_info 63007)
     v3_config v3_capacity = Inr v3_deployment"
proof -
  have "load_fixed_controller_account de_current_deployment_v1 (v3_ledger p) 500 (plain_info 64007) CURRENT_DEPLOYMENT_LEN
      = Inr v3_deployment"
    by (simp add: current_deployment_codec.load_iff v3_ledger_at v3_deployment_wf)
  then show ?thesis using assms
    by (simp add: load_current_deployment_def v3_deployment_valid)
      (simp add: v3_capacity_def v3_config_def v3_deployment_def)
qed

definition v3_context :: lifecycle_context where
  "v3_context = \<lparr>lc_config = v3_config, lc_gate = v3_gate, lc_capacity = v3_capacity, lc_deployment = v3_deployment\<rparr>"

lemma v3_load_context:
  "load_lifecycle_context (v3_env slot) (v3_ledger p) 500 (plain_info 54007) (plain_info 52007) (plain_info 63007)
     (plain_info 64007) = Inr v3_context"
  "load_lifecycle_context (v3_env slot) (v3_ledger p) 500 (v3_rw 54007) (v3_rw 52007) (plain_info 63007)
     (plain_info 64007) = Inr v3_context"
  by (simp_all add: load_lifecycle_context_def v3_load_config v3_load_gate v3_load_capacity v3_load_deployment
      v3_context_def)

section \<open>Approvals\<close>

lemma v3_load_proposal:
  assumes "validate_upgrade_proposal_digest_v3 (v3_env slot) (v3_stage s b n f a q u z e) = Inr ()"
    and "ai_key config_info = 54007" "ai_key gate_info = 52007"
  shows "load_proposal_v3 (v3_env slot) (v3_ledger (v3_stage s b n f a q u z e)) 500 (v3_rw 64001) config_info
     gate_info (plain_info 63007) (plain_info 64007) v3_context = Inr (v3_stage s b n f a q u z e)"
proof -
  let ?p = "v3_stage s b n f a q u z e"
  have "load_upgrade_proposal_v3 (v3_env slot) (v3_ledger ?p) 500 (v3_rw 64001) = Inr ?p"
    using assms(1) by (simp add: load_v3_ok v3_ledger_at v3_stage_wf validate_digest_ok)
  moreover have "cc_target_program v3_config = 7" by (simp add: v3_config_def)
  moreover have "v3_proposal_id ?p = 1" "v3_bump ?p = 255" by (simp_all add: v3_stage_def v3_primary_def)
  ultimately show ?thesis
    using assms by (simp add: load_proposal_v3_def v3_context_def)
      (simp add: v3_stage_def v3_primary_def v3_config_def v3_capacity_def)
qed

lemma v3_load_buffer:
  assumes "100 \<le> slot"
  shows "load_verified_buffer_for_proposal (v3_env slot) (v3_ledger p) 500 (plain_info 60001) (v3_rw 64001)
     (v3_stage s b n f a q u z e) slot = Inr (v3_verification 64001 71 81 82)"
    "load_verified_buffer_for_proposal (v3_env slot) (v3_ledger p) 500 (plain_info 60002) (plain_info 64002)
     v3_rollback slot = Inr (v3_verification 64002 72 83 84)"
proof -
  have fixed: "load_fixed_controller_account de_buffer_verification_v1 (v3_ledger p) 500 (plain_info 60001)
      BUFFER_VERIFICATION_LEN = Inr (v3_verification 64001 71 81 82)"
    "load_fixed_controller_account de_buffer_verification_v1 (v3_ledger p) 500 (plain_info 60002)
      BUFFER_VERIFICATION_LEN = Inr (v3_verification 64002 72 83 84)"
    by (simp_all add: buffer_verification_codec.load_iff v3_ledger_at v3_verification_ok(1))
  have slots: "\<not> slot < 95" using assms by (simp add: not_less word_le_nat_alt)
  show "load_verified_buffer_for_proposal (v3_env slot) (v3_ledger p) 500 (plain_info 60001) (v3_rw 64001)
     (v3_stage s b n f a q u z e) slot = Inr (v3_verification 64001 71 81 82)"
    using slots by (simp add: load_verified_buffer_for_proposal_def fixed v3_verification_ok(2))
      (simp add: v3_verification_def v3_stage_def v3_primary_def)
  show "load_verified_buffer_for_proposal (v3_env slot) (v3_ledger p) 500 (plain_info 60002) (plain_info 64002)
     v3_rollback slot = Inr (v3_verification 64002 72 83 84)"
    using slots by (simp add: load_verified_buffer_for_proposal_def fixed v3_verification_ok(2))
      (simp add: v3_verification_def v3_rollback_def)
qed

text \<open>The guard a caller who knows the accounts sends.\<close>

definition v3_guard :: "upgrade_proposal_v3 \<Rightarrow> proposal_guard_v3" where
  "v3_guard p =
     \<lparr>pg_expected_proposal_digest = 2074, pg_expected_state = v3_state p,
      pg_expected_gate_status = Active, pg_expected_gate_epoch = 4, pg_expected_target_nonce = 1,
      pg_expected_capacity_policy_digest = 549, pg_expected_current_deployment_digest = 1058,
      pg_expected_current_deployment_generation = 1\<rparr>"

lemma v3_guard_ok: "check_proposal_guard (v3_guard (v3_stage s b n f a q u z e)) (v3_stage s b n f a q u z e) v3_context = Inr ()"
  by (simp add: check_proposal_guard_def require_guard_deployment_def v3_guard_def v3_context_def v3_stage_def
      v3_primary_def v3_config_def v3_gate_def v3_capacity_def v3_deployment_def)

lemma v3_stage_guards:
  "require_proposal_deployment_current (v3_stage s b n f a q u z e) v3_deployment = Inr ()"
  "require_creation_gate (v3_stage s b n f a q u z e) v3_config v3_gate = Inr ()"
  "verify_exact_proposal_timing (v3_stage s b n f a q u z e) v3_config = Inr ()"
  "verify_exact_proposal_timing v3_rollback v3_config = Inr ()"
  by (simp_all add: require_proposal_deployment_current_def require_creation_gate_def verify_exact_proposal_timing_def
      derive_proposal_timing_def v3_stage_def v3_primary_def v3_rollback_def v3_deployment_def v3_config_def v3_gate_def
      council_review_slots_def checked_add_def)

definition v3_accounts :: "pubkey \<Rightarrow> account_info list" where
  "v3_accounts key = map plain_info [54007, 62001, 63001, 52007, 63007, 64007]
     @ [v3_rw 64001, plain_info 60001, v3_seat key]"

definition v3_approval :: "upgrade_proposal_v3 \<Rightarrow> approve_proposal_v3" where
  "v3_approval p =
     \<lparr>ap_expected = v3_guard p, ap_expected_creation_council_version = 1,
      ap_expected_creation_council_hash = 364, ap_expected_approval_bitset = v3_council_approval_bitset p,
      ap_expected_approval_count = v3_council_approval_count p\<rparr>"

lemma v3_privileges:
  "readonly_account (plain_info k) = Inr ()" "writable_account (v3_rw k) = Inr ()"
  "executable_readonly (v3_exe k) = Inr ()"
  by (simp_all add: readonly_account_def writable_account_def executable_readonly_def validate_exact_privileges_def)

lemma v3_context_fields:
  "lc_config v3_context = v3_config" "lc_gate v3_context = v3_gate" "lc_capacity v3_context = v3_capacity"
  "lc_deployment v3_context = v3_deployment"
  by (simp_all add: v3_context_def)

lemma v3_approve_run:
  fixes b n f
  defines "p \<equiv> v3_stage BufferVerified b n f 0 0 0 0 0"
  assumes "key \<in> set sample_keys" "slot \<in> {101, 102, 103}" "n < 3"
    and "validate_upgrade_proposal_digest_v3 (v3_env slot) p = Inr ()"
    and "validate_upgrade_proposal_digest_v3 (v3_env slot) (approved_v3 p b' n' slot) = Inr ()"
    and "record_seat_approval v3_council b n key slot = Inr (b', n')"
  shows "process_approve_proposal_v3 (v3_env slot) 500 (v3_accounts key) (v3_approval p) (v3_ledger p)
    = Inr (v3_ledger (approved_v3 p b' n' slot))"
proof -
  note load = v3_load_proposal [OF assms(5) [unfolded p_def], folded p_def]
  have slots: "1 \<le> slot" "100 \<le> slot" "slot \<noteq> 0" using assms(3) by auto
  note commit = v3_commit [OF _ _ assms(6), of p]
  have fields: "v3_state p = BufferVerified" "v3_council_approval_bitset p = b" "v3_council_approval_count p = n"
    "v3_creation_council_version p = 1" "v3_creation_council_hash p = 364"
    by (simp_all add: p_def v3_stage_def v3_primary_def)
  have window: "require_approval_window p slot = Inr ()"
    using assms(3) by (auto simp: require_approval_window_def p_def v3_stage_def v3_primary_def)
  have distinct: "all_distinct (v3_accounts key) = Inr ()"
    using assms(2) by (auto simp: v3_accounts_def all_distinct_def result_simps)
  have "commit_proposal_v3 (v3_env slot) 500 (v3_rw 64001) (approved_v3 p b' n' slot) (v3_ledger p)
      = Inr (v3_ledger (approved_v3 p b' n' slot))"
    by (rule v3_commit [OF _ _ assms(6)]) (simp_all add: p_def v3_stage_wf wf_v3_updates)
  moreover have "validate_seat_authority (v3_seat key) = Inr ()" by (simp add: validate_seat_authority_ok)
  moreover have "key \<noteq> 26" "cc_guardian v3_config = 26" using assms(2) by (auto simp: v3_config_def)
  moreover have "check_proposal_guard (v3_guard p) p v3_context = Inr ()"
    "require_proposal_deployment_current p v3_deployment = Inr ()" "require_creation_gate p v3_config v3_gate = Inr ()"
    "load_verified_buffer_for_proposal (v3_env slot) (v3_ledger p) 500 (plain_info 60001) (v3_rw 64001) p slot
      = Inr (v3_verification 64001 71 81 82)"
    using slots by (simp_all only: p_def v3_guard_ok v3_stage_guards v3_load_buffer)
  ultimately show ?thesis
    using assms(4,7) slots distinct fields window load
    by (simp add: process_approve_proposal_v3_def v3_accounts_def exact_account_count_def v3_privileges
        current_slot_def v3_load_context v3_context_fields v3_load_policy v3_load_council v3_approval_def
        RELEASE1_APPROVAL_THRESHOLD_def word_less_nat_alt word_le_nat_alt)
qed

lemma v3_position: "position (\<lambda>s. se_seat_authority s = k) (gc_seats v3_council) = position (\<lambda>x. x = k) sample_keys"
  unfolding v3_seats position_map by (simp add: sample_seat_v1_def)

lemma sample_seat_key: "se_seat_authority (sample_seat_v1 k) = k"
  by (simp add: sample_seat_v1_def)

lemma v3_seat_votes:
  assumes "slot \<in> {101, 102, 103}"
  shows "record_seat_approval v3_council 0 0 21 slot = Inr (1, 1)"
    "record_seat_approval v3_council 1 1 22 slot = Inr (3, 2)"
    "record_seat_approval v3_council 3 2 23 slot = Inr (7, 3)"
proof -
  have "active_at v3_council slot" "seat_in_term (sample_seat_v1 k) slot" for k
    using assms by (auto simp: v3_council_ok(8) seat_in_term_def sample_seat_v1_def)
  then show "record_seat_approval v3_council 0 0 21 slot = Inr (1, 1)"
    "record_seat_approval v3_council 1 1 22 slot = Inr (3, 2)"
    "record_seat_approval v3_council 3 2 23 slot = Inr (7, 3)"
    by (simp_all add: record_seat_approval_def v3_position v3_seats validate_approval_encoding_def
        VALID_APPROVAL_MASK_def Let_def shl1_def sample_seat_key)
qed

lemma v3_next_stages:
  "approved_v3 stage_open 1 1 101 = stage_one" "approved_v3 stage_one 3 2 102 = stage_two"
  "approved_v3 stage_two 7 3 103 = stage_approved"
  by (simp_all add: approved_v3_def v3_stage_def RELEASE1_APPROVAL_THRESHOLD_def Let_def v3_primary_def)

lemma v3_three_approvals:
  "process_approve_proposal_v3 (v3_env 101) 500 (v3_accounts 21) (v3_approval stage_open) (v3_ledger stage_open)
     = Inr (v3_ledger stage_one)"
  "process_approve_proposal_v3 (v3_env 102) 500 (v3_accounts 22) (v3_approval stage_one) (v3_ledger stage_one)
     = Inr (v3_ledger stage_two)"
  "process_approve_proposal_v3 (v3_env 103) 500 (v3_accounts 23) (v3_approval stage_two) (v3_ledger stage_two)
     = Inr (v3_ledger stage_approved)"
  using v3_approve_run [of 21 101 0 0 0 1 1] v3_approve_run [of 22 102 1 1 101 3 2]
    v3_approve_run [of 23 103 2 3 101 7 3]
  by (simp_all add: v3_next_stages stages_valid v3_seat_votes)

section \<open>The freeze\<close>

lemma v3_runtime:
  "read_runtime_programdata_header (v3_ledger p) (v3_exe 7) (plain_info 32007) v3_config v3_capacity
     = Inr \<lparr>rh_deployed_slot = 50, rh_raw_data_length = 1045, rh_capacity = 1000, rh_authority = Some 57007\<rparr>"
proof -
  have len: "length (programdata_bytes 50 (Some 57007) 0 (replicate 1000 0)) = 1045"
    by (simp add: programdata_bytes_def)
  have "validate_program_programdata_linkage (v3_ledger p) (v3_exe 7) (plain_info 32007) 901
      = Inr \<lparr>deployed_slot = 50, upgrade_authority = Some 57007, payload_offset = 45, capacity = 1000\<rparr>"
    by (simp add: validate_program_programdata_linkage_def v3_ledger_at parse_program_bytes parse_programdata_bytes)
  then show ?thesis
    by (simp add: read_runtime_programdata_header_def v3_config_def v3_capacity_def v3_ledger_at len u64_of_length_def
        checked_add_def Let_def)
qed

lemma v3_rollback_buffer:
  "validate_buffer_account (v3_ledger p) (plain_info 72) 901
     = Inr \<lparr>bh_authority = Some 57007, bh_payload_offset = 37, bh_payload_length = 100\<rparr>"
  "take LOADER_BUFFER_METADATA_LEN (acc_data (v3_ledger p 72)) = buffer_bytes (Some 57007) 0 []"
  by (simp_all add: validate_buffer_account_def v3_ledger_at parse_buffer_bytes)
    (simp add: buffer_bytes_def LOADER_BUFFER_METADATA_LEN_def)

lemma v3_prepared_rollback:
  "validate_prepared_rollback_v3 (v3_env 130) (v3_ledger stage_timelocked) 500 v3_context (v3_rw 64001)
     stage_timelocked (plain_info 64002) (plain_info 60002) (plain_info 72) 130 = Inr ()"
proof -
  let ?p = stage_timelocked
  have load: "load_upgrade_proposal_v3 (v3_env 130) (v3_ledger ?p) 500 (plain_info 64002) = Inr v3_rollback"
    using v3_rollback_valid [of 130] by (simp add: load_v3_ok v3_ledger_at v3_stage_wf validate_digest_ok)
  have id_ok: "rollback_identity_ok 500 v3_context ?p v3_rollback"
    by (simp add: rollback_identity_ok_def v3_context_fields v3_config_def v3_capacity_def v3_stage_def v3_primary_def
        v3_rollback_def)
  have link_ok: "rollback_link_ok (v3_env 130) 500 (v3_rw 64001) ?p (plain_info 64002) v3_rollback
      (plain_info 60002) (v3_verification 64002 72 83 84) (plain_info 72) 130"
    by (simp add: rollback_link_ok_def) (simp add: v3_stage_def v3_primary_def v3_rollback_def v3_verification_def
      RELEASE1_APPROVAL_THRESHOLD_def)
  have fields: "cc_target_program v3_config = 7" "cc_upgradeable_loader v3_config = 901"
    "cc_rollback_delay_slots v3_config = 5" "cc_authority_pda v3_config = 57007" "v3_proposal_id v3_rollback = 2"
    "v3_bump v3_rollback = 255" "v3_expiry_slot v3_rollback = 206" "v3_expiry_slot ?p = 200"
    "v3_artifact_length v3_rollback = 100"
    by (simp_all add: v3_config_def v3_rollback_def v3_stage_def v3_primary_def)
  have sealed: "bv_sealed_buffer_header_hash (v3_verification 64002 72 83 84) = 37"
    by (simp add: v3_verification_def)
  have header: "hashv (v3_env 130) [buffer_bytes (Some 57007) 0 []] = 37"
    by (simp add: hashv_def buffer_bytes_def)
  show ?thesis
    by (simp add: validate_prepared_rollback_v3_def load v3_rollback_valid id_ok link_ok v3_context_fields fields
        v3_load_buffer v3_stage_guards v3_rollback_buffer header checked_add_def u64_of_length_def sealed)
qed

lemma v3_recorded_quorum: "require_exact_recorded_quorum v3_council 7 3 103 = Inr ()"
proof -
  have in_term: "seat_in_term (sample_seat_v1 k) 103" for k
    by (simp add: seat_in_term_def sample_seat_v1_def)
  show ?thesis
    by (simp add: require_exact_recorded_quorum_def VALID_APPROVAL_MASK_def RELEASE1_APPROVAL_THRESHOLD_def
        v3_council_ok v3_seats in_term)
qed

definition v3_freeze_accounts :: "account_info list" where
  "v3_freeze_accounts =
     [v3_rw 54007, plain_info 62001, plain_info 63001, v3_rw 52007, plain_info 63007, plain_info 64007, v3_rw 64001,
      v3_exe 7, plain_info 32007, v3_exe 901, plain_info 57007, plain_info 64002, plain_info 60002, plain_info 72]"

definition v3_freeze_ix :: freeze_proposal_v3_ix where
  "v3_freeze_ix = \<lparr>fz_expected = v3_guard stage_timelocked, fz_expected_next_gate_epoch = 5\<rparr>"

lemma v3_freeze_run:
  "\<exists>M. process_freeze_proposal_v3 (v3_env 130) 500 v3_freeze_accounts v3_freeze_ix (v3_ledger stage_timelocked) = Inr M"
proof -
  let ?p = stage_timelocked
  note load = v3_load_proposal [OF stages_valid(5)]
  have frozen: "frozen_v3 ?p 5 130 = stage_frozen"
    by (simp add: frozen_v3_def v3_stage_def v3_primary_def)
  have fields: "v3_state ?p = Timelocked" "v3_proposal_class ?p = proposal_class_v1.RoutineUpgrade"
    "v3_creation_council_version ?p = 1" "v3_creation_council_hash ?p = 364" "v3_not_before_slot ?p = 118"
    "v3_expiry_slot ?p = 200" "v3_council_approval_count ?p = 3" "v3_council_approval_bitset ?p = 7"
    "v3_council_approved_slot ?p = 103" "v3_minimum_required_capacity ?p = 1000" "cc_target_nonce v3_config = 1"
    "cc_upgradeable_loader v3_config = 901" "cc_authority_pda v3_config = 57007" "gt_epoch v3_gate = 4"
    by (simp_all add: v3_stage_def v3_primary_def v3_config_def v3_gate_def)
  have nonce: "checked_add (1 :: u64) 1 = Some 2" "checked_nonterminal_increment 4 = Inr 5"
    by (simp_all add: checked_add_def checked_nonterminal_increment_def)
  have matches: "require_runtime_matches_trusted_deployment
      \<lparr>rh_deployed_slot = 50, rh_raw_data_length = 1045, rh_capacity = 1000, rh_authority = Some 57007\<rparr>
      v3_deployment v3_config = Inr ()"
    by (simp add: require_runtime_matches_trusted_deployment_def v3_deployment_def v3_config_def)
  have runway: "require_freeze_execution_runway False 200 (council_review_slots v3_config) 130 = Inr ()"
    by (simp add: require_freeze_execution_runway_def council_review_slots_def v3_config_def checked_add_def)
  have sizes: "length (ser_controller_config_v1 (v3_config\<lparr>cc_target_nonce := 2\<rparr>)) = 512"
    "length (ser_controller_config_v1 v3_config) = 512"
    "length (ser_gate (frozen_gate_v3 v3_gate 5 64001 130)) = 192" "length (ser_gate v3_gate) = 192"
    "length (ser_upgrade_proposal_v3 (v3_stage s b n f a q u z e)) = 2048" for s b n f a q u z e
    using controller_config_codec.ser_size [of "v3_config\<lparr>cc_target_nonce := 2\<rparr>"] controller_config_codec.ser_size [of v3_config]
      gate_codec.ser_size [of "frozen_gate_v3 v3_gate 5 64001 130"] gate_codec.ser_size [of v3_gate]
      upgrade_proposal_v3_codec.ser_size [of "v3_stage s b n f a q u z e"] v3_config_wf v3_gate_ok(1) v3_stage_wf
    by (simp_all add: CONTROLLER_CONFIG_LEN_def GATE_LEN_def UPGRADE_PROPOSAL_V3_LEN_def wf_controller_config_v1_def
        wf_gate_def frozen_gate_v3_def)
  have distinct: "all_distinct v3_freeze_accounts = Inr ()"
    by (simp add: v3_freeze_accounts_def all_distinct_def result_simps)
  show ?thesis
    unfolding process_freeze_proposal_v3_def distinct bnd.simps
    by (simp add: v3_freeze_accounts_def exact_account_count_def v3_privileges current_slot_def v3_load_context
        v3_context_fields v3_load_policy load v3_stage_guards v3_load_council fields v3_freeze_ix_def v3_guard_ok
        nonce RELEASE1_APPROVAL_THRESHOLD_def v3_recorded_quorum v3_runtime matches runway v3_prepared_rollback
        frozen v3_config_static v3_gate_ok stages_valid encode_fixed_account_def sizes CONTROLLER_CONFIG_LEN_def
        GATE_LEN_def UPGRADE_PROPOSAL_V3_LEN_def copy_from_slice_def ledger_simps v3_ledger_at)
qed

section \<open>A vote to cancel\<close>

definition v3_cancel_ix :: cancel_proposal_v3 where
  "v3_cancel_ix =
     \<lparr>ca_expected = v3_guard stage_approved, ca_expected_cancellation_council_version = 1,
      ca_expected_cancellation_council_hash = 364, ca_expected_cancellation_approval_bitset = 0,
      ca_expected_cancellation_approval_count = 0, ca_cancellation_reason_code = 9\<rparr>"

definition stage_cancelling :: upgrade_proposal_v3 where
  "stage_cancelling = cancelled_v3 (open_cancellation stage_approved v3_council 9) 1 1 120"

lemma stage_cancelling_valid:
  "wf_upgrade_proposal_v3 stage_cancelling"
  "validate_upgrade_proposal_digest_v3 (v3_env slot) stage_cancelling = Inr ()"
proof -
  show wf: "wf_upgrade_proposal_v3 stage_cancelling" by (simp add: stage_cancelling_def wf_v3_updates v3_stage_wf)
  have unfolded: "stage_cancelling = stage_approved
      \<lparr>v3_cancellation_council_version := 1, v3_cancellation_council_hash := 364, v3_cancellation_reason_code := 9,
       v3_cancellation_approval_bitset := 1, v3_cancellation_approval_count := 1\<rparr>"
    by (simp add: stage_cancelling_def cancelled_v3_def open_cancellation_def RELEASE1_APPROVAL_THRESHOLD_def Let_def
        v3_council_ok v3_stage_def v3_primary_def)
  have "validate_upgrade_proposal_v3_lifecycle stage_cancelling = Inr ()"
    by (simp add: unfolded v3_lifecycle_defs v3_stage_def v3_primary_def)
  then have "proposal_v3_validate_schema (v3_env slot) stage_cancelling = Inr ()"
    unfolding proposal_v3_validate_schema_def
    by (simp add: stage_pairs [unfolded validate_approval_pair_def] unfolded v3_stage_def v3_primary_def v3_schema_defs
        scheme_nonzero)
  then show "validate_upgrade_proposal_digest_v3 (v3_env slot) stage_cancelling = Inr ()"
    by (simp add: validate_upgrade_proposal_digest_v3_def digest_of_length [OF wf] require_digest_def)
      (simp add: unfolded v3_stage_def v3_primary_def)
qed

lemma v3_cancel_run:
  "process_cancel_proposal_v3 (v3_env 120) 500 (map plain_info [54007, 62001, 63001, 52007, 63007, 64007]
     @ [v3_rw 64001, v3_seat 21]) v3_cancel_ix (v3_ledger stage_approved) = Inr (v3_ledger stage_cancelling)"
proof -
  let ?p = stage_approved
  note load = v3_load_proposal [OF stages_valid(4)]
  have fields: "v3_state ?p = CouncilApproved" "v3_expiry_slot ?p = 200" "v3_cancellation_approval_bitset ?p = 0"
    "v3_cancellation_approval_count ?p = 0" "v3_cancellation_reason_code ?p = 0" "cc_guardian v3_config = 26"
    by (simp_all add: v3_stage_def v3_primary_def v3_config_def)
  have opened: "v3_cancellation_approval_bitset (open_cancellation ?p v3_council 9) = 0"
    "v3_cancellation_approval_count (open_cancellation ?p v3_council 9) = 0"
    by (simp_all add: open_cancellation_def fields)
  have current: "\<not> stale_cancellation ?p v3_council" by (simp add: stale_cancellation_def fields)
  have vote: "record_seat_approval v3_council 0 0 21 120 = Inr (1, 1)"
    by (simp add: record_seat_approval_def v3_position v3_seats validate_approval_encoding_def v3_council_ok
        VALID_APPROVAL_MASK_def Let_def shl1_def sample_seat_key) (simp add: seat_in_term_def sample_seat_v1_def)
  have commit: "commit_proposal_v3 (v3_env 120) 500 (v3_rw 64001)
      (cancelled_v3 (open_cancellation ?p v3_council 9) 1 1 120) (v3_ledger ?p) = Inr (v3_ledger stage_cancelling)"
    using v3_commit [OF v3_stage_wf(1) stage_cancelling_valid] by (simp add: stage_cancelling_def)
  have distinct: "all_distinct (map plain_info [54007, 62001, 63001, 52007, 63007, 64007]
      @ [v3_rw 64001, v3_seat 21]) = Inr ()"
    by (simp add: all_distinct_def result_simps)
  have seat: "validate_seat_authority (v3_seat 21) = Inr ()" by (simp add: validate_seat_authority_ok)
  show ?thesis
    unfolding process_cancel_proposal_v3_def distinct bnd.simps
    by (simp add: exact_account_count_def v3_privileges current_slot_def v3_load_context seat v3_context_fields
        v3_load_policy v3_load_council load fields v3_cancel_ix_def v3_guard_ok v3_council_ok is_prefreeze_state_def
        current opened vote commit Let_def)
qed

section \<open>The properties applied\<close>

lemma v3_ledger_holds:
  assumes "wf_upgrade_proposal_v3 p" "validate_upgrade_proposal_digest_v3 (v3_env slot) p = Inr ()"
  shows "proposal_at (v3_env slot) 500 (v3_ledger p) 64001 = Some p"
  using assms by (simp add: proposal_at_Some v3_ledger_at)

lemma v3_call_keeps_every_proposal_run:
  "\<exists>q. proposal_at (v3_env 101) 500 (v3_ledger stage_one) 64001 = Some q \<and> v3_edge BufferVerified (v3_state q)
     \<and> proposal_at (v3_env 101) 500 (v3_ledger stage_one) 64002 = Some v3_rollback"
proof -
  let ?call = "Approve_Proposal (v3_accounts 21) (v3_approval stage_open)"
  have run: "run_v3 (v3_env 101) 500 ?call (v3_ledger stage_open) = Inr (v3_ledger stage_one)"
    by (simp add: v3_three_approvals)
  have subject: "subject_of ?call = 64001" by (simp add: v3_accounts_def)
  have before: "proposal_at (v3_env 101) 500 (v3_ledger stage_open) 64001 = Some stage_open"
    by (rule v3_ledger_holds) (simp_all add: v3_stage_wf stages_valid)
  have rollback: "proposal_at (v3_env 101) 500 (v3_ledger stage_open) 64002 = Some v3_rollback"
    by (simp add: proposal_at_Some v3_ledger_at v3_stage_wf v3_rollback_valid)
  have "v3_state stage_open = BufferVerified" by (simp add: v3_stage_def)
  with v3_call_keeps_every_proposal [OF run] subject before rollback show ?thesis by auto
qed

lemma v3_frozen_or_finished_is_refused_run:
  "\<exists>e. run_v3 (v3_env 131) 500 (Approve_Proposal (v3_accounts 24) (v3_approval stage_frozen)) (v3_ledger stage_frozen)
     = Inl e"
proof (rule v3_frozen_or_finished_is_refused)
  show "proposal_at (v3_env 131) 500 (v3_ledger stage_frozen)
      (subject_of (Approve_Proposal (v3_accounts 24) (v3_approval stage_frozen))) = Some stage_frozen"
    using v3_ledger_holds [of stage_frozen 131] by (simp add: v3_accounts_def v3_stage_wf stages_valid)
  show "v3_state stage_frozen \<notin> {Draft, BufferAdopted, BufferVerified, CouncilApproved, GovernanceSatisfied, Timelocked}"
    by (simp add: v3_stage_def)
qed

lemma v3_quorum_behind_every_advance_run:
  "\<exists>approvals. v3_history (v3_env 1) 500 64001 stage_open approvals (v3_ledger stage_approved)
     \<and> length approvals = 3 \<and> distinct (map sa_seat approvals)
     \<and> list_all (approval_sound 64001 stage_open) approvals"
proof -
  have held: "proposal_at (v3_env 1) 500 (v3_ledger stage_open) 64001 = Some stage_open"
    "proposal_at (v3_env 1) 500 (v3_ledger stage_approved) 64001 = Some stage_approved"
    by (simp_all add: v3_ledger_holds v3_stage_wf stages_valid)
  have open_fields: "v3_state stage_open = BufferVerified" "v3_council_approval_bitset stage_open = 0"
    "v3_state stage_approved = CouncilApproved"
    by (simp_all add: v3_stage_def)
  note h0 = v3_history.opened [OF held(1) open_fields(1,2)]
  note h1 = v3_history.called [OF h0 v3_env_chain [of 1 101],
      of "Approve_Proposal (v3_accounts 21) (v3_approval stage_open)", simplified run_v3.simps, OF v3_three_approvals(1)]
  note h2 = v3_history.called [OF h1 v3_env_chain [of 1 102],
      of "Approve_Proposal (v3_accounts 22) (v3_approval stage_one)", simplified run_v3.simps, OF v3_three_approvals(2)]
  note h3 = v3_history.called [OF h2 v3_env_chain [of 1 103],
      of "Approve_Proposal (v3_accounts 23) (v3_approval stage_two)", simplified run_v3.simps, OF v3_three_approvals(3)]
  have "v3_state stage_approved \<in> council_quorum_states" by (simp add: open_fields council_quorum_states_def)
  from v3_quorum_behind_every_advance [OF h3 held(2) this held(1)] h3
  show ?thesis unfolding list_all_iff by blast
qed

lemma v3_timing_leaves_runway_run:
  "derive_proposal_timing v3_config proposal_class_v1.RoutineUpgrade 100 = Inr (101, 108, 118, 200)
   \<and> require_freeze_execution_runway True 200 (council_review_slots v3_config) 118 = Inr ()"
proof -
  have "derive_proposal_timing v3_config proposal_class_v1.RoutineUpgrade 100 = Inr (101, 108, 118, 200)"
    by (simp add: derive_proposal_timing_def v3_config_def council_review_slots_def checked_add_def)
  moreover have "unat (100 :: u64) + unat (cc_proposal_expiry_slots v3_config) < 2 ^ 64" by (simp add: v3_config_def)
  ultimately show ?thesis
    using v3_timing_leaves_runway [OF v3_config_static(1), of proposal_class_v1.RoutineUpgrade 100]
    by (simp add: governed_classes_def)
qed

lemma v3_digest_binds_terms_run:
  "stage_frozen = stage_open
     \<lparr>v3_state := v3_state stage_frozen,
      v3_freeze_gate_epoch := v3_freeze_gate_epoch stage_frozen,
      v3_first_approval_slot := v3_first_approval_slot stage_frozen,
      v3_council_approved_slot := v3_council_approved_slot stage_frozen,
      v3_governance_satisfied_slot := v3_governance_satisfied_slot stage_frozen,
      v3_queued_slot := v3_queued_slot stage_frozen,
      v3_frozen_slot := v3_frozen_slot stage_frozen,
      v3_extension_executed_slot := v3_extension_executed_slot stage_frozen,
      v3_upgrade_executed_slot := v3_upgrade_executed_slot stage_frozen,
      v3_programdata_verified_slot := v3_programdata_verified_slot stage_frozen,
      v3_poststate_accepted_slot := v3_poststate_accepted_slot stage_frozen,
      v3_unfreeze_approved_slot := v3_unfreeze_approved_slot stage_frozen,
      v3_terminal_slot := v3_terminal_slot stage_frozen,
      v3_council_approval_bitset := v3_council_approval_bitset stage_frozen,
      v3_council_approval_count := v3_council_approval_count stage_frozen,
      v3_cancellation_council_version := v3_cancellation_council_version stage_frozen,
      v3_cancellation_council_hash := v3_cancellation_council_hash stage_frozen,
      v3_cancellation_approval_bitset := v3_cancellation_approval_bitset stage_frozen,
      v3_cancellation_approval_count := v3_cancellation_approval_count stage_frozen,
      v3_unfreeze_council_version := v3_unfreeze_council_version stage_frozen,
      v3_unfreeze_council_hash := v3_unfreeze_council_hash stage_frozen,
      v3_unfreeze_approval_bitset := v3_unfreeze_approval_bitset stage_frozen,
      v3_unfreeze_approval_count := v3_unfreeze_approval_count stage_frozen,
      v3_cancellation_reason_code := v3_cancellation_reason_code stage_frozen,
      v3_terminal_reason_code := v3_terminal_reason_code stage_frozen\<rparr>"
proof -
  have held: "proposal_at (v3_env 1) 500 (v3_ledger stage_frozen) 64001 = Some stage_frozen"
    "proposal_at (v3_env 1) 500 (v3_ledger stage_open) 64001 = Some stage_open"
    by (simp_all add: v3_ledger_holds v3_stage_wf stages_valid)
  have digest: "v3_proposal_digest stage_frozen = v3_proposal_digest stage_open" by (simp add: v3_stage_def)
  have same: "ser_upgrade_proposal_v3 (terms_v3 stage_frozen) = ser_upgrade_proposal_v3 (terms_v3 stage_open)"
    by (simp add: terms_v3_def clear_upgrade_proposal_lifecycle_v3_def v3_stage_def)
  from v3_digest_binds_terms [OF held digest] show ?thesis
  proof (rule disjE)
    assume "ser_upgrade_proposal_v3 (terms_v3 stage_frozen) \<noteq> ser_upgrade_proposal_v3 (terms_v3 stage_open)
      \<and> hashv (v3_env 1) [UPGRADE_PROPOSAL_V3_DIGEST_DOMAIN, ser_upgrade_proposal_v3 (terms_v3 stage_frozen)]
        = hashv (v3_env 1) [UPGRADE_PROPOSAL_V3_DIGEST_DOMAIN, ser_upgrade_proposal_v3 (terms_v3 stage_open)]"
    with same show ?thesis by simp
  qed
qed

lemma v3_freeze_effect_run:
  "\<exists>M epoch slot. process_freeze_proposal_v3 (v3_env 130) 500 v3_freeze_accounts v3_freeze_ix (v3_ledger stage_timelocked) = Inr M
     \<and> proposal_at (v3_env 130) 500 M 64001 = Some (frozen_v3 stage_timelocked epoch slot)"
proof -
  obtain M where M: "process_freeze_proposal_v3 (v3_env 130) 500 v3_freeze_accounts v3_freeze_ix
      (v3_ledger stage_timelocked) = Inr M"
    using v3_freeze_run by blast
  have key: "ai_key (v3_freeze_accounts ! 6) = 64001" by (simp add: v3_freeze_accounts_def)
  have "proposal_at (v3_env 130) 500 (v3_ledger stage_timelocked) 64001 = Some stage_timelocked"
    by (simp add: v3_ledger_holds v3_stage_wf stages_valid)
  with v3_freeze_effect [OF M] show ?thesis unfolding key using M by (metis option.inject)
qed

lemma v3_cancellation_counts_one_council_run:
  "\<exists>n council. v3_cancellation_council_hash stage_cancelling = gc_set_hash (council :: council_set_v1)
     \<and> voters (v3_cancellation_approval_bitset stage_cancelling) = insert n (counted_seats stage_approved council)"
proof -
  have after: "proposal_at (v3_env 120) 500 (v3_ledger stage_cancelling) 64001 = Some stage_cancelling"
    and before: "proposal_at (v3_env 120) 500 (v3_ledger stage_approved) 64001 = Some stage_approved"
    by (simp_all add: v3_ledger_holds v3_stage_wf stages_valid stage_cancelling_valid)
  have key: "ai_key ((map plain_info [54007, 62001, 63001, 52007, 63007, 64007] @ [v3_rw 64001, v3_seat 21]) ! 6) = 64001"
    by simp
  show ?thesis
    using v3_cancellation_counts_one_council [OF v3_cancel_run, unfolded key] after before by auto
qed

end
