(* ===== verification/Spec2Isabelle.thy ===== *)
theory Spec2Isabelle
  imports Address_Facts History_Runs Observation_Facts Publish_Runs Release1_Runs Upgrade_Runs V3_Runs
begin

text \<open>
  The council-upgradeable governance controller of \<open>src/programs/governance_controller_v3\<close>, with the
  shared layers of \<open>src/programs/upgrade_controller\<close> it is built on.

  The program.  A council of five seats administers an upgradeable program (itself) and a set of
  registered target programs.  A proposal carries one typed action; seats vote on it in a review window,
  and after a delay anyone executes it, once, before it expires.  Code upgrades are bound to a sealed
  loader buffer whose 16 KiB chunks are verified on chain against a Merkle root in the action.  Every
  registered target has a gate account that freezes or opens the target's own operations.

  Theories and sources (file names below are relative to the two crates' \<open>src\<close> directories).

  \<^item> \<open>Prelude\<close>: the \<open>?\<close> operator, checked arithmetic, lists, slices, powers of two.  \<open>Borsh\<close>: little-endian
    words, the reader monad of Borsh, the locale \<open>borsh_codec\<close> every derived encoding interprets.
  \<^item> \<open>Runtime\<close>: accounts, the ledger, cross-program calls and the environment record \<open>env\<close>, whose fields
    (SHA-256, address derivation, sysvars, the effect of a call) are parameters; \<open>error.rs\<close>.
  \<^item> \<open>Account_IO\<close>, \<open>Loader_Accounts\<close>: \<open>release1_account_io.rs\<close>, \<open>release1_loader_accounts.rs\<close>.
  \<^item> \<open>Merkle_Tree\<close> (abstract trees), \<open>Artifact_Merkle\<close>: \<open>artifact_merkle.rs\<close>; \<open>Gov_Artifact\<close>: \<open>artifact.rs\<close>;
    \<open>Artifact_Facts\<close>: their correctness and their agreement.
  \<^item> \<open>Gate\<close>: \<open>ProtocolGateV1\<close> of \<open>state.rs\<close> and \<open>gate_abi.rs\<close>.
  \<^item> \<open>Gov_Base\<close>, \<open>Gov_State\<close>, \<open>Gov_Proposal\<close>: \<open>state.rs\<close>; \<open>Verify_Recipe\<close>: \<open>verification.rs\<close>.
  \<^item> \<open>Gov_Processor\<close>, \<open>Gov_Upgrade\<close>, \<open>Gov_Targets\<close>: \<open>processor.rs\<close>; \<open>Gov_Retirement\<close>, \<open>Gov_Publish\<close>:
    \<open>processor/retirement.rs\<close>, \<open>processor/verification.rs\<close>; \<open>Gov_Dispatch\<close>: \<open>instruction.rs\<close> and \<open>process\<close>.
  \<^item> \<open>Account_Store\<close>: the locale of typed accounts and its three interpretations.  \<open>Proposal_Facts\<close>,
    \<open>Council_Facts\<close>, \<open>Upgrade_Facts\<close>, \<open>Target_Facts\<close>, \<open>No_Panic\<close>, \<open>Dispatch_Facts\<close>: what the operations do.
    \<open>Samples\<close>: the concrete values the witnesses run on.
  \<^item> \<open>Lifecycle\<close>: the abstract machine of a proposal, its reachable states and what its lives have in common.
    \<open>Lifecycle_Refinement\<close>, \<open>Handler_Refinement\<close>: every handler simulates it; \<open>Histories\<close>: sequences of
    transactions, where calls of the controller interleave with anything other programs may do.
  \<^item> \<open>Council_Runs\<close>, \<open>Target_Runs\<close>, \<open>Upgrade_Runs\<close>, \<open>Publish_Runs\<close>, \<open>History_Runs\<close>: whole transactions and a whole
    history on concrete ledgers, with an environment in which every cross-program call answers, as the
    witnesses of the properties.
  \<^item> \<open>Release1_Types\<close>, \<open>Release1_Model\<close>: \<open>release1_model.rs\<close>, the executable specification of the Release 1
    lifecycle; \<open>Release1_Steps\<close>: its forty actions as turns of the model; \<open>Release1_Facts\<close>, \<open>Release1_Safety\<close>:
    the invariants of its runs; \<open>Release1_Runs\<close>: a run that completes an upgrade and one that is stuck.
  \<^item> \<open>Observation_Merkle\<close>, \<open>Observation_Facts\<close>: \<open>programdata_observation_merkle.rs\<close>, the ordered frontier.
  \<^item> \<open>Controller_Accounts\<close>, \<open>Upgrade_Proposal\<close>: the Version 1 accounts of \<open>state.rs\<close> of the upgrade controller;
    \<open>Council_Governance\<close>: \<open>policy.rs\<close>, \<open>digest.rs\<close>, \<open>proposal.rs\<close>, \<open>council.rs\<close>, \<open>authorization.rs\<close>; \<open>Governance_Facts\<close>,
    \<open>Governance_Runs\<close>: what they promise, on concrete accounts too.
  \<^item> \<open>Address_Derivation\<close>, \<open>Address_Facts\<close>: \<open>pda.rs\<close> and when two addresses can coincide.
  \<^item> \<open>V3_Layout\<close>, \<open>V3_State\<close>: \<open>UpgradeProposalV3\<close> of \<open>release1_v3_state.rs\<close> and its digest; \<open>V3_Accounts\<close>: the
    singleton accounts of \<open>release1_ceremony_state.rs\<close> and \<open>release1_state.rs\<close> beside it; \<open>V3_Context\<close>,
    \<open>V3_Handlers\<close>: \<open>account_context.rs\<close>, \<open>proposal_guards.rs\<close>, \<open>proposals.rs\<close> and \<open>lifecycle.rs\<close> of
    \<open>release1_processor_v3_lifecycle\<close>.
  \<^item> \<open>V3_Facts\<close>: what each of these handlers did when it succeeded; \<open>V3_History\<close>: sequences of their calls
    with the approvals on record; \<open>V3_Safety\<close>, \<open>V3_Cancel\<close>: the properties; \<open>V3_Samples\<close>, \<open>V3_Stages\<close>,
    \<open>V3_Runs\<close>: a concrete controller, a proposal with its rollback, and its run up to the freeze.
  How the state corresponds.  A ledger maps addresses to accounts (lamports, data, owner); an
  \<open>account_info\<close> is the per-instruction view of one (key, signer, writable, executable).  A handler is
  a function from the ledger to an error or a new ledger; a Rust error aborts the transaction, so its
  partial writes are dropped.  Addresses and hashes are 256-bit words, integers words of their width,
  \<open>usize\<close> values naturals.

  Panics.  Where the entry point \<open>process\<close> indexes or slices at a position computed at run time, the
  model uses \<open>checked_nth\<close>, \<open>checked_put\<close> or \<open>checked_slice\<close> of \<open>Runtime\<close>, which answer \<open>Panicked\<close> out of range: the
  chunk bitmap (\<open>complete\<close>, \<open>mark_chunk_verified\<close>), the levels of the tree (\<open>reduce\<close>), the buffer and the proof
  nodes (\<open>verify\<close>), the stored record (\<open>matches_existing_record\<close>), the loader accounts (\<open>retire\<close>,
  \<open>retired_target\<close>); and \<open>copy_from_slice\<close> answers it for two lengths that differ.  Four uses have no
  check in the model because none can fail: constant ranges of fixed-size arrays (the data of an action,
  the first bytes of a hash), \<open>xs[..i]\<close> with \<open>i\<close> from \<open>xs.iter().enumerate()\<close>, account lists matched by their
  length, and the off-chain \<open>merkle_proof\<close>, which \<open>process\<close> does not call.  Plain arithmetic cannot panic: the
  release profile of the workspace leaves overflow checks off, so the model wraps where the code does.

  What the lemmas show.  The Merkle group: proofs verify, verified payloads are the artifact, the two
  modules agree.  The codec group: each fixed layout round-trips and has one encoding.  The council
  group: voting, expiry, creation, bootstrap and policy execution do exactly what they promise and
  nothing else.  The installation and target groups: code, gates and metadata change only by a quorum
  in its window, and lamports are accounted for.  The dispatch group: decoding is exact and nothing panics.
  The refinement group: every transaction moves every proposal by one step of the abstract machine at
  most, so that in every history an executed proposal has a quorum of recorded calls behind it: \<open>recorded\<close>
  collects a ballot for each successful call of \<open>Approve\<close>, read off its accounts, data and clock.  A
  history covers the calls this program's code answers; other programs may write anything but accounts
  the program owns, which is the rule of the runtime named \<open>owner_rule\<close> and \<open>guarded\<close>.
  The Release 1 group: the reference model never leaves its own consistency check, has at most one upgrade
  in flight, moves proposals along its lifecycle, counts every change of the gate, and completes an
  upgrade only with three quorums and an unchanged hard state; a rollback that expires while its primary
  holds the gate leaves the gate frozen for good.  \<open>BTreeMap\<close>s are sorted association lists, hashing is a
  parameter, and \<open>apply\<close> returns the old model with an error, which is its failure atomicity.
  The observation group: the frontier represents the leaves appended so far, so the streamed root is the
  root of the padded tree and pins every byte.  The Version 1 group: the digest binds every term, a quorum
  is a set of distinct seats that each approved once, validated lives end, and the addresses of one
  controller are kept apart but for one overlap.
  The Release 1 proposal group: calls keep every stored proposal well typed and its terms fixed, a quorum
  in its window stands behind every advance, a freeze has all its conditions and leaves a rollback ready,
  each in the account of the council it is about, votes to cancel count for the current council alone, the
  digest binds every field outside the lifecycle, and every valid configuration leaves the runway a freeze asks for.
  Bounds.  Loops terminate by a measure (\<open>reduce_loop\<close>, \<open>next_power_from\<close>); there is no fuel.  An artifact
  has at most 2097152 bytes, so at most 128 chunks and proofs of at most 7 nodes.

  Not modelled.  Of \<open>upgrade_controller\<close>, whose own entry point the live controller does not use: the
  handlers after the freeze, those of the bootstrap ceremony and the version 2 governance, their evidence
  accounts and the decoding of their instructions (the modelled handlers take the decoded instruction);
  the runtime, the loader and the verifier program, which are parameters; the client, build and test
  scripts.
\<close>

end
